(* ===== verification/Prelude.thy ===== *)
theory Prelude
  imports Complex_Main "HOL-Library.Word" "HOL-Library.Char_ord"
begin

text \<open>
  The library shared by every component of the VENUE model: results with an explicit
  panic, the checked and saturating operations of Rust's unsigned integers, UTF-8 strings
  as byte lists, the interface of the third-party decimal type, and the ordered map that
  models \<open>BTreeMap\<close>.
\<close>

section \<open>Results of fallible code\<close>

text \<open>
  A Rust function that returns \<open>Result\<close> ends in one of three ways: \<open>Ok\<close>, \<open>Err\<close>, or a
  panic of an operator that has no checked form (\<open>%\<close>, \<open>*\<close>, \<open>-\<close> on \<open>Decimal\<close>).
\<close>

datatype ('a, 'e) outcome = Ok 'a | Err 'e | Panic

primrec and_then :: "('a, 'e) outcome \<Rightarrow> ('a \<Rightarrow> ('b, 'e) outcome) \<Rightarrow> ('b, 'e) outcome" where
  "and_then (Ok x) f = f x"
| "and_then (Err e) f = Err e"
| "and_then Panic f = Panic"

primrec map_err :: "('e \<Rightarrow> 'f) \<Rightarrow> ('a, 'e) outcome \<Rightarrow> ('a, 'f) outcome" where
  "map_err g (Ok x) = Ok x"
| "map_err g (Err e) = Err (g e)"
| "map_err g Panic = Panic"

primrec ok_or :: "'e \<Rightarrow> 'a option \<Rightarrow> ('a, 'e) outcome" where
  "ok_or e None = Err e"
| "ok_or e (Some x) = Ok x"

primrec or_panic :: "'a option \<Rightarrow> ('a, 'e) outcome" where
  "or_panic None = Panic"
| "or_panic (Some x) = Ok x"

primrec is_ok :: "('a, 'e) outcome \<Rightarrow> bool" where
  "is_ok (Ok x) = True"
| "is_ok (Err e) = False"
| "is_ok Panic = False"

text \<open>The short-circuit operators \<open>||\<close> and \<open>&&\<close> over conditions that may panic.\<close>

definition or_else :: "(bool, 'e) outcome \<Rightarrow> (bool, 'e) outcome \<Rightarrow> (bool, 'e) outcome" where
  "or_else a b = and_then a (\<lambda>x. if x then Ok True else b)"

definition and_also :: "(bool, 'e) outcome \<Rightarrow> (bool, 'e) outcome \<Rightarrow> (bool, 'e) outcome" where
  "and_also a b = and_then a (\<lambda>x. if x then b else Ok False)"

text \<open>Inversion rules: a successful composition is a successful step followed by one.\<close>

named_theorems outcome_simps \<open>inversion of successful results\<close>

lemma and_then_Ok [outcome_simps]:
  "and_then m f = Ok y \<longleftrightarrow> (\<exists>x. m = Ok x \<and> f x = Ok y)"
  by (cases m) auto

lemma and_then_Err:
  "and_then m f = Err e \<longleftrightarrow> m = Err e \<or> (\<exists>x. m = Ok x \<and> f x = Err e)"
  by (cases m) auto

lemma and_then_Panic:
  "and_then m f = Panic \<longleftrightarrow> m = Panic \<or> (\<exists>x. m = Ok x \<and> f x = Panic)"
  by (cases m) auto

lemma map_err_Ok [outcome_simps]: "map_err g m = Ok y \<longleftrightarrow> m = Ok y"
  by (cases m) auto

lemma map_err_Panic: "map_err g m = Panic \<longleftrightarrow> m = Panic"
  by (cases m) auto

lemma ok_or_Ok [outcome_simps]: "ok_or e m = Ok y \<longleftrightarrow> m = Some y"
  by (cases m) auto

lemma ok_or_not_Panic [simp]: "ok_or e m \<noteq> Panic"
  by (cases m) auto

lemma or_panic_Ok [outcome_simps]: "or_panic m = Ok y \<longleftrightarrow> m = Some y"
  by (cases m) auto

lemma or_panic_not_Err [simp]: "or_panic m \<noteq> Err e"
  by (cases m) auto

lemma or_panic_Panic: "or_panic m = Panic \<longleftrightarrow> m = None"
  by (cases m) auto

text \<open>Inversion of the short-circuit operators.\<close>

lemma and_also_True: "and_also a b = Ok True \<longleftrightarrow> a = Ok True \<and> b = Ok True"
  by (cases a) (auto simp: and_also_def)

lemma or_else_False: "or_else a b = Ok False \<longleftrightarrow> a = Ok False \<and> b = Ok False"
  by (cases a) (auto simp: or_else_def)

lemma negated_Ok: "and_then m (\<lambda>b. Ok (\<not> b)) = Ok c \<longleftrightarrow> m = Ok (\<not> c)"
  by (cases m) auto

text \<open>An early return: the rest of the code has run only when its condition was false.\<close>

lemma guard_Ok: "(if c then Err e else m) = Ok y \<longleftrightarrow> \<not> c \<and> m = Ok y"
  by simp

lemma is_ok_iff: "is_ok m \<longleftrightarrow> (\<exists>x. m = Ok x)"
  by (cases m) auto

lemma and_then_cong [fundef_cong]:
  assumes "m = m'" and "\<And>x. m' = Ok x \<Longrightarrow> f x = g x"
  shows "and_then m f = and_then m' g"
  using assms by (cases m') auto

section \<open>Unsigned machine integers\<close>

type_synonym u8 = "8 word"
type_synonym u16 = "16 word"
type_synonym u32 = "32 word"
type_synonym u64 = "64 word"

definition checked_add :: "'l::len word \<Rightarrow> 'l word \<Rightarrow> 'l word option" where
  "checked_add a b = (if unat a + unat b < 2 ^ LENGTH('l) then Some (a + b) else None)"

definition checked_sub :: "'l::len word \<Rightarrow> 'l word \<Rightarrow> 'l word option" where
  "checked_sub a b = (if b \<le> a then Some (a - b) else None)"

definition saturating_sub :: "'l::len word \<Rightarrow> 'l word \<Rightarrow> 'l word" where
  "saturating_sub a b = (if b \<le> a then a - b else 0)"

definition saturating_add :: "'l::len word \<Rightarrow> 'l word \<Rightarrow> 'l word" where
  "saturating_add a b = (if unat a + unat b < 2 ^ LENGTH('l) then a + b else - 1)"

lemma unat_bound: "unat (w :: 'l::len word) < 2 ^ LENGTH('l)"
  by (rule unsigned_less)

lemma unat_of_nat_small: "n < 2 ^ LENGTH('l) \<Longrightarrow> unat (of_nat n :: 'l::len word) = n"
  by (simp add: unsigned_of_nat take_bit_nat_eq_self)

lemma checked_add_Some:
  fixes a :: "'l::len word"
  assumes "checked_add a b = Some c"
  shows "unat c = unat a + unat b"
  using assms by (auto simp: checked_add_def unat_word_ariths split: if_splits)

text \<open>The overflow test that needs no number beyond the width of the word.\<close>

lemma checked_add_code [code]:
  "checked_add a b = (if a \<le> a + b then Some (a + b) else None)"
  by (simp add: checked_add_def no_olen_add_nat)

lemma saturating_add_code [code]:
  "saturating_add a b = (if a \<le> a + b then a + b else - 1)"
  by (simp add: saturating_add_def no_olen_add_nat)

lemma checked_sub_Some:
  assumes "checked_sub a b = Some c"
  shows "unat c = unat a - unat b \<and> b \<le> a"
  using assms by (auto simp: checked_sub_def unat_sub split: if_splits)

lemma unat_saturating_sub: "unat (saturating_sub a b) = unat a - unat b"
proof (cases "b \<le> a")
  case True
  then show ?thesis by (simp add: saturating_sub_def unat_sub)
next
  case False
  then show ?thesis by (simp add: saturating_sub_def word_le_nat_alt)
qed

end
