(* ===== verification/Text.thy ===== *)
theory Text
  imports Prelude
begin

text \<open>
  Rust strings as the list of their UTF-8 bytes (\<open>char\<close> is a byte in Isabelle), with
  the operations of \<open>str\<close> the code uses: \<open>len\<close> is \<open>length\<close>, \<open>as_bytes\<close> is
  \<open>utf8_bytes\<close>, \<open>trim\<close> strips the encodings of the Unicode white space characters,
  and the ASCII predicates look at single bytes.
\<close>

section \<open>Byte classes\<close>

definition code :: "char \<Rightarrow> nat" where
  "code c = of_char c"

definition is_ascii_digit :: "char \<Rightarrow> bool" where
  "is_ascii_digit c \<longleftrightarrow> 48 \<le> code c \<and> code c \<le> 57"

definition is_ascii_upper :: "char \<Rightarrow> bool" where
  "is_ascii_upper c \<longleftrightarrow> 65 \<le> code c \<and> code c \<le> 90"

definition is_ascii_lower :: "char \<Rightarrow> bool" where
  "is_ascii_lower c \<longleftrightarrow> 97 \<le> code c \<and> code c \<le> 122"

definition is_ascii_alphanumeric :: "char \<Rightarrow> bool" where
  "is_ascii_alphanumeric c \<longleftrightarrow> is_ascii_digit c \<or> is_ascii_upper c \<or> is_ascii_lower c"

definition is_ascii_hexdigit :: "char \<Rightarrow> bool" where
  "is_ascii_hexdigit c \<longleftrightarrow>
     is_ascii_digit c \<or> (65 \<le> code c \<and> code c \<le> 70) \<or> (97 \<le> code c \<and> code c \<le> 102)"

definition ascii_upper :: "char \<Rightarrow> char" where
  "ascii_upper c = (if is_ascii_lower c then char_of (code c - 32) else c)"

definition to_ascii_uppercase :: "string \<Rightarrow> string" where
  "to_ascii_uppercase s = map ascii_upper s"

definition utf8_bytes :: "string \<Rightarrow> u8 list" where
  "utf8_bytes s = map of_char s"

lemma code_bound [simp]: "code c < 256"
  by (simp add: code_def)

lemma code_char_of [simp]: "n < 256 \<Longrightarrow> code (char_of n) = n"
  by (simp add: code_def)

text \<open>The bytes determine the string.\<close>

lemma of_char_u8_inj: "(of_char c :: u8) = of_char d \<longleftrightarrow> c = d"
proof
  assume "(of_char c :: u8) = of_char d"
  then have "unat (of_nat (of_char c :: nat) :: u8) = unat (of_nat (of_char d :: nat) :: u8)"
    by (simp only: of_nat_of_char)
  then have "(of_char c :: nat) = of_char d"
    using code_bound [of c] code_bound [of d] by (simp add: unat_of_nat code_def)
  then show "c = d" by (simp only: of_char_eq_iff)
qed simp

lemma utf8_bytes_inj [simp]: "utf8_bytes s = utf8_bytes t \<longleftrightarrow> s = t"
  unfolding utf8_bytes_def by (rule inj_map_eq_map) (auto simp: inj_def of_char_u8_inj)

lemma ascii_upper_idem [simp]: "ascii_upper (ascii_upper c) = ascii_upper c"
  by (auto simp: ascii_upper_def is_ascii_lower_def)

lemma to_ascii_uppercase_idem [simp]:
  "to_ascii_uppercase (to_ascii_uppercase s) = to_ascii_uppercase s"
  by (simp add: to_ascii_uppercase_def)

lemma length_to_ascii_uppercase [simp]: "length (to_ascii_uppercase s) = length s"
  by (simp add: to_ascii_uppercase_def)

section \<open>Trimming\<close>

text \<open>
  The characters of the Unicode property \<open>White_Space\<close>, each as its UTF-8 bytes.
\<close>

definition byte_string :: "nat list \<Rightarrow> string" where
  "byte_string ns = map char_of ns"

definition white_space :: "string list" where
  "white_space = map byte_string
     ([[9], [10], [11], [12], [13], [32], [0xC2, 0x85], [0xC2, 0xA0], [0xE1, 0x9A, 0x80],
       [0xE2, 0x80, 0x80], [0xE2, 0x80, 0x81], [0xE2, 0x80, 0x82], [0xE2, 0x80, 0x83],
       [0xE2, 0x80, 0x84], [0xE2, 0x80, 0x85], [0xE2, 0x80, 0x86], [0xE2, 0x80, 0x87],
       [0xE2, 0x80, 0x88], [0xE2, 0x80, 0x89], [0xE2, 0x80, 0x8A], [0xE2, 0x80, 0xA8],
       [0xE2, 0x80, 0xA9], [0xE2, 0x80, 0xAF], [0xE2, 0x81, 0x9F], [0xE3, 0x80, 0x80]])"

function strip_front :: "string list \<Rightarrow> string \<Rightarrow> string" where
  "strip_front ws s =
     (case find (\<lambda>w. w \<noteq> [] \<and> take (length w) s = w) ws of
        None \<Rightarrow> s
      | Some w \<Rightarrow> strip_front ws (drop (length w) s))"
  by pat_completeness auto
termination
proof (relation "measure (\<lambda>(ws, s). length s)", goal_cases)
  case 1
  show ?case by simp
next
  case (2 ws s w)
  then have "w \<noteq> []" and "take (length w) s = w" by (auto simp: find_Some_iff)
  then have "s \<noteq> []" by auto
  with \<open>w \<noteq> []\<close> show ?case by simp
qed

declare strip_front.simps [simp del]

definition trim_start :: "string \<Rightarrow> string" where
  "trim_start s = strip_front white_space s"

definition trim_end :: "string \<Rightarrow> string" where
  "trim_end s = rev (strip_front (map rev white_space) (rev s))"

definition trim :: "string \<Rightarrow> string" where
  "trim s = trim_end (trim_start s)"

lemma strip_front_id:
  assumes "\<And>w. w \<in> set ws \<Longrightarrow> w \<noteq> [] \<Longrightarrow> s \<noteq> [] \<Longrightarrow> hd w \<noteq> hd s"
  shows "strip_front ws s = s"
proof -
  have "\<not> (w \<noteq> [] \<and> take (length w) s = w)" if "w \<in> set ws" for w
    using assms [OF that] by (cases w; cases s) auto
  then have "find (\<lambda>w. w \<noteq> [] \<and> take (length w) s = w) ws = None"
    by (auto simp: find_None_iff)
  then show ?thesis by (subst strip_front.simps) simp
qed

lemma strip_front_Nil [simp]: "strip_front ws [] = []"
  by (rule strip_front_id) simp

lemma white_space_edges:
  assumes "w \<in> set white_space"
  shows "w \<noteq> []" and "\<not> is_ascii_alphanumeric (hd w)" and "\<not> is_ascii_alphanumeric (last w)"
  using assms
  by (auto simp: white_space_def byte_string_def is_ascii_alphanumeric_def is_ascii_digit_def
      is_ascii_upper_def is_ascii_lower_def)

text \<open>A string with an ASCII letter or digit at both ends has nothing to trim.\<close>

lemma trim_edges:
  assumes "s \<noteq> []" and "is_ascii_alphanumeric (hd s)" and "is_ascii_alphanumeric (last s)"
  shows "trim s = s"
proof -
  have front: "strip_front white_space s = s"
    using assms white_space_edges by (intro strip_front_id) metis
  have rear: "strip_front (map rev white_space) (rev s) = rev s"
  proof (rule strip_front_id)
    fix w
    assume "w \<in> set (map rev white_space)"
    then obtain v where v: "v \<in> set white_space" and w: "w = rev v" by auto
    show "hd w \<noteq> hd (rev s)"
      using white_space_edges [OF v] assms by (auto simp: w hd_rev)
  qed
  show ?thesis by (simp add: trim_def trim_start_def trim_end_def front rear)
qed

lemma trim_Nil [simp]: "trim [] = []"
  by (simp add: trim_def trim_start_def trim_end_def)

lemma trim_code [code]:
  "trim s = (if s = [] then []
     else if is_ascii_alphanumeric (hd s) \<and> is_ascii_alphanumeric (last s) then s
     else trim_end (trim_start s))"
  using trim_edges [of s] by (simp add: trim_def) (simp add: trim_start_def trim_end_def)

lemma trim_alphanumeric:
  assumes "list_all is_ascii_alphanumeric s"
  shows "trim s = s"
proof (cases "s = []")
  case False
  then show ?thesis using assms by (intro trim_edges) (auto simp: list_all_iff)
qed simp

section \<open>Hexadecimal digits\<close>

definition hex_char :: "nat \<Rightarrow> char" where
  "hex_char n = char_of (if n < 10 then 48 + n else 87 + n)"

text \<open>\<open>char::to_digit(16)\<close> on a byte.\<close>

definition hex_value :: "char \<Rightarrow> nat option" where
  "hex_value c =
     (if is_ascii_digit c then Some (code c - 48)
      else if 97 \<le> code c \<and> code c \<le> 102 then Some (code c - 87)
      else if 65 \<le> code c \<and> code c \<le> 70 then Some (code c - 55)
      else None)"

lemma hex_value_hex_char [simp]: "n < 16 \<Longrightarrow> hex_value (hex_char n) = Some n"
  by (auto simp: hex_value_def hex_char_def is_ascii_digit_def)

text \<open>The digits of \<open>n\<close> in base 16, \<open>k\<close> of them, most significant first: \<open>{:0kx}\<close>.\<close>

primrec hex_digits :: "nat \<Rightarrow> nat \<Rightarrow> string" where
  "hex_digits 0 n = []"
| "hex_digits (Suc k) n = hex_digits k (n div 16) @ [hex_char (n mod 16)]"

text \<open>\<open>from_str_radix(s, 16)\<close> on a string of hexadecimal digits, without a bound.\<close>

primrec hex_parse :: "nat \<Rightarrow> string \<Rightarrow> nat option" where
  "hex_parse acc [] = Some acc"
| "hex_parse acc (c # cs) =
     (case hex_value c of None \<Rightarrow> None | Some d \<Rightarrow> hex_parse (acc * 16 + d) cs)"

lemma length_hex_digits [simp]: "length (hex_digits k n) = k"
  by (induction k arbitrary: n) auto

lemma hex_parse_append:
  "hex_parse acc (xs @ ys) =
     (case hex_parse acc xs of None \<Rightarrow> None | Some a \<Rightarrow> hex_parse a ys)"
  by (induction xs arbitrary: acc) (auto split: option.splits)

lemma hex_parse_hex_digits:
  "n < 16 ^ k \<Longrightarrow> hex_parse acc (hex_digits k n) = Some (acc * 16 ^ k + n)"
proof (induction k arbitrary: n acc)
  case 0
  then show ?case by simp
next
  case (Suc k)
  from Suc.prems have "n div 16 < 16 ^ k" by (simp add: less_mult_imp_div_less)
  then show ?case
    using Suc.IH [of "n div 16" acc]
    by (simp add: hex_parse_append algebra_simps)
qed

lemma hex_digits_lower:
  "c \<in> set (hex_digits k n) \<Longrightarrow> is_ascii_digit c \<or> (97 \<le> code c \<and> code c \<le> 102)"
proof (induction k arbitrary: n)
  case 0
  then show ?case by simp
next
  case (Suc k)
  have "n mod 16 < 16" by simp
  then show ?case using Suc
    by (auto simp: hex_char_def is_ascii_digit_def split: if_splits)
qed

section \<open>Decimal digits\<close>

fun decimal_text :: "nat \<Rightarrow> string" where
  "decimal_text n =
     (if n < 10 then [char_of (48 + n)] else decimal_text (n div 10) @ [char_of (48 + n mod 10)])"

declare decimal_text.simps [simp del]

end
