(* ===== verification/Decimals.thy ===== *)
theory Decimals
  imports Prelude
begin

text \<open>
  The interface of \<open>rust_decimal::Decimal\<close>, which is not part of the repository: the
  model takes it as a parameter \<open>D\<close> and the laws below state what its documentation says.
  A decimal denotes a rational number, every comparison is a comparison of the numbers, a
  checked operation returns \<open>None\<close> when the result does not fit, and the arithmetic
  operators panic in that case.  The sign bit is separate from the number, because zero has
  two representations.
\<close>

record 'd decimal_api =
  dec_value :: "'d \<Rightarrow> rat"
  dec_sign_negative :: "'d \<Rightarrow> bool"
  dec_new :: "int \<Rightarrow> nat \<Rightarrow> 'd"
  dec_of_int :: "int \<Rightarrow> 'd"
  dec_add :: "'d \<Rightarrow> 'd \<Rightarrow> 'd option"
  dec_sub :: "'d \<Rightarrow> 'd \<Rightarrow> 'd option"
  dec_mul :: "'d \<Rightarrow> 'd \<Rightarrow> 'd option"
  dec_div :: "'d \<Rightarrow> 'd \<Rightarrow> 'd option"
  dec_rem :: "'d \<Rightarrow> 'd \<Rightarrow> 'd option"
  dec_neg :: "'d \<Rightarrow> 'd"
  dec_least :: "'d \<Rightarrow> 'd \<Rightarrow> 'd"
  dec_greatest :: "'d \<Rightarrow> 'd \<Rightarrow> 'd"
  dec_MAX :: "'d"
  dec_MIN :: "'d"

text \<open>Comparison with another decimal and with a literal \<open>m / 10 ^ s\<close>.\<close>

definition dec_eq :: "'d decimal_api \<Rightarrow> 'd \<Rightarrow> 'd \<Rightarrow> bool" where
  "dec_eq D a b \<longleftrightarrow> dec_value D a = dec_value D b"

definition dec_less :: "'d decimal_api \<Rightarrow> 'd \<Rightarrow> 'd \<Rightarrow> bool" where
  "dec_less D a b \<longleftrightarrow> dec_value D a < dec_value D b"

definition dec_le :: "'d decimal_api \<Rightarrow> 'd \<Rightarrow> 'd \<Rightarrow> bool" where
  "dec_le D a b \<longleftrightarrow> dec_value D a \<le> dec_value D b"

definition dec_is_zero :: "'d decimal_api \<Rightarrow> 'd \<Rightarrow> bool" where
  "dec_is_zero D a \<longleftrightarrow> dec_value D a = 0"

definition dec_positive :: "'d decimal_api \<Rightarrow> 'd \<Rightarrow> bool" where
  "dec_positive D a \<longleftrightarrow> 0 < dec_value D a"

definition dec_negative :: "'d decimal_api \<Rightarrow> 'd \<Rightarrow> bool" where
  "dec_negative D a \<longleftrightarrow> dec_value D a < 0"

text \<open>The constants \<open>Decimal::ZERO\<close> and \<open>Decimal::ONE\<close>.\<close>

definition dec_zero :: "'d decimal_api \<Rightarrow> 'd" where
  "dec_zero D = dec_new D 0 0"

definition dec_one :: "'d decimal_api \<Rightarrow> 'd" where
  "dec_one D = dec_new D 1 0"

text \<open>\<open>abs()\<close> clears the sign, \<open>ceil()\<close> is the next integer.\<close>

definition dec_abs :: "'d decimal_api \<Rightarrow> 'd \<Rightarrow> 'd" where
  "dec_abs D a = (if dec_sign_negative D a then dec_neg D a else a)"

definition dec_ceil :: "'d decimal_api \<Rightarrow> 'd \<Rightarrow> 'd" where
  "dec_ceil D a = dec_of_int D \<lceil>dec_value D a\<rceil>"

lemmas dec_rel_defs =
  dec_eq_def dec_less_def dec_le_def dec_is_zero_def dec_positive_def dec_negative_def

section \<open>Documented behaviour, as named hypotheses\<close>

text \<open>
  \<open>dec_const_laws\<close>: constants and integer conversions denote their number.
\<close>

definition dec_const_laws :: "'d decimal_api \<Rightarrow> bool" where
  "dec_const_laws D \<longleftrightarrow>
     (\<forall>m s. \<bar>m\<bar> < 2 ^ 63 \<longrightarrow> s \<le> 28 \<longrightarrow> dec_value D (dec_new D m s) = of_int m / 10 ^ s) \<and>
     (\<forall>n. \<bar>n\<bar> < 2 ^ 64 \<longrightarrow> dec_value D (dec_of_int D n) = of_int n)"

text \<open>
  \<open>dec_sign_laws\<close>: the sign bit agrees with the number where it is not zero, negation
  flips both, and rounding never moves a result across zero.
\<close>

definition dec_sign_laws :: "'d decimal_api \<Rightarrow> bool" where
  "dec_sign_laws D \<longleftrightarrow>
     (\<forall>a. dec_value D a < 0 \<longrightarrow> dec_sign_negative D a) \<and>
     (\<forall>a. 0 < dec_value D a \<longrightarrow> \<not> dec_sign_negative D a) \<and>
     (\<forall>a. dec_value D (dec_neg D a) = - dec_value D a) \<and>
     (\<forall>a b c. dec_sub D a b = Some c \<longrightarrow>
        (dec_value D b \<le> dec_value D a \<longrightarrow> 0 \<le> dec_value D c) \<and>
        (dec_value D a \<le> dec_value D b \<longrightarrow> dec_value D c \<le> 0)) \<and>
     (\<forall>a b c. dec_mul D a b = Some c \<longrightarrow>
        (0 \<le> dec_value D a * dec_value D b \<longrightarrow> 0 \<le> dec_value D c) \<and>
        (dec_value D a * dec_value D b \<le> 0 \<longrightarrow> dec_value D c \<le> 0)) \<and>
     (\<forall>a b c. dec_div D a b = Some c \<longrightarrow>
        (0 \<le> dec_value D a / dec_value D b \<longrightarrow> 0 \<le> dec_value D c) \<and>
        (dec_value D a / dec_value D b \<le> 0 \<longrightarrow> dec_value D c \<le> 0))"

text \<open>
  \<open>dec_choice_laws\<close>: \<open>min\<close> and \<open>max\<close> return one of their arguments, the smaller and the
  larger number.
\<close>

definition dec_choice_laws :: "'d decimal_api \<Rightarrow> bool" where
  "dec_choice_laws D \<longleftrightarrow>
     (\<forall>a b. dec_least D a b \<in> {a, b} \<and>
        dec_value D (dec_least D a b) = min (dec_value D a) (dec_value D b)) \<and>
     (\<forall>a b. dec_greatest D a b \<in> {a, b} \<and>
        dec_value D (dec_greatest D a b) = max (dec_value D a) (dec_value D b))"

text \<open>
  \<open>dec_rem_laws\<close>: the remainder is that of the truncated division, and is defined for
  every divisor but zero.
\<close>

definition trunc_rat :: "rat \<Rightarrow> int" where
  "trunc_rat q = (if 0 \<le> q then \<lfloor>q\<rfloor> else \<lceil>q\<rceil>)"

definition dec_rem_laws :: "'d decimal_api \<Rightarrow> bool" where
  "dec_rem_laws D \<longleftrightarrow>
     (\<forall>a b. dec_value D b = 0 \<longrightarrow> dec_rem D a b = None) \<and>
     (\<forall>a b. dec_value D b \<noteq> 0 \<longrightarrow>
        (\<exists>c. dec_rem D a b = Some c \<and>
           dec_value D c =
             dec_value D a - dec_value D b * of_int (trunc_rat (dec_value D a / dec_value D b))))"

text \<open>
  \<open>dec_exact_laws\<close>: an addition, subtraction or multiplication whose exact result is a
  number of the type (a 96-bit integer over a power of ten up to 28) returns that number.
\<close>

definition dec_representable :: "rat \<Rightarrow> bool" where
  "dec_representable q \<longleftrightarrow> (\<exists>m s. s \<le> (28::nat) \<and> \<bar>m\<bar> < (2 ^ 96 :: int) \<and> q = of_int m / 10 ^ s)"

definition dec_exact_laws :: "'d decimal_api \<Rightarrow> bool" where
  "dec_exact_laws D \<longleftrightarrow>
     (\<forall>a b. dec_representable (dec_value D a + dec_value D b) \<longrightarrow>
        (\<exists>c. dec_add D a b = Some c \<and> dec_value D c = dec_value D a + dec_value D b)) \<and>
     (\<forall>a b. dec_representable (dec_value D a - dec_value D b) \<longrightarrow>
        (\<exists>c. dec_sub D a b = Some c \<and> dec_value D c = dec_value D a - dec_value D b)) \<and>
     (\<forall>a b. dec_representable (dec_value D a * dec_value D b) \<longrightarrow>
        (\<exists>c. dec_mul D a b = Some c \<and> dec_value D c = dec_value D a * dec_value D b))"

text \<open>
  \<open>dec_range_laws\<close>: a subtraction or multiplication overflows only when its exact result is
  out of range, hence never when it is no larger in magnitude than some decimal.
\<close>

definition dec_range_laws :: "'d decimal_api \<Rightarrow> bool" where
  "dec_range_laws D \<longleftrightarrow>
     (\<forall>a b c. \<bar>dec_value D a - dec_value D b\<bar> \<le> \<bar>dec_value D c\<bar> \<longrightarrow> dec_sub D a b \<noteq> None) \<and>
     (\<forall>a b c. \<bar>dec_value D a * dec_value D b\<bar> \<le> \<bar>dec_value D c\<bar> \<longrightarrow> dec_mul D a b \<noteq> None)"

lemma dec_new_value:
  "dec_const_laws D \<Longrightarrow> \<bar>m\<bar> < 2 ^ 63 \<Longrightarrow> s \<le> 28 \<Longrightarrow> dec_value D (dec_new D m s) = of_int m / 10 ^ s"
  by (simp add: dec_const_laws_def)

lemma dec_zero_value [simp]: "dec_const_laws D \<Longrightarrow> dec_value D (dec_zero D) = 0"
  by (simp add: dec_zero_def dec_new_value)

lemma dec_one_value [simp]: "dec_const_laws D \<Longrightarrow> dec_value D (dec_one D) = 1"
  by (simp add: dec_one_def dec_new_value)

lemma dec_sign_positive:
  "dec_sign_laws D \<Longrightarrow> \<not> dec_sign_negative D a \<Longrightarrow> 0 \<le> dec_value D a"
  unfolding dec_sign_laws_def by (meson not_le)

lemma dec_sign_nonpositive:
  "dec_sign_laws D \<Longrightarrow> dec_sign_negative D a \<Longrightarrow> dec_value D a \<le> 0"
  unfolding dec_sign_laws_def by (meson not_le)

lemma dec_abs_value: "dec_sign_laws D \<Longrightarrow> dec_value D (dec_abs D a) = \<bar>dec_value D a\<bar>"
  using dec_sign_positive [of D a] dec_sign_nonpositive [of D a]
  by (auto simp: dec_abs_def dec_sign_laws_def)

lemma dec_sub_nonneg:
  "dec_sign_laws D \<Longrightarrow> dec_sub D a b = Some c \<Longrightarrow> dec_value D b \<le> dec_value D a \<Longrightarrow> 0 \<le> dec_value D c"
  by (auto simp: dec_sign_laws_def)

lemma dec_sub_nonpos:
  "dec_sign_laws D \<Longrightarrow> dec_sub D a b = Some c \<Longrightarrow> dec_value D a \<le> dec_value D b \<Longrightarrow> dec_value D c \<le> 0"
  by (auto simp: dec_sign_laws_def)

lemma dec_mul_nonneg:
  "dec_sign_laws D \<Longrightarrow> dec_mul D a b = Some c \<Longrightarrow> 0 \<le> dec_value D a \<Longrightarrow> 0 \<le> dec_value D b \<Longrightarrow>
   0 \<le> dec_value D c"
  by (auto simp: dec_sign_laws_def)

lemma dec_mul_nonpos:
  "dec_sign_laws D \<Longrightarrow> dec_mul D a b = Some c \<Longrightarrow> dec_value D a \<le> 0 \<Longrightarrow> 0 \<le> dec_value D b \<Longrightarrow>
   dec_value D c \<le> 0"
  by (auto simp: dec_sign_laws_def mult_nonpos_nonneg)

lemma dec_div_nonpos:
  "dec_sign_laws D \<Longrightarrow> dec_div D a b = Some c \<Longrightarrow> dec_value D a \<le> 0 \<Longrightarrow> 0 \<le> dec_value D b \<Longrightarrow>
   dec_value D c \<le> 0"
  unfolding dec_sign_laws_def by (meson divide_nonpos_nonneg)

lemma dec_div_nonneg:
  "dec_sign_laws D \<Longrightarrow> dec_div D a b = Some c \<Longrightarrow> 0 \<le> dec_value D a \<Longrightarrow> 0 \<le> dec_value D b \<Longrightarrow>
   0 \<le> dec_value D c"
  unfolding dec_sign_laws_def by (meson divide_nonneg_nonneg)

lemma dec_rem_Some:
  assumes "dec_rem_laws D" and "dec_rem D a b = Some c"
  shows "dec_value D b \<noteq> 0"
    and "dec_value D c =
      dec_value D a - dec_value D b * of_int (trunc_rat (dec_value D a / dec_value D b))"
  using assms unfolding dec_rem_laws_def by (metis option.inject option.distinct(1))+

lemma dec_rem_total:
  "dec_rem_laws D \<Longrightarrow> dec_value D b \<noteq> 0 \<Longrightarrow> dec_rem D a b \<noteq> None"
  unfolding dec_rem_laws_def by (metis option.distinct(1))

lemma trunc_rat_nonneg: "0 \<le> q \<Longrightarrow> trunc_rat q = \<lfloor>q\<rfloor>"
  by (simp add: trunc_rat_def)

text \<open>The remainder of a non-negative number by a positive one lies in \<open>[0, b)\<close> and below \<open>a\<close>.\<close>

lemma dec_rem_bounds:
  assumes "dec_rem_laws D" and "dec_rem D a b = Some c"
    and "0 \<le> dec_value D a" and "0 < dec_value D b"
  shows "0 \<le> dec_value D c" and "dec_value D c < dec_value D b" and "dec_value D c \<le> dec_value D a"
proof -
  let ?a = "dec_value D a" and ?b = "dec_value D b"
  let ?q = "\<lfloor>?a / ?b\<rfloor>"
  have q0: "0 \<le> ?a / ?b" using assms by simp
  then have c: "dec_value D c = ?a - ?b * of_int ?q"
    using dec_rem_Some [OF assms(1,2)] by (simp add: trunc_rat_nonneg)
  have lo: "of_int ?q \<le> ?a / ?b" and hi: "?a / ?b < of_int ?q + 1"
    by linarith+
  from pos_le_divide_eq [OF assms(4), THEN iffD1, OF lo] have "?b * of_int ?q \<le> ?a"
    by (simp only: mult.commute)
  then show "0 \<le> dec_value D c" by (simp add: c)
  from hi have "?a < ?b * of_int ?q + ?b"
    using assms(4) by (simp add: pos_divide_less_eq algebra_simps)
  then show "dec_value D c < ?b" by (simp add: c)
  have "0 \<le> (of_int ?q :: rat)" using q0 by simp
  then have "0 \<le> ?b * of_int ?q" using assms(4) by (simp add: zero_le_mult_iff)
  then show "dec_value D c \<le> ?a" by (simp add: c)
qed

text \<open>A remainder of zero is divisibility.\<close>

definition multiple_of :: "rat \<Rightarrow> rat \<Rightarrow> bool" where
  "multiple_of step v \<longleftrightarrow> (\<exists>k::int. v = of_int k * step)"

lemma rem_zero_multiple:
  assumes "dec_rem_laws D" and "dec_rem D v step = Some r" and "dec_value D r = 0"
  shows "multiple_of (dec_value D step) (dec_value D v)"
proof -
  have "dec_value D v =
      dec_value D step * of_int (trunc_rat (dec_value D v / dec_value D step))"
    using dec_rem_Some [OF assms(1,2)] assms(3) by simp
  then show ?thesis unfolding multiple_of_def by (metis mult.commute)
qed

section \<open>Numbers on a scale\<close>

definition on_scale :: "nat \<Rightarrow> rat \<Rightarrow> bool" where
  "on_scale s v \<longleftrightarrow> s \<le> 28 \<and> (\<exists>m::int. \<bar>m\<bar> < 2 ^ 96 \<and> v = of_int m / 10 ^ s)"

lemma on_scale_representable: "on_scale s v \<Longrightarrow> dec_representable v"
  by (auto simp: on_scale_def dec_representable_def)

lemma on_scale_bounded:
  assumes "on_scale s b" and "\<bar>v\<bar> \<le> \<bar>b\<bar>" and "v = of_int m / 10 ^ s"
  shows "on_scale s v"
proof -
  obtain n :: int where n: "\<bar>n\<bar> < 2 ^ 96" "b = of_int n / 10 ^ s" and s: "s \<le> 28"
    using assms(1) by (auto simp: on_scale_def)
  have "\<bar>of_int m :: rat\<bar> \<le> \<bar>of_int n\<bar>"
    using assms(2) by (simp add: assms(3) n(2) abs_divide divide_le_cancel)
  then have "\<bar>m\<bar> \<le> \<bar>n\<bar>" by linarith
  then show ?thesis using n(1) s assms(3) by (auto simp: on_scale_def)
qed

lemma on_scale_diff:
  assumes "on_scale s a" and "on_scale s b" and "0 \<le> b" and "b \<le> a"
  shows "on_scale s (a - b)"
proof -
  obtain m n :: int where mn: "a = of_int m / 10 ^ s" "b = of_int n / 10 ^ s"
    using assms(1,2) by (auto simp: on_scale_def)
  have "a - b = of_int (m - n) / 10 ^ s" by (simp add: mn diff_divide_distrib)
  moreover have "\<bar>a - b\<bar> \<le> \<bar>a\<bar>" using assms(3,4) by simp
  ultimately show ?thesis using on_scale_bounded [OF assms(1)] by blast
qed

lemma dec_sub_exact:
  assumes "dec_exact_laws D" and "dec_sub D a b = Some c"
    and "dec_representable (dec_value D a - dec_value D b)"
  shows "dec_value D c = dec_value D a - dec_value D b"
  using assms unfolding dec_exact_laws_def by (metis option.inject)

lemma dec_add_exact:
  assumes "dec_exact_laws D" and "dec_add D a b = Some c"
    and "dec_representable (dec_value D a + dec_value D b)"
  shows "dec_value D c = dec_value D a + dec_value D b"
  using assms unfolding dec_exact_laws_def by (metis option.inject)

lemma dec_mul_exact:
  assumes "dec_exact_laws D" and "dec_mul D a b = Some c"
    and "dec_representable (dec_value D a * dec_value D b)"
  shows "dec_value D c = dec_value D a * dec_value D b"
  using assms unfolding dec_exact_laws_def by (metis option.inject)

section \<open>A concrete decimal, for the witnesses\<close>

text \<open>
  Exact rationals below \<open>2 ^ 96\<close> in magnitude: the checked operations fail outside, and
  the remainder is that of the truncated division.  It satisfies every law above.
\<close>

definition rat_bounded :: "rat \<Rightarrow> rat option" where
  "rat_bounded q = (if \<bar>q\<bar> < 2 ^ 96 then Some q else None)"

definition rat_api :: "rat decimal_api" where
  "rat_api =
     \<lparr>dec_value = (\<lambda>a. a), dec_sign_negative = (\<lambda>a. a < 0),
      dec_new = (\<lambda>m s. of_int m / 10 ^ s), dec_of_int = of_int,
      dec_add = (\<lambda>a b. rat_bounded (a + b)), dec_sub = (\<lambda>a b. rat_bounded (a - b)),
      dec_mul = (\<lambda>a b. rat_bounded (a * b)),
      dec_div = (\<lambda>a b. if b = 0 then None else rat_bounded (a / b)),
      dec_rem = (\<lambda>a b. if b = 0 then None else Some (a - b * of_int (trunc_rat (a / b)))),
      dec_neg = uminus, dec_least = min, dec_greatest = max,
      dec_MAX = 2 ^ 96 - 1, dec_MIN = 1 - 2 ^ 96\<rparr>"

lemma rat_api_simps [simp]:
  "dec_value rat_api a = a"
  "dec_sign_negative rat_api a \<longleftrightarrow> a < 0"
  "dec_new rat_api m s = of_int m / 10 ^ s"
  "dec_of_int rat_api n = of_int n"
  "dec_add rat_api a b = rat_bounded (a + b)"
  "dec_sub rat_api a b = rat_bounded (a - b)"
  "dec_mul rat_api a b = rat_bounded (a * b)"
  "dec_div rat_api a b = (if b = 0 then None else rat_bounded (a / b))"
  "dec_rem rat_api a b = (if b = 0 then None else Some (a - b * of_int (trunc_rat (a / b))))"
  "dec_neg rat_api a = - a"
  "dec_least rat_api a b = min a b"
  "dec_greatest rat_api a b = max a b"
  "dec_MAX rat_api = 2 ^ 96 - 1"
  "dec_MIN rat_api = 1 - 2 ^ 96"
  by (simp_all add: rat_api_def)

lemma rat_api_consts [simp]: "dec_zero rat_api = 0" "dec_one rat_api = 1"
  by (simp_all add: dec_zero_def dec_one_def)

text \<open>The same record with named operations and evaluated constants, to compute with.\<close>

lemma rat_bounded_code [code]:
  "rat_bounded q = (case quotient_of q of (n, d) \<Rightarrow>
     if \<bar>n\<bar> < 79228162514264337593543950336 * d then Some q else None)"
proof -
  obtain n d where nd: "quotient_of q = (n, d)" by fastforce
  have d: "0 < d" and q: "q = of_int n / of_int d"
    using quotient_of_denom_pos [OF nd] quotient_of_div [OF nd] by simp_all
  have "\<bar>q\<bar> < 2 ^ 96 \<longleftrightarrow> (of_int \<bar>n\<bar> :: rat) < of_int (79228162514264337593543950336 * d)"
    using d by (simp add: q divide_less_eq)
  then show ?thesis by (simp only: nd rat_bounded_def of_int_less_iff prod.case)
qed

definition rat_new :: "int \<Rightarrow> nat \<Rightarrow> rat" where "rat_new m s = of_int m / 10 ^ s"
definition rat_add :: "rat \<Rightarrow> rat \<Rightarrow> rat option" where "rat_add a b = rat_bounded (a + b)"
definition rat_sub :: "rat \<Rightarrow> rat \<Rightarrow> rat option" where "rat_sub a b = rat_bounded (a - b)"
definition rat_mul :: "rat \<Rightarrow> rat \<Rightarrow> rat option" where "rat_mul a b = rat_bounded (a * b)"

definition rat_div :: "rat \<Rightarrow> rat \<Rightarrow> rat option" where
  "rat_div a b = (if b = 0 then None else rat_bounded (a / b))"

definition rat_rem :: "rat \<Rightarrow> rat \<Rightarrow> rat option" where
  "rat_rem a b = (if b = 0 then None else Some (a - b * of_int (trunc_rat (a / b))))"

lemma rat_api_code [code]:
  "rat_api =
     \<lparr>dec_value = id, dec_sign_negative = (\<lambda>a. a < 0), dec_new = rat_new, dec_of_int = of_int,
      dec_add = rat_add, dec_sub = rat_sub, dec_mul = rat_mul, dec_div = rat_div, dec_rem = rat_rem,
      dec_neg = uminus, dec_least = min, dec_greatest = max,
      dec_MAX = 79228162514264337593543950335, dec_MIN = - 79228162514264337593543950335\<rparr>"
  by (simp add: rat_api_def fun_eq_iff rat_new_def rat_add_def rat_sub_def rat_mul_def rat_div_def
      rat_rem_def)

lemma rat_const_laws [simp]: "dec_const_laws rat_api"
  by (simp add: dec_const_laws_def)

lemma rat_bounded_Some [simp]: "rat_bounded q = Some c \<longleftrightarrow> \<bar>q\<bar> < 2 ^ 96 \<and> c = q"
  by (auto simp: rat_bounded_def)

lemma rat_sign_laws [simp]: "dec_sign_laws rat_api"
  by (auto simp: dec_sign_laws_def split: if_splits)

lemma rat_choice_laws [simp]: "dec_choice_laws rat_api"
  by (auto simp: dec_choice_laws_def min_def max_def)

lemma rat_rem_laws [simp]: "dec_rem_laws rat_api"
  by (simp add: dec_rem_laws_def)

lemma dec_representable_bounded:
  assumes "dec_representable q"
  shows "\<bar>q\<bar> < 2 ^ 96"
proof -
  from assms obtain m s where q: "q = of_int m / 10 ^ s" and m: "\<bar>m\<bar> < (2 ^ 96 :: int)"
    by (auto simp: dec_representable_def)
  have "\<bar>q\<bar> = of_int \<bar>m\<bar> / 10 ^ s" by (simp add: q)
  also have "\<dots> \<le> of_int \<bar>m\<bar> / 1"
    by (rule divide_left_mono) auto
  also have "\<dots> < of_int (2 ^ 96)" using m by (simp only: div_by_1 of_int_less_iff)
  finally show ?thesis by simp
qed

lemma rat_exact_laws [simp]: "dec_exact_laws rat_api"
  by (auto simp: dec_exact_laws_def rat_bounded_def dest: dec_representable_bounded)

text \<open>
  The same operations without a bound: every rational is a decimal, so none overflows.
\<close>

definition exact_api :: "rat decimal_api" where
  "exact_api = rat_api\<lparr>
     dec_add := (\<lambda>a b. Some (a + b)), dec_sub := (\<lambda>a b. Some (a - b)),
     dec_mul := (\<lambda>a b. Some (a * b)), dec_div := (\<lambda>a b. if b = 0 then None else Some (a / b))\<rparr>"

lemma exact_api_simps [simp]:
  "dec_value exact_api a = a"
  "dec_sub exact_api a b = Some (a - b)"
  "dec_mul exact_api a b = Some (a * b)"
  "dec_rem exact_api a b = (if b = 0 then None else Some (a - b * of_int (trunc_rat (a / b))))"
  "dec_new exact_api m s = of_int m / 10 ^ s"
  "dec_of_int exact_api n = of_int n"
  by (simp_all add: exact_api_def)

lemma exact_laws [simp]:
  "dec_const_laws exact_api" "dec_rem_laws exact_api" "dec_range_laws exact_api"
  by (simp_all add: dec_const_laws_def dec_rem_laws_def dec_range_laws_def)

end
