(* ===== verification/Domain.thy ===== *)
theory Domain
  imports Text Decimals
begin

text \<open>
  The value types of \<open>crates/venue-domain/src/domain\<close>: assets and symbols with their
  parsing, amounts, prices, account identities, balances, orders and fills, each with the
  validation its Rust type performs.
\<close>

section \<open>Assets (money.rs)\<close>

definition MAX_ASSET_LEN :: nat where
  "MAX_ASSET_LEN = 24"

datatype amount_error = AssetError | NonPositivePrice

datatype asset = Asset (asset_str: string)

definition asset_new :: "string \<Rightarrow> (asset, amount_error) outcome" where
  "asset_new raw =
     (let value = to_ascii_uppercase (trim raw);
          valid = 1 \<le> length value \<and> length value \<le> MAX_ASSET_LEN
                  \<and> list_all is_ascii_alphanumeric value
      in if valid then Ok (Asset value) else Err AssetError)"

text \<open>\<open>Display\<close> writes the string; \<open>FromStr\<close> is \<open>asset_new\<close>.\<close>

definition asset_to_string :: "asset \<Rightarrow> string" where
  "asset_to_string a = asset_str a"

section \<open>Amounts and prices (money.rs)\<close>

record 'd amount =
  am_asset :: asset
  am_value :: 'd

definition amount_new :: "asset \<Rightarrow> 'd \<Rightarrow> 'd amount" where
  "amount_new a v = \<lparr>am_asset = a, am_value = v\<rparr>"

text \<open>The derived \<open>PartialEq\<close>: equal assets and equal numbers.\<close>

definition amount_eq :: "'d decimal_api \<Rightarrow> 'd amount \<Rightarrow> 'd amount \<Rightarrow> bool" where
  "amount_eq D a b \<longleftrightarrow> am_asset a = am_asset b \<and> dec_eq D (am_value a) (am_value b)"

datatype 'd price = Price (price_value: 'd)

definition price_new :: "'d decimal_api \<Rightarrow> 'd \<Rightarrow> ('d price, amount_error) outcome" where
  "price_new D value =
     (if \<not> dec_sign_negative D value \<and> \<not> dec_is_zero D value then Ok (Price value)
      else Err NonPositivePrice)"

definition price_eq :: "'d decimal_api \<Rightarrow> 'd price \<Rightarrow> 'd price \<Rightarrow> bool" where
  "price_eq D a b \<longleftrightarrow> dec_eq D (price_value a) (price_value b)"

definition price_num :: "'d decimal_api \<Rightarrow> 'd price \<Rightarrow> rat" where
  "price_num D p = dec_value D (price_value p)"

lemma amount_new_simps [simp]:
  "am_asset (amount_new a v) = a" "am_value (amount_new a v) = v"
  by (simp_all add: amount_new_def)

lemma price_new_Ok:
  "price_new D v = Ok p \<longleftrightarrow> p = Price v \<and> \<not> dec_sign_negative D v \<and> dec_value D v \<noteq> 0"
  by (auto simp: price_new_def dec_is_zero_def)

lemma price_new_pos:
  "dec_sign_laws D \<Longrightarrow> price_new D v = Ok p \<Longrightarrow> 0 < price_num D p"
  by (auto simp: price_new_Ok price_num_def less_le dest: dec_sign_positive)

lemma price_new_not_Panic [simp]: "price_new D v \<noteq> Panic"
  by (simp add: price_new_def)

section \<open>Symbols (symbol.rs)\<close>

datatype symbol_part = BasePart | QuotePart

datatype symbol_error = SymbolFormat | SymbolAsset symbol_part | SameAsset

record symbol =
  sym_base :: string
  sym_quote :: string

definition symbol_asset :: "string \<Rightarrow> symbol_part \<Rightarrow> (string, symbol_error) outcome" where
  "symbol_asset raw part =
     (let value = to_ascii_uppercase (trim raw);
          valid_len = 1 \<le> length value \<and> length value \<le> MAX_ASSET_LEN;
          valid_chars = list_all is_ascii_alphanumeric value
      in if \<not> valid_len \<or> \<not> valid_chars then Err (SymbolAsset part) else Ok value)"

definition symbol_new :: "string \<Rightarrow> string \<Rightarrow> (symbol, symbol_error) outcome" where
  "symbol_new base quote =
     and_then (symbol_asset base BasePart) (\<lambda>b.
     and_then (symbol_asset quote QuotePart) (\<lambda>q.
       if b = q then Err SameAsset else Ok \<lparr>sym_base = b, sym_quote = q\<rparr>))"

text \<open>\<open>split_once('/')\<close>: the parts before and after the first slash.\<close>

fun split_once :: "char \<Rightarrow> string \<Rightarrow> (string \<times> string) option" where
  "split_once d [] = None"
| "split_once d (c # cs) =
     (if c = d then Some ([], cs)
      else case split_once d cs of None \<Rightarrow> None | Some (a, b) \<Rightarrow> Some (c # a, b))"

definition symbol_from_str :: "string \<Rightarrow> (symbol, symbol_error) outcome" where
  "symbol_from_str raw =
     and_then (ok_or SymbolFormat (split_once (CHR ''/'') raw)) (\<lambda>(base, quote).
       if CHR ''/'' \<in> set quote then Err SymbolFormat else symbol_new base quote)"

definition symbol_to_string :: "symbol \<Rightarrow> string" where
  "symbol_to_string s = sym_base s @ [CHR ''/''] @ sym_quote s"

text \<open>What \<open>Symbol::new\<close> and \<open>Asset::new\<close> guarantee of the values they build.\<close>

definition asset_text_ok :: "string \<Rightarrow> bool" where
  "asset_text_ok s \<longleftrightarrow> 1 \<le> length s \<and> length s \<le> MAX_ASSET_LEN
     \<and> list_all is_ascii_alphanumeric s \<and> to_ascii_uppercase s = s"

definition symbol_ok :: "symbol \<Rightarrow> bool" where
  "symbol_ok s \<longleftrightarrow> asset_text_ok (sym_base s) \<and> asset_text_ok (sym_quote s)
     \<and> sym_base s \<noteq> sym_quote s"

lemma ascii_upper_alnum [simp]:
  "is_ascii_alphanumeric (ascii_upper c) = is_ascii_alphanumeric c"
  by (auto simp: ascii_upper_def is_ascii_alphanumeric_def is_ascii_digit_def is_ascii_upper_def
      is_ascii_lower_def)

lemma symbol_asset_Ok: "symbol_asset raw part = Ok v \<Longrightarrow> asset_text_ok v"
  by (auto simp: symbol_asset_def asset_text_ok_def Let_def split: if_splits)

lemma symbol_asset_fixed: "asset_text_ok v \<Longrightarrow> symbol_asset v part = Ok v"
  by (simp add: symbol_asset_def asset_text_ok_def trim_alphanumeric)

lemma asset_new_ok: "asset_new raw = Ok a \<Longrightarrow> asset_text_ok (asset_str a)"
  by (auto simp: asset_new_def asset_text_ok_def Let_def split: if_splits)

lemma asset_new_fixed: "asset_text_ok (asset_str a) \<Longrightarrow> asset_new (asset_to_string a) = Ok a"
  by (simp add: asset_new_def asset_to_string_def asset_text_ok_def trim_alphanumeric)

lemma symbol_new_ok: "symbol_new base quote = Ok s \<Longrightarrow> symbol_ok s"
  by (auto simp: symbol_new_def symbol_ok_def outcome_simps dest: symbol_asset_Ok split: if_splits)

lemma symbol_from_str_ok: "symbol_from_str raw = Ok s \<Longrightarrow> symbol_ok s"
  by (auto simp: symbol_from_str_def outcome_simps dest: symbol_new_ok split: if_splits)

lemma split_once_append: "d \<notin> set a \<Longrightarrow> split_once d (a @ d # b) = Some (a, b)"
  by (induction a) auto

lemma slash_not_alphanumeric: "list_all is_ascii_alphanumeric s \<Longrightarrow> CHR ''/'' \<notin> set s"
proof
  assume "list_all is_ascii_alphanumeric s" and "CHR ''/'' \<in> set s"
  then have "is_ascii_alphanumeric (CHR ''/'')" by (auto simp: list_all_iff)
  then show False
    by (simp add: is_ascii_alphanumeric_def is_ascii_digit_def is_ascii_upper_def
        is_ascii_lower_def code_def)
qed

lemma symbol_roundtrip:
  assumes "symbol_ok s"
  shows "symbol_from_str (symbol_to_string s) = Ok s"
proof -
  have b: "asset_text_ok (sym_base s)" and q: "asset_text_ok (sym_quote s)"
    using assms by (auto simp: symbol_ok_def)
  have "split_once (CHR ''/'') (symbol_to_string s) = Some (sym_base s, sym_quote s)"
    using b by (auto simp: symbol_to_string_def asset_text_ok_def
        intro!: split_once_append dest: slash_not_alphanumeric)
  moreover have "CHR ''/'' \<notin> set (sym_quote s)"
    using q by (auto simp: asset_text_ok_def dest: slash_not_alphanumeric)
  moreover have "symbol_new (sym_base s) (sym_quote s) = Ok s"
    using assms b q by (simp add: symbol_new_def symbol_asset_fixed symbol_ok_def)
  ultimately show ?thesis by (simp add: symbol_from_str_def)
qed

section \<open>Account identity (identity.rs)\<close>

definition TRADING_ACCOUNT_ID_LEN :: nat where
  "TRADING_ACCOUNT_ID_LEN = 36"

definition is_canonical_trading_account_id :: "string \<Rightarrow> bool" where
  "is_canonical_trading_account_id value \<longleftrightarrow>
     length value = TRADING_ACCOUNT_ID_LEN
     \<and> list_all (\<lambda>(index, byte). if index \<in> {8, 13, 18, 23} then byte = CHR ''-''
                                   else is_ascii_hexdigit byte)
         (enumerate 0 value)"

section \<open>Orders, fills, balances (order.rs, account.rs, position.rs, event.rs)\<close>

datatype order_side = Buy | Sell

datatype position_side = NetSide | LongSide | ShortSide

datatype order_purpose = EntryPurpose | Protection | TakeProfit | Reduce | ExposureTakeProfit

datatype order_state = New | PartiallyFilled | Filled | Cancelled | Expired | Rejected | UnknownState

datatype unknown_reason =
  SourceOmitted | PermissionDenied | VenueUnavailable | ParseFailure | Ambiguous | NotYetObserved

datatype 'a field_state = Missing | Null | Known 'a | Unavailable unknown_reason | NotApplicable

datatype limit_time_in_force = Gtc | PostOnly

datatype order_error = EmptyId | QuantityError | ReduceOnlyError | StateError

record 'd order =
  or_order_id :: string
  or_client_order_id :: "string field_state"
  or_symbol :: symbol
  or_side :: order_side
  or_position_side :: "position_side field_state"
  or_purpose :: "order_purpose field_state"
  or_state :: order_state
  or_quantity :: 'd
  or_filled_quantity :: 'd
  or_limit_price :: "'d price option"
  or_time_in_force :: "limit_time_in_force field_state"
  or_average_price :: "'d price field_state"
  or_reduce_only :: bool

definition order_validate :: "'d decimal_api \<Rightarrow> 'd order \<Rightarrow> (unit, order_error) outcome" where
  "order_validate D ord =
     (if trim (or_order_id ord) = [] then Err EmptyId
      else if dec_sign_negative D (or_quantity ord) \<or> dec_is_zero D (or_quantity ord)
        \<or> dec_sign_negative D (or_filled_quantity ord)
        \<or> dec_less D (or_quantity ord) (or_filled_quantity ord)
      then Err QuantityError
      else case or_purpose ord of
        Known purpose \<Rightarrow>
          (let protection = purpose \<in> {Protection, TakeProfit, Reduce, ExposureTakeProfit}
           in if protection \<noteq> or_reduce_only ord then Err ReduceOnlyError else Ok ())
      | _ \<Rightarrow> Ok ())"

record 'd fill =
  fi_fill_id :: string
  fi_execution_sequence :: "u64 field_state"
  fi_order_id :: string
  fi_symbol :: symbol
  fi_side :: order_side
  fi_position_side :: "position_side field_state"
  fi_quantity :: 'd
  fi_price :: "'d price"
  fi_fee :: "'d amount field_state"
  fi_realized_pnl :: "'d amount field_state"
  fi_maker :: "bool field_state"
  fi_exchange_time_ms :: "u64 option"

definition fill_validate :: "'d decimal_api \<Rightarrow> 'd fill \<Rightarrow> (unit, order_error) outcome" where
  "fill_validate D f =
     (if trim (fi_fill_id f) = [] \<or> trim (fi_order_id f) = [] then Err EmptyId
      else if dec_sign_negative D (fi_quantity f) \<or> dec_is_zero D (fi_quantity f)
      then Err QuantityError
      else Ok ())"

definition order_state_from_str :: "string \<Rightarrow> (order_state, order_error) outcome" where
  "order_state_from_str raw =
     (if raw = ''new'' then Ok New
      else if raw = ''partially_filled'' then Ok PartiallyFilled
      else if raw = ''filled'' then Ok Filled
      else if raw = ''cancelled'' then Ok Cancelled
      else if raw = ''expired'' then Ok Expired
      else if raw = ''rejected'' then Ok Rejected
      else if raw = ''unknown'' then Ok UnknownState
      else Err StateError)"

record 'd account_balance =
  ab_asset :: asset
  ab_wallet_balance :: 'd
  ab_available_balance :: 'd
  ab_initial_margin :: 'd
  ab_maintenance_margin :: 'd

datatype account_error = NegativeBalance

definition account_balance_validate ::
  "'d decimal_api \<Rightarrow> 'd account_balance \<Rightarrow> (unit, account_error) outcome" where
  "account_balance_validate D b =
     (if dec_sign_negative D (ab_wallet_balance b) \<or> dec_sign_negative D (ab_available_balance b)
        \<or> dec_sign_negative D (ab_initial_margin b) \<or> dec_sign_negative D (ab_maintenance_margin b)
      then Err NegativeBalance else Ok ())"

text \<open>A validated order is never filled beyond its quantity.\<close>

lemma order_validate_filled:
  assumes "dec_sign_laws D" and "order_validate D ord = Ok ()"
  shows "0 \<le> dec_value D (or_filled_quantity ord)"
    and "dec_value D (or_filled_quantity ord) \<le> dec_value D (or_quantity ord)"
    and "0 < dec_value D (or_quantity ord)"
proof -
  from assms(2) have "\<not> dec_sign_negative D (or_filled_quantity ord)"
    and nz: "dec_value D (or_quantity ord) \<noteq> 0"
    and ns: "\<not> dec_sign_negative D (or_quantity ord)"
    and le: "\<not> dec_value D (or_quantity ord) < dec_value D (or_filled_quantity ord)"
    by (auto simp: order_validate_def dec_rel_defs split: if_splits)
  then show "0 \<le> dec_value D (or_filled_quantity ord)"
    using assms(1) by (blast intro: dec_sign_positive)
  from le show "dec_value D (or_filled_quantity ord) \<le> dec_value D (or_quantity ord)" by simp
  from dec_sign_positive [OF assms(1) ns] nz show "0 < dec_value D (or_quantity ord)" by simp
qed

end
