(* ===== verification/Commands.thy ===== *)
theory Commands
  imports Domain
begin

text \<open>
  Execution commands of \<open>crates/venue-domain/src/domain/command.rs\<close>: the six kinds of
  mutation, their owner and native identity, and the three admission checks (without a
  position, against the authoritative position, and of the shape a journal replays).
\<close>

section \<open>Identities and ownership\<close>

datatype command_id = CommandId (command_text: string)

datatype command_error =
  CM_Identifier | CM_Owner | CM_Quantity | CM_ReduceOnly | CM_ProtectionPurpose
| CM_MarketPurpose | CM_MarketReduceOnly | CM_MarketReducePurpose | CM_MarketReduceSide
| CM_PositionGeneration | CM_ProtectionPositionSide | CM_ProtectionSide | CM_PositionSide
| CM_PositionMode | CM_NetOpenDirection | CM_NetReduceDirection | CM_NetReduceQuantity

definition valid_identifier :: "string \<Rightarrow> bool" where
  "valid_identifier value \<longleftrightarrow>
     value \<noteq> [] \<and> length value \<le> 36
     \<and> list_all (\<lambda>c. is_ascii_alphanumeric c \<or> c = CHR ''-'' \<or> c = CHR ''_'') value"

definition command_id_new :: "string \<Rightarrow> (command_id, command_error) outcome" where
  "command_id_new raw =
     (if valid_identifier raw then Ok (CommandId raw) else Err CM_Identifier)"

record order_owner =
  ow_strategy_instance_id :: string
  ow_run_id :: string
  ow_exchange :: string
  ow_account :: string
  ow_symbol :: symbol
  ow_purpose :: order_purpose

definition owner_validate :: "order_owner \<Rightarrow> (unit, command_error) outcome" where
  "owner_validate owner =
     (if list_ex (\<lambda>value. \<not> valid_identifier value)
           [ow_strategy_instance_id owner, ow_run_id owner, ow_exchange owner, ow_account owner]
      then Err CM_Owner else Ok ())"

record 'd position =
  po_symbol :: symbol
  po_side :: position_side
  po_quantity :: 'd
  po_entry_price :: "'d price option"
  po_mark_price :: "'d price option"

section \<open>The commands\<close>

record 'd order_command =
  oc_command_id :: command_id
  oc_client_order_id :: command_id
  oc_owner :: order_owner
  oc_side :: order_side
  oc_position_side :: position_side
  oc_quantity :: 'd
  oc_limit_price :: "'d price"
  oc_time_in_force :: limit_time_in_force
  oc_reduce_only :: bool

record 'd market_order_command =
  mo_command_id :: command_id
  mo_client_order_id :: command_id
  mo_owner :: order_owner
  mo_position_side :: position_side
  mo_side :: order_side
  mo_quantity :: 'd
  mo_reduce_only :: bool

record 'd market_reduce_command =
  mr_command_id :: command_id
  mr_client_order_id :: command_id
  mr_owner :: order_owner
  mr_position_side :: position_side
  mr_side :: order_side
  mr_quantity :: 'd
  mr_risk_episode_id :: command_id
  mr_position_generation :: u64

record 'd stop_market_close_all_command =
  sc_command_id :: command_id
  sc_client_strategy_id :: command_id
  sc_owner :: order_owner
  sc_side :: order_side
  sc_position_side :: position_side
  sc_stop_price :: "'d price"
  sc_position_generation :: u64

record 'd stop_market_full_position_command =
  sf_command_id :: command_id
  sf_client_algo_id :: command_id
  sf_owner :: order_owner
  sf_side :: order_side
  sf_position_side :: position_side
  sf_quantity :: 'd
  sf_trigger_price :: "'d price"
  sf_position_generation :: u64

record cancel_command =
  cc_command_id :: command_id
  cc_owner :: order_owner
  cc_target_client_order_id :: command_id

datatype 'd execution_command =
  PlaceLimit "'d order_command"
| PlaceMarket "'d market_order_command"
| MarketReduce "'d market_reduce_command"
| StopMarketCloseAll "'d stop_market_close_all_command"
| StopMarketFullPosition "'d stop_market_full_position_command"
| CancelOrder cancel_command

datatype native_order_family = UmOrder | UmConditional | UmAlgo

primrec execution_command_id :: "'d execution_command \<Rightarrow> command_id" where
  "execution_command_id (PlaceLimit c) = oc_command_id c"
| "execution_command_id (PlaceMarket c) = mo_command_id c"
| "execution_command_id (MarketReduce c) = mr_command_id c"
| "execution_command_id (StopMarketCloseAll c) = sc_command_id c"
| "execution_command_id (StopMarketFullPosition c) = sf_command_id c"
| "execution_command_id (CancelOrder c) = cc_command_id c"

primrec native_client_id :: "'d execution_command \<Rightarrow> command_id option" where
  "native_client_id (PlaceLimit c) = Some (oc_client_order_id c)"
| "native_client_id (PlaceMarket c) = Some (mo_client_order_id c)"
| "native_client_id (MarketReduce c) = Some (mr_client_order_id c)"
| "native_client_id (StopMarketCloseAll c) = Some (sc_client_strategy_id c)"
| "native_client_id (StopMarketFullPosition c) = Some (sf_client_algo_id c)"
| "native_client_id (CancelOrder c) = None"

primrec native_family :: "'d execution_command \<Rightarrow> native_order_family option" where
  "native_family (PlaceLimit c) = Some UmOrder"
| "native_family (PlaceMarket c) = Some UmOrder"
| "native_family (MarketReduce c) = Some UmOrder"
| "native_family (StopMarketCloseAll c) = Some UmConditional"
| "native_family (StopMarketFullPosition c) = Some UmAlgo"
| "native_family (CancelOrder c) = None"

primrec mutation_owner :: "'d execution_command \<Rightarrow> order_owner" where
  "mutation_owner (PlaceLimit c) = oc_owner c"
| "mutation_owner (PlaceMarket c) = mo_owner c"
| "mutation_owner (MarketReduce c) = mr_owner c"
| "mutation_owner (StopMarketCloseAll c) = sc_owner c"
| "mutation_owner (StopMarketFullPosition c) = sf_owner c"
| "mutation_owner (CancelOrder c) = cc_owner c"

primrec command_owner :: "'d execution_command \<Rightarrow> order_owner option" where
  "command_owner (PlaceLimit c) = Some (oc_owner c)"
| "command_owner (PlaceMarket c) = Some (mo_owner c)"
| "command_owner (MarketReduce c) = Some (mr_owner c)"
| "command_owner (StopMarketCloseAll c) = Some (sc_owner c)"
| "command_owner (StopMarketFullPosition c) = Some (sf_owner c)"
| "command_owner (CancelOrder c) = None"

section \<open>Positions\<close>

text \<open>\<open>!is_sign_positive() || is_zero()\<close>: every command trades a positive quantity.\<close>

definition quantity_invalid :: "'d decimal_api \<Rightarrow> 'd \<Rightarrow> bool" where
  "quantity_invalid D quantity \<longleftrightarrow> dec_sign_negative D quantity \<or> dec_is_zero D quantity"

definition validate_position_binding ::
  "order_owner \<Rightarrow> position_side \<Rightarrow> 'd position \<Rightarrow> (unit, command_error) outcome" where
  "validate_position_binding owner command_side position =
     (if ow_symbol owner \<noteq> po_symbol position \<or> command_side \<noteq> po_side position
      then Err CM_PositionMode else Ok ())"

definition validate_net_mutation ::
  "'d decimal_api \<Rightarrow> order_owner \<Rightarrow> order_side \<Rightarrow> position_side \<Rightarrow> 'd \<Rightarrow> bool \<Rightarrow> 'd position
   \<Rightarrow> (unit, command_error) outcome" where
  "validate_net_mutation D owner side command_side quantity reduce_only position =
     and_then (validate_position_binding owner command_side position) (\<lambda>_.
     if command_side \<noteq> NetSide then Err CM_PositionMode
     else
     let authoritative_quantity = po_quantity position in
     if reduce_only then
       and_then
         (if \<not> dec_sign_negative D authoritative_quantity \<and> \<not> dec_is_zero D authoritative_quantity
          then Ok (Sell, dec_value D authoritative_quantity)
          else if dec_sign_negative D authoritative_quantity
          then Ok (Buy, \<bar>dec_value D authoritative_quantity\<bar>)
          else Err CM_NetReduceDirection) (\<lambda>(expected_side, available).
       if side \<noteq> expected_side then Err CM_NetReduceDirection
       else if available < dec_value D quantity then Err CM_NetReduceQuantity
       else Ok ())
     else
       let direction_is_proven =
             dec_is_zero D authoritative_quantity
             \<or> \<not> dec_sign_negative D authoritative_quantity \<and> side = Buy
             \<or> dec_sign_negative D authoritative_quantity \<and> side = Sell in
       if \<not> direction_is_proven then Err CM_NetOpenDirection else Ok ())"

section \<open>Stop orders\<close>

definition close_all_validate ::
  "'d stop_market_close_all_command \<Rightarrow> (unit, command_error) outcome" where
  "close_all_validate c =
     and_then (owner_validate (sc_owner c)) (\<lambda>_.
     if ow_purpose (sc_owner c) \<noteq> Protection then Err CM_ProtectionPurpose
     else
     case sc_position_side c of
       NetSide \<Rightarrow> Err CM_ProtectionPositionSide
     | leg \<Rightarrow>
       let expected_side = (if leg = LongSide then Sell else Buy) in
       if sc_side c \<noteq> expected_side then Err CM_ProtectionSide
       else if sc_position_generation c = 0 then Err CM_PositionGeneration
       else Ok ())"

definition validate_protection_direction ::
  "order_side \<Rightarrow> position_side \<Rightarrow> (unit, command_error) outcome" where
  "validate_protection_direction side position_side =
     and_then (case position_side of
         LongSide \<Rightarrow> Ok Sell
       | ShortSide \<Rightarrow> Ok Buy
       | NetSide \<Rightarrow> Err CM_ProtectionPositionSide) (\<lambda>expected.
     if side = expected then Ok () else Err CM_ProtectionSide)"

definition full_position_validate_shape ::
  "'d decimal_api \<Rightarrow> 'd stop_market_full_position_command \<Rightarrow> (unit, command_error) outcome" where
  "full_position_validate_shape D c =
     and_then (owner_validate (sf_owner c)) (\<lambda>_.
     if ow_purpose (sf_owner c) \<notin> {Protection, TakeProfit} then Err CM_ProtectionPurpose
     else if quantity_invalid D (sf_quantity c) then Err CM_Quantity
     else if sf_position_generation c = 0 then Err CM_PositionGeneration
     else Ok ())"

definition full_position_validate ::
  "'d decimal_api \<Rightarrow> 'd stop_market_full_position_command \<Rightarrow> (unit, command_error) outcome" where
  "full_position_validate D c =
     and_then (full_position_validate_shape D c) (\<lambda>_.
     if sf_position_side c = NetSide then Err CM_ProtectionPositionSide
     else validate_protection_direction (sf_side c) (sf_position_side c))"

definition full_position_validate_with_position ::
  "'d decimal_api \<Rightarrow> 'd stop_market_full_position_command \<Rightarrow> 'd position
   \<Rightarrow> (unit, command_error) outcome" where
  "full_position_validate_with_position D c position =
     and_then (full_position_validate_shape D c) (\<lambda>_.
     if sf_position_side c \<noteq> NetSide then
       and_then (validate_position_binding (sf_owner c) (sf_position_side c) position) (\<lambda>_.
       validate_protection_direction (sf_side c) (sf_position_side c))
     else
     and_then (validate_position_binding (sf_owner c) NetSide position) (\<lambda>_.
     let available = \<bar>dec_value D (po_quantity position)\<bar> in
     if available = 0 then Err CM_NetReduceDirection
     else
     let expected = (if \<not> dec_sign_negative D (po_quantity position) then Sell else Buy) in
     if sf_side c \<noteq> expected then Err CM_NetReduceDirection
     else if available < dec_value D (sf_quantity c) then Err CM_NetReduceQuantity
     else Ok ()))"

section \<open>Limit orders\<close>

definition limit_validate_shape ::
  "'d decimal_api \<Rightarrow> 'd order_command \<Rightarrow> (unit, command_error) outcome" where
  "limit_validate_shape D c =
     and_then (owner_validate (oc_owner c)) (\<lambda>_.
     if ow_purpose (oc_owner c) = ExposureTakeProfit then Err CM_MarketReducePurpose
     else if quantity_invalid D (oc_quantity c) then Err CM_Quantity
     else
     let requires_reduce_only = ow_purpose (oc_owner c) \<in> {Protection, TakeProfit, Reduce} in
     if oc_reduce_only c \<noteq> requires_reduce_only then Err CM_ReduceOnly else Ok ())"

definition limit_validate_hedge_direction ::
  "'d order_command \<Rightarrow> (unit, command_error) outcome" where
  "limit_validate_hedge_direction c =
     and_then (case (ow_purpose (oc_owner c), oc_position_side c) of
         (EntryPurpose, LongSide) \<Rightarrow> Ok Buy
       | (EntryPurpose, ShortSide) \<Rightarrow> Ok Sell
       | (ExposureTakeProfit, _) \<Rightarrow> Err CM_MarketReducePurpose
       | (_, LongSide) \<Rightarrow> Ok Sell
       | (_, ShortSide) \<Rightarrow> Ok Buy
       | (_, NetSide) \<Rightarrow> Err CM_PositionSide) (\<lambda>expected_side.
     if oc_side c \<noteq> expected_side then Err CM_PositionSide else Ok ())"

definition limit_validate ::
  "'d decimal_api \<Rightarrow> 'd order_command \<Rightarrow> (unit, command_error) outcome" where
  "limit_validate D c =
     and_then (limit_validate_shape D c) (\<lambda>_.
     if oc_position_side c = NetSide then Err CM_PositionSide
     else limit_validate_hedge_direction c)"

definition limit_validate_with_position ::
  "'d decimal_api \<Rightarrow> 'd order_command \<Rightarrow> 'd position \<Rightarrow> (unit, command_error) outcome" where
  "limit_validate_with_position D c position =
     and_then (limit_validate_shape D c) (\<lambda>_.
     if oc_position_side c = NetSide then
       validate_net_mutation D (oc_owner c) (oc_side c) (oc_position_side c) (oc_quantity c)
         (oc_reduce_only c) position
     else
     and_then (validate_position_binding (oc_owner c) (oc_position_side c) position) (\<lambda>_.
     limit_validate_hedge_direction c))"

section \<open>Market orders\<close>

definition market_validate_shape ::
  "'d decimal_api \<Rightarrow> 'd market_order_command \<Rightarrow> (unit, command_error) outcome" where
  "market_validate_shape D c =
     and_then (owner_validate (mo_owner c)) (\<lambda>_.
     if ow_purpose (mo_owner c) \<noteq> EntryPurpose then Err CM_MarketPurpose
     else if quantity_invalid D (mo_quantity c) then Err CM_Quantity
     else if mo_reduce_only c then Err CM_MarketReduceOnly
     else Ok ())"

definition market_validate_hedge_direction ::
  "'d market_order_command \<Rightarrow> (unit, command_error) outcome" where
  "market_validate_hedge_direction c =
     and_then (case mo_position_side c of
         LongSide \<Rightarrow> Ok Buy
       | ShortSide \<Rightarrow> Ok Sell
       | NetSide \<Rightarrow> Err CM_PositionSide) (\<lambda>expected_side.
     if mo_side c \<noteq> expected_side then Err CM_PositionSide else Ok ())"

definition market_validate ::
  "'d decimal_api \<Rightarrow> 'd market_order_command \<Rightarrow> (unit, command_error) outcome" where
  "market_validate D c =
     and_then (market_validate_shape D c) (\<lambda>_.
     if mo_position_side c = NetSide then Err CM_PositionSide
     else market_validate_hedge_direction c)"

definition market_validate_with_position ::
  "'d decimal_api \<Rightarrow> 'd market_order_command \<Rightarrow> 'd position \<Rightarrow> (unit, command_error) outcome" where
  "market_validate_with_position D c position =
     and_then (market_validate_shape D c) (\<lambda>_.
     if mo_position_side c = NetSide then
       validate_net_mutation D (mo_owner c) (mo_side c) (mo_position_side c) (mo_quantity c)
         False position
     else
     and_then (validate_position_binding (mo_owner c) (mo_position_side c) position) (\<lambda>_.
     market_validate_hedge_direction c))"

section \<open>Market reductions\<close>

definition reduce_validate_shape ::
  "'d decimal_api \<Rightarrow> 'd market_reduce_command \<Rightarrow> (unit, command_error) outcome" where
  "reduce_validate_shape D c =
     and_then (owner_validate (mr_owner c)) (\<lambda>_.
     if list_ex (\<lambda>identity. \<not> valid_identifier (command_text identity))
          [mr_command_id c, mr_client_order_id c, mr_risk_episode_id c]
     then Err CM_Identifier
     else if ow_purpose (mr_owner c) \<notin> {ExposureTakeProfit, Protection}
     then Err CM_MarketReducePurpose
     else if quantity_invalid D (mr_quantity c) then Err CM_Quantity
     else Ok ())"

definition reduce_validate_hedge_direction ::
  "'d market_reduce_command \<Rightarrow> (unit, command_error) outcome" where
  "reduce_validate_hedge_direction c =
     and_then (case mr_position_side c of
         LongSide \<Rightarrow> Ok Sell
       | ShortSide \<Rightarrow> Ok Buy
       | NetSide \<Rightarrow> Err CM_PositionSide) (\<lambda>expected_side.
     if mr_side c \<noteq> expected_side then Err CM_MarketReduceSide else Ok ())"

definition reduce_validate_generation ::
  "'d market_reduce_command \<Rightarrow> (unit, command_error) outcome" where
  "reduce_validate_generation c =
     (if mr_position_generation c = 0 then Err CM_PositionGeneration else Ok ())"

definition reduce_validate ::
  "'d decimal_api \<Rightarrow> 'd market_reduce_command \<Rightarrow> (unit, command_error) outcome" where
  "reduce_validate D c =
     and_then (reduce_validate_shape D c) (\<lambda>_.
     if mr_position_side c = NetSide then Err CM_PositionSide
     else
     and_then (reduce_validate_hedge_direction c) (\<lambda>_. reduce_validate_generation c))"

definition reduce_validate_with_position ::
  "'d decimal_api \<Rightarrow> 'd market_reduce_command \<Rightarrow> 'd position \<Rightarrow> (unit, command_error) outcome" where
  "reduce_validate_with_position D c position =
     and_then (reduce_validate_shape D c) (\<lambda>_.
     if mr_position_side c = NetSide then
       and_then (validate_net_mutation D (mr_owner c) (mr_side c) (mr_position_side c)
         (mr_quantity c) True position) (\<lambda>_. reduce_validate_generation c)
     else
     and_then (validate_position_binding (mr_owner c) (mr_position_side c) position) (\<lambda>_.
     and_then (reduce_validate_hedge_direction c) (\<lambda>_. reduce_validate_generation c)))"

section \<open>Any command\<close>

definition cancel_validate :: "cancel_command \<Rightarrow> (unit, command_error) outcome" where
  "cancel_validate c = owner_validate (cc_owner c)"

primrec command_validate ::
  "'d decimal_api \<Rightarrow> 'd execution_command \<Rightarrow> (unit, command_error) outcome" where
  "command_validate D (PlaceLimit c) = limit_validate D c"
| "command_validate D (PlaceMarket c) = market_validate D c"
| "command_validate D (MarketReduce c) = reduce_validate D c"
| "command_validate D (StopMarketCloseAll c) = close_all_validate c"
| "command_validate D (StopMarketFullPosition c) = full_position_validate D c"
| "command_validate D (CancelOrder c) = cancel_validate c"

text \<open>What a journal checks on replay: only a Net command is accepted by its shape.\<close>

primrec validate_persisted_shape ::
  "'d decimal_api \<Rightarrow> 'd execution_command \<Rightarrow> (unit, command_error) outcome" where
  "validate_persisted_shape D (PlaceLimit c) =
     (if oc_position_side c = NetSide then limit_validate_shape D c else limit_validate D c)"
| "validate_persisted_shape D (PlaceMarket c) =
     (if mo_position_side c = NetSide then market_validate_shape D c else market_validate D c)"
| "validate_persisted_shape D (MarketReduce c) =
     (if mr_position_side c = NetSide
      then and_then (reduce_validate_shape D c) (\<lambda>_. reduce_validate_generation c)
      else reduce_validate D c)"
| "validate_persisted_shape D (StopMarketCloseAll c) = close_all_validate c"
| "validate_persisted_shape D (StopMarketFullPosition c) =
     (if sf_position_side c = NetSide then full_position_validate_shape D c
      else full_position_validate D c)"
| "validate_persisted_shape D (CancelOrder c) = cancel_validate c"

section \<open>What admission against a position guarantees\<close>

text \<open>
  The check of each kind of command against the authoritative position; the two kinds that
  trade no quantity of their own are only checked for their shape.
\<close>

primrec admitted :: "'d decimal_api \<Rightarrow> 'd execution_command \<Rightarrow> 'd position \<Rightarrow> bool" where
  "admitted D (PlaceLimit c) p \<longleftrightarrow> limit_validate_with_position D c p = Ok ()"
| "admitted D (PlaceMarket c) p \<longleftrightarrow> market_validate_with_position D c p = Ok ()"
| "admitted D (MarketReduce c) p \<longleftrightarrow> reduce_validate_with_position D c p = Ok ()"
| "admitted D (StopMarketCloseAll c) p \<longleftrightarrow> close_all_validate c = Ok ()"
| "admitted D (StopMarketFullPosition c) p \<longleftrightarrow> full_position_validate_with_position D c p = Ok ()"
| "admitted D (CancelOrder c) p \<longleftrightarrow> cancel_validate c = Ok ()"

text \<open>The side and quantity a command may trade, and whether it is meant to reduce.\<close>

primrec trade_terms :: "'d execution_command \<Rightarrow> (order_side \<times> 'd) option" where
  "trade_terms (PlaceLimit c) = Some (oc_side c, oc_quantity c)"
| "trade_terms (PlaceMarket c) = Some (mo_side c, mo_quantity c)"
| "trade_terms (MarketReduce c) = Some (mr_side c, mr_quantity c)"
| "trade_terms (StopMarketCloseAll c) = None"
| "trade_terms (StopMarketFullPosition c) = Some (sf_side c, sf_quantity c)"
| "trade_terms (CancelOrder c) = None"

primrec meant_to_reduce :: "'d execution_command \<Rightarrow> bool" where
  "meant_to_reduce (PlaceLimit c) \<longleftrightarrow> oc_reduce_only c"
| "meant_to_reduce (PlaceMarket c) \<longleftrightarrow> False"
| "meant_to_reduce (MarketReduce c) \<longleftrightarrow> True"
| "meant_to_reduce (StopMarketCloseAll c) \<longleftrightarrow> True"
| "meant_to_reduce (StopMarketFullPosition c) \<longleftrightarrow> True"
| "meant_to_reduce (CancelOrder c) \<longleftrightarrow> False"

definition after_trade :: "order_side \<Rightarrow> rat \<Rightarrow> rat \<Rightarrow> rat" where
  "after_trade side held traded = (case side of Buy \<Rightarrow> held + traded | Sell \<Rightarrow> held - traded)"

text \<open>The directions Net mode allows: a bounded reduction, or an opening that adds.\<close>

definition net_direction :: "bool \<Rightarrow> order_side \<Rightarrow> rat \<Rightarrow> rat \<Rightarrow> bool" where
  "net_direction reducing side quantity held \<longleftrightarrow>
     (if reducing then quantity \<le> \<bar>held\<bar> \<and> (0 \<le> held \<and> side = Sell \<or> held \<le> 0 \<and> side = Buy)
      else 0 \<le> held \<and> side = Buy \<or> held \<le> 0 \<and> side = Sell)"

lemma net_direction_trade:
  assumes "net_direction reducing side quantity held" and "0 \<le> traded" and "traded \<le> quantity"
  shows "0 \<le> held * after_trade side held traded"
    and "\<bar>after_trade side held traded\<bar> = (if reducing then \<bar>held\<bar> - traded else \<bar>held\<bar> + traded)"
  using assms
  by (auto simp: net_direction_def after_trade_def zero_le_mult_iff
      split: if_splits order_side.splits)

lemma net_mutation_Ok:
  assumes laws: "dec_sign_laws D"
    and ok: "validate_net_mutation D owner side leg quantity reducing p = Ok ()"
  shows "ow_symbol owner = po_symbol p" and "leg = NetSide" and "po_side p = NetSide"
    and "net_direction reducing side (dec_value D quantity) (dec_value D (po_quantity p))"
proof -
  let ?v = "dec_value D (po_quantity p)"
  show "ow_symbol owner = po_symbol p" "leg = NetSide" "po_side p = NetSide"
    using ok by (auto simp: validate_net_mutation_def validate_position_binding_def Let_def
        outcome_simps split: if_splits)
  have sign: "dec_sign_negative D (po_quantity p) \<Longrightarrow> ?v \<le> 0"
      "\<not> dec_sign_negative D (po_quantity p) \<Longrightarrow> 0 \<le> ?v"
    using dec_sign_positive [OF laws] dec_sign_nonpositive [OF laws] by auto
  show "net_direction reducing side (dec_value D quantity) ?v"
    using ok sign
    by (cases side) (auto simp: validate_net_mutation_def Let_def outcome_simps dec_is_zero_def
        net_direction_def split: if_splits)
qed

lemma full_position_net:
  assumes laws: "dec_sign_laws D"
    and ok: "full_position_validate_with_position D c p = Ok ()" and net: "po_side p = NetSide"
  shows "net_direction True (sf_side c) (dec_value D (sf_quantity c)) (dec_value D (po_quantity p))"
proof -
  let ?v = "dec_value D (po_quantity p)"
  have "dec_sign_negative D (po_quantity p) \<Longrightarrow> ?v \<le> 0"
      "\<not> dec_sign_negative D (po_quantity p) \<Longrightarrow> 0 \<le> ?v"
    using dec_sign_positive [OF laws] dec_sign_nonpositive [OF laws] by auto
  then show ?thesis using ok net
    by (cases "sf_side c") (auto simp: full_position_validate_with_position_def
        validate_position_binding_def Let_def outcome_simps net_direction_def split: if_splits)
qed

lemma quantity_valid_pos:
  "dec_sign_laws D \<Longrightarrow> \<not> quantity_invalid D q \<Longrightarrow> 0 < dec_value D q"
  using dec_sign_positive [of D q] by (fastforce simp: quantity_invalid_def dec_is_zero_def)

text \<open>What each admission has checked, on either kind of position.\<close>

definition admissible ::
  "'d decimal_api \<Rightarrow> 'd position \<Rightarrow> symbol \<Rightarrow> bool \<Rightarrow> order_side \<Rightarrow> 'd \<Rightarrow> bool" where
  "admissible D p s reducing side quantity \<longleftrightarrow>
     s = po_symbol p \<and> \<not> quantity_invalid D quantity
     \<and> (case po_side p of
          NetSide \<Rightarrow>
            net_direction reducing side (dec_value D quantity) (dec_value D (po_quantity p))
        | LongSide \<Rightarrow> side = (if reducing then Sell else Buy)
        | ShortSide \<Rightarrow> side = (if reducing then Buy else Sell))"

lemma limit_admitted:
  assumes "dec_sign_laws D" and "limit_validate_with_position D c p = Ok ()"
  shows "admissible D p (ow_symbol (oc_owner c)) (oc_reduce_only c) (oc_side c) (oc_quantity c)"
proof (cases "oc_position_side c = NetSide")
  case True
  then have "\<not> quantity_invalid D (oc_quantity c)"
    and "validate_net_mutation D (oc_owner c) (oc_side c) NetSide (oc_quantity c)
      (oc_reduce_only c) p = Ok ()"
    using assms(2) by (auto simp: limit_validate_with_position_def limit_validate_shape_def
        outcome_simps split: if_splits)
  then show ?thesis using net_mutation_Ok [OF assms(1)] by (auto simp: admissible_def)
next
  case False
  then show ?thesis using assms(2)
    by (cases "ow_purpose (oc_owner c)"; cases "oc_position_side c")
      (auto simp: limit_validate_with_position_def limit_validate_shape_def Let_def outcome_simps
        limit_validate_hedge_direction_def validate_position_binding_def admissible_def
        split: if_splits)
qed

lemma market_admitted:
  assumes "dec_sign_laws D" and "market_validate_with_position D c p = Ok ()"
  shows "admissible D p (ow_symbol (mo_owner c)) False (mo_side c) (mo_quantity c)"
proof (cases "mo_position_side c = NetSide")
  case True
  then have "\<not> quantity_invalid D (mo_quantity c)"
    and "validate_net_mutation D (mo_owner c) (mo_side c) NetSide (mo_quantity c) False p = Ok ()"
    using assms(2) by (auto simp: market_validate_with_position_def market_validate_shape_def
        outcome_simps split: if_splits)
  then show ?thesis using net_mutation_Ok [OF assms(1)] by (auto simp: admissible_def)
next
  case False
  then show ?thesis using assms(2)
    by (cases "mo_position_side c")
      (auto simp: market_validate_with_position_def market_validate_shape_def outcome_simps
        market_validate_hedge_direction_def validate_position_binding_def admissible_def
        split: if_splits)
qed

lemma reduce_admitted:
  assumes "dec_sign_laws D" and "reduce_validate_with_position D c p = Ok ()"
  shows "admissible D p (ow_symbol (mr_owner c)) True (mr_side c) (mr_quantity c)"
proof (cases "mr_position_side c = NetSide")
  case True
  then have "\<not> quantity_invalid D (mr_quantity c)"
    and "validate_net_mutation D (mr_owner c) (mr_side c) NetSide (mr_quantity c) True p = Ok ()"
    using assms(2) by (auto simp: reduce_validate_with_position_def reduce_validate_shape_def
        outcome_simps split: if_splits)
  then show ?thesis using net_mutation_Ok [OF assms(1)] by (auto simp: admissible_def)
next
  case False
  then show ?thesis using assms(2)
    by (cases "mr_position_side c")
      (auto simp: reduce_validate_with_position_def reduce_validate_shape_def outcome_simps
        reduce_validate_hedge_direction_def validate_position_binding_def admissible_def
        split: if_splits)
qed

lemma full_position_admitted:
  assumes "dec_sign_laws D" and "full_position_validate_with_position D c p = Ok ()"
  shows "admissible D p (ow_symbol (sf_owner c)) True (sf_side c) (sf_quantity c)"
proof (cases "sf_position_side c = NetSide")
  case True
  then have "po_side p = NetSide" "ow_symbol (sf_owner c) = po_symbol p"
      "\<not> quantity_invalid D (sf_quantity c)"
    using assms(2) by (auto simp: full_position_validate_with_position_def
        full_position_validate_shape_def validate_position_binding_def outcome_simps
        split: if_splits)
  then show ?thesis using full_position_net [OF assms] by (simp add: admissible_def)
next
  case False
  then show ?thesis using assms(2)
    by (cases "sf_position_side c")
      (auto simp: full_position_validate_with_position_def full_position_validate_shape_def
        outcome_simps validate_protection_direction_def validate_position_binding_def
        admissible_def split: if_splits)
qed

lemma admitted_terms:
  assumes "dec_sign_laws D" and "admitted D c p" and "trade_terms c = Some (side, quantity)"
  shows "admissible D p (ow_symbol (mutation_owner c)) (meant_to_reduce c) side quantity"
  using assms
  by (cases c) (auto intro: limit_admitted market_admitted reduce_admitted full_position_admitted)

lemmas command_shape_defs =
  limit_validate_def limit_validate_with_position_def market_validate_def
  market_validate_with_position_def reduce_validate_def reduce_validate_with_position_def
  full_position_validate_def full_position_validate_with_position_def

end
