(* ===== verification/Order_Outcome.thy ===== *)
theory Order_Outcome
  imports Commands
begin

text \<open>
  Reconciliation of a mutation whose acknowledgement is missing
  (\<open>crates/venue-domain/src/domain/order_outcome.rs\<close>): the binding it must match, the signed
  readback and its coverage, and the classification of what the readback proves.
\<close>

datatype order_outcome_error =
  OO_InvalidBinding | OO_MissingNativeIdentity | OO_InvalidGeneration | OO_InvalidCoverage
| OO_UnsignedReadback | OO_InvalidObservation

record order_outcome_binding =
  ob_command_id :: command_id
  ob_native_client_id :: command_id
  ob_native_order_family :: native_order_family
  ob_owner :: order_owner

definition valid_command_identity :: "string \<Rightarrow> bool" where
  "valid_command_identity value \<longleftrightarrow>
     value \<noteq> [] \<and> length value \<le> 36
     \<and> list_all (\<lambda>c. is_ascii_alphanumeric c \<or> c = CHR ''-'' \<or> c = CHR ''_'') value"

definition outcome_binding_new ::
  "command_id \<Rightarrow> command_id \<Rightarrow> native_order_family \<Rightarrow> order_owner
   \<Rightarrow> (order_outcome_binding, order_outcome_error) outcome" where
  "outcome_binding_new command client_id family owner =
     and_then (map_err (\<lambda>_. OO_InvalidBinding) (owner_validate owner)) (\<lambda>_.
     if \<not> valid_command_identity (command_text command)
       \<or> \<not> valid_command_identity (command_text client_id)
     then Err OO_InvalidBinding
     else Ok \<lparr>ob_command_id = command, ob_native_client_id = client_id,
              ob_native_order_family = family, ob_owner = owner\<rparr>)"

definition binding_from_command ::
  "'d execution_command \<Rightarrow> (order_outcome_binding, order_outcome_error) outcome" where
  "binding_from_command command =
     and_then (ok_or OO_MissingNativeIdentity (native_client_id command)) (\<lambda>client_id.
     and_then (ok_or OO_MissingNativeIdentity (native_family command)) (\<lambda>family.
     outcome_binding_new (execution_command_id command) client_id family
       (mutation_owner command)))"

record unknown_order_contract =
  uc_binding :: order_outcome_binding
  uc_unknown_after_readback_generation :: u64

definition unknown_contract_new ::
  "order_outcome_binding \<Rightarrow> u64 \<Rightarrow> (unknown_order_contract, order_outcome_error) outcome" where
  "unknown_contract_new binding generation =
     (if generation = 0 then Err OO_InvalidGeneration
      else Ok \<lparr>uc_binding = binding, uc_unknown_after_readback_generation = generation\<rparr>)"

datatype order_readback_coverage =
  ExactIdentity
| CompleteFamilyCollection (page_count: u32) (collection_root: "u8 list") (terminal_cursor: "u8 list")
| IncompleteFamilyCollection u32

datatype order_readback_observation =
  Found command_id string order_state
| NotFound
| EmptyCollection
| Indeterminate

record signed_order_readback =
  sr_binding :: order_outcome_binding
  sr_readback_generation :: u64
  sr_coverage :: order_readback_coverage
  sr_observation :: order_readback_observation
  sr_signed_readback_sha256 :: "u8 list"

definition all_zero :: "u8 list \<Rightarrow> bool" where
  "all_zero digest \<longleftrightarrow> list_all (\<lambda>byte. byte = 0) digest"

definition readback_verified ::
  "order_outcome_binding \<Rightarrow> u64 \<Rightarrow> order_readback_coverage \<Rightarrow> order_readback_observation \<Rightarrow> u8 list
   \<Rightarrow> (signed_order_readback, order_outcome_error) outcome" where
  "readback_verified binding readback_generation coverage observation sha256 =
     (let invalid_coverage =
            (case coverage of
               ExactIdentity \<Rightarrow> False
             | CompleteFamilyCollection pages collected cursor \<Rightarrow>
                 pages = 0 \<or> all_zero collected \<or> all_zero cursor
             | IncompleteFamilyCollection pages \<Rightarrow> pages = 0);
          invalid_found_identity =
            (case observation of Found _ exchange_order_id _ \<Rightarrow> trim exchange_order_id = []
             | _ \<Rightarrow> False) in
      if readback_generation = 0 then Err OO_InvalidGeneration
      else if invalid_coverage then Err OO_InvalidCoverage
      else if all_zero sha256 then Err OO_UnsignedReadback
      else if invalid_found_identity then Err OO_InvalidObservation
      else Ok \<lparr>sr_binding = binding, sr_readback_generation = readback_generation,
               sr_coverage = coverage, sr_observation = observation,
               sr_signed_readback_sha256 = sha256\<rparr>)"

datatype unresolved_order_reason =
  BindingMismatch | NativeIdentityMismatch | StaleReadbackGeneration | PointLookupNotFound
| IncompleteCollection | UnknownOrderState | IndeterminateReadback

datatype order_outcome_status =
  OutcomeOpen | OutcomeTerminal | ProvenAbsent | Unresolved unresolved_order_reason

record authoritative_order_outcome =
  ao_contract :: unknown_order_contract
  ao_readback :: signed_order_readback
  ao_status :: order_outcome_status

definition classify_status ::
  "unknown_order_contract \<Rightarrow> signed_order_readback \<Rightarrow> order_outcome_status" where
  "classify_status contract readback =
     (if sr_binding readback \<noteq> uc_binding contract then Unresolved BindingMismatch
      else if sr_readback_generation readback \<le> uc_unknown_after_readback_generation contract
      then Unresolved StaleReadbackGeneration
      else
      case sr_observation readback of
        Found native_id _ state \<Rightarrow>
          if native_id \<noteq> ob_native_client_id (uc_binding contract)
          then Unresolved NativeIdentityMismatch
          else if state \<in> {New, PartiallyFilled} then OutcomeOpen
          else if state \<in> {Filled, Cancelled, Expired, Rejected} then OutcomeTerminal
          else Unresolved UnknownOrderState
      | NotFound \<Rightarrow> Unresolved PointLookupNotFound
      | EmptyCollection \<Rightarrow>
          (case sr_coverage readback of
             CompleteFamilyCollection _ _ _ \<Rightarrow> ProvenAbsent
           | ExactIdentity \<Rightarrow> Unresolved PointLookupNotFound
           | IncompleteFamilyCollection _ \<Rightarrow> Unresolved IncompleteCollection)
      | Indeterminate \<Rightarrow> Unresolved IndeterminateReadback)"

definition classify ::
  "unknown_order_contract \<Rightarrow> signed_order_readback \<Rightarrow> authoritative_order_outcome" where
  "classify contract readback =
     \<lparr>ao_contract = contract, ao_readback = readback,
      ao_status = classify_status contract readback\<rparr>"

text \<open>The evidence behind each resolved status.\<close>

lemma classify_status_cases:
  assumes "classify_status contract readback = status"
  obtains
    (refused) reason where "status = Unresolved reason"
  | (found) id exchange_id state where "sr_observation readback = Found id exchange_id state"
      "id = ob_native_client_id (uc_binding contract)" "sr_binding readback = uc_binding contract"
      "uc_unknown_after_readback_generation contract < sr_readback_generation readback"
      "status = (if state \<in> {New, PartiallyFilled} then OutcomeOpen else OutcomeTerminal)"
      "state \<noteq> UnknownState"
  | (absent) pages collected cursor where "sr_observation readback = EmptyCollection"
      "sr_coverage readback = CompleteFamilyCollection pages collected cursor"
      "sr_binding readback = uc_binding contract"
      "uc_unknown_after_readback_generation contract < sr_readback_generation readback"
      "status = ProvenAbsent"
  using assms
  by (auto simp: classify_status_def not_le split: if_splits order_readback_observation.splits
      order_readback_coverage.splits)

end
