(* ===== verification/Domain_Properties.thy ===== *)
theory Domain_Properties
  imports Order_Outcome
begin

text \<open>
  The properties of the shared domain types: a symbol's text names exactly one symbol, an
  admitted command never reverses the position it was checked against and stays readable in
  the journal, and a mutation without an acknowledgement is only resolved by evidence.
\<close>

section \<open>Concrete commands\<close>

definition net_owner :: order_owner where
  "net_owner =
     \<lparr>ow_strategy_instance_id = ''grid-1'', ow_run_id = ''run-1'', ow_exchange = ''gate'',
      ow_account = ''main'', ow_symbol = \<lparr>sym_base = ''BTC'', sym_quote = ''USDT''\<rparr>,
      ow_purpose = Reduce\<rparr>"

definition net_close :: "rat order_command" where
  "net_close =
     \<lparr>oc_command_id = CommandId ''c-1'', oc_client_order_id = CommandId ''o-1'',
      oc_owner = net_owner, oc_side = Sell, oc_position_side = NetSide, oc_quantity = 3,
      oc_limit_price = Price 100, oc_time_in_force = PostOnly, oc_reduce_only = True\<rparr>"

definition net_long :: "rat position" where
  "net_long =
     \<lparr>po_symbol = \<lparr>sym_base = ''BTC'', sym_quote = ''USDT''\<rparr>, po_side = NetSide,
      po_quantity = 5, po_entry_price = None, po_mark_price = None\<rparr>"

lemma net_close_admitted: "admitted rat_api (PlaceLimit net_close) net_long"
  by code_simp

definition outcome_binding :: order_outcome_binding where
  "outcome_binding =
     \<lparr>ob_command_id = CommandId ''c-1'', ob_native_client_id = CommandId ''o-1'',
      ob_native_order_family = UmOrder, ob_owner = net_owner\<rparr>"

lemma outcome_binding_of_close:
  "binding_from_command (PlaceLimit net_close) = Ok outcome_binding"
  by code_simp

section \<open>Commands\<close>

text \<open>
  C4: A command admitted against the authoritative position trades a positive quantity of that
  position's symbol.  In Net mode no fill of it, partial or complete, takes the position through
  zero: a reduction shrinks the position by exactly what is traded and an opening grows it by as
  much.  In Hedge mode the side is the one that reduces the leg exactly when the command is
  meant to reduce.
\<close>

theorem admitted_command_never_reverses:
  assumes "dec_sign_laws D" and "admitted D c p" and "trade_terms c = Some (side, quantity)"
    and "0 \<le> traded" and "traded \<le> dec_value D quantity"
  shows "let held = dec_value D (po_quantity p); now = after_trade side held traded in
    ow_symbol (mutation_owner c) = po_symbol p \<and> 0 < dec_value D quantity
    \<and> (case po_side p of
         NetSide \<Rightarrow> 0 \<le> held * now
           \<and> \<bar>now\<bar> = (if meant_to_reduce c then \<bar>held\<bar> - traded else \<bar>held\<bar> + traded)
       | LongSide \<Rightarrow> side = (if meant_to_reduce c then Sell else Buy)
       | ShortSide \<Rightarrow> side = (if meant_to_reduce c then Buy else Sell))"
  using admitted_terms [OF assms(1-3)] quantity_valid_pos [OF assms(1)]
    net_direction_trade [OF _ assms(4,5), of "meant_to_reduce c" side]
  by (auto simp: admissible_def Let_def split: position_side.splits)

theorem admitted_command_never_reverses_witness:
  "\<bar>after_trade Sell 5 2\<bar> = 5 - (2 :: rat)"
  using admitted_command_never_reverses [OF rat_sign_laws net_close_admitted, of Sell 3 2]
  by (simp add: net_close_def net_long_def Let_def)

text \<open>
  C40: What was admitted stays readable: a command that passed its validation, with or without
  a position, passes the check a journal makes when it replays it.
\<close>

theorem journal_accepts_admitted:
  assumes "command_validate D c = Ok () \<or> admitted D c p"
  shows "validate_persisted_shape D c = Ok ()"
  using assms by (cases c) (auto simp: command_shape_defs outcome_simps split: if_splits)

theorem journal_accepts_admitted_witness:
  "validate_persisted_shape rat_api (PlaceLimit net_close) = Ok ()"
  by (rule journal_accepts_admitted [OF disjI2 [OF net_close_admitted]])

section \<open>Orders without an acknowledgement\<close>

text \<open>
  C16: An unknown mutation is resolved only by a readback of its own binding, newer than the one
  it became unknown after.  Absence is proved only by an empty and complete collection, with at
  least one page and both commitments; an outcome is terminal only for an order found under the
  mutation's own native identity, in a final state.
\<close>

theorem outcome_rests_on_evidence:
  assumes "readback_verified binding generation coverage observation sha = Ok readback"
    and "ao_status (classify contract readback) = status" and "status \<notin> range Unresolved"
  shows "binding = uc_binding contract
    \<and> uc_unknown_after_readback_generation contract < generation
    \<and> \<not> all_zero sha
    \<and> (if status = ProvenAbsent
       then observation = EmptyCollection
         \<and> (\<exists>pages collected cursor. coverage = CompleteFamilyCollection pages collected cursor
              \<and> pages \<noteq> 0 \<and> \<not> all_zero collected \<and> \<not> all_zero cursor)
       else \<exists>order_id state.
         observation = Found (ob_native_client_id (uc_binding contract)) order_id state
         \<and> trim order_id \<noteq> []
         \<and> (if status = OutcomeOpen then state \<in> {New, PartiallyFilled}
            else state \<in> {Filled, Cancelled, Expired, Rejected}))"
proof -
  have fields: "sr_binding readback = binding" "sr_readback_generation readback = generation"
      "sr_coverage readback = coverage" "sr_observation readback = observation"
    and checks: "\<not> all_zero sha"
      "case coverage of CompleteFamilyCollection pages collected cursor \<Rightarrow>
         pages \<noteq> 0 \<and> \<not> all_zero collected \<and> \<not> all_zero cursor | _ \<Rightarrow> True"
      "case observation of Found _ order_id _ \<Rightarrow> trim order_id \<noteq> [] | _ \<Rightarrow> True"
    using assms(1)
    by (auto simp: readback_verified_def Let_def split: if_splits order_readback_coverage.splits
        order_readback_observation.splits)
  have "classify_status contract readback = status" using assms(2) by (simp add: classify_def)
  then show ?thesis
  proof (cases rule: classify_status_cases)
    case (refused reason)
    then show ?thesis using assms(3) by auto
  next
    case (found id exchange_id state)
    then show ?thesis using fields checks by (cases state) (auto split: if_splits)
  next
    case (absent pages collected cursor)
    then show ?thesis using fields checks by auto
  qed
qed

theorem outcome_rests_on_evidence_witness:
  "\<exists>readback. readback_verified outcome_binding 5 (CompleteFamilyCollection 1 [1] [2])
       EmptyCollection [3] = Ok readback
     \<and> ao_status (classify \<lparr>uc_binding = outcome_binding,
          uc_unknown_after_readback_generation = 4\<rparr> readback) = ProvenAbsent
     \<and> \<not> all_zero [3]"
proof -
  let ?c = "\<lparr>uc_binding = outcome_binding, uc_unknown_after_readback_generation = 4\<rparr>"
  obtain r where r: "readback_verified outcome_binding 5 (CompleteFamilyCollection 1 [1] [2])
      EmptyCollection [3] = Ok r"
    by (simp add: readback_verified_def all_zero_def)
  then have absent: "ao_status (classify ?c r) = ProvenAbsent"
    by (auto simp: readback_verified_def all_zero_def classify_def classify_status_def)
  from outcome_rests_on_evidence [OF r absent] r absent show ?thesis by auto
qed

section \<open>Symbols\<close>

text \<open>
  A symbol's text is canonical: whatever spelling it was parsed from, printing the symbol
  and parsing the text again gives the same symbol, and two symbols that were parsed are equal
  exactly when their texts are.
\<close>

theorem symbol_text_roundtrip:
  assumes "symbol_from_str raw = Ok s" and "symbol_from_str raw' = Ok t"
  shows "symbol_from_str (symbol_to_string s) = Ok s
    \<and> (symbol_to_string s = symbol_to_string t \<longleftrightarrow> s = t)
    \<and> sym_base s \<noteq> sym_quote s"
proof (intro conjI iffI)
  note s = symbol_from_str_ok [OF assms(1)] and t = symbol_from_str_ok [OF assms(2)]
  show "symbol_from_str (symbol_to_string s) = Ok s" by (rule symbol_roundtrip [OF s])
  show "s = t" if "symbol_to_string s = symbol_to_string t"
    using symbol_roundtrip [OF s] unfolding that symbol_roundtrip [OF t] by simp
  show "symbol_to_string s = symbol_to_string t" if "s = t" by (simp only: that)
  show "sym_base s \<noteq> sym_quote s" using s by (simp add: symbol_ok_def)
qed

theorem symbol_text_roundtrip_witness:
  "symbol_from_str (symbol_to_string \<lparr>sym_base = ''BTC'', sym_quote = ''USDT''\<rparr>)
     = Ok \<lparr>sym_base = ''BTC'', sym_quote = ''USDT''\<rparr>"
proof -
  let ?s = "\<lparr>sym_base = ''BTC'', sym_quote = ''USDT''\<rparr>"
  have "symbol_ok ?s" by code_simp
  then have parsed: "symbol_from_str (symbol_to_string ?s) = Ok ?s" by (rule symbol_roundtrip)
  show ?thesis by (rule conjunct1 [OF symbol_text_roundtrip [OF parsed parsed]])
qed

end
