(* ===== verification/Contracts.thy ===== *)
theory Contracts
  imports Prelude
begin

text \<open>
  The interfaces several components share, as locales: a half-open validity window, a
  fallible state machine with an invariant, a machine whose events are idempotent, and a
  log that remembers what it applied.  Each component's theory interprets them on its own
  operations.
\<close>

section \<open>Validity windows\<close>

text \<open>
  Evidence that is usable from its observation time (inclusive) to its expiry (exclusive).
\<close>

locale validity_window =
  fixes usable :: "'s \<Rightarrow> u64 \<Rightarrow> bool"
    and opens :: "'s \<Rightarrow> u64"
    and closes :: "'s \<Rightarrow> u64"
  assumes usable_bounds: "usable s t \<Longrightarrow> opens s \<le> t \<and> t < closes s"
    and usable_within: "usable s t \<Longrightarrow> opens s \<le> u \<Longrightarrow> u < closes s \<Longrightarrow> usable s u"
begin

lemma not_before: "t < opens s \<Longrightarrow> \<not> usable s t"
  using usable_bounds by (meson not_le)

lemma not_after: "closes s \<le> t \<Longrightarrow> \<not> usable s t"
  using usable_bounds by (meson not_le)

lemma convex:
  assumes "usable s t" and "usable s v" and "t \<le> u" and "u \<le> v"
  shows "usable s u"
  using usable_bounds [OF assms(1)] usable_bounds [OF assms(2)] assms
  by (intro usable_within [OF assms(1)]) auto

lemma expiry_is_final:
  assumes "usable s t" and "t \<le> u" and "\<not> usable s u" and "u \<le> v"
  shows "\<not> usable s v"
  using convex [OF assms(1)] assms(2-4) by blast

end

section \<open>Fallible state machines\<close>

text \<open>
  A step either fails and leaves the state as it was, or returns the next state with an
  output.  \<open>run\<close> applies a list of events and keeps going after a failure, as a caller
  that reports the error and continues does.
\<close>

definition step_or_stay :: "('s \<Rightarrow> 'e \<Rightarrow> ('s \<times> 'o, 'f) outcome) \<Rightarrow> 's \<Rightarrow> 'e \<Rightarrow> 's" where
  "step_or_stay step s e = (case step s e of Ok (s', _) \<Rightarrow> s' | _ \<Rightarrow> s)"

definition run :: "('s \<Rightarrow> 'e \<Rightarrow> ('s \<times> 'o, 'f) outcome) \<Rightarrow> 's \<Rightarrow> 'e list \<Rightarrow> 's" where
  "run step s es = foldl (step_or_stay step) s es"

lemma run_Nil [simp]: "run step s [] = s"
  by (simp add: run_def)

lemma run_Cons [simp]: "run step s (e # es) = run step (step_or_stay step s e) es"
  by (simp add: run_def)

lemma run_append: "run step s (es @ fs) = run step (run step s es) fs"
  by (simp add: run_def)

locale guarded_machine =
  fixes step :: "'s \<Rightarrow> 'e \<Rightarrow> ('s \<times> 'o, 'f) outcome"
    and inv :: "'s \<Rightarrow> bool"
  assumes step_inv: "inv s \<Longrightarrow> step s e = Ok (s', out) \<Longrightarrow> inv s'"
begin

lemma stay_inv: "inv s \<Longrightarrow> inv (step_or_stay step s e)"
  by (auto simp: step_or_stay_def split: outcome.splits dest: step_inv)

lemma run_inv: "inv s \<Longrightarrow> inv (run step s es)"
  by (induction es arbitrary: s) (auto intro: stay_inv)

end

text \<open>
  A machine whose operations mutate the state in place: the state may have changed even when
  the operation reports an error, so the invariant has to survive both ends.
\<close>

definition run_in_place :: "('s \<Rightarrow> 'e \<Rightarrow> 's \<times> ('o, 'f) outcome) \<Rightarrow> 's \<Rightarrow> 'e list \<Rightarrow> 's" where
  "run_in_place step s es = foldl (\<lambda>s e. fst (step s e)) s es"

lemma run_in_place_simps [simp]:
  "run_in_place step s [] = s"
  "run_in_place step s (e # es) = run_in_place step (fst (step s e)) es"
  by (simp_all add: run_in_place_def)

locale mutating_machine =
  fixes step :: "'s \<Rightarrow> 'e \<Rightarrow> 's \<times> ('o, 'f) outcome"
    and inv :: "'s \<Rightarrow> bool"
    and below :: "'s \<Rightarrow> 's \<Rightarrow> bool"
  assumes mutate_inv: "inv s \<Longrightarrow> inv (fst (step s e))"
    and mutate_below: "inv s \<Longrightarrow> below s (fst (step s e))"
    and below_refl: "below s s"
    and below_trans: "below s t \<Longrightarrow> below t u \<Longrightarrow> below s u"
begin

lemma run_in_place_inv: "inv s \<Longrightarrow> inv (run_in_place step s es)"
  by (induction es arbitrary: s) (auto intro: mutate_inv)

lemma run_in_place_below: "inv s \<Longrightarrow> below s (run_in_place step s es)"
  by (induction es arbitrary: s) (auto intro: mutate_inv mutate_below below_refl below_trans)

end

datatype applied = Advanced | NoOp

text \<open>
  An event that was applied can be delivered again without effect: at-least-once delivery
  is safe for the event delivered last.
\<close>

locale idempotent_machine = guarded_machine step inv
  for step :: "'s \<Rightarrow> 'e \<Rightarrow> ('s \<times> applied, 'f) outcome" and inv +
  assumes noop_stays: "step s e = Ok (s', NoOp) \<Longrightarrow> s' = s"
    and replay: "inv s \<Longrightarrow> step s e = Ok (s', out) \<Longrightarrow> step s' e = Ok (s', NoOp)"
begin

lemma redelivery:
  assumes "inv s" and "step s e = Ok (s', out)"
  shows "run step s [e, e] = run step s [e]"
  using assms replay [OF assms] by (simp add: step_or_stay_def)

lemma redelivery_any:
  assumes "inv s" and "step s e = Ok (s', out)"
  shows "run step s (e # replicate n e) = s'"
proof -
  have "run step s' (replicate n e) = s'"
    using replay [OF assms] by (induction n) (simp_all add: step_or_stay_def)
  then show ?thesis using assms(2) by (simp add: step_or_stay_def)
qed

end

text \<open>A log that also remembers every earlier event: any prefix may be replayed.\<close>

locale retaining_log = idempotent_machine step inv
  for step :: "'s \<Rightarrow> 'e \<Rightarrow> ('s \<times> applied, 'f) outcome" and inv +
  assumes retains: "inv s \<Longrightarrow> step s d = Ok (s, NoOp) \<Longrightarrow> step s e = Ok (s', out) \<Longrightarrow>
    step s' d = Ok (s', NoOp)"
begin

lemma retains_stay:
  assumes "inv s" and "step s d = Ok (s, NoOp)"
  shows "step (step_or_stay step s e) d = Ok (step_or_stay step s e, NoOp)"
  using assms by (auto simp: step_or_stay_def split: outcome.splits dest: retains)

lemma retains_run:
  assumes "inv s" and "step s d = Ok (s, NoOp)"
  shows "step (run step s es) d = Ok (run step s es, NoOp)"
  using assms by (induction es arbitrary: s) (auto intro: retains_stay stay_inv)

lemma replayed_later:
  assumes "inv s" and "step s e = Ok (s', out)"
  shows "step (run step s' es) e = Ok (run step s' es, NoOp)"
  using step_inv [OF assms] replay [OF assms] by (rule retains_run)

end

end
