(* ===== verification/Instruments.thy ===== *)
theory Instruments
  imports Domain Contracts
begin

text \<open>
  Instrument metadata of \<open>crates/venue-domain/src/domain/instrument.rs\<close>: quantity and
  price precision, contract lots, the conversions between quantity and quote notional,
  and the generation- and time-bounded snapshot that callers must require before use.
\<close>

section \<open>Instrument and its identity\<close>

datatype market_kind = Spot | LinearPerpetual

record 'd instrument =
  in_symbol :: symbol
  in_market :: market_kind
  in_settlement_asset :: "asset option"
  in_generation :: u64
  in_price_tick :: "'d price"
  in_quantity_step :: 'd
  in_minimum_notional :: "'d amount"

datatype instrument_error =
  IE_Generation | IE_QuantityStep | IE_MinimumNotional | IE_SettlementAsset

definition instrument_validate ::
  "'d decimal_api \<Rightarrow> 'd instrument \<Rightarrow> (unit, instrument_error) outcome" where
  "instrument_validate D i =
     (if in_generation i = 0 then Err IE_Generation
      else if dec_sign_negative D (in_quantity_step i) \<or> dec_is_zero D (in_quantity_step i)
      then Err IE_QuantityStep
      else if dec_sign_negative D (am_value (in_minimum_notional i)) then Err IE_MinimumNotional
      else if in_market i = LinearPerpetual \<and> in_settlement_asset i = None
      then Err IE_SettlementAsset
      else Ok ())"

record instrument_identity =
  ii_symbol :: symbol
  ii_market :: market_kind
  ii_settlement_asset :: "asset option"

definition instrument_identity_of :: "'d instrument \<Rightarrow> instrument_identity" where
  "instrument_identity_of i =
     \<lparr>ii_symbol = in_symbol i, ii_market = in_market i,
      ii_settlement_asset = in_settlement_asset i\<rparr>"

section \<open>Precision\<close>

datatype instrument_value_error =
  VE_Precision | VE_Contract | VE_PriceRequired | VE_Quantity | VE_Notional | VE_NotionalAsset
| VE_TradingDisabled | VE_Metadata | VE_Overflow

record 'd precision =
  pr_step :: 'd
  pr_minimum :: 'd

definition precision_validate ::
  "'d decimal_api \<Rightarrow> 'd precision \<Rightarrow> (unit, instrument_value_error) outcome" where
  "precision_validate D p =
     (if \<not> dec_positive D (pr_step p) \<or> dec_negative D (pr_minimum p) then Err VE_Precision
      else Ok ())"

definition precision_new ::
  "'d decimal_api \<Rightarrow> 'd \<Rightarrow> 'd \<Rightarrow> ('d precision, instrument_value_error) outcome" where
  "precision_new D step minimum =
     (let value = \<lparr>pr_step = step, pr_minimum = minimum\<rparr>
      in and_then (precision_validate D value) (\<lambda>_. Ok value))"

text \<open>The derived \<open>PartialEq\<close> of \<open>Precision\<close>.\<close>

definition precision_eq :: "'d decimal_api \<Rightarrow> 'd precision \<Rightarrow> 'd precision \<Rightarrow> bool" where
  "precision_eq D a b \<longleftrightarrow>
     dec_eq D (pr_step a) (pr_step b) \<and> dec_eq D (pr_minimum a) (pr_minimum b)"

definition precision_accepts ::
  "'d decimal_api \<Rightarrow> 'd precision \<Rightarrow> 'd \<Rightarrow> (bool, instrument_value_error) outcome" where
  "precision_accepts D p value =
     and_then (precision_validate D p) (\<lambda>_.
       and_also (Ok (dec_le D (pr_minimum p) value))
         (and_then (or_panic (dec_rem D value (pr_step p))) (\<lambda>r. Ok (dec_is_zero D r))))"

definition precision_floor ::
  "'d decimal_api \<Rightarrow> 'd precision \<Rightarrow> 'd \<Rightarrow> ('d, instrument_value_error) outcome" where
  "precision_floor D p value =
     and_then (precision_validate D p) (\<lambda>_.
       if dec_negative D value then Err VE_Quantity
       else and_then (or_panic (dec_rem D value (pr_step p))) (\<lambda>r.
              or_panic (dec_sub D value r)))"

section \<open>Contract lots\<close>

datatype value_unit = BaseUnit | QuoteUnit

record 'd contract_spec =
  ct_value_per_lot :: 'd
  ct_value_unit :: value_unit
  ct_lots :: "'d precision"

definition contract_validate ::
  "'d decimal_api \<Rightarrow> 'd contract_spec \<Rightarrow> (unit, instrument_value_error) outcome" where
  "contract_validate D c =
     and_then (precision_validate D (ct_lots c)) (\<lambda>_.
       if \<not> dec_positive D (ct_value_per_lot c) then Err VE_Contract else Ok ())"

definition contract_new ::
  "'d decimal_api \<Rightarrow> 'd \<Rightarrow> value_unit \<Rightarrow> 'd precision
   \<Rightarrow> ('d contract_spec, instrument_value_error) outcome" where
  "contract_new D value_per_lot unit lots =
     (let value = \<lparr>ct_value_per_lot = value_per_lot, ct_value_unit = unit, ct_lots = lots\<rparr>
      in and_then (contract_validate D value) (\<lambda>_. Ok value))"

definition required_price :: "'d price option \<Rightarrow> ('d, instrument_value_error) outcome" where
  "required_price price = ok_or VE_PriceRequired (map_option price_value price)"

definition contract_quote_notional ::
  "'d decimal_api \<Rightarrow> 'd contract_spec \<Rightarrow> 'd \<Rightarrow> 'd price option
   \<Rightarrow> ('d, instrument_value_error) outcome" where
  "contract_quote_notional D c lots price =
     and_then (contract_validate D c) (\<lambda>_.
     and_then (or_else (Ok (dec_negative D lots))
                 (and_then (precision_accepts D (ct_lots c) lots) (\<lambda>ok. Ok (\<not> ok)))) (\<lambda>bad.
       if bad then Err VE_Quantity
       else and_then (ok_or VE_Overflow (dec_mul D lots (ct_value_per_lot c))) (\<lambda>value.
         case ct_value_unit c of
           QuoteUnit \<Rightarrow> Ok value
         | BaseUnit \<Rightarrow> and_then (required_price price) (\<lambda>p.
             ok_or VE_Overflow (dec_mul D value p)))))"

definition contract_lots_for_quote_notional ::
  "'d decimal_api \<Rightarrow> 'd contract_spec \<Rightarrow> 'd \<Rightarrow> 'd price option
   \<Rightarrow> ('d, instrument_value_error) outcome" where
  "contract_lots_for_quote_notional D c notional price =
     and_then (contract_validate D c) (\<lambda>_.
       if dec_negative D notional then Err VE_Notional
       else and_then (case ct_value_unit c of
                QuoteUnit \<Rightarrow> Ok (ct_value_per_lot c)
              | BaseUnit \<Rightarrow> and_then (required_price price) (\<lambda>p.
                  ok_or VE_Overflow (dec_mul D (ct_value_per_lot c) p))) (\<lambda>divisor.
            and_then (ok_or VE_Overflow (dec_div D notional divisor)) (\<lambda>raw.
            and_then (precision_floor D (ct_lots c) raw) (\<lambda>lots.
            and_then (precision_accepts D (ct_lots c) lots) (\<lambda>ok.
              if \<not> ok then Err VE_Quantity else Ok lots)))))"

section \<open>Metadata\<close>

record 'd instrument_metadata =
  md_instrument :: "'d instrument"
  md_price :: "'d precision"
  md_quantity :: "'d precision"
  md_contract :: "'d contract_spec option"
  md_trading_enabled :: bool

datatype instrument_metadata_error =
  ME_Instrument | ME_PricePrecision | ME_QuantityPrecision | ME_NotionalAsset | ME_Market
| ME_Contract | ME_ContractQuantity

definition metadata_identity :: "'d instrument_metadata \<Rightarrow> instrument_identity" where
  "metadata_identity m = instrument_identity_of (md_instrument m)"

definition metadata_validate ::
  "'d decimal_api \<Rightarrow> 'd instrument_metadata \<Rightarrow> (unit, instrument_metadata_error) outcome" where
  "metadata_validate D m =
     (let i = md_instrument m in
      and_then (map_err (\<lambda>_. ME_Instrument) (instrument_validate D i)) (\<lambda>_.
      and_then (map_err (\<lambda>_. ME_PricePrecision) (precision_validate D (md_price m))) (\<lambda>_.
      and_then (map_err (\<lambda>_. ME_QuantityPrecision) (precision_validate D (md_quantity m))) (\<lambda>_.
        if \<not> dec_positive D (pr_minimum (md_price m))
           \<or> \<not> dec_eq D (pr_step (md_price m)) (price_value (in_price_tick i))
        then Err ME_PricePrecision
        else if \<not> dec_positive D (pr_minimum (md_quantity m))
           \<or> \<not> dec_eq D (pr_step (md_quantity m)) (in_quantity_step i)
        then Err ME_QuantityPrecision
        else if asset_str (am_asset (in_minimum_notional i)) \<noteq> sym_quote (in_symbol i)
        then Err ME_NotionalAsset
        else and_then
          (case in_market i of
             Spot \<Rightarrow> (if in_settlement_asset i \<noteq> None \<or> md_contract m \<noteq> None
                      then Err ME_Market else Ok ())
           | LinearPerpetual \<Rightarrow>
               (if (case in_settlement_asset i of None \<Rightarrow> True
                    | Some a \<Rightarrow> asset_str a \<noteq> sym_quote (in_symbol i))
                then Err ME_Market else Ok ())) (\<lambda>_.
          case md_contract m of
            None \<Rightarrow> Ok ()
          | Some c \<Rightarrow>
              and_then (map_err (\<lambda>_. ME_Contract) (contract_validate D c)) (\<lambda>_.
                if \<not> precision_eq D (ct_lots c) (md_quantity m) then Err ME_ContractQuantity
                else Ok ()))))))"

definition metadata_new ::
  "'d decimal_api \<Rightarrow> 'd instrument \<Rightarrow> 'd precision \<Rightarrow> 'd precision \<Rightarrow> 'd contract_spec option \<Rightarrow> bool
   \<Rightarrow> ('d instrument_metadata, instrument_metadata_error) outcome" where
  "metadata_new D instrument price quantity contract trading_enabled =
     (let value = \<lparr>md_instrument = instrument, md_price = price, md_quantity = quantity,
                   md_contract = contract, md_trading_enabled = trading_enabled\<rparr>
      in and_then (metadata_validate D value) (\<lambda>_. Ok value))"

definition metadata_quote_notional ::
  "'d decimal_api \<Rightarrow> 'd instrument_metadata \<Rightarrow> 'd \<Rightarrow> 'd price option
   \<Rightarrow> ('d amount, instrument_value_error) outcome" where
  "metadata_quote_notional D m quantity price =
     and_then (map_err (\<lambda>_. VE_Metadata) (metadata_validate D m)) (\<lambda>_.
       if \<not> md_trading_enabled m then Err VE_TradingDisabled
       else and_then (or_else (Ok (\<not> dec_positive D quantity))
              (and_then (precision_accepts D (md_quantity m) quantity) (\<lambda>ok. Ok (\<not> ok)))) (\<lambda>bad.
         if bad then Err VE_Quantity
         else and_then (case md_contract m of
                  Some c \<Rightarrow> contract_quote_notional D c quantity price
                | None \<Rightarrow> and_then (required_price price) (\<lambda>p.
                    ok_or VE_Overflow (dec_mul D quantity p))) (\<lambda>value.
           let minimum = in_minimum_notional (md_instrument m) in
           if dec_less D value (am_value minimum) then Err VE_Notional
           else Ok (amount_new (am_asset minimum) value))))"

definition metadata_quantity_for_quote_notional ::
  "'d decimal_api \<Rightarrow> 'd instrument_metadata \<Rightarrow> 'd amount \<Rightarrow> 'd price option
   \<Rightarrow> ('d, instrument_value_error) outcome" where
  "metadata_quantity_for_quote_notional D m notional price =
     and_then (map_err (\<lambda>_. VE_Metadata) (metadata_validate D m)) (\<lambda>_.
       let minimum = in_minimum_notional (md_instrument m) in
       if \<not> md_trading_enabled m then Err VE_TradingDisabled
       else if am_asset notional \<noteq> am_asset minimum then Err VE_NotionalAsset
       else if \<not> dec_positive D (am_value notional)
         \<or> dec_less D (am_value notional) (am_value minimum)
       then Err VE_Notional
       else and_then (case md_contract m of
                Some c \<Rightarrow> contract_lots_for_quote_notional D c (am_value notional) price
              | None \<Rightarrow>
                  and_then (required_price price) (\<lambda>p.
                  and_then (ok_or VE_Overflow (dec_div D (am_value notional) p)) (\<lambda>raw.
                    precision_floor D (md_quantity m) raw))) (\<lambda>quantity.
         and_then (or_else (Ok (\<not> dec_positive D quantity))
              (and_then (precision_accepts D (md_quantity m) quantity) (\<lambda>ok. Ok (\<not> ok)))) (\<lambda>bad.
           if bad then Err VE_Quantity
           else and_then (metadata_quote_notional D m quantity price) (\<lambda>n.
             if dec_less D (am_value n) (am_value minimum) then Err VE_Notional
             else Ok quantity))))"

section \<open>Snapshots\<close>

record 'd instrument_snapshot =
  sn_metadata :: "'d instrument_metadata"
  sn_observed_at_ms :: u64
  sn_expires_at_ms :: u64

datatype instrument_snapshot_error =
  SE_Metadata | SE_ObservationTime | SE_InvalidWindow | SE_IdentityMismatch | SE_GenerationMismatch
| SE_NotYetObserved | SE_Expired | SE_TradingDisabled

definition snapshot_validate ::
  "'d decimal_api \<Rightarrow> 'd instrument_snapshot \<Rightarrow> (unit, instrument_snapshot_error) outcome" where
  "snapshot_validate D s =
     and_then (map_err (\<lambda>_. SE_Metadata) (metadata_validate D (sn_metadata s))) (\<lambda>_.
       if sn_observed_at_ms s = 0 then Err SE_ObservationTime
       else if sn_expires_at_ms s \<le> sn_observed_at_ms s then Err SE_InvalidWindow
       else Ok ())"

definition snapshot_new ::
  "'d decimal_api \<Rightarrow> 'd instrument_metadata \<Rightarrow> u64 \<Rightarrow> u64
   \<Rightarrow> ('d instrument_snapshot, instrument_snapshot_error) outcome" where
  "snapshot_new D metadata observed_at_ms expires_at_ms =
     (let value = \<lparr>sn_metadata = metadata, sn_observed_at_ms = observed_at_ms,
                   sn_expires_at_ms = expires_at_ms\<rparr>
      in and_then (snapshot_validate D value) (\<lambda>_. Ok value))"

definition snapshot_require ::
  "'d decimal_api \<Rightarrow> 'd instrument_snapshot \<Rightarrow> instrument_identity \<Rightarrow> u64 \<Rightarrow> u64
   \<Rightarrow> ('d instrument_metadata, instrument_snapshot_error) outcome" where
  "snapshot_require D s expected_identity expected_generation now_ms =
     and_then (snapshot_validate D s) (\<lambda>_.
       if metadata_identity (sn_metadata s) \<noteq> expected_identity then Err SE_IdentityMismatch
       else if in_generation (md_instrument (sn_metadata s)) \<noteq> expected_generation
       then Err SE_GenerationMismatch
       else if now_ms < sn_observed_at_ms s then Err SE_NotYetObserved
       else if sn_expires_at_ms s \<le> now_ms then Err SE_Expired
       else if \<not> md_trading_enabled (sn_metadata s) then Err SE_TradingDisabled
       else Ok (sn_metadata s))"

section \<open>What successful conversions guarantee\<close>

definition precision_ok :: "'d decimal_api \<Rightarrow> 'd precision \<Rightarrow> rat \<Rightarrow> bool" where
  "precision_ok D p v \<longleftrightarrow>
     0 < dec_value D (pr_step p) \<and> 0 \<le> dec_value D (pr_minimum p)
     \<and> dec_value D (pr_minimum p) \<le> v \<and> multiple_of (dec_value D (pr_step p)) v"

lemma precision_validate_Ok:
  "precision_validate D p = Ok u \<longleftrightarrow> 0 < dec_value D (pr_step p) \<and> 0 \<le> dec_value D (pr_minimum p)"
  by (auto simp: precision_validate_def dec_rel_defs not_less)

lemma precision_accepts_ok:
  assumes "dec_rem_laws D" and "precision_accepts D p v = Ok True"
  shows "precision_ok D p (dec_value D v)"
  using assms
  by (auto simp: precision_accepts_def outcome_simps and_also_True precision_validate_Ok
      precision_ok_def dec_le_def dec_is_zero_def intro: rem_zero_multiple)

text \<open>
  Flooring a number bounded by one on the step's scale is exact, and stays on the scale.
\<close>

lemma precision_floor_exact:
  assumes laws: "dec_rem_laws D" "dec_exact_laws D"
    and ok: "precision_floor D p v = Ok q"
    and step: "on_scale s (dec_value D (pr_step p))"
    and bound: "dec_value D v \<le> b" "on_scale s b"
  shows "0 \<le> dec_value D q" and "dec_value D q \<le> dec_value D v" and "on_scale s (dec_value D q)"
    and "multiple_of (dec_value D (pr_step p)) (dec_value D q)"
    and "dec_value D v < dec_value D q + dec_value D (pr_step p)"
proof -
  let ?v = "dec_value D v" and ?st = "dec_value D (pr_step p)"
  obtain r where st: "0 < ?st" and v: "0 \<le> ?v" and r: "dec_rem D v (pr_step p) = Some r"
      and q: "dec_sub D v r = Some q"
    using ok by (auto simp: precision_floor_def precision_validate_def outcome_simps dec_positive_def
        dec_negative_def split: if_splits)
  define k where "k = trunc_rat (?v / ?st)"
  have rv: "dec_value D r = ?v - ?st * of_int k"
    using dec_rem_Some [OF laws(1) r] by (simp add: k_def)
  note rb = dec_rem_bounds [OF laws(1) r v st]
  obtain m :: int where m: "?st = of_int m / 10 ^ s" using step by (auto simp: on_scale_def)
  have diff: "?v - dec_value D r = of_int (m * k) / 10 ^ s" by (simp add: rv m)
  have "\<bar>?v - dec_value D r\<bar> \<le> \<bar>b\<bar>" using rb v bound(1) by simp
  then have sc: "on_scale s (?v - dec_value D r)" by (rule on_scale_bounded [OF bound(2) _ diff])
  have qv: "dec_value D q = ?v - dec_value D r"
    using dec_sub_exact [OF laws(2) q on_scale_representable [OF sc]] .
  show "0 \<le> dec_value D q" "dec_value D q \<le> ?v" "on_scale s (dec_value D q)"
      "?v < dec_value D q + ?st"
    using rb sc by (simp_all add: qv)
  show "multiple_of ?st (dec_value D q)"
    unfolding multiple_of_def qv rv by (rule exI [of _ k]) (simp add: mult.commute)
qed

lemma minimum_notional_nonneg:
  assumes "dec_sign_laws D" and "metadata_validate D m = Ok ()"
  shows "0 \<le> dec_value D (am_value (in_minimum_notional (md_instrument m)))"
proof -
  have "is_ok (instrument_validate D (md_instrument m))"
    using assms(2) by (auto simp: metadata_validate_def Let_def and_then_Ok map_err_Ok is_ok_iff
        simp del: split_paired_Ex)
  then have "\<not> dec_sign_negative D (am_value (in_minimum_notional (md_instrument m)))"
    by (auto simp: instrument_validate_def split: if_splits)
  then show ?thesis by (rule dec_sign_positive [OF assms(1)])
qed

text \<open>The quote value of a quantity or lot count, before any rounding.\<close>

definition notional_of ::
  "'d decimal_api \<Rightarrow> 'd instrument_metadata \<Rightarrow> 'd \<Rightarrow> 'd price option \<Rightarrow> 'd \<Rightarrow> bool" where
  "notional_of D m quantity price value \<longleftrightarrow>
     (case md_contract m of
        None \<Rightarrow> (\<exists>p. price = Some p \<and> dec_mul D quantity (price_value p) = Some value)
      | Some c \<Rightarrow> (\<exists>v. dec_mul D quantity (ct_value_per_lot c) = Some v
          \<and> (case ct_value_unit c of
               QuoteUnit \<Rightarrow> value = v
             | BaseUnit \<Rightarrow> (\<exists>p. price = Some p \<and> dec_mul D v (price_value p) = Some value))))"

lemma required_price_Ok: "required_price price = Ok p \<longleftrightarrow> (\<exists>q. price = Some q \<and> price_value q = p)"
  by (auto simp: required_price_def outcome_simps)

lemma contract_quote_notional_value:
  assumes "contract_quote_notional D c quantity price = Ok value"
  shows "\<exists>v. dec_mul D quantity (ct_value_per_lot c) = Some v
    \<and> (case ct_value_unit c of QuoteUnit \<Rightarrow> value = v
       | BaseUnit \<Rightarrow> (\<exists>p. price = Some p \<and> dec_mul D v (price_value p) = Some value))"
  using assms
  by (auto simp: contract_quote_notional_def outcome_simps required_price_Ok
      split: if_splits value_unit.splits)

text \<open>
  A quote notional is only given for a tradable, on-step, positive quantity, is the product
  the contract or price defines, and is at least the venue's minimum.
\<close>

lemma metadata_quote_notional_Ok:
  assumes "dec_rem_laws D" and "metadata_quote_notional D m quantity price = Ok n"
  shows "metadata_validate D m = Ok () \<and> md_trading_enabled m
    \<and> 0 < dec_value D quantity \<and> precision_ok D (md_quantity m) (dec_value D quantity)
    \<and> notional_of D m quantity price (am_value n)
    \<and> dec_value D (am_value (in_minimum_notional (md_instrument m))) \<le> dec_value D (am_value n)
    \<and> am_asset n = am_asset (in_minimum_notional (md_instrument m))"
  using assms(2) precision_accepts_ok [OF assms(1)] contract_quote_notional_value [of D]
  by (auto simp: metadata_quote_notional_def outcome_simps or_else_False negated_Ok Let_def
      notional_of_def required_price_Ok dec_positive_def dec_less_def not_less
      split: if_splits option.splits)

lemma metadata_quantity_for_quote_notional_Ok:
  assumes "metadata_quantity_for_quote_notional D m notional price = Ok q"
  shows "am_asset notional = am_asset (in_minimum_notional (md_instrument m))
    \<and> 0 < dec_value D (am_value notional) \<and> (\<exists>n. metadata_quote_notional D m q price = Ok n)"
  using assms
  by (auto simp: metadata_quantity_for_quote_notional_def outcome_simps Let_def dec_positive_def
      split: if_splits)

lemma snapshot_require_Ok:
  "snapshot_require D s identity generation now = Ok m \<longleftrightarrow>
     snapshot_validate D s = Ok () \<and> metadata_identity (sn_metadata s) = identity
     \<and> in_generation (md_instrument (sn_metadata s)) = generation
     \<and> sn_observed_at_ms s \<le> now \<and> now < sn_expires_at_ms s
     \<and> md_trading_enabled (sn_metadata s) \<and> m = sn_metadata s"
  by (auto simp: snapshot_require_def outcome_simps not_less not_le)

interpretation snapshot_window: validity_window
  "\<lambda>s t. is_ok (snapshot_require D s identity generation t)" sn_observed_at_ms sn_expires_at_ms
  by unfold_locales (auto simp: is_ok_iff snapshot_require_Ok)

end
