(* ===== verification/Copy_Capital.thy ===== *)
theory Copy_Capital
  imports Domain Contracts
begin

text \<open>
  Target exposure of \<open>crates/venue-copy/src/capital.rs\<close>: the leader's exposure ratio,
  scaled by the relation multiplier, applied to the follower's lowest safe capital bound.
\<close>

record 'd capital_snapshot =
  cap_generation :: u64
  cap_observed_ms :: u64
  cap_expires_ms :: u64
  cap_leader_strategy_capital :: "'d amount"
  cap_leader_target_exposure :: "'d amount"
  cap_follower_configured_capital :: "'d amount"
  cap_follower_allocated_capital :: "'d amount"
  cap_follower_available_margin :: "'d amount"
  cap_follower_managed_exposure :: "'d amount"
  cap_margin_safety_reserve_rate :: 'd

record 'd target_exposure_request =
  te_expected_generation :: u64
  te_now_ms :: u64
  te_snapshot :: "'d capital_snapshot"

record 'd target_exposure_plan =
  tp_snapshot_generation :: u64
  tp_exposure_ratio :: 'd
  tp_safe_available_margin :: "'d amount"
  tp_effective_follower_capital :: "'d amount"
  tp_target_exposure :: "'d amount"
  tp_delta_exposure :: "'d amount"

datatype target_exposure_error =
  TE_InvalidMultiplier | TE_InvalidGeneration | TE_GenerationMismatch | TE_InvalidWindow
| TE_StaleSnapshot | TE_ValuationAssetMismatch | TE_InvalidLeaderCapital
| TE_InvalidFollowerCapital | TE_InvalidSafetyReserve | TE_ArithmeticOverflow

definition capital_validate_snapshot ::
  "'d target_exposure_request \<Rightarrow> (unit, target_exposure_error) outcome" where
  "capital_validate_snapshot request =
     (let snapshot = te_snapshot request in
      if cap_generation snapshot = 0 \<or> te_expected_generation request = 0
      then Err TE_InvalidGeneration
      else if cap_generation snapshot \<noteq> te_expected_generation request
      then Err TE_GenerationMismatch
      else if cap_observed_ms snapshot = 0 \<or> cap_expires_ms snapshot \<le> cap_observed_ms snapshot
      then Err TE_InvalidWindow
      else if te_now_ms request < cap_observed_ms snapshot
        \<or> cap_expires_ms snapshot \<le> te_now_ms request
      then Err TE_StaleSnapshot
      else Ok ())"

definition capital_validate_assets ::
  "'d capital_snapshot \<Rightarrow> (asset, target_exposure_error) outcome" where
  "capital_validate_assets snapshot =
     (let expected = am_asset (cap_leader_strategy_capital snapshot) in
      if list_all (\<lambda>amount. am_asset amount = expected)
           [cap_leader_target_exposure snapshot, cap_follower_configured_capital snapshot,
            cap_follower_allocated_capital snapshot, cap_follower_available_margin snapshot,
            cap_follower_managed_exposure snapshot]
      then Ok expected else Err TE_ValuationAssetMismatch)"

definition reduce_target_exposure_with_multiplier ::
  "'d decimal_api \<Rightarrow> 'd target_exposure_request \<Rightarrow> 'd
   \<Rightarrow> ('d target_exposure_plan, target_exposure_error) outcome" where
  "reduce_target_exposure_with_multiplier D request multiplier =
     (if \<not> dec_positive D multiplier then Err TE_InvalidMultiplier
      else
      let snapshot = te_snapshot request in
      and_then (capital_validate_snapshot request) (\<lambda>_.
      and_then (capital_validate_assets snapshot) (\<lambda>valuation_asset.
        if \<not> dec_positive D (am_value (cap_leader_strategy_capital snapshot))
        then Err TE_InvalidLeaderCapital
        else if dec_negative D (am_value (cap_follower_configured_capital snapshot))
          \<or> dec_negative D (am_value (cap_follower_allocated_capital snapshot))
          \<or> dec_negative D (am_value (cap_follower_available_margin snapshot))
        then Err TE_InvalidFollowerCapital
        else if dec_negative D (cap_margin_safety_reserve_rate snapshot)
          \<or> dec_value D (cap_margin_safety_reserve_rate snapshot) > 1
        then Err TE_InvalidSafetyReserve
        else
        and_then (ok_or TE_ArithmeticOverflow
          (dec_sub D (dec_one D) (cap_margin_safety_reserve_rate snapshot))) (\<lambda>usable_rate.
        and_then (ok_or TE_ArithmeticOverflow
          (dec_mul D (am_value (cap_follower_available_margin snapshot)) usable_rate))
          (\<lambda>safe_available_margin.
        let effective_follower_capital =
              dec_least D
                (dec_least D (am_value (cap_follower_configured_capital snapshot))
                   (am_value (cap_follower_allocated_capital snapshot)))
                safe_available_margin in
        and_then (ok_or TE_ArithmeticOverflow
          (Option.bind (dec_div D (am_value (cap_leader_target_exposure snapshot))
                          (am_value (cap_leader_strategy_capital snapshot)))
             (\<lambda>ratio. dec_mul D ratio multiplier))) (\<lambda>exposure_ratio.
        and_then (ok_or TE_ArithmeticOverflow
          (dec_mul D exposure_ratio effective_follower_capital)) (\<lambda>target_exposure.
        and_then (ok_or TE_ArithmeticOverflow
          (dec_sub D target_exposure (am_value (cap_follower_managed_exposure snapshot))))
          (\<lambda>delta_exposure.
          Ok \<lparr>tp_snapshot_generation = cap_generation snapshot,
              tp_exposure_ratio = exposure_ratio,
              tp_safe_available_margin = amount_new valuation_asset safe_available_margin,
              tp_effective_follower_capital =
                amount_new valuation_asset effective_follower_capital,
              tp_target_exposure = amount_new valuation_asset target_exposure,
              tp_delta_exposure = amount_new valuation_asset delta_exposure\<rparr>))))))))"

definition reduce_target_exposure ::
  "'d decimal_api \<Rightarrow> 'd target_exposure_request
   \<Rightarrow> ('d target_exposure_plan, target_exposure_error) outcome" where
  "reduce_target_exposure D request =
     reduce_target_exposure_with_multiplier D request (dec_one D)"

text \<open>The checks a successful reduction has passed, and the values it computed.\<close>

lemma reduce_target_exposure_steps:
  assumes "reduce_target_exposure_with_multiplier D request multiplier = Ok plan"
  defines "s \<equiv> te_snapshot request"
  obtains usable_rate ratio where
    "0 < dec_value D multiplier"
    "capital_validate_snapshot request = Ok ()"
    "capital_validate_assets s = Ok (am_asset (cap_leader_strategy_capital s))"
    "0 < dec_value D (am_value (cap_leader_strategy_capital s))"
    "0 \<le> dec_value D (am_value (cap_follower_configured_capital s))"
    "0 \<le> dec_value D (am_value (cap_follower_allocated_capital s))"
    "0 \<le> dec_value D (am_value (cap_follower_available_margin s))"
    "0 \<le> dec_value D (cap_margin_safety_reserve_rate s)"
    "dec_value D (cap_margin_safety_reserve_rate s) \<le> 1"
    "dec_sub D (dec_one D) (cap_margin_safety_reserve_rate s) = Some usable_rate"
    "dec_mul D (am_value (cap_follower_available_margin s)) usable_rate
       = Some (am_value (tp_safe_available_margin plan))"
    "am_value (tp_effective_follower_capital plan) =
       dec_least D
         (dec_least D (am_value (cap_follower_configured_capital s))
            (am_value (cap_follower_allocated_capital s)))
         (am_value (tp_safe_available_margin plan))"
    "dec_div D (am_value (cap_leader_target_exposure s))
       (am_value (cap_leader_strategy_capital s)) = Some ratio"
    "dec_mul D ratio multiplier = Some (tp_exposure_ratio plan)"
    "dec_mul D (tp_exposure_ratio plan) (am_value (tp_effective_follower_capital plan))
       = Some (am_value (tp_target_exposure plan))"
    "dec_sub D (am_value (tp_target_exposure plan))
       (am_value (cap_follower_managed_exposure s)) = Some (am_value (tp_delta_exposure plan))"
    "tp_snapshot_generation plan = cap_generation s"
    "am_asset (tp_target_exposure plan) = am_asset (cap_leader_strategy_capital s)"
    "am_asset (tp_delta_exposure plan) = am_asset (cap_leader_strategy_capital s)"
    "am_asset (tp_safe_available_margin plan) = am_asset (cap_leader_strategy_capital s)"
    "am_asset (tp_effective_follower_capital plan) = am_asset (cap_leader_strategy_capital s)"
proof -
  have assets: "capital_validate_assets s = Ok a \<Longrightarrow> a = am_asset (cap_leader_strategy_capital s)" for a
    by (auto simp: capital_validate_assets_def Let_def split: if_splits)
  show thesis
    using assms(1) assets
    by (auto simp: reduce_target_exposure_with_multiplier_def Let_def outcome_simps dec_rel_defs
        bind_eq_Some_conv s_def[symmetric] not_less split: if_splits intro: that)
qed

text \<open>The target follows the sign of the leader's exposure, and no capital bound is negative.\<close>

lemma reduce_target_exposure_signs:
  assumes laws: "dec_sign_laws D" "dec_choice_laws D" "dec_const_laws D"
    and ok: "reduce_target_exposure_with_multiplier D request multiplier = Ok plan"
  defines "s \<equiv> te_snapshot request" and "v \<equiv> \<lambda>a. dec_value D (am_value a)"
  shows "0 \<le> v (tp_safe_available_margin plan)" and "0 \<le> v (tp_effective_follower_capital plan)"
    and "0 \<le> v (cap_leader_target_exposure s) \<Longrightarrow> 0 \<le> v (tp_target_exposure plan)"
    and "v (cap_leader_target_exposure s) \<le> 0 \<Longrightarrow> v (tp_target_exposure plan) \<le> 0"
proof -
  obtain usable_rate ratio where
      m: "0 < dec_value D multiplier" "0 < v (cap_leader_strategy_capital s)"
      and f: "0 \<le> v (cap_follower_configured_capital s)" "0 \<le> v (cap_follower_allocated_capital s)"
        "0 \<le> v (cap_follower_available_margin s)"
      and rate: "dec_value D (cap_margin_safety_reserve_rate s) \<le> 1"
        "dec_sub D (dec_one D) (cap_margin_safety_reserve_rate s) = Some usable_rate"
        "dec_mul D (am_value (cap_follower_available_margin s)) usable_rate
          = Some (am_value (tp_safe_available_margin plan))"
      and e: "am_value (tp_effective_follower_capital plan) =
        dec_least D (dec_least D (am_value (cap_follower_configured_capital s))
            (am_value (cap_follower_allocated_capital s)))
          (am_value (tp_safe_available_margin plan))"
      and r: "dec_div D (am_value (cap_leader_target_exposure s))
          (am_value (cap_leader_strategy_capital s)) = Some ratio"
        "dec_mul D ratio multiplier = Some (tp_exposure_ratio plan)"
        "dec_mul D (tp_exposure_ratio plan) (am_value (tp_effective_follower_capital plan))
          = Some (am_value (tp_target_exposure plan))"
    using ok unfolding s_def v_def by (rule reduce_target_exposure_steps)
  have "0 \<le> dec_value D usable_rate"
    using dec_sub_nonneg [OF laws(1) rate(2)] rate(1) laws(3) by simp
  then show safe: "0 \<le> v (tp_safe_available_margin plan)"
    using dec_mul_nonneg [OF laws(1) rate(3)] f(3) by (simp add: v_def)
  then show used: "0 \<le> v (tp_effective_follower_capital plan)"
    using f laws(2) by (simp add: v_def e dec_choice_laws_def)
  show "0 \<le> v (tp_target_exposure plan)" if "0 \<le> v (cap_leader_target_exposure s)"
  proof -
    have "0 \<le> dec_value D ratio" using dec_div_nonneg [OF laws(1) r(1)] that m(2) by (simp add: v_def)
    then have "0 \<le> dec_value D (tp_exposure_ratio plan)"
      using dec_mul_nonneg [OF laws(1) r(2)] m(1) by simp
    then show ?thesis using dec_mul_nonneg [OF laws(1) r(3)] used by (simp add: v_def)
  qed
  show "v (tp_target_exposure plan) \<le> 0" if "v (cap_leader_target_exposure s) \<le> 0"
  proof -
    have "dec_value D ratio \<le> 0" using dec_div_nonpos [OF laws(1) r(1)] that m(2) by (simp add: v_def)
    then have "dec_value D (tp_exposure_ratio plan) \<le> 0"
      using dec_mul_nonpos [OF laws(1) r(2)] m(1) by simp
    then show ?thesis using dec_mul_nonpos [OF laws(1) r(3)] used by (simp add: v_def)
  qed
qed

text \<open>Usable exactly inside the snapshot's window; the generation was the requested one.\<close>

lemma capital_validate_snapshot_Ok:
  "capital_validate_snapshot request = Ok () \<longleftrightarrow>
     te_expected_generation request \<noteq> 0
     \<and> cap_generation (te_snapshot request) = te_expected_generation request
     \<and> cap_observed_ms (te_snapshot request) \<noteq> 0
     \<and> cap_observed_ms (te_snapshot request) \<le> te_now_ms request
     \<and> te_now_ms request < cap_expires_ms (te_snapshot request)"
  by (auto simp: capital_validate_snapshot_def Let_def not_less not_le)

interpretation capital_window: validity_window
  "\<lambda>s t. capital_validate_snapshot (s\<lparr>te_now_ms := t\<rparr>) = Ok ()"
  "\<lambda>s. cap_observed_ms (te_snapshot s)"
  "\<lambda>s. cap_expires_ms (te_snapshot s)"
  by unfold_locales (auto simp: capital_validate_snapshot_Ok)

end
