(* ===== verification/Copy_Sizing.thy ===== *)
theory Copy_Sizing
  imports Instruments Copy_Capital
begin

text \<open>
  Semantic sizing of \<open>crates/venue-copy/src/sizing.rs\<close> (from an approved exposure delta to
  a base quantity or contract lots) and the cross-venue limit prices of
  \<open>crates/venue-copy/src/limit.rs\<close>.
\<close>

section \<open>Reference prices\<close>

record 'd reference_price_snapshot =
  rp_instrument_identity :: instrument_identity
  rp_instrument_generation :: u64
  rp_price :: "'d price"
  rp_observed_at_ms :: u64
  rp_expires_at_ms :: u64

definition reference_is_fresh :: "'d reference_price_snapshot \<Rightarrow> u64 \<Rightarrow> bool" where
  "reference_is_fresh reference now_ms \<longleftrightarrow>
     rp_instrument_generation reference \<noteq> 0
     \<and> rp_observed_at_ms reference \<noteq> 0
     \<and> rp_observed_at_ms reference < rp_expires_at_ms reference
     \<and> rp_observed_at_ms reference \<le> now_ms
     \<and> now_ms < rp_expires_at_ms reference"

interpretation reference_window: validity_window
  reference_is_fresh rp_observed_at_ms rp_expires_at_ms
  by unfold_locales (auto simp: reference_is_fresh_def)

section \<open>Sizing (sizing.rs)\<close>

record 'd semantic_sizing_request =
  sz_exposure :: "'d target_exposure_plan"
  sz_instrument :: "'d instrument_snapshot"
  sz_reference_price :: "'d reference_price_snapshot"
  sz_reduce_only_supported :: bool
  sz_now_ms :: u64

datatype 'd sized_quantity = BaseQuantity 'd | ContractLots 'd

primrec sized_value :: "'d sized_quantity \<Rightarrow> 'd" where
  "sized_value (BaseQuantity v) = v"
| "sized_value (ContractLots v) = v"

record 'd semantic_sizing_plan =
  sp_instrument_identity :: instrument_identity
  sp_instrument_generation :: u64
  sp_side :: order_side
  sp_reducing :: bool
  sp_reduce_only :: bool
  sp_quantity :: "'d sized_quantity"
  sp_reference_price :: "'d price"
  sp_requested_quote_notional :: "'d amount"
  sp_normalized_quote_notional :: "'d amount"
  sp_residual_quote_notional :: "'d amount"

datatype sizing_error =
  SZ_ReferencePrice | SZ_ReferenceMismatch | SZ_InstrumentSnapshot | SZ_InstrumentDisabled
| SZ_ExposurePlan | SZ_NoChange | SZ_DirectionFlipRequiresSplit | SZ_SpotShort
| SZ_ReduceOnlyUnsupported | SZ_BelowMinimum | SZ_InstrumentRules | SZ_NormalizedExceedsRequested
| SZ_ArithmeticOverflow

definition validate_exposure ::
  "'d decimal_api \<Rightarrow> 'd target_exposure_plan \<Rightarrow> string \<Rightarrow> (unit, sizing_error) outcome" where
  "validate_exposure D plan quote =
     (if tp_snapshot_generation plan = 0
        \<or> dec_negative D (am_value (tp_safe_available_margin plan))
        \<or> dec_negative D (am_value (tp_effective_follower_capital plan))
        \<or> list_ex (\<lambda>amount. asset_str (am_asset amount) \<noteq> quote)
            [tp_safe_available_margin plan, tp_effective_follower_capital plan,
             tp_target_exposure plan, tp_delta_exposure plan]
      then Err SZ_ExposurePlan else Ok ())"

definition crosses_zero :: "'d decimal_api \<Rightarrow> 'd \<Rightarrow> 'd \<Rightarrow> bool" where
  "crosses_zero D managed target \<longleftrightarrow>
     (\<not> dec_sign_negative D managed \<and> \<not> dec_is_zero D managed \<and> dec_sign_negative D target)
     \<or> (dec_sign_negative D managed \<and> \<not> dec_sign_negative D target \<and> \<not> dec_is_zero D target)"

definition reduces :: "'d decimal_api \<Rightarrow> 'd \<Rightarrow> 'd \<Rightarrow> bool" where
  "reduces D managed target \<longleftrightarrow>
     \<not> dec_is_zero D managed
     \<and> (dec_is_zero D target
        \<or> ((\<not> dec_sign_negative D managed) = (\<not> dec_sign_negative D target)
           \<and> \<bar>dec_value D target\<bar> < \<bar>dec_value D managed\<bar>))"

primrec map_snapshot_error :: "instrument_snapshot_error \<Rightarrow> sizing_error" where
  "map_snapshot_error SE_TradingDisabled = SZ_InstrumentDisabled"
| "map_snapshot_error SE_Metadata = SZ_InstrumentSnapshot"
| "map_snapshot_error SE_ObservationTime = SZ_InstrumentSnapshot"
| "map_snapshot_error SE_InvalidWindow = SZ_InstrumentSnapshot"
| "map_snapshot_error SE_IdentityMismatch = SZ_InstrumentSnapshot"
| "map_snapshot_error SE_GenerationMismatch = SZ_InstrumentSnapshot"
| "map_snapshot_error SE_NotYetObserved = SZ_InstrumentSnapshot"
| "map_snapshot_error SE_Expired = SZ_InstrumentSnapshot"

primrec map_value_error :: "instrument_value_error \<Rightarrow> sizing_error" where
  "map_value_error VE_Quantity = SZ_BelowMinimum"
| "map_value_error VE_Notional = SZ_BelowMinimum"
| "map_value_error VE_TradingDisabled = SZ_InstrumentDisabled"
| "map_value_error VE_Overflow = SZ_ArithmeticOverflow"
| "map_value_error VE_Precision = SZ_InstrumentRules"
| "map_value_error VE_Contract = SZ_InstrumentRules"
| "map_value_error VE_PriceRequired = SZ_InstrumentRules"
| "map_value_error VE_NotionalAsset = SZ_InstrumentRules"
| "map_value_error VE_Metadata = SZ_InstrumentRules"

definition plan_semantic_size ::
  "'d decimal_api \<Rightarrow> 'd semantic_sizing_request \<Rightarrow> ('d semantic_sizing_plan, sizing_error) outcome" where
  "plan_semantic_size D request =
     (let reference = sz_reference_price request; exposure = sz_exposure request in
      if \<not> reference_is_fresh reference (sz_now_ms request) then Err SZ_ReferencePrice
      else if metadata_identity (sn_metadata (sz_instrument request))
                \<noteq> rp_instrument_identity reference
        \<or> in_generation (md_instrument (sn_metadata (sz_instrument request)))
                \<noteq> rp_instrument_generation reference
      then Err SZ_ReferenceMismatch
      else
      and_then (map_err map_snapshot_error
        (snapshot_require D (sz_instrument request) (rp_instrument_identity reference)
           (rp_instrument_generation reference) (sz_now_ms request))) (\<lambda>metadata.
      and_then (validate_exposure D exposure (sym_quote (in_symbol (md_instrument metadata)))) (\<lambda>_.
      let delta = am_value (tp_delta_exposure exposure) in
      if dec_is_zero D delta then Err SZ_NoChange
      else
      and_then (ok_or SZ_ArithmeticOverflow
        (dec_sub D (am_value (tp_target_exposure exposure)) delta)) (\<lambda>managed.
      let target = am_value (tp_target_exposure exposure) in
      if crosses_zero D managed target then Err SZ_DirectionFlipRequiresSplit
      else if in_market (md_instrument metadata) = Spot
        \<and> (dec_negative D managed \<or> dec_negative D target) then Err SZ_SpotShort
      else
      let side = (if dec_positive D delta then Buy else Sell);
          reducing = reduces D managed target;
          derivative = (in_market (md_instrument metadata) = LinearPerpetual) in
      if reducing \<and> derivative \<and> \<not> sz_reduce_only_supported request
      then Err SZ_ReduceOnlyUnsupported
      else
      and_then (if dec_positive D delta then Ok delta
                else ok_or SZ_ArithmeticOverflow (dec_mul D delta (dec_new D (- 1) 0)))
        (\<lambda>requested_value.
      let requested = amount_new (am_asset (tp_delta_exposure exposure)) requested_value in
      and_then (map_err map_value_error
        (metadata_quantity_for_quote_notional D metadata requested (Some (rp_price reference))))
        (\<lambda>quantity_value.
      and_then (map_err map_value_error
        (metadata_quote_notional D metadata quantity_value (Some (rp_price reference))))
        (\<lambda>normalized.
      if dec_less D (am_value requested) (am_value normalized)
      then Err SZ_NormalizedExceedsRequested
      else
      and_then (ok_or SZ_ArithmeticOverflow
        (dec_sub D (am_value requested) (am_value normalized))) (\<lambda>residual.
        Ok \<lparr>sp_instrument_identity = metadata_identity metadata,
            sp_instrument_generation = in_generation (md_instrument metadata),
            sp_side = side, sp_reducing = reducing, sp_reduce_only = (reducing \<and> derivative),
            sp_quantity = (if md_contract metadata \<noteq> None then ContractLots quantity_value
                           else BaseQuantity quantity_value),
            sp_reference_price = rp_price reference,
            sp_requested_quote_notional = requested,
            sp_normalized_quote_notional = normalized,
            sp_residual_quote_notional =
              amount_new (am_asset (tp_delta_exposure exposure)) residual\<rparr>))))))))"

section \<open>Cross-venue limits (limit.rs)\<close>

record 'd cross_venue_limit_request =
  cl_leader_limit_price :: "'d price"
  cl_leader_reference :: "'d reference_price_snapshot"
  cl_follower_reference :: "'d reference_price_snapshot"
  cl_expected_leader_generation :: u64
  cl_expected_follower_generation :: u64
  cl_max_absolute_deviation :: 'd
  cl_now_ms :: u64

record 'd cross_venue_limit_plan =
  cp_instrument_identity :: instrument_identity
  cp_leader_generation :: u64
  cp_follower_generation :: u64
  cp_relative_offset :: 'd
  cp_follower_risk_boundary :: "'d price"

datatype limit_price_error =
  LP_ReferencePrice | LP_GenerationMismatch | LP_IdentityMismatch | LP_DeviationBound
| LP_DeviationExceeded | LP_Precision | LP_BelowMinimum | LP_RiskBoundaryCrossed | LP_InvalidPrice
| LP_ArithmeticOverflow

definition convert_cross_venue_limit ::
  "'d decimal_api \<Rightarrow> 'd cross_venue_limit_request
   \<Rightarrow> ('d cross_venue_limit_plan, limit_price_error) outcome" where
  "convert_cross_venue_limit D request =
     (let leader = cl_leader_reference request; follower = cl_follower_reference request in
      if cl_expected_leader_generation request = 0 \<or> cl_expected_follower_generation request = 0
      then Err LP_GenerationMismatch
      else if rp_instrument_generation leader \<noteq> cl_expected_leader_generation request
        \<or> rp_instrument_generation follower \<noteq> cl_expected_follower_generation request
      then Err LP_GenerationMismatch
      else if \<not> reference_is_fresh leader (cl_now_ms request)
        \<or> \<not> reference_is_fresh follower (cl_now_ms request)
      then Err LP_ReferencePrice
      else if rp_instrument_identity leader \<noteq> rp_instrument_identity follower
      then Err LP_IdentityMismatch
      else if dec_negative D (cl_max_absolute_deviation request)
        \<or> dec_value D (cl_max_absolute_deviation request) \<ge> 1
      then Err LP_DeviationBound
      else
      and_then (ok_or LP_ArithmeticOverflow
        (dec_div D (price_value (cl_leader_limit_price request)) (price_value (rp_price leader))))
        (\<lambda>ratio.
      and_then (ok_or LP_ArithmeticOverflow (dec_sub D ratio (dec_one D))) (\<lambda>relative_offset.
      if \<bar>dec_value D relative_offset\<bar> > dec_value D (cl_max_absolute_deviation request)
      then Err LP_DeviationExceeded
      else
      and_then (ok_or LP_ArithmeticOverflow
        (dec_mul D (price_value (rp_price follower)) ratio)) (\<lambda>boundary.
      and_then (map_err (\<lambda>_. LP_InvalidPrice) (price_new D boundary)) (\<lambda>follower_risk_boundary.
        Ok \<lparr>cp_instrument_identity = rp_instrument_identity leader,
            cp_leader_generation = cl_expected_leader_generation request,
            cp_follower_generation = cl_expected_follower_generation request,
            cp_relative_offset = relative_offset,
            cp_follower_risk_boundary = follower_risk_boundary\<rparr>)))))"

definition normalize_limit_price ::
  "'d decimal_api \<Rightarrow> 'd precision \<Rightarrow> order_side \<Rightarrow> 'd price \<Rightarrow> ('d price, limit_price_error) outcome" where
  "normalize_limit_price D precision side risk_boundary =
     and_then (map_err (\<lambda>_. LP_Precision) (precision_validate D precision)) (\<lambda>_.
     let boundary = price_value risk_boundary in
     and_then (map_err (\<lambda>_. LP_Precision) (precision_floor D precision boundary)) (\<lambda>floored.
     and_then (case side of
         Buy \<Rightarrow> Ok floored
       | Sell \<Rightarrow> if dec_eq D floored boundary then Ok floored
                 else ok_or LP_ArithmeticOverflow (dec_add D floored (pr_step precision)))
       (\<lambda>normalized.
     and_then (or_else (Ok (\<not> dec_positive D normalized))
         (and_then (map_err (\<lambda>_. LP_Precision) (precision_accepts D precision normalized))
            (\<lambda>ok. Ok (\<not> ok)))) (\<lambda>below.
     if below then Err LP_BelowMinimum
     else if (side = Buy \<and> dec_less D boundary normalized)
       \<or> (side = Sell \<and> dec_less D normalized boundary)
     then Err LP_RiskBoundaryCrossed
     else map_err (\<lambda>_. LP_InvalidPrice) (price_new D normalized)))))"

section \<open>What a sizing plan guarantees\<close>

lemma not_crosses_zero:
  assumes laws: "dec_sign_laws D" and "\<not> crosses_zero D a b"
  shows "0 \<le> dec_value D a * dec_value D b"
proof (cases "dec_value D a" "0 :: rat" rule: linorder_cases)
  case less
  then have "dec_sign_negative D a" using laws by (simp add: dec_sign_laws_def)
  then have "dec_sign_negative D b \<or> dec_value D b = 0"
    using assms(2) by (auto simp: crosses_zero_def dec_is_zero_def)
  then have "dec_value D b \<le> 0" using dec_sign_nonpositive [OF laws] by auto
  then show ?thesis using less by (simp add: mult_nonpos_nonpos)
next
  case greater
  then have "\<not> dec_sign_negative D a" "dec_value D a \<noteq> 0"
    using laws by (auto simp: dec_sign_laws_def)
  then have "\<not> dec_sign_negative D b"
    using assms(2) by (auto simp: crosses_zero_def dec_is_zero_def)
  then have "0 \<le> dec_value D b" by (rule dec_sign_positive [OF laws])
  then show ?thesis using greater by simp
qed simp

text \<open>The checks a successful sizing has passed, in the order of the code.\<close>

lemma plan_semantic_size_steps:
  assumes "plan_semantic_size D request = Ok plan"
  defines "delta \<equiv> am_value (tp_delta_exposure (sz_exposure request))"
    and "target \<equiv> am_value (tp_target_exposure (sz_exposure request))"
    and "metadata \<equiv> sn_metadata (sz_instrument request)"
    and "reference \<equiv> sz_reference_price request"
  obtains managed requested quantity normalized residual where
    "reference_is_fresh reference (sz_now_ms request)"
    "snapshot_require D (sz_instrument request) (rp_instrument_identity reference)
       (rp_instrument_generation reference) (sz_now_ms request) = Ok metadata"
    "validate_exposure D (sz_exposure request) (sym_quote (in_symbol (md_instrument metadata))) = Ok ()"
    "dec_value D delta \<noteq> 0"
    "dec_sub D target delta = Some managed"
    "\<not> crosses_zero D managed target"
    "in_market (md_instrument metadata) = Spot \<longrightarrow> 0 \<le> dec_value D managed \<and> 0 \<le> dec_value D target"
    "reduces D managed target \<and> in_market (md_instrument metadata) = LinearPerpetual
       \<longrightarrow> sz_reduce_only_supported request"
    "if dec_positive D delta then requested = delta else dec_mul D delta (dec_new D (- 1) 0) = Some requested"
    "metadata_quantity_for_quote_notional D metadata
       (amount_new (am_asset (tp_delta_exposure (sz_exposure request))) requested)
       (Some (rp_price reference)) = Ok quantity"
    "metadata_quote_notional D metadata quantity (Some (rp_price reference)) = Ok normalized"
    "dec_value D (am_value normalized) \<le> dec_value D requested"
    "dec_sub D requested (am_value normalized) = Some residual"
    "plan = \<lparr>sp_instrument_identity = metadata_identity metadata,
       sp_instrument_generation = in_generation (md_instrument metadata),
       sp_side = (if dec_positive D delta then Buy else Sell),
       sp_reducing = reduces D managed target,
       sp_reduce_only = (reduces D managed target
         \<and> in_market (md_instrument metadata) = LinearPerpetual),
       sp_quantity = (if md_contract metadata \<noteq> None then ContractLots quantity
                      else BaseQuantity quantity),
       sp_reference_price = rp_price reference,
       sp_requested_quote_notional =
         amount_new (am_asset (tp_delta_exposure (sz_exposure request))) requested,
       sp_normalized_quote_notional = normalized,
       sp_residual_quote_notional =
         amount_new (am_asset (tp_delta_exposure (sz_exposure request))) residual\<rparr>"
  using assms(1)
  by (simp only: plan_semantic_size_def Let_def and_then_Ok map_err_Ok ok_or_Ok guard_Ok
      snapshot_require_Ok delta_def [symmetric] target_def [symmetric]
      metadata_def [symmetric] reference_def [symmetric])
    (elim exE conjE, rule that; (simp only: snapshot_require_Ok metadata_def simp_thms)?;
      simp add: dec_rel_defs not_less metadata_def outcome_simps split: if_splits)

text \<open>The size a sizing works with is the magnitude of the exposure delta.\<close>

lemma requested_magnitude:
  assumes laws: "dec_exact_laws D" "dec_const_laws D"
    and rep: "dec_representable (- dec_value D delta)"
    and requested: "if dec_positive D delta then requested = delta
      else dec_mul D delta (dec_new D (- 1) 0) = Some requested"
  shows "dec_value D requested = \<bar>dec_value D delta\<bar>"
proof (cases "dec_positive D delta")
  case True
  then show ?thesis using requested by (simp add: dec_positive_def)
next
  case False
  then have mul: "dec_mul D delta (dec_new D (- 1) 0) = Some requested" using requested by simp
  have "dec_value D (dec_new D (- 1) 0) = - 1" using laws(2) by (simp add: dec_new_value)
  then have "dec_value D requested = - dec_value D delta"
    using dec_mul_exact [OF laws(1) mul] rep by simp
  then show ?thesis using False by (simp add: dec_positive_def)
qed

section \<open>What a limit price guarantees\<close>

lemma normalize_limit_price_steps:
  assumes "normalize_limit_price D precision side boundary = Ok price"
  obtains floored where
    "precision_validate D precision = Ok ()"
    "precision_floor D precision (price_value boundary) = Ok floored"
    "case side of Buy \<Rightarrow> price_value price = floored
     | Sell \<Rightarrow> if dec_eq D floored (price_value boundary) then price_value price = floored
              else dec_add D floored (pr_step precision) = Some (price_value price)"
    "precision_accepts D precision (price_value price) = Ok True"
    "price_new D (price_value price) = Ok price"
    "side = Buy \<longrightarrow> price_num D price \<le> price_num D boundary"
    "side = Sell \<longrightarrow> price_num D boundary \<le> price_num D price"
  using assms
  by (simp only: normalize_limit_price_def Let_def and_then_Ok map_err_Ok guard_Ok)
    (elim exE conjE, rule that, simp, assumption;
      auto simp: outcome_simps or_else_False negated_Ok price_new_Ok price_num_def dec_less_def
        not_less split: order_side.splits if_splits)

lemma convert_cross_venue_limit_steps:
  assumes "convert_cross_venue_limit D request = Ok plan"
  obtains ratio boundary where
    "rp_instrument_generation (cl_leader_reference request) = cl_expected_leader_generation request"
    "rp_instrument_generation (cl_follower_reference request) = cl_expected_follower_generation request"
    "reference_is_fresh (cl_leader_reference request) (cl_now_ms request)"
    "reference_is_fresh (cl_follower_reference request) (cl_now_ms request)"
    "rp_instrument_identity (cl_leader_reference request)
       = rp_instrument_identity (cl_follower_reference request)"
    "0 \<le> dec_value D (cl_max_absolute_deviation request)"
    "dec_value D (cl_max_absolute_deviation request) < 1"
    "dec_div D (price_value (cl_leader_limit_price request))
       (price_value (rp_price (cl_leader_reference request))) = Some ratio"
    "dec_sub D ratio (dec_one D) = Some (cp_relative_offset plan)"
    "\<bar>dec_value D (cp_relative_offset plan)\<bar> \<le> dec_value D (cl_max_absolute_deviation request)"
    "dec_mul D (price_value (rp_price (cl_follower_reference request))) ratio = Some boundary"
    "price_new D boundary = Ok (cp_follower_risk_boundary plan)"
    "cp_instrument_identity plan = rp_instrument_identity (cl_leader_reference request)"
    "cp_leader_generation plan = cl_expected_leader_generation request"
    "cp_follower_generation plan = cl_expected_follower_generation request"
  using assms
  by (simp only: convert_cross_venue_limit_def Let_def and_then_Ok map_err_Ok ok_or_Ok guard_Ok)
    (elim exE conjE, rule that; simp add: dec_negative_def not_less not_le; fastforce)

end
