(* ===== verification/Copy_Identity.thy ===== *)
theory Copy_Identity
  imports Domain
begin

text \<open>
  Copy job identities of \<open>crates/venue-copy/src/identity.rs\<close>: UUID text, the length
  delimited commitments, and the identities derived from them.  SHA-256 is the parameter
  \<open>sha\<close>, a function from byte lists to byte lists.
\<close>

section \<open>Bytes\<close>

definition UUID_BYTES :: nat where "UUID_BYTES = 16"

definition DIGEST_BYTES :: nat where "DIGEST_BYTES = 32"

text \<open>\<open>to_be_bytes\<close> of a \<open>k\<close>-byte unsigned integer.\<close>

primrec be_bytes :: "nat \<Rightarrow> nat \<Rightarrow> u8 list" where
  "be_bytes 0 n = []"
| "be_bytes (Suc k) n = be_bytes k (n div 256) @ [of_nat (n mod 256)]"

definition u64_be_bytes :: "u64 \<Rightarrow> u8 list" where
  "u64_be_bytes w = be_bytes 8 (unat w)"

definition u32_be_bytes :: "u32 \<Rightarrow> u8 list" where
  "u32_be_bytes w = be_bytes 4 (unat w)"

lemma length_be_bytes [simp]: "length (be_bytes k n) = k"
  by (induction k arbitrary: n) auto

lemma be_bytes_inj:
  "be_bytes k m = be_bytes k n \<Longrightarrow> m < 256 ^ k \<Longrightarrow> n < 256 ^ k \<Longrightarrow> m = n"
proof (induction k arbitrary: m n)
  case 0
  then show ?case by simp
next
  case (Suc k)
  from Suc.prems(1) have rest: "be_bytes k (m div 256) = be_bytes k (n div 256)"
    and low: "(of_nat (m mod 256) :: u8) = of_nat (n mod 256)" by simp_all
  have "m div 256 < 256 ^ k" "n div 256 < 256 ^ k"
    using Suc.prems(2,3) by (simp_all add: less_mult_imp_div_less)
  then have hi: "m div 256 = n div 256" using Suc.IH rest by blast
  have "unat (of_nat (m mod 256) :: u8) = unat (of_nat (n mod 256) :: u8)" using low by simp
  then have "m mod 256 = n mod 256" by (simp add: unat_of_nat)
  with hi show ?case by (metis div_mult_mod_eq)
qed

lemma u64_be_bytes_inj: "u64_be_bytes a = u64_be_bytes b \<longleftrightarrow> a = b"
proof
  assume "u64_be_bytes a = u64_be_bytes b"
  moreover have "unat a < 256 ^ 8" "unat b < 256 ^ 8"
    using unat_bound [of a] unat_bound [of b] by simp_all
  ultimately show "a = b" unfolding u64_be_bytes_def by (metis be_bytes_inj word_unat_eq_iff)
qed simp

section \<open>Identifiers\<close>

datatype copy_id = CopyId (id_bytes: "u8 list")

datatype idempotency_key = IdempotencyKey (key_bytes: "u8 list")

datatype copy_identity_error = CI_Identifier | CI_Revision | CI_RepairInput

definition is_nil :: "copy_id \<Rightarrow> bool" where
  "is_nil i \<longleftrightarrow> id_bytes i = replicate UUID_BYTES 0"

definition is_zero_key :: "idempotency_key \<Rightarrow> bool" where
  "is_zero_key k \<longleftrightarrow> key_bytes k = replicate DIGEST_BYTES 0"

definition zero_digest :: "u8 list" where
  "zero_digest = replicate DIGEST_BYTES 0"

text \<open>\<open>hex\<close>: the value of one hexadecimal digit, in the order of the source's arms.\<close>

definition hex :: "char \<Rightarrow> u8 option" where
  "hex value =
     (if 48 \<le> code value \<and> code value \<le> 57 then Some (of_nat (code value - 48))
      else if 97 \<le> code value \<and> code value \<le> 102 then Some (of_nat (code value - 97 + 10))
      else if 65 \<le> code value \<and> code value \<le> 70 then Some (of_nat (code value - 65 + 10))
      else None)"

text \<open>
  The decoding loop of \<open>CopyId::parse\<close>: \<open>index\<close> walks the text, dashes are skipped, and
  every pair of digits fills the next byte of \<open>output\<close>.  An index past either array would
  panic.
\<close>

function parse_loop ::
  "string \<Rightarrow> nat \<Rightarrow> u8 list \<Rightarrow> nat \<Rightarrow> (u8 list, copy_identity_error) outcome" where
  "parse_loop bytes index output output_index =
     (if index < length bytes then
        if index \<in> {8, 13, 18, 23} then parse_loop bytes (index + 1) output output_index
        else case hex (bytes ! index) of
          None \<Rightarrow> Err CI_Identifier
        | Some high \<Rightarrow>
            if length bytes \<le> index + 1 then Panic
            else case hex (bytes ! (index + 1)) of
              None \<Rightarrow> Err CI_Identifier
            | Some low \<Rightarrow>
                if length output \<le> output_index then Panic
                else parse_loop bytes (index + 2)
                       (output[output_index := or (push_bit 4 high) low]) (output_index + 1)
      else Ok output)"
  by pat_completeness auto
termination
  by (relation "measure (\<lambda>(bytes, index, output, output_index). length bytes - index)") auto

declare parse_loop.simps [simp del]

definition copy_id_parse :: "string \<Rightarrow> (copy_id, copy_identity_error) outcome" where
  "copy_id_parse raw =
     (if length raw \<noteq> 36 \<or> (\<exists>index \<in> {8, 13, 18, 23}. raw ! index \<noteq> CHR ''-'')
      then Err CI_Identifier
      else and_then (parse_loop raw 0 (replicate UUID_BYTES 0) 0) (\<lambda>output.
        let value = CopyId output in
        if is_nil value then Err CI_Identifier else Ok value))"

definition hex_byte :: "u8 \<Rightarrow> string" where
  "hex_byte b = hex_digits 2 (unat b)"

definition copy_id_to_string :: "copy_id \<Rightarrow> string" where
  "copy_id_to_string i =
     concat (map (\<lambda>(index, byte).
       (if index \<in> {4, 6, 8, 10} then [CHR ''-''] else []) @ hex_byte byte)
       (enumerate 0 (id_bytes i)))"

definition key_to_string :: "idempotency_key \<Rightarrow> string" where
  "key_to_string k = concat (map hex_byte (key_bytes k))"

lemma hex_hex_char [simp]: "n < 16 \<Longrightarrow> hex (hex_char n) = Some (of_nat n)"
  by (auto simp: hex_def hex_char_def)

lemma nibbles_join: "or (push_bit 4 (of_nat (unat (b::u8) div 16))) (of_nat (unat b mod 16)) = b"
proof -
  have hi: "(of_nat (unat b div 16) :: u8) = drop_bit 4 b"
    by (simp add: drop_bit_eq_div word_arith_nat_div)
  have lo: "(of_nat (unat b mod 16) :: u8) = take_bit 4 b"
    by (simp add: take_bit_eq_mod word_arith_nat_mod)
  show ?thesis
    unfolding hi lo by (rule bit_word_eqI) (auto simp: bit_simps)
qed

lemma byte_div_16: "unat (b::u8) div 16 < 16"
  using unat_bound [of b] by simp

lemma hex_byte_unfold:
  "hex_byte b = [hex_char (unat b div 16), hex_char (unat b mod 16)]"
  by (simp add: hex_byte_def numeral_2_eq_2 byte_div_16)


lemma length_16:
  assumes "length xs = 16"
  obtains a0 a1 a2 a3 a4 a5 a6 a7 a8 a9 a10 a11 a12 a13 a14 a15
  where "xs = [a0, a1, a2, a3, a4, a5, a6, a7, a8, a9, a10, a11, a12, a13, a14, a15]"
proof -
  have "length xs = Suc (Suc (Suc (Suc (Suc (Suc (Suc (Suc
         (Suc (Suc (Suc (Suc (Suc (Suc (Suc (Suc 0)))))))))))))))"
    using assms by simp
  then show thesis
    by (auto simp: length_Suc_conv intro: that)
qed

lemma replicate_16: "replicate 16 x = [x, x, x, x, x, x, x, x, x, x, x, x, x, x, x, x]"
  by (simp add: numeral_eq_Suc)

text \<open>Printing and parsing are inverse on the identifiers that are not nil.\<close>

lemma copy_id_roundtrip:
  assumes "length (id_bytes i) = UUID_BYTES" and "\<not> is_nil i"
  shows "copy_id_parse (copy_id_to_string i) = Ok i"
proof -
  from assms(1) obtain a0 a1 a2 a3 a4 a5 a6 a7 a8 a9 a10 a11 a12 a13 a14 a15
    where bs: "id_bytes i = [a0, a1, a2, a3, a4, a5, a6, a7, a8, a9, a10, a11, a12, a13, a14, a15]"
    by (auto simp: UUID_BYTES_def elim: length_16)
  define raw where "raw = copy_id_to_string i"
  have raw: "raw =
    hex_byte a0 @ hex_byte a1 @ hex_byte a2 @ hex_byte a3 @ CHR ''-'' #
    hex_byte a4 @ hex_byte a5 @ CHR ''-'' # hex_byte a6 @ hex_byte a7 @ CHR ''-'' #
    hex_byte a8 @ hex_byte a9 @ CHR ''-'' # hex_byte a10 @ hex_byte a11 @
    hex_byte a12 @ hex_byte a13 @ hex_byte a14 @ hex_byte a15"
    by (simp add: raw_def copy_id_to_string_def bs)
  have len: "length raw = 36" by (simp add: raw hex_byte_unfold)
  have dashes: "raw ! 8 = CHR ''-''" "raw ! 13 = CHR ''-''" "raw ! 18 = CHR ''-''" "raw ! 23 = CHR ''-''"
    by (simp_all add: raw hex_byte_unfold)
  have "parse_loop raw 0 (replicate UUID_BYTES 0) 0 = Ok (id_bytes i)"
    unfolding raw bs
    by (simp add: hex_byte_unfold parse_loop.simps byte_div_16 nibbles_join UUID_BYTES_def
        replicate_16)
  then show ?thesis
    using len dashes assms(2) copy_id.collapse [of i]
    by (simp add: copy_id_parse_def is_nil_def bs flip: raw_def)
qed


section \<open>Commitments\<close>

text \<open>
  \<open>derive\<close> hashes the domain, a zero byte, and every part preceded by its length in
  eight bytes; \<open>commit_preimage\<close> is the text that is hashed.
\<close>

definition commit_preimage :: "u8 list \<Rightarrow> u8 list list \<Rightarrow> u8 list" where
  "commit_preimage tag parts =
     tag @ [0] @ concat (map (\<lambda>part. be_bytes 8 (length part) @ part) parts)"

definition derive :: "(u8 list \<Rightarrow> u8 list) \<Rightarrow> u8 list \<Rightarrow> u8 list list \<Rightarrow> u8 list" where
  "derive sha tag parts = sha (commit_preimage tag parts)"

definition derive_commitment :: "(u8 list \<Rightarrow> u8 list) \<Rightarrow> u8 list \<Rightarrow> u8 list list \<Rightarrow> u8 list" where
  "derive_commitment sha tag parts = derive sha tag parts"

definition derive_uuid :: "(u8 list \<Rightarrow> u8 list) \<Rightarrow> u8 list \<Rightarrow> u8 list list \<Rightarrow> copy_id" where
  "derive_uuid sha tag parts =
     (let digest = derive sha tag parts;
          bytes0 = take UUID_BYTES digest;
          bytes1 = bytes0[6 := or (and (bytes0 ! 6) 0x0F) 0x50];
          bytes2 = bytes1[8 := or (and (bytes1 ! 8) 0x3F) 0x80]
      in CopyId bytes2)"

text \<open>SHA-256 returns 32 bytes.\<close>

definition digest_length_law :: "(u8 list \<Rightarrow> u8 list) \<Rightarrow> bool" where
  "digest_length_law sha \<longleftrightarrow> (\<forall>m. length (sha m) = DIGEST_BYTES)"

text \<open>
  The encoding of the parts is injective: no two part lists (each part shorter than
  \<open>2 ^ 64\<close> bytes) share a preimage, so two commitments are equal only for equal parts or
  for a collision of the hash.
\<close>

definition part_fits :: "u8 list \<Rightarrow> bool" where
  "part_fits p \<longleftrightarrow> length p < 2 ^ 64"

lemma framed_parts_inj:
  assumes "concat (map (\<lambda>part. be_bytes 8 (length part) @ part) ps) =
           concat (map (\<lambda>part. be_bytes 8 (length part) @ part) qs)"
    and "list_all part_fits ps" and "list_all part_fits qs"
  shows "ps = qs"
  using assms
proof (induction ps arbitrary: qs)
  case Nil
  then show ?case by (cases qs) (auto dest: arg_cong [where f = length])
next
  case (Cons p ps)
  then obtain q qs' where qs: "qs = q # qs'"
    by (cases qs) (auto dest: arg_cong [where f = length])
  from Cons.prems(1) have hd: "be_bytes 8 (length p) = be_bytes 8 (length q)"
    and tl: "p @ concat (map (\<lambda>part. be_bytes 8 (length part) @ part) ps) =
             q @ concat (map (\<lambda>part. be_bytes 8 (length part) @ part) qs')"
    by (simp_all add: qs)
  have "length p < 256 ^ 8" "length q < 256 ^ 8"
    using Cons.prems(2,3) by (simp_all add: qs part_fits_def)
  then have "length p = length q" using hd be_bytes_inj by blast
  with tl have "p = q"
    and "concat (map (\<lambda>part. be_bytes 8 (length part) @ part) ps) =
         concat (map (\<lambda>part. be_bytes 8 (length part) @ part) qs')" by simp_all
  then show ?case using Cons by (simp add: qs)
qed

lemma commit_preimage_inj:
  assumes "commit_preimage d ps = commit_preimage e qs"
    and "0 \<notin> set d" and "0 \<notin> set e" and "list_all part_fits ps" and "list_all part_fits qs"
  shows "d = e \<and> ps = qs"
proof -
  from assms(1) have eq: "d @ 0 # concat (map (\<lambda>part. be_bytes 8 (length part) @ part) ps) =
     e @ 0 # concat (map (\<lambda>part. be_bytes 8 (length part) @ part) qs)"
    by (simp add: commit_preimage_def)
  have prefix: "takeWhile (\<lambda>x. x \<noteq> 0) (c @ 0 # r) = c" if "0 \<notin> set c" for c r :: "u8 list"
    using that by (induction c) auto
  from arg_cong [OF eq, where f = "takeWhile (\<lambda>x. x \<noteq> 0)"] have "d = e"
    by (simp only: prefix [OF assms(2)] prefix [OF assms(3)])
  with eq show ?thesis using assms(4,5) by (auto dest: framed_parts_inj)
qed


section \<open>Derived identities\<close>

definition ascii_bytes :: "string \<Rightarrow> u8 list" where
  "ascii_bytes s = utf8_bytes s"

datatype copy_action = ActionNew | ActionAmend | ActionCancel

primrec copy_action_bytes :: "copy_action \<Rightarrow> u8 list" where
  "copy_action_bytes ActionNew = ascii_bytes ''NEW''"
| "copy_action_bytes ActionAmend = ascii_bytes ''AMEND''"
| "copy_action_bytes ActionCancel = ascii_bytes ''CANCEL''"

record copy_identity_input =
  ci_event_id :: "u8 list"
  ci_source_event_id :: "u8 list"
  ci_follower_account_id :: "u8 list"
  ci_follower_binding_id :: "u8 list"
  ci_leader_order_id :: "u8 list"
  ci_revision :: u32
  ci_action :: copy_action

record copy_identity_set =
  cs_job_id :: copy_id
  cs_planning_snapshot_id :: copy_id
  cs_child_order_id :: copy_id
  cs_idempotency_key :: idempotency_key

definition derive_copy_identities ::
  "(u8 list \<Rightarrow> u8 list) \<Rightarrow> copy_identity_input \<Rightarrow> (copy_identity_set, copy_identity_error) outcome" where
  "derive_copy_identities sha input =
     (if ci_revision input = 0 then Err CI_Revision
      else if replicate UUID_BYTES 0 \<in> set
        [ci_event_id input, ci_source_event_id input, ci_follower_account_id input,
         ci_follower_binding_id input, ci_leader_order_id input]
      then Err CI_Identifier
      else
        let revision = u32_be_bytes (ci_revision input);
            action = copy_action_bytes (ci_action input)
        in Ok \<lparr>cs_job_id = derive_uuid sha (ascii_bytes ''copy-job-v1'')
                  [ci_event_id input, ci_follower_account_id input, revision, action],
               cs_planning_snapshot_id = derive_uuid sha (ascii_bytes ''planning-snapshot-v1'')
                  [ci_source_event_id input, ci_follower_binding_id input],
               cs_child_order_id = derive_uuid sha (ascii_bytes ''child-order-v1'')
                  [ci_leader_order_id input, ci_follower_binding_id input],
               cs_idempotency_key = IdempotencyKey (derive sha (ascii_bytes ''copy-job-key-v1'')
                  [ci_event_id input, ci_follower_account_id input, revision, action])\<rparr>)"

definition derive_repair_identities ::
  "(u8 list \<Rightarrow> u8 list) \<Rightarrow> copy_id \<Rightarrow> u64 \<Rightarrow> u8 list \<Rightarrow> (copy_identity_set, copy_identity_error) outcome" where
  "derive_repair_identities sha source_job_id receipt_sequence position_fact_digest =
     (if is_nil source_job_id \<or> receipt_sequence = 0 \<or> position_fact_digest = zero_digest
      then Err CI_RepairInput
      else
        let parts = [id_bytes source_job_id, u64_be_bytes receipt_sequence, position_fact_digest];
            job_id = derive_uuid sha (ascii_bytes ''copy-repair-job-v1'') parts
        in if job_id = source_job_id then Err CI_RepairInput
           else Ok \<lparr>cs_job_id = job_id,
             cs_planning_snapshot_id = derive_uuid sha (ascii_bytes ''copy-repair-snapshot-v1'') parts,
             cs_child_order_id = derive_uuid sha (ascii_bytes ''copy-repair-child-v1'') parts,
             cs_idempotency_key =
               IdempotencyKey (derive sha (ascii_bytes ''copy-repair-key-v1'') parts)\<rparr>)"

text \<open>
  A derived identifier has version nibble 5 and the RFC variant bits, so it is never nil.
\<close>

definition uuid_shaped :: "copy_id \<Rightarrow> bool" where
  "uuid_shaped i \<longleftrightarrow> length (id_bytes i) = UUID_BYTES
     \<and> drop_bit 4 (id_bytes i ! 6) = 5 \<and> drop_bit 6 (id_bytes i ! 8) = 2"

lemma version_nibble: "drop_bit 4 (or (and (b::u8) 0x0F) 0x50) = 5"
  by (rule bit_word_eqI) (auto simp: bit_simps numeral_eq_Suc less_Suc_eq)

lemma variant_bits: "drop_bit 6 (or (and (b::u8) 0x3F) 0x80) = 2"
  by (rule bit_word_eqI) (auto simp: bit_simps numeral_eq_Suc less_Suc_eq)

lemma derive_uuid_shaped:
  assumes "digest_length_law sha"
  shows "uuid_shaped (derive_uuid sha d ps)"
proof -
  have "length (take UUID_BYTES (derive sha d ps)) = UUID_BYTES"
    using assms by (simp add: derive_def digest_length_law_def UUID_BYTES_def DIGEST_BYTES_def)
  then show ?thesis
    by (simp add: uuid_shaped_def derive_uuid_def Let_def version_nibble variant_bits UUID_BYTES_def)
qed

lemma uuid_shaped_not_nil: "uuid_shaped i \<Longrightarrow> \<not> is_nil i"
  by (auto simp: uuid_shaped_def is_nil_def UUID_BYTES_def)

text \<open>
  Equal hashes of different texts are a collision, exhibited by the two texts; otherwise the
  hashed parts are equal.
\<close>

definition hash_collision :: "(u8 list \<Rightarrow> u8 list) \<Rightarrow> u8 list \<Rightarrow> u8 list \<Rightarrow> bool" where
  "hash_collision sha x y \<longleftrightarrow> x \<noteq> y \<and> sha x = sha y"

lemma derive_inj:
  assumes "derive sha d ps = derive sha e qs"
    and "\<not> hash_collision sha (commit_preimage d ps) (commit_preimage e qs)"
    and "0 \<notin> set d" and "0 \<notin> set e" and "list_all part_fits ps" and "list_all part_fits qs"
  shows "d = e \<and> ps = qs"
  using assms unfolding derive_def hash_collision_def by (metis commit_preimage_inj)

lemma copy_action_bytes_inj: "copy_action_bytes a = copy_action_bytes b \<longleftrightarrow> a = b"
  by (cases a; cases b; simp add: ascii_bytes_def)

lemma u32_be_bytes_inj: "u32_be_bytes a = u32_be_bytes b \<longleftrightarrow> a = b"
proof
  assume "u32_be_bytes a = u32_be_bytes b"
  moreover have "unat a < 256 ^ 4" "unat b < 256 ^ 4"
    using unat_bound [of a] unat_bound [of b] by simp_all
  ultimately show "a = b" unfolding u32_be_bytes_def by (metis be_bytes_inj word_unat_eq_iff)
qed simp

lemma copy_action_bytes_fits: "part_fits (copy_action_bytes a)" "part_fits (u32_be_bytes w)"
  by (cases a; simp add: part_fits_def ascii_bytes_def utf8_bytes_def)
    (simp add: part_fits_def u32_be_bytes_def)

lemma derive_copy_identities_Ok:
  "derive_copy_identities sha input = Ok ids \<longleftrightarrow>
     ci_revision input \<noteq> 0
     \<and> replicate UUID_BYTES 0 \<notin> set [ci_event_id input, ci_source_event_id input,
         ci_follower_account_id input, ci_follower_binding_id input, ci_leader_order_id input]
     \<and> ids = \<lparr>cs_job_id = derive_uuid sha (ascii_bytes ''copy-job-v1'')
           [ci_event_id input, ci_follower_account_id input, u32_be_bytes (ci_revision input),
            copy_action_bytes (ci_action input)],
         cs_planning_snapshot_id = derive_uuid sha (ascii_bytes ''planning-snapshot-v1'')
           [ci_source_event_id input, ci_follower_binding_id input],
         cs_child_order_id = derive_uuid sha (ascii_bytes ''child-order-v1'')
           [ci_leader_order_id input, ci_follower_binding_id input],
         cs_idempotency_key = IdempotencyKey (derive sha (ascii_bytes ''copy-job-key-v1'')
           [ci_event_id input, ci_follower_account_id input, u32_be_bytes (ci_revision input),
            copy_action_bytes (ci_action input)])\<rparr>"
  by (auto simp: derive_copy_identities_def Let_def)

text \<open>The parts behind the idempotency key of a job.\<close>

definition job_parts :: "copy_identity_input \<Rightarrow> u8 list list" where
  "job_parts i = [ci_event_id i, ci_follower_account_id i, u32_be_bytes (ci_revision i),
     copy_action_bytes (ci_action i)]"

lemma job_parts_inj:
  "job_parts i = job_parts j \<longleftrightarrow>
     ci_event_id i = ci_event_id j \<and> ci_follower_account_id i = ci_follower_account_id j
     \<and> ci_revision i = ci_revision j \<and> ci_action i = ci_action j"
  by (auto simp: job_parts_def u32_be_bytes_inj copy_action_bytes_inj)

end
