(* ===== verification/Copy_Delivery.thy ===== *)
theory Copy_Delivery
  imports Copy_Identity Instruments Contracts
begin

text \<open>
  Delivery of a copy job to a follower node (\<open>crates/venue-copy/src/delivery.rs\<close>): the
  manifest with its freshness window and digest, and the tracker that applies persisted
  receipts.  Also the position-target identities of \<open>identity.rs\<close>, which start from a
  validated relation.
\<close>

definition MAX_DELIVERY_TTL_MS :: u64 where
  "MAX_DELIVERY_TTL_MS = 5 * 60 * 1000"

datatype delivery_error =
  DE_Relation | DE_Binding | DE_Instrument | DE_Digest | DE_Generation | DE_Window
| DE_ReceiptBinding | DE_ReceiptGeneration | DE_ReceiptPersistence | DE_Transition

record relation_commitment =
  rc_relation_id :: copy_id
  rc_revision :: u64
  rc_policy_digest :: "u8 list"

definition relation_validate :: "relation_commitment \<Rightarrow> (unit, delivery_error) outcome" where
  "relation_validate r =
     (if is_nil (rc_relation_id r) \<or> rc_revision r = 0 \<or> rc_policy_digest r = zero_digest
      then Err DE_Relation else Ok ())"

record delivery_binding =
  db_relation :: relation_commitment
  db_leader_id :: copy_id
  db_follower_id :: copy_id
  db_follower_binding_id :: copy_id
  db_follower_instance_id :: string
  db_account_id :: string
  db_instrument :: instrument_identity
  db_policy_id :: copy_id

record follower_delivery_manifest =
  fm_identities :: copy_identity_set
  fm_binding :: delivery_binding
  fm_plan_digest :: "u8 list"
  fm_snapshot_generation :: u64
  fm_instrument_generation :: u64
  fm_issued_at_ms :: u64
  fm_expires_at_ms :: u64

definition manifest_validate :: "follower_delivery_manifest \<Rightarrow> u64 \<Rightarrow> (unit, delivery_error) outcome" where
  "manifest_validate m now_ms =
     (let b = fm_binding m; ids = fm_identities m in
      and_then (relation_validate (db_relation b)) (\<lambda>_.
      if \<not> is_canonical_trading_account_id (db_account_id b)
        \<or> is_nil (db_leader_id b) \<or> is_nil (db_follower_id b) \<or> is_nil (db_follower_binding_id b)
        \<or> trim (db_follower_instance_id b) = [] \<or> is_nil (db_policy_id b)
        \<or> is_nil (cs_job_id ids) \<or> is_nil (cs_planning_snapshot_id ids)
        \<or> is_nil (cs_child_order_id ids) \<or> is_zero_key (cs_idempotency_key ids)
      then Err DE_Binding
      else if ii_market (db_instrument b) = LinearPerpetual
        \<and> (case ii_settlement_asset (db_instrument b) of None \<Rightarrow> True
           | Some a \<Rightarrow> asset_str a \<noteq> sym_quote (ii_symbol (db_instrument b)))
      then Err DE_Instrument
      else if fm_plan_digest m = zero_digest then Err DE_Digest
      else if fm_snapshot_generation m = 0 \<or> fm_instrument_generation m = 0 then Err DE_Generation
      else
      and_then (ok_or DE_Window (checked_sub (fm_expires_at_ms m) (fm_issued_at_ms m))) (\<lambda>ttl.
        if fm_issued_at_ms m = 0 \<or> ttl = 0 \<or> MAX_DELIVERY_TTL_MS < ttl
          \<or> now_ms < fm_issued_at_ms m \<or> fm_expires_at_ms m \<le> now_ms
        then Err DE_Window else Ok ())))"

definition delivery_parts :: "follower_delivery_manifest \<Rightarrow> u8 list list" where
  "delivery_parts m =
     (let b = fm_binding m; ids = fm_identities m; i = db_instrument b;
          market = (case ii_market i of Spot \<Rightarrow> ascii_bytes ''SPOT''
                    | LinearPerpetual \<Rightarrow> ascii_bytes ''LINEAR_PERPETUAL'');
          settlement = (case ii_settlement_asset i of None \<Rightarrow> [] | Some a \<Rightarrow> asset_str a)
      in [id_bytes (cs_job_id ids), id_bytes (cs_planning_snapshot_id ids),
          id_bytes (cs_child_order_id ids), key_bytes (cs_idempotency_key ids),
          id_bytes (db_leader_id b), id_bytes (rc_relation_id (db_relation b)),
          u64_be_bytes (rc_revision (db_relation b)), rc_policy_digest (db_relation b),
          id_bytes (db_follower_id b), id_bytes (db_follower_binding_id b),
          utf8_bytes (db_follower_instance_id b), utf8_bytes (db_account_id b),
          utf8_bytes (sym_base (ii_symbol i)), utf8_bytes (sym_quote (ii_symbol i)),
          market, utf8_bytes settlement, id_bytes (db_policy_id b), fm_plan_digest m,
          u64_be_bytes (fm_snapshot_generation m), u64_be_bytes (fm_instrument_generation m),
          u64_be_bytes (fm_issued_at_ms m), u64_be_bytes (fm_expires_at_ms m)])"

definition delivery_digest :: "(u8 list \<Rightarrow> u8 list) \<Rightarrow> follower_delivery_manifest \<Rightarrow> u8 list" where
  "delivery_digest sha m = derive_commitment sha (ascii_bytes ''copy-delivery-v1'') (delivery_parts m)"

section \<open>The parts determine the manifest\<close>

text \<open>The settlement asset of an instrument, when it has one, is a real asset.\<close>

definition settlement_named :: "instrument_identity \<Rightarrow> bool" where
  "settlement_named i \<longleftrightarrow>
     (case ii_settlement_asset i of None \<Rightarrow> True | Some a \<Rightarrow> asset_str a \<noteq> [])"

lemma market_bytes_inj:
  "(case a of Spot \<Rightarrow> ascii_bytes ''SPOT'' | LinearPerpetual \<Rightarrow> ascii_bytes ''LINEAR_PERPETUAL'')
   = (case b of Spot \<Rightarrow> ascii_bytes ''SPOT'' | LinearPerpetual \<Rightarrow> ascii_bytes ''LINEAR_PERPETUAL'')
   \<longleftrightarrow> a = b"
  by (cases a; cases b; simp add: ascii_bytes_def)

lemma settlement_text_inj:
  assumes "settlement_named i" and "settlement_named j"
    and "(case ii_settlement_asset i of None \<Rightarrow> [] | Some a \<Rightarrow> asset_str a)
       = (case ii_settlement_asset j of None \<Rightarrow> [] | Some a \<Rightarrow> asset_str a)"
  shows "ii_settlement_asset i = ii_settlement_asset j"
  using assms by (auto simp: settlement_named_def asset.expand split: option.splits)

lemma delivery_parts_inj:
  assumes "delivery_parts m = delivery_parts n"
    and "settlement_named (db_instrument (fm_binding m))"
    and "settlement_named (db_instrument (fm_binding n))"
  shows "m = n"
proof -
  have ids: "fm_identities m = fm_identities n"
    using assms(1) by (auto simp: delivery_parts_def Let_def intro!: copy_identity_set.equality
        copy_id.expand idempotency_key.expand)
  have rel: "db_relation (fm_binding m) = db_relation (fm_binding n)"
    using assms(1) by (auto simp: delivery_parts_def Let_def u64_be_bytes_inj
        intro!: relation_commitment.equality copy_id.expand)
  have ins: "db_instrument (fm_binding m) = db_instrument (fm_binding n)"
    using assms(1) settlement_text_inj [OF assms(2,3)]
    by (auto simp: delivery_parts_def Let_def market_bytes_inj
        intro!: instrument_identity.equality symbol.equality)
  have "fm_binding m = fm_binding n"
    using assms(1) rel ins by (auto simp: delivery_parts_def Let_def
        intro!: delivery_binding.equality copy_id.expand)
  with ids show ?thesis
    using assms(1) by (auto simp: delivery_parts_def Let_def u64_be_bytes_inj
        intro!: follower_delivery_manifest.equality)
qed


section \<open>The tracker\<close>

datatype receipt_status = StatusApplied | StatusUnknown | StatusReconciled | StatusRejected

record persisted_delivery_receipt =
  rr_delivery_digest :: "u8 list"
  rr_binding :: delivery_binding
  rr_plan_digest :: "u8 list"
  rr_snapshot_generation :: u64
  rr_instrument_generation :: u64
  rr_receipt_sequence :: u64
  rr_status :: receipt_status
  rr_persisted_at_ms :: u64

datatype delivery_state =
  Pending
| Applied persisted_delivery_receipt
| Unknown persisted_delivery_receipt
| Reconciled persisted_delivery_receipt
| RejectedBy persisted_delivery_receipt

record delivery_tracker =
  dt_manifest :: follower_delivery_manifest
  dt_state :: delivery_state

definition tracker_new ::
  "follower_delivery_manifest \<Rightarrow> u64 \<Rightarrow> (delivery_tracker, delivery_error) outcome" where
  "tracker_new manifest now_ms =
     and_then (manifest_validate manifest now_ms) (\<lambda>_.
       Ok \<lparr>dt_manifest = manifest, dt_state = Pending\<rparr>)"

definition may_deliver :: "delivery_tracker \<Rightarrow> u64 \<Rightarrow> bool" where
  "may_deliver t now_ms \<longleftrightarrow> dt_state t = Pending \<and> is_ok (manifest_validate (dt_manifest t) now_ms)"

definition requires_reconciliation :: "delivery_tracker \<Rightarrow> bool" where
  "requires_reconciliation t \<longleftrightarrow> (case dt_state t of Unknown _ \<Rightarrow> True | _ \<Rightarrow> False)"

definition validate_receipt ::
  "(u8 list \<Rightarrow> u8 list) \<Rightarrow> delivery_tracker \<Rightarrow> persisted_delivery_receipt
   \<Rightarrow> (unit, delivery_error) outcome" where
  "validate_receipt sha t receipt =
     (let m = dt_manifest t in
      if rr_delivery_digest receipt \<noteq> delivery_digest sha m \<or> rr_binding receipt \<noteq> fm_binding m
        \<or> rr_plan_digest receipt \<noteq> fm_plan_digest m
      then Err DE_ReceiptBinding
      else if rr_snapshot_generation receipt \<noteq> fm_snapshot_generation m
        \<or> rr_instrument_generation receipt \<noteq> fm_instrument_generation m
        \<or> rr_receipt_sequence receipt = 0
      then Err DE_ReceiptGeneration
      else if rr_persisted_at_ms receipt < fm_issued_at_ms m then Err DE_ReceiptPersistence
      else Ok ())"

definition state_from_receipt :: "persisted_delivery_receipt \<Rightarrow> delivery_state" where
  "state_from_receipt receipt =
     (case rr_status receipt of
        StatusApplied \<Rightarrow> Applied receipt
      | StatusUnknown \<Rightarrow> Unknown receipt
      | StatusReconciled \<Rightarrow> Reconciled receipt
      | StatusRejected \<Rightarrow> RejectedBy receipt)"

definition apply_persisted_receipt ::
  "(u8 list \<Rightarrow> u8 list) \<Rightarrow> delivery_tracker \<Rightarrow> persisted_delivery_receipt
   \<Rightarrow> (delivery_tracker \<times> applied, delivery_error) outcome" where
  "apply_persisted_receipt sha t receipt =
     and_then (validate_receipt sha t receipt) (\<lambda>_.
       case dt_state t of
         Pending \<Rightarrow>
           if rr_status receipt = StatusReconciled then Err DE_Transition
           else Ok (t\<lparr>dt_state := state_from_receipt receipt\<rparr>, Advanced)
       | Unknown previous \<Rightarrow>
           if receipt = previous then Ok (t, NoOp)
           else and_then (ok_or DE_Transition (checked_add (rr_receipt_sequence previous) 1))
             (\<lambda>expected_sequence.
               if rr_status receipt \<noteq> StatusReconciled
                 \<or> rr_receipt_sequence receipt \<noteq> expected_sequence
               then Err DE_Transition
               else Ok (t\<lparr>dt_state := Reconciled receipt\<rparr>, Advanced))
       | Applied previous \<Rightarrow> if receipt = previous then Ok (t, NoOp) else Err DE_Transition
       | Reconciled previous \<Rightarrow> if receipt = previous then Ok (t, NoOp) else Err DE_Transition
       | RejectedBy previous \<Rightarrow> if receipt = previous then Ok (t, NoOp) else Err DE_Transition)"

section \<open>Position-target observations (identity.rs)\<close>

record copy_target_observation_identity =
  to_input :: copy_identity_input
  to_leader_id :: copy_id
  to_follower_id :: copy_id
  to_follower_binding_id :: copy_id
  to_policy_id :: copy_id

text \<open>\<open>u32::try_from\<close> on a \<open>u64\<close>.\<close>

definition u32_try_from :: "u64 \<Rightarrow> u32 option" where
  "u32_try_from w = (if unat w < 2 ^ 32 then Some (of_nat (unat w)) else None)"

definition derive_target_observation_identity ::
  "(u8 list \<Rightarrow> u8 list) \<Rightarrow> relation_commitment \<Rightarrow> copy_id \<Rightarrow> u8 list \<Rightarrow> u8 list \<Rightarrow> u8 list
   \<Rightarrow> (copy_target_observation_identity, copy_identity_error) outcome" where
  "derive_target_observation_identity sha relation follower_account leader_binding_digest
     follower_binding_digest paired_fact_digest =
     (if \<not> is_ok (relation_validate relation) \<or> is_nil follower_account
        \<or> zero_digest \<in> set [leader_binding_digest, follower_binding_digest, paired_fact_digest]
      then Err CI_Identifier
      else
      and_then (ok_or CI_Revision (u32_try_from (rc_revision relation))) (\<lambda>revision.
      let leader_id = derive_uuid sha (ascii_bytes ''copy-target-leader-v1'') [leader_binding_digest];
          follower_binding_id =
            derive_uuid sha (ascii_bytes ''copy-target-follower-v1'') [follower_binding_digest];
          policy_id = derive_uuid sha (ascii_bytes ''copy-target-policy-v1'')
            [id_bytes (rc_relation_id relation), u64_be_bytes (rc_revision relation),
             rc_policy_digest relation];
          event = derive_uuid sha (ascii_bytes ''copy-target-observation-v1'')
            [id_bytes policy_id, id_bytes leader_id, id_bytes follower_binding_id,
             paired_fact_digest];
          input = \<lparr>ci_event_id = id_bytes event, ci_source_event_id = id_bytes event,
                   ci_follower_account_id = id_bytes follower_account,
                   ci_follower_binding_id = id_bytes follower_binding_id,
                   ci_leader_order_id = id_bytes event, ci_revision = revision,
                   ci_action = ActionNew\<rparr>
      in and_then (derive_copy_identities sha input) (\<lambda>_.
           Ok \<lparr>to_input = input, to_leader_id = leader_id, to_follower_id = follower_account,
               to_follower_binding_id = follower_binding_id, to_policy_id = policy_id\<rparr>)))"

section \<open>Properties of the tracker\<close>

text \<open>
  The receipt recorded in the state is one the tracker accepted, and a state never names a
  status other than the receipt's own.
\<close>

definition tracker_ok :: "(u8 list \<Rightarrow> u8 list) \<Rightarrow> delivery_tracker \<Rightarrow> bool" where
  "tracker_ok sha t \<longleftrightarrow>
     (case dt_state t of
        Pending \<Rightarrow> True
      | Applied r \<Rightarrow> validate_receipt sha t r = Ok () \<and> rr_status r = StatusApplied
      | Unknown r \<Rightarrow> validate_receipt sha t r = Ok () \<and> rr_status r = StatusUnknown
      | Reconciled r \<Rightarrow> validate_receipt sha t r = Ok () \<and> rr_status r = StatusReconciled
      | RejectedBy r \<Rightarrow> validate_receipt sha t r = Ok () \<and> rr_status r = StatusRejected)"

lemma validate_receipt_manifest [simp]:
  "validate_receipt sha (t\<lparr>dt_state := st\<rparr>) r = validate_receipt sha t r"
  by (simp add: validate_receipt_def)

lemma unit_Ok [simp]: "(\<exists>u. m = Ok u) \<longleftrightarrow> m = Ok ()"
  by auto

lemma apply_receipt_cases:
  assumes "apply_persisted_receipt sha t receipt = Ok (t', out)"
  shows "validate_receipt sha t receipt = Ok () \<and>
    ((dt_state t = Pending \<and> rr_status receipt \<noteq> StatusReconciled
        \<and> t' = t\<lparr>dt_state := state_from_receipt receipt\<rparr> \<and> out = Advanced)
     \<or> (\<exists>p. dt_state t = Unknown p \<and> receipt \<noteq> p \<and> rr_status receipt = StatusReconciled
          \<and> checked_add (rr_receipt_sequence p) 1 = Some (rr_receipt_sequence receipt)
          \<and> t' = t\<lparr>dt_state := Reconciled receipt\<rparr> \<and> out = Advanced)
     \<or> (dt_state t \<in> {Applied receipt, Unknown receipt, Reconciled receipt, RejectedBy receipt}
          \<and> t' = t \<and> out = NoOp))"
  using assms
  by (auto simp: apply_persisted_receipt_def outcome_simps split: delivery_state.splits if_splits)

lemma apply_receipt_same:
  assumes "validate_receipt sha t r = Ok ()"
    and "dt_state t \<in> {Applied r, Unknown r, Reconciled r, RejectedBy r}"
  shows "apply_persisted_receipt sha t r = Ok (t, NoOp)"
  using assms by (auto simp: apply_persisted_receipt_def)

lemma apply_receipt_ok:
  assumes "apply_persisted_receipt sha t receipt = Ok (t', out)" and "tracker_ok sha t"
  shows "tracker_ok sha t'"
  using apply_receipt_cases [OF assms(1)] assms(2)
  by (auto simp: tracker_ok_def state_from_receipt_def split: receipt_status.splits)

lemma apply_receipt_noop: "apply_persisted_receipt sha t receipt = Ok (t', NoOp) \<Longrightarrow> t' = t"
  by (auto dest: apply_receipt_cases)

lemma apply_receipt_replay:
  assumes "apply_persisted_receipt sha t receipt = Ok (t', out)"
  shows "apply_persisted_receipt sha t' receipt = Ok (t', NoOp)"
  using apply_receipt_cases [OF assms]
  by (auto intro!: apply_receipt_same simp: state_from_receipt_def split: receipt_status.splits)

interpretation tracker: idempotent_machine "apply_persisted_receipt sha" "tracker_ok sha"
  by unfold_locales (auto intro: apply_receipt_ok apply_receipt_noop apply_receipt_replay)

interpretation manifest_window: validity_window
  "\<lambda>m t. manifest_validate m t = Ok ()" fm_issued_at_ms fm_expires_at_ms
  by unfold_locales (auto simp: manifest_validate_def Let_def outcome_simps split: if_splits)

text \<open>
  Along any later receipts, a tracker that accepted one never delivers again; it stays as it
  is, or an unknown outcome is reconciled by the receipt with the next sequence.
\<close>

definition settled_or_reconciled :: "delivery_tracker \<Rightarrow> delivery_tracker \<Rightarrow> bool" where
  "settled_or_reconciled t u \<longleftrightarrow>
     dt_manifest u = dt_manifest t \<and> dt_state t \<noteq> Pending \<and>
     (dt_state u = dt_state t
      \<or> (\<exists>p q. dt_state t = Unknown p \<and> dt_state u = Reconciled q
           \<and> unat (rr_receipt_sequence q) = unat (rr_receipt_sequence p) + 1))"

lemma settled_step:
  assumes "settled_or_reconciled t u"
  shows "settled_or_reconciled t (step_or_stay (apply_persisted_receipt sha) u r)"
proof (cases "apply_persisted_receipt sha u r")
  case (Ok p)
  obtain u' out where p: "p = (u', out)" by fastforce
  show ?thesis
    using apply_receipt_cases [OF Ok [unfolded p]] assms
    by (auto simp: step_or_stay_def Ok p settled_or_reconciled_def
        dest: checked_add_Some dest!: sym [where t = "dt_state t"])
qed (use assms in \<open>simp_all add: step_or_stay_def\<close>)

lemma settled_run:
  "settled_or_reconciled t u \<Longrightarrow> settled_or_reconciled t (run (apply_persisted_receipt sha) u rs)"
  by (induction rs arbitrary: u) (auto intro: settled_step)

lemma receipt_settles:
  assumes "apply_persisted_receipt sha t r = Ok (t', out)"
  shows "settled_or_reconciled t' t'"
  using apply_receipt_cases [OF assms]
  by (auto simp: settled_or_reconciled_def state_from_receipt_def split: receipt_status.splits)

end
