(* ===== verification/Copy_Drift.thy ===== *)
theory Copy_Drift
  imports Copy_Delivery Copy_Capital
begin

text \<open>
  From an authoritative position to the next request: drift repair
  (\<open>crates/venue-copy/src/drift.rs\<close>) and the execution request
  (\<open>crates/venue-copy/src/execution.rs\<close>).
\<close>

section \<open>Authoritative positions and drift repair (drift.rs)\<close>

definition MAX_REPAIR_TTL_MS :: u64 where
  "MAX_REPAIR_TTL_MS = 5 * 60 * 1000"

definition MAX_POSITION_SNAPSHOT_TTL_MS :: u64 where
  "MAX_POSITION_SNAPSHOT_TTL_MS = 60 * 1000"

record 'd authoritative_position_snapshot =
  ap_binding :: delivery_binding
  ap_generation :: u64
  ap_observed_at_ms :: u64
  ap_expires_at_ms :: u64
  ap_exposure :: "'d amount"
  ap_fact_digest :: "u8 list"

record 'd drift_repair_plan_request =
  dq_source_job_id :: copy_id
  dq_repair_identities :: copy_identity_set
  dq_binding :: delivery_binding
  dq_expected_position_generation :: u64
  dq_expected_target_generation :: u64
  dq_position :: "'d authoritative_position_snapshot"
  dq_target :: "'d target_exposure_plan"
  dq_now_ms :: u64
  dq_repair_expires_at_ms :: u64

record 'd drift_repair_request =
  dr_supersedes_job_id :: copy_id
  dr_identities :: copy_identity_set
  dr_binding :: delivery_binding
  dr_position_generation :: u64
  dr_target_generation :: u64
  dr_authoritative_fact_digest :: "u8 list"
  dr_authoritative_exposure :: "'d amount"
  dr_target_exposure :: "'d amount"
  dr_delta_exposure :: "'d amount"
  dr_requested_at_ms :: u64
  dr_expires_at_ms :: u64

datatype drift_repair_error =
  DR_Binding | DR_JobIdentity | DR_Generation | DR_FactDigest | DR_PositionFreshness
| DR_RepairWindow | DR_Asset | DR_Target | DR_ArithmeticOverflow

definition drift_validate_request ::
  "'d decimal_api \<Rightarrow> 'd drift_repair_plan_request \<Rightarrow> (unit, drift_repair_error) outcome" where
  "drift_validate_request D request =
     (let position = dq_position request; target = dq_target request;
          ids = dq_repair_identities request in
      if ap_binding position \<noteq> dq_binding request then Err DR_Binding
      else if dq_source_job_id request = cs_job_id ids \<or> is_nil (cs_job_id ids)
        \<or> is_zero_key (cs_idempotency_key ids)
      then Err DR_JobIdentity
      else if dq_expected_position_generation request = 0
        \<or> dq_expected_target_generation request = 0
        \<or> ap_generation position \<noteq> dq_expected_position_generation request
        \<or> tp_snapshot_generation target \<noteq> dq_expected_target_generation request
      then Err DR_Generation
      else if ap_fact_digest position = zero_digest then Err DR_FactDigest
      else
      and_then (ok_or DR_PositionFreshness
        (checked_sub (ap_expires_at_ms position) (ap_observed_at_ms position)))
        (\<lambda>position_window.
      if ap_observed_at_ms position = 0 \<or> position_window = 0
        \<or> MAX_POSITION_SNAPSHOT_TTL_MS < position_window
        \<or> dq_now_ms request < ap_observed_at_ms position
        \<or> ap_expires_at_ms position \<le> dq_now_ms request
      then Err DR_PositionFreshness
      else
      and_then (ok_or DR_RepairWindow
        (checked_sub (dq_repair_expires_at_ms request) (dq_now_ms request))) (\<lambda>repair_ttl.
      if dq_now_ms request = 0 \<or> repair_ttl = 0 \<or> MAX_REPAIR_TTL_MS < repair_ttl
      then Err DR_RepairWindow
      else
      let asset = am_asset (ap_exposure position) in
      if am_asset (tp_target_exposure target) \<noteq> asset
        \<or> am_asset (tp_delta_exposure target) \<noteq> asset
        \<or> am_asset (tp_safe_available_margin target) \<noteq> asset
        \<or> am_asset (tp_effective_follower_capital target) \<noteq> asset
        \<or> sym_quote (ii_symbol (db_instrument (dq_binding request))) \<noteq> asset_str asset
      then Err DR_Asset
      else
      and_then (ok_or DR_ArithmeticOverflow
        (dec_mul D (tp_exposure_ratio target) (am_value (tp_effective_follower_capital target))))
        (\<lambda>expected_target.
      if dec_negative D (am_value (tp_safe_available_margin target))
        \<or> dec_negative D (am_value (tp_effective_follower_capital target))
        \<or> dec_less D (am_value (tp_safe_available_margin target))
             (am_value (tp_effective_follower_capital target))
        \<or> \<not> dec_eq D expected_target (am_value (tp_target_exposure target))
      then Err DR_Target
      else Ok ()))))"

definition plan_drift_repair ::
  "'d decimal_api \<Rightarrow> 'd drift_repair_plan_request
   \<Rightarrow> ('d drift_repair_request option, drift_repair_error) outcome" where
  "plan_drift_repair D request =
     and_then (drift_validate_request D request) (\<lambda>_.
     let current = am_value (ap_exposure (dq_position request));
         target = am_value (tp_target_exposure (dq_target request)) in
     if dec_eq D current target then Ok None
     else
     and_then (ok_or DR_ArithmeticOverflow (dec_sub D target current)) (\<lambda>delta.
       Ok (Some \<lparr>dr_supersedes_job_id = dq_source_job_id request,
                 dr_identities = dq_repair_identities request,
                 dr_binding = dq_binding request,
                 dr_position_generation = ap_generation (dq_position request),
                 dr_target_generation = tp_snapshot_generation (dq_target request),
                 dr_authoritative_fact_digest = ap_fact_digest (dq_position request),
                 dr_authoritative_exposure = ap_exposure (dq_position request),
                 dr_target_exposure = tp_target_exposure (dq_target request),
                 dr_delta_exposure =
                   amount_new (am_asset (ap_exposure (dq_position request))) delta,
                 dr_requested_at_ms = dq_now_ms request,
                 dr_expires_at_ms = dq_repair_expires_at_ms request\<rparr>)))"

text \<open>The checks a validated request has passed.\<close>

lemma drift_validate_request_Ok:
  assumes "drift_validate_request D request = Ok ()"
  shows "ap_binding (dq_position request) = dq_binding request
    \<and> dq_source_job_id request \<noteq> cs_job_id (dq_repair_identities request)
    \<and> ap_generation (dq_position request) = dq_expected_position_generation request
    \<and> dq_expected_position_generation request \<noteq> 0
    \<and> tp_snapshot_generation (dq_target request) = dq_expected_target_generation request
    \<and> ap_observed_at_ms (dq_position request) \<le> dq_now_ms request
    \<and> dq_now_ms request < ap_expires_at_ms (dq_position request)
    \<and> dq_now_ms request \<le> dq_repair_expires_at_ms request
    \<and> dq_repair_expires_at_ms request - dq_now_ms request \<le> MAX_REPAIR_TTL_MS
    \<and> am_asset (tp_target_exposure (dq_target request)) = am_asset (ap_exposure (dq_position request))
    \<and> (\<exists>e. dec_mul D (tp_exposure_ratio (dq_target request))
             (am_value (tp_effective_follower_capital (dq_target request))) = Some e
           \<and> dec_eq D e (am_value (tp_target_exposure (dq_target request))))
    \<and> \<not> dec_less D (am_value (tp_safe_available_margin (dq_target request)))
          (am_value (tp_effective_follower_capital (dq_target request)))"
  using assms
  by (simp add: drift_validate_request_def Let_def outcome_simps checked_sub_def not_less
      not_le split: if_splits) blast

section \<open>Execution requests (execution.rs)\<close>

datatype copy_execution_phase = ReduceToZero | Adjust

datatype copy_execution_error = CE_Binding | CE_Arithmetic | CE_Delivery delivery_error

record 'd copy_execution_request =
  ce_job_id :: copy_id
  ce_delivery_digest :: "u8 list"
  ce_binding :: delivery_binding
  ce_target_generation :: u64
  ce_position_generation :: u64
  ce_target_exposure :: "'d amount"
  ce_current_exposure :: "'d amount"
  ce_requested_delta_exposure :: "'d amount"
  ce_phase :: copy_execution_phase

definition execution_crosses_zero :: "'d decimal_api \<Rightarrow> 'd \<Rightarrow> 'd \<Rightarrow> bool" where
  "execution_crosses_zero D current desired \<longleftrightarrow>
     (\<not> dec_sign_negative D current \<and> \<not> dec_is_zero D current \<and> dec_sign_negative D desired)
     \<or> (dec_sign_negative D current \<and> \<not> dec_sign_negative D desired \<and> \<not> dec_is_zero D desired)"

definition execution_delta ::
  "'d decimal_api \<Rightarrow> 'd \<Rightarrow> 'd \<Rightarrow> (copy_execution_phase \<times> 'd, copy_execution_error) outcome" where
  "execution_delta D current desired =
     (if execution_crosses_zero D current desired then Ok (ReduceToZero, dec_neg D current)
      else and_then (ok_or CE_Arithmetic (dec_sub D desired current)) (\<lambda>d. Ok (Adjust, d)))"

definition validate_against ::
  "'d decimal_api \<Rightarrow> (u8 list \<Rightarrow> u8 list) \<Rightarrow> 'd copy_execution_request
   \<Rightarrow> follower_delivery_manifest \<Rightarrow> 'd target_exposure_plan
   \<Rightarrow> (unit, copy_execution_error) outcome" where
  "validate_against D sha r manifest target =
     and_then (map_err CE_Delivery (manifest_validate manifest (fm_issued_at_ms manifest))) (\<lambda>_.
     if ce_job_id r \<noteq> cs_job_id (fm_identities manifest)
       \<or> ce_delivery_digest r \<noteq> delivery_digest sha manifest
       \<or> ce_binding r \<noteq> fm_binding manifest
       \<or> ce_target_generation r \<noteq> fm_snapshot_generation manifest
       \<or> ce_target_generation r \<noteq> tp_snapshot_generation target
       \<or> ce_position_generation r = 0
       \<or> \<not> amount_eq D (ce_target_exposure r) (tp_target_exposure target)
       \<or> am_asset (ce_current_exposure r) \<noteq> am_asset (ce_target_exposure r)
       \<or> am_asset (ce_requested_delta_exposure r) \<noteq> am_asset (ce_target_exposure r)
     then Err CE_Binding
     else
     and_then (execution_delta D (am_value (ce_current_exposure r)) (am_value (ce_target_exposure r)))
       (\<lambda>(phase, delta).
     if ce_phase r \<noteq> phase \<or> \<not> dec_eq D (am_value (ce_requested_delta_exposure r)) delta
     then Err CE_Binding else Ok ()))"

definition plan_copy_execution ::
  "'d decimal_api \<Rightarrow> (u8 list \<Rightarrow> u8 list) \<Rightarrow> follower_delivery_manifest
   \<Rightarrow> 'd target_exposure_plan \<Rightarrow> 'd authoritative_position_snapshot \<Rightarrow> u64
   \<Rightarrow> ('d copy_execution_request, copy_execution_error) outcome" where
  "plan_copy_execution D sha manifest target position now_ms =
     and_then (map_err CE_Delivery (manifest_validate manifest now_ms)) (\<lambda>_.
     if ap_binding position \<noteq> fm_binding manifest \<or> ap_generation position = 0
       \<or> ap_fact_digest position = zero_digest \<or> ap_observed_at_ms position = 0
       \<or> now_ms < ap_observed_at_ms position \<or> ap_expires_at_ms position \<le> now_ms
       \<or> tp_snapshot_generation target \<noteq> fm_snapshot_generation manifest
       \<or> am_asset (tp_target_exposure target) \<noteq> am_asset (ap_exposure position)
       \<or> am_asset (tp_delta_exposure target) \<noteq> am_asset (ap_exposure position)
     then Err CE_Binding
     else
     and_then (execution_delta D (am_value (ap_exposure position))
         (am_value (tp_target_exposure target))) (\<lambda>(phase, delta).
       Ok \<lparr>ce_job_id = cs_job_id (fm_identities manifest),
           ce_delivery_digest = delivery_digest sha manifest,
           ce_binding = fm_binding manifest,
           ce_target_generation = tp_snapshot_generation target,
           ce_position_generation = ap_generation position,
           ce_target_exposure = tp_target_exposure target,
           ce_current_exposure = ap_exposure position,
           ce_requested_delta_exposure =
             amount_new (am_asset (ap_exposure position)) delta,
           ce_phase = phase\<rparr>))"

text \<open>
  A manifest stays structurally valid at its own issue time, so historical evidence can be
  checked after expiry.
\<close>

lemma manifest_valid_at_issue:
  "manifest_validate m now = Ok () \<Longrightarrow> manifest_validate m (fm_issued_at_ms m) = Ok ()"
  by (rule manifest_window.usable_within)
    (auto dest: manifest_window.usable_bounds intro: order.strict_trans1)

lemma execution_delta_Ok:
  assumes "execution_delta D current desired = Ok (phase, delta)"
  shows "(phase = ReduceToZero \<and> execution_crosses_zero D current desired \<and> delta = dec_neg D current)
    \<or> (phase = Adjust \<and> \<not> execution_crosses_zero D current desired
       \<and> dec_sub D desired current = Some delta)"
  using assms by (auto simp: execution_delta_def outcome_simps split: if_splits)

text \<open>The two values a planned execution is built from, and the checks it has passed.\<close>

lemma plan_copy_execution_steps:
  assumes "plan_copy_execution D sha manifest target position now_ms = Ok r"
  obtains phase delta where
    "manifest_validate manifest now_ms = Ok ()"
    "ap_binding position = fm_binding manifest" "ap_generation position \<noteq> 0"
    "ap_observed_at_ms position \<le> now_ms" "now_ms < ap_expires_at_ms position"
    "tp_snapshot_generation target = fm_snapshot_generation manifest"
    "am_asset (tp_target_exposure target) = am_asset (ap_exposure position)"
    "execution_delta D (am_value (ap_exposure position)) (am_value (tp_target_exposure target))
       = Ok (phase, delta)"
    "r = \<lparr>ce_job_id = cs_job_id (fm_identities manifest),
          ce_delivery_digest = delivery_digest sha manifest,
          ce_binding = fm_binding manifest,
          ce_target_generation = tp_snapshot_generation target,
          ce_position_generation = ap_generation position,
          ce_target_exposure = tp_target_exposure target,
          ce_current_exposure = ap_exposure position,
          ce_requested_delta_exposure = amount_new (am_asset (ap_exposure position)) delta,
          ce_phase = phase\<rparr>"
  using assms
  by (auto simp: plan_copy_execution_def outcome_simps not_less not_le intro: that
      split: if_splits)

lemma amount_eq_refl [simp]: "amount_eq D a a"
  by (simp add: amount_eq_def dec_eq_def)

lemma plan_copy_execution_validates:
  assumes "plan_copy_execution D sha manifest target position now_ms = Ok r"
  shows "validate_against D sha r manifest target = Ok ()"
  using assms
  by (rule plan_copy_execution_steps)
    (simp add: validate_against_def manifest_valid_at_issue dec_eq_def)

lemma not_execution_crosses_zero:
  assumes laws: "dec_sign_laws D" and "\<not> execution_crosses_zero D a b"
  shows "0 \<le> dec_value D a * dec_value D b"
proof (cases "dec_value D a" "0 :: rat" rule: linorder_cases)
  case less
  then have "dec_sign_negative D a" using laws by (simp add: dec_sign_laws_def)
  then have "dec_sign_negative D b \<or> dec_value D b = 0"
    using assms(2) by (auto simp: execution_crosses_zero_def dec_is_zero_def)
  then have "dec_value D b \<le> 0" using dec_sign_nonpositive [OF laws] by auto
  then show ?thesis using less by (simp add: mult_nonpos_nonpos)
next
  case greater
  then have "\<not> dec_sign_negative D a" "dec_value D a \<noteq> 0"
    using laws by (auto simp: dec_sign_laws_def)
  then have "\<not> dec_sign_negative D b"
    using assms(2) by (auto simp: execution_crosses_zero_def dec_is_zero_def)
  then have "0 \<le> dec_value D b" by (rule dec_sign_positive [OF laws])
  then show ?thesis using greater by simp
qed simp

text \<open>What a repair plan has passed and computed.\<close>

lemma plan_drift_repair_steps:
  assumes "plan_drift_repair D request = Ok result"
  defines "current \<equiv> am_value (ap_exposure (dq_position request))"
    and "target \<equiv> am_value (tp_target_exposure (dq_target request))"
  obtains
    (settled) "drift_validate_request D request = Ok ()" "dec_eq D current target" "result = None"
  | (repair) r where "drift_validate_request D request = Ok ()" "\<not> dec_eq D current target"
      "result = Some r" "dec_sub D target current = Some (am_value (dr_delta_exposure r))"
      "dr_supersedes_job_id r = dq_source_job_id request"
      "dr_identities r = dq_repair_identities request" "dr_binding r = dq_binding request"
      "dr_target_exposure r = tp_target_exposure (dq_target request)"
      "dr_authoritative_exposure r = ap_exposure (dq_position request)"
      "dr_requested_at_ms r = dq_now_ms request"
      "dr_expires_at_ms r = dq_repair_expires_at_ms request"
  using assms(1)
  by (auto simp: plan_drift_repair_def outcome_simps Let_def current_def target_def
      intro: that split: if_splits)

text \<open>
  A plan computed by the capital reduction satisfies every check drift repair makes of its
  target, as long as it is the plan of the requested generation.
\<close>

lemma capital_plan_not_refused:
  assumes laws: "dec_sign_laws D" "dec_choice_laws D" "dec_const_laws D"
    and "reduce_target_exposure_with_multiplier D request multiplier = Ok plan"
    and "dq_target repair = plan"
  shows "drift_validate_request D repair \<noteq> Err DR_Target"
    and "drift_validate_request D repair \<noteq> Err DR_ArithmeticOverflow"
proof -
  have s: "0 \<le> dec_value D (am_value (tp_safe_available_margin plan))"
      "0 \<le> dec_value D (am_value (tp_effective_follower_capital plan))"
    using reduce_target_exposure_signs [OF assms(1-4)] by simp_all
  have le: "dec_value D (am_value (tp_effective_follower_capital plan))
      \<le> dec_value D (am_value (tp_safe_available_margin plan))"
    using assms(4) laws(2) by (auto elim!: reduce_target_exposure_steps simp: dec_choice_laws_def)
  have mul: "dec_mul D (tp_exposure_ratio plan) (am_value (tp_effective_follower_capital plan))
      = Some (am_value (tp_target_exposure plan))"
    using assms(4) by (rule reduce_target_exposure_steps)
  show "drift_validate_request D repair \<noteq> Err DR_Target"
      "drift_validate_request D repair \<noteq> Err DR_ArithmeticOverflow"
    using s le mul assms(5)
    by (simp_all add: drift_validate_request_def Let_def and_then_Err dec_rel_defs not_less
        checked_sub_def)
qed

end
