(* ===== verification/Ordered_Map.thy ===== *)
theory Ordered_Map
  imports Prelude
begin

text \<open>
  Rust's \<open>BTreeMap\<close> as the association list of its entries in key order, with the
  operations the code uses; \<open>BTreeSet\<close> is the list of its elements.  The locale
  \<open>ordered_map\<close> is what the clients rely on, and its interpretation at the end discharges
  it for the model.
\<close>

section \<open>The interface\<close>

locale ordered_map =
  fixes lookup :: "'m \<Rightarrow> 'k::linorder \<Rightarrow> 'v option"
    and insert :: "'k \<Rightarrow> 'v \<Rightarrow> 'm \<Rightarrow> 'm"
    and remove :: "'k \<Rightarrow> 'm \<Rightarrow> 'm"
    and entries :: "'m \<Rightarrow> ('k \<times> 'v) list"
    and ok :: "'m \<Rightarrow> bool"
  assumes lookup_insert: "lookup (insert k v m) = (lookup m)(k \<mapsto> v)"
    and lookup_remove: "ok m \<Longrightarrow> lookup (remove k m) = (lookup m)(k := None)"
    and lookup_entries: "ok m \<Longrightarrow> lookup m k = Some v \<longleftrightarrow> (k, v) \<in> set (entries m)"
    and entries_sorted: "ok m \<Longrightarrow> sorted (map fst (entries m)) \<and> distinct (map fst (entries m))"
    and ok_insert: "ok m \<Longrightarrow> ok (insert k v m)"
    and ok_remove: "ok m \<Longrightarrow> ok (remove k m)"
begin

lemma entries_insert_new:
  assumes "ok m" and "lookup m k = None"
  shows "set (entries (insert k v m)) = Set.insert (k, v) (set (entries m))"
proof -
  have "(l, w) \<in> set (entries (insert k v m)) \<longleftrightarrow> (l, w) \<in> Set.insert (k, v) (set (entries m))"
    for l w
    using assms lookup_entries [OF ok_insert [OF assms(1)], of k v l w]
      lookup_entries [OF assms(1), of l w]
    by (cases "l = k") (auto simp: lookup_insert)
  then show ?thesis by auto
qed

lemma entries_remove:
  assumes "ok m"
  shows "set (entries (remove k m)) = {(l, w). (l, w) \<in> set (entries m) \<and> l \<noteq> k}"
proof -
  have "(l, w) \<in> set (entries (remove k m)) \<longleftrightarrow> (l, w) \<in> set (entries m) \<and> l \<noteq> k" for l w
    using lookup_entries [OF ok_remove [OF assms], of k l w] lookup_entries [OF assms, of l w]
    by (cases "l = k") (auto simp: lookup_remove [OF assms])
  then show ?thesis by auto
qed

lemma length_insert_new:
  assumes "ok m" and "lookup m k = None"
  shows "length (entries (insert k v m)) = Suc (length (entries m))"
proof -
  have d: "distinct (entries m)" "distinct (entries (insert k v m))"
    using entries_sorted [OF assms(1)] entries_sorted [OF ok_insert [OF assms(1)]]
    by (simp_all add: distinct_map)
  have "(k, v) \<notin> set (entries m)"
    using lookup_entries [OF assms(1), of k v] assms(2) by simp
  then show ?thesis
    using entries_insert_new [OF assms, of v] distinct_card [OF d(1)] distinct_card [OF d(2)]
    by (metis List.finite_set card_insert_disjoint)
qed

end

section \<open>The model\<close>

type_synonym ('k, 'v) btree = "('k \<times> 'v) list"

fun bt_insert :: "'k::linorder \<Rightarrow> 'v \<Rightarrow> ('k, 'v) btree \<Rightarrow> ('k, 'v) btree" where
  "bt_insert k v [] = [(k, v)]"
| "bt_insert k v ((l, w) # m) =
     (if k < l then (k, v) # (l, w) # m
      else if k = l then (k, v) # m
      else (l, w) # bt_insert k v m)"

definition bt_lookup :: "('k, 'v) btree \<Rightarrow> 'k \<Rightarrow> 'v option" where
  "bt_lookup m k = map_of m k"

definition bt_remove :: "'k \<Rightarrow> ('k, 'v) btree \<Rightarrow> ('k, 'v) btree" where
  "bt_remove k m = filter (\<lambda>(l, w). l \<noteq> k) m"

definition bt_keys :: "('k, 'v) btree \<Rightarrow> 'k list" where
  "bt_keys m = map fst m"

definition bt_values :: "('k, 'v) btree \<Rightarrow> 'v list" where
  "bt_values m = map snd m"

definition bt_contains :: "('k, 'v) btree \<Rightarrow> 'k \<Rightarrow> bool" where
  "bt_contains m k \<longleftrightarrow> bt_lookup m k \<noteq> None"

definition bt_ok :: "('k::linorder, 'v) btree \<Rightarrow> bool" where
  "bt_ok m \<longleftrightarrow> sorted_wrt (<) (map fst m)"

lemma bt_ok_Nil [simp]: "bt_ok []"
  by (simp add: bt_ok_def)

lemma bt_ok_Cons: "bt_ok ((k, v) # m) \<longleftrightarrow> (\<forall>l \<in> set (map fst m). k < l) \<and> bt_ok m"
  by (auto simp: bt_ok_def)

lemma bt_insert_keys: "set (map fst (bt_insert k v m)) = insert k (set (map fst m))"
  by (induction k v m rule: bt_insert.induct) auto

lemma bt_insert_ok: "bt_ok m \<Longrightarrow> bt_ok (bt_insert k v m)"
proof (induction k v m rule: bt_insert.induct)
  case (1 k v)
  then show ?case by (simp add: bt_ok_Cons)
next
  case (2 k v l w m)
  show ?case
  proof (cases "k < l \<or> k = l")
    case True
    then show ?thesis using 2 by (auto simp: bt_ok_Cons)
  next
    case False
    then have "l < k" by auto
    then show ?thesis using 2 False bt_insert_keys [of k v m]
      by (auto simp: bt_ok_Cons)
  qed
qed

lemma bt_remove_ok: "bt_ok m \<Longrightarrow> bt_ok (bt_remove k m)"
  by (auto simp: bt_ok_def bt_remove_def sorted_wrt_map intro: sorted_wrt_filter)

lemma bt_lookup_Nil [simp]: "bt_lookup [] k = None"
  by (simp add: bt_lookup_def)

lemma bt_lookup_insert [simp]: "bt_lookup (bt_insert k v m) = (bt_lookup m)(k \<mapsto> v)"
  unfolding bt_lookup_def by (induction k v m rule: bt_insert.induct) auto

lemma bt_lookup_remove: "bt_lookup (bt_remove k m) = (bt_lookup m)(k := None)"
  unfolding bt_lookup_def bt_remove_def by (induction m) auto

lemma bt_distinct: "bt_ok m \<Longrightarrow> distinct (map fst m)"
  unfolding bt_ok_def using strict_sorted_iff by blast

lemma bt_lookup_entries: "bt_ok m \<Longrightarrow> bt_lookup m k = Some v \<longleftrightarrow> (k, v) \<in> set m"
  by (simp add: bt_lookup_def map_of_eq_Some_iff [OF bt_distinct])

interpretation bt: ordered_map bt_lookup bt_insert bt_remove "\<lambda>m. m" bt_ok
proof unfold_locales
  fix m :: "('a::linorder \<times> 'b) list"
  assume "bt_ok m"
  then show "sorted (map fst m) \<and> distinct (map fst m)"
    unfolding bt_ok_def using strict_sorted_iff by blast
qed (simp_all add: bt_lookup_remove bt_lookup_entries bt_insert_ok bt_remove_ok)

end
