(* ===== verification/Copy_Ledger.thy ===== *)
theory Copy_Ledger
  imports Copy_Delivery Ordered_Map Decimals
begin

text \<open>
  The ledger of persisted account facts of a follower binding
  (\<open>crates/venue-copy/src/ledger.rs\<close>): a map from sequence to entry that only grows by the
  next sequence, and the exposure and generation of its last entry.
\<close>

datatype ledger_attribution = AttributedCopy | AttributedExternal | AttributedManual

record 'd ledger_entry =
  le_sequence :: u64
  le_generation :: u64
  le_binding :: delivery_binding
  le_attribution :: ledger_attribution
  le_source_id :: copy_id
  le_fact_digest :: "u8 list"
  le_managed_exposure :: "'d amount"

text \<open>The derived equality of \<open>LedgerEntry\<close> compares decimals by value.\<close>

definition entry_eq :: "'d decimal_api \<Rightarrow> 'd ledger_entry \<Rightarrow> 'd ledger_entry \<Rightarrow> bool" where
  "entry_eq D a b \<longleftrightarrow>
     le_sequence a = le_sequence b \<and> le_generation a = le_generation b
     \<and> le_binding a = le_binding b \<and> le_attribution a = le_attribution b
     \<and> le_source_id a = le_source_id b \<and> le_fact_digest a = le_fact_digest b
     \<and> amount_eq D (le_managed_exposure a) (le_managed_exposure b)"

datatype ledger_error =
  LE_Generation | LE_Digest | LE_Binding | LE_Conflict | LE_Rollback | LE_SequenceGap
| LE_GenerationRollback | LE_Asset | LE_Exposure

record 'd copy_ledger =
  cl_binding :: delivery_binding
  cl_entries :: "(u64, 'd ledger_entry) btree"
  cl_generation :: u64
  cl_managed_exposure :: "'d amount option"

definition ledger_new :: "delivery_binding \<Rightarrow> 'd copy_ledger" where
  "ledger_new binding =
     \<lparr>cl_binding = binding, cl_entries = [], cl_generation = 0, cl_managed_exposure = None\<rparr>"

definition validate_entry :: "'d decimal_api \<Rightarrow> 'd ledger_entry \<Rightarrow> (unit, ledger_error) outcome" where
  "validate_entry D entry =
     (if le_sequence entry = 0 \<or> le_generation entry = 0 then Err LE_Generation
      else if le_fact_digest entry = zero_digest then Err LE_Digest
      else if dec_eq D (am_value (le_managed_exposure entry)) (dec_MAX D)
        \<or> dec_eq D (am_value (le_managed_exposure entry)) (dec_MIN D)
      then Err LE_Exposure
      else Ok ())"

definition ledger_apply ::
  "'d decimal_api \<Rightarrow> 'd copy_ledger \<Rightarrow> 'd ledger_entry
   \<Rightarrow> ('d copy_ledger \<times> applied, ledger_error) outcome" where
  "ledger_apply D l entry =
     and_then (validate_entry D entry) (\<lambda>_.
     if le_binding entry \<noteq> cl_binding l then Err LE_Binding
     else
     case bt_lookup (cl_entries l) (le_sequence entry) of
       Some existing \<Rightarrow> if entry_eq D existing entry then Ok (l, NoOp) else Err LE_Conflict
     | None \<Rightarrow>
       let expected_sequence = of_nat (length (cl_entries l)) + 1 in
       if le_sequence entry < expected_sequence then Err LE_Rollback
       else if expected_sequence < le_sequence entry then Err LE_SequenceGap
       else if cl_entries l \<noteq> [] \<and> le_generation entry < cl_generation l
       then Err LE_GenerationRollback
       else if (case cl_managed_exposure l of None \<Rightarrow> False
                | Some current \<Rightarrow> am_asset current \<noteq> am_asset (le_managed_exposure entry))
       then Err LE_Asset
       else Ok (l\<lparr>cl_generation := le_generation entry,
                  cl_managed_exposure := Some (le_managed_exposure entry),
                  cl_entries := bt_insert (le_sequence entry) entry (cl_entries l)\<rparr>, Advanced))"

section \<open>The ledger's invariant\<close>

definition sequence_keys :: "nat \<Rightarrow> u64 list" where
  "sequence_keys n = map of_nat [1 ..< Suc n]"

lemma sequence_keys_simps [simp]:
  "sequence_keys 0 = []" "sequence_keys (Suc n) = sequence_keys n @ [of_nat n + 1]"
  by (simp_all add: sequence_keys_def add.commute)

text \<open>
  The entries are exactly the sequences \<open>1 .. n\<close>, each a valid entry of the ledger's binding
  under its own sequence, with non-decreasing generations and one valuation asset; the
  ledger's generation and exposure are those of its last entry.
\<close>

definition ledger_entries_ok :: "'d decimal_api \<Rightarrow> delivery_binding \<Rightarrow> (u64 \<times> 'd ledger_entry) list \<Rightarrow> bool" where
  "ledger_entries_ok D b es \<longleftrightarrow>
     length es < 2 ^ 64
     \<and> map fst es = sequence_keys (length es)
     \<and> map (le_sequence \<circ> snd) es = map fst es
     \<and> (\<forall>e \<in> snd ` set es. validate_entry D e = Ok () \<and> le_binding e = b)
     \<and> sorted (map (le_generation \<circ> snd) es)
     \<and> (\<forall>e \<in> snd ` set es. \<forall>f \<in> snd ` set es.
          am_asset (le_managed_exposure e) = am_asset (le_managed_exposure f))"

definition ledger_ok :: "'d decimal_api \<Rightarrow> 'd copy_ledger \<Rightarrow> bool" where
  "ledger_ok D l \<longleftrightarrow>
     ledger_entries_ok D (cl_binding l) (cl_entries l)
     \<and> cl_generation l = (if cl_entries l = [] then 0 else le_generation (snd (last (cl_entries l))))
     \<and> cl_managed_exposure l =
         (if cl_entries l = [] then None
          else Some (le_managed_exposure (snd (last (cl_entries l)))))"

lemma ledger_new_ok: "ledger_ok D (ledger_new b)"
  by (simp add: ledger_ok_def ledger_new_def ledger_entries_ok_def)

lemma u64_upto_less:
  assumes "n < 2 ^ 64" and "k \<in> set (sequence_keys n)"
  shows "(k :: u64) \<le> of_nat n"
proof -
  obtain i where i: "k = of_nat i" "i \<le> n" using assms(2) by (auto simp: sequence_keys_def)
  then show ?thesis using assms(1) by (simp add: word_le_nat_alt unat_of_nat_small)
qed

lemma bt_insert_last:
  assumes "\<forall>l \<in> fst ` set m. l < k"
  shows "bt_insert k v m = m @ [(k, v)]"
  using assms by (induction m) (auto simp: not_less order.strict_iff_not)

lemma ledger_apply_cases:
  assumes "ledger_apply D l e = Ok (l', out)"
  shows "validate_entry D e = Ok () \<and> le_binding e = cl_binding l \<and>
    ((\<exists>old. bt_lookup (cl_entries l) (le_sequence e) = Some old \<and> entry_eq D old e
        \<and> l' = l \<and> out = NoOp)
     \<or> (bt_lookup (cl_entries l) (le_sequence e) = None
        \<and> le_sequence e = of_nat (length (cl_entries l)) + 1
        \<and> (cl_entries l \<noteq> [] \<longrightarrow> cl_generation l \<le> le_generation e)
        \<and> (\<forall>x. cl_managed_exposure l = Some x \<longrightarrow> am_asset x = am_asset (le_managed_exposure e))
        \<and> l' = l\<lparr>cl_generation := le_generation e,
                 cl_managed_exposure := Some (le_managed_exposure e),
                 cl_entries := bt_insert (le_sequence e) e (cl_entries l)\<rparr>
        \<and> out = Advanced))"
  using assms
  by (auto simp: ledger_apply_def outcome_simps Let_def not_less split: option.splits if_splits)

text \<open>The next sequence never wraps: sequence zero is refused by \<open>validate_entry\<close>.\<close>

lemma next_sequence:
  assumes "ledger_entries_ok D b es" and "(of_nat (length es) + 1 :: u64) \<noteq> 0"
  shows "Suc (length es) < 2 ^ 64" and "\<forall>k \<in> fst ` set es. k < (of_nat (length es) + 1 :: u64)"
proof -
  have n: "length es < 2 ^ 64" and keys: "map fst es = sequence_keys (length es)"
    using assms(1) unfolding ledger_entries_ok_def by blast+
  show len: "Suc (length es) < 2 ^ 64"
  proof (rule ccontr)
    assume "\<not> Suc (length es) < 2 ^ 64"
    then have "length es = 2 ^ 64 - 1" using n by linarith
    then have "(of_nat (length es) + 1 :: u64) = of_nat (2 ^ 64)"
      by simp
    then show False using assms(2) by simp
  qed
  show "\<forall>k \<in> fst ` set es. k < (of_nat (length es) + 1 :: u64)"
  proof
    fix k assume "k \<in> fst ` set es"
    then have "k \<in> set (sequence_keys (length es))"
      using keys by (metis set_map)
    then have "k \<le> of_nat (length es)" by (rule u64_upto_less [OF n])
    moreover have "(of_nat (length es) :: u64) < of_nat (Suc (length es))"
      using len by (simp add: word_less_nat_alt unat_of_nat_small del: of_nat_Suc)
    ultimately show "k < of_nat (length es) + 1" by (simp add: add.commute)
  qed
qed

lemma sorted_snoc:
  "sorted xs \<Longrightarrow> (xs \<noteq> [] \<Longrightarrow> last xs \<le> x) \<Longrightarrow> sorted (xs @ [x])"
  by (cases xs rule: rev_cases) (simp_all add: sorted_append, meson order.trans)

lemma last_in_snd: "es \<noteq> [] \<Longrightarrow> snd (last es) \<in> snd ` set es"
  by (metis imageI last_in_set)

text \<open>Appending the next valid entry keeps the entries in order.\<close>

lemma ledger_entries_snoc:
  assumes ok: "ledger_entries_ok D b es"
    and e: "validate_entry D e = Ok ()" "le_binding e = b"
    and seq: "le_sequence e = of_nat (length es) + 1"
    and gen: "es \<noteq> [] \<Longrightarrow> le_generation (snd (last es)) \<le> le_generation e"
    and asset: "es \<noteq> [] \<Longrightarrow>
      am_asset (le_managed_exposure (snd (last es))) = am_asset (le_managed_exposure e)"
  shows "ledger_entries_ok D b (es @ [(le_sequence e, e)])"
    and "bt_insert (le_sequence e) e es = es @ [(le_sequence e, e)]"
proof -
  have "le_sequence e \<noteq> 0" using e(1) by (auto simp: validate_entry_def)
  then have next_ok: "Suc (length es) < 2 ^ 64" "\<forall>k \<in> fst ` set es. k < le_sequence e"
    using next_sequence [OF ok] seq by simp_all
  show "bt_insert (le_sequence e) e es = es @ [(le_sequence e, e)]"
    by (rule bt_insert_last [OF next_ok(2)])
  have "sorted (map (le_generation \<circ> snd) es @ [le_generation e])"
    using ok gen by (intro sorted_snoc) (auto simp: ledger_entries_ok_def last_map)
  then have gens: "sorted (map (le_generation \<circ> snd) (es @ [(le_sequence e, e)]))"
    by simp
  have asset_e: "\<forall>f \<in> snd ` set es.
      am_asset (le_managed_exposure f) = am_asset (le_managed_exposure e)"
    using ok asset last_in_snd [of es] unfolding ledger_entries_ok_def
    by (metis empty_iff image_is_empty set_empty)
  have keys: "map fst es = sequence_keys (length es)"
      and seqs: "map (le_sequence \<circ> snd) es = map fst es"
      and valid: "\<forall>f \<in> snd ` set es. validate_entry D f = Ok () \<and> le_binding f = b"
      and assets: "\<forall>f \<in> snd ` set es. \<forall>g \<in> snd ` set es.
        am_asset (le_managed_exposure f) = am_asset (le_managed_exposure g)"
    using ok unfolding ledger_entries_ok_def by blast+
  have set: "snd ` set (es @ [(le_sequence e, e)]) = insert e (snd ` set es)"
    by (simp add: image_Un)
  show "ledger_entries_ok D b (es @ [(le_sequence e, e)])"
    unfolding ledger_entries_ok_def set
  proof (intro conjI)
    show "\<forall>f \<in> insert e (snd ` set es). validate_entry D f = Ok () \<and> le_binding f = b"
      using valid e by (metis insert_iff)
    show "\<forall>f \<in> insert e (snd ` set es). \<forall>g \<in> insert e (snd ` set es).
        am_asset (le_managed_exposure f) = am_asset (le_managed_exposure g)"
      using assets asset_e by (metis insert_iff)
  qed (use gens keys seqs seq next_ok(1) in simp_all)
qed

lemma ledger_apply_ok:
  assumes "ledger_ok D l" and "ledger_apply D l e = Ok (l', out)"
  shows "ledger_ok D l'"
proof (cases "out = NoOp")
  case True
  then show ?thesis using ledger_apply_cases [OF assms(2)] assms(1) by auto
next
  case False
  then have e: "validate_entry D e = Ok ()" "le_binding e = cl_binding l"
      "le_sequence e = of_nat (length (cl_entries l)) + 1"
      "cl_entries l \<noteq> [] \<Longrightarrow> cl_generation l \<le> le_generation e"
      "\<And>x. cl_managed_exposure l = Some x \<Longrightarrow> am_asset x = am_asset (le_managed_exposure e)"
    and l': "l' = l\<lparr>cl_generation := le_generation e,
        cl_managed_exposure := Some (le_managed_exposure e),
        cl_entries := bt_insert (le_sequence e) e (cl_entries l)\<rparr>"
    using ledger_apply_cases [OF assms(2)] by auto
  have ok: "ledger_entries_ok D (cl_binding l) (cl_entries l)"
    using assms(1) by (simp add: ledger_ok_def)
  have last: "cl_entries l \<noteq> [] \<Longrightarrow> le_generation (snd (last (cl_entries l))) \<le> le_generation e"
    "cl_entries l \<noteq> [] \<Longrightarrow>
      am_asset (le_managed_exposure (snd (last (cl_entries l)))) = am_asset (le_managed_exposure e)"
    using assms(1) e(4,5) by (simp_all add: ledger_ok_def)
  show ?thesis
    using ledger_entries_snoc [OF ok e(1-3) last] by (simp add: ledger_ok_def l')
qed

lemma ledger_entries_bt_ok:
  assumes "ledger_entries_ok D b es"
  shows "bt_ok es"
proof -
  have n: "length es < 2 ^ 64" and keys: "map fst es = sequence_keys (length es)"
    using assms unfolding ledger_entries_ok_def by blast+
  have "sorted_wrt (<) (sequence_keys (length es))"
    unfolding sequence_keys_def sorted_wrt_map
    by (rule sorted_wrt_mono_rel [OF _ sorted_wrt_upt])
      (use n in \<open>auto simp: word_less_nat_alt unat_of_nat_small\<close>)
  then show ?thesis unfolding bt_ok_def keys .
qed

lemma entry_eq_refl [simp]: "entry_eq D e e"
  by (simp add: entry_eq_def amount_eq_def dec_eq_def)

lemma ledger_apply_present:
  assumes "validate_entry D e = Ok ()" and "le_binding e = cl_binding l"
    and "bt_lookup (cl_entries l) (le_sequence e) = Some old" and "entry_eq D old e"
  shows "ledger_apply D l e = Ok (l, NoOp)"
  using assms by (simp add: ledger_apply_def)

interpretation ledger: retaining_log "ledger_apply D" "ledger_ok D"
proof unfold_locales
  fix s e s' out
  assume "ledger_ok D s" and step: "ledger_apply D s e = Ok (s', out)"
  then show "ledger_ok D s'" by (rule ledger_apply_ok)
  show "ledger_apply D s' e = Ok (s', NoOp)"
  proof (cases "out = NoOp")
    case True
    then show ?thesis using ledger_apply_cases [OF step] step by auto
  next
    case False
    then have "validate_entry D e = Ok ()" "le_binding e = cl_binding s'"
        "bt_lookup (cl_entries s') (le_sequence e) = Some e"
      using ledger_apply_cases [OF step] by (auto simp del: bt_insert.simps)
    then show ?thesis by (rule ledger_apply_present) simp
  qed
next
  fix s e s'
  assume "ledger_apply D s e = Ok (s', NoOp)"
  then show "s' = s" by (auto dest: ledger_apply_cases)
next
  fix s d e s' out
  assume d: "ledger_apply D s d = Ok (s, NoOp)" and e: "ledger_apply D s e = Ok (s', out)"
  obtain old where old: "validate_entry D d = Ok ()" "le_binding d = cl_binding s"
      "bt_lookup (cl_entries s) (le_sequence d) = Some old" "entry_eq D old d"
    using ledger_apply_cases [OF d] by auto
  have "cl_binding s' = cl_binding s" "bt_lookup (cl_entries s') (le_sequence d) = Some old"
    using ledger_apply_cases [OF e] old(3) by auto
  then show "ledger_apply D s' d = Ok (s', NoOp)"
    using old by (intro ledger_apply_present) auto
qed

text \<open>A log of facts accepted one after the other is in sequence order from one.\<close>

lemma ledger_run_ok: "ledger_ok D (run (ledger_apply D) (ledger_new b) es)"
  by (rule ledger.run_inv [OF ledger_new_ok])

text \<open>What was recorded under a sequence stays recorded.\<close>

lemma ledger_apply_append_only:
  assumes "bt_lookup (cl_entries l) k = Some e"
  shows "bt_lookup (cl_entries (step_or_stay (ledger_apply D) l f)) k = Some e"
proof (cases "ledger_apply D l f")
  case (Ok p)
  obtain l' out where p: "p = (l', out)" by fastforce
  show ?thesis
    using ledger_apply_cases [OF Ok [unfolded p]] assms
    by (auto simp: step_or_stay_def Ok p simp del: bt_insert.simps)
qed (use assms in \<open>simp_all add: step_or_stay_def\<close>)

lemma ledger_run_append_only:
  "bt_lookup (cl_entries l) k = Some e \<Longrightarrow>
   bt_lookup (cl_entries (run (ledger_apply D) l es)) k = Some e"
  by (induction es arbitrary: l) (simp_all add: ledger_apply_append_only)

lemma ledger_apply_recorded:
  assumes "ledger_apply D l e = Ok (l', out)"
  shows "\<exists>old. bt_lookup (cl_entries l') (le_sequence e) = Some old \<and> entry_eq D old e"
  using ledger_apply_cases [OF assms] by (auto simp del: bt_insert.simps)

end
