(* ===== verification/Copy_Samples.thy ===== *)
theory Copy_Samples
  imports Copy_Sizing Copy_Drift Copy_Ledger
begin

text \<open>
  Concrete inputs of the copy engine, on which the properties' hypotheses are shown to hold:
  a linear perpetual BTC/USDT, a leader whose exposure is half of its capital, a follower with
  less capital, and a persisted delivery between them.  Decimals are the rationals of
  \<open>rat_api\<close> and the digest is the toy \<open>sample_sha\<close>, which has the length of SHA-256.
\<close>

definition sample_sha :: "u8 list \<Rightarrow> u8 list" where
  "sample_sha m = replicate DIGEST_BYTES (of_nat (length m))"

lemma sample_sha_length: "digest_length_law sample_sha"
  by (simp add: digest_length_law_def sample_sha_def)

definition sample_asset :: asset where "sample_asset = Asset ''USDT''"

definition sample_symbol :: symbol where
  "sample_symbol = \<lparr>sym_base = ''BTC'', sym_quote = ''USDT''\<rparr>"

definition sample_instrument :: "rat instrument" where
  "sample_instrument =
     \<lparr>in_symbol = sample_symbol, in_market = LinearPerpetual,
      in_settlement_asset = Some sample_asset, in_generation = 4,
      in_price_tick = Price (1 / 10), in_quantity_step = 1 / 1000,
      in_minimum_notional = amount_new sample_asset 5\<rparr>"

definition sample_metadata :: "rat instrument_metadata" where
  "sample_metadata =
     \<lparr>md_instrument = sample_instrument, md_price = \<lparr>pr_step = 1 / 10, pr_minimum = 1 / 10\<rparr>,
      md_quantity = \<lparr>pr_step = 1 / 1000, pr_minimum = 1 / 1000\<rparr>, md_contract = None,
      md_trading_enabled = True\<rparr>"

definition sample_reference :: "rat reference_price_snapshot" where
  "sample_reference =
     \<lparr>rp_instrument_identity = metadata_identity sample_metadata, rp_instrument_generation = 4,
      rp_price = Price 100, rp_observed_at_ms = 1000, rp_expires_at_ms = 2000\<rparr>"

text \<open>Leader: exposure 500 on a capital of 1000.  Follower: 300 configured, 10% reserve.\<close>

definition sample_capital :: "rat target_exposure_request" where
  "sample_capital =
     \<lparr>te_expected_generation = 9, te_now_ms = 1500,
      te_snapshot = \<lparr>cap_generation = 9, cap_observed_ms = 1000, cap_expires_ms = 2000,
        cap_leader_strategy_capital = amount_new sample_asset 1000,
        cap_leader_target_exposure = amount_new sample_asset 500,
        cap_follower_configured_capital = amount_new sample_asset 300,
        cap_follower_allocated_capital = amount_new sample_asset 400,
        cap_follower_available_margin = amount_new sample_asset 200,
        cap_follower_managed_exposure = amount_new sample_asset 0,
        cap_margin_safety_reserve_rate = 1 / 10\<rparr>\<rparr>"

definition sample_target :: "rat target_exposure_plan" where
  "sample_target =
     \<lparr>tp_snapshot_generation = 9, tp_exposure_ratio = 1 / 2,
      tp_safe_available_margin = amount_new sample_asset 180,
      tp_effective_follower_capital = amount_new sample_asset 180,
      tp_target_exposure = amount_new sample_asset 90,
      tp_delta_exposure = amount_new sample_asset 90\<rparr>"

lemma sample_target_computed:
  "reduce_target_exposure_with_multiplier rat_api sample_capital 1 = Ok sample_target"
  by (simp add: reduce_target_exposure_with_multiplier_def sample_capital_def sample_target_def
      capital_validate_snapshot_def capital_validate_assets_def dec_rel_defs rat_bounded_def
      Let_def)

definition sample_sizing :: "rat semantic_sizing_request" where
  "sample_sizing =
     \<lparr>sz_exposure = sample_target,
      sz_instrument = \<lparr>sn_metadata = sample_metadata, sn_observed_at_ms = 1000,
        sn_expires_at_ms = 2000\<rparr>,
      sz_reference_price = sample_reference, sz_reduce_only_supported = True,
      sz_now_ms = 1500\<rparr>"

definition sample_size :: "rat semantic_sizing_plan" where
  "sample_size =
     \<lparr>sp_instrument_identity = metadata_identity sample_metadata, sp_instrument_generation = 4,
      sp_side = Buy, sp_reducing = False, sp_reduce_only = False,
      sp_quantity = BaseQuantity (9 / 10), sp_reference_price = Price 100,
      sp_requested_quote_notional = amount_new sample_asset 90,
      sp_normalized_quote_notional = amount_new sample_asset 90,
      sp_residual_quote_notional = amount_new sample_asset 0\<rparr>"

lemma sample_size_computed: "plan_semantic_size rat_api sample_sizing = Ok sample_size"
  by code_simp

text \<open>A delivery and the authoritative position of the follower at 30.\<close>

definition sample_id :: "u8 \<Rightarrow> copy_id" where
  "sample_id b = CopyId (replicate 15 0 @ [b])"

lemma sample_id_nonzero [simp]:
  assumes "b \<noteq> 0"
  shows "id_bytes (sample_id b) \<noteq> replicate UUID_BYTES 0"
    and "replicate UUID_BYTES 0 \<noteq> id_bytes (sample_id b)"
proof -
  have "last (id_bytes (sample_id b)) = b" "last (replicate UUID_BYTES (0 :: u8)) = 0"
    by (simp_all add: sample_id_def UUID_BYTES_def)
  then show "id_bytes (sample_id b) \<noteq> replicate UUID_BYTES 0"
    "replicate UUID_BYTES 0 \<noteq> id_bytes (sample_id b)" using assms by auto
qed

definition sample_identities :: copy_identity_set where
  "sample_identities =
     \<lparr>cs_job_id = sample_id 1, cs_planning_snapshot_id = sample_id 2,
      cs_child_order_id = sample_id 3, cs_idempotency_key = IdempotencyKey (replicate 32 7)\<rparr>"

definition sample_input :: copy_identity_input where
  "sample_input =
     \<lparr>ci_event_id = id_bytes (sample_id 20), ci_source_event_id = id_bytes (sample_id 21),
      ci_follower_account_id = id_bytes (sample_id 7),
      ci_follower_binding_id = id_bytes (sample_id 8),
      ci_leader_order_id = id_bytes (sample_id 22), ci_revision = 1, ci_action = ActionNew\<rparr>"

definition sample_binding :: delivery_binding where
  "sample_binding =
     \<lparr>db_relation = \<lparr>rc_relation_id = sample_id 4, rc_revision = 1,
        rc_policy_digest = replicate 32 5\<rparr>,
      db_leader_id = sample_id 6, db_follower_id = sample_id 7,
      db_follower_binding_id = sample_id 8, db_follower_instance_id = ''node-1'',
      db_account_id = ''00000000-0000-0000-0000-000000000001'',
      db_instrument = metadata_identity sample_metadata, db_policy_id = sample_id 9\<rparr>"

definition sample_manifest :: follower_delivery_manifest where
  "sample_manifest =
     \<lparr>fm_identities = sample_identities, fm_binding = sample_binding,
      fm_plan_digest = replicate 32 6, fm_snapshot_generation = 9,
      fm_instrument_generation = 4, fm_issued_at_ms = 1000, fm_expires_at_ms = 2000\<rparr>"

definition sample_position :: "rat authoritative_position_snapshot" where
  "sample_position =
     \<lparr>ap_binding = sample_binding, ap_generation = 3, ap_observed_at_ms = 1000,
      ap_expires_at_ms = 2000, ap_exposure = amount_new sample_asset 30,
      ap_fact_digest = replicate 32 8\<rparr>"

definition sample_repair :: "rat drift_repair_plan_request" where
  "sample_repair =
     \<lparr>dq_source_job_id = sample_id 10, dq_repair_identities = sample_identities,
      dq_binding = sample_binding, dq_expected_position_generation = 3,
      dq_expected_target_generation = 9, dq_position = sample_position,
      dq_target = sample_target, dq_now_ms = 1500, dq_repair_expires_at_ms = 1800\<rparr>"

definition sample_receipt :: "receipt_status \<Rightarrow> u64 \<Rightarrow> persisted_delivery_receipt" where
  "sample_receipt status sequence =
     \<lparr>rr_delivery_digest = delivery_digest sample_sha sample_manifest,
      rr_binding = sample_binding, rr_plan_digest = replicate 32 6,
      rr_snapshot_generation = 9, rr_instrument_generation = 4,
      rr_receipt_sequence = sequence, rr_status = status, rr_persisted_at_ms = 1200\<rparr>"

definition sample_tracker :: delivery_tracker where
  "sample_tracker = \<lparr>dt_manifest = sample_manifest, dt_state = Pending\<rparr>"

definition sample_entry :: "u64 \<Rightarrow> rat \<Rightarrow> rat ledger_entry" where
  "sample_entry sequence exposure =
     \<lparr>le_sequence = sequence, le_generation = 3, le_binding = sample_binding,
      le_attribution = AttributedCopy, le_source_id = sample_id 11,
      le_fact_digest = replicate 32 8, le_managed_exposure = amount_new sample_asset exposure\<rparr>"

lemma sample_manifest_valid: "manifest_validate sample_manifest 1500 = Ok ()"
  by code_simp

lemma sample_repair_valid: "is_ok (plan_drift_repair rat_api sample_repair)"
  by code_simp

definition sample_request :: "rat copy_execution_request" where
  "sample_request =
     \<lparr>ce_job_id = sample_id 1, ce_delivery_digest = delivery_digest sample_sha sample_manifest,
      ce_binding = sample_binding, ce_target_generation = 9, ce_position_generation = 3,
      ce_target_exposure = amount_new sample_asset 90,
      ce_current_exposure = amount_new sample_asset 30,
      ce_requested_delta_exposure = amount_new sample_asset 60, ce_phase = Adjust\<rparr>"

lemma sample_manifest_fields [simp]:
  "fm_binding sample_manifest = sample_binding" "fm_snapshot_generation sample_manifest = 9"
  "fm_identities sample_manifest = sample_identities" "fm_issued_at_ms sample_manifest = 1000"
  by (simp_all add: sample_manifest_def)

lemma sample_execution:
  "plan_copy_execution rat_api sample_sha sample_manifest sample_target sample_position 1500
     = Ok sample_request"
  using sample_manifest_valid
  by (simp add: plan_copy_execution_def sample_position_def sample_target_def
      execution_delta_def execution_crosses_zero_def zero_digest_def sample_identities_def
      DIGEST_BYTES_def dec_is_zero_def sample_request_def rat_bounded_def)

end
