(* ===== verification/Copy_Properties.thy ===== *)
theory Copy_Properties
  imports Copy_Samples
begin

text \<open>
  The properties of the copy engine: target exposure, semantic sizing, limit prices, delivery,
  drift repair, execution requests, the ledger and the derived identities.  Each theorem with
  hypotheses is followed by a concrete input that meets them.
\<close>

section \<open>Target exposure, sizing and limit prices\<close>

text \<open>
  C30: The capital a plan uses is never negative and is the least of what the follower
  configured, was allocated, and has left as safe margin; the target has the sign of the
  leader's exposure, and the snapshot behind it was the requested generation, inside its
  validity window.
\<close>

theorem target_exposure_bounded:
  assumes "dec_sign_laws D" and "dec_choice_laws D" and "dec_const_laws D"
    and "reduce_target_exposure_with_multiplier D request multiplier = Ok plan"
  shows "let s = te_snapshot request; v = (\<lambda>a. dec_value D (am_value a));
             used = v (tp_effective_follower_capital plan) in
    0 \<le> used
    \<and> used = min (min (v (cap_follower_configured_capital s)) (v (cap_follower_allocated_capital s)))
        (v (tp_safe_available_margin plan))
    \<and> (if 0 \<le> v (cap_leader_target_exposure s) then 0 \<le> v (tp_target_exposure plan)
       else v (tp_target_exposure plan) \<le> 0)
    \<and> cap_generation s = te_expected_generation request
    \<and> cap_observed_ms s \<le> te_now_ms request \<and> te_now_ms request < cap_expires_ms s"
  using reduce_target_exposure_signs [OF assms] assms(2)
  by (rule_tac reduce_target_exposure_steps [OF assms(4)])
    (auto simp: Let_def capital_validate_snapshot_Ok dec_choice_laws_def)

theorem target_exposure_bounded_witness:
  "(0::rat) \<le> 180 \<and> te_now_ms sample_capital < cap_expires_ms (te_snapshot sample_capital)"
  using target_exposure_bounded [of rat_api, OF _ _ _ sample_target_computed]
  by (simp add: Let_def sample_target_def)

text \<open>
  C5: A sizing plan trades in the direction of the exposure delta, a positive quantity on the
  instrument's step, worth at least the venue's minimum and never more than the size of the
  delta; it never takes the managed position through zero, sells no spot asset short, and is
  reduce-only exactly for a reducing order on a derivative.  The snapshot and the reference
  price it used were inside their windows and of one instrument generation.
\<close>

theorem semantic_size_sound:
  assumes "dec_sign_laws D" and "dec_rem_laws D" and "dec_exact_laws D" and "dec_const_laws D"
    and "dec_representable (- dec_value D (am_value (tp_delta_exposure (sz_exposure request))))"
    and "plan_semantic_size D request = Ok plan"
  shows "let exposure = sz_exposure request; m = sn_metadata (sz_instrument request);
             delta = dec_value D (am_value (tp_delta_exposure exposure));
             target = am_value (tp_target_exposure exposure);
             size = dec_value D (am_value (sp_normalized_quote_notional plan)) in
    delta \<noteq> 0 \<and> sp_side plan = (if 0 < delta then Buy else Sell)
    \<and> 0 < dec_value D (sized_value (sp_quantity plan))
    \<and> precision_ok D (md_quantity m) (dec_value D (sized_value (sp_quantity plan)))
    \<and> notional_of D m (sized_value (sp_quantity plan)) (Some (sp_reference_price plan))
        (am_value (sp_normalized_quote_notional plan))
    \<and> dec_value D (am_value (in_minimum_notional (md_instrument m))) \<le> size \<and> size \<le> \<bar>delta\<bar>
    \<and> (\<exists>managed. dec_sub D target (am_value (tp_delta_exposure exposure)) = Some managed
         \<and> 0 \<le> dec_value D managed * dec_value D target
         \<and> (in_market (md_instrument m) = LinearPerpetual \<or> 0 \<le> dec_value D target)
         \<and> sp_reduce_only plan = (reduces D managed (am_value (tp_target_exposure exposure))
             \<and> in_market (md_instrument m) = LinearPerpetual))
    \<and> sp_instrument_generation plan = rp_instrument_generation (sz_reference_price request)
    \<and> reference_is_fresh (sz_reference_price request) (sz_now_ms request)
    \<and> sn_observed_at_ms (sz_instrument request) \<le> sz_now_ms request
    \<and> sz_now_ms request < sn_expires_at_ms (sz_instrument request)"
  using assms(6)
proof (cases rule: plan_semantic_size_steps)
  case (1 managed requested quantity normalized residual)
  let ?delta = "am_value (tp_delta_exposure (sz_exposure request))"
    and ?target = "am_value (tp_target_exposure (sz_exposure request))"
  note requested = requested_magnitude [OF assms(3,4,5) 1(9)]
  note q = metadata_quote_notional_Ok [OF assms(2) 1(11)]
  have "0 \<le> dec_value D managed * dec_value D ?target"
    using not_crosses_zero [OF assms(1) 1(6)] .
  moreover have "in_market (md_instrument (sn_metadata (sz_instrument request))) = LinearPerpetual
      \<or> 0 \<le> dec_value D ?target"
    using 1(7) by (cases "in_market (md_instrument (sn_metadata (sz_instrument request)))") auto
  moreover have "quantity = sized_value (sp_quantity plan)" by (simp add: 1(14))
  ultimately show ?thesis
    using 1 q requested unfolding Let_def
    by (intro conjI exI [of _ managed]) (simp_all add: snapshot_require_Ok dec_positive_def)
qed

theorem semantic_size_sound_witness:
  "precision_ok rat_api (md_quantity sample_metadata) (9 / 10)
   \<and> reference_is_fresh sample_reference 1500"
  using semantic_size_sound [of rat_api sample_sizing, OF _ _ _ _ _ sample_size_computed]
  by (simp add: Let_def sample_sizing_def sample_size_def sample_target_def dec_representable_def
      exI [of _ "- 90"] exI [of _ 0])

text \<open>
  C31: A normalized limit price is a positive multiple of the tick, at least the minimum, never
  on the wrong side of the risk boundary, and less than one tick away from it.
\<close>

theorem limit_price_normalized:
  assumes "dec_rem_laws D" and "dec_exact_laws D" and "dec_sign_laws D"
    and "on_scale s (dec_value D (pr_step precision))"
    and "on_scale s (price_num D boundary + dec_value D (pr_step precision))"
    and "normalize_limit_price D precision side boundary = Ok price"
  shows "0 < price_num D price \<and> precision_ok D precision (price_num D price)
    \<and> \<bar>price_num D price - price_num D boundary\<bar> < dec_value D (pr_step precision)
    \<and> (case side of Buy \<Rightarrow> price_num D price \<le> price_num D boundary
       | Sell \<Rightarrow> price_num D boundary \<le> price_num D price)"
  using assms(6)
proof (cases rule: normalize_limit_price_steps)
  case (1 floored)
  let ?t = "dec_value D (pr_step precision)" and ?b = "price_num D boundary"
  have t: "0 < ?t" using 1(1) by (simp add: precision_validate_Ok)
  have le: "dec_value D (price_value boundary) \<le> ?b + ?t" using t by (simp add: price_num_def)
  note fl = precision_floor_exact [OF assms(1,2) 1(2) assms(4) le assms(5)]
  have near: "\<bar>price_num D price - ?b\<bar> < ?t"
  proof (cases "price_value price = floored")
    case True
    then show ?thesis using fl(2,5) t by (simp add: price_num_def)
  next
    case False
    then have add: "dec_add D floored (pr_step precision) = Some (price_value price)"
        and ne: "dec_value D floored \<noteq> dec_value D (price_value boundary)"
      using 1(3) by (auto simp: dec_eq_def split: order_side.splits if_splits)
    obtain k m :: int where "?t = of_int k / 10 ^ s" "dec_value D floored = of_int m / 10 ^ s"
      using assms(4) fl(3) by (auto simp: on_scale_def)
    then have sum: "dec_value D floored + ?t = of_int (m + k) / 10 ^ s"
      by (simp add: add_divide_distrib)
    have "\<bar>dec_value D floored + ?t\<bar> \<le> \<bar>?b + ?t\<bar>"
      using fl(1,2) t by (simp add: price_num_def)
    then have "dec_representable (dec_value D floored + ?t)"
      using on_scale_representable on_scale_bounded [OF assms(5) _ sum] by blast
    then have "price_num D price = dec_value D floored + ?t"
      using dec_add_exact [OF assms(2) add] by (simp add: price_num_def)
    then show ?thesis using fl(2,5) ne by (simp add: price_num_def)
  qed
  have "0 < price_num D price" using price_new_pos [OF assms(3) 1(5)] .
  moreover have "precision_ok D precision (price_num D price)"
    using precision_accepts_ok [OF assms(1) 1(4)] by (simp add: price_num_def)
  ultimately show ?thesis using near 1(6,7) by (auto split: order_side.splits)
qed

theorem limit_price_normalized_witness:
  "(0::rat) < 100 \<and> \<bar>100 - 100.04\<bar> < (1 / 10 :: rat)"
  using limit_price_normalized [of rat_api 2 "md_price sample_metadata" "Price 100.04" Buy "Price 100"]
  by (simp add: on_scale_def price_num_def sample_metadata_def normalize_limit_price_def
      precision_validate_def precision_floor_def precision_accepts_def trunc_rat_def or_else_def
      and_also_def rat_bounded_def dec_rel_defs price_new_def Let_def
      exI [of _ "10 :: int"] exI [of _ "10014 :: int"])

text \<open>
  A converted cross-venue limit keeps the leader's relative offset within the permitted
  deviation, is positive, and was computed from two fresh references of the expected
  generations on one instrument; the deviation bound itself is below one.
\<close>

theorem cross_venue_limit_sound:
  assumes "dec_sign_laws D" and "convert_cross_venue_limit D request = Ok plan"
  shows "\<bar>dec_value D (cp_relative_offset plan)\<bar> \<le> dec_value D (cl_max_absolute_deviation request)
    \<and> dec_value D (cl_max_absolute_deviation request) < 1
    \<and> 0 < price_num D (cp_follower_risk_boundary plan)
    \<and> (\<exists>ratio. dec_div D (price_value (cl_leader_limit_price request))
           (price_value (rp_price (cl_leader_reference request))) = Some ratio
         \<and> dec_sub D ratio (dec_one D) = Some (cp_relative_offset plan)
         \<and> dec_mul D (price_value (rp_price (cl_follower_reference request))) ratio
             = Some (price_value (cp_follower_risk_boundary plan)))
    \<and> reference_is_fresh (cl_leader_reference request) (cl_now_ms request)
    \<and> reference_is_fresh (cl_follower_reference request) (cl_now_ms request)
    \<and> rp_instrument_identity (cl_leader_reference request)
        = rp_instrument_identity (cl_follower_reference request)
    \<and> cp_leader_generation plan = rp_instrument_generation (cl_leader_reference request)
    \<and> cp_follower_generation plan = rp_instrument_generation (cl_follower_reference request)"
  using assms(2)
proof (cases rule: convert_cross_venue_limit_steps)
  case (1 ratio boundary)
  then have "boundary = price_value (cp_follower_risk_boundary plan)"
    by (auto simp: price_new_Ok)
  then show ?thesis using 1 price_new_pos [OF assms(1) 1(12)] by auto
qed

theorem cross_venue_limit_sound_witness:
  "\<exists>plan. convert_cross_venue_limit rat_api
      \<lparr>cl_leader_limit_price = Price 99, cl_leader_reference = sample_reference,
       cl_follower_reference = sample_reference, cl_expected_leader_generation = 4,
       cl_expected_follower_generation = 4, cl_max_absolute_deviation = 1 / 50,
       cl_now_ms = 1500\<rparr> = Ok plan \<and> \<bar>cp_relative_offset plan\<bar> \<le> 1 / 50"
  using cross_venue_limit_sound [of rat_api, OF rat_sign_laws]
  by (simp add: convert_cross_venue_limit_def reference_is_fresh_def sample_reference_def
      dec_rel_defs rat_bounded_def price_new_def Let_def)

section \<open>Instrument values\<close>

text \<open>
  A quantity returned for a quote notional is positive, on the quantity step, at least the
  minimum, and its own quote notional exists and is at least the venue's minimum notional.
\<close>

theorem quantity_for_notional_sound:
  assumes "dec_rem_laws D"
    and "metadata_quantity_for_quote_notional D m notional price = Ok quantity"
  shows "0 < dec_value D quantity \<and> precision_ok D (md_quantity m) (dec_value D quantity)
    \<and> (\<exists>n. metadata_quote_notional D m quantity price = Ok n
         \<and> notional_of D m quantity price (am_value n)
         \<and> dec_value D (am_value (in_minimum_notional (md_instrument m))) \<le> dec_value D (am_value n))
    \<and> md_trading_enabled m \<and> metadata_validate D m = Ok ()"
  using metadata_quantity_for_quote_notional_Ok [OF assms(2)] metadata_quote_notional_Ok [OF assms(1)]
  by blast

theorem quantity_for_notional_sound_witness:
  "\<exists>q. metadata_quantity_for_quote_notional rat_api sample_metadata (amount_new sample_asset 90)
     (Some (Price 100)) = Ok q \<and> 0 < q"
proof -
  have "metadata_quantity_for_quote_notional rat_api sample_metadata (amount_new sample_asset 90)
      (Some (Price 100)) = Ok (9 / 10)"
    by code_simp
  then show ?thesis using quantity_for_notional_sound [OF rat_rem_laws] by fastforce
qed

section \<open>Delivery and identities\<close>

text \<open>
  C6: Once a receipt is accepted the job is never delivered again, whatever receipts follow;
  the recorded outcome is final, except that an unknown outcome may be reconciled, by the
  receipt with the next sequence number, and by no other.
\<close>

theorem delivery_settles_once:
  assumes "apply_persisted_receipt sha t receipt = Ok (t', out)"
  shows "let u = run (apply_persisted_receipt sha) t' receipts in
    \<not> may_deliver u now
    \<and> (dt_state u = dt_state t'
       \<or> (\<exists>p q. dt_state t' = Unknown p \<and> dt_state u = Reconciled q
            \<and> unat (rr_receipt_sequence q) = unat (rr_receipt_sequence p) + 1))"
  using settled_run [OF receipt_settles [OF assms], of sha receipts]
  by (auto simp: Let_def may_deliver_def settled_or_reconciled_def)

theorem delivery_settles_once_witness:
  "\<not> may_deliver (sample_tracker\<lparr>dt_state := Unknown (sample_receipt StatusUnknown 1)\<rparr>) 1500"
proof -
  have "apply_persisted_receipt sample_sha sample_tracker (sample_receipt StatusUnknown 1)
      = Ok (sample_tracker\<lparr>dt_state := Unknown (sample_receipt StatusUnknown 1)\<rparr>, Advanced)"
    by (simp add: apply_persisted_receipt_def validate_receipt_def sample_tracker_def
        sample_receipt_def sample_manifest_def state_from_receipt_def)
  from delivery_settles_once [OF this, of "[]" 1500] show ?thesis by (simp add: Let_def)
qed

text \<open>
  Delivering the same receipt again has no effect: the tracker accepts it as a no-op any
  number of times.
\<close>

theorem receipt_redelivery_idempotent:
  assumes "tracker_ok sha t" and "apply_persisted_receipt sha t receipt = Ok (t', out)"
  shows "run (apply_persisted_receipt sha) t (receipt # replicate n receipt) = t'
    \<and> tracker_ok sha t'"
  using tracker.redelivery_any [OF assms] tracker.step_inv [OF assms] by simp

theorem receipt_redelivery_idempotent_witness:
  "tracker_ok sample_sha (sample_tracker\<lparr>dt_state := Applied (sample_receipt StatusApplied 1)\<rparr>)"
proof -
  have "apply_persisted_receipt sample_sha sample_tracker (sample_receipt StatusApplied 1)
      = Ok (sample_tracker\<lparr>dt_state := Applied (sample_receipt StatusApplied 1)\<rparr>, Advanced)"
    by (simp add: apply_persisted_receipt_def validate_receipt_def sample_tracker_def
        sample_receipt_def sample_manifest_def state_from_receipt_def)
  from receipt_redelivery_idempotent [OF _ this] show ?thesis
    by (simp add: tracker_ok_def sample_tracker_def)
qed

text \<open>
  The delivery digest commits to the whole manifest: two different manifests with one
  digest exhibit a collision of the hash, between the two texts that were hashed.
\<close>

theorem delivery_digest_binds:
  assumes "delivery_digest sha m = delivery_digest sha n" and "m \<noteq> n"
    and "settlement_named (db_instrument (fm_binding m))"
    and "settlement_named (db_instrument (fm_binding n))"
    and "list_all part_fits (delivery_parts m)" and "list_all part_fits (delivery_parts n)"
  shows "hash_collision sha
    (commit_preimage (ascii_bytes ''copy-delivery-v1'') (delivery_parts m))
    (commit_preimage (ascii_bytes ''copy-delivery-v1'') (delivery_parts n))"
proof -
  have "0 \<notin> set (ascii_bytes ''copy-delivery-v1'')" by code_simp
  then show ?thesis
    using derive_inj [of sha "ascii_bytes ''copy-delivery-v1''" "delivery_parts m"
        "ascii_bytes ''copy-delivery-v1''" "delivery_parts n"] assms delivery_parts_inj
    unfolding delivery_digest_def derive_commitment_def by blast
qed

theorem delivery_digest_binds_witness:
  "commit_preimage (ascii_bytes ''copy-delivery-v1'') (delivery_parts sample_manifest)
   \<noteq> commit_preimage (ascii_bytes ''copy-delivery-v1'')
       (delivery_parts (sample_manifest\<lparr>fm_snapshot_generation := 10\<rparr>))"
proof -
  let ?n = "sample_manifest\<lparr>fm_snapshot_generation := 10\<rparr>"
  have fits: "list_all part_fits (delivery_parts sample_manifest)"
      "list_all part_fits (delivery_parts ?n)"
    by (simp_all add: delivery_parts_def Let_def part_fits_def sample_manifest_def sample_binding_def
        sample_identities_def sample_id_def u64_be_bytes_def utf8_bytes_def ascii_bytes_def
        sample_metadata_def sample_instrument_def metadata_identity_def instrument_identity_of_def
        sample_symbol_def sample_asset_def)
  have "sample_manifest \<noteq> ?n"
    by (simp add: sample_manifest_def)
  then have "hash_collision (\<lambda>_. [])
      (commit_preimage (ascii_bytes ''copy-delivery-v1'') (delivery_parts sample_manifest))
      (commit_preimage (ascii_bytes ''copy-delivery-v1'') (delivery_parts ?n))"
    by (intro delivery_digest_binds fits)
      (simp_all add: delivery_digest_def derive_commitment_def derive_def sample_manifest_def
        sample_binding_def settlement_named_def sample_metadata_def sample_instrument_def
        metadata_identity_def instrument_identity_of_def sample_asset_def)
  then show ?thesis by (simp add: hash_collision_def)
qed

text \<open>
  C37: The identities derived for a copy job have the shape of version 5 UUIDs and are never
  nil, and two inputs that share an idempotency key name the same event, follower account,
  revision and action, or the texts of the two keys are a collision of the hash.
\<close>

theorem derived_identities_sound:
  assumes "digest_length_law sha"
    and "derive_copy_identities sha i = Ok a" and "derive_copy_identities sha j = Ok b"
    and "list_all part_fits [ci_event_id i, ci_follower_account_id i, ci_event_id j,
      ci_follower_account_id j]"
  shows "uuid_shaped (cs_job_id a) \<and> uuid_shaped (cs_planning_snapshot_id a)
    \<and> uuid_shaped (cs_child_order_id a) \<and> \<not> is_nil (cs_job_id a)
    \<and> (if cs_idempotency_key a = cs_idempotency_key b
       then ci_event_id i = ci_event_id j \<and> ci_follower_account_id i = ci_follower_account_id j
            \<and> ci_revision i = ci_revision j \<and> ci_action i = ci_action j
          \<or> hash_collision sha (commit_preimage (ascii_bytes ''copy-job-key-v1'') (job_parts i))
              (commit_preimage (ascii_bytes ''copy-job-key-v1'') (job_parts j))
       else job_parts i \<noteq> job_parts j)"
proof -
  have tag: "0 \<notin> set (ascii_bytes ''copy-job-key-v1'')" by code_simp
  note a = derive_copy_identities_Ok [THEN iffD1, OF assms(2)]
    and b = derive_copy_identities_Ok [THEN iffD1, OF assms(3)]
  have fits: "list_all part_fits (job_parts i)" "list_all part_fits (job_parts j)"
    using assms(4) by (simp_all add: job_parts_def copy_action_bytes_fits)
  have key: "key_bytes (cs_idempotency_key a) = derive sha (ascii_bytes ''copy-job-key-v1'') (job_parts i)"
      "key_bytes (cs_idempotency_key b) = derive sha (ascii_bytes ''copy-job-key-v1'') (job_parts j)"
    using a b by (simp_all add: job_parts_def)
  have "job_parts i = job_parts j \<or> hash_collision sha
      (commit_preimage (ascii_bytes ''copy-job-key-v1'') (job_parts i))
      (commit_preimage (ascii_bytes ''copy-job-key-v1'') (job_parts j))"
    if "cs_idempotency_key a = cs_idempotency_key b"
    using derive_inj [OF _ _ tag tag fits] key that by metis
  moreover have "job_parts i \<noteq> job_parts j" if "cs_idempotency_key a \<noteq> cs_idempotency_key b"
    using key that by (metis idempotency_key.expand)
  moreover have "uuid_shaped (cs_job_id a)" "uuid_shaped (cs_planning_snapshot_id a)"
      "uuid_shaped (cs_child_order_id a)"
    using a by (simp_all add: derive_uuid_shaped [OF assms(1)])
  ultimately show ?thesis
    using uuid_shaped_not_nil by (auto simp: job_parts_inj)
qed

theorem derived_identities_sound_witness:
  "\<exists>ids. derive_copy_identities sample_sha sample_input = Ok ids \<and> \<not> is_nil (cs_job_id ids)"
proof -
  obtain ids where ids: "derive_copy_identities sample_sha sample_input = Ok ids"
    by (simp add: derive_copy_identities_Ok sample_input_def)
  have "list_all part_fits [ci_event_id sample_input, ci_follower_account_id sample_input,
      ci_event_id sample_input, ci_follower_account_id sample_input]"
    by (simp add: part_fits_def sample_input_def sample_id_def)
  from derived_identities_sound [OF sample_sha_length ids ids this] ids show ?thesis by auto
qed

text \<open>
  C39: Printing an identifier and parsing the text gives the identifier back, for every
  16-byte identifier that is not nil.
\<close>

theorem copy_id_text_roundtrip:
  assumes "length (id_bytes i) = UUID_BYTES" and "\<not> is_nil i"
  shows "copy_id_parse (copy_id_to_string i) = Ok i"
  using assms by (rule copy_id_roundtrip)

theorem copy_id_text_roundtrip_witness:
  "copy_id_parse (copy_id_to_string (sample_id 5)) = Ok (sample_id 5)"
  by (rule copy_id_text_roundtrip) (simp add: sample_id_def UUID_BYTES_def, simp add: is_nil_def)

section \<open>Drift repair, execution and the ledger\<close>

text \<open>
  C8: A planned execution passes the validation its consumer runs on it, binds the fresh
  position and the target of the manifest's generation, and never takes the position through
  zero in one request: a flip is first reduced to zero, and any other request moves the
  position to the target exactly (when the difference is representable).
\<close>

theorem execution_request_sound:
  assumes "dec_sign_laws D" and "dec_exact_laws D"
    and "plan_copy_execution D sha manifest target position now_ms = Ok r"
    and "dec_representable (dec_value D (am_value (tp_target_exposure target))
      - dec_value D (am_value (ap_exposure position)))"
  shows "validate_against D sha r manifest target = Ok ()
    \<and> ap_observed_at_ms position \<le> now_ms \<and> now_ms < ap_expires_at_ms position
    \<and> ce_target_generation r = fm_snapshot_generation manifest
    \<and> (let current = dec_value D (am_value (ce_current_exposure r));
            desired = dec_value D (am_value (ce_target_exposure r));
            after = current + dec_value D (am_value (ce_requested_delta_exposure r)) in
       case ce_phase r of
         ReduceToZero \<Rightarrow> after = 0
       | Adjust \<Rightarrow> after = desired \<and> 0 \<le> current * after)"
  using assms(3)
proof (cases rule: plan_copy_execution_steps)
  case (1 phase delta)
  have neg: "dec_value D (dec_neg D a) = - dec_value D a" for a
    using assms(1) by (simp add: dec_sign_laws_def)
  show ?thesis
    using execution_delta_Ok [OF 1(8)] 1(4,5,6) plan_copy_execution_validates [OF assms(3)]
      dec_sub_exact [OF assms(2)] assms(4) not_execution_crosses_zero [OF assms(1)] neg
    by (auto simp: 1(9) Let_def)
qed

theorem execution_request_sound_witness:
  "validate_against rat_api sample_sha sample_request sample_manifest sample_target = Ok ()"
  using execution_request_sound [OF _ _ sample_execution]
  by (simp add: dec_representable_def sample_target_def sample_position_def
      exI [of _ "60 :: int"] exI [of _ "0 :: nat"])

text \<open>
  C33: Drift repair requests nothing exactly when the authoritative position is already the
  target; otherwise it requests, under a new job identity and for at most five minutes, a
  change in the direction of the target, from a position inside its freshness window.
\<close>

theorem drift_repair_sound:
  assumes "dec_sign_laws D" and "plan_drift_repair D request = Ok result"
  shows "let current = dec_value D (am_value (ap_exposure (dq_position request)));
             target = dec_value D (am_value (tp_target_exposure (dq_target request))) in
    ap_observed_at_ms (dq_position request) \<le> dq_now_ms request
    \<and> dq_now_ms request < ap_expires_at_ms (dq_position request)
    \<and> (case result of
         None \<Rightarrow> current = target
       | Some r \<Rightarrow> current \<noteq> target
           \<and> (if current < target then 0 \<le> dec_value D (am_value (dr_delta_exposure r))
              else dec_value D (am_value (dr_delta_exposure r)) \<le> 0)
           \<and> cs_job_id (dr_identities r) \<noteq> dr_supersedes_job_id r
           \<and> dr_requested_at_ms r \<le> dr_expires_at_ms r
           \<and> dr_expires_at_ms r - dr_requested_at_ms r \<le> MAX_REPAIR_TTL_MS
           \<and> dr_binding r = dq_binding request)"
  using assms(2)
proof (cases rule: plan_drift_repair_steps)
  case settled
  then show ?thesis
    using drift_validate_request_Ok [OF settled(1)] by (simp add: Let_def dec_eq_def)
next
  case (repair r)
  then show ?thesis
    using drift_validate_request_Ok [OF repair(1)] dec_sub_nonneg [OF assms(1) repair(4)]
      dec_sub_nonpos [OF assms(1) repair(4)]
    by (auto simp: Let_def dec_eq_def not_less)
qed

theorem drift_repair_sound_witness:
  "\<exists>r. plan_drift_repair rat_api sample_repair = Ok r
     \<and> ap_observed_at_ms (dq_position sample_repair) \<le> dq_now_ms sample_repair"
  using sample_repair_valid drift_repair_sound [OF rat_sign_laws]
  by (auto simp: is_ok_iff Let_def)

text \<open>
  A plan computed by the capital reduction is never refused by drift repair on account of
  its target: the product the repair recomputes is the one the reduction stored.
\<close>

theorem capital_plan_accepted_by_repair:
  assumes "dec_sign_laws D" and "dec_choice_laws D" and "dec_const_laws D"
    and "reduce_target_exposure_with_multiplier D request multiplier = Ok (dq_target repair)"
  shows "drift_validate_request D repair \<notin> {Err DR_Target, Err DR_ArithmeticOverflow}"
  using capital_plan_not_refused [OF assms refl] by simp

theorem capital_plan_accepted_by_repair_witness:
  "drift_validate_request rat_api sample_repair \<noteq> Err DR_Target"
  using capital_plan_accepted_by_repair [of rat_api sample_capital 1 sample_repair]
    sample_target_computed
  by (simp add: sample_repair_def)

text \<open>
  C38: A fact the ledger accepted is accepted as a no-op whenever it is delivered again, after
  any other facts; delivery at least once is as good as delivery exactly once.
\<close>

theorem ledger_replay_is_noop:
  assumes "ledger_apply D (run (ledger_apply D) (ledger_new b) facts) e = Ok (l, out)"
  shows "ledger_apply D (run (ledger_apply D) l later) e = Ok (run (ledger_apply D) l later, NoOp)"
  using ledger.replayed_later [OF ledger_run_ok assms] .

theorem ledger_replay_is_noop_witness:
  "\<exists>l. ledger_apply rat_api (ledger_new sample_binding) (sample_entry 1 30) = Ok (l, Advanced)
     \<and> ledger_apply rat_api l (sample_entry 1 30) = Ok (l, NoOp)"
proof -
  obtain l where l: "ledger_apply rat_api (ledger_new sample_binding) (sample_entry 1 30)
      = Ok (l, Advanced)"
    by (simp add: ledger_apply_def ledger_new_def sample_entry_def validate_entry_def dec_eq_def
        zero_digest_def DIGEST_BYTES_def)
  then show ?thesis
    using ledger_replay_is_noop [of rat_api sample_binding "[]" _ l Advanced "[]"] by simp
qed

text \<open>
  C15: Whatever facts arrive, in whatever order, the ledger holds exactly the sequences 1 to n
  with non-decreasing generations, and its generation and managed exposure are those of the
  last of them; and what it recorded under a sequence is never replaced.
\<close>

theorem ledger_is_contiguous_and_append_only:
  "let l = run (ledger_apply D) (ledger_new b) facts in
     map fst (cl_entries l) = map of_nat [1 ..< Suc (length (cl_entries l))]
     \<and> length (cl_entries l) < 2 ^ 64
     \<and> sorted (map (le_generation \<circ> snd) (cl_entries l))
     \<and> cl_managed_exposure l = (if cl_entries l = [] then None
         else Some (le_managed_exposure (snd (last (cl_entries l)))))
     \<and> {(k, e). bt_lookup (cl_entries l) k = Some e}
        \<subseteq> {(k, e). bt_lookup (cl_entries (run (ledger_apply D) l later)) k = Some e}"
  using ledger_run_ok [of D b facts]
  by (auto simp: Let_def ledger_ok_def ledger_entries_ok_def sequence_keys_def
      intro: ledger_run_append_only)

end
