(* ===== verification/Grid_Model.thy ===== *)
theory Grid_Model
  imports Domain
begin

text \<open>
  The data of the hedged grid (\<open>crates/venue-strategies/src/hedged_grid/model.rs\<close>): the
  deployment binding and fixed parameters, order keys with their derived order, grid epochs,
  order intents and inventories.
\<close>

section \<open>Binding and parameters\<close>

definition MIN_GRID_COUNT :: u8 where "MIN_GRID_COUNT = 1"
definition MAX_GRID_COUNT :: u8 where "MAX_GRID_COUNT = 50"
definition INVENTORY_REPLENISH_GRID_COUNT :: u8 where "INVENTORY_REPLENISH_GRID_COUNT = 3"

datatype hedged_grid_error =
  HG_Binding | HG_Params | HG_Epoch | HG_OrderKey | HG_Order | HG_Inventory
| HG_InventoryGeneration | HG_Phase | HG_UnknownFill | HG_FillConflict | HG_FillEvidence
| HG_Rolling | HG_Checkpoint

record hedged_grid_binding =
  gb_strategy_instance_id :: string
  gb_run_id :: string
  gb_exchange :: string
  gb_account :: string
  gb_symbol :: symbol
  gb_config_version :: string
  gb_owner_scope :: string

definition valid_binding_identity :: "string \<Rightarrow> nat \<Rightarrow> bool" where
  "valid_binding_identity value max_len \<longleftrightarrow>
     value \<noteq> [] \<and> length value \<le> max_len
     \<and> list_all (\<lambda>c. is_ascii_alphanumeric c \<or> c = CHR ''-'' \<or> c = CHR ''_'') value"

definition binding_validate :: "hedged_grid_binding \<Rightarrow> (unit, hedged_grid_error) outcome" where
  "binding_validate b =
     (let owner_identity_invalid =
            list_ex (\<lambda>value. \<not> valid_binding_identity value 36)
              [gb_strategy_instance_id b, gb_run_id b, gb_exchange b, gb_account b] in
      if owner_identity_invalid
        \<or> \<not> valid_binding_identity (gb_config_version b) 64
        \<or> \<not> valid_binding_identity (gb_owner_scope b) 64
      then Err HG_Binding else Ok ())"

record 'd hedged_grid_params =
  gp_order_notional :: "'d amount"
  gp_spacing_rate :: 'd
  gp_grid_count :: u8
  gp_inventory_replenish_grid_count :: u8

definition grid_params_validate ::
  "'d decimal_api \<Rightarrow> 'd hedged_grid_params \<Rightarrow> (unit, hedged_grid_error) outcome" where
  "grid_params_validate D p =
     (if asset_str (am_asset (gp_order_notional p)) \<notin> {''USDC'', ''USDT''}
        \<or> \<not> dec_eq D (am_value (gp_order_notional p)) (dec_new D 5 0)
        \<or> \<not> dec_eq D (gp_spacing_rate p) (dec_new D 2 3)
        \<or> \<not> (MIN_GRID_COUNT \<le> gp_grid_count p \<and> gp_grid_count p \<le> MAX_GRID_COUNT)
        \<or> gp_inventory_replenish_grid_count p \<noteq> INVENTORY_REPLENISH_GRID_COUNT
      then Err HG_Params else Ok ())"

definition grid_params_fixed_release ::
  "'d decimal_api \<Rightarrow> asset \<Rightarrow> u8 \<Rightarrow> ('d hedged_grid_params, hedged_grid_error) outcome" where
  "grid_params_fixed_release D quote_asset grid_count =
     (if asset_str quote_asset \<notin> {''USDC'', ''USDT''} then Err HG_Params
      else
      let params = \<lparr>gp_order_notional = amount_new quote_asset (dec_new D 5 0),
                    gp_spacing_rate = dec_new D 2 3,
                    gp_grid_count = grid_count,
                    gp_inventory_replenish_grid_count = INVENTORY_REPLENISH_GRID_COUNT\<rparr>
      in and_then (grid_params_validate D params) (\<lambda>_. Ok params))"

definition grid_params_phase_one ::
  "'d decimal_api \<Rightarrow> u8 \<Rightarrow> ('d hedged_grid_params, hedged_grid_error) outcome" where
  "grid_params_phase_one D grid_count =
     and_then (map_err (\<lambda>_. HG_Params) (asset_new ''USDC''))
       (\<lambda>a. grid_params_fixed_release D a grid_count)"

definition replenish_notional ::
  "'d decimal_api \<Rightarrow> 'd hedged_grid_params \<Rightarrow> ('d amount, 'e) outcome" where
  "replenish_notional D p =
     and_then (or_panic (dec_mul D (am_value (gp_order_notional p))
       (dec_of_int D (uint (gp_inventory_replenish_grid_count p)))))
       (\<lambda>v. Ok (amount_new (am_asset (gp_order_notional p)) v))"

section \<open>Order keys\<close>

datatype grid_position = GLong | GShort

datatype grid_order_role = Open | Close

definition opening_side :: "grid_position \<Rightarrow> order_side" where
  "opening_side p = (case p of GLong \<Rightarrow> Buy | GShort \<Rightarrow> Sell)"

definition closing_side :: "grid_position \<Rightarrow> order_side" where
  "closing_side p = (case p of GLong \<Rightarrow> Sell | GShort \<Rightarrow> Buy)"

datatype grid_order_key =
  GridOrderKey (gk_epoch: u64) (gk_position: grid_position) (gk_role: grid_order_role)
    (gk_level: u64)

text \<open>The derived orders: declaration order of the variants, fields lexicographically.\<close>

instantiation grid_position :: linorder
begin

definition less_grid_position :: "grid_position \<Rightarrow> grid_position \<Rightarrow> bool" where
  "less_grid_position a b \<longleftrightarrow> a = GLong \<and> b = GShort"

definition less_eq_grid_position :: "grid_position \<Rightarrow> grid_position \<Rightarrow> bool" where
  "less_eq_grid_position a b \<longleftrightarrow> a = b \<or> a = GLong"

instance
proof
  fix a b c :: grid_position
  show "(a < b) = (a \<le> b \<and> \<not> b \<le> a)" "a \<le> a" "a \<le> b \<or> b \<le> a"
    "a \<le> b \<Longrightarrow> b \<le> c \<Longrightarrow> a \<le> c" "a \<le> b \<Longrightarrow> b \<le> a \<Longrightarrow> a = b"
    by (cases a; cases b; auto simp: less_grid_position_def less_eq_grid_position_def)+
qed

end

instantiation grid_order_role :: linorder
begin

definition less_grid_order_role :: "grid_order_role \<Rightarrow> grid_order_role \<Rightarrow> bool" where
  "less_grid_order_role a b \<longleftrightarrow> a = Open \<and> b = Close"

definition less_eq_grid_order_role :: "grid_order_role \<Rightarrow> grid_order_role \<Rightarrow> bool" where
  "less_eq_grid_order_role a b \<longleftrightarrow> a = b \<or> a = Open"

instance
proof
  fix a b c :: grid_order_role
  show "(a < b) = (a \<le> b \<and> \<not> b \<le> a)" "a \<le> a" "a \<le> b \<or> b \<le> a"
    "a \<le> b \<Longrightarrow> b \<le> c \<Longrightarrow> a \<le> c" "a \<le> b \<Longrightarrow> b \<le> a \<Longrightarrow> a = b"
    by (cases a; cases b; auto simp: less_grid_order_role_def less_eq_grid_order_role_def)+
qed

end

instantiation grid_order_key :: linorder
begin

definition less_grid_order_key :: "grid_order_key \<Rightarrow> grid_order_key \<Rightarrow> bool" where
  "less_grid_order_key a b \<longleftrightarrow>
     gk_epoch a < gk_epoch b \<or> gk_epoch a = gk_epoch b \<and>
     (gk_position a < gk_position b \<or> gk_position a = gk_position b \<and>
      (gk_role a < gk_role b \<or> gk_role a = gk_role b \<and> gk_level a < gk_level b))"

definition less_eq_grid_order_key :: "grid_order_key \<Rightarrow> grid_order_key \<Rightarrow> bool" where
  "less_eq_grid_order_key a b \<longleftrightarrow> a = b \<or> a < b"

instance
proof
  fix a b c :: grid_order_key
  show "(a < b) = (a \<le> b \<and> \<not> b \<le> a)"
    by (auto simp: less_grid_order_key_def less_eq_grid_order_key_def)
  show "a \<le> a" by (simp add: less_eq_grid_order_key_def)
  show "a \<le> b \<Longrightarrow> b \<le> c \<Longrightarrow> a \<le> c"
    unfolding less_grid_order_key_def less_eq_grid_order_key_def by fastforce
  show "a \<le> b \<Longrightarrow> b \<le> a \<Longrightarrow> a = b"
    unfolding less_grid_order_key_def less_eq_grid_order_key_def by fastforce
  show "a \<le> b \<or> b \<le> a"
    unfolding less_grid_order_key_def less_eq_grid_order_key_def
    by (cases a; cases b) (auto simp: not_less)
qed

end

definition order_key_validate :: "grid_order_key \<Rightarrow> (unit, hedged_grid_error) outcome" where
  "order_key_validate k = (if gk_epoch k = 0 \<or> gk_level k = 0 then Err HG_OrderKey else Ok ())"

section \<open>Epochs\<close>

record 'd passive_book_fallback_anchor =
  fb_fill_id :: string
  fb_fill_price :: "'d price"
  fb_anchor_price :: "'d price"
  fb_crossing_side :: order_side
  fb_crossing_limit_price :: "'d price"
  fb_bid :: "'d price"
  fb_ask :: "'d price"
  fb_selected_at_ms :: u64

definition fallback_validate ::
  "'d decimal_api \<Rightarrow> 'd passive_book_fallback_anchor \<Rightarrow> (unit, hedged_grid_error) outcome" where
  "fallback_validate D f =
     (let crossing_proven =
            (case fb_crossing_side f of
               Buy \<Rightarrow> dec_le D (price_value (fb_ask f)) (price_value (fb_crossing_limit_price f))
             | Sell \<Rightarrow> dec_le D (price_value (fb_crossing_limit_price f)) (price_value (fb_bid f)))
      in
      if fb_fill_id f = [] \<or> fb_selected_at_ms f = 0
        \<or> dec_le D (price_value (fb_ask f)) (price_value (fb_bid f))
        \<or> dec_less D (price_value (fb_anchor_price f)) (price_value (fb_bid f))
        \<or> dec_less D (price_value (fb_ask f)) (price_value (fb_anchor_price f))
        \<or> \<not> crossing_proven
      then Err HG_Epoch else Ok ())"

definition fallback_matches_fill ::
  "'d decimal_api \<Rightarrow> 'd passive_book_fallback_anchor \<Rightarrow> string \<Rightarrow> 'd price \<Rightarrow> bool" where
  "fallback_matches_fill D f fill_id fill_price \<longleftrightarrow>
     fb_fill_id f = fill_id \<and> price_eq D (fb_fill_price f) fill_price"

record 'd grid_epoch =
  ge_epoch :: u64
  ge_anchor_price :: "'d price"
  ge_step :: "'d price"
  ge_grid_quantity :: 'd
  ge_passive_book_fallback :: "'d passive_book_fallback_anchor option"

definition epoch_validate ::
  "'d decimal_api \<Rightarrow> 'd grid_epoch \<Rightarrow> u8 \<Rightarrow> (unit, hedged_grid_error) outcome" where
  "epoch_validate D e grid_count =
     (if ge_epoch e = 0 \<or> \<not> dec_positive D (ge_grid_quantity e)
        \<or> \<not> (MIN_GRID_COUNT \<le> grid_count \<and> grid_count \<le> MAX_GRID_COUNT)
        \<or> (case ge_passive_book_fallback e of None \<Rightarrow> False
           | Some fallback \<Rightarrow> \<not> is_ok (fallback_validate D fallback)
               \<or> \<not> price_eq D (fb_anchor_price fallback) (ge_anchor_price e))
      then Err HG_Epoch
      else
      and_then (or_panic (dec_mul D (price_value (ge_step e)) (dec_of_int D (uint grid_count))))
        (\<lambda>outer.
      if dec_le D (price_value (ge_anchor_price e)) outer then Err HG_Epoch else Ok ()))"

definition epoch_price ::
  "'d decimal_api \<Rightarrow> 'd grid_epoch \<Rightarrow> grid_position \<Rightarrow> grid_order_role \<Rightarrow> u8
   \<Rightarrow> ('d price, hedged_grid_error) outcome" where
  "epoch_price D e position role level =
     (if level = 0 then Err HG_OrderKey
      else
      and_then (or_panic (dec_mul D (price_value (ge_step e)) (dec_of_int D (uint level))))
        (\<lambda>distance.
      and_then (or_panic (dec_sub D (price_value (ge_anchor_price e)) distance)) (\<lambda>lower.
      and_then (or_panic (dec_add D (price_value (ge_anchor_price e)) distance)) (\<lambda>upper.
      let value = (case (position, role) of
            (GLong, Open) \<Rightarrow> lower | (GShort, Close) \<Rightarrow> lower
          | (GShort, Open) \<Rightarrow> upper | (GLong, Close) \<Rightarrow> upper)
      in map_err (\<lambda>_. HG_Epoch) (price_new D value)))))"

section \<open>Order intents and inventory\<close>

record 'd grid_order_intent =
  gi_key :: grid_order_key
  gi_side :: order_side
  gi_price :: "'d price"
  gi_quantity :: 'd
  gi_reduce_only :: bool

definition intent_validate ::
  "'d decimal_api \<Rightarrow> 'd grid_order_intent \<Rightarrow> (unit, hedged_grid_error) outcome" where
  "intent_validate D i =
     and_then (order_key_validate (gi_key i)) (\<lambda>_.
     if \<not> dec_positive D (gi_quantity i)
       \<or> gi_side i \<noteq> (case gk_role (gi_key i) of
            Open \<Rightarrow> opening_side (gk_position (gi_key i))
          | Close \<Rightarrow> closing_side (gk_position (gi_key i)))
       \<or> gi_reduce_only i \<noteq> (gk_role (gi_key i) = Close)
     then Err HG_Order else Ok ())"

record 'd grid_inventory =
  gv_private_generation :: u64
  gv_private_observed_at_ms :: u64
  gv_mark_price :: "'d price"
  gv_long_quantity :: 'd
  gv_short_quantity :: 'd

definition inventory_validate ::
  "'d decimal_api \<Rightarrow> 'd grid_inventory \<Rightarrow> (unit, hedged_grid_error) outcome" where
  "inventory_validate D v =
     (if gv_private_generation v = 0 \<or> dec_sign_negative D (gv_long_quantity v)
        \<or> dec_sign_negative D (gv_short_quantity v)
      then Err HG_Inventory else Ok ())"

definition inventory_notional ::
  "'d decimal_api \<Rightarrow> 'd grid_inventory \<Rightarrow> grid_position \<Rightarrow> ('d, 'e) outcome" where
  "inventory_notional D v position =
     or_panic (dec_mul D (case position of GLong \<Rightarrow> gv_long_quantity v
                          | GShort \<Rightarrow> gv_short_quantity v)
                 (price_value (gv_mark_price v)))"

section \<open>Facts about keys and epochs\<close>

lemma all_positions: "(\<forall>p. P p) \<longleftrightarrow> P GLong \<and> P GShort"
  by (metis grid_position.exhaust)

lemma opposite_sides [simp]: "opening_side p \<noteq> closing_side p" "closing_side p \<noteq> opening_side p"
  by (cases p; simp add: opening_side_def closing_side_def)+

lemma intent_validate_Ok:
  "intent_validate D i = Ok () \<longleftrightarrow>
     gk_epoch (gi_key i) \<noteq> 0 \<and> gk_level (gi_key i) \<noteq> 0 \<and> dec_positive D (gi_quantity i)
     \<and> gi_side i = (if gk_role (gi_key i) = Open then opening_side (gk_position (gi_key i))
                   else closing_side (gk_position (gi_key i)))
     \<and> gi_reduce_only i = (gk_role (gi_key i) = Close)"
  by (auto simp: intent_validate_def order_key_validate_def outcome_simps
      split: grid_order_role.splits)

lemma epoch_price_Ok_pos:
  "dec_sign_laws D \<Longrightarrow> epoch_price D e position role level = Ok p \<Longrightarrow> 0 < price_num D p"
  by (auto simp: epoch_price_def Let_def outcome_simps dest: price_new_pos split: if_splits)

end
