(* ===== verification/Risk_Snapshot.thy ===== *)
theory Risk_Snapshot
  imports Domain Contracts
begin

text \<open>
  Signed account-risk observations of
  \<open>crates/venue-domain/src/domain/risk_snapshot.rs\<close>: a pair of an account and one hedge leg
  that authorises a risk-reducing mutation only while it is complete, consistent and fresh.
\<close>

datatype risk_source_status = Complete | Incomplete | AccountRestricted | Conflicting

record 'd account_risk_snapshot =
  ar_exchange :: string
  ar_account :: string
  ar_risk_currency :: asset
  ar_account_equity :: 'd
  ar_private_generation :: u64
  ar_observed_at_ms :: u64
  ar_source_status :: risk_source_status

record 'd leg_risk_snapshot =
  lr_symbol :: symbol
  lr_position_side :: position_side
  lr_quantity :: 'd
  lr_mark_price :: "'d price"
  lr_contract_multiplier :: 'd
  lr_notional :: 'd
  lr_unrealized_pnl :: 'd
  lr_risk_currency :: asset
  lr_private_generation :: u64
  lr_observed_at_ms :: u64

datatype risk_snapshot_error =
  RS_Scope | RS_SourceStatus | RS_Equity | RS_Generation | RS_ObservedAt | RS_Stale
| RS_PositionSide | RS_LegValue | RS_Notional | RS_Currency | RS_GenerationMismatch

definition validate_generation_and_freshness ::
  "u64 \<Rightarrow> u64 \<Rightarrow> u64 \<Rightarrow> u64 \<Rightarrow> (unit, risk_snapshot_error) outcome" where
  "validate_generation_and_freshness generation observed_at_ms now_ms max_age_ms =
     (if generation = 0 then Err RS_Generation
      else if observed_at_ms = 0 \<or> now_ms < observed_at_ms then Err RS_ObservedAt
      else if max_age_ms < saturating_sub now_ms observed_at_ms then Err RS_Stale
      else Ok ())"

definition valid_scope :: "string \<Rightarrow> bool" where
  "valid_scope value \<longleftrightarrow>
     value \<noteq> [] \<and> length value \<le> 64
     \<and> list_all (\<lambda>c. is_ascii_alphanumeric c \<or> c = CHR ''-'' \<or> c = CHR ''_'') value"

definition account_validate_at ::
  "'d decimal_api \<Rightarrow> 'd account_risk_snapshot \<Rightarrow> u64 \<Rightarrow> u64 \<Rightarrow> (unit, risk_snapshot_error) outcome" where
  "account_validate_at D a now_ms max_age_ms =
     (if \<not> valid_scope (ar_exchange a) \<or> \<not> valid_scope (ar_account a) then Err RS_Scope
      else if ar_source_status a \<noteq> Complete then Err RS_SourceStatus
      else if \<not> dec_positive D (ar_account_equity a) then Err RS_Equity
      else validate_generation_and_freshness (ar_private_generation a) (ar_observed_at_ms a)
             now_ms max_age_ms)"

definition leg_validate_at ::
  "'d decimal_api \<Rightarrow> 'd leg_risk_snapshot \<Rightarrow> u64 \<Rightarrow> u64 \<Rightarrow> (unit, risk_snapshot_error) outcome" where
  "leg_validate_at D l now_ms max_age_ms =
     (if lr_position_side l \<noteq> LongSide \<and> lr_position_side l \<noteq> ShortSide then Err RS_PositionSide
      else if \<not> dec_positive D (lr_quantity l) \<or> \<not> dec_positive D (lr_contract_multiplier l)
        \<or> \<not> dec_positive D (lr_notional l)
      then Err RS_LegValue
      else
      and_then (ok_or RS_Notional
        (Option.bind (dec_mul D (lr_quantity l) (price_value (lr_mark_price l)))
           (\<lambda>value. dec_mul D value (lr_contract_multiplier l)))) (\<lambda>normalized_notional.
      if \<not> dec_eq D (lr_notional l) normalized_notional then Err RS_Notional
      else validate_generation_and_freshness (lr_private_generation l) (lr_observed_at_ms l)
             now_ms max_age_ms))"

definition validate_risk_snapshot_pair ::
  "'d decimal_api \<Rightarrow> 'd account_risk_snapshot \<Rightarrow> 'd leg_risk_snapshot \<Rightarrow> u64 \<Rightarrow> u64
   \<Rightarrow> (unit, risk_snapshot_error) outcome" where
  "validate_risk_snapshot_pair D account leg now_ms max_age_ms =
     and_then (account_validate_at D account now_ms max_age_ms) (\<lambda>_.
     and_then (leg_validate_at D leg now_ms max_age_ms) (\<lambda>_.
     if ar_risk_currency account \<noteq> lr_risk_currency leg then Err RS_Currency
     else if ar_private_generation account \<noteq> lr_private_generation leg
     then Err RS_GenerationMismatch
     else Ok ()))"

lemma validate_generation_and_freshness_Ok:
  "validate_generation_and_freshness g obs now age = Ok () \<longleftrightarrow>
     g \<noteq> 0 \<and> obs \<noteq> 0 \<and> obs \<le> now \<and> unat now - unat obs \<le> unat age"
  by (auto simp: validate_generation_and_freshness_def word_less_nat_alt word_le_nat_alt
      unat_saturating_sub not_less)

lemma account_validate_at_Ok:
  "account_validate_at D a now age = Ok () \<longleftrightarrow>
     valid_scope (ar_exchange a) \<and> valid_scope (ar_account a) \<and> ar_source_status a = Complete
     \<and> dec_positive D (ar_account_equity a)
     \<and> validate_generation_and_freshness (ar_private_generation a) (ar_observed_at_ms a) now age
         = Ok ()"
  by (auto simp: account_validate_at_def)

lemma leg_validate_at_Ok:
  "leg_validate_at D l now age = Ok () \<longleftrightarrow>
     lr_position_side l \<in> {LongSide, ShortSide}
     \<and> dec_positive D (lr_quantity l) \<and> dec_positive D (lr_contract_multiplier l)
     \<and> dec_positive D (lr_notional l)
     \<and> (\<exists>v n. dec_mul D (lr_quantity l) (price_value (lr_mark_price l)) = Some v
          \<and> dec_mul D v (lr_contract_multiplier l) = Some n \<and> dec_eq D (lr_notional l) n)
     \<and> validate_generation_and_freshness (lr_private_generation l) (lr_observed_at_ms l) now age
         = Ok ()"
  by (auto simp: leg_validate_at_def outcome_simps bind_eq_Some_conv split: if_splits)

lemma validate_risk_snapshot_pair_Ok:
  "validate_risk_snapshot_pair D a l now age = Ok () \<longleftrightarrow>
     account_validate_at D a now age = Ok () \<and> leg_validate_at D l now age = Ok ()
     \<and> ar_risk_currency a = lr_risk_currency l
     \<and> ar_private_generation a = lr_private_generation l"
  by (simp add: validate_risk_snapshot_pair_def outcome_simps)

lemma validate_pair_not_Panic [simp]: "validate_risk_snapshot_pair D a l now age \<noteq> Panic"
  by (simp add: validate_risk_snapshot_pair_def account_validate_at_def leg_validate_at_def
      validate_generation_and_freshness_def and_then_Panic)

end
