(* ===== verification/Exposure_Guard.thy ===== *)
theory Exposure_Guard
  imports Grid_Model Risk_Snapshot Contracts
begin

text \<open>
  The exposure guard of the hedged grid
  (\<open>crates/venue-strategies/src/hedged_grid/exposure_guard.rs\<close>): one episode state machine
  per hedge leg.  Its operations mutate the state in place, so each returns the state it
  leaves behind together with its result.
\<close>

section \<open>Parameters and states\<close>

definition EXPOSURE_GUARD_SCHEMA_VERSION :: u16 where
  "EXPOSURE_GUARD_SCHEMA_VERSION = 1"

datatype exposure_guard_error =
  EG_Params | EG_Binding | EG_Snapshot risk_snapshot_error | EG_Arithmetic | EG_Episode
| EG_Checkpoint

record 'd exposure_guard_params =
  xp_enabled :: bool
  xp_position_equity_multiple :: 'd
  xp_unrealized_pnl_equity_ratio :: 'd
  xp_reduce_ratio :: 'd
  xp_max_snapshot_age_ms :: u64
  xp_rearm_clear_generations :: u8

definition guard_params_fixed_release :: "'d decimal_api \<Rightarrow> 'd exposure_guard_params" where
  "guard_params_fixed_release D =
     \<lparr>xp_enabled = True, xp_position_equity_multiple = dec_new D 3 0,
      xp_unrealized_pnl_equity_ratio = dec_new D 5 2, xp_reduce_ratio = dec_new D 30 2,
      xp_max_snapshot_age_ms = 3000, xp_rearm_clear_generations = 2\<rparr>"

definition guard_params_validate ::
  "'d decimal_api \<Rightarrow> 'd exposure_guard_params \<Rightarrow> (unit, exposure_guard_error) outcome" where
  "guard_params_validate D p =
     (let normal_release =
            dec_eq D (xp_position_equity_multiple p) (dec_new D 3 0)
            \<and> dec_eq D (xp_unrealized_pnl_equity_ratio p) (dec_new D 5 2)
            \<and> dec_eq D (xp_reduce_ratio p) (dec_new D 30 2);
          minimum_reduce_validation_release =
            dec_eq D (xp_position_equity_multiple p) (dec_new D 3 0)
            \<and> dec_eq D (xp_unrealized_pnl_equity_ratio p) (dec_new D 1 3)
            \<and> dec_eq D (xp_reduce_ratio p) (dec_new D 14 3)
      in
      if \<not> (normal_release \<or> minimum_reduce_validation_release)
        \<or> xp_max_snapshot_age_ms p = 0 \<or> xp_rearm_clear_generations p \<noteq> 2
      then Err EG_Params else Ok ())"

record 'd reduce_profitable_exposure =
  re_risk_episode_id :: string
  re_position :: grid_position
  re_trigger_generation :: u64
  re_position_quantity :: 'd
  re_position_notional :: 'd
  re_account_equity :: 'd
  re_unrealized_pnl :: 'd
  re_reduce_ratio :: 'd
  re_risk_currency :: asset

datatype 'd exposure_guard_decision =
  Noop
| ReduceProfitableExposure "'d reduce_profitable_exposure"

datatype exposure_episode_state =
  Armed
| TriggerPersisted string
| Reducing string
| Reconciling string
| Latched string
| ShadowLatched string

definition is_active :: "exposure_episode_state \<Rightarrow> bool" where
  "is_active s = (case s of TriggerPersisted _ \<Rightarrow> True | Reducing _ \<Rightarrow> True
     | Reconciling _ \<Rightarrow> True | _ \<Rightarrow> False)"

definition is_latched :: "exposure_episode_state \<Rightarrow> bool" where
  "is_latched s = (case s of Latched _ \<Rightarrow> True | ShadowLatched _ \<Rightarrow> True | _ \<Rightarrow> False)"

definition episode_id :: "exposure_episode_state \<Rightarrow> string option" where
  "episode_id s =
     (case s of
        Armed \<Rightarrow> None
      | TriggerPersisted i \<Rightarrow> Some i | Reducing i \<Rightarrow> Some i | Reconciling i \<Rightarrow> Some i
      | Latched i \<Rightarrow> Some i | ShadowLatched i \<Rightarrow> Some i)"

record exposure_leg_guard =
  lg_state :: exposure_episode_state
  lg_last_evaluated_generation :: u64
  lg_clear_generations :: u8

definition leg_guard_default :: exposure_leg_guard where
  "leg_guard_default =
     \<lparr>lg_state = Armed, lg_last_evaluated_generation = 0, lg_clear_generations = 0\<rparr>"

record 'd exposure_guard_state =
  xg_schema_version :: u16
  xg_binding :: hedged_grid_binding
  xg_params :: "'d exposure_guard_params"
  xg_long :: exposure_leg_guard
  xg_short :: exposure_leg_guard
  xg_next_episode_sequence :: u64

definition guard_new ::
  "'d decimal_api \<Rightarrow> hedged_grid_binding \<Rightarrow> 'd exposure_guard_params
   \<Rightarrow> ('d exposure_guard_state, exposure_guard_error) outcome" where
  "guard_new D binding params =
     and_then (map_err (\<lambda>_. EG_Binding) (binding_validate binding)) (\<lambda>_.
     and_then (guard_params_validate D params) (\<lambda>_.
       Ok \<lparr>xg_schema_version = EXPOSURE_GUARD_SCHEMA_VERSION, xg_binding = binding,
           xg_params = params, xg_long = leg_guard_default, xg_short = leg_guard_default,
           xg_next_episode_sequence = 0\<rparr>))"

definition leg :: "grid_position \<Rightarrow> 'd exposure_guard_state \<Rightarrow> exposure_leg_guard" where
  "leg position s = (case position of GLong \<Rightarrow> xg_long s | GShort \<Rightarrow> xg_short s)"

definition leg_update ::
  "grid_position \<Rightarrow> (exposure_leg_guard \<Rightarrow> exposure_leg_guard)
   \<Rightarrow> 'd exposure_guard_state \<Rightarrow> 'd exposure_guard_state" where
  "leg_update position f s =
     (case position of
        GLong \<Rightarrow> s\<lparr>xg_long := f (xg_long s)\<rparr>
      | GShort \<Rightarrow> s\<lparr>xg_short := f (xg_short s)\<rparr>)"

definition other :: "grid_position \<Rightarrow> grid_position" where
  "other position = (case position of GLong \<Rightarrow> GShort | GShort \<Rightarrow> GLong)"

section \<open>Checkpoint validation\<close>

definition lane_prefix :: "grid_position \<Rightarrow> string" where
  "lane_prefix position = (case position of GLong \<Rightarrow> ''etp-l-'' | GShort \<Rightarrow> ''etp-s-'')"

definition format_episode :: "grid_position \<Rightarrow> u64 \<Rightarrow> string" where
  "format_episode position sequence = lane_prefix position @ hex_digits 16 (unat sequence)"

text \<open>\<open>u64::from_str_radix\<close> on 16 lower-case hex digits cannot fail.\<close>

definition parse_episode :: "grid_position \<Rightarrow> string \<Rightarrow> u64 option" where
  "parse_episode position raw =
     (if take 6 raw = lane_prefix position
      then let encoded_sequence = drop 6 raw in
        if length encoded_sequence \<noteq> 16
          \<or> \<not> list_all (\<lambda>c. is_ascii_digit c \<or> 97 \<le> code c \<and> code c \<le> 102) encoded_sequence
        then None
        else map_option of_nat (hex_parse 0 encoded_sequence)
      else None)"

definition validate_leg_checkpoint ::
  "'d exposure_guard_state \<Rightarrow> grid_position \<Rightarrow> exposure_leg_guard
   \<Rightarrow> (unit, exposure_guard_error) outcome" where
  "validate_leg_checkpoint s position guard =
     (let clear_count_is_valid =
            (if is_latched (lg_state guard)
             then lg_clear_generations guard < xp_rearm_clear_generations (xg_params s)
             else lg_clear_generations guard = 0) in
      if \<not> clear_count_is_valid then Err EG_Checkpoint
      else
      case episode_id (lg_state guard) of
        None \<Rightarrow> Ok ()
      | Some eid \<Rightarrow>
          if lg_last_evaluated_generation guard = 0 then Err EG_Checkpoint
          else
          and_then (ok_or EG_Checkpoint (parse_episode position eid)) (\<lambda>sequence.
          if sequence = 0 \<or> xg_next_episode_sequence s < sequence
            \<or> eid \<noteq> format_episode position sequence
          then Err EG_Checkpoint else Ok ()))"

definition validate_checkpoint ::
  "'d decimal_api \<Rightarrow> 'd exposure_guard_state \<Rightarrow> (unit, exposure_guard_error) outcome" where
  "validate_checkpoint D s =
     (if xg_schema_version s \<noteq> EXPOSURE_GUARD_SCHEMA_VERSION then Err EG_Checkpoint
      else
      and_then (map_err (\<lambda>_. EG_Checkpoint) (binding_validate (xg_binding s))) (\<lambda>_.
      and_then (guard_params_validate D (xg_params s)) (\<lambda>_.
      if is_active (lg_state (xg_long s)) \<and> is_active (lg_state (xg_short s))
      then Err EG_Checkpoint
      else
      and_then (validate_leg_checkpoint s GLong (xg_long s)) (\<lambda>_.
      and_then (validate_leg_checkpoint s GShort (xg_short s)) (\<lambda>_. Ok ())))))"

section \<open>Operations\<close>

definition migrate_release_params ::
  "'d decimal_api \<Rightarrow> 'd exposure_guard_state \<Rightarrow> 'd exposure_guard_params
   \<Rightarrow> 'd exposure_guard_state \<times> (unit, exposure_guard_error) outcome" where
  "migrate_release_params D s params =
     (case and_then (validate_checkpoint D s) (\<lambda>_. guard_params_validate D params) of
        Err e \<Rightarrow> (s, Err e)
      | Panic \<Rightarrow> (s, Panic)
      | Ok _ \<Rightarrow>
        if is_active (lg_state (xg_long s)) \<or> is_active (lg_state (xg_short s))
        then (s, Err EG_Episode)
        else (s\<lparr>xg_params := params, xg_long := leg_guard_default,
                xg_short := leg_guard_default\<rparr>, Ok ()))"

definition breaches ::
  "'d decimal_api \<Rightarrow> 'd exposure_guard_state \<Rightarrow> 'd account_risk_snapshot \<Rightarrow> 'd leg_risk_snapshot
   \<Rightarrow> (bool, exposure_guard_error) outcome" where
  "breaches D s account l =
     and_then (ok_or EG_Arithmetic
       (dec_mul D (ar_account_equity account) (xp_position_equity_multiple (xg_params s))))
       (\<lambda>exposure_boundary.
     and_then (ok_or EG_Arithmetic
       (dec_mul D (ar_account_equity account) (xp_unrealized_pnl_equity_ratio (xg_params s))))
       (\<lambda>pnl_boundary.
     Ok (dec_le D exposure_boundary (lr_notional l)
         \<and> dec_positive D (lr_unrealized_pnl l)
         \<and> dec_less D pnl_boundary (lr_unrealized_pnl l))))"

text \<open>One clear observation of a latched leg: rearm at the approved count.\<close>

definition count_clear :: "u8 \<Rightarrow> exposure_leg_guard \<Rightarrow> exposure_leg_guard" where
  "count_clear rearm guard =
     (let cleared = min (saturating_add (lg_clear_generations guard) 1) rearm in
      if rearm \<le> cleared
      then guard\<lparr>lg_clear_generations := 0, lg_state := Armed\<rparr>
      else guard\<lparr>lg_clear_generations := cleared\<rparr>)"

definition leg_position :: "position_side \<Rightarrow> (grid_position, exposure_guard_error) outcome" where
  "leg_position side =
     (case side of LongSide \<Rightarrow> Ok GLong | ShortSide \<Rightarrow> Ok GShort | NetSide \<Rightarrow> Err EG_Binding)"

text \<open>The checks of \<open>evaluate\<close> that come before its first mutation.\<close>

definition evaluate_guards ::
  "'d decimal_api \<Rightarrow> 'd exposure_guard_state \<Rightarrow> 'd account_risk_snapshot \<Rightarrow> 'd leg_risk_snapshot
   \<Rightarrow> u64 \<Rightarrow> (grid_position \<times> bool, exposure_guard_error) outcome" where
  "evaluate_guards D s account l now_ms =
     and_then (validate_checkpoint D s) (\<lambda>_.
     and_then (map_err EG_Snapshot
       (validate_risk_snapshot_pair D account l now_ms (xp_max_snapshot_age_ms (xg_params s))))
       (\<lambda>_.
     if ar_exchange account \<noteq> gb_exchange (xg_binding s)
       \<or> ar_account account \<noteq> gb_account (xg_binding s)
       \<or> lr_symbol l \<noteq> gb_symbol (xg_binding s)
     then Err EG_Binding
     else
     and_then (leg_position (lr_position_side l)) (\<lambda>position.
     and_then (breaches D s account l) (\<lambda>breach. Ok (position, breach)))))"

definition evaluate ::
  "'d decimal_api \<Rightarrow> 'd exposure_guard_state \<Rightarrow> 'd account_risk_snapshot \<Rightarrow> 'd leg_risk_snapshot
   \<Rightarrow> u64 \<Rightarrow> 'd exposure_guard_state \<times> ('d exposure_guard_decision, exposure_guard_error) outcome"
  where
  "evaluate D s account l now_ms =
     (case evaluate_guards D s account l now_ms of
        Err e \<Rightarrow> (s, Err e)
      | Panic \<Rightarrow> (s, Panic)
      | Ok (position, breach) \<Rightarrow>
        let other_active = is_active (lg_state (leg (other position) s));
            enabled = xp_enabled (xg_params s);
            rearm_clear_generations = xp_rearm_clear_generations (xg_params s) in
        if ar_private_generation account \<le> lg_last_evaluated_generation (leg position s)
        then (s, Ok Noop)
        else
        let s = leg_update position
              (\<lambda>g. g\<lparr>lg_last_evaluated_generation := ar_private_generation account\<rparr>) s;
            state = lg_state (leg position s) in
        if state = Armed \<and> breach \<and> \<not> other_active \<and> enabled
        then
          case checked_add (xg_next_episode_sequence s) 1 of
            None \<Rightarrow> (s, Err EG_Episode)
          | Some next \<Rightarrow>
            let s = s\<lparr>xg_next_episode_sequence := next\<rparr>;
                risk_episode_id = format_episode position next in
            (leg_update position (\<lambda>g. g\<lparr>lg_state := TriggerPersisted risk_episode_id\<rparr>) s,
             Ok (ReduceProfitableExposure
               \<lparr>re_risk_episode_id = risk_episode_id,
                re_position = position,
                re_trigger_generation = ar_private_generation account,
                re_position_quantity = lr_quantity l,
                re_position_notional = lr_notional l,
                re_account_equity = ar_account_equity account,
                re_unrealized_pnl = lr_unrealized_pnl l,
                re_reduce_ratio = xp_reduce_ratio (xg_params s),
                re_risk_currency = ar_risk_currency account\<rparr>))
        else if is_latched state \<and> \<not> breach
        then (leg_update position (count_clear rearm_clear_generations) s, Ok Noop)
        else if is_latched state
        then (leg_update position (\<lambda>g. g\<lparr>lg_clear_generations := 0\<rparr>) s, Ok Noop)
        else (s, Ok Noop))"

definition observe_flat ::
  "'d decimal_api \<Rightarrow> 'd exposure_guard_state \<Rightarrow> grid_position \<Rightarrow> u64
   \<Rightarrow> 'd exposure_guard_state \<times> (unit, exposure_guard_error) outcome" where
  "observe_flat D s position private_generation =
     (case validate_checkpoint D s of
        Err e \<Rightarrow> (s, Err e)
      | Panic \<Rightarrow> (s, Panic)
      | Ok _ \<Rightarrow>
        if private_generation = 0
          \<or> private_generation \<le> lg_last_evaluated_generation (leg position s)
        then (s, Ok ())
        else (leg_update position
                (\<lambda>guard.
                   let guard = guard\<lparr>lg_last_evaluated_generation := private_generation\<rparr> in
                   if is_latched (lg_state guard)
                   then count_clear (xp_rearm_clear_generations (xg_params s)) guard
                   else guard) s, Ok ()))"

definition transition ::
  "'d exposure_guard_state \<Rightarrow> grid_position \<Rightarrow> string \<Rightarrow> (exposure_episode_state \<Rightarrow> bool)
   \<Rightarrow> exposure_episode_state
   \<Rightarrow> 'd exposure_guard_state \<times> (unit, exposure_guard_error) outcome" where
  "transition s position risk_episode_id accepts next =
     (let current = lg_state (leg position s) in
      if episode_id current \<noteq> Some risk_episode_id \<or> \<not> accepts current
      then (s, Err EG_Episode)
      else (leg_update position (\<lambda>g. g\<lparr>lg_state := next\<rparr>) s, Ok ()))"

definition mark_reducing ::
  "'d exposure_guard_state \<Rightarrow> grid_position \<Rightarrow> string
   \<Rightarrow> 'd exposure_guard_state \<times> (unit, exposure_guard_error) outcome" where
  "mark_reducing s position risk_episode_id =
     transition s position risk_episode_id
       (\<lambda>state. case state of TriggerPersisted _ \<Rightarrow> True | _ \<Rightarrow> False) (Reducing risk_episode_id)"

definition mark_shadow_latched ::
  "'d exposure_guard_state \<Rightarrow> grid_position \<Rightarrow> string
   \<Rightarrow> 'd exposure_guard_state \<times> (unit, exposure_guard_error) outcome" where
  "mark_shadow_latched s position risk_episode_id =
     transition s position risk_episode_id
       (\<lambda>state. case state of TriggerPersisted _ \<Rightarrow> True | _ \<Rightarrow> False)
       (ShadowLatched risk_episode_id)"

definition recover_unprepared_trigger ::
  "'d exposure_guard_state \<Rightarrow> grid_position \<Rightarrow> string
   \<Rightarrow> 'd exposure_guard_state \<times> (unit, exposure_guard_error) outcome" where
  "recover_unprepared_trigger s position risk_episode_id =
     transition s position risk_episode_id
       (\<lambda>state. case state of Reducing _ \<Rightarrow> True | _ \<Rightarrow> False) (TriggerPersisted risk_episode_id)"

definition mark_reconciling ::
  "'d exposure_guard_state \<Rightarrow> grid_position \<Rightarrow> string
   \<Rightarrow> 'd exposure_guard_state \<times> (unit, exposure_guard_error) outcome" where
  "mark_reconciling s position risk_episode_id =
     transition s position risk_episode_id
       (\<lambda>state. case state of Reducing _ \<Rightarrow> True | _ \<Rightarrow> False) (Reconciling risk_episode_id)"

definition mark_latched ::
  "'d exposure_guard_state \<Rightarrow> grid_position \<Rightarrow> string \<Rightarrow> u64
   \<Rightarrow> 'd exposure_guard_state \<times> (unit, exposure_guard_error) outcome" where
  "mark_latched s position risk_episode_id settled_generation =
     (if settled_generation = 0 then (s, Err EG_Episode)
      else
      let current = lg_state (leg position s) in
      if episode_id current \<noteq> Some risk_episode_id
        \<or> \<not> (case current of TriggerPersisted _ \<Rightarrow> True | Reconciling _ \<Rightarrow> True | _ \<Rightarrow> False)
      then (s, Err EG_Episode)
      else (leg_update position
              (\<lambda>guard. guard\<lparr>lg_state := Latched risk_episode_id, lg_clear_generations := 0,
                 lg_last_evaluated_generation :=
                   max (lg_last_evaluated_generation guard) settled_generation\<rparr>) s, Ok ()))"

definition release_shadow_leg :: "exposure_leg_guard \<Rightarrow> exposure_leg_guard \<times> bool" where
  "release_shadow_leg guard =
     (case lg_state guard of
        ShadowLatched _ \<Rightarrow> (guard\<lparr>lg_state := Armed, lg_clear_generations := 0\<rparr>, True)
      | _ \<Rightarrow> (guard, False))"

definition release_shadow_latches :: "'d exposure_guard_state \<Rightarrow> 'd exposure_guard_state \<times> bool" where
  "release_shadow_latches s =
     (let (long, changed_long) = release_shadow_leg (xg_long s);
          (short, changed_short) = release_shadow_leg (xg_short s) in
      (s\<lparr>xg_long := long, xg_short := short\<rparr>, changed_long \<or> changed_short))"

section \<open>The guard as a machine over its operations\<close>

datatype 'd guard_event =
  Evaluate "'d account_risk_snapshot" "'d leg_risk_snapshot" u64
| ObserveFlat grid_position u64
| Migrate "'d exposure_guard_params"
| MarkReducing grid_position string
| MarkShadowLatched grid_position string
| RecoverUnprepared grid_position string
| MarkReconciling grid_position string
| MarkLatched grid_position string u64
| ReleaseShadow

definition forget :: "'s \<times> ('a, 'e) outcome \<Rightarrow> 's \<times> (unit, 'e) outcome" where
  "forget r = (fst r, and_then (snd r) (\<lambda>_. Ok ()))"

primrec guard_step ::
  "'d decimal_api \<Rightarrow> 'd exposure_guard_state \<Rightarrow> 'd guard_event
   \<Rightarrow> 'd exposure_guard_state \<times> (unit, exposure_guard_error) outcome" where
  "guard_step D s (Evaluate a l now) = forget (evaluate D s a l now)"
| "guard_step D s (ObserveFlat p g) = observe_flat D s p g"
| "guard_step D s (Migrate params) = migrate_release_params D s params"
| "guard_step D s (MarkReducing p i) = mark_reducing s p i"
| "guard_step D s (MarkShadowLatched p i) = mark_shadow_latched s p i"
| "guard_step D s (RecoverUnprepared p i) = recover_unprepared_trigger s p i"
| "guard_step D s (MarkReconciling p i) = mark_reconciling s p i"
| "guard_step D s (MarkLatched p i g) = mark_latched s p i g"
| "guard_step D s ReleaseShadow = (fst (release_shadow_latches s), Ok ())"

lemma fst_forget [simp]: "fst (forget r) = fst r"
  by (simp add: forget_def)

lemma episode_simps [simp]:
  "\<not> is_active Armed" "is_active (TriggerPersisted i)" "is_active (Reducing i)"
  "is_active (Reconciling i)" "\<not> is_active (Latched i)" "\<not> is_active (ShadowLatched i)"
  "\<not> is_latched Armed" "\<not> is_latched (TriggerPersisted i)" "\<not> is_latched (Reducing i)"
  "\<not> is_latched (Reconciling i)" "is_latched (Latched i)" "is_latched (ShadowLatched i)"
  "episode_id Armed = None" "episode_id (TriggerPersisted i) = Some i"
  "episode_id (Reducing i) = Some i" "episode_id (Reconciling i) = Some i"
  "episode_id (Latched i) = Some i" "episode_id (ShadowLatched i) = Some i"
  by (simp_all add: is_active_def is_latched_def episode_id_def)

lemma active_not_latched: "is_active e \<Longrightarrow> \<not> is_latched e"
  by (cases e) auto

section \<open>The checkpoint invariant\<close>

lemma other_other [simp]: "other (other p) = p"
  by (cases p; simp add: other_def)

lemma other_neq [simp]: "other p \<noteq> p" "p \<noteq> other p"
  by (cases p; simp add: other_def)+

lemma leg_leg_update [simp]:
  "leg p (leg_update q f s) = (if p = q then f (leg p s) else leg p s)"
  by (cases p; cases q; simp add: leg_def leg_update_def)

lemma leg_update_fields [simp]:
  "xg_schema_version (leg_update p f s) = xg_schema_version s"
  "xg_binding (leg_update p f s) = xg_binding s"
  "xg_params (leg_update p f s) = xg_params s"
  "xg_next_episode_sequence (leg_update p f s) = xg_next_episode_sequence s"
  by (cases p; simp add: leg_update_def)+

lemma leg_next_update [simp]: "leg p (s\<lparr>xg_next_episode_sequence := n\<rparr>) = leg p s"
  by (cases p; simp add: leg_def)

lemma leg_params_update [simp]:
  "leg p (s\<lparr>xg_params := q, xg_long := a, xg_short := b\<rparr>) = (if p = GLong then a else b)"
  "leg p (s\<lparr>xg_long := a, xg_short := b\<rparr>) = (if p = GLong then a else b)"
  by (cases p; simp add: leg_def)+

lemma parse_format_episode: "parse_episode p (format_episode p q) = Some q"
proof -
  have "hex_parse 0 (hex_digits 16 (unat q)) = Some (unat q)"
    using hex_parse_hex_digits [of "unat q" 16 0] unat_bound [of q] by simp
  moreover have "list_all (\<lambda>c. is_ascii_digit c \<or> 97 \<le> code c \<and> code c \<le> 102)
      (hex_digits 16 (unat q))"
    using hex_digits_lower by (auto simp: list_all_iff)
  moreover have "length (lane_prefix p) = 6" by (cases p; simp add: lane_prefix_def)
  ultimately show ?thesis
    by (simp add: parse_episode_def format_episode_def Let_def)
qed

lemma format_episode_inj: "format_episode p q = format_episode p r \<longleftrightarrow> q = r"
  using parse_format_episode by (metis option.inject)

text \<open>What a valid leg checkpoint amounts to.\<close>

definition leg_ok :: "u64 \<Rightarrow> u8 \<Rightarrow> grid_position \<Rightarrow> exposure_leg_guard \<Rightarrow> bool" where
  "leg_ok n rearm p g \<longleftrightarrow>
     (if is_latched (lg_state g) then lg_clear_generations g < rearm
      else lg_clear_generations g = 0)
     \<and> (\<forall>i. episode_id (lg_state g) = Some i \<longrightarrow>
          lg_last_evaluated_generation g \<noteq> 0
          \<and> (\<exists>q. q \<noteq> 0 \<and> q \<le> n \<and> i = format_episode p q))"

lemma checked_episode_Ok:
  "and_then (ok_or EG_Checkpoint (parse_episode p i))
     (\<lambda>q. if q = 0 \<or> n < q \<or> i \<noteq> format_episode p q then Err EG_Checkpoint else Ok ()) = Ok ()
   \<longleftrightarrow> (\<exists>q. q \<noteq> 0 \<and> q \<le> n \<and> i = format_episode p q)"
  by (auto simp: outcome_simps parse_format_episode not_less split: if_splits)

lemma validate_leg_checkpoint_Ok:
  "validate_leg_checkpoint s p g = Ok () \<longleftrightarrow>
     leg_ok (xg_next_episode_sequence s) (xp_rearm_clear_generations (xg_params s)) p g"
  by (simp add: validate_leg_checkpoint_def leg_ok_def Let_def checked_episode_Ok
      split: option.split)

text \<open>The checkpoint of a guard, with the two legs named by position.\<close>

definition guard_ok :: "'d decimal_api \<Rightarrow> 'd exposure_guard_state \<Rightarrow> bool" where
  "guard_ok D s \<longleftrightarrow>
     xg_schema_version s = EXPOSURE_GUARD_SCHEMA_VERSION
     \<and> binding_validate (xg_binding s) = Ok ()
     \<and> guard_params_validate D (xg_params s) = Ok ()
     \<and> (\<forall>p. is_active (lg_state (leg p s)) \<longrightarrow> \<not> is_active (lg_state (leg (other p) s)))
     \<and> (\<forall>p. leg_ok (xg_next_episode_sequence s) 2 p (leg p s))"

lemma guard_params_rearm:
  "guard_params_validate D p = Ok () \<Longrightarrow> xp_rearm_clear_generations p = 2"
  by (simp add: guard_params_validate_def Let_def split: if_splits)

lemma validate_checkpoint_Ok: "validate_checkpoint D s = Ok () \<longleftrightarrow> guard_ok D s"
proof -
  have "leg (other GLong) s = xg_short s" "leg (other GShort) s = xg_long s"
    "leg GLong s = xg_long s" "leg GShort s = xg_short s"
    by (simp_all add: leg_def other_def)
  then show ?thesis
    by (auto simp: validate_checkpoint_def guard_ok_def all_positions outcome_simps
        validate_leg_checkpoint_Ok dest: guard_params_rearm)
qed

lemma guard_checked: "guard_ok D s \<Longrightarrow> validate_checkpoint D s = Ok ()"
  by (simp add: validate_checkpoint_Ok)

lemma guard_new_ok: "guard_new D b params = Ok s \<Longrightarrow> guard_ok D s"
  by (auto simp: guard_new_def guard_ok_def outcome_simps all_positions leg_def leg_ok_def
      leg_guard_default_def is_active_def is_latched_def episode_id_def)

section \<open>Every operation keeps the invariant\<close>

lemma guard_ok_update:
  assumes "guard_ok D s"
    and "leg_ok (xg_next_episode_sequence s) 2 p (f (leg p s))"
    and "is_active (lg_state (f (leg p s))) \<Longrightarrow>
      is_active (lg_state (leg p s)) \<or> \<not> is_active (lg_state (leg (other p) s))"
  shows "guard_ok D (leg_update p f s)"
  using assms unfolding guard_ok_def
  by (auto split: if_splits)

lemma leg_ok_mono: "leg_ok n r p g \<Longrightarrow> n \<le> m \<Longrightarrow> leg_ok m r p g"
  unfolding leg_ok_def by (meson order.trans)

lemma guard_ok_next:
  assumes "guard_ok D s" and "xg_next_episode_sequence s \<le> n"
  shows "guard_ok D (s\<lparr>xg_next_episode_sequence := n\<rparr>)"
  using assms unfolding guard_ok_def by (auto intro: leg_ok_mono)

lemma count_clear_ok:
  assumes "leg_ok n 2 p g" and "is_latched (lg_state g)"
  shows "leg_ok n 2 p (count_clear 2 g)" and "\<not> is_active (lg_state (count_clear 2 g))"
proof -
  have "lg_clear_generations g < 2" using assms by (simp add: leg_ok_def)
  then have "lg_clear_generations g = 0 \<or> lg_clear_generations g = 1"
    by (auto simp: word_less_nat_alt word_unat_eq_iff dest: less_2_cases)
  then show "leg_ok n 2 p (count_clear 2 g)" using assms
    by (auto simp: leg_ok_def count_clear_def saturating_add_def Let_def)
  show "\<not> is_active (lg_state (count_clear 2 g))"
    using assms(2) active_not_latched by (auto simp: count_clear_def Let_def)
qed

lemma leg_ok_generation:
  "leg_ok n r p g \<Longrightarrow> x \<noteq> 0 \<Longrightarrow> leg_ok n r p (g\<lparr>lg_last_evaluated_generation := x\<rparr>)"
  by (auto simp: leg_ok_def)

lemma guard_ok_leg: "guard_ok D s \<Longrightarrow> leg_ok (xg_next_episode_sequence s) 2 p (leg p s)"
  by (simp add: guard_ok_def)

lemma transition_ok:
  assumes ok: "guard_ok D s"
    and id: "episode_id next = Some i"
    and active: "\<And>c. accepts c \<Longrightarrow> is_active c"
  shows "guard_ok D (fst (transition s p i accepts next))"
proof (cases "episode_id (lg_state (leg p s)) = Some i \<and> accepts (lg_state (leg p s))")
  case False
  then show ?thesis using ok by (auto simp: transition_def Let_def)
next
  case True
  then have act: "is_active (lg_state (leg p s))" using active by blast
  then have "\<not> is_latched (lg_state (leg p s))" by (rule active_not_latched)
  then have "leg_ok (xg_next_episode_sequence s) 2 p (leg p s\<lparr>lg_state := next\<rparr>)"
    using guard_ok_leg [OF ok, of p] True id by (auto simp: leg_ok_def)
  then show ?thesis using ok act True
    by (auto simp: transition_def Let_def intro: guard_ok_update)
qed

lemma migrate_ok: "guard_ok D s \<Longrightarrow> guard_ok D (fst (migrate_release_params D s params))"
  by (auto simp: migrate_release_params_def outcome_simps validate_checkpoint_Ok guard_ok_def
      leg_ok_def leg_guard_default_def split: outcome.split)

lemma guard_ok_rearm: "guard_ok D s \<Longrightarrow> xp_rearm_clear_generations (xg_params s) = 2"
  using guard_params_rearm by (auto simp: guard_ok_def)

lemma observe_flat_ok:
  assumes "guard_ok D s"
  shows "guard_ok D (fst (observe_flat D s p g))"
proof (cases "g = 0 \<or> g \<le> lg_last_evaluated_generation (leg p s)")
  case True
  then show ?thesis using assms by (simp add: observe_flat_def guard_checked)
next
  case False
  define guard where "guard = leg p s\<lparr>lg_last_evaluated_generation := g\<rparr>"
  have "leg_ok (xg_next_episode_sequence s) 2 p guard"
    using guard_ok_leg [OF assms, of p] False by (simp add: leg_ok_generation guard_def)
  then have "leg_ok (xg_next_episode_sequence s) 2 p
      (if is_latched (lg_state guard) then count_clear 2 guard else guard)"
    "is_latched (lg_state guard) \<Longrightarrow> \<not> is_active (lg_state (count_clear 2 guard))"
    by (simp_all add: count_clear_ok)
  then have "guard_ok D (leg_update p (\<lambda>guard.
      let guard = guard\<lparr>lg_last_evaluated_generation := g\<rparr> in
      if is_latched (lg_state guard) then count_clear 2 guard else guard) s)"
    by (intro guard_ok_update [OF assms])
      (auto simp: Let_def guard_def split: if_splits)
  then show ?thesis using False
    unfolding observe_flat_def guard_ok_rearm [OF assms] by (simp add: guard_checked [OF assms])
qed

text \<open>The state after the generation of an accepted evaluation has been recorded.\<close>

definition evaluated ::
  "grid_position \<Rightarrow> u64 \<Rightarrow> 'd exposure_guard_state \<Rightarrow> 'd exposure_guard_state" where
  "evaluated position generation s =
     leg_update position (\<lambda>g. g\<lparr>lg_last_evaluated_generation := generation\<rparr>) s"

lemma evaluated_ok:
  assumes "guard_ok D s" and "lg_last_evaluated_generation (leg p s) < g"
  shows "guard_ok D (evaluated p g s)"
proof -
  have "g \<noteq> 0" using assms(2) by auto
  then show ?thesis unfolding evaluated_def
    by (intro guard_ok_update [OF assms(1)] leg_ok_generation guard_ok_leg [OF assms(1)]) auto
qed

text \<open>The ways an evaluation can end, in the order of the code.\<close>

lemma evaluate_cases:
  assumes "evaluate D s a l now = (s', r)"
  obtains
    (refused) "s' = s" "\<not> is_ok r" "\<not> is_ok (evaluate_guards D s a l now)"
  | (old) p b where "evaluate_guards D s a l now = Ok (p, b)" "s' = s" "r = Ok Noop"
      "ar_private_generation a \<le> lg_last_evaluated_generation (leg p s)"
  | (exhausted) p where "evaluate_guards D s a l now = Ok (p, True)"
      "lg_last_evaluated_generation (leg p s) < ar_private_generation a"
      "checked_add (xg_next_episode_sequence s) 1 = None"
      "s' = evaluated p (ar_private_generation a) s" "r = Err EG_Episode"
      "lg_state (leg p s) = Armed"
  | (trigger) p n d where "evaluate_guards D s a l now = Ok (p, True)"
      "lg_last_evaluated_generation (leg p s) < ar_private_generation a"
      "lg_state (leg p s) = Armed" "\<not> is_active (lg_state (leg (other p) s))"
      "xp_enabled (xg_params s)"
      "checked_add (xg_next_episode_sequence s) 1 = Some n"
      "s' = leg_update p (\<lambda>g. g\<lparr>lg_state := TriggerPersisted (format_episode p n)\<rparr>)
         ((evaluated p (ar_private_generation a) s)\<lparr>xg_next_episode_sequence := n\<rparr>)"
      "r = Ok (ReduceProfitableExposure d)" "re_risk_episode_id d = format_episode p n"
      "re_position d = p" "re_trigger_generation d = ar_private_generation a"
      "re_position_quantity d = lr_quantity l" "re_reduce_ratio d = xp_reduce_ratio (xg_params s)"
  | (clear) p where "evaluate_guards D s a l now = Ok (p, False)"
      "lg_last_evaluated_generation (leg p s) < ar_private_generation a"
      "is_latched (lg_state (leg p s))" "r = Ok Noop"
      "s' = leg_update p (count_clear (xp_rearm_clear_generations (xg_params s)))
         (evaluated p (ar_private_generation a) s)"
  | (held) p where "evaluate_guards D s a l now = Ok (p, True)"
      "lg_last_evaluated_generation (leg p s) < ar_private_generation a"
      "is_latched (lg_state (leg p s))" "r = Ok Noop"
      "s' = leg_update p (\<lambda>g. g\<lparr>lg_clear_generations := 0\<rparr>)
         (evaluated p (ar_private_generation a) s)"
  | (quiet) p b where "evaluate_guards D s a l now = Ok (p, b)"
      "lg_last_evaluated_generation (leg p s) < ar_private_generation a"
      "\<not> is_latched (lg_state (leg p s))" "r = Ok Noop"
      "s' = evaluated p (ar_private_generation a) s"
proof (cases "evaluate_guards D s a l now")
  case (Err e)
  then show thesis using assms by (intro refused) (auto simp: evaluate_def)
next
  case Panic
  then show thesis using assms by (intro refused) (auto simp: evaluate_def)
next
  case (Ok pb)
  obtain p b where pb: "pb = (p, b)" by fastforce
  note e = assms [unfolded evaluate_def Ok pb Let_def evaluated_def [symmetric], simplified]
  show thesis
  proof (cases "ar_private_generation a \<le> lg_last_evaluated_generation (leg p s)")
    case True
    then show thesis using e Ok pb by (intro old) auto
  next
    case False
    then have newer: "lg_last_evaluated_generation (leg p s) < ar_private_generation a" by simp
    have st: "lg_state (leg p (evaluated p (ar_private_generation a) s)) = lg_state (leg p s)"
      by (simp add: evaluated_def)
    consider (t) "lg_state (leg p s) = Armed" "b" "\<not> is_active (lg_state (leg (other p) s))"
        "xp_enabled (xg_params s)"
      | (c) "is_latched (lg_state (leg p s))" "\<not> b"
      | (h) "is_latched (lg_state (leg p s))" "b"
      | (q) "\<not> is_latched (lg_state (leg p s))"
          "\<not> (lg_state (leg p s) = Armed \<and> b \<and> \<not> is_active (lg_state (leg (other p) s))
              \<and> xp_enabled (xg_params s))"
      by (cases "is_latched (lg_state (leg p s))") auto
    then show thesis
    proof cases
      case t
      show thesis
      proof (cases "checked_add (xg_next_episode_sequence s) 1")
        case None
        then show thesis using e t False newer Ok pb
          by (intro exhausted [of p]) (auto simp: evaluated_def)
      next
        case (Some n)
        then show thesis using e t False newer Ok pb
          by (intro trigger [of p n]) (auto simp: evaluated_def)
      qed
    next
      case c
      then have "lg_state (leg p s) \<noteq> Armed" by auto
      then show thesis using c e False newer Ok pb by (intro clear [of p]) (auto simp: st)
    next
      case h
      then have "lg_state (leg p s) \<noteq> Armed" by auto
      then show thesis using h e False newer Ok pb by (intro held [of p]) (auto simp: st)
    next
      case q
      then show thesis using e False newer Ok pb by (intro quiet [of p b]) (auto simp: st)
    qed
  qed
qed

lemma evaluated_simps [simp]:
  "leg p (evaluated p g s) = (leg p s)\<lparr>lg_last_evaluated_generation := g\<rparr>"
  "leg (other p) (evaluated p g s) = leg (other p) s"
  "xg_next_episode_sequence (evaluated p g s) = xg_next_episode_sequence s"
  "xg_params (evaluated p g s) = xg_params s"
  "xg_binding (evaluated p g s) = xg_binding s"
  by (simp_all add: evaluated_def)

lemma checked_add_one_pos: "checked_add a 1 = Some n \<Longrightarrow> n \<noteq> 0 \<and> a \<le> n" for a :: u64
  by (auto dest!: checked_add_Some simp: word_le_nat_alt)

lemma evaluate_ok:
  assumes ok: "guard_ok D s" and ev: "evaluate D s a l now = (s', r)"
  shows "guard_ok D s'"
  using ev
proof (cases rule: evaluate_cases)
  case refused
  then show ?thesis using ok by simp
next
  case (old p b)
  then show ?thesis using ok by simp
next
  case (exhausted p)
  then show ?thesis using ok by (simp add: evaluated_ok)
next
  case (trigger p n d)
  define t where "t = (evaluated p (ar_private_generation a) s)\<lparr>xg_next_episode_sequence := n\<rparr>"
  have n: "n \<noteq> 0" "xg_next_episode_sequence s \<le> n"
    using checked_add_one_pos [OF trigger(6)] by auto
  have "guard_ok D t" unfolding t_def
    using evaluated_ok [OF ok trigger(2)] n(2) by (simp add: guard_ok_next)
  moreover have "leg_ok n 2 p ((leg p t)\<lparr>lg_state := TriggerPersisted (format_episode p n)\<rparr>)"
    using guard_ok_leg [OF ok, of p] trigger(2,3) n(1) by (auto simp: leg_ok_def t_def)
  ultimately show ?thesis
    using trigger(4) unfolding trigger(7) t_def [symmetric]
    by (intro guard_ok_update) (auto simp: t_def)
next
  case (clear p)
  have e: "guard_ok D (evaluated p (ar_private_generation a) s)"
    using ok clear(2) by (rule evaluated_ok)
  show ?thesis
    using clear(3) count_clear_ok [OF guard_ok_leg [OF e, of p]]
    unfolding clear(5) guard_ok_rearm [OF ok] by (intro guard_ok_update [OF e]) auto
next
  case (held p)
  have e: "guard_ok D (evaluated p (ar_private_generation a) s)"
    using ok held(2) by (rule evaluated_ok)
  show ?thesis
    using held(3) guard_ok_leg [OF e, of p] active_not_latched [of "lg_state (leg p s)"]
    unfolding held(5) by (intro guard_ok_update [OF e]) (auto simp: leg_ok_def)
next
  case (quiet p b)
  then show ?thesis using ok by (simp add: evaluated_ok)
qed

lemma mark_latched_ok:
  assumes "guard_ok D s"
  shows "guard_ok D (fst (mark_latched s p i g))"
proof (cases "snd (mark_latched s p i g) = Ok ()")
  case False
  then show ?thesis using assms by (auto simp: mark_latched_def Let_def split: if_splits)
next
  case True
  then have *: "g \<noteq> 0" "episode_id (lg_state (leg p s)) = Some i"
    by (auto simp: mark_latched_def Let_def split: if_splits)
  have "leg_ok (xg_next_episode_sequence s) 2 p
      (leg p s\<lparr>lg_state := Latched i, lg_clear_generations := 0,
        lg_last_evaluated_generation := max (lg_last_evaluated_generation (leg p s)) g\<rparr>)"
    using guard_ok_leg [OF assms, of p] * by (auto simp: leg_ok_def max_def)
  then show ?thesis using True
    by (auto simp: mark_latched_def Let_def split: if_splits intro!: guard_ok_update [OF assms])
qed

lemma release_shadow_leg_ok:
  "leg_ok n 2 p g \<Longrightarrow> leg_ok n 2 p (fst (release_shadow_leg g))"
  "is_active (lg_state (fst (release_shadow_leg g))) \<longleftrightarrow> is_active (lg_state g)"
  by (auto simp: release_shadow_leg_def leg_ok_def split: exposure_episode_state.split)

lemma release_shadow_latches_leg:
  "leg p (fst (release_shadow_latches s)) = fst (release_shadow_leg (leg p s))"
  "xg_schema_version (fst (release_shadow_latches s)) = xg_schema_version s"
  "xg_binding (fst (release_shadow_latches s)) = xg_binding s"
  "xg_params (fst (release_shadow_latches s)) = xg_params s"
  "xg_next_episode_sequence (fst (release_shadow_latches s)) = xg_next_episode_sequence s"
  by (cases p; simp add: release_shadow_latches_def leg_def split_beta)
    (simp_all add: release_shadow_latches_def split_beta)

lemma release_shadow_latches_ok: "guard_ok D s \<Longrightarrow> guard_ok D (fst (release_shadow_latches s))"
  by (simp add: guard_ok_def release_shadow_latches_leg release_shadow_leg_ok)

lemma transition_states:
  "\<lbrakk>case c of TriggerPersisted _ \<Rightarrow> True | _ \<Rightarrow> False\<rbrakk> \<Longrightarrow> is_active c"
  "\<lbrakk>case c of Reducing _ \<Rightarrow> True | _ \<Rightarrow> False\<rbrakk> \<Longrightarrow> is_active c"
  by (cases c; simp)+

lemma guard_step_ok: "guard_ok D s \<Longrightarrow> guard_ok D (fst (guard_step D s ev))"
  by (cases ev)
    (auto simp: mark_reducing_def mark_shadow_latched_def recover_unprepared_trigger_def
      mark_reconciling_def
      intro: observe_flat_ok migrate_ok mark_latched_ok release_shadow_latches_ok
        evaluate_ok [OF _ surjective_pairing] transition_ok transition_states)

text \<open>What no operation undoes: the binding is fixed and episode numbers are never reused.\<close>

definition guard_below :: "'d exposure_guard_state \<Rightarrow> 'd exposure_guard_state \<Rightarrow> bool" where
  "guard_below s t \<longleftrightarrow>
     xg_binding s = xg_binding t \<and> xg_next_episode_sequence s \<le> xg_next_episode_sequence t"

lemma guard_step_below: "guard_below s (fst (guard_step D s ev))"
proof (cases ev)
  case (Evaluate a l now)
  obtain s' r where ev: "evaluate D s a l now = (s', r)" by fastforce
  from ev have "guard_below s s'"
    by (cases rule: evaluate_cases) (auto simp: guard_below_def dest: checked_add_one_pos)
  then show ?thesis by (simp add: Evaluate ev)
qed (auto simp: guard_below_def observe_flat_def migrate_release_params_def mark_latched_def
    mark_reducing_def mark_shadow_latched_def recover_unprepared_trigger_def
    mark_reconciling_def transition_def release_shadow_latches_leg Let_def split: outcome.split)

interpretation guard: mutating_machine "guard_step D" "guard_ok D" guard_below
proof unfold_locales
  fix s :: "'a exposure_guard_state" and t u e
  show "guard_ok D s \<Longrightarrow> guard_ok D (fst (guard_step D s e))" by (rule guard_step_ok)
  show "guard_below s (fst (guard_step D s e))" by (rule guard_step_below)
  show "guard_below s s" by (simp add: guard_below_def)
  show "guard_below s t \<Longrightarrow> guard_below t u \<Longrightarrow> guard_below s u"
    by (auto simp: guard_below_def)
qed

end
