(* ===== verification/Guard_Properties.thy ===== *)
theory Guard_Properties
  imports Exposure_Guard
begin

text \<open>
  The properties of the exposure guard: what survives any sequence of its operations, when an
  evaluation triggers a reduction, and how a latched leg is rearmed.
\<close>

section \<open>A concrete guard, for the witnesses\<close>

definition guard_sample_binding :: hedged_grid_binding where
  "guard_sample_binding =
     \<lparr>gb_strategy_instance_id = ''grid-1'', gb_run_id = ''run-1'', gb_exchange = ''bybit'',
      gb_account = ''main'', gb_symbol = \<lparr>sym_base = ''BTC'', sym_quote = ''USDC''\<rparr>,
      gb_config_version = ''v1'', gb_owner_scope = ''grid''\<rparr>"

definition guard_sample :: "rat exposure_guard_state" where
  "guard_sample =
     \<lparr>xg_schema_version = 1, xg_binding = guard_sample_binding,
      xg_params = guard_params_fixed_release rat_api, xg_long = leg_guard_default,
      xg_short = leg_guard_default, xg_next_episode_sequence = 0\<rparr>"

text \<open>Equity 100; a long leg of 4 at 100 with an unrealized profit of 20.\<close>

definition guard_sample_account :: "rat account_risk_snapshot" where
  "guard_sample_account =
     \<lparr>ar_exchange = ''bybit'', ar_account = ''main'', ar_risk_currency = Asset ''USDC'',
      ar_account_equity = 100, ar_private_generation = 7, ar_observed_at_ms = 1000,
      ar_source_status = Complete\<rparr>"

definition guard_sample_leg :: "rat leg_risk_snapshot" where
  "guard_sample_leg =
     \<lparr>lr_symbol = \<lparr>sym_base = ''BTC'', sym_quote = ''USDC''\<rparr>, lr_position_side = LongSide,
      lr_quantity = 4, lr_mark_price = Price 100, lr_contract_multiplier = 1, lr_notional = 400,
      lr_unrealized_pnl = 20, lr_risk_currency = Asset ''USDC'', lr_private_generation = 7,
      lr_observed_at_ms = 1000\<rparr>"


lemma guard_sample_new:
  "guard_new rat_api guard_sample_binding (guard_params_fixed_release rat_api) = Ok guard_sample"
  by code_simp

lemma guard_sample_guards:
  "evaluate_guards rat_api guard_sample guard_sample_account guard_sample_leg 1500 = Ok (GLong, True)"
  by code_simp

definition guard_sample_reduce :: "rat reduce_profitable_exposure" where
  "guard_sample_reduce =
     \<lparr>re_risk_episode_id = format_episode GLong 1, re_position = GLong, re_trigger_generation = 7,
      re_position_quantity = 4, re_position_notional = 400, re_account_equity = 100,
      re_unrealized_pnl = 20, re_reduce_ratio = 3 / 10, re_risk_currency = Asset ''USDC''\<rparr>"

lemma guard_sample_triggers:
  "snd (evaluate rat_api guard_sample guard_sample_account guard_sample_leg 1500)
     = Ok (ReduceProfitableExposure guard_sample_reduce)"
  unfolding evaluate_def guard_sample_guards
  by (simp add: guard_sample_def leg_def other_def leg_guard_default_def Let_def
      guard_params_fixed_release_def guard_sample_account_def guard_sample_leg_def
      leg_update_def checked_add_def guard_sample_reduce_def)


lemma guard_sample_evaluated:
  "evaluate rat_api guard_sample guard_sample_account guard_sample_leg 1500
     = (fst (evaluate rat_api guard_sample guard_sample_account guard_sample_leg 1500),
        Ok (ReduceProfitableExposure guard_sample_reduce))"
  using guard_sample_triggers by (metis prod.collapse)

lemma evaluate_guards_position:
  "evaluate_guards D s a l now = Ok (p, b) \<Longrightarrow>
   leg_position (lr_position_side l) = (Ok p :: (grid_position, exposure_guard_error) outcome)"
  by (auto simp: evaluate_guards_def outcome_simps split: if_splits)

section \<open>Properties\<close>

text \<open>
  C14: From a fresh guard, no sequence of operations, failing ones included, leaves a state its
  own checkpoint validation would refuse: the two legs are never both in an active episode, the
  binding is the original one, and episode numbers never decrease.
\<close>

theorem guard_checkpoint_invariant:
  assumes "guard_new D b params = Ok s"
  shows "let t = run_in_place (guard_step D) s events in
    validate_checkpoint D t = Ok ()
    \<and> \<not> (is_active (lg_state (leg GLong t)) \<and> is_active (lg_state (leg GShort t)))
    \<and> xg_binding t = b \<and> xg_next_episode_sequence s \<le> xg_next_episode_sequence t"
proof -
  have ok: "guard_ok D s" using assms by (rule guard_new_ok)
  define t where "t = run_in_place (guard_step D) s events"
  have "guard_ok D t" unfolding t_def using ok by (rule guard.run_in_place_inv)
  moreover have "guard_below s t" unfolding t_def using ok by (rule guard.run_in_place_below)
  moreover have "xg_binding s = b" using assms by (auto simp: guard_new_def outcome_simps)
  moreover have "\<not> (is_active (lg_state (leg GLong t)) \<and> is_active (lg_state (leg GShort t)))"
    using \<open>guard_ok D t\<close> by (auto simp: guard_ok_def other_def all_positions)
  ultimately show ?thesis
    unfolding t_def [symmetric] by (simp add: validate_checkpoint_Ok guard_below_def)
qed

theorem guard_checkpoint_invariant_witness:
  "validate_checkpoint rat_api (run_in_place (guard_step rat_api) guard_sample
     [Evaluate guard_sample_account guard_sample_leg 1500,
      MarkReducing GLong (format_episode GLong 1), ObserveFlat GShort 8]) = Ok ()"
  using guard_checkpoint_invariant [OF guard_sample_new] unfolding Let_def by blast

text \<open>
  C7: A reduction is only ever triggered for an armed leg, by complete and fresh evidence of
  the guard's own account and symbol, newer than any evaluated before, that shows a leg at or
  above the equity multiple with a profit above the profit ratio, while the other leg is idle
  and the guard is enabled.  The episode it opens has an identifier neither leg carries.
\<close>

theorem guard_trigger_conditions:
  assumes "evaluate D s a l now = (s', Ok (ReduceProfitableExposure d))"
  shows "let p = re_position d in
    validate_risk_snapshot_pair D a l now (xp_max_snapshot_age_ms (xg_params s)) = Ok ()
    \<and> ar_account a = gb_account (xg_binding s) \<and> lr_symbol l = gb_symbol (xg_binding s)
    \<and> lr_position_side l = (case p of GLong \<Rightarrow> LongSide | GShort \<Rightarrow> ShortSide)
    \<and> (\<exists>exposure profit.
         dec_mul D (ar_account_equity a) (xp_position_equity_multiple (xg_params s)) = Some exposure
         \<and> dec_mul D (ar_account_equity a) (xp_unrealized_pnl_equity_ratio (xg_params s)) = Some profit
         \<and> dec_value D exposure \<le> dec_value D (lr_notional l)
         \<and> 0 < dec_value D (lr_unrealized_pnl l)
         \<and> dec_value D profit < dec_value D (lr_unrealized_pnl l))
    \<and> xp_enabled (xg_params s)
    \<and> lg_state (leg p s) = Armed \<and> \<not> is_active (lg_state (leg (other p) s))
    \<and> lg_last_evaluated_generation (leg p s) < re_trigger_generation d
    \<and> re_position_quantity d = lr_quantity l
    \<and> lg_state (leg p s') = TriggerPersisted (re_risk_episode_id d)
    \<and> (\<forall>q. episode_id (lg_state (leg q s)) \<noteq> Some (re_risk_episode_id d))"
  using assms
proof (cases rule: evaluate_cases)
  case (trigger p n d')
  have d: "d' = d" using trigger(8) by simp
  have ok: "guard_ok D s"
    using trigger(1) by (auto simp: evaluate_guards_def outcome_simps validate_checkpoint_Ok)
  have less: "xg_next_episode_sequence s < n"
    using trigger(6) by (auto dest!: checked_add_Some simp: word_less_nat_alt)
  have fresh: "episode_id (lg_state (leg q s)) \<noteq> Some (format_episode p n)" for q
  proof
    assume "episode_id (lg_state (leg q s)) = Some (format_episode p n)"
    then obtain m where m: "m \<le> xg_next_episode_sequence s" "format_episode p n = format_episode q m"
      using guard_ok_leg [OF ok, of q] by (auto simp: leg_ok_def)
    have "take 6 (format_episode p n) = take 6 (format_episode q m)" using m(2) by simp
    then have "p = q"
      by (cases p; cases q; simp add: format_episode_def lane_prefix_def)
    then show False using m less by (simp add: format_episode_inj)
  qed
  have e: "validate_risk_snapshot_pair D a l now (xp_max_snapshot_age_ms (xg_params s)) = Ok ()
    \<and> ar_account a = gb_account (xg_binding s) \<and> lr_symbol l = gb_symbol (xg_binding s)
    \<and> leg_position (lr_position_side l) = (Ok p :: (grid_position, exposure_guard_error) outcome)
    \<and> breaches D s a l = Ok True"
    using trigger(1) by (auto simp: evaluate_guards_def outcome_simps split: if_splits)
  have "lr_position_side l = (case p of GLong \<Rightarrow> LongSide | GShort \<Rightarrow> ShortSide)"
    using e by (cases "lr_position_side l") (auto simp: leg_position_def)
  then show ?thesis
    using e trigger fresh
    by (auto simp: Let_def d [symmetric] breaches_def outcome_simps dec_rel_defs)
qed auto

theorem guard_trigger_conditions_witness:
  "lg_state (leg GLong guard_sample) = Armed
   \<and> episode_id (lg_state (leg GShort guard_sample)) \<noteq> Some (format_episode GLong 1)"
  using guard_trigger_conditions [OF guard_sample_evaluated]
  by (simp add: Let_def guard_sample_reduce_def)

text \<open>
  Evaluating evidence of a generation already evaluated never triggers again: whatever the
  later evidence says, the decision is a no-op or an error and the state is untouched.
\<close>

theorem guard_evaluates_generation_once:
  assumes "evaluate D s a l now = (s', Ok decision)"
    and "lr_position_side l' = lr_position_side l"
    and "ar_private_generation a' \<le> ar_private_generation a"
  shows "fst (evaluate D s' a' l' now') = s'
    \<and> (snd (evaluate D s' a' l' now') = Ok Noop \<or> \<not> is_ok (snd (evaluate D s' a' l' now')))"
proof -
  obtain p b where g: "evaluate_guards D s a l now = Ok (p, b)"
    using assms(1) by (cases rule: evaluate_cases) auto
  have recorded: "ar_private_generation a' \<le> lg_last_evaluated_generation (leg p s')"
    using assms(1)
    by (cases rule: evaluate_cases)
      (use g assms(3) in \<open>auto simp: count_clear_def Let_def intro: order.trans\<close>)
  obtain t r where e: "evaluate D s' a' l' now' = (t, r)" by fastforce
  have same: "q = p" if "evaluate_guards D s' a' l' now' = Ok (q, c)" for q c
    using evaluate_guards_position [OF g] evaluate_guards_position [OF that] assms(2) by simp
  from e show ?thesis
    by (cases rule: evaluate_cases) (use recorded in \<open>auto simp: e dest: same\<close>)
qed

theorem guard_evaluates_generation_once_witness:
  "let s = fst (evaluate rat_api guard_sample guard_sample_account guard_sample_leg 1500) in
   fst (evaluate rat_api s guard_sample_account guard_sample_leg 1600) = s"
  using guard_evaluates_generation_once [OF guard_sample_evaluated refl order.refl]
  by (simp add: Let_def)



end
