(* ===== verification/Iteration.thy ===== *)
theory Iteration
  imports Prelude
begin

text \<open>
  The iterator adapters the planners use, on lists: loops and \<open>collect\<close> that stop at the
  first error, conditions over elements that may panic, and \<open>min_by_key\<close> and
  \<open>max_by_key\<close> with Rust's choice among equal keys (the first minimum, the last maximum).
\<close>

primrec try_map :: "('a \<Rightarrow> ('b, 'e) outcome) \<Rightarrow> 'a list \<Rightarrow> ('b list, 'e) outcome" where
  "try_map f [] = Ok []"
| "try_map f (x # xs) = and_then (f x) (\<lambda>y. and_then (try_map f xs) (\<lambda>ys. Ok (y # ys)))"

primrec try_fold :: "('s \<Rightarrow> 'a \<Rightarrow> ('s, 'e) outcome) \<Rightarrow> 's \<Rightarrow> 'a list \<Rightarrow> ('s, 'e) outcome" where
  "try_fold f s [] = Ok s"
| "try_fold f s (x # xs) = and_then (f s x) (\<lambda>s'. try_fold f s' xs)"

primrec least_from :: "('a \<Rightarrow> 'k::linorder) \<Rightarrow> 'a \<Rightarrow> 'a list \<Rightarrow> 'a" where
  "least_from f m [] = m"
| "least_from f m (y # ys) = least_from f (if f y < f m then y else m) ys"

primrec greatest_from :: "('a \<Rightarrow> 'k::linorder) \<Rightarrow> 'a \<Rightarrow> 'a list \<Rightarrow> 'a" where
  "greatest_from f m [] = m"
| "greatest_from f m (y # ys) = greatest_from f (if f y < f m then m else y) ys"

definition min_by_key :: "('a \<Rightarrow> 'k::linorder) \<Rightarrow> 'a list \<Rightarrow> 'a option" where
  "min_by_key f xs = (case xs of [] \<Rightarrow> None | x # ys \<Rightarrow> Some (least_from f x ys))"

definition max_by_key :: "('a \<Rightarrow> 'k::linorder) \<Rightarrow> 'a list \<Rightarrow> 'a option" where
  "max_by_key f xs = (case xs of [] \<Rightarrow> None | x # ys \<Rightarrow> Some (greatest_from f x ys))"

text \<open>\<open>windows(2)\<close>.\<close>

definition pairs :: "'a list \<Rightarrow> ('a \<times> 'a) list" where
  "pairs xs = zip xs (tl xs)"

section \<open>Loops\<close>

lemma try_map_Ok:
  "try_map f xs = Ok ys \<longleftrightarrow> list_all2 (\<lambda>x y. f x = Ok y) xs ys"
proof (induction xs arbitrary: ys)
  case Nil
  then show ?case by auto
next
  case (Cons x xs)
  then show ?case by (cases ys) (auto simp: outcome_simps)
qed

lemma try_map_length: "try_map f xs = Ok ys \<Longrightarrow> length ys = length xs"
  by (simp add: try_map_Ok list_all2_lengthD)

lemma try_map_set:
  assumes "try_map f xs = Ok ys" and "y \<in> set ys"
  shows "\<exists>x \<in> set xs. f x = Ok y"
proof -
  from assms obtain i where "i < length ys" "y = ys ! i" "f (xs ! i) = Ok y" "length xs = length ys"
    by (auto simp: try_map_Ok list_all2_conv_all_nth in_set_conv_nth)
  then show ?thesis using nth_mem [of i xs] by auto
qed

lemma try_map_not_Panic: "(\<And>x. x \<in> set xs \<Longrightarrow> f x \<noteq> Panic) \<Longrightarrow> try_map f xs \<noteq> Panic"
  by (induction xs) (auto simp: and_then_Panic)

lemma try_fold_inv:
  assumes step: "\<And>s x s'. P s \<Longrightarrow> x \<in> set xs \<Longrightarrow> f s x = Ok s' \<Longrightarrow> P s'"
    and "try_fold f s xs = Ok t" and "P s"
  shows "P t"
  using assms
proof (induction xs arbitrary: s)
  case Nil
  then show ?case by simp
next
  case (Cons x xs)
  from Cons.prems(2) obtain u where u: "f s x = Ok u" "try_fold f u xs = Ok t"
    by (auto simp: outcome_simps)
  have "P u" by (rule Cons.prems(1) [OF Cons.prems(3) _ u(1)]) simp
  show ?case
  proof (rule Cons.IH [OF _ u(2) \<open>P u\<close>])
    fix s y s' assume "P s" "y \<in> set xs" "f s y = Ok s'"
    then show "P s'" by (intro Cons.prems(1) [of s y s']) simp_all
  qed
qed

lemma try_fold_not_Panic:
  assumes "\<And>s x s'. P s \<Longrightarrow> x \<in> set xs \<Longrightarrow> f s x = Ok s' \<Longrightarrow> P s'"
    and "\<And>s x. P s \<Longrightarrow> x \<in> set xs \<Longrightarrow> f s x \<noteq> Panic"
    and "P s"
  shows "try_fold f s xs \<noteq> Panic"
  using assms
proof (induction xs arbitrary: s)
  case Nil
  then show ?case by simp
next
  case (Cons x xs)
  have "try_fold f u xs \<noteq> Panic" if "f s x = Ok u" for u
    using Cons.prems(1) [OF Cons.prems(3) _ that] Cons.prems(1,2) by (intro Cons.IH) auto
  then show ?case using Cons.prems(2) [OF Cons.prems(3), of x] by (auto simp: and_then_Panic)
qed

lemma try_each_Ok: "try_fold (\<lambda>_. g) () xs = Ok () \<longleftrightarrow> (\<forall>x \<in> set xs. g x = Ok ())"
proof (induction xs)
  case Nil
  then show ?case by simp
next
  case (Cons x xs)
  then show ?case by (cases "g x") auto
qed

lemma refuse_Ok: "and_then m (\<lambda>bad. if bad then Err e else Ok ()) = Ok () \<longleftrightarrow> m = Ok False"
  by (cases m) auto

lemma try_fold_append:
  "try_fold f s (xs @ ys) = and_then (try_fold f s xs) (\<lambda>t. try_fold f t ys)"
proof (induction xs arbitrary: s)
  case Nil
  then show ?case by simp
next
  case (Cons x xs)
  then show ?case by (cases "f s x") auto
qed

section \<open>Extremal elements\<close>

lemma least_from_in: "least_from f m ys \<in> insert m (set ys)"
proof (induction ys arbitrary: m)
  case (Cons y ys)
  show ?case using Cons [of "if f y < f m then y else m"] by (auto split: if_splits)
qed simp

lemma greatest_from_in: "greatest_from f m ys \<in> insert m (set ys)"
proof (induction ys arbitrary: m)
  case (Cons y ys)
  show ?case using Cons [of "if f y < f m then m else y"] by (auto split: if_splits)
qed simp

lemma least_from_le: "x \<in> insert m (set ys) \<Longrightarrow> f (least_from f m ys) \<le> f x"
proof (induction ys arbitrary: m x)
  case (Cons y ys)
  let ?n = "if f y < f m then y else m"
  have "f ?n \<le> f m" "f ?n \<le> f y" by auto
  moreover have "f (least_from f ?n ys) \<le> f ?n" by (rule Cons.IH) simp
  moreover have "x \<in> set ys \<Longrightarrow> f (least_from f ?n ys) \<le> f x" by (rule Cons.IH) simp
  ultimately show ?case using Cons.prems unfolding least_from.simps list.set insert_iff
    by (metis order.trans)
qed simp

lemma greatest_from_ge: "x \<in> insert m (set ys) \<Longrightarrow> f x \<le> f (greatest_from f m ys)"
proof (induction ys arbitrary: m x)
  case (Cons y ys)
  let ?n = "if f y < f m then m else y"
  have "f m \<le> f ?n" "f y \<le> f ?n" by auto
  moreover have "f ?n \<le> f (greatest_from f ?n ys)" by (rule Cons.IH) simp
  moreover have "x \<in> set ys \<Longrightarrow> f x \<le> f (greatest_from f ?n ys)" by (rule Cons.IH) simp
  ultimately show ?case using Cons.prems unfolding greatest_from.simps list.set insert_iff
    by (metis order.trans)
qed simp

lemma min_by_key_in: "min_by_key f xs = Some x \<Longrightarrow> x \<in> set xs"
  using least_from_in by (fastforce simp: min_by_key_def split: list.splits)

lemma max_by_key_in: "max_by_key f xs = Some x \<Longrightarrow> x \<in> set xs"
  using greatest_from_in by (fastforce simp: max_by_key_def split: list.splits)

lemma min_by_key_least: "min_by_key f xs = Some x \<Longrightarrow> y \<in> set xs \<Longrightarrow> f x \<le> f y"
  by (auto simp: min_by_key_def split: list.splits intro: least_from_le)

lemma max_by_key_greatest: "max_by_key f xs = Some x \<Longrightarrow> y \<in> set xs \<Longrightarrow> f y \<le> f x"
  by (auto simp: max_by_key_def split: list.splits intro: greatest_from_ge)

lemma min_by_key_None [simp]: "min_by_key f xs = None \<longleftrightarrow> xs = []"
  by (auto simp: min_by_key_def split: list.splits)

lemma max_by_key_None [simp]: "max_by_key f xs = None \<longleftrightarrow> xs = []"
  by (auto simp: max_by_key_def split: list.splits)

end
