(* ===== verification/Grid_Facts.thy ===== *)
theory Grid_Facts
  imports Grid_Model Instruments Risk_Snapshot Ordered_Map Iteration
    "HOL-Library.Product_Lexorder" "HOL-Library.List_Lexorder"
begin

text \<open>
  The stateless grid planner of \<open>crates/venue-strategies/src/hedged_grid/planner.rs\<close>, part
  one: its input, the validation of configuration, instrument, market and private facts, the
  conversions between notional and quantity, and the checks every generated order passes.
\<close>

section \<open>Inputs\<close>

definition GRID_PLANNER_SCHEMA_VERSION :: u16 where
  "GRID_PLANNER_SCHEMA_VERSION = 1"

record 'd grid_replenishment_policy =
  rl_minimum_leg_notional :: "'d amount"
  rl_target_leg_notional :: "'d amount"
  rl_max_single_notional :: "'d amount"

record 'd grid_profit_reduction_policy =
  pf_inventory_equity_multiple :: 'd
  pf_minimum_profit_rate :: 'd
  pf_reduction_fraction :: 'd
  pf_max_single_notional :: "'d amount"

record grid_reset_policy =
  rz_max_market_age_ms :: u64
  rz_max_private_age_ms :: u64
  rz_convergence_timeout_ms :: u64
  rz_failure_threshold :: u32

record 'd grid_planner_config =
  pc_instance_id :: string
  pc_revision :: u64
  pc_symbol :: symbol
  pc_order_notional :: "'d amount"
  pc_maximum_grid_notional :: "'d amount"
  pc_spacing_rate :: 'd
  pc_grid_count :: u8
  pc_replenishment :: "'d grid_replenishment_policy option"
  pc_profit_reduction :: "'d grid_profit_reduction_policy option"
  pc_reset_policy :: grid_reset_policy

record 'd grid_best_book =
  bk_bid :: "'d price"
  bk_ask :: "'d price"
  bk_observed_at_ms :: u64

record 'd grid_reference_price =
  gr_price :: "'d price"
  gr_observed_at_ms :: u64

record 'd grid_instrument_limits =
  lim_minimum_quantity :: 'd
  lim_maximum_quantity :: 'd
  lim_minimum_price :: "'d price"
  lim_maximum_price :: "'d price"

record 'd grid_close_reservations =
  cr_long_quantity :: 'd
  cr_short_quantity :: 'd

record 'd grid_rolling_anchor =
  ra_revision :: u64
  ra_instrument_generation :: u64
  ra_anchor_price :: "'d price"
  ra_step :: "'d price"
  ra_grid_quantity :: 'd

record 'd grid_maker_fill =
  mf_fill_id :: string
  mf_source_order :: "'d grid_order_intent"
  mf_complete :: bool
  mf_maker :: bool

record 'd grid_risk_conversion =
  cv_risk_currency :: asset
  cv_quote_currency :: asset
  cv_quote_per_risk_unit :: 'd
  cv_private_generation :: u64
  cv_observed_at_ms :: u64

record 'd grid_risk_facts =
  rf_account :: "'d account_risk_snapshot"
  rf_legs :: "'d leg_risk_snapshot list"
  rf_conversion :: "'d grid_risk_conversion"

record grid_convergence_facts =
  cg_pending_since_ms :: "u64 option"
  cg_consecutive_failures :: u32

datatype grid_planner_control = Run | Stop | Reset

text \<open>\<open>pending_place_keys\<close> is a \<open>BTreeSet\<close>: the list of its elements.\<close>

record 'd grid_planner_input =
  pi_net_direction :: "grid_position option"
  pi_config :: "'d grid_planner_config"
  pi_instrument :: "'d instrument_metadata"
  pi_instrument_limits :: "'d grid_instrument_limits"
  pi_book :: "'d grid_best_book option"
  pi_reference_price :: "'d grid_reference_price option"
  pi_inventory :: "'d grid_inventory"
  pi_owned_orders :: "'d grid_order_intent list"
  pi_maker_fills :: "'d grid_maker_fill list"
  pi_pending_place_keys :: "grid_order_key list"
  pi_other_close_reservations :: "'d grid_close_reservations"
  pi_rolling_anchor :: "'d grid_rolling_anchor option"
  pi_convergence :: grid_convergence_facts
  pi_risk :: "'d grid_risk_facts option"
  pi_control :: grid_planner_control
  pi_now_ms :: u64

datatype grid_reset_trigger =
  Manual | RevisionMismatch | InstrumentGenerationChanged | InvalidOwnedOrder
| DuplicateOwnedOrder | IncompleteOwnedSurface | CompletedFillStillOpen | ConflictingFillEvidence
| RollingConflict | PriceWouldCrossBook | ConvergenceTimedOut | FailureThresholdReached

datatype grid_blocked_reason =
  InvalidMarketFacts | StaleMarketFacts | InvalidPrivateFacts | StalePrivateFacts
| MissingRiskFacts | InvalidRiskFacts | ReductionBelowMinimum | MakerPriceWouldCrossBook

datatype grid_planner_error =
  PE_Config | PE_Instrument | PE_InstrumentLimits | PE_OrderOutsideInstrumentLimits
| PE_Normalization | PE_OpenNotionalLimit | PE_Arithmetic

section \<open>Comparisons the planner relies on\<close>

text \<open>The derived \<open>PartialEq\<close> of intents and fills: decimals are compared by value.\<close>

definition intent_eq ::
  "'d decimal_api \<Rightarrow> 'd grid_order_intent \<Rightarrow> 'd grid_order_intent \<Rightarrow> bool" where
  "intent_eq D a b \<longleftrightarrow>
     gi_key a = gi_key b \<and> gi_side a = gi_side b \<and> price_eq D (gi_price a) (gi_price b)
     \<and> dec_eq D (gi_quantity a) (gi_quantity b) \<and> gi_reduce_only a = gi_reduce_only b"

definition fill_eq ::
  "'d decimal_api \<Rightarrow> 'd grid_maker_fill \<Rightarrow> 'd grid_maker_fill \<Rightarrow> bool" where
  "fill_eq D a b \<longleftrightarrow>
     mf_fill_id a = mf_fill_id b \<and> intent_eq D (mf_source_order a) (mf_source_order b)
     \<and> mf_complete a = mf_complete b \<and> mf_maker a = mf_maker b"

definition in_lane :: "grid_position \<Rightarrow> grid_order_role \<Rightarrow> 'd grid_order_intent \<Rightarrow> bool" where
  "in_lane position role order \<longleftrightarrow>
     gk_position (gi_key order) = position \<and> gk_role (gi_key order) = role"

definition is_open :: "'d grid_order_intent \<Rightarrow> bool" where
  "is_open order \<longleftrightarrow> gk_role (gi_key order) = Open"

definition opposite_role :: "grid_order_role \<Rightarrow> grid_order_role" where
  "opposite_role role = (case role of Open \<Rightarrow> Close | Close \<Rightarrow> Open)"

definition inventory_quantity :: "'d grid_inventory \<Rightarrow> grid_position \<Rightarrow> 'd" where
  "inventory_quantity inventory position =
     (case position of GLong \<Rightarrow> gv_long_quantity inventory | GShort \<Rightarrow> gv_short_quantity inventory)"

definition reserved_quantity :: "'d grid_close_reservations \<Rightarrow> grid_position \<Rightarrow> 'd" where
  "reserved_quantity reservations position =
     (case position of GLong \<Rightarrow> cr_long_quantity reservations
      | GShort \<Rightarrow> cr_short_quantity reservations)"

definition active_positions :: "'d grid_planner_input \<Rightarrow> grid_position list" where
  "active_positions input =
     (case pi_net_direction input of None \<Rightarrow> [GLong, GShort] | Some side \<Rightarrow> [side])"

definition reference_value :: "'d decimal_api \<Rightarrow> 'd grid_planner_input \<Rightarrow> 'd option" where
  "reference_value D input =
     (case pi_reference_price input of
        Some reference \<Rightarrow> Some (price_value (gr_price reference))
      | None \<Rightarrow>
        Option.bind (pi_book input) (\<lambda>book.
        Option.bind (dec_add D (price_value (bk_bid book)) (price_value (bk_ask book)))
          (\<lambda>sum. dec_div D sum (dec_of_int D 2))))"

text \<open>The operator \<open>%\<close> compared with zero; it panics where the remainder is undefined.\<close>

definition divides :: "'d decimal_api \<Rightarrow> 'd \<Rightarrow> 'd \<Rightarrow> (bool, 'e) outcome" where
  "divides D step value =
     and_then (or_panic (dec_rem D value step)) (\<lambda>r. Ok (dec_is_zero D r))"

definition price_within_limits ::
  "'d decimal_api \<Rightarrow> 'd grid_planner_input \<Rightarrow> 'd price \<Rightarrow> (bool, 'e) outcome" where
  "price_within_limits D input price =
     (let limits = pi_instrument_limits input in
      and_also (Ok (dec_le D (price_value (lim_minimum_price limits)) (price_value price)
                    \<and> dec_le D (price_value price) (price_value (lim_maximum_price limits))))
        (divides D (pr_step (md_price (pi_instrument input))) (price_value price)))"

definition quantity_within_limits ::
  "'d decimal_api \<Rightarrow> 'd grid_planner_input \<Rightarrow> 'd \<Rightarrow> (bool, 'e) outcome" where
  "quantity_within_limits D input quantity =
     (let limits = pi_instrument_limits input in
      and_also (Ok (dec_le D (lim_minimum_quantity limits) quantity
                    \<and> dec_le D quantity (lim_maximum_quantity limits)))
        (divides D (pr_step (md_quantity (pi_instrument input))) quantity))"

definition crosses_book :: "'d decimal_api \<Rightarrow> 'd grid_order_intent \<Rightarrow> 'd grid_best_book \<Rightarrow> bool" where
  "crosses_book D order book =
     (case gi_side order of
        Buy \<Rightarrow> dec_le D (price_value (bk_ask book)) (price_value (gi_price order))
      | Sell \<Rightarrow> dec_le D (price_value (gi_price order)) (price_value (bk_bid book)))"

definition ceil_to_step :: "'d decimal_api \<Rightarrow> 'd \<Rightarrow> 'd \<Rightarrow> ('d, grid_planner_error) outcome" where
  "ceil_to_step D value step =
     (if dec_negative D value \<or> \<not> dec_positive D step then Err PE_Normalization
      else
      and_then (or_panic (dec_rem D value step)) (\<lambda>remainder.
      if dec_is_zero D remainder then Ok value
      else and_then (or_panic (dec_sub D step remainder)) (\<lambda>gap.
           ok_or PE_Arithmetic (dec_add D value gap))))"

section \<open>Validation\<close>

definition validate_identity ::
  "'d grid_planner_config \<Rightarrow> (unit, grid_planner_error) outcome" where
  "validate_identity config =
     (let valid_id = pc_instance_id config \<noteq> [] \<and> length (pc_instance_id config) \<le> 64
            \<and> list_all (\<lambda>c. is_ascii_alphanumeric c \<or> c = CHR ''-'' \<or> c = CHR ''_'')
                (pc_instance_id config) in
      if \<not> valid_id \<or> pc_revision config = 0 then Err PE_Config else Ok ())"

definition replenishment_policy_invalid ::
  "'d decimal_api \<Rightarrow> asset \<Rightarrow> 'd grid_replenishment_policy \<Rightarrow> bool" where
  "replenishment_policy_invalid D asset policy \<longleftrightarrow>
     (let same_asset = am_asset (rl_minimum_leg_notional policy) = asset
            \<and> am_asset (rl_target_leg_notional policy) = asset
            \<and> am_asset (rl_max_single_notional policy) = asset in
      \<not> same_asset
      \<or> \<not> dec_positive D (am_value (rl_minimum_leg_notional policy))
      \<or> dec_le D (am_value (rl_target_leg_notional policy)) (am_value (rl_minimum_leg_notional policy))
      \<or> \<not> dec_positive D (am_value (rl_max_single_notional policy)))"

definition profit_reduction_policy_invalid ::
  "'d decimal_api \<Rightarrow> asset \<Rightarrow> 'd grid_profit_reduction_policy \<Rightarrow> bool" where
  "profit_reduction_policy_invalid D asset policy \<longleftrightarrow>
     am_asset (pf_max_single_notional policy) \<noteq> asset
     \<or> \<not> dec_positive D (pf_inventory_equity_multiple policy)
     \<or> \<not> dec_positive D (pf_minimum_profit_rate policy)
     \<or> dec_value D (pf_minimum_profit_rate policy) > 1
     \<or> \<not> dec_positive D (pf_reduction_fraction policy)
     \<or> dec_value D (pf_reduction_fraction policy) > 1
     \<or> \<not> dec_positive D (am_value (pf_max_single_notional policy))"

definition validate_config ::
  "'d decimal_api \<Rightarrow> 'd grid_planner_config \<Rightarrow> (unit, grid_planner_error) outcome" where
  "validate_config D config =
     and_then (validate_identity config) (\<lambda>_.
     let quote = am_asset (pc_order_notional config);
         policy = pc_reset_policy config;
         quote_matches = asset_str quote = sym_quote (pc_symbol config)
           \<and> am_asset (pc_maximum_grid_notional config) = quote in
     if \<not> quote_matches
       \<or> \<not> dec_positive D (am_value (pc_order_notional config))
       \<or> \<not> dec_positive D (am_value (pc_maximum_grid_notional config))
       \<or> \<not> dec_positive D (pc_spacing_rate config)
       \<or> dec_value D (pc_spacing_rate config) \<ge> 1
       \<or> \<not> (MIN_GRID_COUNT \<le> pc_grid_count config \<and> pc_grid_count config \<le> MAX_GRID_COUNT)
       \<or> rz_max_market_age_ms policy = 0 \<or> rz_max_private_age_ms policy = 0
       \<or> rz_convergence_timeout_ms policy = 0 \<or> rz_failure_threshold policy = 0
     then Err PE_Config
     else if (case pc_replenishment config of None \<Rightarrow> False
              | Some p \<Rightarrow> replenishment_policy_invalid D quote p)
     then Err PE_Config
     else if (case pc_profit_reduction config of None \<Rightarrow> False
              | Some p \<Rightarrow> profit_reduction_policy_invalid D quote p)
     then Err PE_Config
     else Ok ())"

definition validate_instrument ::
  "'d decimal_api \<Rightarrow> 'd grid_planner_config \<Rightarrow> 'd instrument_metadata \<Rightarrow> 'd grid_instrument_limits
   \<Rightarrow> (unit, grid_planner_error) outcome" where
  "validate_instrument D config instrument limits =
     and_then (map_err (\<lambda>_. PE_Instrument) (metadata_validate D instrument)) (\<lambda>_.
     let minimum = in_minimum_notional (md_instrument instrument) in
     if \<not> md_trading_enabled instrument
       \<or> in_symbol (md_instrument instrument) \<noteq> pc_symbol config
       \<or> am_asset minimum \<noteq> am_asset (pc_order_notional config)
     then Err PE_Instrument
     else if (case pc_replenishment config of None \<Rightarrow> False
              | Some policy \<Rightarrow>
                  dec_less D (am_value (rl_target_leg_notional policy)) (am_value minimum)
                  \<or> dec_less D (am_value (rl_max_single_notional policy)) (am_value minimum))
       \<or> (case pc_profit_reduction config of None \<Rightarrow> False
          | Some policy \<Rightarrow>
              dec_less D (am_value (pf_max_single_notional policy)) (am_value minimum))
     then Err PE_Config
     else
     and_then (and_also (divides D (pr_step (md_quantity instrument)) (lim_minimum_quantity limits))
         (divides D (pr_step (md_quantity instrument)) (lim_maximum_quantity limits)))
       (\<lambda>quantity_aligned.
     and_then (and_also
         (divides D (pr_step (md_price instrument)) (price_value (lim_minimum_price limits)))
         (divides D (pr_step (md_price instrument)) (price_value (lim_maximum_price limits))))
       (\<lambda>price_aligned.
     if dec_less D (lim_minimum_quantity limits) (pr_minimum (md_quantity instrument))
       \<or> dec_less D (lim_maximum_quantity limits) (lim_minimum_quantity limits)
       \<or> dec_less D (price_value (lim_minimum_price limits)) (pr_minimum (md_price instrument))
       \<or> dec_less D (price_value (lim_maximum_price limits)) (price_value (lim_minimum_price limits))
       \<or> \<not> quantity_aligned \<or> \<not> price_aligned
     then Err PE_InstrumentLimits
     else Ok ())))"

definition validate_market_facts ::
  "'d decimal_api \<Rightarrow> 'd grid_planner_input \<Rightarrow> grid_blocked_reason option" where
  "validate_market_facts D input =
     (let now_ms = pi_now_ms input; policy = pc_reset_policy (pi_config input) in
      case pi_reference_price input of
        Some reference \<Rightarrow>
          if pi_book input \<noteq> None \<or> now_ms = 0 \<or> gr_observed_at_ms reference = 0
            \<or> now_ms < gr_observed_at_ms reference
          then Some InvalidMarketFacts
          else if rz_max_private_age_ms policy < saturating_sub now_ms (gr_observed_at_ms reference)
          then Some StaleMarketFacts
          else None
      | None \<Rightarrow>
        (case pi_book input of
           None \<Rightarrow> Some InvalidMarketFacts
         | Some book \<Rightarrow>
           if now_ms = 0 \<or> bk_observed_at_ms book = 0 \<or> now_ms < bk_observed_at_ms book
             \<or> dec_le D (price_value (bk_ask book)) (price_value (bk_bid book))
           then Some InvalidMarketFacts
           else if rz_max_market_age_ms policy < saturating_sub now_ms (bk_observed_at_ms book)
           then Some StaleMarketFacts
           else None))"

definition validate_private_facts ::
  "'d decimal_api \<Rightarrow> 'd grid_planner_input \<Rightarrow> grid_blocked_reason option" where
  "validate_private_facts D input =
     (let inventory = pi_inventory input; reservations = pi_other_close_reservations input;
          now_ms = pi_now_ms input in
      if \<not> is_ok (inventory_validate D inventory)
        \<or> gv_private_observed_at_ms inventory = 0
        \<or> now_ms < gv_private_observed_at_ms inventory
        \<or> dec_sign_negative D (cr_long_quantity reservations)
        \<or> dec_sign_negative D (cr_short_quantity reservations)
        \<or> dec_less D (gv_long_quantity inventory) (cr_long_quantity reservations)
        \<or> dec_less D (gv_short_quantity inventory) (cr_short_quantity reservations)
      then Some InvalidPrivateFacts
      else if rz_max_private_age_ms (pc_reset_policy (pi_config input))
          < saturating_sub now_ms (gv_private_observed_at_ms inventory)
      then Some StalePrivateFacts
      else None)"

section \<open>Notional and quantity\<close>

definition quantity_notional_divisor ::
  "'d decimal_api \<Rightarrow> 'd instrument_metadata \<Rightarrow> 'd price \<Rightarrow> ('d, grid_planner_error) outcome" where
  "quantity_notional_divisor D instrument price =
     (case md_contract instrument of
        Some contract \<Rightarrow>
          (case ct_value_unit contract of
             QuoteUnit \<Rightarrow> Ok (ct_value_per_lot contract)
           | BaseUnit \<Rightarrow> ok_or PE_Arithmetic (dec_mul D (ct_value_per_lot contract) (price_value price)))
      | None \<Rightarrow> Ok (price_value price))"

definition raw_quote_notional ::
  "'d decimal_api \<Rightarrow> 'd instrument_metadata \<Rightarrow> 'd \<Rightarrow> 'd price \<Rightarrow> ('d, grid_planner_error) outcome" where
  "raw_quote_notional D instrument quantity price =
     and_then (quantity_notional_divisor D instrument price)
       (\<lambda>divisor. ok_or PE_Arithmetic (dec_mul D quantity divisor))"

definition quantity_for_notional_ceil ::
  "'d decimal_api \<Rightarrow> 'd instrument_metadata \<Rightarrow> 'd grid_instrument_limits \<Rightarrow> 'd \<Rightarrow> 'd price
   \<Rightarrow> ('d, grid_planner_error) outcome" where
  "quantity_for_notional_ceil D instrument limits notional price =
     (if \<not> dec_positive D notional then Err PE_Normalization
      else
      and_then (quantity_notional_divisor D instrument price) (\<lambda>divisor.
      and_then (ok_or PE_Arithmetic (dec_div D notional divisor)) (\<lambda>raw.
      and_then (ceil_to_step D raw (pr_step (md_quantity instrument))) (\<lambda>ceiled.
      let quantity = dec_greatest D ceiled (lim_minimum_quantity limits) in
      if dec_less D (lim_maximum_quantity limits) quantity
      then Err PE_OrderOutsideInstrumentLimits
      else
      and_then (map_err (\<lambda>_. PE_Normalization)
        (precision_accepts D (md_quantity instrument) quantity)) (\<lambda>accepts.
      if \<not> accepts then Err PE_Normalization else Ok quantity)))))"

definition quantity_for_notional_floor ::
  "'d decimal_api \<Rightarrow> 'd instrument_metadata \<Rightarrow> 'd grid_instrument_limits \<Rightarrow> 'd \<Rightarrow> 'd price
   \<Rightarrow> ('d, grid_planner_error) outcome" where
  "quantity_for_notional_floor D instrument limits notional price =
     (if \<not> dec_positive D notional then Err PE_Normalization
      else
      and_then (quantity_notional_divisor D instrument price) (\<lambda>divisor.
      and_then (ok_or PE_Arithmetic (dec_div D notional divisor)) (\<lambda>raw.
      map_err (\<lambda>_. PE_Normalization)
        (precision_floor D (md_quantity instrument)
           (dec_least D raw (lim_maximum_quantity limits))))))"

definition add_open_notional ::
  "'d decimal_api \<Rightarrow> 'd grid_planner_input \<Rightarrow> 'd \<Rightarrow> 'd grid_order_intent
   \<Rightarrow> ('d, grid_planner_error) outcome" where
  "add_open_notional D input acc order =
     and_then (raw_quote_notional D (pi_instrument input) (gi_quantity order) (gi_price order))
       (\<lambda>notional.
     and_then (ok_or PE_Arithmetic (dec_add D acc notional)) (\<lambda>acc.
     if dec_less D (am_value (pc_maximum_grid_notional (pi_config input))) acc
     then Err PE_OpenNotionalLimit else Ok acc))"

definition enforce_maximum_grid_notional ::
  "'d decimal_api \<Rightarrow> 'd grid_planner_input \<Rightarrow> 'd grid_order_intent list
   \<Rightarrow> (unit, grid_planner_error) outcome" where
  "enforce_maximum_grid_notional D input orders =
     and_then (try_fold (add_open_notional D input) (dec_zero D) (filter is_open orders))
       (\<lambda>_. Ok ())"

section \<open>Orders\<close>

definition order_at_price ::
  "'d decimal_api \<Rightarrow> u64 \<Rightarrow> grid_position \<Rightarrow> grid_order_role \<Rightarrow> u64 \<Rightarrow> 'd price \<Rightarrow> 'd
   \<Rightarrow> ('d grid_order_intent, grid_reset_trigger) outcome" where
  "order_at_price D revision position role level price quantity =
     (let order = \<lparr>gi_key = GridOrderKey revision position role level,
                   gi_side = (case role of Open \<Rightarrow> opening_side position
                              | Close \<Rightarrow> closing_side position),
                   gi_price = price, gi_quantity = quantity,
                   gi_reduce_only = (role = Close)\<rparr>
      in and_then (map_err (\<lambda>_. InvalidOwnedOrder) (intent_validate D order)) (\<lambda>_. Ok order))"

definition order_from_anchor ::
  "'d decimal_api \<Rightarrow> 'd grid_rolling_anchor \<Rightarrow> grid_position \<Rightarrow> grid_order_role \<Rightarrow> u64
   \<Rightarrow> ('d grid_order_intent, grid_planner_error) outcome" where
  "order_from_anchor D anchor position role level =
     and_then (ok_or PE_Arithmetic
       (dec_mul D (price_value (ra_step anchor)) (dec_of_int D (uint level)))) (\<lambda>distance.
     and_then (ok_or PE_Arithmetic
       (dec_sub D (price_value (ra_anchor_price anchor)) distance)) (\<lambda>lower.
     and_then (ok_or PE_Arithmetic
       (dec_add D (price_value (ra_anchor_price anchor)) distance)) (\<lambda>upper.
     let value = (case (position, role) of
           (GLong, Open) \<Rightarrow> lower | (GShort, Close) \<Rightarrow> lower
         | (GShort, Open) \<Rightarrow> upper | (GLong, Close) \<Rightarrow> upper) in
     and_then (map_err (\<lambda>_. PE_Normalization) (price_new D value)) (\<lambda>price.
     map_err (\<lambda>_. PE_Normalization)
       (order_at_price D (ra_revision anchor) position role level price
          (ra_grid_quantity anchor))))))"

text \<open>One turn of the loop of \<open>validate_generated_orders\<close>: the order's own checks.\<close>

definition order_outside_limits ::
  "'d decimal_api \<Rightarrow> 'd grid_planner_input \<Rightarrow> 'd grid_order_intent \<Rightarrow> (bool, 'e) outcome" where
  "order_outside_limits D input order =
     or_else (Ok (case pi_net_direction input of None \<Rightarrow> False
                  | Some side \<Rightarrow> side \<noteq> gk_position (gi_key order)))
     (or_else (Ok (\<not> is_ok (intent_validate D order)))
     (or_else (and_then (price_within_limits D input (gi_price order)) (\<lambda>b. Ok (\<not> b)))
        (and_then (quantity_within_limits D input (gi_quantity order)) (\<lambda>b. Ok (\<not> b)))))"

definition validate_generated_orders ::
  "'d decimal_api \<Rightarrow> 'd grid_planner_input \<Rightarrow> 'd grid_order_intent list
   \<Rightarrow> (unit, grid_planner_error) outcome" where
  "validate_generated_orders D input orders =
     try_fold (\<lambda>_ order. and_then (order_outside_limits D input order)
       (\<lambda>bad. if bad then Err PE_OrderOutsideInstrumentLimits else Ok ())) () orders"

text \<open>
  The lane of a position in the order the close orders consume inventory: nearest to the
  market first, among equal prices in the order they came.
\<close>

definition close_lane ::
  "'d decimal_api \<Rightarrow> grid_position \<Rightarrow> 'd grid_order_intent list \<Rightarrow> 'd grid_order_intent list" where
  "close_lane D position orders =
     sort_key (\<lambda>x. case position of GLong \<Rightarrow> price_num D (gi_price x)
                 | GShort \<Rightarrow> - price_num D (gi_price x))
       (filter (in_lane position Close) orders)"

definition clip_close_order ::
  "'d decimal_api \<Rightarrow> 'd grid_planner_input \<Rightarrow> 'd \<times> 'd grid_order_intent list
   \<Rightarrow> 'd grid_order_intent \<Rightarrow> ('d \<times> 'd grid_order_intent list, grid_planner_error) outcome" where
  "clip_close_order D input state order =
     (let (available, close_orders) = state; instrument = pi_instrument input in
      and_then (map_err (\<lambda>_. PE_Normalization)
        (precision_floor D (md_quantity instrument) (dec_least D (gi_quantity order) available)))
        (\<lambda>quantity.
      and_then (or_else
          (Ok (dec_less D quantity (lim_minimum_quantity (pi_instrument_limits input))))
          (and_then (raw_quote_notional D instrument quantity (gi_price order)) (\<lambda>notional.
             Ok (dec_less D notional (am_value (in_minimum_notional (md_instrument instrument)))))))
        (\<lambda>skip.
      if skip then Ok (available, close_orders)
      else
      and_then (ok_or PE_Arithmetic (dec_sub D available quantity)) (\<lambda>available.
      Ok (available, close_orders @ [order\<lparr>gi_quantity := quantity\<rparr>])))))"

definition clip_close_lane ::
  "'d decimal_api \<Rightarrow> 'd grid_planner_input \<Rightarrow> 'd grid_order_intent list
   \<Rightarrow> 'd grid_order_intent list \<Rightarrow> grid_position
   \<Rightarrow> ('d grid_order_intent list, grid_planner_error) outcome" where
  "clip_close_lane D input orders close_orders position =
     and_then (ok_or PE_Arithmetic
       (dec_sub D (inventory_quantity (pi_inventory input) position)
          (reserved_quantity (pi_other_close_reservations input) position))) (\<lambda>available.
     and_then (try_fold (clip_close_order D input) (available, close_orders)
                 (close_lane D position orders))
       (\<lambda>(_, close_orders). Ok close_orders))"

definition clip_close_orders ::
  "'d decimal_api \<Rightarrow> 'd grid_planner_input \<Rightarrow> 'd grid_order_intent list
   \<Rightarrow> ('d grid_order_intent list, grid_planner_error) outcome" where
  "clip_close_orders D input orders =
     and_then (try_fold (clip_close_lane D input orders) [] (active_positions input))
       (\<lambda>close_orders. Ok (sort_key gi_key (filter is_open orders @ close_orders)))"

end
