(* ===== verification/Grid_Surface.thy ===== *)
theory Grid_Surface
  imports Grid_Facts
begin

text \<open>
  The stateless grid planner, part two: the surface of owned orders, the initial surface
  around the market, and the surface rolled by completed maker fills.
\<close>

type_synonym 'd surface = "(grid_order_key, 'd grid_order_intent) btree"

section \<open>The owned surface\<close>

text \<open>
  \<open>lane_prices\<close> is a set of lane coordinates and prices ordered by value: a price already in
  the lane is one with the same number.
\<close>

definition lane_price_taken ::
  "'d decimal_api \<Rightarrow> 'd grid_order_intent list \<Rightarrow> 'd grid_order_intent \<Rightarrow> bool" where
  "lane_price_taken D seen order \<longleftrightarrow>
     list_ex (\<lambda>x. in_lane (gk_position (gi_key order)) (gk_role (gi_key order)) x
                  \<and> price_eq D (gi_price x) (gi_price order)) seen"

definition owned_order_invalid ::
  "'d decimal_api \<Rightarrow> 'd grid_planner_input \<Rightarrow> 'd grid_order_intent \<Rightarrow> (bool, 'e) outcome" where
  "owned_order_invalid D input order =
     or_else (Ok (case pi_net_direction input of None \<Rightarrow> False
                  | Some side \<Rightarrow> side \<noteq> gk_position (gi_key order)))
     (or_else (Ok (\<not> is_ok (intent_validate D order)))
     (or_else (Ok (gk_epoch (gi_key order) \<noteq> pc_revision (pi_config input)))
     (or_else (and_then (price_within_limits D input (gi_price order)) (\<lambda>b. Ok (\<not> b)))
        (and_then (quantity_within_limits D input (gi_quantity order)) (\<lambda>b. Ok (\<not> b))))))"

definition add_owned_order ::
  "'d decimal_api \<Rightarrow> 'd grid_planner_input \<Rightarrow> 'd surface \<times> 'd grid_order_intent list
   \<Rightarrow> 'd grid_order_intent
   \<Rightarrow> ('d surface \<times> 'd grid_order_intent list, grid_reset_trigger) outcome" where
  "add_owned_order D input state order =
     (let (surface, seen) = state in
      and_then (owned_order_invalid D input order) (\<lambda>invalid.
      if invalid
      then Err (if gk_epoch (gi_key order) \<noteq> pc_revision (pi_config input)
                then RevisionMismatch else InvalidOwnedOrder)
      else if lane_price_taken D seen order \<or> bt_contains surface (gi_key order)
      then Err DuplicateOwnedOrder
      else Ok (bt_insert (gi_key order) order surface, order # seen)))"

definition validated_surface ::
  "'d decimal_api \<Rightarrow> 'd grid_planner_input \<Rightarrow> ('d surface, grid_reset_trigger) outcome" where
  "validated_surface D input =
     and_then (try_fold (add_owned_order D input) ([], []) (pi_owned_orders input))
       (\<lambda>(surface, _). Ok surface)"

section \<open>The initial surface\<close>

text \<open>The coordinates of the full grid: per position all opening levels, then all closing ones.\<close>

definition grid_coordinates :: "grid_position list \<Rightarrow> nat \<Rightarrow> (grid_position \<times> grid_order_role \<times> u64) list" where
  "grid_coordinates positions count =
     concat (map (\<lambda>position.
       map (\<lambda>level. (position, Open, of_nat level)) [1 ..< Suc count]
       @ map (\<lambda>level. (position, Close, of_nat level)) [1 ..< Suc count]) positions)"

definition initial_anchor ::
  "'d decimal_api \<Rightarrow> 'd grid_planner_input \<Rightarrow> ('d grid_rolling_anchor, grid_planner_error) outcome" where
  "initial_anchor D input =
     (let config = pi_config input; instrument = pi_instrument input;
          tick = pr_step (md_price instrument) in
      and_then (ok_or PE_Arithmetic (reference_value D input)) (\<lambda>midpoint.
      and_then (map_err (\<lambda>_. PE_Normalization) (precision_floor D (md_price instrument) midpoint))
        (\<lambda>anchor_value.
      and_then (map_err (\<lambda>_. PE_Normalization) (price_new D anchor_value)) (\<lambda>anchor_price.
      and_then (ok_or PE_Arithmetic (dec_mul D anchor_value (pc_spacing_rate config))) (\<lambda>raw_step.
      and_then (ceil_to_step D raw_step tick) (\<lambda>ceiled.
      let step_value = dec_greatest D ceiled tick in
      and_then (map_err (\<lambda>_. PE_Normalization) (price_new D step_value)) (\<lambda>step.
      and_then (ok_or PE_Arithmetic
        (dec_mul D step_value (dec_of_int D (uint (pc_grid_count config))))) (\<lambda>outer_distance.
      and_then (ok_or PE_Arithmetic (dec_sub D anchor_value outer_distance))
        (\<lambda>lowest_price_value.
      and_then (map_err (\<lambda>_. PE_Config) (price_new D lowest_price_value)) (\<lambda>lowest_price.
      let target_notional = dec_greatest D (am_value (pc_order_notional config))
            (am_value (in_minimum_notional (md_instrument instrument))) in
      and_then (quantity_for_notional_ceil D instrument (pi_instrument_limits input)
        target_notional lowest_price) (\<lambda>grid_quantity.
      Ok \<lparr>ra_revision = pc_revision config,
          ra_instrument_generation = in_generation (md_instrument instrument),
          ra_anchor_price = anchor_price, ra_step = step,
          ra_grid_quantity = grid_quantity\<rparr>)))))))))))"

definition initial_surface ::
  "'d decimal_api \<Rightarrow> 'd grid_planner_input
   \<Rightarrow> ('d grid_rolling_anchor \<times> 'd grid_order_intent list, grid_planner_error) outcome" where
  "initial_surface D input =
     and_then (initial_anchor D input) (\<lambda>anchor.
     and_then (try_map (\<lambda>(position, role, level). order_from_anchor D anchor position role level)
       (grid_coordinates (active_positions input) (unat (pc_grid_count (pi_config input)))))
       (\<lambda>desired.
     and_then (clip_close_orders D input desired) (\<lambda>desired.
     and_then (validate_generated_orders D input desired) (\<lambda>_. Ok (anchor, desired)))))"

section \<open>The rolling anchor\<close>

definition normalized_rolled_quantity ::
  "'d decimal_api \<Rightarrow> 'd grid_planner_input \<Rightarrow> 'd \<Rightarrow> (grid_order_role \<times> 'd price) list
   \<Rightarrow> ('d, grid_reset_trigger) outcome" where
  "normalized_rolled_quantity D input current prices =
     (let instrument = pi_instrument input;
          minimum = am_value (in_minimum_notional (md_instrument instrument)) in
      try_fold (\<lambda>quantity (_, price).
        and_then (map_err (\<lambda>_. RollingConflict) (raw_quote_notional D instrument quantity price))
          (\<lambda>notional.
        if dec_less D notional minimum
        then map_err (\<lambda>_. InvalidOwnedOrder)
          (quantity_for_notional_ceil D instrument (pi_instrument_limits input) minimum price)
        else Ok quantity)) current prices)"

definition validate_anchor ::
  "'d decimal_api \<Rightarrow> 'd grid_planner_input \<Rightarrow> 'd grid_rolling_anchor
   \<Rightarrow> ('d grid_rolling_anchor, grid_reset_trigger) outcome" where
  "validate_anchor D input anchor =
     (if ra_revision anchor \<noteq> pc_revision (pi_config input) then Err RevisionMismatch
      else if ra_instrument_generation anchor \<noteq> in_generation (md_instrument (pi_instrument input))
      then Err InstrumentGenerationChanged
      else
      and_then (or_else (Ok (\<not> dec_positive D (ra_grid_quantity anchor)))
         (or_else (and_then (price_within_limits D input (ra_anchor_price anchor)) (\<lambda>b. Ok (\<not> b)))
         (or_else (and_then (divides D (pr_step (md_price (pi_instrument input)))
                              (price_value (ra_step anchor))) (\<lambda>b. Ok (\<not> b)))
            (and_then (quantity_within_limits D input (ra_grid_quantity anchor))
               (\<lambda>b. Ok (\<not> b)))))) (\<lambda>bad.
      if bad then Err InvalidOwnedOrder else Ok anchor))"

text \<open>The positive differences between neighbouring prices of one lane.\<close>

definition lane_differences ::
  "'d decimal_api \<Rightarrow> 'd surface \<Rightarrow> grid_position \<times> grid_order_role \<Rightarrow> 'd list" where
  "lane_differences D surface lane =
     (let (position, role) = lane;
          prices = sort_key (dec_value D)
            (map (\<lambda>x. price_value (gi_price x)) (filter (in_lane position role) (bt_values surface)))
      in filter (dec_positive D)
           (List.map_filter (\<lambda>(low, high). dec_sub D high low) (pairs prices)))"

definition infer_anchor ::
  "'d decimal_api \<Rightarrow> 'd grid_planner_input \<Rightarrow> 'd surface
   \<Rightarrow> ('d grid_rolling_anchor, grid_reset_trigger) outcome" where
  "infer_anchor D input surface =
     (let instrument = pi_instrument input; tick = pr_step (md_price instrument);
          opens = filter is_open (bt_values surface) in
      case opens of
        [] \<Rightarrow> Err IncompleteOwnedSurface
      | first # _ \<Rightarrow>
        let grid_quantity = gi_quantity first in
        if list_ex (\<lambda>x. \<not> dec_eq D (gi_quantity x) grid_quantity) opens
        then Err InvalidOwnedOrder
        else
        let differences = concat (map (lane_differences D surface)
              (concat (map (\<lambda>p. [(p, Open), (p, Close)]) (active_positions input)))) in
        and_then (case min_by_key (dec_value D) differences of
            Some d \<Rightarrow> Ok d
          | None \<Rightarrow>
            let midpoint = (case reference_value D input of None \<Rightarrow> dec_zero D | Some v \<Rightarrow> v) in
            and_then (or_panic (dec_mul D midpoint (pc_spacing_rate (pi_config input)))) (\<lambda>raw.
            case ceil_to_step D raw tick of Ok v \<Rightarrow> Ok v | Err _ \<Rightarrow> Ok tick | Panic \<Rightarrow> Panic))
          (\<lambda>step_value.
        and_then (or_else (Ok (\<not> dec_positive D step_value))
            (and_then (divides D tick step_value) (\<lambda>b. Ok (\<not> b)))) (\<lambda>bad.
        if bad then Err InvalidOwnedOrder
        else
        and_then (ok_or RollingConflict (reference_value D input)) (\<lambda>midpoint.
        and_then (map_err (\<lambda>_. RollingConflict) (precision_floor D (md_price instrument) midpoint))
          (\<lambda>anchor_value.
        and_then (map_err (\<lambda>_. RollingConflict) (price_new D anchor_value)) (\<lambda>anchor_price.
        and_then (map_err (\<lambda>_. RollingConflict) (price_new D step_value)) (\<lambda>step.
        Ok \<lparr>ra_revision = pc_revision (pi_config input),
            ra_instrument_generation = in_generation (md_instrument instrument),
            ra_anchor_price = anchor_price, ra_step = step,
            ra_grid_quantity = grid_quantity\<rparr>)))))))"

section \<open>Lanes and levels\<close>

type_synonym lane_levels = "(grid_position \<times> grid_order_role, u64) btree"

definition next_levels :: "'d surface \<Rightarrow> lane_levels" where
  "next_levels surface =
     foldl (\<lambda>levels key.
       let lane = (gk_position key, gk_role key);
           entry = (case bt_lookup levels lane of None \<Rightarrow> 0 | Some l \<Rightarrow> l)
       in bt_insert lane (max entry (gk_level key)) levels) [] (bt_keys surface)"

definition next_level ::
  "lane_levels \<Rightarrow> grid_position \<Rightarrow> grid_order_role
   \<Rightarrow> (u64 \<times> lane_levels, grid_reset_trigger) outcome" where
  "next_level levels position role =
     (let entry = (case bt_lookup levels (position, role) of None \<Rightarrow> 0 | Some l \<Rightarrow> l) in
      and_then (ok_or RollingConflict (checked_add entry 1)) (\<lambda>value.
      Ok (value, bt_insert (position, role) value levels)))"

definition complete_surface_shape :: "'d grid_planner_input \<Rightarrow> 'd surface \<Rightarrow> bool" where
  "complete_surface_shape input surface \<longleftrightarrow>
     list_all (\<lambda>position.
       length (filter (in_lane position Open) (bt_values surface))
         = unat (pc_grid_count (pi_config input))
       \<and> length (filter (in_lane position Close) (bt_values surface))
         \<le> unat (pc_grid_count (pi_config input))) (active_positions input)"

definition cancellation_candidate ::
  "'d decimal_api \<Rightarrow> 'd surface \<Rightarrow> grid_order_key list \<Rightarrow> grid_position \<Rightarrow> grid_order_role
   \<Rightarrow> order_side \<Rightarrow> grid_order_key option" where
  "cancellation_candidate D surface cancellable position role source_side =
     (let candidates = filter (\<lambda>(key, _). key \<in> set cancellable \<and> gk_position key = position
            \<and> gk_role key = role) surface in
      map_option fst
        (case source_side of
           Sell \<Rightarrow> min_by_key (\<lambda>(_, order). price_num D (gi_price order)) candidates
         | Buy \<Rightarrow> max_by_key (\<lambda>(_, order). price_num D (gi_price order)) candidates))"

definition rolling_price ::
  "'d decimal_api \<Rightarrow> 'd surface \<Rightarrow> 'd grid_order_intent \<Rightarrow> grid_order_role \<Rightarrow> 'd price
   \<Rightarrow> ('d price, grid_reset_trigger) outcome" where
  "rolling_price D surface source role step =
     (let source_price = price_value (gi_price source);
          lane = map (\<lambda>x. price_value (gi_price x))
            (filter (in_lane (gk_position (gi_key source)) role) (bt_values surface));
          value =
            (if role = gk_role (gi_key source)
             then (case gi_side source of
                 Sell \<Rightarrow> dec_add D (case max_by_key (dec_value D) lane of
                            None \<Rightarrow> source_price | Some p \<Rightarrow> p) (price_value step)
               | Buy \<Rightarrow> dec_sub D (case min_by_key (dec_value D) lane of
                            None \<Rightarrow> source_price | Some p \<Rightarrow> p) (price_value step))
             else (case gi_side source of
                 Sell \<Rightarrow> dec_sub D source_price (price_value step)
               | Buy \<Rightarrow> dec_add D source_price (price_value step)))
      in and_then (ok_or RollingConflict value) (\<lambda>value.
         map_err (\<lambda>_. RollingConflict) (price_new D value)))"

end
