(* ===== verification/Grid_Rolling.thy ===== *)
theory Grid_Rolling
  imports Grid_Surface Text
begin

text \<open>
  The stateless grid planner, part three: the surface after completed maker fills
  (\<open>rolled_surface\<close> and \<open>restore_close_lanes\<close> of \<open>planner.rs\<close>).
\<close>

section \<open>The evidence of the fills\<close>

type_synonym 'd fill_evidence = "(string, 'd grid_maker_fill) btree \<times> grid_order_key list"

definition collect_fill ::
  "'d decimal_api \<Rightarrow> 'd grid_planner_input \<Rightarrow> 'd fill_evidence \<Rightarrow> 'd grid_maker_fill
   \<Rightarrow> ('d fill_evidence, grid_reset_trigger) outcome" where
  "collect_fill D input state fill =
     (let (fill_ids, completed_sources) = state; source = mf_source_order fill in
      if trim (mf_fill_id fill) = [] \<or> \<not> is_ok (intent_validate D source)
        \<or> gk_epoch (gi_key source) \<noteq> pc_revision (pi_config input) \<or> \<not> mf_maker fill
      then Err ConflictingFillEvidence
      else if (case bt_lookup fill_ids (mf_fill_id fill) of None \<Rightarrow> False
               | Some previous \<Rightarrow> \<not> fill_eq D previous fill)
      then Err ConflictingFillEvidence
      else if gi_key source \<in> set (pi_pending_place_keys input)
        \<or> (mf_complete fill \<and> gi_key source \<in> set completed_sources)
      then Err ConflictingFillEvidence
      else Ok (bt_insert (mf_fill_id fill) fill fill_ids,
               if mf_complete fill then gi_key source # completed_sources
               else completed_sources))"

definition complete_fills :: "(string, 'd grid_maker_fill) btree \<Rightarrow> 'd grid_maker_fill list" where
  "complete_fills fill_ids =
     sort_key (\<lambda>fill. (gi_key (mf_source_order fill), mf_fill_id fill))
       (filter mf_complete (bt_values fill_ids))"

text \<open>The surface as it was before the completed orders left it.\<close>

definition restore_filled ::
  "'d decimal_api \<Rightarrow> 'd surface \<Rightarrow> 'd surface \<Rightarrow> 'd grid_maker_fill
   \<Rightarrow> ('d surface, grid_reset_trigger) outcome" where
  "restore_filled D surface pre_fill fill =
     (let source = mf_source_order fill in
      if bt_contains surface (gi_key source) then Err CompletedFillStillOpen
      else if (case bt_lookup pre_fill (gi_key source) of None \<Rightarrow> False
               | Some existing \<Rightarrow> \<not> intent_eq D existing source)
      then Err ConflictingFillEvidence
      else Ok (bt_insert (gi_key source) source pre_fill))"

section \<open>Rolling one fill\<close>

record 'd roll_state =
  rs_surface :: "'d surface"
  rs_cancellable :: "grid_order_key list"
  rs_levels :: lane_levels
  rs_anchor :: "'d grid_rolling_anchor"
  rs_rolled :: "grid_order_key list"

definition place_rolled ::
  "'d decimal_api \<Rightarrow> 'd grid_planner_input \<Rightarrow> grid_position \<Rightarrow> 'd roll_state
   \<Rightarrow> grid_order_role \<times> 'd price \<Rightarrow> ('d roll_state, grid_reset_trigger) outcome" where
  "place_rolled D input position s lane =
     (let (role, price) = lane in
      and_then (next_level (rs_levels s) position role) (\<lambda>(level, levels).
      and_then (order_at_price D (pc_revision (pi_config input)) position role level price
        (ra_grid_quantity (rs_anchor s))) (\<lambda>order.
      if list_ex (\<lambda>existing. in_lane position role existing
            \<and> price_eq D (gi_price existing) (gi_price order)) (bt_values (rs_surface s))
        \<or> bt_contains (rs_surface s) (gi_key order)
      then Err RollingConflict
      else Ok (s\<lparr>rs_surface := bt_insert (gi_key order) order (rs_surface s),
                rs_levels := levels, rs_rolled := gi_key order # rs_rolled s\<rparr>))))"

definition roll_fill ::
  "'d decimal_api \<Rightarrow> 'd grid_planner_input \<Rightarrow> 'd roll_state \<Rightarrow> 'd grid_maker_fill
   \<Rightarrow> ('d roll_state, grid_reset_trigger) outcome" where
  "roll_fill D input s fill =
     (let source = mf_source_order fill; position = gk_position (gi_key source);
          cancel_role = opposite_role (gk_role (gi_key source)) in
      and_then (ok_or RollingConflict
        (cancellation_candidate D (rs_surface s) (rs_cancellable s) position cancel_role
           (gi_side source))) (\<lambda>cancel_key.
      let cancellable = filter (\<lambda>key. key \<noteq> cancel_key) (rs_cancellable s);
          surface = bt_remove cancel_key (rs_surface s) in
      and_then (try_map (\<lambda>role.
          and_then (rolling_price D surface source role (ra_step (rs_anchor s)))
            (\<lambda>price. Ok (role, price))) [Open, Close]) (\<lambda>prices.
      and_then (normalized_rolled_quantity D input (ra_grid_quantity (rs_anchor s)) prices)
        (\<lambda>quantity.
      try_fold (place_rolled D input position)
        (s\<lparr>rs_surface := surface, rs_cancellable := cancellable,
           rs_anchor := (rs_anchor s)\<lparr>ra_grid_quantity := quantity\<rparr>\<rparr>) prices))))"

text \<open>Every rolled order gets the last normalized quantity.\<close>

definition requantify ::
  "'d \<Rightarrow> 'd surface \<Rightarrow> grid_order_key \<Rightarrow> ('d surface, grid_reset_trigger) outcome" where
  "requantify quantity surface key =
     and_then (ok_or RollingConflict (bt_lookup surface key)) (\<lambda>order.
     Ok (bt_insert key (order\<lparr>gi_quantity := quantity\<rparr>) surface))"

section \<open>Restoring the closing lanes\<close>

definition outward ::
  "'d decimal_api \<Rightarrow> grid_position \<Rightarrow> 'd \<Rightarrow> 'd price \<Rightarrow> 'd option" where
  "outward D position edge step =
     (case position of GLong \<Rightarrow> dec_add D edge (price_value step)
      | GShort \<Rightarrow> dec_sub D edge (price_value step))"

definition outermost :: "'d decimal_api \<Rightarrow> grid_position \<Rightarrow> 'd grid_order_intent list \<Rightarrow> 'd option" where
  "outermost D position orders =
     (let prices = map (\<lambda>x. price_value (gi_price x)) orders in
      case position of GLong \<Rightarrow> max_by_key (dec_value D) prices
      | GShort \<Rightarrow> min_by_key (dec_value D) prices)"

definition restore_close ::
  "'d decimal_api \<Rightarrow> 'd grid_planner_input \<Rightarrow> 'd grid_rolling_anchor \<Rightarrow> grid_position
   \<Rightarrow> 'd \<times> lane_levels \<times> 'd surface \<Rightarrow> nat
   \<Rightarrow> ('d \<times> lane_levels \<times> 'd surface, grid_reset_trigger) outcome" where
  "restore_close D input anchor position state _ =
     (let (edge, levels, surface) = state in
      and_then (ok_or RollingConflict (outward D position edge (ra_step anchor))) (\<lambda>edge.
      and_then (map_err (\<lambda>_. RollingConflict) (price_new D edge)) (\<lambda>price.
      and_then (next_level levels position Close) (\<lambda>(level, levels).
      and_then (order_at_price D (pc_revision (pi_config input)) position Close level price
        (ra_grid_quantity anchor)) (\<lambda>order.
      if bt_contains surface (gi_key order) then Err RollingConflict
      else Ok (edge, levels, bt_insert (gi_key order) order surface))))))"

definition restore_close_lane ::
  "'d decimal_api \<Rightarrow> 'd grid_planner_input \<Rightarrow> 'd grid_rolling_anchor \<Rightarrow> lane_levels \<times> 'd surface
   \<Rightarrow> grid_position \<Rightarrow> (lane_levels \<times> 'd surface, grid_reset_trigger) outcome" where
  "restore_close_lane D input anchor state position =
     (let (levels, surface) = state;
          closes = filter (in_lane position Close) (bt_values surface);
          opens = filter (in_lane position Open) (bt_values surface);
          edge = (case outermost D position closes of
              Some e \<Rightarrow> Some e
            | None \<Rightarrow> Option.bind (outermost D position opens)
                (\<lambda>p. outward D position p (ra_step anchor))) in
      and_then (ok_or IncompleteOwnedSurface edge) (\<lambda>edge.
      and_then (try_fold (restore_close D input anchor position) (edge, levels, surface)
                 [length closes ..< unat (pc_grid_count (pi_config input))])
        (\<lambda>(_, levels, surface). Ok (levels, surface))))"

definition restore_close_lanes ::
  "'d decimal_api \<Rightarrow> 'd grid_planner_input \<Rightarrow> 'd grid_rolling_anchor \<Rightarrow> 'd surface
   \<Rightarrow> ('d surface, grid_reset_trigger) outcome" where
  "restore_close_lanes D input anchor surface =
     and_then (try_fold (restore_close_lane D input anchor) (next_levels surface, surface)
                 (active_positions input))
       (\<lambda>(_, surface). Ok surface)"

section \<open>The rolled surface\<close>

definition roll_fills ::
  "'d decimal_api \<Rightarrow> 'd grid_planner_input \<Rightarrow> 'd grid_rolling_anchor \<Rightarrow> 'd surface \<Rightarrow> 'd surface
   \<Rightarrow> 'd grid_maker_fill list \<Rightarrow> ('d grid_rolling_anchor \<times> 'd surface, grid_reset_trigger) outcome"
  where
  "roll_fills D input anchor surface pre_fill fills =
     and_then (try_fold (roll_fill D input)
         \<lparr>rs_surface = surface,
          rs_cancellable = filter (\<lambda>key. key \<notin> set (pi_pending_place_keys input)) (bt_keys surface),
          rs_levels = next_levels pre_fill, rs_anchor = anchor, rs_rolled = []\<rparr> fills) (\<lambda>s.
     and_then (try_fold (requantify (ra_grid_quantity (rs_anchor s))) (rs_surface s) (rs_rolled s))
       (\<lambda>surface. Ok (rs_anchor s, surface)))"

text \<open>A new placement on the wrong side of the book: a resting order never counts.\<close>

definition placement_crosses ::
  "'d decimal_api \<Rightarrow> 'd grid_planner_input \<Rightarrow> 'd grid_order_intent \<Rightarrow> bool" where
  "placement_crosses D input order \<longleftrightarrow>
     \<not> list_ex (\<lambda>owned. gi_key owned = gi_key order) (pi_owned_orders input)
     \<and> (case pi_book input of None \<Rightarrow> False | Some book \<Rightarrow> crosses_book D order book)"

definition rolled_surface ::
  "'d decimal_api \<Rightarrow> 'd grid_planner_input \<Rightarrow> 'd surface
   \<Rightarrow> ('d grid_rolling_anchor \<times> 'd grid_order_intent list, grid_reset_trigger) outcome" where
  "rolled_surface D input surface =
     (if \<not> list_all (bt_contains surface) (pi_pending_place_keys input)
      then Err ConflictingFillEvidence
      else
      and_then (case pi_rolling_anchor input of
          Some anchor \<Rightarrow> validate_anchor D input anchor
        | None \<Rightarrow> infer_anchor D input surface) (\<lambda>anchor.
      and_then (try_fold (collect_fill D input) ([], []) (pi_maker_fills input)) (\<lambda>(fill_ids, _).
      let fills = complete_fills fill_ids in
      and_then (try_fold (restore_filled D surface) surface fills) (\<lambda>pre_fill.
      if fills \<noteq> [] \<and> \<not> complete_surface_shape input pre_fill then Err IncompleteOwnedSurface
      else if fills = [] \<and> \<not> complete_surface_shape input surface
      then Err IncompleteOwnedSurface
      else
      and_then (roll_fills D input anchor surface pre_fill fills) (\<lambda>(anchor, surface).
      and_then (restore_close_lanes D input anchor surface) (\<lambda>surface.
      and_then (map_err (\<lambda>_. RollingConflict) (clip_close_orders D input (bt_values surface)))
        (\<lambda>desired.
      if list_ex (placement_crosses D input) desired then Err PriceWouldCrossBook
      else
      and_then (map_err (\<lambda>_. InvalidOwnedOrder) (validate_generated_orders D input desired))
        (\<lambda>_. Ok (anchor, desired)))))))))"

end
