(* ===== verification/Grid_Planner.thy ===== *)
theory Grid_Planner
  imports Grid_Rolling
begin

text \<open>
  The stateless grid planner, part four: the directives on exposure and inventory, the plan
  itself, and the semantic coordinates of a desired order.
\<close>

section \<open>Plans\<close>

record grid_semantic_order_key =
  sk_revision :: u64
  sk_position :: grid_position
  sk_role :: grid_order_role
  sk_grid_level :: u8
  sk_sequence :: u64

record 'd grid_inventory_adjustment =
  ga_position :: grid_position
  ga_side :: order_side
  ga_quantity :: 'd
  ga_target_notional :: "'d amount"

record 'd grid_exposure_reduction =
  gx_position :: grid_position
  gx_side :: order_side
  gx_quantity :: 'd
  gx_maximum_notional :: "'d amount"
  gx_close_only :: bool

datatype 'd grid_plan_directive =
  Converge "'d grid_rolling_anchor" "'d grid_order_intent list"
| Replenish "'d grid_inventory_adjustment list" bool bool
| ReduceExposure "'d grid_exposure_reduction list" bool bool
| ResetRequired grid_reset_trigger bool bool bool
| StopPlan bool bool
| Blocked grid_blocked_reason

record 'd grid_plan =
  pl_schema_version :: u16
  pl_instance_id :: string
  pl_revision :: u64
  pl_directive :: "'d grid_plan_directive"

definition plan_with :: "'d grid_planner_input \<Rightarrow> 'd grid_plan_directive \<Rightarrow> 'd grid_plan" where
  "plan_with input directive =
     \<lparr>pl_schema_version = GRID_PLANNER_SCHEMA_VERSION,
      pl_instance_id = pc_instance_id (pi_config input),
      pl_revision = pc_revision (pi_config input),
      pl_directive = directive\<rparr>"

definition reset_plan :: "'d grid_planner_input \<Rightarrow> grid_reset_trigger \<Rightarrow> 'd grid_plan" where
  "reset_plan input trigger = plan_with input (ResetRequired trigger True True True)"

definition blocked_plan :: "'d grid_planner_input \<Rightarrow> grid_blocked_reason \<Rightarrow> 'd grid_plan" where
  "blocked_plan input reason = plan_with input (Blocked reason)"

section \<open>Reduction of profitable exposure\<close>

definition conversion_invalid ::
  "'d decimal_api \<Rightarrow> 'd grid_planner_input \<Rightarrow> 'd grid_risk_facts \<Rightarrow> bool" where
  "conversion_invalid D input risk \<longleftrightarrow>
     (let conversion = rf_conversion risk in
      cv_risk_currency conversion \<noteq> ar_risk_currency (rf_account risk)
      \<or> asset_str (cv_quote_currency conversion) \<noteq> sym_quote (pc_symbol (pi_config input))
      \<or> \<not> dec_positive D (cv_quote_per_risk_unit conversion)
      \<or> cv_private_generation conversion \<noteq> gv_private_generation (pi_inventory input)
      \<or> cv_observed_at_ms conversion = 0
      \<or> pi_now_ms input < cv_observed_at_ms conversion
      \<or> rz_max_private_age_ms (pc_reset_policy (pi_config input))
          < saturating_sub (pi_now_ms input) (cv_observed_at_ms conversion))"

type_synonym 'd leg_map = "(grid_position, 'd leg_risk_snapshot) btree"

text \<open>Errors of this loop are the blocked directive's reason.\<close>

definition collect_leg ::
  "'d decimal_api \<Rightarrow> 'd grid_planner_input \<Rightarrow> 'd grid_risk_facts \<Rightarrow> 'd leg_map
   \<Rightarrow> 'd leg_risk_snapshot \<Rightarrow> ('d leg_map, grid_blocked_reason) outcome" where
  "collect_leg D input risk by_position l =
     (case lr_position_side l of
        NetSide \<Rightarrow> Err InvalidRiskFacts
      | side \<Rightarrow>
        let position = (if side = LongSide then GLong else GShort) in
        if \<not> is_ok (validate_risk_snapshot_pair D (rf_account risk) l (pi_now_ms input)
             (rz_max_private_age_ms (pc_reset_policy (pi_config input))))
          \<or> lr_symbol l \<noteq> pc_symbol (pi_config input)
          \<or> lr_private_generation l \<noteq> gv_private_generation (pi_inventory input)
          \<or> bt_contains by_position position
        then Err InvalidRiskFacts
        else Ok (bt_insert position l by_position))"

definition leg_matches ::
  "'d decimal_api \<Rightarrow> 'd grid_planner_input \<Rightarrow> 'd leg_map \<Rightarrow> grid_position
   \<Rightarrow> (unit, grid_blocked_reason) outcome" where
  "leg_matches D input by_position position =
     (let quantity = inventory_quantity (pi_inventory input) position in
      case bt_lookup by_position position of
        Some l \<Rightarrow> if \<not> dec_eq D (lr_quantity l) quantity then Err InvalidRiskFacts else Ok ()
      | None \<Rightarrow> if dec_positive D quantity then Err MissingRiskFacts else Ok ())"

definition risk_legs ::
  "'d decimal_api \<Rightarrow> 'd grid_planner_input \<Rightarrow> 'd grid_risk_facts
   \<Rightarrow> ('d leg_map, grid_blocked_reason) outcome" where
  "risk_legs D input risk =
     (if ar_private_generation (rf_account risk) \<noteq> gv_private_generation (pi_inventory input)
      then Err InvalidRiskFacts
      else if conversion_invalid D input risk then Err InvalidRiskFacts
      else
      and_then (try_fold (collect_leg D input risk) [] (rf_legs risk)) (\<lambda>by_position.
      and_then (try_fold (\<lambda>_ position. leg_matches D input by_position position) ()
                  (active_positions input)) (\<lambda>_.
      Ok by_position)))"

datatype 'd reduction_step = SkipLeg | BelowMinimum | ReduceLeg "'d grid_exposure_reduction"

definition reduce_leg ::
  "'d decimal_api \<Rightarrow> 'd grid_planner_input \<Rightarrow> 'd grid_profit_reduction_policy \<Rightarrow> 'd grid_risk_facts
   \<Rightarrow> 'd \<Rightarrow> 'd leg_map \<Rightarrow> grid_position \<Rightarrow> ('d reduction_step, grid_planner_error) outcome" where
  "reduce_leg D input policy risk equity_limit by_position position =
     (let instrument = pi_instrument input; mark = gv_mark_price (pi_inventory input) in
      case bt_lookup by_position position of
        None \<Rightarrow> Ok SkipLeg
      | Some l \<Rightarrow>
        and_then (ok_or PE_Arithmetic (dec_div D (lr_unrealized_pnl l) (lr_notional l)))
          (\<lambda>profit_rate.
        if dec_less D (lr_notional l) equity_limit
          \<or> dec_less D profit_rate (pf_minimum_profit_rate policy)
        then Ok SkipLeg
        else
        and_then (ok_or PE_Arithmetic (dec_mul D (lr_notional l) (pf_reduction_fraction policy)))
          (\<lambda>fraction_risk_notional.
        and_then (ok_or PE_Arithmetic
          (dec_mul D fraction_risk_notional (cv_quote_per_risk_unit (rf_conversion risk))))
          (\<lambda>fraction_quote_notional.
        let target_notional =
              dec_least D fraction_quote_notional (am_value (pf_max_single_notional policy)) in
        and_then (quantity_for_notional_floor D instrument (pi_instrument_limits input)
            target_notional mark) (\<lambda>quantity.
        and_then (ok_or PE_Arithmetic
          (dec_sub D (inventory_quantity (pi_inventory input) position)
             (reserved_quantity (pi_other_close_reservations input) position))) (\<lambda>available.
        and_then (map_err (\<lambda>_. PE_Normalization)
          (precision_floor D (md_quantity instrument) (dec_least D quantity available)))
          (\<lambda>quantity.
        and_then (or_else (Ok (\<not> dec_positive D quantity))
          (or_else (and_then (quantity_within_limits D input quantity) (\<lambda>b. Ok (\<not> b)))
             (and_then (raw_quote_notional D instrument quantity mark) (\<lambda>notional.
                Ok (dec_less D notional (am_value (in_minimum_notional (md_instrument instrument))))))))
          (\<lambda>below.
        if below then Ok BelowMinimum
        else Ok (ReduceLeg \<lparr>gx_position = position, gx_side = closing_side position,
                  gx_quantity = quantity, gx_maximum_notional = pf_max_single_notional policy,
                  gx_close_only = True\<rparr>)))))))))"

text \<open>
  The loop over the positions: the first leg below the minimum ends it.  \<open>None\<close> stands for
  that early return.
\<close>

fun collect_reductions ::
  "(grid_position \<Rightarrow> ('d reduction_step, grid_planner_error) outcome) \<Rightarrow> grid_position list
   \<Rightarrow> ('d grid_exposure_reduction list option, grid_planner_error) outcome" where
  "collect_reductions reduce [] = Ok (Some [])"
| "collect_reductions reduce (p # ps) =
     and_then (reduce p) (\<lambda>step.
     case step of
       BelowMinimum \<Rightarrow> Ok None
     | SkipLeg \<Rightarrow> collect_reductions reduce ps
     | ReduceLeg r \<Rightarrow>
         and_then (collect_reductions reduce ps) (\<lambda>rest. Ok (map_option ((#) r) rest)))"

definition reduction_directive ::
  "'d grid_exposure_reduction list option \<Rightarrow> 'd grid_plan_directive option" where
  "reduction_directive reductions =
     (case reductions of
        None \<Rightarrow> Some (Blocked ReductionBelowMinimum)
      | Some rs \<Rightarrow> if rs = [] then None else Some (ReduceExposure rs True True))"

definition exposure_directive ::
  "'d decimal_api \<Rightarrow> 'd grid_planner_input
   \<Rightarrow> ('d grid_plan_directive option, grid_planner_error) outcome" where
  "exposure_directive D input =
     (case pc_profit_reduction (pi_config input) of
        None \<Rightarrow> Ok None
      | Some policy \<Rightarrow>
        case pi_risk input of
          None \<Rightarrow> Ok (Some (Blocked MissingRiskFacts))
        | Some risk \<Rightarrow>
          case risk_legs D input risk of
            Panic \<Rightarrow> Panic
          | Err reason \<Rightarrow> Ok (Some (Blocked reason))
          | Ok by_position \<Rightarrow>
            and_then (ok_or PE_Arithmetic
              (dec_mul D (ar_account_equity (rf_account risk))
                 (pf_inventory_equity_multiple policy))) (\<lambda>equity_limit.
            and_then (collect_reductions (reduce_leg D input policy risk equity_limit by_position)
                        (active_positions input)) (\<lambda>reductions.
            Ok (reduction_directive reductions))))"

section \<open>Replenishment of inventory\<close>

definition replenish_leg ::
  "'d decimal_api \<Rightarrow> 'd grid_planner_input \<Rightarrow> 'd grid_replenishment_policy
   \<Rightarrow> 'd grid_inventory_adjustment list \<Rightarrow> grid_position
   \<Rightarrow> ('d grid_inventory_adjustment list, grid_planner_error) outcome" where
  "replenish_leg D input policy adjustments position =
     (let instrument = pi_instrument input; mark = gv_mark_price (pi_inventory input) in
      and_then (raw_quote_notional D instrument
          (inventory_quantity (pi_inventory input) position) mark) (\<lambda>current_notional.
      if dec_le D (am_value (rl_minimum_leg_notional policy)) current_notional
      then Ok adjustments
      else
      and_then (ok_or PE_Arithmetic
        (dec_sub D (am_value (rl_target_leg_notional policy)) current_notional)) (\<lambda>missing.
      let target = dec_least D missing (am_value (rl_max_single_notional policy)) in
      and_then (quantity_for_notional_ceil D instrument (pi_instrument_limits input)
          (dec_greatest D target (am_value (in_minimum_notional (md_instrument instrument)))) mark)
        (\<lambda>quantity.
      Ok (adjustments @
        [\<lparr>ga_position = position, ga_side = opening_side position, ga_quantity = quantity,
          ga_target_notional =
            amount_new (am_asset (rl_target_leg_notional policy)) target\<rparr>])))))"

definition replenishment_directive ::
  "'d decimal_api \<Rightarrow> 'd grid_planner_input
   \<Rightarrow> ('d grid_plan_directive option, grid_planner_error) outcome" where
  "replenishment_directive D input =
     (case pc_replenishment (pi_config input) of
        None \<Rightarrow> Ok None
      | Some policy \<Rightarrow>
        and_then (try_fold (replenish_leg D input policy) [] (active_positions input))
          (\<lambda>adjustments.
        Ok (if adjustments = [] then None else Some (Replenish adjustments True True))))"

section \<open>The plan\<close>

text \<open>The checks on the reconciler's progress.\<close>

definition convergence_directive ::
  "'d grid_planner_input \<Rightarrow> 'd grid_plan option" where
  "convergence_directive input =
     (let facts = pi_convergence input; policy = pc_reset_policy (pi_config input) in
      if rz_failure_threshold policy \<le> cg_consecutive_failures facts
      then Some (reset_plan input FailureThresholdReached)
      else
      case cg_pending_since_ms facts of
        None \<Rightarrow> None
      | Some pending_since_ms \<Rightarrow>
        if pi_now_ms input < pending_since_ms
        then Some (blocked_plan input InvalidPrivateFacts)
        else if rz_convergence_timeout_ms policy
            \<le> saturating_sub (pi_now_ms input) pending_since_ms
        then Some (reset_plan input ConvergenceTimedOut)
        else None)"

definition converge ::
  "'d decimal_api \<Rightarrow> 'd grid_planner_input \<Rightarrow> 'd surface \<Rightarrow> ('d grid_plan, grid_planner_error) outcome"
  where
  "converge D input surface =
     (let finish = (\<lambda>(rolling_anchor, desired_orders).
            and_then (enforce_maximum_grid_notional D input desired_orders) (\<lambda>_.
            Ok (plan_with input (Converge rolling_anchor desired_orders)))) in
      if surface = [] \<and> pi_maker_fills input = []
      then and_then (initial_surface D input) finish
      else
      case rolled_surface D input surface of
        Ok r \<Rightarrow> finish r
      | Err trigger \<Rightarrow>
          Ok (if trigger = PriceWouldCrossBook then blocked_plan input MakerPriceWouldCrossBook
              else reset_plan input trigger)
      | Panic \<Rightarrow> Panic)"

definition plan ::
  "'d decimal_api \<Rightarrow> 'd grid_planner_input \<Rightarrow> ('d grid_plan, grid_planner_error) outcome" where
  "plan D input =
     and_then (validate_identity (pi_config input)) (\<lambda>_.
     if pi_control input = Stop then Ok (plan_with input (StopPlan True False))
     else if pi_control input = Reset then Ok (reset_plan input Manual)
     else
     and_then (validate_config D (pi_config input)) (\<lambda>_.
     and_then (validate_instrument D (pi_config input) (pi_instrument input)
                 (pi_instrument_limits input)) (\<lambda>_.
     case validate_market_facts D input of
       Some reason \<Rightarrow> Ok (blocked_plan input reason)
     | None \<Rightarrow>
     case validate_private_facts D input of
       Some reason \<Rightarrow> Ok (blocked_plan input reason)
     | None \<Rightarrow>
     case validated_surface D input of
       Panic \<Rightarrow> Panic
     | Err trigger \<Rightarrow> Ok (reset_plan input trigger)
     | Ok surface \<Rightarrow>
     and_then (enforce_maximum_grid_notional D input (bt_values surface)) (\<lambda>_.
     case convergence_directive input of
       Some p \<Rightarrow> Ok p
     | None \<Rightarrow>
     and_then (exposure_directive D input) (\<lambda>exposure.
     case exposure of
       Some directive \<Rightarrow> Ok (plan_with input directive)
     | None \<Rightarrow>
     and_then (replenishment_directive D input) (\<lambda>replenishment.
     case replenishment of
       Some directive \<Rightarrow> Ok (plan_with input directive)
     | None \<Rightarrow> converge D input surface))))))"

section \<open>Semantic coordinates\<close>

definition semantic_lane ::
  "'d decimal_api \<Rightarrow> 'd grid_order_intent list \<Rightarrow> grid_order_key \<Rightarrow> order_side
   \<Rightarrow> 'd grid_order_intent list" where
  "semantic_lane D desired_orders key side =
     sort_key (\<lambda>x. (case side of Buy \<Rightarrow> - price_num D (gi_price x)
                   | Sell \<Rightarrow> price_num D (gi_price x), gk_level (gi_key x)))
       (filter (\<lambda>x. gk_epoch (gi_key x) = gk_epoch key \<and> gk_position (gi_key x) = gk_position key
          \<and> gk_role (gi_key x) = gk_role key) desired_orders)"

text \<open>\<open>Iterator::position\<close> and \<open>u8::try_from(index + 1)\<close>.\<close>

fun index_of :: "('a \<Rightarrow> bool) \<Rightarrow> 'a list \<Rightarrow> nat option" where
  "index_of P [] = None"
| "index_of P (x # xs) = (if P x then Some 0 else map_option Suc (index_of P xs))"

definition u8_try_from :: "nat \<Rightarrow> u8 option" where
  "u8_try_from n = (if n < 256 then Some (of_nat n) else None)"

definition semantic_order_key ::
  "'d decimal_api \<Rightarrow> 'd grid_order_intent list \<Rightarrow> grid_order_key
   \<Rightarrow> (grid_semantic_order_key, grid_planner_error) outcome" where
  "semantic_order_key D desired_orders key =
     and_then (ok_or PE_Normalization (find (\<lambda>x. gi_key x = key) desired_orders)) (\<lambda>target.
     let lane = semantic_lane D desired_orders key (gi_side target) in
     if length lane > unat MAX_GRID_COUNT
       \<or> list_ex (\<lambda>(a, b). price_eq D (gi_price a) (gi_price b)) (pairs lane)
     then Err PE_Normalization
     else
     and_then (ok_or PE_Normalization
       (Option.bind (index_of (\<lambda>x. gi_key x = key) lane) (\<lambda>index. u8_try_from (index + 1))))
       (\<lambda>grid_level.
     Ok \<lparr>sk_revision = gk_epoch key, sk_position = gk_position key, sk_role = gk_role key,
         sk_grid_level = grid_level, sk_sequence = gk_level key\<rparr>))"

end
