(* ===== verification/Grid_Safety.thy ===== *)
theory Grid_Safety
  imports Grid_Planner
begin

text \<open>
  Facts about the plans of \<open>Grid_Planner\<close>: what a plan has passed before it is returned, and
  the limits its orders respect.
\<close>

section \<open>What a plan has passed\<close>

text \<open>The facts a directive other than stop, reset or blocked rests on.\<close>

definition facts_usable :: "'d decimal_api \<Rightarrow> 'd grid_planner_input \<Rightarrow> bool" where
  "facts_usable D input \<longleftrightarrow>
     pi_control input = Run
     \<and> validate_config D (pi_config input) = Ok ()
     \<and> validate_instrument D (pi_config input) (pi_instrument input)
         (pi_instrument_limits input) = Ok ()
     \<and> validate_market_facts D input = None
     \<and> validate_private_facts D input = None
     \<and> (\<exists>surface. validated_surface D input = Ok surface
          \<and> enforce_maximum_grid_notional D input (bt_values surface) = Ok ())
     \<and> convergence_directive input = None"

lemma control_cases: "c = Run \<or> c = Stop \<or> c = Reset"
  by (cases c) auto

lemma active_positions_cases:
  obtains "active_positions input = [GLong, GShort]" | p where "active_positions input = [p]"
  by (cases "pi_net_direction input") (auto simp: active_positions_def)

lemma plan_with_directive [simp]:
  "pl_directive (plan_with input d) = d"
  "pl_instance_id (plan_with input d) = pc_instance_id (pi_config input)"
  "pl_revision (plan_with input d) = pc_revision (pi_config input)"
  by (simp_all add: plan_with_def)

lemma reset_blocked_directive [simp]:
  "pl_directive (reset_plan input t) = ResetRequired t True True True"
  "pl_directive (blocked_plan input r) = Blocked r"
  by (simp_all add: reset_plan_def blocked_plan_def)

definition inert :: "'d grid_plan_directive \<Rightarrow> bool" where
  "inert d = (case d of StopPlan _ _ \<Rightarrow> True | ResetRequired _ _ _ _ \<Rightarrow> True | Blocked _ \<Rightarrow> True
     | _ \<Rightarrow> False)"

lemma convergence_directive_inert:
  "convergence_directive input = Some p \<Longrightarrow> inert (pl_directive p)"
  by (auto simp: convergence_directive_def inert_def Let_def split: option.splits if_splits)

lemma plan_run_cases:
  assumes "plan D input = Ok p" and "\<not> inert (pl_directive p)"
  shows "facts_usable D input \<and>
    ((\<exists>d. exposure_directive D input = Ok (Some d) \<and> p = plan_with input d)
     \<or> exposure_directive D input = Ok None
       \<and> ((\<exists>d. replenishment_directive D input = Ok (Some d) \<and> p = plan_with input d)
          \<or> replenishment_directive D input = Ok None
            \<and> (\<exists>surface. validated_surface D input = Ok surface \<and> converge D input surface = Ok p)))"
proof -
  have run: "pi_control input = Run"
    using assms control_cases [of "pi_control input"]
    by (auto simp: plan_def outcome_simps inert_def)
  show ?thesis
    using assms run convergence_directive_inert
    by (auto simp: plan_def outcome_simps facts_usable_def inert_def
        split: option.splits outcome.splits)
qed

lemma exposure_directive_form:
  "exposure_directive D input = Ok (Some d) \<Longrightarrow> (\<exists>rs. d = ReduceExposure rs True True) \<or> inert d"
  by (auto simp: exposure_directive_def reduction_directive_def outcome_simps inert_def
      split: option.splits outcome.splits if_splits)

lemma replenishment_directive_form:
  "replenishment_directive D input = Ok (Some d) \<Longrightarrow> \<exists>as. d = Replenish as True True \<and> as \<noteq> []"
  by (auto simp: replenishment_directive_def outcome_simps split: option.splits if_splits)

lemma converge_form:
  assumes "converge D input surface = Ok p"
  shows "inert (pl_directive p) \<or> (\<exists>anchor orders. p = plan_with input (Converge anchor orders)
    \<and> enforce_maximum_grid_notional D input orders = Ok ()
    \<and> (if surface = [] \<and> pi_maker_fills input = []
       then initial_surface D input = Ok (anchor, orders)
       else rolled_surface D input surface = Ok (anchor, orders)))"
  using assms
  by (auto simp: converge_def Let_def outcome_simps inert_def split: if_splits outcome.splits)

text \<open>A converging plan comes from the initial or the rolled surface, and passed the notional cap.\<close>

lemma plan_converge:
  assumes "plan D input = Ok p" and "pl_directive p = Converge anchor orders"
  shows "facts_usable D input"
    and "enforce_maximum_grid_notional D input orders = Ok ()"
    and "\<exists>surface. validated_surface D input = Ok surface
      \<and> (if surface = [] \<and> pi_maker_fills input = []
         then initial_surface D input = Ok (anchor, orders)
         else rolled_surface D input surface = Ok (anchor, orders))"
proof -
  have np: "\<not> inert (pl_directive p)" using assms(2) by (simp add: inert_def)
  note c = plan_run_cases [OF assms(1) np]
  have no: "exposure_directive D input \<noteq> Ok (Some (Converge anchor orders))"
    "replenishment_directive D input \<noteq> Ok (Some (Converge anchor orders))"
    using exposure_directive_form replenishment_directive_form
    by (fastforce simp: inert_def)+
  then obtain surface where s: "validated_surface D input = Ok surface"
      "converge D input surface = Ok p"
    using c assms(2) by auto
  show "facts_usable D input" using c by blast
  show "enforce_maximum_grid_notional D input orders = Ok ()"
    using converge_form [OF s(2)] np assms(2) by auto
  show "\<exists>surface. validated_surface D input = Ok surface
      \<and> (if surface = [] \<and> pi_maker_fills input = []
         then initial_surface D input = Ok (anchor, orders)
         else rolled_surface D input surface = Ok (anchor, orders))"
    using converge_form [OF s(2)] np assms(2) s(1) by auto
qed

text \<open>The last steps of both surfaces: clipping to the inventory, then the limits.\<close>

lemma initial_surface_last:
  assumes "initial_surface D input = Ok (anchor, orders)"
  shows "initial_anchor D input = Ok anchor
    \<and> (\<exists>desired. try_map (\<lambda>(position, role, level). order_from_anchor D anchor position role level)
          (grid_coordinates (active_positions input) (unat (pc_grid_count (pi_config input))))
          = Ok desired \<and> clip_close_orders D input desired = Ok orders)
    \<and> validate_generated_orders D input orders = Ok ()"
  using assms by (auto simp: initial_surface_def outcome_simps)

lemma rolled_surface_steps:
  assumes "rolled_surface D input surface = Ok (anchor, orders)"
  obtains anchor0 fill_ids completed pre_fill rolled final where
    "\<forall>key \<in> set (pi_pending_place_keys input). bt_contains surface key"
    "(case pi_rolling_anchor input of Some a \<Rightarrow> validate_anchor D input a
      | None \<Rightarrow> infer_anchor D input surface) = Ok anchor0"
    "try_fold (collect_fill D input) ([], []) (pi_maker_fills input) = Ok (fill_ids, completed)"
    "try_fold (restore_filled D surface) surface (complete_fills fill_ids) = Ok pre_fill"
    "complete_surface_shape input pre_fill"
    "roll_fills D input anchor0 surface pre_fill (complete_fills fill_ids) = Ok (anchor, rolled)"
    "restore_close_lanes D input anchor rolled = Ok final"
    "clip_close_orders D input (bt_values final) = Ok orders"
    "\<not> list_ex (placement_crosses D input) orders"
    "validate_generated_orders D input orders = Ok ()"
  using assms
  by (auto simp: rolled_surface_def outcome_simps Let_def list_all_iff intro: that
      split: if_splits prod.splits)

lemma rolled_surface_last:
  assumes "rolled_surface D input surface = Ok (anchor, orders)"
  shows "(\<exists>desired. clip_close_orders D input desired = Ok orders)
    \<and> validate_generated_orders D input orders = Ok ()
    \<and> \<not> list_ex (placement_crosses D input) orders"
  using rolled_surface_steps [OF assms] by metis

lemma converge_last:
  assumes "plan D input = Ok p" and "pl_directive p = Converge anchor orders"
  shows "validate_generated_orders D input orders = Ok ()"
    and "\<exists>desired. clip_close_orders D input desired = Ok orders"
proof -
  obtain surface where "if surface = [] \<and> pi_maker_fills input = []
      then initial_surface D input = Ok (anchor, orders)
      else rolled_surface D input surface = Ok (anchor, orders)"
    using plan_converge(3) [OF assms] by blast
  then have "initial_surface D input = Ok (anchor, orders)
      \<or> rolled_surface D input surface = Ok (anchor, orders)"
    by (auto split: if_splits)
  then show "validate_generated_orders D input orders = Ok ()"
      and "\<exists>desired. clip_close_orders D input desired = Ok orders"
    using initial_surface_last rolled_surface_last by blast+
qed

section \<open>Limits of the generated orders\<close>

lemma divides_multiple:
  assumes "dec_rem_laws D" and "divides D step v = Ok True"
  shows "multiple_of (dec_value D step) (dec_value D v)"
  using assms by (auto simp: divides_def outcome_simps dec_is_zero_def intro: rem_zero_multiple)

definition within_limits :: "'d decimal_api \<Rightarrow> 'd grid_planner_input \<Rightarrow> 'd grid_order_intent \<Rightarrow> bool" where
  "within_limits D input x \<longleftrightarrow>
     intent_validate D x = Ok ()
     \<and> gk_position (gi_key x) \<in> set (active_positions input)
     \<and> price_num D (lim_minimum_price (pi_instrument_limits input)) \<le> price_num D (gi_price x)
     \<and> price_num D (gi_price x) \<le> price_num D (lim_maximum_price (pi_instrument_limits input))
     \<and> multiple_of (dec_value D (pr_step (md_price (pi_instrument input)))) (price_num D (gi_price x))
     \<and> dec_value D (lim_minimum_quantity (pi_instrument_limits input)) \<le> dec_value D (gi_quantity x)
     \<and> dec_value D (gi_quantity x) \<le> dec_value D (lim_maximum_quantity (pi_instrument_limits input))
     \<and> multiple_of (dec_value D (pr_step (md_quantity (pi_instrument input))))
         (dec_value D (gi_quantity x))"

lemma order_outside_limits_False:
  assumes "dec_rem_laws D" and "order_outside_limits D input x = Ok False"
  shows "within_limits D input x"
  using assms divides_multiple [OF assms(1)]
  by (auto simp: order_outside_limits_def within_limits_def or_else_False and_also_True negated_Ok
      price_within_limits_def quantity_within_limits_def is_ok_iff active_positions_def
      price_num_def dec_le_def Let_def split: option.splits) (metis grid_position.exhaust)+

lemma validate_generated_orders_Ok:
  "validate_generated_orders D input orders = Ok ()
   \<longleftrightarrow> (\<forall>x \<in> set orders.
        order_outside_limits D input x = (Ok False :: (bool, grid_planner_error) outcome))"
  unfolding validate_generated_orders_def try_each_Ok refuse_Ok by (rule refl)

end
