(* ===== verification/Grid_Inventory.thy ===== *)
theory Grid_Inventory
  imports Grid_Safety "HOL-Library.Multiset"
begin

text \<open>
  How much the orders of a plan can trade: the notional of the opening orders stays under the
  configured cap, and the closing orders of a leg never exceed the inventory that is not
  reserved elsewhere.  Both compare exact numbers, so they assume that the decimals involved
  are on a common scale, where rust_decimal adds, subtracts and multiplies without rounding.
\<close>

section \<open>Closing orders and inventory\<close>

definition lane_quantity ::
  "'d decimal_api \<Rightarrow> grid_position \<Rightarrow> grid_order_role \<Rightarrow> 'd grid_order_intent list \<Rightarrow> rat" where
  "lane_quantity D position role orders =
     sum_list (map (\<lambda>x. dec_value D (gi_quantity x)) (filter (in_lane position role) orders))"

definition closable :: "'d decimal_api \<Rightarrow> 'd grid_planner_input \<Rightarrow> grid_position \<Rightarrow> rat" where
  "closable D input position =
     dec_value D (inventory_quantity (pi_inventory input) position)
     - dec_value D (reserved_quantity (pi_other_close_reservations input) position)"

text \<open>The scale the quantities of an input are on.\<close>

definition quantities_on_scale :: "'d decimal_api \<Rightarrow> 'd grid_planner_input \<Rightarrow> nat \<Rightarrow> bool" where
  "quantities_on_scale D input s \<longleftrightarrow>
     on_scale s (dec_value D (pr_step (md_quantity (pi_instrument input))))
     \<and> (\<forall>p. on_scale s (dec_value D (inventory_quantity (pi_inventory input) p))
          \<and> on_scale s (dec_value D (reserved_quantity (pi_other_close_reservations input) p)))"

lemma lane_quantity_append [simp]:
  "lane_quantity D p r (xs @ ys) = lane_quantity D p r xs + lane_quantity D p r ys"
  by (simp add: lane_quantity_def)

lemma lane_quantity_sum:
  "lane_quantity D p r xs =
     \<Sum>\<^sub># (image_mset (\<lambda>x. dec_value D (gi_quantity x)) (filter_mset (in_lane p r) (mset xs)))"
  unfolding lane_quantity_def sum_mset_sum_list [symmetric] mset_map mset_filter ..

lemma lane_quantity_sort [simp]: "lane_quantity D p r (sort_key f xs) = lane_quantity D p r xs"
  by (simp add: lane_quantity_sum)

lemma in_lane_quantity [simp]: "in_lane p r (x\<lparr>gi_quantity := q\<rparr>) = in_lane p r x"
  by (simp add: in_lane_def)

lemma clip_close_order_step:
  assumes laws: "dec_rem_laws D" "dec_exact_laws D" "dec_choice_laws D"
    and scale: "quantities_on_scale D input s"
    and step: "clip_close_order D input (available, acc) x = Ok (available', acc')"
    and avail: "on_scale s (dec_value D available)" "0 \<le> dec_value D available"
  shows "on_scale s (dec_value D available')" and "0 \<le> dec_value D available'"
    and "acc' = acc \<and> available' = available
      \<or> (\<exists>q. acc' = acc @ [x\<lparr>gi_quantity := q\<rparr>]
           \<and> dec_value D available' = dec_value D available - dec_value D q)"
proof -
  obtain q where q: "precision_floor D (md_quantity (pi_instrument input))
        (dec_least D (gi_quantity x) available) = Ok q"
      and rest: "acc' = acc \<and> available' = available
        \<or> dec_sub D available q = Some available' \<and> acc' = acc @ [x\<lparr>gi_quantity := q\<rparr>]"
    using step by (auto simp: clip_close_order_def Let_def outcome_simps split: if_splits)
  have le: "dec_value D (dec_least D (gi_quantity x) available) \<le> dec_value D available"
    using laws(3) by (simp add: dec_choice_laws_def)
  note fl = precision_floor_exact [OF laws(1,2) q _ le avail(1)]
  have st: "on_scale s (dec_value D (pr_step (md_quantity (pi_instrument input))))"
    using scale by (simp add: quantities_on_scale_def)
  have qa: "dec_value D q \<le> dec_value D available" using fl(2) [OF st] le by linarith
  have sc: "on_scale s (dec_value D available - dec_value D q)"
    by (rule on_scale_diff [OF avail(1) fl(3) [OF st] fl(1) [OF st] qa])
  have "dec_value D available' = dec_value D available - dec_value D q"
    if "dec_sub D available q = Some available'"
    using dec_sub_exact [OF laws(2) that on_scale_representable [OF sc]] .
  then show "on_scale s (dec_value D available')" "0 \<le> dec_value D available'"
      "acc' = acc \<and> available' = available
      \<or> (\<exists>q. acc' = acc @ [x\<lparr>gi_quantity := q\<rparr>]
           \<and> dec_value D available' = dec_value D available - dec_value D q)"
    using rest avail sc qa by auto
qed

lemma clip_close_orders_lane:
  assumes laws: "dec_rem_laws D" "dec_exact_laws D" "dec_choice_laws D"
    and scale: "quantities_on_scale D input s"
    and fold: "try_fold (clip_close_order D input) (available, acc) xs = Ok (available', acc')"
    and avail: "on_scale s (dec_value D available)" "0 \<le> dec_value D available"
    and lane: "\<forall>x \<in> set xs. in_lane p Close x"
  shows "lane_quantity D p Close acc' \<le> lane_quantity D p Close acc + dec_value D available"
    and "q \<noteq> p \<Longrightarrow> lane_quantity D q Close acc' = lane_quantity D q Close acc"
    and "\<exists>new. acc' = acc @ new \<and> (\<forall>x \<in> set new. in_lane p Close x) \<and> length new \<le> length xs"
proof -
  let ?inv = "\<lambda>xs av ac. lane_quantity D p Close acc' \<le> lane_quantity D p Close ac + dec_value D av
      \<and> (q \<noteq> p \<longrightarrow> lane_quantity D q Close acc' = lane_quantity D q Close ac)
      \<and> (\<exists>new. acc' = ac @ new \<and> (\<forall>x \<in> set new. in_lane p Close x) \<and> length new \<le> length xs)"
  have "?inv xs available acc" using fold avail lane
  proof (induction xs arbitrary: available acc)
    case Nil
    then show ?case by auto
  next
    case (Cons x xs)
    from Cons.prems(1) obtain av ac where 1: "clip_close_order D input (available, acc) x = Ok (av, ac)"
        and 2: "try_fold (clip_close_order D input) (av, ac) xs = Ok (available', acc')"
      by (auto simp: outcome_simps)
    note st = clip_close_order_step [OF laws scale 1 Cons.prems(2,3)]
    have x: "in_lane p Close x" using Cons.prems(4) by simp
    have ih: "?inv xs av ac" using Cons.IH [OF 2 st(1,2)] Cons.prems(4) by simp
    from st(3) show ?case
    proof (elim disjE exE conjE)
      assume "ac = acc" "av = available"
      then show ?thesis using ih by force
    next
      fix y assume ac: "ac = acc @ [x\<lparr>gi_quantity := y\<rparr>]"
        and av: "dec_value D av = dec_value D available - dec_value D y"
      have "lane_quantity D p Close ac = lane_quantity D p Close acc + dec_value D y"
        using x by (simp add: ac lane_quantity_def)
      moreover have "lane_quantity D q Close ac = lane_quantity D q Close acc" if "q \<noteq> p"
        using x that by (simp add: ac lane_quantity_def in_lane_def)
      moreover obtain new where "acc' = ac @ new" "\<forall>x \<in> set new. in_lane p Close x"
          "length new \<le> length xs"
        using ih by blast
      moreover then have "acc' = acc @ (x\<lparr>gi_quantity := y\<rparr> # new)"
          "\<forall>z \<in> set (x\<lparr>gi_quantity := y\<rparr> # new). in_lane p Close z"
          "length (x\<lparr>gi_quantity := y\<rparr> # new) \<le> length (x # xs)"
        using x ac by auto
      ultimately show ?thesis using ih av by auto
    qed
  qed
  then show "lane_quantity D p Close acc' \<le> lane_quantity D p Close acc + dec_value D available"
    and "q \<noteq> p \<Longrightarrow> lane_quantity D q Close acc' = lane_quantity D q Close acc"
    and "\<exists>new. acc' = acc @ new \<and> (\<forall>x \<in> set new. in_lane p Close x) \<and> length new \<le> length xs"
    by blast+
qed

text \<open>The private facts a planner accepts never reserve more than the inventory.\<close>

lemma private_facts_closable:
  assumes "dec_sign_laws D" and "validate_private_facts D input = None"
  shows "0 \<le> dec_value D (reserved_quantity (pi_other_close_reservations input) p)"
    and "dec_value D (reserved_quantity (pi_other_close_reservations input) p)
      \<le> dec_value D (inventory_quantity (pi_inventory input) p)"
  using assms
  by (cases p; auto simp: validate_private_facts_def Let_def reserved_quantity_def
      inventory_quantity_def dec_less_def dec_sign_laws_def not_less split: if_splits)+

lemma clip_close_lane_bound:
  assumes laws: "dec_rem_laws D" "dec_exact_laws D" "dec_choice_laws D" "dec_sign_laws D"
    and facts: "validate_private_facts D input = None"
    and scale: "quantities_on_scale D input s"
    and clip: "clip_close_lane D input orders acc p = Ok acc'"
  shows "lane_quantity D p Close acc' \<le> lane_quantity D p Close acc + closable D input p"
    and "q \<noteq> p \<Longrightarrow> lane_quantity D q Close acc' = lane_quantity D q Close acc"
    and "\<forall>x \<in> set acc'. x \<in> set acc \<or> in_lane p Close x"
proof -
  obtain available rest where sub: "dec_sub D (inventory_quantity (pi_inventory input) p)
        (reserved_quantity (pi_other_close_reservations input) p) = Some available"
      and fold: "try_fold (clip_close_order D input) (available, acc) (close_lane D p orders)
        = Ok (rest, acc')"
    using clip by (auto simp: clip_close_lane_def outcome_simps)
  have "on_scale s (closable D input p)"
    unfolding closable_def
    using private_facts_closable [OF laws(4) facts] scale
    by (intro on_scale_diff) (simp_all add: quantities_on_scale_def)
  moreover have "dec_value D available = closable D input p"
    unfolding closable_def
    using dec_sub_exact [OF laws(2) sub] calculation on_scale_representable
    by (simp add: closable_def)
  ultimately have avail: "on_scale s (dec_value D available)" "0 \<le> dec_value D available"
      "dec_value D available = closable D input p"
    using private_facts_closable(2) [OF laws(4) facts, of p] by (simp_all add: closable_def)
  have lane: "\<forall>x \<in> set (close_lane D p orders). in_lane p Close x"
    by (simp add: close_lane_def)
  note l = clip_close_orders_lane [OF laws(1-3) scale fold avail(1,2) lane]
  show "lane_quantity D p Close acc' \<le> lane_quantity D p Close acc + closable D input p"
    using l(1) avail(3) by simp
  show "q \<noteq> p \<Longrightarrow> lane_quantity D q Close acc' = lane_quantity D q Close acc" by (rule l(2))
  show "\<forall>x \<in> set acc'. x \<in> set acc \<or> in_lane p Close x" using l(3) by auto
qed

lemma lane_quantity_opens [simp]: "lane_quantity D p Close (filter is_open xs) = 0"
proof -
  have "filter (in_lane p Close) (filter is_open xs) = []"
    by (auto simp: is_open_def in_lane_def filter_empty_conv)
  then show ?thesis by (simp add: lane_quantity_def del: filter_filter)
qed

lemma closable_nonneg:
  "dec_sign_laws D \<Longrightarrow> validate_private_facts D input = None \<Longrightarrow> 0 \<le> closable D input p"
  using private_facts_closable(2) [of D input p] by (simp add: closable_def)

lemma clip_close_orders_bound:
  assumes laws: "dec_rem_laws D" "dec_exact_laws D" "dec_choice_laws D" "dec_sign_laws D"
    and facts: "validate_private_facts D input = None"
    and scale: "quantities_on_scale D input s"
    and clip: "clip_close_orders D input orders = Ok clipped"
  shows "lane_quantity D p Close clipped \<le> closable D input p"
proof -
  obtain closes where fold: "try_fold (clip_close_lane D input orders) [] (active_positions input)
        = Ok closes"
      and clipped: "clipped = sort_key gi_key (filter is_open orders @ closes)"
    using clip by (auto simp: clip_close_orders_def outcome_simps)
  note bound = clip_close_lane_bound [OF laws facts scale]
  have nil: "lane_quantity D q Close [] = 0" for q by (simp add: lane_quantity_def)
  have "lane_quantity D p Close closes \<le> closable D input p"
  proof (cases rule: active_positions_cases [of input])
    case 1
    then obtain mid where m: "clip_close_lane D input orders [] GLong = Ok mid"
        "clip_close_lane D input orders mid GShort = Ok closes"
      using fold by (auto simp: outcome_simps)
    show ?thesis
      using bound(1) [OF m(1)] bound(2) [OF m(1), of GShort] bound(1) [OF m(2)]
        bound(2) [OF m(2), of GLong] nil
      by (cases p) auto
  next
    case (2 q)
    then have m: "clip_close_lane D input orders [] q = Ok closes"
      using fold by (auto simp: outcome_simps)
    show ?thesis
      using bound(1) [OF m] bound(2) [OF m, of p] nil closable_nonneg [OF laws(4) facts, of p]
      by (cases "p = q") auto
  qed
  then show ?thesis by (simp add: clipped)
qed

section \<open>The notional of the opening orders\<close>

text \<open>The quote value of one lot or base unit at a price, and of an order, as exact numbers.\<close>

definition unit_notional :: "'d decimal_api \<Rightarrow> 'd instrument_metadata \<Rightarrow> 'd price \<Rightarrow> rat" where
  "unit_notional D m price =
     (case md_contract m of
        None \<Rightarrow> price_num D price
      | Some c \<Rightarrow> (case ct_value_unit c of
          QuoteUnit \<Rightarrow> dec_value D (ct_value_per_lot c)
        | BaseUnit \<Rightarrow> dec_value D (ct_value_per_lot c) * price_num D price))"

definition order_notional :: "'d decimal_api \<Rightarrow> 'd instrument_metadata \<Rightarrow> 'd grid_order_intent \<Rightarrow> rat" where
  "order_notional D m x = dec_value D (gi_quantity x) * unit_notional D m (gi_price x)"

definition open_notional :: "'d decimal_api \<Rightarrow> 'd instrument_metadata \<Rightarrow> 'd grid_order_intent list \<Rightarrow> rat" where
  "open_notional D m orders = sum_list (map (order_notional D m) (filter is_open orders))"

text \<open>No rounding in the notional of any order, nor in the partial sums.\<close>

definition notionals_representable ::
  "'d decimal_api \<Rightarrow> 'd instrument_metadata \<Rightarrow> 'd grid_order_intent list \<Rightarrow> bool" where
  "notionals_representable D m orders \<longleftrightarrow>
     (let opens = filter is_open orders in
      (\<forall>x \<in> set opens. dec_representable (unit_notional D m (gi_price x))
         \<and> dec_representable (order_notional D m x))
      \<and> (\<forall>n \<le> length opens.
           dec_representable (sum_list (map (order_notional D m) (take n opens)))))"

lemma raw_quote_notional_exact:
  assumes "dec_exact_laws D" and "raw_quote_notional D m q price = Ok v"
    and "dec_representable (unit_notional D m price)"
    and "dec_representable (dec_value D q * unit_notional D m price)"
  shows "dec_value D v = dec_value D q * unit_notional D m price"
proof -
  obtain d where d: "quantity_notional_divisor D m price = Ok d" "dec_mul D q d = Some v"
    using assms(2) by (auto simp: raw_quote_notional_def outcome_simps)
  have "dec_value D d = unit_notional D m price"
    using d(1) assms(1,3) dec_mul_exact [OF assms(1)]
    by (auto simp: quantity_notional_divisor_def unit_notional_def outcome_simps price_num_def
        split: option.splits value_unit.splits)
  then show ?thesis using dec_mul_exact [OF assms(1) d(2)] assms(4) by simp
qed

lemma add_open_notional_fold:
  assumes exact: "dec_exact_laws D"
    and fold: "try_fold (add_open_notional D input) acc xs = Ok result"
    and orders: "\<forall>x \<in> set xs. dec_representable (unit_notional D (pi_instrument input) (gi_price x))
      \<and> dec_representable (order_notional D (pi_instrument input) x)"
    and sums: "\<forall>n \<le> length xs. dec_representable (dec_value D acc
      + sum_list (map (order_notional D (pi_instrument input)) (take n xs)))"
  shows "dec_value D result =
      dec_value D acc + sum_list (map (order_notional D (pi_instrument input)) xs)
    \<and> (xs \<noteq> [] \<longrightarrow>
      dec_value D result \<le> dec_value D (am_value (pc_maximum_grid_notional (pi_config input))))"
  using fold orders sums
proof (induction xs arbitrary: acc)
  case Nil
  then show ?case by simp
next
  case (Cons x xs)
  obtain mid where mid: "add_open_notional D input acc x = Ok mid"
      and rest: "try_fold (add_open_notional D input) mid xs = Ok result"
    using Cons.prems(1) by (auto simp: outcome_simps)
  obtain v where v: "raw_quote_notional D (pi_instrument input) (gi_quantity x) (gi_price x) = Ok v"
      and add: "dec_add D acc v = Some mid"
      and cap: "dec_value D mid \<le> dec_value D (am_value (pc_maximum_grid_notional (pi_config input)))"
    using mid by (auto simp: add_open_notional_def outcome_simps dec_less_def not_less split: if_splits)
  have vv: "dec_value D v = order_notional D (pi_instrument input) x"
    using raw_quote_notional_exact [OF exact v] Cons.prems(2) by (simp add: order_notional_def)
  have "dec_representable (dec_value D acc + dec_value D v)"
    using Cons.prems(3) [rule_format, of 1] by (simp add: vv)
  then have m: "dec_value D mid = dec_value D acc + order_notional D (pi_instrument input) x"
    using dec_add_exact [OF exact add] vv by simp
  have "\<forall>n \<le> length xs. dec_representable (dec_value D mid
      + sum_list (map (order_notional D (pi_instrument input)) (take n xs)))"
  proof (intro allI impI)
    fix n assume "n \<le> length xs"
    then show "dec_representable (dec_value D mid
      + sum_list (map (order_notional D (pi_instrument input)) (take n xs)))"
      using Cons.prems(3) [rule_format, of "Suc n"] by (simp add: m add.assoc)
  qed
  then show ?case
    using Cons.IH [OF rest] Cons.prems(2) m cap rest by (cases xs) auto
qed

lemma enforce_maximum_grid_notional_bound:
  assumes "dec_exact_laws D" "dec_const_laws D"
    and "enforce_maximum_grid_notional D input orders = Ok ()"
    and "notionals_representable D (pi_instrument input) orders"
    and "0 \<le> dec_value D (am_value (pc_maximum_grid_notional (pi_config input)))"
  shows "open_notional D (pi_instrument input) orders
    \<le> dec_value D (am_value (pc_maximum_grid_notional (pi_config input)))"
proof -
  obtain result where
    "try_fold (add_open_notional D input) (dec_zero D) (filter is_open orders) = Ok result"
    using assms(3) by (auto simp: enforce_maximum_grid_notional_def outcome_simps)
  from add_open_notional_fold [OF assms(1) this] show ?thesis
    using assms(2,4,5)
    by (cases "filter is_open orders = []")
      (auto simp: notionals_representable_def open_notional_def Let_def)
qed

end
