(* ===== verification/Grid_Actions.thy ===== *)
theory Grid_Actions
  imports Grid_Inventory
begin

text \<open>
  What the planner's two inventory directives ask for: the reductions of profitable exposure
  and the replenishments of a thin leg, one leg at a time.
\<close>

section \<open>Reductions\<close>

text \<open>A reduction that trades: the closing side, a quantity the venue takes and the leg holds.\<close>

definition reduction_sound ::
  "'d decimal_api \<Rightarrow> 'd grid_planner_input \<Rightarrow> 'd grid_exposure_reduction \<Rightarrow> bool" where
  "reduction_sound D input r \<longleftrightarrow>
     gx_position r \<in> set (active_positions input)
     \<and> gx_side r = closing_side (gx_position r) \<and> gx_close_only r
     \<and> 0 < dec_value D (gx_quantity r)
     \<and> dec_value D (lim_minimum_quantity (pi_instrument_limits input)) \<le> dec_value D (gx_quantity r)
     \<and> dec_value D (gx_quantity r) \<le> dec_value D (lim_maximum_quantity (pi_instrument_limits input))
     \<and> multiple_of (dec_value D (pr_step (md_quantity (pi_instrument input))))
         (dec_value D (gx_quantity r))
     \<and> dec_value D (gx_quantity r) \<le> closable D input (gx_position r)"

text \<open>The evidence that justified it: a leg beyond the equity limit, profitable enough.\<close>

definition reduction_due ::
  "'d decimal_api \<Rightarrow> 'd grid_profit_reduction_policy \<Rightarrow> 'd \<Rightarrow> 'd leg_risk_snapshot \<Rightarrow> bool" where
  "reduction_due D policy equity_limit l \<longleftrightarrow>
     dec_value D equity_limit \<le> dec_value D (lr_notional l)
     \<and> (\<exists>rate. dec_div D (lr_unrealized_pnl l) (lr_notional l) = Some rate
          \<and> dec_value D (pf_minimum_profit_rate policy) \<le> dec_value D rate)"

lemma collect_reductions_member:
  assumes "collect_reductions reduce ps = Ok (Some rs)" and "r \<in> set rs"
  shows "\<exists>p \<in> set ps. reduce p = Ok (ReduceLeg r)"
  using assms
proof (induction ps arbitrary: rs)
  case (Cons p ps)
  then obtain step where step: "reduce p = Ok step" by (auto simp: outcome_simps)
  show ?case
  proof (cases step)
    case (ReduceLeg q)
    then obtain rest where "collect_reductions reduce ps = Ok (Some rest)" "rs = q # rest"
      using Cons.prems(1) step by (auto simp: outcome_simps)
    then show ?thesis using Cons ReduceLeg step by auto
  qed (use Cons step in auto)
qed simp

lemma quantity_within_limits_True:
  assumes "dec_rem_laws D" and "quantity_within_limits D input q = Ok True"
  shows "dec_value D (lim_minimum_quantity (pi_instrument_limits input)) \<le> dec_value D q
    \<and> dec_value D q \<le> dec_value D (lim_maximum_quantity (pi_instrument_limits input))
    \<and> multiple_of (dec_value D (pr_step (md_quantity (pi_instrument input)))) (dec_value D q)"
  using assms divides_multiple [OF assms(1)]
  by (auto simp: quantity_within_limits_def Let_def and_also_True dec_le_def)

lemma reduce_leg_steps:
  assumes "reduce_leg D input policy risk equity_limit legs p = Ok (ReduceLeg r)"
  obtains l available floored where
    "bt_lookup legs p = Some l" "reduction_due D policy equity_limit l"
    "dec_sub D (inventory_quantity (pi_inventory input) p)
       (reserved_quantity (pi_other_close_reservations input) p) = Some available"
    "precision_floor D (md_quantity (pi_instrument input)) (dec_least D floored available)
       = Ok (gx_quantity r)"
    "0 < dec_value D (gx_quantity r)"
    "quantity_within_limits D input (gx_quantity r) = (Ok True :: (bool, grid_planner_error) outcome)"
    "gx_position r = p" "gx_side r = closing_side p" "gx_close_only r"
    "gx_maximum_notional r = pf_max_single_notional policy"
  using assms
  by (auto simp: reduce_leg_def reduction_due_def Let_def outcome_simps or_else_False negated_Ok
      dec_rel_defs not_less intro: that split: option.splits if_splits)

lemma available_closable:
  assumes laws: "dec_exact_laws D" "dec_sign_laws D"
    and facts: "validate_private_facts D input = None"
    and scale: "quantities_on_scale D input s"
    and sub: "dec_sub D (inventory_quantity (pi_inventory input) p)
      (reserved_quantity (pi_other_close_reservations input) p) = Some available"
  shows "dec_value D available = closable D input p" and "on_scale s (closable D input p)"
proof -
  show sc: "on_scale s (closable D input p)"
    unfolding closable_def
    using private_facts_closable [OF laws(2) facts] scale
    by (intro on_scale_diff) (simp_all add: quantities_on_scale_def)
  show "dec_value D available = closable D input p"
    using dec_sub_exact [OF laws(1) sub] on_scale_representable [OF sc] by (simp add: closable_def)
qed

lemma reduce_leg_sound:
  assumes laws: "dec_rem_laws D" "dec_exact_laws D" "dec_choice_laws D" "dec_sign_laws D"
    and facts: "validate_private_facts D input = None"
    and scale: "quantities_on_scale D input s"
    and leg: "reduce_leg D input policy risk equity_limit legs p = Ok (ReduceLeg r)"
    and p: "p \<in> set (active_positions input)"
  shows "reduction_sound D input r"
  using leg
proof (rule reduce_leg_steps)
  fix l available floored
  assume sub: "dec_sub D (inventory_quantity (pi_inventory input) p)
       (reserved_quantity (pi_other_close_reservations input) p) = Some available"
    and fl: "precision_floor D (md_quantity (pi_instrument input)) (dec_least D floored available)
       = Ok (gx_quantity r)"
    and pos: "0 < dec_value D (gx_quantity r)"
    and lim: "quantity_within_limits D input (gx_quantity r) = (Ok True :: (bool, grid_planner_error) outcome)"
    and r: "gx_position r = p" "gx_side r = closing_side p" "gx_close_only r"
  note av = available_closable [OF laws(2,4) facts scale sub]
  have le: "dec_value D (dec_least D floored available) \<le> closable D input p"
    using laws(3) av(1) by (simp add: dec_choice_laws_def)
  have "on_scale s (dec_value D (pr_step (md_quantity (pi_instrument input))))"
    using scale by (simp add: quantities_on_scale_def)
  from precision_floor_exact(2) [OF laws(1,2) fl this le av(2)] le
  have "dec_value D (gx_quantity r) \<le> closable D input p" by linarith
  then show ?thesis
    using pos quantity_within_limits_True [OF laws(1) lim] r p by (simp add: reduction_sound_def)
qed

lemma plan_reduces:
  assumes "plan D input = Ok p" and "pl_directive p = ReduceExposure rs cancel hold"
  obtains policy risk legs equity_limit where
    "facts_usable D input"
    "pc_profit_reduction (pi_config input) = Some policy" "pi_risk input = Some risk"
    "risk_legs D input risk = Ok legs"
    "dec_mul D (ar_account_equity (rf_account risk)) (pf_inventory_equity_multiple policy)
       = Some equity_limit"
    "collect_reductions (reduce_leg D input policy risk equity_limit legs) (active_positions input)
       = Ok (Some rs)"
proof -
  have np: "\<not> inert (pl_directive p)" using assms(2) by (simp add: inert_def)
  note c = plan_run_cases [OF assms(1) np]
  have "replenishment_directive D input \<noteq> Ok (Some (ReduceExposure rs cancel hold))"
    using replenishment_directive_form by fastforce
  moreover have "pl_directive q \<noteq> ReduceExposure rs cancel hold" if "converge D input s = Ok q" for s q
    using converge_form [OF that] by (auto simp: inert_def)
  ultimately have e: "exposure_directive D input = Ok (Some (ReduceExposure rs cancel hold))"
    using c assms(2) by auto
  then show thesis
    using c
    by (auto simp: exposure_directive_def reduction_directive_def outcome_simps intro: that
        split: option.splits outcome.splits if_splits)
qed

section \<open>Replenishments\<close>

text \<open>A replenishment that trades: the opening side, on a leg below its minimum notional.\<close>

definition replenishment_sound ::
  "'d decimal_api \<Rightarrow> 'd grid_planner_input \<Rightarrow> 'd grid_replenishment_policy
   \<Rightarrow> 'd grid_inventory_adjustment \<Rightarrow> bool" where
  "replenishment_sound D input policy a \<longleftrightarrow>
     ga_position a \<in> set (active_positions input)
     \<and> ga_side a = opening_side (ga_position a)
     \<and> (\<exists>current missing.
          raw_quote_notional D (pi_instrument input)
            (inventory_quantity (pi_inventory input) (ga_position a))
            (gv_mark_price (pi_inventory input)) = Ok current
          \<and> dec_value D current < dec_value D (am_value (rl_minimum_leg_notional policy))
          \<and> dec_sub D (am_value (rl_target_leg_notional policy)) current = Some missing
          \<and> dec_value D (am_value (ga_target_notional a))
              = min (dec_value D missing) (dec_value D (am_value (rl_max_single_notional policy))))
     \<and> precision_ok D (md_quantity (pi_instrument input)) (dec_value D (ga_quantity a))
     \<and> dec_value D (lim_minimum_quantity (pi_instrument_limits input)) \<le> dec_value D (ga_quantity a)
     \<and> dec_value D (ga_quantity a) \<le> dec_value D (lim_maximum_quantity (pi_instrument_limits input))"

lemma quantity_for_notional_ceil_Ok:
  assumes "dec_rem_laws D" "dec_choice_laws D"
    and "quantity_for_notional_ceil D m limits notional price = Ok q"
  shows "precision_ok D (md_quantity m) (dec_value D q)
    \<and> dec_value D (lim_minimum_quantity limits) \<le> dec_value D q
    \<and> dec_value D q \<le> dec_value D (lim_maximum_quantity limits)"
  using assms(3) precision_accepts_ok [OF assms(1)] assms(2)
  by (auto simp: quantity_for_notional_ceil_def Let_def outcome_simps dec_less_def not_less
      dec_choice_laws_def split: if_splits)

lemma replenish_leg_steps:
  assumes "replenish_leg D input policy acc p = Ok acc'"
  obtains "acc' = acc"
  | current missing quantity where
    "raw_quote_notional D (pi_instrument input) (inventory_quantity (pi_inventory input) p)
       (gv_mark_price (pi_inventory input)) = Ok current"
    "dec_value D current < dec_value D (am_value (rl_minimum_leg_notional policy))"
    "dec_sub D (am_value (rl_target_leg_notional policy)) current = Some missing"
    "quantity_for_notional_ceil D (pi_instrument input) (pi_instrument_limits input)
       (dec_greatest D (dec_least D missing (am_value (rl_max_single_notional policy)))
         (am_value (in_minimum_notional (md_instrument (pi_instrument input)))))
       (gv_mark_price (pi_inventory input)) = Ok quantity"
    "acc' = acc @ [\<lparr>ga_position = p, ga_side = opening_side p, ga_quantity = quantity,
       ga_target_notional = amount_new (am_asset (rl_target_leg_notional policy))
         (dec_least D missing (am_value (rl_max_single_notional policy)))\<rparr>]"
  using assms
  by (auto simp: replenish_leg_def Let_def outcome_simps dec_le_def not_le intro: that
      split: if_splits)

lemma replenish_leg_sound:
  assumes laws: "dec_rem_laws D" "dec_choice_laws D"
    and leg: "replenish_leg D input policy acc p = Ok acc'"
    and p: "p \<in> set (active_positions input)"
    and acc: "\<forall>a \<in> set acc. replenishment_sound D input policy a"
  shows "\<forall>a \<in> set acc'. replenishment_sound D input policy a"
  using leg
proof (cases rule: replenish_leg_steps)
  case (2 current missing quantity)
  have "dec_value D (dec_least D missing (am_value (rl_max_single_notional policy)))
      = min (dec_value D missing) (dec_value D (am_value (rl_max_single_notional policy)))"
    using laws(2) by (simp add: dec_choice_laws_def)
  then show ?thesis
    using 2(1-3) quantity_for_notional_ceil_Ok [OF laws 2(4)] acc p
    unfolding 2(5) replenishment_sound_def by simp
qed (use acc in simp)

lemma replenish_legs_sound:
  assumes laws: "dec_rem_laws D" "dec_choice_laws D"
    and "try_fold (replenish_leg D input policy) acc ps = Ok acc'"
    and "set ps \<subseteq> set (active_positions input)"
    and "\<forall>a \<in> set acc. replenishment_sound D input policy a"
  shows "\<forall>a \<in> set acc'. replenishment_sound D input policy a"
  using assms(3-5)
proof (induction ps arbitrary: acc)
  case (Cons p ps)
  then obtain mid where leg: "replenish_leg D input policy acc p = Ok mid"
      and rest: "try_fold (replenish_leg D input policy) mid ps = Ok acc'"
    by (auto simp: outcome_simps)
  have p: "p \<in> set (active_positions input)" and ps: "set ps \<subseteq> set (active_positions input)"
    using Cons.prems(2) by auto
  from replenish_leg_sound [OF laws leg p Cons.prems(3)] show ?case
    by (rule Cons.IH [OF rest ps])
qed simp

lemma plan_replenishes:
  assumes "plan D input = Ok p" and "pl_directive p = Replenish adjustments cancel hold"
  obtains policy where
    "facts_usable D input" "exposure_directive D input = Ok None"
    "pc_replenishment (pi_config input) = Some policy"
    "try_fold (replenish_leg D input policy) [] (active_positions input) = Ok adjustments"
    "adjustments \<noteq> []"
proof -
  have np: "\<not> inert (pl_directive p)" using assms(2) by (simp add: inert_def)
  note c = plan_run_cases [OF assms(1) np]
  have "exposure_directive D input \<noteq> Ok (Some (Replenish adjustments cancel hold))"
    using exposure_directive_form by (fastforce simp: inert_def)
  moreover have "pl_directive q \<noteq> Replenish adjustments cancel hold" if "converge D input s = Ok q" for s q
    using converge_form [OF that] by (auto simp: inert_def)
  ultimately have "exposure_directive D input = Ok None"
      "replenishment_directive D input = Ok (Some (Replenish adjustments cancel hold))"
    using c assms(2) by auto
  then show thesis
    using c by (auto simp: replenishment_directive_def outcome_simps intro: that
        split: option.splits if_splits)
qed

section \<open>Semantic levels\<close>

lemma index_of_Some:
  "index_of P xs = Some i \<Longrightarrow> i < length xs \<and> P (xs ! i)"
  by (induction xs arbitrary: i) (auto split: if_splits)

lemma u8_try_from_Some:
  assumes "u8_try_from n = Some w"
  shows "unat w = n"
proof -
  have "n < 2 ^ 8" "w = of_nat n" using assms by (auto simp: u8_try_from_def split: if_splits)
  then show ?thesis using unat_of_nat_small [of n, where 'l = 8] by simp
qed

lemma semantic_order_key_Ok:
  assumes "semantic_order_key D orders key = Ok k"
  obtains target i where
    "target \<in> set orders" "gi_key target = key"
    "length (semantic_lane D orders key (gi_side target)) \<le> 50"
    "i < length (semantic_lane D orders key (gi_side target))"
    "gi_key (semantic_lane D orders key (gi_side target) ! i) = key"
    "unat (sk_grid_level k) = i + 1"
    "sk_revision k = gk_epoch key" "sk_position k = gk_position key" "sk_role k = gk_role key"
    "sk_sequence k = gk_level key"
proof -
  obtain target i where t: "find (\<lambda>x. gi_key x = key) orders = Some target"
      and len: "length (semantic_lane D orders key (gi_side target)) \<le> 50"
      and i: "index_of (\<lambda>x. gi_key x = key) (semantic_lane D orders key (gi_side target)) = Some i"
      and level: "u8_try_from (i + 1) = Some (sk_grid_level k)"
      and k: "sk_revision k = gk_epoch key" "sk_position k = gk_position key"
        "sk_role k = gk_role key" "sk_sequence k = gk_level key"
    using assms
    by (auto simp: semantic_order_key_def Let_def outcome_simps bind_eq_Some_conv MAX_GRID_COUNT_def
        not_less split: if_splits)
  note ii = index_of_Some [OF i]
  have "unat (sk_grid_level k) = i + 1" by (rule u8_try_from_Some [OF level])
  then show thesis
    using t len ii k by (intro that) (auto simp: find_Some_iff)
qed

text \<open>The position of an order in its lane is its level, counted from one.\<close>

lemma semantic_position:
  assumes ok: "semantic_order_key D orders key = Ok k"
    and "distinct (map gi_key orders)" and "x \<in> set orders" and "gi_key x = key"
  shows "\<exists>i. i < length (semantic_lane D orders key (gi_side x))
    \<and> length (semantic_lane D orders key (gi_side x)) \<le> 50
    \<and> semantic_lane D orders key (gi_side x) ! i = x \<and> unat (sk_grid_level k) = i + 1"
proof -
  have same: "y = x" if "y \<in> set orders" "gi_key y = key" for y
    using assms(2-4) that by (auto simp: distinct_map dest: inj_onD)
  have members: "set (semantic_lane D orders key side) \<subseteq> set orders" for side
    by (auto simp: semantic_lane_def)
  from ok show ?thesis
  proof (rule semantic_order_key_Ok)
    fix target i
    assume *: "target \<in> set orders" "gi_key target = key"
      "length (semantic_lane D orders key (gi_side target)) \<le> 50"
      "i < length (semantic_lane D orders key (gi_side target))"
      "gi_key (semantic_lane D orders key (gi_side target) ! i) = key"
      "unat (sk_grid_level k) = i + 1"
    have t: "target = x" by (rule same [OF *(1,2)])
    have "semantic_lane D orders key (gi_side x) ! i \<in> set orders"
      using members nth_mem *(4) t by blast
    then have "semantic_lane D orders key (gi_side x) ! i = x"
      by (rule same) (use *(5) t in simp)
    then show ?thesis using *(3,4,6) unfolding t by blast
  qed
qed

lemma semantic_key_fields:
  assumes "semantic_order_key D orders key = Ok k"
  shows "GridOrderKey (sk_revision k) (sk_position k) (sk_role k) (sk_sequence k) = key"
  using assms by (rule semantic_order_key_Ok) (cases key; simp)

text \<open>A lane is sorted outwards from the market.\<close>

lemma semantic_lane_sorted:
  assumes "i \<le> j" and "j < length (semantic_lane D orders key side)"
  shows "case side of
      Buy \<Rightarrow> price_num D (gi_price (semantic_lane D orders key side ! j))
        \<le> price_num D (gi_price (semantic_lane D orders key side ! i))
    | Sell \<Rightarrow> price_num D (gi_price (semantic_lane D orders key side ! i))
        \<le> price_num D (gi_price (semantic_lane D orders key side ! j))"
proof -
  let ?f = "\<lambda>x. (case side of Buy \<Rightarrow> - price_num D (gi_price x)
    | Sell \<Rightarrow> price_num D (gi_price x), gk_level (gi_key x))"
  let ?lane = "semantic_lane D orders key side"
  have "sorted (map ?f ?lane)" unfolding semantic_lane_def by (rule sorted_sort_key)
  then have "?f (?lane ! i) \<le> ?f (?lane ! j)"
    using sorted_nth_mono [of "map ?f ?lane" i j] assms by simp
  then show ?thesis by (cases side) (auto simp: less_eq_prod_def)
qed

end
