(* ===== verification/Grid_Shape.thy ===== *)
theory Grid_Shape
  imports Grid_Safety "HOL-Library.Sublist" "HOL-Library.Multiset"
begin

text \<open>
  The shape of a rolled surface: every completed fill is replaced, so each active lane keeps
  exactly the configured number of opening orders and never gets more closing ones.  A
  surface is counted by its keys, which determine an order's lane.
\<close>

section \<open>Keys of a surface\<close>

definition surface_ok :: "'d surface \<Rightarrow> bool" where
  "surface_ok s \<longleftrightarrow> bt_ok s \<and> (\<forall>(k, x) \<in> set s. gi_key x = k)"

definition lane_keys :: "grid_position \<Rightarrow> grid_order_role \<Rightarrow> 'd surface \<Rightarrow> grid_order_key set" where
  "lane_keys p r s = {k \<in> set (bt_keys s). gk_position k = p \<and> gk_role k = r}"

definition lane_count ::
  "grid_position \<Rightarrow> grid_order_role \<Rightarrow> 'd grid_order_intent list \<Rightarrow> nat" where
  "lane_count p r orders = length (filter (in_lane p r) orders)"

lemma finite_lane_keys [simp]: "finite (lane_keys p r s)"
  by (simp add: lane_keys_def)

lemma surface_ok_Nil [simp]: "surface_ok []"
  by (simp add: surface_ok_def)

lemma bt_keys_insert [simp]: "set (bt_keys (bt_insert k x s)) = insert k (set (bt_keys s))"
  unfolding bt_keys_def by (rule bt_insert_keys)

lemma bt_keys_remove [simp]: "set (bt_keys (bt_remove k s)) = set (bt_keys s) - {k}"
  by (auto simp: bt_keys_def bt_remove_def)

lemma bt_contains_keys: "bt_contains s k \<longleftrightarrow> k \<in> set (bt_keys s)"
  by (simp add: bt_contains_def bt_lookup_def bt_keys_def map_of_eq_None_iff)

lemma bt_insert_set: "set (bt_insert k x s) \<subseteq> insert (k, x) (set s)"
  by (induction k x s rule: bt_insert.induct) auto

lemma surface_ok_insert: "surface_ok s \<Longrightarrow> gi_key x = k \<Longrightarrow> surface_ok (bt_insert k x s)"
  using bt_insert_set [of k x s] by (auto simp: surface_ok_def bt_insert_ok)

lemma surface_ok_remove: "surface_ok s \<Longrightarrow> surface_ok (bt_remove k s)"
  by (auto simp: surface_ok_def bt_remove_ok) (auto simp: bt_remove_def)

lemma lane_keys_insert:
  "lane_keys p r (bt_insert k x s) =
     (if gk_position k = p \<and> gk_role k = r then insert k (lane_keys p r s) else lane_keys p r s)"
  by (auto simp: lane_keys_def)

lemma lane_keys_remove: "lane_keys p r (bt_remove k s) = lane_keys p r s - {k}"
  by (auto simp: lane_keys_def)

lemma in_lane_key: "in_lane p r x \<longleftrightarrow> gk_position (gi_key x) = p \<and> gk_role (gi_key x) = r"
  by (simp add: in_lane_def)

lemma surface_ok_keys: "surface_ok s \<Longrightarrow> map gi_key (bt_values s) = bt_keys s"
  by (auto simp: surface_ok_def bt_values_def bt_keys_def)

lemma surface_ok_distinct: "surface_ok s \<Longrightarrow> distinct (bt_keys s)"
  by (simp add: surface_ok_def bt_keys_def bt_distinct)

lemma lane_count_card:
  assumes "surface_ok s"
  shows "lane_count p r (bt_values s) = card (lane_keys p r s)"
proof -
  let ?P = "\<lambda>k. gk_position k = p \<and> gk_role k = r"
  have lane: "in_lane p r = ?P \<circ> gi_key" by (auto simp: fun_eq_iff in_lane_def)
  have "lane_count p r (bt_values s) = length (filter ?P (map gi_key (bt_values s)))"
    unfolding lane_count_def lane filter_map length_map ..
  also have "\<dots> = card (set (filter ?P (bt_keys s)))"
    unfolding surface_ok_keys [OF assms]
    by (rule distinct_card [symmetric]) (simp add: surface_ok_distinct [OF assms])
  finally show ?thesis by (simp add: lane_keys_def)
qed

lemma bt_lookup_key: "surface_ok s \<Longrightarrow> bt_lookup s k = Some x \<Longrightarrow> gi_key x = k"
  by (auto simp: surface_ok_def bt_lookup_entries)

section \<open>The owned surface\<close>

lemma add_owned_order_ok:
  assumes "add_owned_order D input (s, seen) x = Ok (s', seen')"
  shows "gi_key x \<notin> set (bt_keys s) \<and> s' = bt_insert (gi_key x) x s \<and> seen' = x # seen"
  using assms
  by (auto simp: add_owned_order_def outcome_simps bt_contains_keys split: if_splits)

lemma validated_surface_ok:
  assumes "validated_surface D input = Ok s"
  shows "surface_ok s"
proof -
  obtain seen where "try_fold (add_owned_order D input) ([], []) (pi_owned_orders input) = Ok (s, seen)"
    using assms by (auto simp: validated_surface_def outcome_simps)
  then have "surface_ok (fst (s, seen))"
    by (rule try_fold_inv [where P = "\<lambda>t. surface_ok (fst t)", rotated])
      (auto dest!: add_owned_order_ok intro: surface_ok_insert)
  then show ?thesis by simp
qed

section \<open>Fills with distinct sources\<close>

text \<open>Two complete fills never name the same order.\<close>

definition fills_ok :: "'d fill_evidence \<Rightarrow> bool" where
  "fills_ok e \<longleftrightarrow>
     (let (fill_ids, completed) = e in
      bt_ok fill_ids
      \<and> (\<forall>(i, f) \<in> set fill_ids. mf_complete f \<longrightarrow> gi_key (mf_source_order f) \<in> set completed)
      \<and> (\<forall>(i, f) \<in> set fill_ids. \<forall>(j, g) \<in> set fill_ids.
           mf_complete f \<longrightarrow> mf_complete g
           \<longrightarrow> gi_key (mf_source_order f) = gi_key (mf_source_order g) \<longrightarrow> i = j))"

lemma fill_eq_complete: "fill_eq D f g \<Longrightarrow> mf_complete f = mf_complete g"
  by (simp add: fill_eq_def)

lemma bt_insert_entries:
  assumes "bt_ok s"
  shows "set (bt_insert k v s) = insert (k, v) {(l, w). (l, w) \<in> set s \<and> l \<noteq> k}"
proof -
  have "(l, w) \<in> set (bt_insert k v s) \<longleftrightarrow> (l, w) = (k, v) \<or> (l, w) \<in> set s \<and> l \<noteq> k" for l w
    unfolding bt_lookup_entries [OF bt_insert_ok [OF assms], symmetric]
      bt_lookup_entries [OF assms, symmetric] by auto
  then show ?thesis by auto
qed

lemma collect_fill_ok:
  assumes ok: "fills_ok (ids, completed)"
    and step: "collect_fill D input (ids, completed) f = Ok (ids', completed')"
  shows "fills_ok (ids', completed')"
proof -
  let ?k = "gi_key (mf_source_order f)"
  have bt: "bt_ok ids" using ok by (simp add: fills_ok_def)
  have fresh: "mf_complete f \<Longrightarrow> ?k \<notin> set completed"
    and ids': "ids' = bt_insert (mf_fill_id f) f ids"
    and completed': "completed' = (if mf_complete f then ?k # completed else completed)"
    using step by (auto simp: collect_fill_def Let_def split: if_splits option.splits)
  have sub: "set completed \<subseteq> set completed'" by (auto simp: completed')
  have ent: "set ids' = insert (mf_fill_id f, f) {(i, g). (i, g) \<in> set ids \<and> i \<noteq> mf_fill_id f}"
    unfolding ids' by (rule bt_insert_entries [OF bt])
  have old: "\<forall>(i, g) \<in> set ids. mf_complete g \<longrightarrow> gi_key (mf_source_order g) \<in> set completed"
    using ok by (simp add: fills_ok_def)
  have "bt_ok ids'" unfolding ids' by (rule bt_insert_ok [OF bt])
  moreover have "\<forall>(i, g) \<in> set ids'. mf_complete g \<longrightarrow> gi_key (mf_source_order g) \<in> set completed'"
    using old sub by (auto simp: ent completed')
  moreover have "\<forall>(i, g) \<in> set ids'. \<forall>(j, h) \<in> set ids'. mf_complete g \<longrightarrow> mf_complete h
      \<longrightarrow> gi_key (mf_source_order g) = gi_key (mf_source_order h) \<longrightarrow> i = j"
    using ok old fresh unfolding ent fills_ok_def Let_def by fastforce
  ultimately show ?thesis by (simp add: fills_ok_def)
qed

lemma collected_fills_distinct:
  assumes "try_fold (collect_fill D input) ([], []) fills = Ok (ids, completed)"
  shows "distinct (map (gi_key \<circ> mf_source_order) (complete_fills ids))"
proof -
  have ok: "fills_ok (ids, completed)"
    using assms
    by (rule try_fold_inv [where P = fills_ok, rotated])
      (auto simp: fills_ok_def [of "([], [])"] intro: collect_fill_ok)
  have d: "distinct (map fst ids)" using ok by (simp add: fills_ok_def bt_distinct)
  have "inj_on (gi_key \<circ> mf_source_order \<circ> snd) (set (filter (mf_complete \<circ> snd) ids))"
  proof (rule inj_onI)
    fix a b assume a: "a \<in> set (filter (mf_complete \<circ> snd) ids)"
      and b: "b \<in> set (filter (mf_complete \<circ> snd) ids)"
      and eq: "(gi_key \<circ> mf_source_order \<circ> snd) a = (gi_key \<circ> mf_source_order \<circ> snd) b"
    have "\<forall>(i, f) \<in> set ids. \<forall>(j, g) \<in> set ids. mf_complete f \<longrightarrow> mf_complete g
        \<longrightarrow> gi_key (mf_source_order f) = gi_key (mf_source_order g) \<longrightarrow> i = j"
      using ok by (simp add: fills_ok_def)
    then have "fst a = fst b" using a b eq by (cases a; cases b) force
    then show "a = b"
      using a b eq_key_imp_eq_value [OF d, of "fst a" "snd a" "snd b"]
      by (cases a; cases b) simp
  qed
  then have "distinct (map (gi_key \<circ> mf_source_order \<circ> snd) (filter (mf_complete \<circ> snd) ids))"
    using d by (simp add: distinct_map)
  then have "distinct (map (gi_key \<circ> mf_source_order) (filter mf_complete (bt_values ids)))"
    by (simp add: bt_values_def filter_map comp_assoc)
  then show ?thesis
    by (simp add: complete_fills_def distinct_map)
qed

section \<open>Rolling\<close>

lemma card_keys_insert:
  assumes "k \<notin> set (bt_keys s)"
  shows "card (lane_keys p r (bt_insert k x s)) =
    card (lane_keys p r s) + (if gk_position k = p \<and> gk_role k = r then 1 else 0)"
proof -
  have "k \<notin> lane_keys p r s" using assms by (simp add: lane_keys_def)
  then show ?thesis by (simp add: lane_keys_insert)
qed

lemma card_keys_remove:
  assumes "k \<in> set (bt_keys s)"
  shows "card (lane_keys p r s) = card (lane_keys p r (bt_remove k s))
    + (if gk_position k = p \<and> gk_role k = r then 1 else 0)"
proof (cases "gk_position k = p \<and> gk_role k = r")
  case True
  then have "k \<in> lane_keys p r s" using assms by (simp add: lane_keys_def)
  then show ?thesis using True card_Suc_Diff1 [of "lane_keys p r s" k]
    by (simp add: lane_keys_remove)
next
  case False
  then have "k \<notin> lane_keys p r s" by (simp add: lane_keys_def)
  then show ?thesis using False by (simp add: lane_keys_remove)
qed

lemma order_at_price_Ok:
  assumes "order_at_price D revision position role level price quantity = Ok x"
  shows "gi_key x = GridOrderKey revision position role level" and "gi_price x = price"
    and "gi_quantity x = quantity" and "intent_validate D x = Ok ()"
  using assms by (auto simp: order_at_price_def Let_def outcome_simps)

lemma place_rolled_ok:
  assumes "place_rolled D input position s (role, price) = Ok s'" and "surface_ok (rs_surface s)"
  shows "surface_ok (rs_surface s')"
    and "card (lane_keys p r (rs_surface s')) = card (lane_keys p r (rs_surface s))
      + (if position = p \<and> role = r then 1 else 0)"
    and "rs_anchor s' = rs_anchor s"
proof -
  obtain level levels x where x: "order_at_price D (pc_revision (pi_config input)) position role
        level price (ra_grid_quantity (rs_anchor s)) = Ok x"
      and fresh: "gi_key x \<notin> set (bt_keys (rs_surface s))"
      and s': "s' = s\<lparr>rs_surface := bt_insert (gi_key x) x (rs_surface s),
                 rs_levels := levels, rs_rolled := gi_key x # rs_rolled s\<rparr>"
    using assms(1)
    by (auto simp: place_rolled_def outcome_simps bt_contains_keys split: if_splits prod.splits)
  show "surface_ok (rs_surface s')" using assms(2) by (simp add: s' surface_ok_insert)
  show "card (lane_keys p r (rs_surface s')) = card (lane_keys p r (rs_surface s))
      + (if position = p \<and> role = r then 1 else 0)"
    using card_keys_insert [OF fresh] order_at_price_Ok(1) [OF x] by (simp add: s')
  show "rs_anchor s' = rs_anchor s" by (simp add: s')
qed

lemma cancellation_candidate_in:
  assumes "cancellation_candidate D surface cancellable position role side = Some k"
  shows "k \<in> set (bt_keys surface)" and "k \<in> set cancellable"
    and "gk_position k = position" and "gk_role k = role"
  using assms
  by (auto simp: cancellation_candidate_def Let_def bt_keys_def split: order_side.splits
      dest!: min_by_key_in max_by_key_in intro: rev_image_eqI)

lemma roll_fill_ok:
  assumes step: "roll_fill D input s f = Ok s'" and ok: "surface_ok (rs_surface s)"
  shows "surface_ok (rs_surface s')"
    and "card (lane_keys p r (rs_surface s')) = card (lane_keys p r (rs_surface s))
      + (if in_lane p r (mf_source_order f) then 1 else 0)"
    and "ra_step (rs_anchor s') = ra_step (rs_anchor s)"
proof -
  let ?src = "gi_key (mf_source_order f)"
  obtain c prices q where c: "cancellation_candidate D (rs_surface s) (rs_cancellable s)
        (gk_position ?src) (opposite_role (gk_role ?src)) (gi_side (mf_source_order f)) = Some c"
      and prices: "try_map (\<lambda>role.
          and_then (rolling_price D (bt_remove c (rs_surface s)) (mf_source_order f) role
            (ra_step (rs_anchor s))) (\<lambda>price. Ok (role, price))) [Open, Close] = Ok prices"
      and fold: "try_fold (place_rolled D input (gk_position ?src))
        (s\<lparr>rs_surface := bt_remove c (rs_surface s),
           rs_cancellable := filter (\<lambda>key. key \<noteq> c) (rs_cancellable s),
           rs_anchor := (rs_anchor s)\<lparr>ra_grid_quantity := q\<rparr>\<rparr>) prices = Ok s'"
    using step unfolding roll_fill_def Let_def outcome_simps by blast
  obtain po pc where p: "prices = [(Open, po), (Close, pc)]"
    using prices by (auto simp: outcome_simps)
  define t where "t = s\<lparr>rs_surface := bt_remove c (rs_surface s),
           rs_cancellable := filter (\<lambda>key. key \<noteq> c) (rs_cancellable s),
           rs_anchor := (rs_anchor s)\<lparr>ra_grid_quantity := q\<rparr>\<rparr>"
  obtain u where u: "place_rolled D input (gk_position ?src) t (Open, po) = Ok u"
      "place_rolled D input (gk_position ?src) u (Close, pc) = Ok s'"
    using fold unfolding p t_def by (auto simp: outcome_simps)
  have t: "surface_ok (rs_surface t)" "rs_surface t = bt_remove c (rs_surface s)"
      "ra_step (rs_anchor t) = ra_step (rs_anchor s)"
    using ok by (simp_all add: t_def surface_ok_remove)
  note a = place_rolled_ok [OF u(1) t(1)]
  note b = place_rolled_ok [OF u(2) a(1)]
  note cc = cancellation_candidate_in [OF c]
  show "surface_ok (rs_surface s')" by (rule b(1))
  show "ra_step (rs_anchor s') = ra_step (rs_anchor s)" using a(3) b(3) t(3) by simp
  show "card (lane_keys p r (rs_surface s')) = card (lane_keys p r (rs_surface s))
      + (if in_lane p r (mf_source_order f) then 1 else 0)"
    using a(2) [of p r] b(2) [of p r] card_keys_remove [OF cc(1), of p r] cc(3,4)
    by (cases "gk_role ?src"; cases r) (auto simp: t(2) in_lane_def opposite_role_def)
qed

lemma roll_fills_fold:
  assumes "try_fold (roll_fill D input) s fills = Ok s'" and "surface_ok (rs_surface s)"
  shows "surface_ok (rs_surface s')
    \<and> card (lane_keys p r (rs_surface s')) = card (lane_keys p r (rs_surface s))
        + lane_count p r (map mf_source_order fills)
    \<and> ra_step (rs_anchor s') = ra_step (rs_anchor s)"
  using assms
proof (induction fills arbitrary: s)
  case Nil
  then show ?case by (simp add: lane_count_def)
next
  case (Cons f fills)
  then obtain u where u: "roll_fill D input s f = Ok u" "try_fold (roll_fill D input) u fills = Ok s'"
    by (auto simp: outcome_simps)
  note a = roll_fill_ok [OF u(1) Cons.prems(2)]
  show ?case using Cons.IH [OF u(2) a(1)] a(2) [of p r] a(3) by (simp add: lane_count_def)
qed

lemma requantify_ok:
  assumes "requantify q s k = Ok s'" and "surface_ok s"
  shows "surface_ok s' \<and> lane_keys p r s' = lane_keys p r s"
proof -
  obtain x where x: "bt_lookup s k = Some x" "s' = bt_insert k (x\<lparr>gi_quantity := q\<rparr>) s"
    using assms(1) by (auto simp: requantify_def outcome_simps)
  have "k \<in> set (bt_keys s)" using x(1) by (metis bt_contains_def bt_contains_keys option.distinct(1))
  then show ?thesis
    using bt_lookup_key [OF assms(2) x(1)] assms(2)
    by (auto simp: x(2) surface_ok_insert lane_keys_def)
qed

lemma requantify_fold:
  "try_fold (requantify q) s ks = Ok s' \<Longrightarrow> surface_ok s
   \<Longrightarrow> surface_ok s' \<and> lane_keys p r s' = lane_keys p r s"
proof (induction ks arbitrary: s)
  case Nil
  then show ?case by simp
next
  case (Cons k ks)
  then obtain u where "requantify q s k = Ok u" "try_fold (requantify q) u ks = Ok s'"
    by (auto simp: outcome_simps)
  then show ?case using Cons.IH [of u] requantify_ok [of q s k u p r] Cons.prems(2) by simp
qed

lemma roll_fills_count:
  assumes "roll_fills D input anchor s pre fills = Ok (anchor', s')" and "surface_ok s"
  shows "surface_ok s'"
    and "card (lane_keys p r s') =
      card (lane_keys p r s) + lane_count p r (map mf_source_order fills)"
    and "ra_step anchor' = ra_step anchor"
proof -
  obtain t where t: "try_fold (roll_fill D input)
         \<lparr>rs_surface = s,
          rs_cancellable = filter (\<lambda>key. key \<notin> set (pi_pending_place_keys input)) (bt_keys s),
          rs_levels = next_levels pre, rs_anchor = anchor, rs_rolled = []\<rparr> fills = Ok t"
      and req: "try_fold (requantify (ra_grid_quantity (rs_anchor t))) (rs_surface t) (rs_rolled t)
        = Ok s'" and anchor': "anchor' = rs_anchor t"
    using assms(1) by (auto simp: roll_fills_def outcome_simps)
  have f: "surface_ok (rs_surface t) \<and> card (lane_keys p r (rs_surface t)) =
      card (lane_keys p r s) + lane_count p r (map mf_source_order fills)
      \<and> ra_step (rs_anchor t) = ra_step anchor"
    using roll_fills_fold [OF t, of p r] assms(2) by simp
  then show "surface_ok s'"
      "card (lane_keys p r s') =
        card (lane_keys p r s) + lane_count p r (map mf_source_order fills)"
      "ra_step anchor' = ra_step anchor"
    using requantify_fold [OF req, of p r] anchor' by auto
qed

section \<open>The surface before the fills\<close>

lemma restore_filled_fold:
  assumes "try_fold (restore_filled D s) pre fills = Ok pre'" and "surface_ok pre"
  shows "surface_ok pre'
    \<and> set (bt_keys pre') = set (bt_keys pre) \<union> set (map (gi_key \<circ> mf_source_order) fills)
    \<and> (\<forall>f \<in> set fills. gi_key (mf_source_order f) \<notin> set (bt_keys s))"
  using assms
proof (induction fills arbitrary: pre)
  case Nil
  then show ?case by simp
next
  case (Cons f fills)
  obtain u where u: "restore_filled D s pre f = Ok u" "try_fold (restore_filled D s) u fills = Ok pre'"
    using Cons.prems(1) by (auto simp: outcome_simps)
  have "u = bt_insert (gi_key (mf_source_order f)) (mf_source_order f) pre"
      "gi_key (mf_source_order f) \<notin> set (bt_keys s)"
    using u(1) by (auto simp: restore_filled_def Let_def bt_contains_keys
        split: if_splits option.splits)
  then show ?case using Cons.IH [OF u(2)] Cons.prems(2) by (auto simp: surface_ok_insert)
qed

lemma lane_count_distinct:
  assumes "distinct (map gi_key orders)"
  shows "lane_count p r orders = card {k \<in> gi_key ` set orders. gk_position k = p \<and> gk_role k = r}"
proof -
  have "lane_count p r orders = card (gi_key ` set (filter (in_lane p r) orders))"
    unfolding lane_count_def
    using assms distinct_card [of "map gi_key (filter (in_lane p r) orders)"]
    by (simp add: distinct_map_filter)
  also have "gi_key ` set (filter (in_lane p r) orders)
      = {k \<in> gi_key ` set orders. gk_position k = p \<and> gk_role k = r}"
    by (auto simp: in_lane_def)
  finally show ?thesis .
qed

text \<open>Filling an order is taking it off the surface: nothing else changes.\<close>

lemma pre_fill_count:
  assumes ok: "surface_ok s"
    and fold: "try_fold (restore_filled D s) s fills = Ok pre"
    and distinct: "distinct (map (gi_key \<circ> mf_source_order) fills)"
  shows "card (lane_keys p r pre) = card (lane_keys p r s) + lane_count p r (map mf_source_order fills)"
    and "surface_ok pre"
proof -
  note f = restore_filled_fold [OF fold ok]
  let ?K = "{k \<in> gi_key ` set (map mf_source_order fills). gk_position k = p \<and> gk_role k = r}"
  have "lane_keys p r pre = lane_keys p r s \<union> ?K"
    using f by (auto simp: lane_keys_def)
  moreover have "lane_keys p r s \<inter> ?K = {}"
    using f by (auto simp: lane_keys_def)
  moreover have "lane_count p r (map mf_source_order fills) = card ?K"
    by (rule lane_count_distinct) (use distinct in simp)
  ultimately show "card (lane_keys p r pre) =
      card (lane_keys p r s) + lane_count p r (map mf_source_order fills)"
    by (simp add: card_Un_disjoint)
  show "surface_ok pre" using f by blast
qed

section \<open>Restoring the closing lanes\<close>

lemma restore_close_ok:
  assumes "restore_close D input anchor position (edge, levels, s) n = Ok (edge', levels', s')"
    and "surface_ok s"
  shows "surface_ok s'" and "card (lane_keys p r s') =
    card (lane_keys p r s) + (if p = position \<and> r = Close then 1 else 0)"
proof -
  obtain price level x where x: "order_at_price D (pc_revision (pi_config input)) position Close level
        price (ra_grid_quantity anchor) = Ok x"
      and fresh: "gi_key x \<notin> set (bt_keys s)" and s': "s' = bt_insert (gi_key x) x s"
    using assms(1)
    by (auto simp: restore_close_def outcome_simps bt_contains_keys split: if_splits prod.splits)
  show "surface_ok s'" using assms(2) by (simp add: s' surface_ok_insert)
  show "card (lane_keys p r s') =
    card (lane_keys p r s) + (if p = position \<and> r = Close then 1 else 0)"
    using card_keys_insert [OF fresh] order_at_price_Ok(1) [OF x] by (auto simp: s')
qed

lemma restore_close_fold:
  assumes "try_fold (restore_close D input anchor position) (edge, levels, s) ns
      = Ok (edge', levels', s')"
    and "surface_ok s"
  shows "surface_ok s' \<and> card (lane_keys p r s') =
    card (lane_keys p r s) + (if p = position \<and> r = Close then length ns else 0)"
  using assms
proof (induction ns arbitrary: edge levels s)
  case Nil
  then show ?case by simp
next
  case (Cons n ns)
  obtain e l u where u: "restore_close D input anchor position (edge, levels, s) n = Ok (e, l, u)"
      "try_fold (restore_close D input anchor position) (e, l, u) ns = Ok (edge', levels', s')"
    using Cons.prems(1) by (auto simp: outcome_simps)
  note a = restore_close_ok [OF u(1) Cons.prems(2)]
  show ?case using Cons.IH [OF u(2) a(1)] a(2) [of p r] by auto
qed

lemma restore_close_lane_ok:
  assumes step: "restore_close_lane D input anchor (levels, s) position = Ok (levels', s')"
    and ok: "surface_ok s"
  defines "n \<equiv> unat (pc_grid_count (pi_config input))"
  shows "surface_ok s'" and "card (lane_keys p r s') =
    (if p = position \<and> r = Close then max n (card (lane_keys p r s)) else card (lane_keys p r s))"
proof -
  obtain edge edge' where "try_fold (restore_close D input anchor position) (edge, levels, s)
      [lane_count position Close (bt_values s) ..< n] = Ok (edge', levels', s')"
    using step
    by (auto simp: restore_close_lane_def outcome_simps Let_def lane_count_def n_def split: prod.splits)
  from restore_close_fold [OF this ok, of p r]
  show "surface_ok s'" and "card (lane_keys p r s') =
    (if p = position \<and> r = Close then max n (card (lane_keys p r s)) else card (lane_keys p r s))"
    by (auto simp: lane_count_card [OF ok])
qed

lemma restore_close_lanes_ok:
  assumes step: "restore_close_lanes D input anchor s = Ok s'" and ok: "surface_ok s"
    and few: "card (lane_keys p Close s) \<le> unat (pc_grid_count (pi_config input))"
  shows "surface_ok s'" and "card (lane_keys p Open s') = card (lane_keys p Open s)"
    and "card (lane_keys p Close s') \<le> unat (pc_grid_count (pi_config input))"
proof -
  obtain levels where fold: "try_fold (restore_close_lane D input anchor) (next_levels s, s)
      (active_positions input) = Ok (levels, s')"
    using step by (auto simp: restore_close_lanes_def outcome_simps)
  have "surface_ok (snd (levels, s')) \<and> card (lane_keys p Open (snd (levels, s'))) = card (lane_keys p Open s)
      \<and> card (lane_keys p Close (snd (levels, s'))) \<le> unat (pc_grid_count (pi_config input))"
    using _ fold
  proof (rule try_fold_inv)
    fix st position st'
    assume inv: "surface_ok (snd st) \<and> card (lane_keys p Open (snd st)) = card (lane_keys p Open s)
        \<and> card (lane_keys p Close (snd st)) \<le> unat (pc_grid_count (pi_config input))"
      and "restore_close_lane D input anchor st position = Ok st'"
    then show "surface_ok (snd st') \<and> card (lane_keys p Open (snd st')) = card (lane_keys p Open s)
        \<and> card (lane_keys p Close (snd st')) \<le> unat (pc_grid_count (pi_config input))"
      using restore_close_lane_ok [of D input anchor "fst st" "snd st" position "fst st'" "snd st'"]
      by (cases st; cases st') auto
  qed (use ok few in simp)
  then show "surface_ok s'" and "card (lane_keys p Open s') = card (lane_keys p Open s)"
    and "card (lane_keys p Close s') \<le> unat (pc_grid_count (pi_config input))"
    by simp_all
qed

section \<open>Clipping\<close>

lemma clip_close_order_keys:
  assumes "clip_close_order D input (available, acc) x = Ok (available', acc')"
  shows "acc' = acc \<or> (\<exists>q. acc' = acc @ [x\<lparr>gi_quantity := q\<rparr>])"
  using assms by (auto simp: clip_close_order_def Let_def outcome_simps split: if_splits)

lemma clip_close_fold_keys:
  assumes "try_fold (clip_close_order D input) (available, acc) xs = Ok (available', acc')"
  shows "\<exists>new. acc' = acc @ new \<and> subseq (map gi_key new) (map gi_key xs)"
  using assms
proof (induction xs arbitrary: available acc)
  case Nil
  then show ?case by simp
next
  case (Cons x xs)
  obtain av ac where u: "clip_close_order D input (available, acc) x = Ok (av, ac)"
      "try_fold (clip_close_order D input) (av, ac) xs = Ok (available', acc')"
    using Cons.prems by (auto simp: outcome_simps)
  obtain new where new: "acc' = ac @ new" "subseq (map gi_key new) (map gi_key xs)"
    using Cons.IH [OF u(2)] by blast
  from clip_close_order_keys [OF u(1)] show ?case
  proof (elim disjE exE)
    assume "ac = acc"
    then show ?thesis using new by (auto intro: list_emb_Cons)
  next
    fix q assume "ac = acc @ [x\<lparr>gi_quantity := q\<rparr>]"
    then have "acc' = acc @ (x\<lparr>gi_quantity := q\<rparr> # new)" using new by simp
    moreover have "subseq (map gi_key (x\<lparr>gi_quantity := q\<rparr> # new)) (map gi_key (x # xs))"
      using new by simp
    ultimately show ?thesis by blast
  qed
qed

lemma subseq_elements:
  "subseq xs ys \<Longrightarrow> set xs \<subseteq> set ys \<and> (distinct ys \<longrightarrow> distinct xs)"
  by (induction rule: list_emb.induct) auto

lemma distinct_keys_sort [simp]:
  "distinct (map gi_key (sort_key f xs)) = distinct (map gi_key xs)"
  by (simp add: distinct_map)

lemma clip_close_lane_keys:
  assumes "clip_close_lane D input orders acc position = Ok acc'"
  shows "\<exists>new. acc' = acc @ new \<and> (\<forall>x \<in> set new. in_lane position Close x)
    \<and> length new \<le> lane_count position Close orders
    \<and> (distinct (map gi_key orders) \<longrightarrow> distinct (map gi_key new))"
proof -
  let ?lane = "close_lane D position orders"
  obtain av rest where "try_fold (clip_close_order D input) (av, acc) ?lane = Ok (rest, acc')"
    using assms by (auto simp: clip_close_lane_def outcome_simps)
  from clip_close_fold_keys [OF this] obtain new where new: "acc' = acc @ new"
      and sub: "subseq (map gi_key new) (map gi_key ?lane)"
    by blast
  have lane: "gi_key ` set new \<subseteq> gi_key ` set ?lane"
    using subseq_elements [OF sub] by simp
  have "in_lane position Close x" if x: "x \<in> set new" for x
  proof -
    obtain y where "y \<in> set ?lane" "gi_key y = gi_key x" using lane x by force
    then show ?thesis by (simp add: close_lane_def in_lane_def)
  qed
  moreover have "length new \<le> lane_count position Close orders"
    using list_emb_length [OF sub] by (simp add: close_lane_def lane_count_def)
  moreover have "distinct (map gi_key orders) \<Longrightarrow> distinct (map gi_key new)"
    using subseq_elements [OF sub] by (simp add: close_lane_def distinct_map_filter)
  ultimately show ?thesis using new by blast
qed

lemma lane_count_append [simp]: "lane_count p r (xs @ ys) = lane_count p r xs + lane_count p r ys"
  by (simp add: lane_count_def)

lemma lane_count_sort [simp]: "lane_count p r (sort_key f xs) = lane_count p r xs"
  unfolding lane_count_def by (metis mset_filter mset_sort size_mset)

lemma lane_count_opens [simp]:
  "lane_count p Open (filter is_open xs) = lane_count p Open xs"
  "lane_count p Close (filter is_open xs) = 0"
  by (induction xs) (auto simp: lane_count_def is_open_def in_lane_def)

lemma lane_count_other:
  assumes "\<forall>x \<in> set xs. in_lane q Close x"
  shows "lane_count p Open xs = 0"
    and "lane_count p Close xs = (if p = q then length xs else 0)"
  using assms by (induction xs) (auto simp: lane_count_def in_lane_def)

lemma clip_close_orders_shape:
  assumes "clip_close_orders D input orders = Ok clipped"
  shows "lane_count p Open clipped = lane_count p Open orders"
    and "lane_count p Close clipped \<le> lane_count p Close orders"
    and "distinct (map gi_key orders) \<Longrightarrow> distinct (map gi_key clipped)"
    and "sorted (map gi_key clipped)"
proof -
  obtain closes where fold: "try_fold (clip_close_lane D input orders) [] (active_positions input)
        = Ok closes"
      and clipped: "clipped = sort_key gi_key (filter is_open orders @ closes)"
    using assms by (auto simp: clip_close_orders_def outcome_simps)
  show "sorted (map gi_key clipped)" by (simp add: clipped)
  have closes: "lane_count p Open closes = 0 \<and> lane_count p Close closes \<le> lane_count p Close orders
      \<and> (distinct (map gi_key orders) \<longrightarrow> distinct (map gi_key closes))
      \<and> (\<forall>x \<in> set closes. gk_role (gi_key x) = Close)"
  proof (cases rule: active_positions_cases [of input])
    case 1
    then obtain mid where m: "clip_close_lane D input orders [] GLong = Ok mid"
        "clip_close_lane D input orders mid GShort = Ok closes"
      using fold by (auto simp: outcome_simps)
    obtain a where a: "mid = [] @ a" "\<forall>x \<in> set a. in_lane GLong Close x"
        "length a \<le> lane_count GLong Close orders"
        "distinct (map gi_key orders) \<Longrightarrow> distinct (map gi_key a)"
      using clip_close_lane_keys [OF m(1)] by blast
    obtain b where b: "closes = mid @ b" "\<forall>x \<in> set b. in_lane GShort Close x"
        "length b \<le> lane_count GShort Close orders"
        "distinct (map gi_key orders) \<Longrightarrow> distinct (map gi_key b)"
      using clip_close_lane_keys [OF m(2)] by blast
    have "gi_key ` set a \<inter> gi_key ` set b = {}" using a(2) b(2) by (auto simp: in_lane_def)
    then show ?thesis
      using a b lane_count_other [OF a(2), of p] lane_count_other [OF b(2), of p]
      by (cases p) (auto simp: in_lane_def)
  next
    case (2 q)
    then have m: "clip_close_lane D input orders [] q = Ok closes"
      using fold by (auto simp: outcome_simps)
    obtain a where a: "closes = [] @ a" "\<forall>x \<in> set a. in_lane q Close x"
        "length a \<le> lane_count q Close orders"
        "distinct (map gi_key orders) \<Longrightarrow> distinct (map gi_key a)"
      using clip_close_lane_keys [OF m] by blast
    then show ?thesis using lane_count_other [OF a(2), of p] by (auto simp: in_lane_def)
  qed
  then show "lane_count p Open clipped = lane_count p Open orders"
    and "lane_count p Close clipped \<le> lane_count p Close orders"
    by (simp_all add: clipped)
  assume d: "distinct (map gi_key orders)"
  have "gi_key ` set (filter is_open orders) \<inter> gi_key ` set closes = {}"
    using closes by (auto simp: is_open_def)
  then show "distinct (map gi_key clipped)"
    using d closes by (auto simp: clipped distinct_map_filter)
qed

section \<open>The shape of a plan\<close>

lemma lane_count_keys:
  "lane_count p r xs = length (filter (\<lambda>k. gk_position k = p \<and> gk_role k = r) (map gi_key xs))"
  by (induction xs) (auto simp: lane_count_def in_lane_def)

text \<open>The full grid has the configured number of levels in every active lane.\<close>

definition coordinate_key :: "u64 \<Rightarrow> grid_position \<times> grid_order_role \<times> u64 \<Rightarrow> grid_order_key" where
  "coordinate_key revision c = (let (p, r, l) = c in GridOrderKey revision p r l)"

lemma grid_coordinates_count:
  assumes "distinct ps" and "p \<in> set ps"
  shows "length (filter (\<lambda>k. gk_position k = p \<and> gk_role k = r)
    (map (coordinate_key n0) (grid_coordinates ps n))) = n"
proof -
  have none: "filter (\<lambda>k. gk_position k = p \<and> gk_role k = r)
      (map (coordinate_key n0) (grid_coordinates qs n)) = []" if "p \<notin> set qs" for qs
    using that by (auto simp: grid_coordinates_def coordinate_key_def filter_empty_conv)
  show ?thesis using assms
  proof (induction ps)
    case Nil
    then show ?case by simp
  next
    case (Cons q ps)
    have split: "grid_coordinates (q # ps) n = grid_coordinates [q] n @ grid_coordinates ps n"
      by (simp add: grid_coordinates_def)
    have one: "length (filter (\<lambda>k. gk_position k = q \<and> gk_role k = r)
        (map (coordinate_key n0) (grid_coordinates [q] n))) = n"
      by (cases r) (simp_all add: grid_coordinates_def coordinate_key_def filter_map comp_def)
    show ?case
    proof (cases "p = q")
      case True
      then show ?thesis using none [of ps] one Cons.prems(1) by (simp add: split)
    next
      case False
      then show ?thesis using none [of "[q]"] Cons by (simp add: split)
    qed
  qed
qed

lemma grid_coordinates_distinct:
  assumes "distinct ps" and "n < 2 ^ 64"
  shows "distinct (map (coordinate_key n0) (grid_coordinates ps n))"
proof -
  have inj: "i = j" if "(of_nat i :: u64) = of_nat j" and "i \<le> n" and "j \<le> n" for i j
  proof -
    have "i < 2 ^ LENGTH(64)" "j < 2 ^ LENGTH(64)" using that(2,3) assms(2) by simp_all
    then have ij: "unat (of_nat i :: u64) = i" "unat (of_nat j :: u64) = j"
      by (simp_all only: unat_of_nat_small)
    show ?thesis by (rule box_equals [OF arg_cong [OF that(1), of unat] ij])
  qed
  have lane: "distinct (map (\<lambda>level. GridOrderKey n0 p r (of_nat level)) [1 ..< Suc n])" for p r
    unfolding distinct_map by (auto simp del: upt_Suc intro!: inj_onI intro: inj)
  show ?thesis using assms(1)
  proof (induction ps)
    case Nil
    then show ?case by (simp add: grid_coordinates_def)
  next
    case (Cons q ps)
    have split: "map (coordinate_key n0) (grid_coordinates (q # ps) n)
        = map (\<lambda>level. GridOrderKey n0 q Open (of_nat level)) [1 ..< Suc n]
          @ map (\<lambda>level. GridOrderKey n0 q Close (of_nat level)) [1 ..< Suc n]
          @ map (coordinate_key n0) (grid_coordinates ps n)"
      by (simp add: grid_coordinates_def coordinate_key_def comp_def del: upt_Suc)
    have fresh: "GridOrderKey n0 q r l \<notin> coordinate_key n0 ` set (grid_coordinates ps n)" for r l
      using Cons.prems by (auto simp: grid_coordinates_def coordinate_key_def)
    have ih: "distinct (map (coordinate_key n0) (grid_coordinates ps n))"
      using Cons by simp
    show ?case
      unfolding split using ih lane [of q Open] lane [of q Close] fresh
      by (auto simp only: distinct_append set_append set_map disjoint_iff image_iff
          grid_order_key.inject grid_order_role.distinct Un_iff)
  qed
qed

lemma order_from_anchor_key:
  "order_from_anchor D anchor p r l = Ok x \<Longrightarrow> gi_key x = coordinate_key (ra_revision anchor) (p, r, l)"
  by (auto simp: order_from_anchor_def Let_def outcome_simps coordinate_key_def
      dest: order_at_price_Ok)

lemma try_map_keys:
  assumes "try_map f cs = Ok xs" and "\<And>c x. f c = Ok x \<Longrightarrow> gi_key x = g c"
  shows "map gi_key xs = map g cs"
  using assms(1) by (induction cs arbitrary: xs) (auto simp: outcome_simps assms(2))

lemma active_positions_distinct: "distinct (active_positions input)"
  by (cases rule: active_positions_cases [of input]) auto

lemma initial_surface_shape:
  assumes "initial_surface D input = Ok (anchor, orders)" and "p \<in> set (active_positions input)"
  shows "lane_count p Open orders = unat (pc_grid_count (pi_config input))
    \<and> lane_count p Close orders \<le> unat (pc_grid_count (pi_config input))
    \<and> distinct (map gi_key orders) \<and> sorted (map gi_key orders)"
proof -
  let ?n = "unat (pc_grid_count (pi_config input))"
  let ?cs = "grid_coordinates (active_positions input) ?n"
  obtain desired where d: "try_map (\<lambda>(position, role, level).
        order_from_anchor D anchor position role level) ?cs = Ok desired"
      and clip: "clip_close_orders D input desired = Ok orders"
    using initial_surface_last [OF assms(1)] by blast
  have keys: "map gi_key desired = map (coordinate_key (ra_revision anchor)) ?cs"
    by (rule try_map_keys [OF d]) (auto dest: order_from_anchor_key)
  have "?n < 2 ^ 64" using unat_bound [of "pc_grid_count (pi_config input)"] by simp
  then have "distinct (map gi_key desired)"
    unfolding keys by (intro grid_coordinates_distinct active_positions_distinct)
  moreover have "lane_count p r desired = ?n" for r
    unfolding lane_count_keys keys
    by (rule grid_coordinates_count [OF active_positions_distinct assms(2)])
  ultimately show ?thesis using clip_close_orders_shape [OF clip] by metis
qed

lemma rolled_surface_shape:
  assumes "rolled_surface D input surface = Ok (anchor, orders)" and "surface_ok surface"
    and "p \<in> set (active_positions input)"
  shows "lane_count p Open orders = unat (pc_grid_count (pi_config input))
    \<and> lane_count p Close orders \<le> unat (pc_grid_count (pi_config input))
    \<and> distinct (map gi_key orders) \<and> sorted (map gi_key orders)"
  using assms(1)
proof (cases rule: rolled_surface_steps)
  case (1 anchor0 fill_ids completed pre rolled final)
  let ?n = "unat (pc_grid_count (pi_config input))" and ?fills = "complete_fills fill_ids"
  note pre = pre_fill_count [OF assms(2) 1(4) collected_fills_distinct [OF 1(3)]]
  note rolled = roll_fills_count [OF 1(6) assms(2)]
  have shape: "lane_count p Open (bt_values pre) = ?n" "lane_count p Close (bt_values pre) \<le> ?n"
    using 1(5) assms(3) by (auto simp: complete_surface_shape_def list_all_iff lane_count_def)
  have card: "card (lane_keys p Open rolled) = ?n" "card (lane_keys p Close rolled) \<le> ?n"
    using shape pre(1) [of p] rolled(2) [of p] unfolding lane_count_card [OF pre(2)] by simp_all
  note final = restore_close_lanes_ok [OF 1(7) rolled(1) card(2)]
  have "distinct (map gi_key (bt_values final))"
    unfolding surface_ok_keys [OF final(1)] by (rule surface_ok_distinct [OF final(1)])
  moreover have "lane_count p Open (bt_values final) = ?n" "lane_count p Close (bt_values final) \<le> ?n"
    unfolding lane_count_card [OF final(1)] using final(2,3) card(1) by simp_all
  ultimately show ?thesis using clip_close_orders_shape(1,2) [OF 1(8), of p] clip_close_orders_shape(3,4) [OF 1(8)]
    by simp
qed

lemma plan_converge_shape:
  assumes "plan D input = Ok p" and "pl_directive p = Converge anchor orders"
    and "position \<in> set (active_positions input)"
  shows "lane_count position Open orders = unat (pc_grid_count (pi_config input))
    \<and> lane_count position Close orders \<le> unat (pc_grid_count (pi_config input))
    \<and> distinct (map gi_key orders) \<and> sorted (map gi_key orders)"
proof -
  obtain surface where s: "validated_surface D input = Ok surface"
      "if surface = [] \<and> pi_maker_fills input = []
       then initial_surface D input = Ok (anchor, orders)
       else rolled_surface D input surface = Ok (anchor, orders)"
    using plan_converge(3) [OF assms(1,2)] by blast
  then show ?thesis
    using initial_surface_shape [OF _ assms(3)] rolled_surface_shape [OF _ _ assms(3)]
      validated_surface_ok [OF s(1)]
    by (cases "surface = [] \<and> pi_maker_fills input = []") auto
qed

section \<open>The evidence a rolled plan used\<close>

text \<open>A surface is empty only when no order is owned.\<close>

lemma validated_surface_keys:
  assumes "validated_surface D input = Ok s"
  shows "set (bt_keys s) = set (map gi_key (pi_owned_orders input))"
proof -
  have fold: "set (bt_keys (fst t)) = set (bt_keys (fst u)) \<union> set (map gi_key xs)"
    if "try_fold (add_owned_order D input) u xs = Ok t" for t u xs
    using that
  proof (induction xs arbitrary: u)
    case (Cons x xs)
    obtain v where v: "add_owned_order D input u x = Ok v"
        "try_fold (add_owned_order D input) v xs = Ok t"
      using Cons.prems by (auto simp: outcome_simps)
    have "fst v = bt_insert (gi_key x) x (fst u)"
      using add_owned_order_ok [of D input "fst u" "snd u" x "fst v" "snd v"] v(1) by simp
    then show ?case using Cons.IH [OF v(2)] by auto
  qed simp
  obtain seen where "try_fold (add_owned_order D input) ([], []) (pi_owned_orders input) = Ok (s, seen)"
    using assms by (auto simp: validated_surface_def outcome_simps)
  from fold [OF this] show ?thesis by (simp add: bt_keys_def)
qed

text \<open>Each fill was checked, and stays in the evidence up to equality of values.\<close>

definition fill_checked :: "'d decimal_api \<Rightarrow> 'd grid_planner_input \<Rightarrow> 'd grid_maker_fill \<Rightarrow> bool" where
  "fill_checked D input f \<longleftrightarrow>
     mf_maker f \<and> trim (mf_fill_id f) \<noteq> [] \<and> intent_validate D (mf_source_order f) = Ok ()
     \<and> gk_epoch (gi_key (mf_source_order f)) = pc_revision (pi_config input)
     \<and> gi_key (mf_source_order f) \<notin> set (pi_pending_place_keys input)"

definition fill_recorded :: "(string, 'd grid_maker_fill) btree \<Rightarrow> 'd grid_maker_fill \<Rightarrow> bool" where
  "fill_recorded ids f \<longleftrightarrow>
     (\<exists>g. bt_lookup ids (mf_fill_id f) = Some g \<and> mf_complete g = mf_complete f
        \<and> gi_key (mf_source_order g) = gi_key (mf_source_order f))"

lemma collect_fill_step:
  assumes "collect_fill D input (ids, completed) f = Ok (ids', completed')"
  shows "fill_checked D input f" and "fill_recorded ids' f"
    and "fill_recorded ids g \<Longrightarrow> fill_recorded ids' g"
  using assms
  by (auto simp: collect_fill_def fill_checked_def fill_recorded_def Let_def is_ok_iff fill_eq_def
      intent_eq_def split: if_splits option.splits)

lemma collected_fills_checked:
  assumes "try_fold (collect_fill D input) (ids0, completed0) fills = Ok (ids, completed)"
  shows "(\<forall>f \<in> set fills. fill_checked D input f \<and> fill_recorded ids f)
    \<and> (\<forall>g. fill_recorded ids0 g \<longrightarrow> fill_recorded ids g)"
  using assms
proof (induction fills arbitrary: ids0 completed0)
  case (Cons f fills)
  obtain ids1 completed1 where s: "collect_fill D input (ids0, completed0) f = Ok (ids1, completed1)"
      "try_fold (collect_fill D input) (ids1, completed1) fills = Ok (ids, completed)"
    using Cons.prems by (auto simp: outcome_simps)
  then show ?case using Cons.IH [OF s(2)] collect_fill_step [OF s(1)] by auto
qed simp

lemma recorded_complete:
  assumes "bt_ok ids" and "fill_recorded ids f" and "mf_complete f"
  shows "gi_key (mf_source_order f) \<in> set (map (gi_key \<circ> mf_source_order) (complete_fills ids))"
proof -
  obtain g where g: "(mf_fill_id f, g) \<in> set ids" "mf_complete g"
      "gi_key (mf_source_order g) = gi_key (mf_source_order f)"
    using assms by (auto simp: fill_recorded_def bt_lookup_entries)
  then have "g \<in> set (complete_fills ids)"
    by (force simp: complete_fills_def bt_values_def)
  then show ?thesis unfolding set_map comp_def g(3) [symmetric] by (rule imageI)
qed

lemma rolled_surface_fills:
  assumes "rolled_surface D input surface = Ok (anchor, orders)" and "f \<in> set (pi_maker_fills input)"
  shows "fill_checked D input f
    \<and> (mf_complete f \<longrightarrow> gi_key (mf_source_order f) \<notin> set (bt_keys surface))"
  using assms(1)
proof (rule rolled_surface_steps)
  fix ids completed pre_fill
  assume collect: "try_fold (collect_fill D input) ([], []) (pi_maker_fills input) = Ok (ids, completed)"
    and restore: "try_fold (restore_filled D surface) surface (complete_fills ids) = Ok pre_fill"
  have "fills_ok (ids, completed)"
    using collect
    by (rule try_fold_inv [where P = fills_ok, rotated])
      (auto simp: fills_ok_def [of "([], [])"] intro: collect_fill_ok)
  then have ok: "bt_ok ids" by (simp add: fills_ok_def)
  have apart: "\<forall>g \<in> set gs. gi_key (mf_source_order g) \<notin> set (bt_keys surface)"
    if "try_fold (restore_filled D surface) pre gs = Ok pre'" for pre pre' gs
    using that
  proof (induction gs arbitrary: pre)
    case (Cons g gs)
    obtain mid where mid: "restore_filled D surface pre g = Ok mid"
        "try_fold (restore_filled D surface) mid gs = Ok pre'"
      using Cons.prems by (auto simp: outcome_simps)
    then show ?case using Cons.IH [OF mid(2)]
      by (auto simp: restore_filled_def Let_def bt_contains_keys split: if_splits)
  qed simp
  have f: "fill_checked D input f" "fill_recorded ids f"
    using collected_fills_checked [OF collect] assms(2) by blast+
  then show ?thesis
    using recorded_complete [OF ok f(2)] apart [OF restore] by auto
qed

end
