(* ===== verification/Grid_Total.thy ===== *)
theory Grid_Total
  imports Grid_Safety
begin

text \<open>
  The planner never panics.  Its operators without a checked form are \<open>%\<close>, \<open>-\<close> in the
  flooring and ceiling of a quantity, and one \<open>*\<close> in the inference of a step; with validated
  steps each stays in range.
\<close>

section \<open>Results that settle\<close>

text \<open>An outcome settles when it is a value or an error, not a panic.\<close>

definition settles :: "('a, 'e) outcome \<Rightarrow> bool" where
  "settles m \<longleftrightarrow> m \<noteq> Panic"

named_theorems settling \<open>introduction rules for \<open>settles\<close>\<close>

lemma settles_simps [simp]:
  "settles (Ok x)" "settles (Err e)" "\<not> settles Panic" "settles (ok_or e' opt)"
  by (simp_all add: settles_def)

lemma settles_or_panic [simp]: "settles (or_panic opt) \<longleftrightarrow> opt \<noteq> None"
  by (simp add: settles_def or_panic_Panic)

lemma settles_and_then [settling]:
  "settles m \<Longrightarrow> (\<And>x. m = Ok x \<Longrightarrow> settles (f x)) \<Longrightarrow> settles (and_then m f)"
  by (cases m) auto

lemma settles_map_err [simp]: "settles (map_err g m) \<longleftrightarrow> settles m"
  by (simp add: settles_def map_err_Panic)

lemma settles_or_else [settling]: "settles a \<Longrightarrow> settles b \<Longrightarrow> settles (or_else a b)"
  by (cases a) (auto simp: or_else_def)

lemma settles_and_also [settling]: "settles a \<Longrightarrow> settles b \<Longrightarrow> settles (and_also a b)"
  by (cases a) (auto simp: and_also_def)

lemma settles_if [settling]:
  "(b \<Longrightarrow> settles m) \<Longrightarrow> (\<not> b \<Longrightarrow> settles n) \<Longrightarrow> settles (if b then m else n)"
  by simp

lemma settles_try_fold [settling]: "(\<And>s x. settles (f s x)) \<Longrightarrow> settles (try_fold f s xs)"
  unfolding settles_def by (rule try_fold_not_Panic [where P = "\<lambda>_. True"]) auto

lemma settles_try_map [settling]: "(\<And>x. settles (f x)) \<Longrightarrow> settles (try_map f xs)"
  unfolding settles_def by (rule try_map_not_Panic) auto

section \<open>The unchecked decimal operations\<close>

definition total_laws :: "'d decimal_api \<Rightarrow> bool" where
  "total_laws D \<longleftrightarrow> dec_rem_laws D \<and> dec_range_laws D"

lemma divides_settles:
  "total_laws D \<Longrightarrow> dec_value D step \<noteq> 0 \<Longrightarrow> settles (divides D step v)"
  using dec_rem_total [of D step v]
  by (auto simp: divides_def total_laws_def intro!: settling)

lemma precision_step_pos: "precision_validate D p = Ok () \<Longrightarrow> 0 < dec_value D (pr_step p)"
  by (simp add: precision_validate_def dec_positive_def split: if_splits)

lemma precision_validate_settles [simp]: "settles (precision_validate D p)"
  by (simp add: precision_validate_def)

lemma precision_accepts_settles:
  "total_laws D \<Longrightarrow> settles (precision_accepts D p v)"
  using dec_rem_total [of D "pr_step p" v] precision_step_pos [of D p]
  by (auto simp: precision_accepts_def total_laws_def intro!: settling)

lemma dec_range_laws_sub:
  "dec_range_laws D \<Longrightarrow> \<bar>dec_value D a - dec_value D b\<bar> \<le> \<bar>dec_value D c\<bar> \<Longrightarrow> dec_sub D a b \<noteq> None"
  unfolding dec_range_laws_def by blast

lemma dec_range_laws_mul:
  "dec_range_laws D \<Longrightarrow> \<bar>dec_value D a * dec_value D b\<bar> \<le> \<bar>dec_value D c\<bar> \<Longrightarrow> dec_mul D a b \<noteq> None"
  unfolding dec_range_laws_def by blast

text \<open>A remainder by a positive step can always be taken off, and off the step.\<close>

lemma rem_differences_defined:
  assumes "total_laws D" and r: "dec_rem D v step = Some r"
    and v: "0 \<le> dec_value D v" and st: "0 < dec_value D step"
  shows "dec_sub D v r \<noteq> None" and "dec_sub D step r \<noteq> None"
proof -
  have laws: "dec_rem_laws D" "dec_range_laws D" using assms(1) by (simp_all add: total_laws_def)
  note b = dec_rem_bounds [OF laws(1) r v st]
  show "dec_sub D v r \<noteq> None"
    using dec_range_laws_sub [OF laws(2), of v r v] b v by simp
  show "dec_sub D step r \<noteq> None"
    using dec_range_laws_sub [OF laws(2), of step r step] b by simp
qed

lemma precision_floor_settles:
  assumes "total_laws D"
  shows "settles (precision_floor D p v)"
  using rem_differences_defined(1) [OF assms, of v "pr_step p"] precision_step_pos [of D p]
    dec_rem_total [of D "pr_step p" v] assms
  by (auto simp: precision_floor_def dec_negative_def not_less total_laws_def or_panic_Ok
      intro!: settling)

lemma ceil_to_step_settles:
  assumes "total_laws D"
  shows "settles (ceil_to_step D v step)"
  using rem_differences_defined(2) [OF assms, of v step] dec_rem_total [of D step v] assms
  by (auto simp: ceil_to_step_def dec_negative_def dec_positive_def not_less total_laws_def
      or_panic_Ok intro!: settling)

section \<open>The planner's helpers\<close>

definition steps_positive :: "'d decimal_api \<Rightarrow> 'd instrument_metadata \<Rightarrow> bool" where
  "steps_positive D m \<longleftrightarrow>
     0 < dec_value D (pr_step (md_price m)) \<and> 0 < dec_value D (pr_step (md_quantity m))"

lemma metadata_validate_steps: "metadata_validate D m = Ok () \<Longrightarrow> steps_positive D m"
  by (auto simp: metadata_validate_def outcome_simps Let_def steps_positive_def
      dest!: precision_step_pos)

lemma instrument_validate_settles [simp]: "settles (instrument_validate D i)"
  by (simp add: instrument_validate_def)

lemma contract_validate_settles [simp]: "settles (contract_validate D c)"
  by (auto simp: contract_validate_def intro!: settling)

lemma settles_case_option [settling]:
  "settles a \<Longrightarrow> (\<And>x. opt = Some x \<Longrightarrow> settles (b x)) \<Longrightarrow>
   settles (case opt of None \<Rightarrow> a | Some x \<Rightarrow> b x)"
  by (cases opt) auto

lemma metadata_validate_settles [simp]: "settles (metadata_validate D m)"
  unfolding metadata_validate_def Let_def
  by (intro settling) (simp_all split: market_kind.split)

lemma validate_instrument_settles:
  assumes "total_laws D"
  shows "settles (validate_instrument D config m limits)"
proof -
  have "settles (divides D (pr_step (md_price m)) v)"
    "settles (divides D (pr_step (md_quantity m)) v)" if "metadata_validate D m = Ok u" for v u
    using metadata_validate_steps [of D m] that
    by (auto intro!: divides_settles [OF assms] simp: steps_positive_def)
  then show ?thesis
    by (auto simp: validate_instrument_def Let_def map_err_Ok intro!: settling)
qed

lemma quantity_notional_divisor_settles [simp]: "settles (quantity_notional_divisor D m p)"
  by (auto simp: quantity_notional_divisor_def split: option.split value_unit.split)

lemma raw_quote_notional_settles [simp]: "settles (raw_quote_notional D m q p)"
  by (auto simp: raw_quote_notional_def intro!: settling)

lemma quantity_for_notional_settles:
  assumes "total_laws D"
  shows "settles (quantity_for_notional_ceil D m limits notional p)"
    and "settles (quantity_for_notional_floor D m limits notional p)"
  by (auto simp: quantity_for_notional_ceil_def quantity_for_notional_floor_def Let_def
      intro!: settling ceil_to_step_settles [OF assms] precision_accepts_settles [OF assms]
        precision_floor_settles [OF assms])

lemma enforce_maximum_settles [simp]: "settles (enforce_maximum_grid_notional D input orders)"
  by (auto simp: enforce_maximum_grid_notional_def add_open_notional_def intro!: settling)

lemma intent_validate_settles [simp]: "settles (intent_validate D i)"
  by (auto simp: intent_validate_def order_key_validate_def intro!: settling)

lemma price_new_settles [simp]: "settles (price_new D v)"
  by (simp add: settles_def)

lemma order_at_price_settles [simp]: "settles (order_at_price D n p r l price q)"
  by (auto simp: order_at_price_def Let_def intro!: settling)

lemma order_from_anchor_settles [simp]: "settles (order_from_anchor D anchor p r l)"
  by (auto simp: order_from_anchor_def Let_def intro!: settling)

lemma within_limits_settles:
  assumes "total_laws D" and "steps_positive D (pi_instrument input)"
  shows "settles (price_within_limits D input p)" and "settles (quantity_within_limits D input q)"
  using assms
  by (auto simp: price_within_limits_def quantity_within_limits_def Let_def steps_positive_def
      intro!: settling divides_settles)

lemma clip_close_orders_settles:
  assumes "total_laws D"
  shows "settles (clip_close_orders D input orders)"
  by (auto simp: clip_close_orders_def clip_close_lane_def clip_close_order_def Let_def
      intro!: settling precision_floor_settles [OF assms] split: prod.split)

lemma validate_generated_orders_settles:
  assumes "total_laws D" and "steps_positive D (pi_instrument input)"
  shows "settles (validate_generated_orders D input orders)"
  by (auto simp: validate_generated_orders_def order_outside_limits_def
      intro!: settling within_limits_settles [OF assms])

lemma validated_surface_settles:
  assumes "total_laws D" and "steps_positive D (pi_instrument input)"
  shows "settles (validated_surface D input)"
  by (auto simp: validated_surface_def add_owned_order_def owned_order_invalid_def
      intro!: settling within_limits_settles [OF assms] split: prod.split)

lemma initial_surface_settles:
  assumes "total_laws D" and "steps_positive D (pi_instrument input)"
  shows "settles (initial_surface D input)"
  by (auto simp: initial_surface_def initial_anchor_def Let_def
      intro!: settling precision_floor_settles [OF assms(1)] ceil_to_step_settles [OF assms(1)]
        quantity_for_notional_settles [OF assms(1)] clip_close_orders_settles [OF assms(1)]
        validate_generated_orders_settles [OF assms] split: prod.split)

section \<open>The plan\<close>

lemma settles_case_outcome:
  "settles m \<Longrightarrow> (\<And>x. m = Ok x \<Longrightarrow> settles (f x)) \<Longrightarrow> (\<And>e. m = Err e \<Longrightarrow> settles (g e)) \<Longrightarrow>
   settles (case m of Ok x \<Rightarrow> f x | Err e \<Rightarrow> g e | Panic \<Rightarrow> Panic)"
  by (cases m) auto

text \<open>The one multiplication by the spacing rate shrinks its argument.\<close>

definition rate_fraction :: "'d decimal_api \<Rightarrow> 'd grid_planner_input \<Rightarrow> bool" where
  "rate_fraction D input \<longleftrightarrow>
     0 < dec_value D (pc_spacing_rate (pi_config input))
     \<and> dec_value D (pc_spacing_rate (pi_config input)) < 1"

lemma validate_config_rate:
  "validate_config D (pi_config input) = Ok () \<Longrightarrow> rate_fraction D input"
  by (auto simp: validate_config_def rate_fraction_def outcome_simps Let_def dec_positive_def
      split: if_splits)

lemma rate_mul_defined:
  assumes "total_laws D" and "rate_fraction D input"
  shows "dec_mul D a (pc_spacing_rate (pi_config input)) \<noteq> None"
proof -
  let ?r = "dec_value D (pc_spacing_rate (pi_config input))"
  have "\<bar>dec_value D a * ?r\<bar> = \<bar>dec_value D a\<bar> * ?r"
    using assms(2) by (simp add: rate_fraction_def abs_mult)
  also have "\<dots> \<le> \<bar>dec_value D a\<bar>"
    using assms(2) by (intro mult_left_le) (simp_all add: rate_fraction_def)
  finally show ?thesis
    using dec_range_laws_mul assms(1) by (auto simp: total_laws_def)
qed

lemma settles_case_list [settling]:
  "settles a \<Longrightarrow> (\<And>x xs. l = x # xs \<Longrightarrow> settles (b x xs)) \<Longrightarrow>
   settles (case l of [] \<Rightarrow> a | x # xs \<Rightarrow> b x xs)"
  by (cases l) auto

lemma infer_anchor_settles:
  assumes "total_laws D" and "steps_positive D (pi_instrument input)" and "rate_fraction D input"
  shows "settles (infer_anchor D input surface)"
proof -
  have step: "settles (divides D (pr_step (md_price (pi_instrument input))) v)" for v
    using assms(2) by (intro divides_settles [OF assms(1)]) (simp add: steps_positive_def)
  have mul: "settles (or_panic (dec_mul D a (pc_spacing_rate (pi_config input))))" for a
    using rate_mul_defined [OF assms(1,3)] by simp
  show ?thesis
    unfolding infer_anchor_def Let_def
    by (intro settling settles_case_outcome step mul precision_floor_settles [OF assms(1)]
        ceil_to_step_settles [OF assms(1)])
      (simp_all add: precision_floor_settles [OF assms(1)])
qed

lemma rolled_surface_settles:
  assumes "total_laws D" and "steps_positive D (pi_instrument input)" and "rate_fraction D input"
  shows "settles (rolled_surface D input surface)"
proof -
  have anchor: "settles (validate_anchor D input a)" for a
    using assms(2)
    by (auto simp: validate_anchor_def steps_positive_def
        intro!: settling within_limits_settles [OF assms(1,2)] divides_settles [OF assms(1)])
  have fills: "settles (collect_fill D input st f)" "settles (restore_filled D s pre f)" for st f s pre
    by (auto simp: collect_fill_def restore_filled_def Let_def split: prod.split option.split)
  have price: "settles (rolling_price D s src r st)" for s src r st
    by (auto simp: rolling_price_def Let_def intro!: settling)
  have level: "settles (next_level ls p r)" for ls p r
    by (auto simp: next_level_def Let_def intro!: settling)
  have quantity: "settles (normalized_rolled_quantity D input q prices)" for q prices
    by (auto simp: normalized_rolled_quantity_def Let_def
        intro!: settling quantity_for_notional_settles [OF assms(1)] split: prod.split)
  have place: "settles (place_rolled D input p s lane)" for p s lane
    by (auto simp: place_rolled_def intro!: settling level split: prod.split)
  have roll: "settles (roll_fill D input s f)" for s f
    unfolding roll_fill_def Let_def by (intro settling price quantity place) simp_all
  have requantify: "settles (requantify q s k)" for q s k
    by (auto simp: requantify_def intro!: settling)
  have rolls: "settles (roll_fills D input a s pre fs)" for a s pre fs
    unfolding roll_fills_def by (intro settling roll requantify) simp_all
  have close: "settles (restore_close D input a p st n)" for a p st n
    by (auto simp: restore_close_def intro!: settling level split: prod.split)
  have lanes: "settles (restore_close_lanes D input a s)" for a s
    by (auto simp: restore_close_lanes_def restore_close_lane_def Let_def
        intro!: settling close split: prod.split)
  show ?thesis
    unfolding rolled_surface_def Let_def
    by (auto intro!: settling anchor infer_anchor_settles [OF assms] fills rolls lanes
        clip_close_orders_settles [OF assms(1)] validate_generated_orders_settles [OF assms(1,2)]
        split: prod.split)
qed

lemma leg_position_cases:
  "settles (case s of NetSide \<Rightarrow> Err e | side \<Rightarrow> f side) \<longleftrightarrow>
     (s \<noteq> NetSide \<longrightarrow> settles (f s))"
  by (cases s) auto

lemma risk_legs_settles [simp]: "settles (risk_legs D input risk)"
  by (auto simp: risk_legs_def collect_leg_def leg_matches_def Let_def leg_position_cases
      intro!: settling split: position_side.split)

lemma reduce_leg_settles:
  assumes "total_laws D" and "steps_positive D (pi_instrument input)"
  shows "settles (reduce_leg D input policy risk limit legs p)"
  unfolding reduce_leg_def Let_def
  by (intro settling quantity_for_notional_settles [OF assms(1)]
      within_limits_settles [OF assms]) (simp_all add: precision_floor_settles [OF assms(1)])

lemma collect_reductions_settles:
  assumes "\<And>p. settles (reduce p)"
  shows "settles (collect_reductions reduce ps)"
proof (induction ps)
  case Nil
  then show ?case by simp
next
  case (Cons p ps)
  then show ?case
    by (auto intro!: settling assms split: reduction_step.split)
qed

lemma exposure_directive_settles:
  assumes "total_laws D" and "steps_positive D (pi_instrument input)"
  shows "settles (exposure_directive D input)"
  unfolding exposure_directive_def
  by (intro settling settles_case_outcome collect_reductions_settles reduce_leg_settles [OF assms])
    simp_all

lemma replenishment_directive_settles:
  assumes "total_laws D"
  shows "settles (replenishment_directive D input)"
  unfolding replenishment_directive_def replenish_leg_def Let_def
  by (intro settling quantity_for_notional_settles [OF assms]) simp_all

lemma converge_settles:
  assumes "total_laws D" and "steps_positive D (pi_instrument input)" and "rate_fraction D input"
  shows "settles (converge D input surface)"
  unfolding converge_def Let_def
  by (auto intro!: settling settles_case_outcome initial_surface_settles [OF assms(1,2)]
      rolled_surface_settles [OF assms] split: prod.split)

lemma validate_identity_settles [simp]: "settles (validate_identity config)"
  by (simp add: validate_identity_def Let_def)

lemma validate_config_settles [simp]: "settles (validate_config D config)"
  by (auto simp: validate_config_def Let_def intro!: settling)

lemma validate_instrument_steps:
  "validate_instrument D config m limits = Ok () \<Longrightarrow> steps_positive D m"
  by (auto simp: validate_instrument_def outcome_simps intro: metadata_validate_steps)

lemma plan_settles:
  assumes "total_laws D"
  shows "settles (plan D input)"
proof -
  have run: "settles (case validate_market_facts D input of
       Some reason \<Rightarrow> Ok (blocked_plan input reason)
     | None \<Rightarrow>
     case validate_private_facts D input of
       Some reason \<Rightarrow> Ok (blocked_plan input reason)
     | None \<Rightarrow>
     case validated_surface D input of
       Panic \<Rightarrow> Panic
     | Err trigger \<Rightarrow> Ok (reset_plan input trigger)
     | Ok surface \<Rightarrow>
     and_then (enforce_maximum_grid_notional D input (bt_values surface)) (\<lambda>_.
     case convergence_directive input of
       Some p \<Rightarrow> Ok p
     | None \<Rightarrow>
     and_then (exposure_directive D input) (\<lambda>exposure.
     case exposure of
       Some directive \<Rightarrow> Ok (plan_with input directive)
     | None \<Rightarrow>
     and_then (replenishment_directive D input) (\<lambda>replenishment.
     case replenishment of
       Some directive \<Rightarrow> Ok (plan_with input directive)
     | None \<Rightarrow> converge D input surface))))"
    if "validate_config D (pi_config input) = Ok ()"
      and "validate_instrument D (pi_config input) (pi_instrument input)
        (pi_instrument_limits input) = Ok ()"
  proof -
    note steps = validate_instrument_steps [OF that(2)] and rate = validate_config_rate [OF that(1)]
    show ?thesis
      by (intro settling settles_case_outcome validated_surface_settles [OF assms steps]
          exposure_directive_settles [OF assms steps] replenishment_directive_settles [OF assms]
          converge_settles [OF assms steps rate]) simp_all
  qed
  show ?thesis
    unfolding plan_def
    by (intro settling validate_instrument_settles [OF assms] run) simp_all
qed

end
