(* ===== verification/Grid_Samples.thy ===== *)
theory Grid_Samples
  imports Grid_Actions Grid_Shape Grid_Total
begin

text \<open>
  Concrete inputs of the grid planner: one BTC/USDC grid level around a book of 99 and 101,
  with a long leg of one unit; then the same grid after a fill, with a thin
  leg to replenish, and with a profitable leg to reduce.
\<close>

definition grid_symbol :: symbol where
  "grid_symbol = \<lparr>sym_base = ''BTC'', sym_quote = ''USDC''\<rparr>"

definition grid_asset :: asset where "grid_asset = Asset ''USDC''"

definition grid_config :: "rat grid_planner_config" where
  "grid_config =
     \<lparr>pc_instance_id = ''grid-1'', pc_revision = 7, pc_symbol = grid_symbol,
      pc_order_notional = amount_new grid_asset 5,
      pc_maximum_grid_notional = amount_new grid_asset 100, pc_spacing_rate = 1 / 100,
      pc_grid_count = 1, pc_replenishment = None, pc_profit_reduction = None,
      pc_reset_policy = \<lparr>rz_max_market_age_ms = 1000, rz_max_private_age_ms = 1000,
        rz_convergence_timeout_ms = 1000, rz_failure_threshold = 3\<rparr>\<rparr>"

definition grid_metadata :: "rat instrument_metadata" where
  "grid_metadata =
     \<lparr>md_instrument = \<lparr>in_symbol = grid_symbol, in_market = LinearPerpetual,
        in_settlement_asset = Some grid_asset, in_generation = 1,
        in_price_tick = Price (1 / 10), in_quantity_step = 1 / 1000,
        in_minimum_notional = amount_new grid_asset 5\<rparr>,
      md_price = \<lparr>pr_step = 1 / 10, pr_minimum = 1 / 10\<rparr>,
      md_quantity = \<lparr>pr_step = 1 / 1000, pr_minimum = 1 / 1000\<rparr>, md_contract = None,
      md_trading_enabled = True\<rparr>"

definition grid_input :: "rat grid_planner_input" where
  "grid_input =
     \<lparr>pi_net_direction = None, pi_config = grid_config, pi_instrument = grid_metadata,
      pi_instrument_limits = \<lparr>lim_minimum_quantity = 1 / 1000, lim_maximum_quantity = 100,
        lim_minimum_price = Price 1, lim_maximum_price = Price 10000\<rparr>,
      pi_book = Some \<lparr>bk_bid = Price 99, bk_ask = Price 101, bk_observed_at_ms = 10\<rparr>,
      pi_reference_price = None,
      pi_inventory = \<lparr>gv_private_generation = 3, gv_private_observed_at_ms = 10,
        gv_mark_price = Price 100, gv_long_quantity = 1, gv_short_quantity = 0\<rparr>,
      pi_owned_orders = [], pi_maker_fills = [], pi_pending_place_keys = [],
      pi_other_close_reservations = \<lparr>cr_long_quantity = 0, cr_short_quantity = 0\<rparr>,
      pi_rolling_anchor = None,
      pi_convergence = \<lparr>cg_pending_since_ms = None, cg_consecutive_failures = 0\<rparr>,
      pi_risk = None, pi_control = Run, pi_now_ms = 20\<rparr>"

definition grid_anchor :: "rat grid_rolling_anchor" where
  "grid_anchor =
     \<lparr>ra_revision = 7, ra_instrument_generation = 1, ra_anchor_price = Price 100,
      ra_step = Price 1, ra_grid_quantity = 51 / 1000\<rparr>"

definition grid_order ::
  "grid_position \<Rightarrow> grid_order_role \<Rightarrow> order_side \<Rightarrow> rat \<Rightarrow> rat grid_order_intent" where
  "grid_order position role side price =
     \<lparr>gi_key = GridOrderKey 7 position role 1, gi_side = side, gi_price = Price price,
      gi_quantity = 51 / 1000, gi_reduce_only = (role = Close)\<rparr>"

definition grid_orders :: "rat grid_order_intent list" where
  "grid_orders =
     [grid_order GLong Open Buy 99, grid_order GLong Close Sell 101, grid_order GShort Open Sell 101]"

definition grid_result :: "rat grid_planner_input \<Rightarrow> rat grid_plan_directive \<Rightarrow> rat grid_plan" where
  "grid_result input directive =
     \<lparr>pl_schema_version = 1, pl_instance_id = ''grid-1'', pl_revision = 7, pl_directive = directive\<rparr>"

text \<open>
  The opening order of the long leg was filled and the others are resting: the grid rolls down
  by one step.  At 98 the quantity no longer reaches the minimum notional, so it is raised.
\<close>

definition grid_fill :: "rat grid_maker_fill" where
  "grid_fill =
     \<lparr>mf_fill_id = ''fill-1'', mf_source_order = grid_order GLong Open Buy 99,
      mf_complete = True, mf_maker = True\<rparr>"

definition grid_filled :: "rat grid_planner_input" where
  "grid_filled = grid_input\<lparr>
     pi_owned_orders := [grid_order GLong Close Sell 101, grid_order GShort Open Sell 101],
     pi_maker_fills := [grid_fill],
     pi_book := Some \<lparr>bk_bid = Price 98, bk_ask = Price 99, bk_observed_at_ms = 10\<rparr>,
     pi_rolling_anchor := Some grid_anchor\<rparr>"

definition grid_rolled :: "rat grid_order_intent list" where
  "grid_rolled =
     [(grid_order GLong Open Buy 98)\<lparr>gi_key := GridOrderKey 7 GLong Open 2, gi_quantity := 52 / 1000\<rparr>,
      (grid_order GLong Close Sell 100)\<lparr>gi_key := GridOrderKey 7 GLong Close 2, gi_quantity := 52 / 1000\<rparr>,
      grid_order GShort Open Sell 101]"

text \<open>A thin short leg that the replenishment policy fills up.\<close>

definition grid_thin :: "rat grid_planner_input" where
  "grid_thin = grid_input\<lparr>pi_config := grid_config\<lparr>pc_replenishment := Some
     \<lparr>rl_minimum_leg_notional = amount_new grid_asset 10,
      rl_target_leg_notional = amount_new grid_asset 20,
      rl_max_single_notional = amount_new grid_asset 15\<rparr>\<rparr>\<rparr>"

definition grid_adjustment :: "rat grid_inventory_adjustment" where
  "grid_adjustment =
     \<lparr>ga_position = GShort, ga_side = Sell, ga_quantity = 150 / 1000,
      ga_target_notional = amount_new grid_asset 15\<rparr>"

text \<open>A long leg of 100 on an equity of 20, in profit by half of its value.\<close>

definition grid_rich :: "rat grid_planner_input" where
  "grid_rich = grid_input\<lparr>
     pi_config := grid_config\<lparr>pc_profit_reduction := Some
       \<lparr>pf_inventory_equity_multiple = 3, pf_minimum_profit_rate = 1 / 20,
        pf_reduction_fraction = 3 / 10, pf_max_single_notional = amount_new grid_asset 25\<rparr>\<rparr>,
     pi_risk := Some
       \<lparr>rf_account = \<lparr>ar_exchange = ''bybit'', ar_account = ''main'', ar_risk_currency = grid_asset,
          ar_account_equity = 20, ar_private_generation = 3, ar_observed_at_ms = 10,
          ar_source_status = Complete\<rparr>,
        rf_legs = [\<lparr>lr_symbol = grid_symbol, lr_position_side = LongSide, lr_quantity = 1,
          lr_mark_price = Price 100, lr_contract_multiplier = 1, lr_notional = 100,
          lr_unrealized_pnl = 50, lr_risk_currency = grid_asset, lr_private_generation = 3,
          lr_observed_at_ms = 10\<rparr>],
        rf_conversion = \<lparr>cv_risk_currency = grid_asset, cv_quote_currency = grid_asset,
          cv_quote_per_risk_unit = 1, cv_private_generation = 3, cv_observed_at_ms = 10\<rparr>\<rparr>\<rparr>"

definition grid_reduction :: "rat grid_exposure_reduction" where
  "grid_reduction =
     \<lparr>gx_position = GLong, gx_side = Sell, gx_quantity = 250 / 1000,
      gx_maximum_notional = amount_new grid_asset 25, gx_close_only = True\<rparr>"

text \<open>The plans, computed together.\<close>

lemma grid_plans:
  "plan rat_api grid_input = Ok (grid_result grid_input (Converge grid_anchor grid_orders))
   \<and> plan rat_api grid_filled = Ok (grid_result grid_filled
     (Converge (grid_anchor\<lparr>ra_grid_quantity := 52 / 1000\<rparr>) grid_rolled))
   \<and> plan rat_api grid_thin = Ok (grid_result grid_thin (Replenish [grid_adjustment] True True))
   \<and> plan rat_api grid_rich = Ok (grid_result grid_rich (ReduceExposure [grid_reduction] True True))"
  by code_simp

lemma grid_plan:
  "plan rat_api grid_input = Ok (grid_result grid_input (Converge grid_anchor grid_orders))"
  using grid_plans by (elim conjE)

lemma grid_filled_plan:
  "plan rat_api grid_filled = Ok (grid_result grid_filled
     (Converge (grid_anchor\<lparr>ra_grid_quantity := 52 / 1000\<rparr>) grid_rolled))"
  using grid_plans by (elim conjE)

lemma grid_thin_plan:
  "plan rat_api grid_thin = Ok (grid_result grid_thin (Replenish [grid_adjustment] True True))"
  using grid_plans by (elim conjE)

lemma grid_rich_plan:
  "plan rat_api grid_rich = Ok (grid_result grid_rich (ReduceExposure [grid_reduction] True True))"
  using grid_plans by (elim conjE)

end
