(* ===== verification/Grid_Properties.thy ===== *)
theory Grid_Properties
  imports Grid_Samples
begin

text \<open>
  The properties of the stateless grid planner: what every plan has checked, what its orders can
  and cannot do, and what the two inventory directives ask for.
\<close>

section \<open>Supporting facts\<close>

lemma on_scale_3: "\<bar>k\<bar> < 2 ^ 96 \<Longrightarrow> v = of_int k / 1000 \<Longrightarrow> on_scale 3 v"
  by (auto simp: on_scale_def)

lemma grid_quantities_on_scale:
  "quantities_on_scale rat_api grid_input 3" "quantities_on_scale rat_api grid_rich 3"
proof -
  have q: "on_scale 3 (1 / 1000)" "on_scale 3 0" "on_scale 3 1"
    by (rule on_scale_3 [of 1], simp, simp) (rule on_scale_3 [of 0], simp, simp,
      rule on_scale_3 [of 1000], simp, simp)
  then show "quantities_on_scale rat_api grid_input 3" "quantities_on_scale rat_api grid_rich 3"
    by (simp_all add: quantities_on_scale_def grid_rich_def grid_input_def grid_metadata_def
        all_positions inventory_quantity_def reserved_quantity_def)
qed

lemma grid_result_directive [simp]: "pl_directive (grid_result input d) = d"
  by (simp add: grid_result_def)

section \<open>The orders of a plan\<close>

text \<open>
  C1: Every order a plan places is a valid intent of an active leg, on the price tick and
  quantity step, and inside the venue's price and quantity limits.
\<close>

theorem plan_orders_within_limits:
  assumes "dec_rem_laws D" and "plan D input = Ok p" and "pl_directive p = Converge anchor orders"
  shows "\<forall>x \<in> set orders. within_limits D input x"
  using converge_last(1) [OF assms(2,3)] order_outside_limits_False [OF assms(1)]
  unfolding validate_generated_orders_Ok by blast

theorem plan_orders_within_limits_witness:
  "list_all (within_limits rat_api grid_input) grid_orders"
  using plan_orders_within_limits [OF rat_rem_laws grid_plan] by (simp add: list_all_iff)

text \<open>
  C2: The closing orders a plan places for a leg never add up to more than the inventory of
  the leg that is not reserved by other close orders.
\<close>

theorem plan_closes_within_inventory:
  assumes "dec_rem_laws D" and "dec_exact_laws D" and "dec_choice_laws D" and "dec_sign_laws D"
    and "quantities_on_scale D input s"
    and "plan D input = Ok p" and "pl_directive p = Converge anchor orders"
  shows "lane_quantity D position Close orders \<le> closable D input position"
proof -
  have facts: "validate_private_facts D input = None"
    using plan_converge(1) [OF assms(6,7)] by (simp add: facts_usable_def)
  obtain desired where "clip_close_orders D input desired = Ok orders"
    using converge_last(2) [OF assms(6,7)] by blast
  then show ?thesis by (rule clip_close_orders_bound [OF assms(1-4) facts assms(5)])
qed

theorem plan_closes_within_inventory_witness:
  "lane_quantity rat_api GLong Close grid_orders \<le> closable rat_api grid_input GLong"
  by (rule plan_closes_within_inventory [OF _ _ _ _ grid_quantities_on_scale(1) grid_plan]) simp_all

text \<open>
  C3: The notional of the opening orders of a plan, as exact numbers, never exceeds the
  configured maximum.
\<close>

theorem plan_open_notional_capped:
  assumes "dec_exact_laws D" and "dec_const_laws D"
    and "plan D input = Ok p" and "pl_directive p = Converge anchor orders"
    and "notionals_representable D (pi_instrument input) orders"
  shows "open_notional D (pi_instrument input) orders
    \<le> dec_value D (am_value (pc_maximum_grid_notional (pi_config input)))"
proof -
  have "validate_config D (pi_config input) = Ok ()"
    using plan_converge(1) [OF assms(3,4)] by (simp add: facts_usable_def)
  then have "0 \<le> dec_value D (am_value (pc_maximum_grid_notional (pi_config input)))"
    by (auto simp: validate_config_def outcome_simps Let_def dec_positive_def split: if_splits)
  then show ?thesis
    using enforce_maximum_grid_notional_bound [OF assms(1,2) plan_converge(2) [OF assms(3,4)] assms(5)]
    by blast
qed

lemma representable_thousandths: "\<bar>k\<bar> < 2 ^ 96 \<Longrightarrow> v = of_int k / 1000 \<Longrightarrow> dec_representable v"
  using on_scale_representable on_scale_3 by blast

lemma grid_orders_representable: "notionals_representable rat_api (pi_instrument grid_input) grid_orders"
proof -
  have r: "dec_representable 99" "dec_representable 101" "dec_representable (5049 / 1000)"
      "dec_representable (5151 / 1000)" "dec_representable 0" "dec_representable (10200 / 1000)"
    by (rule representable_thousandths [of 99000], simp, simp,
        rule representable_thousandths [of 101000], simp, simp,
        rule representable_thousandths [of 5049], simp, simp,
        rule representable_thousandths [of 5151], simp, simp,
        rule representable_thousandths [of 0], simp, simp,
        rule representable_thousandths [of 10200], simp, simp)
  have n: "n = 0 \<or> n = Suc 0 \<or> n = Suc (Suc 0)" if "n \<le> Suc (Suc 0)" for n
    using that by linarith
  show ?thesis
    using r
    by (auto simp: notionals_representable_def grid_orders_def grid_order_def is_open_def Let_def
        unit_notional_def order_notional_def grid_input_def grid_metadata_def price_num_def
        dest!: n)
qed

theorem plan_open_notional_capped_witness:
  "open_notional rat_api (pi_instrument grid_input) grid_orders \<le> 100"
  using plan_open_notional_capped [OF _ _ grid_plan _ grid_orders_representable]
  by (simp add: grid_input_def grid_config_def)

text \<open>
  C21: A plan places, for every active leg, exactly the configured number of opening orders and
  at most that many closing ones; no two orders share a key, and they are sorted by it.
\<close>

theorem plan_surface_shape:
  assumes "plan D input = Ok p" and "pl_directive p = Converge anchor orders"
    and "position \<in> set (active_positions input)"
  shows "lane_count position Open orders = unat (pc_grid_count (pi_config input))
    \<and> lane_count position Close orders \<le> unat (pc_grid_count (pi_config input))
    \<and> distinct (map gi_key orders) \<and> sorted (map gi_key orders)"
  by (rule plan_converge_shape [OF assms])

theorem plan_surface_shape_witness: "lane_count GShort Open grid_orders = 1"
  using plan_surface_shape [OF grid_plan, of grid_anchor grid_orders GShort]
  by (simp add: active_positions_def grid_input_def grid_config_def)

text \<open>
  C12: A plan over a resting surface or over fills places no new order on the wrong side of the
  book: an order that was not already resting is a buy below the ask or a sell above the bid.
\<close>

theorem plan_never_crosses_book:
  assumes "plan D input = Ok p" and "pl_directive p = Converge anchor orders"
    and "pi_owned_orders input \<noteq> [] \<or> pi_maker_fills input \<noteq> []"
    and "pi_book input = Some book" and "x \<in> set orders"
    and "gi_key x \<notin> set (map gi_key (pi_owned_orders input))"
  shows "case gi_side x of Buy \<Rightarrow> price_num D (gi_price x) < price_num D (bk_ask book)
    | Sell \<Rightarrow> price_num D (bk_bid book) < price_num D (gi_price x)"
proof -
  obtain surface where s: "validated_surface D input = Ok surface"
      "if surface = [] \<and> pi_maker_fills input = []
       then initial_surface D input = Ok (anchor, orders)
       else rolled_surface D input surface = Ok (anchor, orders)"
    using plan_converge(3) [OF assms(1,2)] by blast
  have "surface \<noteq> [] \<or> pi_maker_fills input \<noteq> []"
    using validated_surface_keys [OF s(1)] assms(3) by (auto simp: bt_keys_def)
  then have "rolled_surface D input surface = Ok (anchor, orders)" using s(2) by auto
  then have no: "\<not> placement_crosses D input x"
    using rolled_surface_last [of D input surface anchor orders] assms(5) by (auto simp: list_ex_iff)
  have "\<not> list_ex (\<lambda>owned. gi_key owned = gi_key x) (pi_owned_orders input)"
    using assms(6) unfolding list_ex_iff set_map by (metis imageI)
  then show ?thesis
    using no assms(4)
    by (simp add: placement_crosses_def crosses_book_def price_num_def dec_le_def not_le
        split: order_side.splits)
qed

theorem plan_never_crosses_book_witness: "price_num rat_api (gi_price (hd grid_rolled)) < 99"
proof -
  have "case gi_side (hd grid_rolled) of
      Buy \<Rightarrow> price_num rat_api (gi_price (hd grid_rolled)) < price_num rat_api (Price 99)
    | Sell \<Rightarrow> price_num rat_api (Price 98) < price_num rat_api (gi_price (hd grid_rolled))"
    using plan_never_crosses_book [OF grid_filled_plan, of _ grid_rolled
        "\<lparr>bk_bid = Price 98, bk_ask = Price 99, bk_observed_at_ms = 10\<rparr>" "hd grid_rolled"]
    by (simp add: grid_filled_def grid_rolled_def grid_order_def)
  then show ?thesis by (simp add: grid_rolled_def grid_order_def price_num_def)
qed

text \<open>
  The fills a converging plan rolled over were all checked: each is maker evidence of a
  valid order of the current revision that is not waiting to be placed, and an order whose fill
  is complete is no longer resting.
\<close>

theorem plan_uses_checked_fills:
  assumes "plan D input = Ok p" and "pl_directive p = Converge anchor orders"
    and "f \<in> set (pi_maker_fills input)"
  shows "fill_checked D input f
    \<and> (if mf_complete f
       then gi_key (mf_source_order f) \<notin> set (map gi_key (pi_owned_orders input)) else True)"
proof -
  obtain surface where s: "validated_surface D input = Ok surface"
      "if surface = [] \<and> pi_maker_fills input = []
       then initial_surface D input = Ok (anchor, orders)
       else rolled_surface D input surface = Ok (anchor, orders)"
    using plan_converge(3) [OF assms(1,2)] by blast
  moreover have "pi_maker_fills input \<noteq> []" using assms(3) by (cases "pi_maker_fills input") auto
  ultimately have "rolled_surface D input surface = Ok (anchor, orders)" by simp
  from rolled_surface_fills [OF this assms(3)] show ?thesis
    using validated_surface_keys [OF s(1)] by auto
qed

theorem plan_uses_checked_fills_witness: "fill_checked rat_api grid_filled grid_fill"
  using plan_uses_checked_fills [OF grid_filled_plan, of _ grid_rolled grid_fill]
  by (simp add: grid_filled_def)

section \<open>When a plan acts at all\<close>



text \<open>
  C34: The planner never panics: every input, valid or not, gives a plan or an error, as long
  as the remainder is defined for non-zero divisors and results within range do not overflow.
\<close>

theorem plan_never_panics:
  assumes "dec_rem_laws D" and "dec_range_laws D"
  shows "plan D input \<noteq> Panic"
  using plan_settles [of D input] assms by (simp add: total_laws_def settles_def)

theorem plan_never_panics_witness:
  "plan exact_api grid_input \<noteq> Panic \<and> plan exact_api (grid_input\<lparr>pi_book := None\<rparr>) \<noteq> Panic"
  using plan_never_panics [of exact_api] by simp

text \<open>
  A stop or a reset request is honoured before anything else is looked at: with a valid
  identity the plan is the stop or the manual reset, whatever the other inputs are, and such a
  plan is inert.
\<close>

theorem stop_and_reset_take_precedence:
  assumes "validate_identity (pi_config input) = Ok ()" and "pi_control input \<noteq> Run"
  shows "\<exists>p. plan D input = Ok p \<and> inert (pl_directive p)
    \<and> pl_directive p = (if pi_control input = Stop then StopPlan True False
        else ResetRequired Manual True True True)"
  using assms control_cases [of "pi_control input"]
  by (auto simp: plan_def inert_def)

theorem stop_and_reset_take_precedence_witness:
  "\<exists>p. plan rat_api (grid_input\<lparr>pi_control := Stop, pi_book := None\<rparr>) = Ok p
     \<and> pl_directive p = StopPlan True False"
proof -
  have "validate_identity (pi_config (grid_input\<lparr>pi_control := Stop, pi_book := None\<rparr>)) = Ok ()"
    by code_simp
  from stop_and_reset_take_precedence [OF this, of rat_api] show ?thesis by auto
qed

section \<open>Inventory directives\<close>

text \<open>
  C32: Every reduction a plan orders closes its leg, by a positive quantity on the step and
  inside the venue's limits that is at most what the leg holds unreserved; and it was due, by
  the leg's own risk snapshot: its notional reached the equity limit and its profit rate the
  minimum.
\<close>

theorem plan_reductions_sound:
  assumes "dec_rem_laws D" and "dec_exact_laws D" and "dec_choice_laws D" and "dec_sign_laws D"
    and "quantities_on_scale D input s"
    and "plan D input = Ok p" and "pl_directive p = ReduceExposure rs cancel hold" and "r \<in> set rs"
  shows "reduction_sound D input r
    \<and> (\<exists>policy risk legs equity_limit l.
         pc_profit_reduction (pi_config input) = Some policy \<and> pi_risk input = Some risk
         \<and> risk_legs D input risk = Ok legs \<and> bt_lookup legs (gx_position r) = Some l
         \<and> dec_mul D (ar_account_equity (rf_account risk)) (pf_inventory_equity_multiple policy)
             = Some equity_limit
         \<and> reduction_due D policy equity_limit l)"
  using assms(6,7)
proof (rule plan_reduces)
  fix policy risk legs equity_limit
  assume usable: "facts_usable D input"
    and p: "pc_profit_reduction (pi_config input) = Some policy" "pi_risk input = Some risk"
      "risk_legs D input risk = Ok legs"
      "dec_mul D (ar_account_equity (rf_account risk)) (pf_inventory_equity_multiple policy)
         = Some equity_limit"
    and rs: "collect_reductions (reduce_leg D input policy risk equity_limit legs)
      (active_positions input) = Ok (Some rs)"
  obtain q where q: "q \<in> set (active_positions input)"
      "reduce_leg D input policy risk equity_limit legs q = Ok (ReduceLeg r)"
    using collect_reductions_member [OF rs assms(8)] by blast
  have facts: "validate_private_facts D input = None" using usable by (simp add: facts_usable_def)
  have "reduction_sound D input r"
    by (rule reduce_leg_sound [OF assms(1-4) facts assms(5) q(2,1)])
  moreover have "\<exists>l. bt_lookup legs (gx_position r) = Some l \<and> reduction_due D policy equity_limit l"
    using q(2) by (rule reduce_leg_steps) auto
  ultimately show ?thesis using p by blast
qed

theorem plan_reductions_sound_witness: "reduction_sound rat_api grid_rich grid_reduction"
  using plan_reductions_sound [OF _ _ _ _ grid_quantities_on_scale(2) grid_rich_plan] by simp

text \<open>
  A plan replenishes only when no exposure is to be reduced, and only legs whose notional
  is below the configured minimum; the order opens the leg, its quantity is on the step and
  inside the venue's limits, and its target notional is the missing one or the single-order
  maximum, whichever is less.
\<close>

theorem plan_replenishments_sound:
  assumes "dec_rem_laws D" and "dec_choice_laws D"
    and "plan D input = Ok p" and "pl_directive p = Replenish adjustments cancel hold"
  shows "adjustments \<noteq> [] \<and> exposure_directive D input = Ok None
    \<and> (\<exists>policy. pc_replenishment (pi_config input) = Some policy
         \<and> (\<forall>a \<in> set adjustments. replenishment_sound D input policy a))"
  using assms(3,4)
proof (rule plan_replenishes)
  fix policy
  assume *: "exposure_directive D input = Ok None" "pc_replenishment (pi_config input) = Some policy"
      "try_fold (replenish_leg D input policy) [] (active_positions input) = Ok adjustments"
      "adjustments \<noteq> []"
  have "\<forall>a \<in> set adjustments. replenishment_sound D input policy a"
    by (rule replenish_legs_sound [OF assms(1,2) *(3)]) simp_all
  then show ?thesis using * by blast
qed

theorem plan_replenishments_sound_witness:
  "\<exists>policy. replenishment_sound rat_api grid_thin policy grid_adjustment"
  using plan_replenishments_sound [OF _ _ grid_thin_plan] by auto

text \<open>
  The semantic coordinates of an order give its key back, and number the orders of a lane
  from one, at most fifty, outwards from the market: of two orders of one lane and side, the one
  with the smaller level has the better price, or the same.
\<close>

theorem semantic_key_sound:
  assumes "semantic_order_key D orders key = Ok k" and "semantic_order_key D orders key' = Ok k'"
    and "gk_epoch key = gk_epoch key'" and "gk_position key = gk_position key'"
    and "gk_role key = gk_role key'"
    and "distinct (map gi_key orders)" and "x \<in> set orders" and "x' \<in> set orders"
    and "gi_key x = key" and "gi_key x' = key'" and "gi_side x = gi_side x'"
    and "sk_grid_level k \<le> sk_grid_level k'"
  shows "GridOrderKey (sk_revision k) (sk_position k) (sk_role k) (sk_sequence k) = key
    \<and> 1 \<le> unat (sk_grid_level k) \<and> unat (sk_grid_level k) \<le> 50
    \<and> (case gi_side x of Buy \<Rightarrow> price_num D (gi_price x') \<le> price_num D (gi_price x)
       | Sell \<Rightarrow> price_num D (gi_price x) \<le> price_num D (gi_price x'))"
proof -
  let ?lane = "semantic_lane D orders key (gi_side x)"
  obtain i where i: "i < length ?lane" "length ?lane \<le> 50" "?lane ! i = x"
      "unat (sk_grid_level k) = i + 1"
    using semantic_position [OF assms(1,6,7,9)] by blast
  obtain j where "j < length (semantic_lane D orders key' (gi_side x'))"
      "semantic_lane D orders key' (gi_side x') ! j = x'" "unat (sk_grid_level k') = j + 1"
    using semantic_position [OF assms(2,6,8,10)] by blast
  moreover have "semantic_lane D orders key' (gi_side x') = ?lane"
    by (simp add: semantic_lane_def assms(3-5) assms(11) [symmetric])
  ultimately have j: "j < length ?lane" "?lane ! j = x'" "unat (sk_grid_level k') = j + 1"
    by simp_all
  have "i \<le> j" using assms(12) i(4) j(3) by (simp add: word_le_nat_alt)
  from semantic_lane_sorted [OF this j(1)] show ?thesis
    using i semantic_key_fields [OF assms(1)] unfolding i(3) j(2)
    by (auto split: order_side.splits)
qed

theorem semantic_key_sound_witness:
  "\<exists>k. semantic_order_key rat_api grid_orders (GridOrderKey 7 GLong Open 1) = Ok k
     \<and> 1 \<le> unat (sk_grid_level k)"
proof -
  have "semantic_order_key rat_api grid_orders (GridOrderKey 7 GLong Open 1)
      = Ok \<lparr>sk_revision = 7, sk_position = GLong, sk_role = Open, sk_grid_level = 1, sk_sequence = 1\<rparr>"
    by code_simp
  from semantic_key_sound [OF this this refl refl refl, of "grid_order GLong Open Buy 99"
      "grid_order GLong Open Buy 99"] this
  show ?thesis by (simp add: grid_orders_def grid_order_def)
qed

end
