(* ===== verification/Mutation.thy ===== *)
theory Mutation
  imports Prelude
begin

text \<open>
  Methods that mutate their state in place and may fail part of the way: the state they leave
  with their result.  \<open>attempt\<close> runs a pure step whose failure leaves the state as it is;
  \<open>chain\<close> runs one such method after another.
\<close>

definition attempt ::
  "'s \<Rightarrow> ('a, 'e) outcome \<Rightarrow> ('a \<Rightarrow> 's \<times> ('b, 'e) outcome) \<Rightarrow> 's \<times> ('b, 'e) outcome" where
  "attempt s m f = (case m of Ok x \<Rightarrow> f x | Err e \<Rightarrow> (s, Err e) | Panic \<Rightarrow> (s, Panic))"

definition chain ::
  "'s \<times> ('a, 'e) outcome \<Rightarrow> ('s \<Rightarrow> 'a \<Rightarrow> 's \<times> ('b, 'e) outcome) \<Rightarrow> 's \<times> ('b, 'e) outcome" where
  "chain m f = (case m of
     (s, Ok x) \<Rightarrow> f s x
   | (s, Err e) \<Rightarrow> (s, Err e)
   | (s, Panic) \<Rightarrow> (s, Panic))"

lemma attempt_simps [simp]:
  "attempt s (Ok x) f = f x"
  "attempt s (Err e) f = (s, Err e)"
  "attempt s Panic f = (s, Panic)"
  by (simp_all add: attempt_def)

lemma chain_simps [simp]:
  "chain (s, Ok x) f = f s x"
  "chain (s, Err e) f = (s, Err e)"
  "chain (s, Panic) f = (s, Panic)"
  by (simp_all add: chain_def)

lemma attempt_Ok:
  "attempt s m f = (s', Ok y) \<longleftrightarrow> (\<exists>x. m = Ok x \<and> f x = (s', Ok y))"
  by (cases m) auto

lemma attempt_cases:
  assumes "attempt s m f = (s', r)"
  obtains (failed) "s' = s" "\<not> is_ok r" | (ran) x where "m = Ok x" "f x = (s', r)"
  using assms by (cases m) auto

lemma chain_Ok:
  "chain m f = (s', Ok y) \<longleftrightarrow> (\<exists>s x. m = (s, Ok x) \<and> f s x = (s', Ok y))"
  by (cases m; cases "snd m") auto

text \<open>A property of the state that the step and the rest both keep.\<close>

lemma attempt_fst:
  assumes "P s" and "\<And>x. m = Ok x \<Longrightarrow> P (fst (f x))"
  shows "P (fst (attempt s m f))"
  using assms by (cases m) auto

lemma chain_fst:
  assumes "P (fst m)" and "\<And>s x. m = (s, Ok x) \<Longrightarrow> P s \<Longrightarrow> P (fst (f s x))"
  shows "P (fst (chain m f))"
proof (cases m)
  case (Pair s r)
  then show ?thesis using assms by (cases r) auto
qed

end
