(* ===== verification/Reducer_State.thy ===== *)
theory Reducer_State
  imports Grid_Facts Mutation Text
begin

text \<open>
  The state of the event-driven grid reducer (\<open>crates/venue-strategies/src/hedged_grid\<close>,
  \<open>reducer.rs\<close> and the transaction types of \<open>model.rs\<close>): fills and their records, the
  recovery of deficient inventory, transactions, actions, the order sequences, and the checks
  and migrations of a checkpoint.
\<close>

definition HEDGED_GRID_SCHEMA_VERSION :: u16 where
  "HEDGED_GRID_SCHEMA_VERSION = 3"

section \<open>Fills, recovery and transactions (model.rs)\<close>

record 'd owned_grid_fill =
  of_fill_id :: string
  of_private_generation :: u64
  of_source_order :: grid_order_key
  of_fill_price :: "'d price"
  of_complete :: bool
  of_maker :: "bool field_state"

record 'd owned_grid_fill_record =
  fr_source_order :: "'d grid_order_intent"
  fr_fill_price :: "'d price"
  fr_private_generation :: u64
  fr_maker :: "bool option"
  fr_grid_action_emitted :: bool
  fr_retired_without_action :: bool

record inventory_deficiency =
  df_long :: bool
  df_short :: bool

definition deficiency_any :: "inventory_deficiency \<Rightarrow> bool" where
  "deficiency_any legs \<longleftrightarrow> df_long legs \<or> df_short legs"

datatype 'd inventory_recovery_state =
  Inactive
| Deficient inventory_deficiency u64
| AwaitingNextOwnedFill u64
| ReanchorPending string "'d price"
| Rebuilding string "'d price"

datatype grid_reset_reason =
  Startup | InventoryLow | InventoryReplenished | ManualReset | ReconciliationReset
| StructureInvalid

datatype grid_phase =
  Recovering | CheckingInventory | ReplenishingInventory | ResettingGrid | Running | Stopping
| BlockedUnknown

record 'd grid_replenishment =
  rp_round :: u64
  rp_private_generation :: u64
  rp_position :: grid_position
  rp_target_notional :: "'d amount"

record 'd grid_transaction =
  gt_id :: string
  gt_source_fill_id :: string
  gt_source_order :: grid_order_key
  gt_open :: "'d grid_order_intent"
  gt_close :: "'d grid_order_intent"
  gt_cancel :: grid_order_key
  gt_cancelled_order :: "'d grid_order_intent option"

definition gt_places :: "'d grid_transaction \<Rightarrow> 'd grid_order_intent list" where
  "gt_places t = [gt_open t, gt_close t]"

datatype 'd grid_action =
  ResetGrid grid_reset_reason
| PlaceOrder "'d grid_order_intent"
| ReplenishLeg "'d grid_replenishment"
| DispatchTransaction "'d grid_transaction"
| ReanchorAtFill string "'d price"

datatype 'd grid_decision = NoAction | Actions "'d grid_action list" | Blocked

section \<open>The reducer's state\<close>

record grid_order_sequences =
  sq_epoch :: u64
  sq_long_open :: u64
  sq_long_close :: u64
  sq_short_open :: u64
  sq_short_close :: u64

definition sequences_default :: grid_order_sequences where
  "sequences_default =
     \<lparr>sq_epoch = 0, sq_long_open = 0, sq_long_close = 0, sq_short_open = 0, sq_short_close = 0\<rparr>"

definition sequences_of_epoch :: "u64 \<Rightarrow> grid_order_sequences" where
  "sequences_of_epoch epoch = sequences_default\<lparr>sq_epoch := epoch\<rparr>"

definition current_sequence ::
  "grid_order_sequences \<Rightarrow> grid_position \<Rightarrow> grid_order_role \<Rightarrow> u64" where
  "current_sequence q position role =
     (case (position, role) of
        (GLong, Open) \<Rightarrow> sq_long_open q
      | (GLong, Close) \<Rightarrow> sq_long_close q
      | (GShort, Open) \<Rightarrow> sq_short_open q
      | (GShort, Close) \<Rightarrow> sq_short_close q)"

definition observe_sequence :: "grid_order_key \<Rightarrow> grid_order_sequences \<Rightarrow> grid_order_sequences" where
  "observe_sequence key q =
     (let q = (if sq_epoch q \<noteq> gk_epoch key then sequences_of_epoch (gk_epoch key) else q) in
      case (gk_position key, gk_role key) of
        (GLong, Open) \<Rightarrow> q\<lparr>sq_long_open := max (sq_long_open q) (gk_level key)\<rparr>
      | (GLong, Close) \<Rightarrow> q\<lparr>sq_long_close := max (sq_long_close q) (gk_level key)\<rparr>
      | (GShort, Open) \<Rightarrow> q\<lparr>sq_short_open := max (sq_short_open q) (gk_level key)\<rparr>
      | (GShort, Close) \<Rightarrow> q\<lparr>sq_short_close := max (sq_short_close q) (gk_level key)\<rparr>)"

record 'd stream_inventory_adjustments =
  sa_long :: 'd
  sa_short :: 'd

definition adjustments_default :: "'d decimal_api \<Rightarrow> 'd stream_inventory_adjustments" where
  "adjustments_default D = \<lparr>sa_long = dec_zero D, sa_short = dec_zero D\<rparr>"

record 'd hedged_grid_state =
  hs_schema_version :: u16
  hs_binding :: hedged_grid_binding
  hs_params :: "'d hedged_grid_params"
  hs_phase :: grid_phase
  hs_epoch :: "'d grid_epoch option"
  hs_inventory :: "'d grid_inventory option"
  hs_owned_orders :: "(grid_order_key, 'd grid_order_intent) btree"
  hs_pending_transactions :: "(string, 'd grid_transaction) btree"
  hs_pending_replenishments :: "(grid_position, 'd grid_replenishment) btree"
  hs_seen_fill_ids :: "(string, grid_order_key) btree"
  hs_owned_fill_records :: "(string, 'd owned_grid_fill_record) btree"
  hs_inventory_recovery :: "'d inventory_recovery_state"
  hs_reset_reason :: "grid_reset_reason option"
  hs_replenish_round :: u64
  hs_suppress_replenishment :: bool
  hs_blocked_not_before_ms :: "u64 option"
  hs_order_sequences :: grid_order_sequences
  hs_stream_adjustments :: "'d stream_inventory_adjustments"

definition reducer_new ::
  "'d decimal_api \<Rightarrow> hedged_grid_binding \<Rightarrow> 'd hedged_grid_params
   \<Rightarrow> ('d hedged_grid_state, hedged_grid_error) outcome" where
  "reducer_new D binding params =
     and_then (binding_validate binding) (\<lambda>_.
     and_then (grid_params_validate D params) (\<lambda>_.
     if asset_str (am_asset (gp_order_notional params)) \<noteq> sym_quote (gb_symbol binding)
     then Err HG_Params
     else Ok \<lparr>hs_schema_version = HEDGED_GRID_SCHEMA_VERSION, hs_binding = binding,
       hs_params = params, hs_phase = Recovering, hs_epoch = None, hs_inventory = None,
       hs_owned_orders = [], hs_pending_transactions = [], hs_pending_replenishments = [],
       hs_seen_fill_ids = [], hs_owned_fill_records = [], hs_inventory_recovery = Inactive,
       hs_reset_reason = None, hs_replenish_round = 0, hs_suppress_replenishment = False,
       hs_blocked_not_before_ms = None, hs_order_sequences = sequences_default,
       hs_stream_adjustments = adjustments_default D\<rparr>))"

section \<open>Capacity\<close>

definition capacity_deficiency ::
  "'d decimal_api \<Rightarrow> 'd grid_epoch \<Rightarrow> 'd grid_inventory \<Rightarrow> u8
   \<Rightarrow> (inventory_deficiency, hedged_grid_error) outcome" where
  "capacity_deficiency D epoch inventory grid_count =
     and_then (ok_or HG_Inventory
       (dec_mul D (ge_grid_quantity epoch) (dec_of_int D (uint grid_count)))) (\<lambda>required.
     Ok \<lparr>df_long = dec_less D (gv_long_quantity inventory) required,
         df_short = dec_less D (gv_short_quantity inventory) required\<rparr>)"

section \<open>Order sequences\<close>

text \<open>The sequences that the keys of the epoch in a state imply.\<close>

definition epoch_keys :: "'d hedged_grid_state \<Rightarrow> u64 \<Rightarrow> grid_order_key list" where
  "epoch_keys s epoch =
     filter (\<lambda>key. gk_epoch key = epoch) (bt_keys (hs_owned_orders s) @ bt_values (hs_seen_fill_ids s))
     @ concat (map (\<lambda>t. gt_source_order t # gt_cancel t # map gi_key (gt_places t))
         (filter (\<lambda>t. gk_epoch (gt_source_order t) = epoch)
           (bt_values (hs_pending_transactions s))))"

definition observed_sequences :: "'d hedged_grid_state \<Rightarrow> u64 \<Rightarrow> grid_order_sequences" where
  "observed_sequences s epoch = fold observe_sequence (epoch_keys s epoch) (sequences_of_epoch epoch)"

definition reconcile_order_sequences :: "'d hedged_grid_state \<Rightarrow> 'd hedged_grid_state" where
  "reconcile_order_sequences s =
     (case hs_epoch s of
        None \<Rightarrow> s\<lparr>hs_order_sequences := sequences_default\<rparr>
      | Some epoch \<Rightarrow> s\<lparr>hs_order_sequences := observed_sequences s (ge_epoch epoch)\<rparr>)"

section \<open>Checkpoint validation\<close>

definition validate_sequence_checkpoint ::
  "'d hedged_grid_state \<Rightarrow> (unit, hedged_grid_error) outcome" where
  "validate_sequence_checkpoint s =
     (case hs_epoch s of
        None \<Rightarrow> if hs_order_sequences s = sequences_default then Ok () else Err HG_Checkpoint
      | Some e \<Rightarrow>
        let epoch = ge_epoch e; minimum = observed_sequences s epoch in
        if sq_epoch (hs_order_sequences s) \<noteq> epoch then Err HG_Checkpoint
        else if list_ex (\<lambda>(position, role).
            current_sequence (hs_order_sequences s) position role
              < current_sequence minimum position role)
          [(GLong, Open), (GLong, Close), (GShort, Open), (GShort, Close)]
        then Err HG_Checkpoint
        else Ok ())"

definition validate_reanchor_record ::
  "'d decimal_api \<Rightarrow> 'd hedged_grid_state \<Rightarrow> string \<Rightarrow> 'd price
   \<Rightarrow> ('d owned_grid_fill_record, hedged_grid_error) outcome" where
  "validate_reanchor_record D s fill_id fill_price =
     and_then (ok_or HG_Checkpoint (bt_lookup (hs_owned_fill_records s) fill_id)) (\<lambda>rec.
     if fill_id = [] \<or> fr_private_generation rec = 0
       \<or> \<not> price_eq D (fr_fill_price rec) fill_price
       \<or> fr_maker rec \<noteq> Some True \<or> \<not> fr_grid_action_emitted rec
       \<or> bt_lookup (hs_seen_fill_ids s) fill_id \<noteq> Some (gi_key (fr_source_order rec))
     then Err HG_Checkpoint else Ok rec)"

definition validate_recovery_checkpoint ::
  "'d decimal_api \<Rightarrow> 'd hedged_grid_state \<Rightarrow> (unit, hedged_grid_error) outcome" where
  "validate_recovery_checkpoint D s =
     (case hs_inventory_recovery s of
        Inactive \<Rightarrow> Ok ()
      | Deficient legs first_seen_generation \<Rightarrow>
        (case (hs_epoch s, hs_inventory s) of
           (Some epoch, Some inventory) \<Rightarrow>
             if \<not> deficiency_any legs \<or> first_seen_generation = 0
               \<or> gv_private_generation inventory < first_seen_generation
             then Err HG_Checkpoint
             else if hs_phase s = Running then
               and_then (map_err (\<lambda>_. HG_Checkpoint)
                 (capacity_deficiency D epoch inventory (gp_grid_count (hs_params s)))) (\<lambda>current.
               if current \<noteq> legs then Err HG_Checkpoint else Ok ())
             else Ok ()
         | _ \<Rightarrow> Err HG_Checkpoint)
      | AwaitingNextOwnedFill armed_generation \<Rightarrow>
        (case (hs_epoch s, hs_inventory s) of
           (Some epoch, Some inventory) \<Rightarrow>
             if armed_generation = 0 \<or> gv_private_generation inventory < armed_generation
             then Err HG_Checkpoint
             else if hs_phase s = Running then
               and_then (map_err (\<lambda>_. HG_Checkpoint)
                 (capacity_deficiency D epoch inventory (gp_grid_count (hs_params s)))) (\<lambda>legs.
               if deficiency_any legs then Err HG_Checkpoint else Ok ())
             else Ok ()
         | _ \<Rightarrow> Err HG_Checkpoint)
      | ReanchorPending fill_id fill_price \<Rightarrow>
        (case (hs_epoch s, hs_inventory s) of
           (Some epoch, Some inventory) \<Rightarrow>
             if hs_phase s \<notin> {Running, Stopping} \<or> hs_pending_transactions s \<noteq> []
             then Err HG_Checkpoint
             else
             and_then (validate_reanchor_record D s fill_id fill_price) (\<lambda>rec.
             if gk_epoch (gi_key (fr_source_order rec)) \<noteq> ge_epoch epoch
               \<or> gv_private_generation inventory < fr_private_generation rec
             then Err HG_Checkpoint else Ok ())
         | _ \<Rightarrow> Err HG_Checkpoint)
      | Rebuilding fill_id fill_price \<Rightarrow>
        (case hs_epoch s of
           None \<Rightarrow> Err HG_Checkpoint
         | Some epoch \<Rightarrow>
           if hs_inventory s = None \<or> hs_phase s \<notin> {ResettingGrid, Running, Stopping}
           then Err HG_Checkpoint
           else
           and_then (validate_reanchor_record D s fill_id fill_price) (\<lambda>rec.
           let accepted_anchor =
                 price_eq D (ge_anchor_price epoch) fill_price
                 \<or> (case ge_passive_book_fallback epoch of None \<Rightarrow> False
                    | Some fallback \<Rightarrow> fallback_matches_fill D fallback fill_id fill_price
                        \<and> price_eq D (fb_anchor_price fallback) (ge_anchor_price epoch)) in
           if ge_epoch epoch < gk_epoch (gi_key (fr_source_order rec))
             \<or> (hs_phase s = Running \<and> \<not> accepted_anchor)
             \<or> (hs_phase s = ResettingGrid \<and> hs_reset_reason s \<noteq> Some InventoryReplenished)
           then Err HG_Checkpoint else Ok ())))"

text \<open>The checks of one record against the set of consumed fills.\<close>

definition fill_record_ok ::
  "'d decimal_api \<Rightarrow> 'd hedged_grid_state \<Rightarrow> string \<Rightarrow> 'd owned_grid_fill_record \<Rightarrow> bool" where
  "fill_record_ok D s fill_id rec \<longleftrightarrow>
     fill_id \<noteq> []
     \<and> (case hs_epoch s of None \<Rightarrow> False
        | Some epoch \<Rightarrow> gk_epoch (gi_key (fr_source_order rec)) \<le> ge_epoch epoch)
     \<and> is_ok (intent_validate D (fr_source_order rec))
     \<and> (let seen_source = bt_lookup (hs_seen_fill_ids s) fill_id;
            own_source = Some (gi_key (fr_source_order rec)) in
        if fr_retired_without_action rec
        then fr_maker rec = Some True \<and> \<not> fr_grid_action_emitted rec \<and> seen_source = own_source
        else if fr_grid_action_emitted rec
        then fr_maker rec = Some True \<and> seen_source = own_source
        else fr_maker rec \<noteq> Some True \<and> seen_source = None)"

definition validate_checkpoint_structure ::
  "'d decimal_api \<Rightarrow> 'd hedged_grid_state \<Rightarrow> (unit, hedged_grid_error) outcome" where
  "validate_checkpoint_structure D s =
     (let current_epoch = map_option ge_epoch (hs_epoch s) in
      and_then (map_err (\<lambda>_. HG_Checkpoint) (binding_validate (hs_binding s))) (\<lambda>_.
      and_then (map_err (\<lambda>_. HG_Checkpoint) (grid_params_validate D (hs_params s))) (\<lambda>_.
      if asset_str (am_asset (gp_order_notional (hs_params s))) \<noteq> sym_quote (gb_symbol (hs_binding s))
      then Err HG_Checkpoint
      else
      and_then (case hs_epoch s of None \<Rightarrow> Ok ()
        | Some epoch \<Rightarrow> map_err (\<lambda>_. HG_Checkpoint)
            (epoch_validate D epoch (gp_grid_count (hs_params s)))) (\<lambda>_.
      and_then (case hs_inventory s of None \<Rightarrow> Ok ()
        | Some inventory \<Rightarrow> map_err (\<lambda>_. HG_Checkpoint) (inventory_validate D inventory)) (\<lambda>_.
      if hs_phase s = Running \<and> (hs_epoch s = None \<or> hs_inventory s = None)
      then Err HG_Checkpoint
      else if hs_epoch s = None
        \<and> ((hs_owned_orders s \<noteq> [] \<and> hs_phase s \<noteq> Stopping)
           \<or> hs_pending_transactions s \<noteq> [] \<or> hs_seen_fill_ids s \<noteq> []
           \<or> hs_owned_fill_records s \<noteq> [] \<or> hs_inventory_recovery s \<noteq> Inactive)
      then Err HG_Checkpoint
      else if list_ex (\<lambda>(key, order). key \<noteq> gi_key order
          \<or> (case current_epoch of None \<Rightarrow> hs_phase s \<noteq> Stopping | Some epoch \<Rightarrow> gk_epoch key \<noteq> epoch)
          \<or> \<not> is_ok (intent_validate D order)) (hs_owned_orders s)
      then Err HG_Checkpoint
      else if list_ex (\<lambda>(fill_id, source). fill_id = []
          \<or> (case current_epoch of None \<Rightarrow> True | Some epoch \<Rightarrow> epoch < gk_epoch source)
          \<or> \<not> is_ok (order_key_validate source)) (hs_seen_fill_ids s)
      then Err HG_Checkpoint
      else if \<not> list_all (\<lambda>(fill_id, rec). fill_record_ok D s fill_id rec) (hs_owned_fill_records s)
      then Err HG_Checkpoint
      else
      and_then (validate_recovery_checkpoint D s) (\<lambda>_. validate_sequence_checkpoint s))))))"

section \<open>Migrations\<close>

definition retire_record ::
  "'d hedged_grid_state \<Rightarrow> string \<times> grid_order_key
   \<Rightarrow> 'd hedged_grid_state" where
  "retire_record s entry =
     (let (fill_id, source) = entry;
          s = s\<lparr>hs_seen_fill_ids := bt_insert fill_id source (hs_seen_fill_ids s)\<rparr> in
      case bt_lookup (hs_owned_fill_records s) fill_id of
        None \<Rightarrow> s
      | Some rec \<Rightarrow> s\<lparr>hs_owned_fill_records :=
          bt_insert fill_id (rec\<lparr>fr_retired_without_action := True\<rparr>) (hs_owned_fill_records s)\<rparr>)"

text \<open>The maker facts without an action, with the keys they came from.\<close>

definition unretired_maker_facts ::
  "('d owned_grid_fill_record \<Rightarrow> bool) \<Rightarrow> 'd hedged_grid_state \<Rightarrow> (string \<times> grid_order_key) list" where
  "unretired_maker_facts P s =
     map (\<lambda>(fill_id, rec). (fill_id, gi_key (fr_source_order rec)))
       (filter (\<lambda>(fill_id, rec). fr_maker rec = Some True \<and> \<not> fr_grid_action_emitted rec
          \<and> \<not> fr_retired_without_action rec \<and> P rec) (hs_owned_fill_records s))"

definition retire_drained_stop_maker_facts ::
  "'d hedged_grid_state \<Rightarrow> 'd hedged_grid_state \<times> (unit, hedged_grid_error) outcome" where
  "retire_drained_stop_maker_facts s =
     (let retire = unretired_maker_facts (\<lambda>_. True) s in
      if retire = [] then (s, Ok ())
      else if hs_phase s \<noteq> Stopping \<or> hs_owned_orders s \<noteq> [] \<or> hs_pending_transactions s \<noteq> []
        \<or> hs_pending_replenishments s \<noteq> []
      then (s, Err HG_Checkpoint)
      else if list_ex (\<lambda>(fill_id, _). bt_contains (hs_seen_fill_ids s) fill_id) retire
      then (s, Err HG_Checkpoint)
      else (foldl retire_record s retire, Ok ()))"

definition active_recovery_fill :: "'d hedged_grid_state \<Rightarrow> string option" where
  "active_recovery_fill s =
     (case hs_inventory_recovery s of
        ReanchorPending fill_id _ \<Rightarrow> Some fill_id
      | Rebuilding fill_id _ \<Rightarrow> Some fill_id
      | _ \<Rightarrow> None)"

definition retire_superseded_maker_facts ::
  "'d hedged_grid_state \<Rightarrow> 'd hedged_grid_state \<times> (unit, hedged_grid_error) outcome" where
  "retire_superseded_maker_facts s =
     (case hs_epoch s of
        None \<Rightarrow> (s, Ok ())
      | Some epoch \<Rightarrow>
        if hs_pending_transactions s \<noteq> [] then (s, Ok ())
        else
        let retire = filter (\<lambda>(fill_id, _). active_recovery_fill s \<noteq> Some fill_id)
              (unretired_maker_facts
                (\<lambda>rec. gk_epoch (gi_key (fr_source_order rec)) < ge_epoch epoch) s) in
        if list_ex (\<lambda>(fill_id, _). bt_contains (hs_seen_fill_ids s) fill_id) retire
        then (s, Err HG_Checkpoint)
        else (foldl retire_record s retire, Ok ()))"

definition migrate_schema_one_checkpoint ::
  "'d decimal_api \<Rightarrow> 'd hedged_grid_state
   \<Rightarrow> 'd hedged_grid_state \<times> (unit, hedged_grid_error) outcome" where
  "migrate_schema_one_checkpoint D s =
     (if hs_inventory_recovery s \<noteq> Inactive \<or> hs_owned_fill_records s \<noteq> []
      then (s, Err HG_Checkpoint)
      else
      chain
        (case (hs_phase s, hs_epoch s, hs_inventory s) of
           (Running, Some epoch, Some inventory) \<Rightarrow>
             attempt s (capacity_deficiency D epoch inventory (gp_grid_count (hs_params s))) (\<lambda>legs.
             (if deficiency_any legs
              then s\<lparr>hs_inventory_recovery := Deficient legs (gv_private_generation inventory)\<rparr>
              else s, Ok ()))
         | _ \<Rightarrow> (s, Ok ())) (\<lambda>s _.
      let s = reconcile_order_sequences (s\<lparr>hs_schema_version := HEDGED_GRID_SCHEMA_VERSION\<rparr>) in
      (s, validate_checkpoint_structure D s)))"

definition migrate_schema_two_checkpoint ::
  "'d decimal_api \<Rightarrow> 'd hedged_grid_state
   \<Rightarrow> 'd hedged_grid_state \<times> (unit, hedged_grid_error) outcome" where
  "migrate_schema_two_checkpoint D s =
     (if list_ex (\<lambda>(_, rec). fr_retired_without_action rec) (hs_owned_fill_records s)
      then (s, Err HG_Checkpoint)
      else
      chain (retire_drained_stop_maker_facts s) (\<lambda>s _.
      let s = s\<lparr>hs_schema_version := HEDGED_GRID_SCHEMA_VERSION\<rparr> in
      (s, validate_checkpoint_structure D s)))"

definition migrate_checkpoint ::
  "'d decimal_api \<Rightarrow> 'd hedged_grid_state
   \<Rightarrow> 'd hedged_grid_state \<times> (unit, hedged_grid_error) outcome" where
  "migrate_checkpoint D s =
     (if hs_schema_version s = HEDGED_GRID_SCHEMA_VERSION then
        chain (retire_drained_stop_maker_facts s) (\<lambda>s _.
        chain (retire_superseded_maker_facts s) (\<lambda>s _.
        (s, validate_checkpoint_structure D s)))
      else if hs_schema_version s = 2 then migrate_schema_two_checkpoint D s
      else if hs_schema_version s = 1 then migrate_schema_one_checkpoint D s
      else (s, Err HG_Checkpoint))"

end
