(* ===== verification/Reducer.thy ===== *)
theory Reducer
  imports Reducer_State
begin

text \<open>
  The operations of the event-driven grid reducer (\<open>hedged_grid/reducer.rs\<close>): inventory
  observations and replenishment, the installation of an epoch, owned fills and the rolling
  transactions they reserve, resets, blocking and reconciliation.  Every operation returns the
  state it leaves, which after an error may already have changed.
\<close>

section \<open>The desired grid\<close>

definition epoch_order_at_price ::
  "'d decimal_api \<Rightarrow> u64 \<Rightarrow> grid_position \<Rightarrow> grid_order_role \<Rightarrow> u64 \<Rightarrow> 'd price \<Rightarrow> 'd
   \<Rightarrow> ('d grid_order_intent, hedged_grid_error) outcome" where
  "epoch_order_at_price D epoch position role level price quantity =
     (let order = \<lparr>gi_key = GridOrderKey epoch position role level,
            gi_side = (case role of Open \<Rightarrow> opening_side position | Close \<Rightarrow> closing_side position),
            gi_price = price, gi_quantity = quantity, gi_reduce_only = (role = Close)\<rparr>
      in and_then (intent_validate D order) (\<lambda>_. Ok order))"

definition epoch_order_at ::
  "'d decimal_api \<Rightarrow> 'd grid_epoch \<Rightarrow> grid_position \<Rightarrow> grid_order_role \<Rightarrow> u8
   \<Rightarrow> ('d grid_order_intent, hedged_grid_error) outcome" where
  "epoch_order_at D epoch position role level =
     and_then (epoch_price D epoch position role level) (\<lambda>price.
     epoch_order_at_price D (ge_epoch epoch) position role (of_nat (unat level)) price
       (ge_grid_quantity epoch))"

text \<open>\<open>floor().to_u8()\<close> is \<open>None\<close> outside the range of \<open>u8\<close>.\<close>

definition grid_count_from_inventory ::
  "'d decimal_api \<Rightarrow> 'd \<Rightarrow> 'd \<Rightarrow> u8 \<Rightarrow> (u8, 'e) outcome" where
  "grid_count_from_inventory D quantity grid_quantity max_grid_count =
     (if \<not> dec_positive D quantity \<or> \<not> dec_positive D grid_quantity then Ok 0
      else
      and_then (or_panic (dec_div D quantity grid_quantity)) (\<lambda>count.
      let floor_count = \<lfloor>dec_value D count\<rfloor>;
          converted = (if 0 \<le> floor_count \<and> floor_count < 256 then of_int floor_count
                       else max_grid_count) in
      Ok (min converted max_grid_count)))"

definition levels_up_to :: "u8 \<Rightarrow> u8 list" where
  "levels_up_to n = map of_nat [1 ..< Suc (unat n)]"

definition desired_leg ::
  "'d decimal_api \<Rightarrow> 'd grid_epoch \<Rightarrow> 'd grid_inventory \<Rightarrow> u8 \<Rightarrow> grid_position
   \<Rightarrow> ('d grid_order_intent list, hedged_grid_error) outcome" where
  "desired_leg D epoch inventory grid_count position =
     and_then (try_map (epoch_order_at D epoch position Open) (levels_up_to grid_count)) (\<lambda>opens.
     and_then (grid_count_from_inventory D (inventory_quantity inventory position)
       (ge_grid_quantity epoch) grid_count) (\<lambda>close_count.
     and_then (try_map (epoch_order_at D epoch position Close) (levels_up_to close_count)) (\<lambda>closes.
     Ok (opens @ closes))))"

definition desired_orders ::
  "'d decimal_api \<Rightarrow> 'd grid_epoch \<Rightarrow> 'd grid_inventory \<Rightarrow> u8
   \<Rightarrow> ('d grid_order_intent list, hedged_grid_error) outcome" where
  "desired_orders D epoch inventory grid_count =
     and_then (epoch_validate D epoch grid_count) (\<lambda>_.
     and_then (inventory_validate D inventory) (\<lambda>_.
     and_then (try_map (desired_leg D epoch inventory grid_count) [GLong, GShort]) (\<lambda>legs.
     Ok (concat legs))))"

section \<open>Inventory and its recovery\<close>

definition is_low ::
  "'d decimal_api \<Rightarrow> 'd hedged_grid_state \<Rightarrow> 'd grid_inventory \<Rightarrow> grid_position \<Rightarrow> (bool, 'e) outcome"
  where
  "is_low D s inventory position =
     and_then (inventory_notional D inventory position) (\<lambda>notional.
     Ok (dec_less D notional (am_value (gp_order_notional (hs_params s)))))"

text \<open>Either leg is low, with the short-circuit of the code.\<close>

definition either_low ::
  "'d decimal_api \<Rightarrow> 'd hedged_grid_state \<Rightarrow> 'd grid_inventory \<Rightarrow> (bool, 'e) outcome" where
  "either_low D s inventory = or_else (is_low D s inventory GLong) (is_low D s inventory GShort)"

definition next_recovery ::
  "inventory_deficiency \<Rightarrow> u64 \<Rightarrow> 'd inventory_recovery_state \<Rightarrow> 'd inventory_recovery_state" where
  "next_recovery legs generation recovery =
     (case recovery of
        Inactive \<Rightarrow> if deficiency_any legs then Deficient legs generation else Inactive
      | Deficient _ first_seen_generation \<Rightarrow>
          if deficiency_any legs then Deficient legs first_seen_generation
          else AwaitingNextOwnedFill generation
      | AwaitingNextOwnedFill armed_generation \<Rightarrow>
          if deficiency_any legs then Deficient legs generation
          else AwaitingNextOwnedFill armed_generation
      | pending \<Rightarrow> pending)"

definition update_inventory_recovery ::
  "'d decimal_api \<Rightarrow> 'd hedged_grid_state \<Rightarrow> 'd grid_inventory
   \<Rightarrow> 'd hedged_grid_state \<times> (unit, hedged_grid_error) outcome" where
  "update_inventory_recovery D s inventory =
     (if hs_phase s \<noteq> Running then (s, Ok ())
      else
      case hs_epoch s of
        None \<Rightarrow> (s, Ok ())
      | Some epoch \<Rightarrow>
        attempt s (capacity_deficiency D epoch inventory (gp_grid_count (hs_params s))) (\<lambda>legs.
        (s\<lparr>hs_inventory_recovery :=
             next_recovery legs (gv_private_generation inventory) (hs_inventory_recovery s)\<rparr>, Ok ())))"

definition inventory_eq :: "'d decimal_api \<Rightarrow> 'd grid_inventory \<Rightarrow> 'd grid_inventory \<Rightarrow> bool" where
  "inventory_eq D a b \<longleftrightarrow>
     gv_private_generation a = gv_private_generation b
     \<and> gv_private_observed_at_ms a = gv_private_observed_at_ms b
     \<and> price_eq D (gv_mark_price a) (gv_mark_price b)
     \<and> dec_eq D (gv_long_quantity a) (gv_long_quantity b)
     \<and> dec_eq D (gv_short_quantity a) (gv_short_quantity b)"

text \<open>
  The observation is older than the one recorded, or differs from it at the same cursor.
\<close>

definition inventory_conflicts ::
  "'d decimal_api \<Rightarrow> 'd grid_inventory \<Rightarrow> 'd grid_inventory \<Rightarrow> bool" where
  "inventory_conflicts D inventory previous \<longleftrightarrow>
     (gv_private_generation inventory < gv_private_generation previous
      \<or> (gv_private_generation inventory = gv_private_generation previous
         \<and> gv_private_observed_at_ms inventory < gv_private_observed_at_ms previous))
     \<or> (gv_private_generation inventory = gv_private_generation previous
        \<and> gv_private_observed_at_ms inventory = gv_private_observed_at_ms previous
        \<and> \<not> inventory_eq D inventory previous)"

text \<open>What a new observation does once it is recorded.\<close>

definition observe_new_inventory ::
  "'d decimal_api \<Rightarrow> 'd hedged_grid_state \<Rightarrow> 'd grid_inventory
   \<Rightarrow> 'd hedged_grid_state \<times> ('d grid_decision, hedged_grid_error) outcome" where
  "observe_new_inventory D s inventory =
     (let s = s\<lparr>hs_inventory := Some inventory, hs_stream_adjustments := adjustments_default D\<rparr> in
      chain (update_inventory_recovery D s inventory) (\<lambda>s _.
      attempt s (either_low D s inventory) (\<lambda>inventory_low.
      let s = (if \<not> inventory_low then s\<lparr>hs_suppress_replenishment := False\<rparr> else s) in
      if inventory_low \<and> \<not> hs_suppress_replenishment s
      then (s\<lparr>hs_phase := ResettingGrid, hs_reset_reason := Some InventoryLow\<rparr>,
            Ok (Actions [ResetGrid InventoryLow]))
      else if hs_phase s \<in> {Recovering, CheckingInventory}
      then (s\<lparr>hs_phase := ResettingGrid, hs_reset_reason := Some Startup\<rparr>,
            Ok (Actions [ResetGrid Startup]))
      else (s, Ok NoAction))))"

definition observe_inventory ::
  "'d decimal_api \<Rightarrow> 'd hedged_grid_state \<Rightarrow> 'd grid_inventory
   \<Rightarrow> 'd hedged_grid_state \<times> ('d grid_decision, hedged_grid_error) outcome" where
  "observe_inventory D s inventory =
     attempt s (inventory_validate D inventory) (\<lambda>_.
     case hs_inventory s of
       Some previous \<Rightarrow>
         if inventory_conflicts D inventory previous then (s, Err HG_InventoryGeneration)
         else if gv_private_generation inventory = gv_private_generation previous
           \<and> gv_private_observed_at_ms inventory = gv_private_observed_at_ms previous
         then (s, Ok NoAction)
         else observe_new_inventory D s inventory
     | None \<Rightarrow> observe_new_inventory D s inventory)"

definition observe_replenishment_inventory ::
  "'d decimal_api \<Rightarrow> 'd hedged_grid_state \<Rightarrow> 'd grid_inventory
   \<Rightarrow> 'd hedged_grid_state \<times> (unit, hedged_grid_error) outcome" where
  "observe_replenishment_inventory D s inventory =
     (if hs_phase s \<noteq> ReplenishingInventory then (s, Err HG_Phase)
      else
      attempt s (inventory_validate D inventory) (\<lambda>_.
      if (case hs_inventory s of None \<Rightarrow> False
          | Some previous \<Rightarrow> inventory_conflicts D inventory previous)
      then (s, Err HG_InventoryGeneration)
      else (s\<lparr>hs_inventory := Some inventory, hs_stream_adjustments := adjustments_default D\<rparr>,
            Ok ())))"

section \<open>Phases and replenishment\<close>

definition begin_inventory_check ::
  "'d hedged_grid_state \<Rightarrow> 'd hedged_grid_state \<times> (unit, hedged_grid_error) outcome" where
  "begin_inventory_check s =
     (if hs_phase s \<in> {BlockedUnknown, Stopping} then (s, Err HG_Phase)
      else (s\<lparr>hs_phase := CheckingInventory\<rparr>, Ok ()))"

definition request_reset ::
  "'d hedged_grid_state \<Rightarrow> grid_reset_reason
   \<Rightarrow> 'd hedged_grid_state \<times> ('d grid_decision, hedged_grid_error) outcome" where
  "request_reset s reason =
     (if hs_phase s \<in> {BlockedUnknown, Stopping} then (s, Err HG_Phase)
      else (s\<lparr>hs_phase := ResettingGrid, hs_reset_reason := Some reason,
              hs_blocked_not_before_ms := None\<rparr>, Ok (Actions [ResetGrid reason])))"

definition begin_reanchor_rebuild ::
  "'d hedged_grid_state \<Rightarrow> 'd hedged_grid_state \<times> (unit, hedged_grid_error) outcome" where
  "begin_reanchor_rebuild s =
     (if hs_phase s \<noteq> Running \<or> hs_pending_transactions s \<noteq> [] then (s, Err HG_Phase)
      else
      case hs_inventory_recovery s of
        ReanchorPending fill_id fill_price \<Rightarrow>
          (s\<lparr>hs_inventory_recovery := Rebuilding fill_id fill_price, hs_phase := ResettingGrid,
             hs_reset_reason := Some InventoryReplenished, hs_blocked_not_before_ms := None\<rparr>, Ok ())
      | _ \<Rightarrow> (s, Err HG_Phase))"

definition complete_reanchor_rebuild ::
  "'d decimal_api \<Rightarrow> 'd hedged_grid_state
   \<Rightarrow> 'd hedged_grid_state \<times> (unit, hedged_grid_error) outcome" where
  "complete_reanchor_rebuild D s =
     (if hs_phase s \<noteq> Running
        \<or> (case hs_inventory_recovery s of Rebuilding _ _ \<Rightarrow> False | _ \<Rightarrow> True)
      then (s, Err HG_Phase)
      else
      attempt s (ok_or HG_Epoch (hs_epoch s)) (\<lambda>epoch.
      attempt s (ok_or HG_Inventory (hs_inventory s)) (\<lambda>inventory.
      attempt s (capacity_deficiency D epoch inventory (gp_grid_count (hs_params s))) (\<lambda>legs.
      if deficiency_any legs
      then (s\<lparr>hs_inventory_recovery := Deficient legs (gv_private_generation inventory)\<rparr>,
            Err HG_Inventory)
      else (s\<lparr>hs_inventory_recovery := Inactive\<rparr>, Ok ())))))"

definition reconcile_replenishment_round ::
  "'d hedged_grid_state \<Rightarrow> u64 \<Rightarrow> 'd hedged_grid_state \<times> (unit, hedged_grid_error) outcome" where
  "reconcile_replenishment_round s highest_durable_round =
     (if hs_phase s \<noteq> ResettingGrid \<or> hs_reset_reason s \<noteq> Some InventoryLow
        \<or> hs_pending_replenishments s \<noteq> []
      then (s, Err HG_Phase)
      else (s\<lparr>hs_replenish_round := max (hs_replenish_round s) highest_durable_round\<rparr>, Ok ()))"

text \<open>One turn of the loop of \<open>begin_replenishment\<close>.\<close>

definition replenish_position ::
  "'d decimal_api \<Rightarrow> 'd grid_inventory
   \<Rightarrow> 'd hedged_grid_state \<times> ('d grid_action list, hedged_grid_error) outcome \<Rightarrow> grid_position
   \<Rightarrow> 'd hedged_grid_state \<times> ('d grid_action list, hedged_grid_error) outcome" where
  "replenish_position D inventory acc position =
     chain acc (\<lambda>s actions.
     attempt s (is_low D s inventory position) (\<lambda>low.
     if low then
       attempt s (replenish_notional D (hs_params s)) (\<lambda>target.
       let replenishment = \<lparr>rp_round = hs_replenish_round s,
             rp_private_generation = gv_private_generation inventory,
             rp_position = position, rp_target_notional = target\<rparr> in
       (s\<lparr>hs_pending_replenishments :=
            bt_insert position replenishment (hs_pending_replenishments s)\<rparr>,
        Ok (actions @ [ReplenishLeg replenishment])))
     else (s, Ok actions)))"

definition begin_replenishment ::
  "'d decimal_api \<Rightarrow> 'd hedged_grid_state
   \<Rightarrow> 'd hedged_grid_state \<times> ('d grid_decision, hedged_grid_error) outcome" where
  "begin_replenishment D s =
     (if hs_phase s \<noteq> ResettingGrid \<or> hs_reset_reason s \<noteq> Some InventoryLow
      then (s, Err HG_Phase)
      else
      attempt s (ok_or HG_Inventory (hs_inventory s)) (\<lambda>inventory.
      attempt s (ok_or HG_Phase (checked_add (hs_replenish_round s) 1)) (\<lambda>round.
      let s = s\<lparr>hs_replenish_round := round, hs_pending_replenishments := []\<rparr> in
      chain (foldl (replenish_position D inventory) (s, Ok []) [GLong, GShort]) (\<lambda>s actions.
      if actions = [] then (s, Err HG_Phase)
      else (s\<lparr>hs_phase := ReplenishingInventory\<rparr>, Ok (Actions actions))))))"

definition request_restart_without_replenishment ::
  "'d hedged_grid_state \<Rightarrow> 'd hedged_grid_state \<times> (unit, hedged_grid_error) outcome" where
  "request_restart_without_replenishment s =
     (if hs_phase s \<in> {BlockedUnknown, Stopping} \<or> hs_pending_transactions s \<noteq> []
      then (s, Err HG_Phase)
      else (s\<lparr>hs_pending_replenishments := [], hs_phase := ResettingGrid,
              hs_reset_reason := Some ManualReset, hs_blocked_not_before_ms := None,
              hs_suppress_replenishment := True\<rparr>, Ok ()))"

definition resume_after_stop ::
  "'d decimal_api \<Rightarrow> 'd hedged_grid_state
   \<Rightarrow> 'd hedged_grid_state \<times> (unit, hedged_grid_error) outcome" where
  "resume_after_stop D s =
     (if hs_phase s \<noteq> Stopping \<or> hs_owned_orders s \<noteq> [] \<or> hs_pending_transactions s \<noteq> []
      then (s, Err HG_Phase)
      else (s\<lparr>hs_pending_replenishments := [], hs_inventory_recovery := Inactive,
              hs_phase := Recovering, hs_reset_reason := None, hs_blocked_not_before_ms := None,
              hs_stream_adjustments := adjustments_default D\<rparr>, Ok ()))"

definition reset_orders_settled ::
  "'d hedged_grid_state \<Rightarrow> 'd hedged_grid_state \<times> (unit, hedged_grid_error) outcome" where
  "reset_orders_settled s =
     (if hs_phase s \<noteq> ResettingGrid \<or> hs_pending_transactions s \<noteq> [] then (s, Err HG_Phase)
      else (s\<lparr>hs_owned_orders := []\<rparr>, Ok ()))"

definition replenishment_settled ::
  "'d hedged_grid_state \<Rightarrow> grid_position
   \<Rightarrow> 'd hedged_grid_state \<times> ('d grid_decision, hedged_grid_error) outcome" where
  "replenishment_settled s position =
     (if hs_phase s \<noteq> ReplenishingInventory
        \<or> \<not> bt_contains (hs_pending_replenishments s) position
      then (s, Err HG_Phase)
      else
      let s = s\<lparr>hs_pending_replenishments := bt_remove position (hs_pending_replenishments s)\<rparr> in
      if hs_pending_replenishments s \<noteq> [] then (s, Ok NoAction)
      else (s\<lparr>hs_phase := ResettingGrid, hs_reset_reason := Some InventoryReplenished\<rparr>,
            Ok (Actions [ResetGrid InventoryReplenished])))"

definition settle_pending_replenishments ::
  "'d hedged_grid_state \<Rightarrow> 'd hedged_grid_state \<times> ('d grid_decision, hedged_grid_error) outcome" where
  "settle_pending_replenishments s =
     (if hs_phase s \<noteq> ReplenishingInventory \<or> hs_pending_replenishments s = []
      then (s, Err HG_Phase)
      else foldl (\<lambda>acc position. chain acc (\<lambda>s _. replenishment_settled s position))
        (s, Ok NoAction) (bt_keys (hs_pending_replenishments s)))"

section \<open>A new epoch\<close>

definition install_epoch ::
  "'d decimal_api \<Rightarrow> 'd hedged_grid_state \<Rightarrow> 'd grid_epoch
   \<Rightarrow> 'd hedged_grid_state \<times> ('d grid_decision, hedged_grid_error) outcome" where
  "install_epoch D s epoch =
     (if hs_phase s \<noteq> ResettingGrid \<or> hs_pending_transactions s \<noteq> [] then (s, Err HG_Phase)
      else
      attempt s (epoch_validate D epoch (gp_grid_count (hs_params s))) (\<lambda>_.
      if (case hs_epoch s of None \<Rightarrow> False | Some previous \<Rightarrow> ge_epoch epoch \<le> ge_epoch previous)
      then (s, Err HG_Epoch)
      else
      attempt s (ok_or HG_Inventory (hs_inventory s)) (\<lambda>inventory.
      attempt s (if hs_suppress_replenishment s then Ok False else either_low D s inventory) (\<lambda>low.
      if low then (s, Err HG_Inventory)
      else
      attempt s (desired_orders D epoch inventory (gp_grid_count (hs_params s))) (\<lambda>orders.
      let owned = foldl (\<lambda>m order. bt_insert (gi_key order) order m) [] orders;
          s = s\<lparr>hs_epoch := Some epoch, hs_owned_orders := owned,
                hs_order_sequences := fold observe_sequence (bt_keys owned)
                  (sequences_of_epoch (ge_epoch epoch)),
                hs_phase := Running, hs_reset_reason := None\<rparr> in
      chain (retire_superseded_maker_facts s) (\<lambda>s _.
      chain (update_inventory_recovery D s inventory) (\<lambda>s _.
      (s, Ok (Actions (map PlaceOrder orders))))))))))"

section \<open>Rolling one fill\<close>

text \<open>The derived \<open>Debug\<close> names in a transaction's identifier.\<close>

definition position_text :: "grid_position \<Rightarrow> string" where
  "position_text position = (case position of GLong \<Rightarrow> ''Long'' | GShort \<Rightarrow> ''Short'')"

definition role_text :: "grid_order_role \<Rightarrow> string" where
  "role_text role = (case role of Open \<Rightarrow> ''Open'' | Close \<Rightarrow> ''Close'')"

definition transaction_id :: "u64 \<Rightarrow> string \<Rightarrow> grid_order_key \<Rightarrow> string" where
  "transaction_id epoch fill_id source =
     ''roll-'' @ decimal_text (unat epoch) @ ''-'' @ fill_id @ ''-''
       @ position_text (gk_position source) @ ''-'' @ role_text (gk_role source) @ ''-''
       @ decimal_text (unat (gk_level source))"

definition sequence_next_level ::
  "'d hedged_grid_state \<Rightarrow> u64 \<Rightarrow> grid_position \<Rightarrow> grid_order_role
   \<Rightarrow> (u64, hedged_grid_error) outcome" where
  "sequence_next_level s epoch position role =
     (if sq_epoch (hs_order_sequences s) \<noteq> epoch then Err HG_Rolling
      else ok_or HG_Rolling (checked_add (current_sequence (hs_order_sequences s) position role) 1))"

definition epoch_lane ::
  "u64 \<Rightarrow> grid_position \<Rightarrow> grid_order_role \<Rightarrow> 'd grid_order_intent \<Rightarrow> bool" where
  "epoch_lane epoch position role order \<longleftrightarrow>
     gk_epoch (gi_key order) = epoch \<and> in_lane position role order"

text \<open>The price of a new order: past the lane's edge, or one step back from the fill.\<close>

definition rolling_price_value ::
  "'d decimal_api \<Rightarrow> 'd hedged_grid_state \<Rightarrow> 'd grid_epoch \<Rightarrow> 'd grid_order_intent \<Rightarrow> grid_order_role
   \<Rightarrow> ('d, hedged_grid_error) outcome" where
  "rolling_price_value D s epoch source role =
     (let position = gk_position (gi_key source); step = price_value (ge_step epoch) in
      if role = gk_role (gi_key source) then
        let prices = map (\<lambda>x. price_value (gi_price x))
              (filter (epoch_lane (ge_epoch epoch) position role) (bt_values (hs_owned_orders s))) in
        case gi_side source of
          Sell \<Rightarrow> and_then (ok_or HG_Rolling (max_by_key (dec_value D) prices))
            (\<lambda>edge. ok_or HG_Rolling (dec_add D edge step))
        | Buy \<Rightarrow> and_then (ok_or HG_Rolling (min_by_key (dec_value D) prices))
            (\<lambda>edge. ok_or HG_Rolling (dec_sub D edge step))
      else
        case gi_side source of
          Sell \<Rightarrow> ok_or HG_Rolling (dec_sub D (price_value (gi_price source)) step)
        | Buy \<Rightarrow> ok_or HG_Rolling (dec_add D (price_value (gi_price source)) step))"

text \<open>\<open>sum::<Decimal>()\<close> adds from zero, with the panicking operator.\<close>

definition dec_sum :: "'d decimal_api \<Rightarrow> 'd list \<Rightarrow> ('d, 'e) outcome" where
  "dec_sum D xs = try_fold (\<lambda>acc x. or_panic (dec_add D acc x)) (dec_zero D) xs"

definition stream_adjustment ::
  "'d stream_inventory_adjustments \<Rightarrow> grid_position \<Rightarrow> 'd" where
  "stream_adjustment a position = (case position of GLong \<Rightarrow> sa_long a | GShort \<Rightarrow> sa_short a)"

definition rolling_quantity ::
  "'d decimal_api \<Rightarrow> 'd hedged_grid_state \<Rightarrow> 'd grid_epoch \<Rightarrow> grid_position \<Rightarrow> grid_order_role
   \<Rightarrow> grid_order_key \<Rightarrow> ('d, hedged_grid_error) outcome" where
  "rolling_quantity D s epoch position role cancel =
     (if role = Close then
        and_then (ok_or HG_Inventory (hs_inventory s)) (\<lambda>inventory.
        and_then (or_panic (dec_add D (inventory_quantity inventory position)
          (stream_adjustment (hs_stream_adjustments s) position))) (\<lambda>available.
        and_then (dec_sum D (map gi_quantity
          (filter (\<lambda>x. epoch_lane (ge_epoch epoch) position Close x \<and> gi_key x \<noteq> cancel)
             (bt_values (hs_owned_orders s))))) (\<lambda>committed.
        and_then (ok_or HG_Rolling (dec_sub D available committed)) (\<lambda>free.
        Ok (dec_least D (ge_grid_quantity epoch) free)))))
      else Ok (ge_grid_quantity epoch))"

definition rolling_order ::
  "'d decimal_api \<Rightarrow> 'd hedged_grid_state \<Rightarrow> 'd grid_epoch \<Rightarrow> 'd grid_order_intent \<Rightarrow> grid_order_role
   \<Rightarrow> grid_order_key \<Rightarrow> ('d grid_order_intent, hedged_grid_error) outcome" where
  "rolling_order D s epoch source role cancel =
     (let position = gk_position (gi_key source) in
      and_then (sequence_next_level s (ge_epoch epoch) position role) (\<lambda>level.
      and_then (rolling_price_value D s epoch source role) (\<lambda>price_value.
      and_then (map_err (\<lambda>_. HG_Rolling) (price_new D price_value)) (\<lambda>price.
      if list_ex (\<lambda>x. epoch_lane (ge_epoch epoch) position role x \<and> price_eq D (gi_price x) price)
           (bt_values (hs_owned_orders s))
      then Err HG_Rolling
      else
      and_then (rolling_quantity D s epoch position role cancel) (\<lambda>quantity.
      if \<not> dec_positive D quantity then Err HG_Rolling
      else epoch_order_at_price D (ge_epoch epoch) position role level price quantity)))))"

text \<open>The resting orders a rolling transaction may cancel.\<close>

definition cancel_candidates ::
  "'d hedged_grid_state \<Rightarrow> u64 \<Rightarrow> grid_position \<Rightarrow> grid_order_role
   \<Rightarrow> (grid_order_key \<times> 'd grid_order_intent) list" where
  "cancel_candidates s epoch position role =
     filter (\<lambda>(key, _). gk_epoch key = epoch \<and> gk_position key = position \<and> gk_role key = role
        \<and> \<not> list_ex (\<lambda>t. list_ex (\<lambda>x. gi_key x = key) (gt_places t))
             (bt_values (hs_pending_transactions s)))
       (hs_owned_orders s)"

definition reserve_rolling_transaction ::
  "'d decimal_api \<Rightarrow> 'd hedged_grid_state \<Rightarrow> 'd grid_epoch \<Rightarrow> string \<Rightarrow> 'd grid_order_intent
   \<Rightarrow> ('d grid_transaction, hedged_grid_error) outcome" where
  "reserve_rolling_transaction D s epoch fill_id source =
     (let position = gk_position (gi_key source);
          candidates = cancel_candidates s (ge_epoch epoch) position
            (opposite_role (gk_role (gi_key source)));
          trailing = (\<lambda>(_, x). dec_value D (price_value (gi_price x))) in
      and_then (ok_or HG_Rolling
        (case gi_side source of
           Sell \<Rightarrow> min_by_key trailing candidates
         | Buy \<Rightarrow> max_by_key trailing candidates)) (\<lambda>(cancel, cancelled_order).
      and_then (rolling_order D s epoch source Open cancel) (\<lambda>open_order.
      and_then (rolling_order D s epoch source Close cancel) (\<lambda>close_order.
      Ok \<lparr>gt_id = transaction_id (ge_epoch epoch) fill_id (gi_key source),
          gt_source_fill_id = fill_id, gt_source_order = gi_key source,
          gt_open = open_order, gt_close = close_order, gt_cancel = cancel,
          gt_cancelled_order = Some cancelled_order\<rparr>))))"

section \<open>Owned fills\<close>

definition known_maker :: "bool field_state \<Rightarrow> bool option" where
  "known_maker maker = (case maker of Known b \<Rightarrow> Some b | _ \<Rightarrow> None)"

text \<open>The state with a reserved transaction.\<close>

definition apply_transaction :: "'d grid_transaction \<Rightarrow> 'd hedged_grid_state \<Rightarrow> 'd hedged_grid_state" where
  "apply_transaction t s =
     s\<lparr>hs_order_sequences := fold observe_sequence (map gi_key (gt_places t)) (hs_order_sequences s),
       hs_owned_orders := foldl (\<lambda>m x. bt_insert (gi_key x) x m)
         (bt_remove (gt_cancel t) (hs_owned_orders s)) (gt_places t),
       hs_pending_transactions := bt_insert (gt_id t) t (hs_pending_transactions s)\<rparr>"

text \<open>The record of a fill whose action has been emitted, and the fill consumed.\<close>

definition consume_fill ::
  "string \<Rightarrow> grid_order_key \<Rightarrow> 'd hedged_grid_state \<Rightarrow> 'd hedged_grid_state" where
  "consume_fill fill_id source s =
     s\<lparr>hs_owned_fill_records :=
         (case bt_lookup (hs_owned_fill_records s) fill_id of
            None \<Rightarrow> hs_owned_fill_records s
          | Some rec \<Rightarrow> bt_insert fill_id
              (rec\<lparr>fr_maker := Some True, fr_grid_action_emitted := True\<rparr>) (hs_owned_fill_records s)),
       hs_seen_fill_ids := bt_insert fill_id source (hs_seen_fill_ids s)\<rparr>"

definition emit_maker_fill_action ::
  "'d decimal_api \<Rightarrow> 'd hedged_grid_state \<Rightarrow> string
   \<Rightarrow> 'd hedged_grid_state \<times> ('d grid_decision, hedged_grid_error) outcome" where
  "emit_maker_fill_action D s fill_id =
     (if hs_phase s \<noteq> Running then (s, Err HG_Phase)
      else
      attempt s (ok_or HG_UnknownFill (bt_lookup (hs_owned_fill_records s) fill_id)) (\<lambda>rec.
      if fr_maker rec = Some False \<or> fr_grid_action_emitted rec then (s, Ok NoAction)
      else
      let source = fr_source_order rec;
          reanchor_after_generation =
            (case hs_inventory_recovery s of
               AwaitingNextOwnedFill armed_generation \<Rightarrow> armed_generation < fr_private_generation rec
             | _ \<Rightarrow> False) in
      if reanchor_after_generation then
        (consume_fill fill_id (gi_key source)
           (s\<lparr>hs_inventory_recovery := ReanchorPending fill_id (fr_fill_price rec)\<rparr>),
         Ok (Actions [ReanchorAtFill fill_id (fr_fill_price rec)]))
      else
      attempt s (ok_or HG_Phase (hs_epoch s)) (\<lambda>epoch.
      attempt s (reserve_rolling_transaction D s epoch fill_id source) (\<lambda>t.
      (consume_fill fill_id (gi_key source) (apply_transaction t s),
       Ok (Actions [DispatchTransaction t]))))))"

definition adjust_stream_inventory ::
  "'d decimal_api \<Rightarrow> 'd hedged_grid_state \<Rightarrow> 'd grid_order_intent
   \<Rightarrow> ('d hedged_grid_state, hedged_grid_error) outcome" where
  "adjust_stream_inventory D s source =
     (let position = gk_position (gi_key source);
          adjustment = stream_adjustment (hs_stream_adjustments s) position in
      and_then (ok_or HG_Rolling
        (case gk_role (gi_key source) of
           Open \<Rightarrow> dec_add D adjustment (gi_quantity source)
         | Close \<Rightarrow> dec_sub D adjustment (gi_quantity source))) (\<lambda>value.
      Ok (s\<lparr>hs_stream_adjustments :=
        (case position of
           GLong \<Rightarrow> hs_stream_adjustments s\<lparr>sa_long := value\<rparr>
         | GShort \<Rightarrow> hs_stream_adjustments s\<lparr>sa_short := value\<rparr>)\<rparr>)))"

text \<open>A replay of a recorded fill: it may only add the missing maker evidence.\<close>

definition replay_recorded_fill ::
  "'d decimal_api \<Rightarrow> 'd hedged_grid_state \<Rightarrow> 'd owned_grid_fill \<Rightarrow> 'd owned_grid_fill_record
   \<Rightarrow> 'd hedged_grid_state \<times> ('d grid_decision, hedged_grid_error) outcome" where
  "replay_recorded_fill D s fill rec =
     (let maker = known_maker (of_maker fill) in
      if gi_key (fr_source_order rec) \<noteq> of_source_order fill
        \<or> \<not> price_eq D (fr_fill_price rec) (of_fill_price fill)
      then (s, Err HG_FillConflict)
      else if fr_maker rec \<noteq> None \<and> maker \<noteq> None \<and> fr_maker rec \<noteq> maker
      then (s, Err HG_FillConflict)
      else if fr_grid_action_emitted rec \<or> maker \<noteq> Some True
      then
        (if fr_maker rec = None \<and> maker \<noteq> None
         then s\<lparr>hs_owned_fill_records :=
           bt_insert (of_fill_id fill) (rec\<lparr>fr_maker := maker\<rparr>) (hs_owned_fill_records s)\<rparr>
         else s, Ok NoAction)
      else emit_maker_fill_action D s (of_fill_id fill))"

text \<open>The first observation of a fill: it takes its order from the owned surface.\<close>

definition record_owned_fill ::
  "'d decimal_api \<Rightarrow> 'd hedged_grid_state \<Rightarrow> 'd owned_grid_fill \<Rightarrow> bool
   \<Rightarrow> 'd hedged_grid_state \<times> ('d grid_decision, hedged_grid_error) outcome" where
  "record_owned_fill D s fill adjust =
     (if hs_phase s \<noteq> Running then (s, Err HG_Phase)
      else
      attempt s (ok_or HG_Phase (hs_epoch s)) (\<lambda>epoch.
      if gk_epoch (of_source_order fill) \<noteq> ge_epoch epoch then (s, Err HG_UnknownFill)
      else
      attempt s (ok_or HG_UnknownFill (bt_lookup (hs_owned_orders s) (of_source_order fill)))
        (\<lambda>source_order.
      let s = s\<lparr>hs_owned_orders := bt_remove (of_source_order fill) (hs_owned_orders s)\<rparr> in
      attempt s (if adjust then adjust_stream_inventory D s source_order else Ok s) (\<lambda>s.
      let maker = known_maker (of_maker fill);
          s = s\<lparr>hs_owned_fill_records := bt_insert (of_fill_id fill)
            \<lparr>fr_source_order = source_order, fr_fill_price = of_fill_price fill,
             fr_private_generation = of_private_generation fill, fr_maker = maker,
             fr_grid_action_emitted = False, fr_retired_without_action = False\<rparr>
            (hs_owned_fill_records s)\<rparr> in
      if maker = Some True then emit_maker_fill_action D s (of_fill_id fill)
      else (s, Ok NoAction)))))"

definition observe_owned_fill_inner ::
  "'d decimal_api \<Rightarrow> 'd hedged_grid_state \<Rightarrow> 'd owned_grid_fill \<Rightarrow> bool
   \<Rightarrow> 'd hedged_grid_state \<times> ('d grid_decision, hedged_grid_error) outcome" where
  "observe_owned_fill_inner D s fill adjust =
     (if trim (of_fill_id fill) = [] \<or> of_private_generation fill = 0
      then (s, Err HG_FillEvidence)
      else
      attempt s (order_key_validate (of_source_order fill)) (\<lambda>_.
      if \<not> of_complete fill then (s, Ok NoAction)
      else
      case bt_lookup (hs_seen_fill_ids s) (of_fill_id fill) of
        Some previous \<Rightarrow>
          if previous \<noteq> of_source_order fill
            \<or> (case bt_lookup (hs_owned_fill_records s) (of_fill_id fill) of
                 None \<Rightarrow> False
               | Some rec \<Rightarrow> \<not> price_eq D (fr_fill_price rec) (of_fill_price fill))
          then (s, Err HG_FillConflict)
          else (s, Ok NoAction)
      | None \<Rightarrow>
      case bt_lookup (hs_owned_fill_records s) (of_fill_id fill) of
        Some rec \<Rightarrow> replay_recorded_fill D s fill rec
      | None \<Rightarrow> record_owned_fill D s fill adjust))"

definition observe_owned_fill ::
  "'d decimal_api \<Rightarrow> 'd hedged_grid_state \<Rightarrow> 'd owned_grid_fill
   \<Rightarrow> 'd hedged_grid_state \<times> ('d grid_decision, hedged_grid_error) outcome" where
  "observe_owned_fill D s fill = observe_owned_fill_inner D s fill False"

definition observe_stream_owned_fill ::
  "'d decimal_api \<Rightarrow> 'd hedged_grid_state \<Rightarrow> 'd owned_grid_fill
   \<Rightarrow> 'd hedged_grid_state \<times> ('d grid_decision, hedged_grid_error) outcome" where
  "observe_stream_owned_fill D s fill = observe_owned_fill_inner D s fill True"

definition observe_full_fill ::
  "'d hedged_grid_state \<Rightarrow> 'd hedged_grid_state \<times> ('d grid_decision, hedged_grid_error) outcome" where
  "observe_full_fill s = (s, Err HG_FillEvidence)"

definition retire_owned_fill_during_reset ::
  "'d decimal_api \<Rightarrow> 'd hedged_grid_state \<Rightarrow> 'd owned_grid_fill
   \<Rightarrow> 'd hedged_grid_state \<times> (unit, hedged_grid_error) outcome" where
  "retire_owned_fill_during_reset D s fill =
     (if hs_phase s \<noteq> ResettingGrid \<or> hs_pending_transactions s \<noteq> [] \<or> \<not> of_complete fill
        \<or> trim (of_fill_id fill) = [] \<or> of_private_generation fill = 0
      then (s, Err HG_Phase)
      else
      let maker = known_maker (of_maker fill) in
      case bt_lookup (hs_owned_fill_records s) (of_fill_id fill) of
        Some rec \<Rightarrow>
          if gi_key (fr_source_order rec) \<noteq> of_source_order fill
            \<or> \<not> price_eq D (fr_fill_price rec) (of_fill_price fill)
            \<or> (fr_maker rec \<noteq> None \<and> maker \<noteq> None \<and> fr_maker rec \<noteq> maker)
          then (s, Err HG_FillConflict)
          else (s, Ok ())
      | None \<Rightarrow>
      attempt s (ok_or HG_Phase (hs_epoch s)) (\<lambda>epoch.
      if gk_epoch (of_source_order fill) \<noteq> ge_epoch epoch then (s, Err HG_UnknownFill)
      else
      attempt s (ok_or HG_UnknownFill (bt_lookup (hs_owned_orders s) (of_source_order fill)))
        (\<lambda>source_order.
      let s = s\<lparr>hs_owned_orders := bt_remove (of_source_order fill) (hs_owned_orders s)\<rparr> in
      attempt s (adjust_stream_inventory D s source_order) (\<lambda>s.
      let retired_without_action = (maker = Some True);
          s = s\<lparr>hs_owned_fill_records := bt_insert (of_fill_id fill)
            \<lparr>fr_source_order = source_order, fr_fill_price = of_fill_price fill,
             fr_private_generation = of_private_generation fill, fr_maker = maker,
             fr_grid_action_emitted = False, fr_retired_without_action = retired_without_action\<rparr>
            (hs_owned_fill_records s)\<rparr>;
          s = (if retired_without_action
               then s\<lparr>hs_seen_fill_ids :=
                 bt_insert (of_fill_id fill) (gi_key source_order) (hs_seen_fill_ids s)\<rparr>
               else s) in
      (reconcile_order_sequences s, Ok ())))))"

section \<open>Settlement, blocking and reconciliation\<close>

definition settle_transaction ::
  "'d hedged_grid_state \<Rightarrow> string \<Rightarrow> bool
   \<Rightarrow> 'd hedged_grid_state \<times> ('d grid_decision, hedged_grid_error) outcome" where
  "settle_transaction s transaction success =
     (if \<not> bt_contains (hs_pending_transactions s) transaction then (s, Err HG_Rolling)
      else if \<not> success then (s\<lparr>hs_phase := BlockedUnknown\<rparr>, Ok Blocked)
      else (s\<lparr>hs_pending_transactions := bt_remove transaction (hs_pending_transactions s)\<rparr>,
            Ok NoAction))"

text \<open>Undoing one reserved transaction in the projection of owned orders.\<close>

definition abandon_transaction ::
  "'d hedged_grid_state \<times> (unit, hedged_grid_error) outcome \<Rightarrow> 'd grid_transaction
   \<Rightarrow> 'd hedged_grid_state \<times> (unit, hedged_grid_error) outcome" where
  "abandon_transaction acc t =
     chain acc (\<lambda>s _.
     case gt_cancelled_order t of
       None \<Rightarrow> (s, Err HG_Rolling)
     | Some cancelled_order \<Rightarrow>
       if gi_key cancelled_order \<noteq> gt_cancel t then (s, Err HG_Order)
       else (s\<lparr>hs_owned_orders := bt_insert (gi_key cancelled_order) cancelled_order
                (foldl (\<lambda>m x. bt_remove (gi_key x) m) (hs_owned_orders s) (gt_places t))\<rparr>, Ok ()))"

definition abandon_unsubmitted_transactions ::
  "'d hedged_grid_state \<Rightarrow> string list
   \<Rightarrow> 'd hedged_grid_state \<times> ('d grid_decision, hedged_grid_error) outcome" where
  "abandon_unsubmitted_transactions s transaction_ids =
     (if hs_phase s \<noteq> Running \<or> transaction_ids = [] then (s, Err HG_Phase)
      else
      let expected = remdups transaction_ids in
      if length expected \<noteq> length transaction_ids
        \<or> length (hs_pending_transactions s) \<noteq> length expected
        \<or> \<not> list_all (\<lambda>t. t \<in> set expected) (bt_keys (hs_pending_transactions s))
      then (s, Err HG_Rolling)
      else
      chain (foldl abandon_transaction (s, Ok ()) (bt_values (hs_pending_transactions s))) (\<lambda>s _.
      request_reset (reconcile_order_sequences (s\<lparr>hs_pending_transactions := []\<rparr>))
        ReconciliationReset))"

text \<open>The checks of a supplied projection of owned orders.\<close>

definition supplied_orders ::
  "'d decimal_api \<Rightarrow> (grid_order_key, 'd grid_order_intent) btree \<Rightarrow> (unit, hedged_grid_error) outcome"
  where
  "supplied_orders D orders =
     try_fold (\<lambda>_ (key, order).
       if key \<noteq> gi_key order then Err HG_Order
       else and_then (order_key_validate key) (\<lambda>_. intent_validate D order)) () orders"

definition begin_reconciliation_reset ::
  "'d decimal_api \<Rightarrow> 'd hedged_grid_state \<Rightarrow> (grid_order_key, 'd grid_order_intent) btree
   \<Rightarrow> 'd hedged_grid_state \<times> (unit, hedged_grid_error) outcome" where
  "begin_reconciliation_reset D s owned_orders =
     (if hs_pending_transactions s \<noteq> [] then (s, Err HG_Rolling)
      else
      attempt s (supplied_orders D owned_orders) (\<lambda>_.
      (reconcile_order_sequences (s\<lparr>hs_owned_orders := owned_orders, hs_phase := ResettingGrid,
         hs_reset_reason := Some ReconciliationReset, hs_blocked_not_before_ms := None\<rparr>), Ok ())))"

definition block_for_order_reconciliation ::
  "'d hedged_grid_state \<Rightarrow> 'd hedged_grid_state \<times> (unit, hedged_grid_error) outcome" where
  "block_for_order_reconciliation s =
     (if hs_phase s \<noteq> Running then (s, Err HG_Phase)
      else (s\<lparr>hs_phase := BlockedUnknown\<rparr>, Ok ()))"

definition defer_blocked_reconciliation_until ::
  "'d hedged_grid_state \<Rightarrow> u64 \<Rightarrow> 'd hedged_grid_state \<times> (unit, hedged_grid_error) outcome" where
  "defer_blocked_reconciliation_until s not_before_ms =
     (if hs_phase s \<noteq> BlockedUnknown \<or> not_before_ms = 0 then (s, Err HG_Phase)
      else (s\<lparr>hs_blocked_not_before_ms := Some not_before_ms\<rparr>, Ok ()))"

definition blocked_reconciliation_is_due :: "'d hedged_grid_state \<Rightarrow> u64 \<Rightarrow> bool" where
  "blocked_reconciliation_is_due s now_ms \<longleftrightarrow>
     hs_phase s = BlockedUnknown
     \<and> (case hs_blocked_not_before_ms s of None \<Rightarrow> True | Some not_before_ms \<Rightarrow> not_before_ms \<le> now_ms)"

definition orders_eq ::
  "'d decimal_api \<Rightarrow> (grid_order_key, 'd grid_order_intent) btree
   \<Rightarrow> (grid_order_key, 'd grid_order_intent) btree \<Rightarrow> bool" where
  "orders_eq D m n \<longleftrightarrow> list_all2 (\<lambda>(k, x) (l, y). k = l \<and> intent_eq D x y) m n"

definition reconcile_blocked_orders ::
  "'d decimal_api \<Rightarrow> 'd hedged_grid_state \<Rightarrow> (grid_order_key, 'd grid_order_intent) btree
   \<Rightarrow> 'd hedged_grid_state \<times> (unit, hedged_grid_error) outcome" where
  "reconcile_blocked_orders D s owned_orders =
     (if hs_phase s \<noteq> BlockedUnknown then (s, Err HG_Phase)
      else
      attempt s (supplied_orders D owned_orders) (\<lambda>_.
      let s = s\<lparr>hs_pending_transactions := [], hs_blocked_not_before_ms := None\<rparr>;
          s = (if orders_eq D owned_orders (hs_owned_orders s)
               then s\<lparr>hs_phase := Running, hs_reset_reason := None\<rparr>
               else s\<lparr>hs_owned_orders := owned_orders, hs_phase := ResettingGrid,
                      hs_reset_reason := Some ReconciliationReset\<rparr>) in
      (reconcile_order_sequences s, Ok ())))"

definition reconcile_stopping_orders ::
  "'d decimal_api \<Rightarrow> 'd hedged_grid_state \<Rightarrow> (grid_order_key, 'd grid_order_intent) btree
   \<Rightarrow> 'd hedged_grid_state \<times> (unit, hedged_grid_error) outcome" where
  "reconcile_stopping_orders D s owned_orders =
     (if hs_phase s \<noteq> Stopping then (s, Err HG_Phase)
      else
      attempt s (supplied_orders D owned_orders) (\<lambda>_.
      (reconcile_order_sequences (s\<lparr>hs_owned_orders := owned_orders,
         hs_pending_transactions := [], hs_pending_replenishments := [],
         hs_blocked_not_before_ms := None, hs_stream_adjustments := adjustments_default D\<rparr>), Ok ())))"

end
