(* ===== verification/Reducer_Facts.thy ===== *)
theory Reducer_Facts
  imports Reducer Contracts
begin

text \<open>
  The grid reducer as a machine over its operations, the part of its state that the
  operations on phases and inventory leave alone, and the invariant of the rest: order keys,
  consumed fills and the sequences that number new orders.
\<close>

section \<open>The machine\<close>

datatype 'd reducer_event =
  BeginInventoryCheck
| RequestReset grid_reset_reason
| BeginReanchorRebuild
| CompleteReanchorRebuild
| ObserveInventory "'d grid_inventory"
| ReconcileReplenishmentRound u64
| BeginReplenishment
| RestartWithoutReplenishment
| ResumeAfterStop
| ResetOrdersSettled
| ReplenishmentSettled grid_position
| SettlePendingReplenishments
| ObserveReplenishmentInventory "'d grid_inventory"
| InstallEpoch "'d grid_epoch"
| ObserveFill "'d owned_grid_fill" bool
| RetireFill "'d owned_grid_fill"
| SettleTransaction string bool
| AbandonTransactions "string list"
| BeginReconciliationReset "(grid_order_key, 'd grid_order_intent) btree"
| BlockForReconciliation
| DeferReconciliation u64
| ReconcileBlocked "(grid_order_key, 'd grid_order_intent) btree"
| ReconcileStopping "(grid_order_key, 'd grid_order_intent) btree"
| OperatorStop

text \<open>The result of an operation that returns no decision.\<close>

definition quiet ::
  "'s \<times> (unit, 'e) outcome \<Rightarrow> 's \<times> ('d grid_decision, 'e) outcome" where
  "quiet m = (fst m, and_then (snd m) (\<lambda>_. Ok NoAction))"

lemma fst_quiet [simp]: "fst (quiet m) = fst m"
  by (simp add: quiet_def)

text \<open>The operator's stop is the assignment of the phase by the runtime.\<close>

primrec reducer_step ::
  "'d decimal_api \<Rightarrow> 'd hedged_grid_state \<Rightarrow> 'd reducer_event
   \<Rightarrow> 'd hedged_grid_state \<times> ('d grid_decision, hedged_grid_error) outcome" where
  "reducer_step D s BeginInventoryCheck = quiet (begin_inventory_check s)"
| "reducer_step D s (RequestReset reason) = request_reset s reason"
| "reducer_step D s BeginReanchorRebuild = quiet (begin_reanchor_rebuild s)"
| "reducer_step D s CompleteReanchorRebuild = quiet (complete_reanchor_rebuild D s)"
| "reducer_step D s (ObserveInventory i) = observe_inventory D s i"
| "reducer_step D s (ReconcileReplenishmentRound n) = quiet (reconcile_replenishment_round s n)"
| "reducer_step D s BeginReplenishment = begin_replenishment D s"
| "reducer_step D s RestartWithoutReplenishment = quiet (request_restart_without_replenishment s)"
| "reducer_step D s ResumeAfterStop = quiet (resume_after_stop D s)"
| "reducer_step D s ResetOrdersSettled = quiet (reset_orders_settled s)"
| "reducer_step D s (ReplenishmentSettled p) = replenishment_settled s p"
| "reducer_step D s SettlePendingReplenishments = settle_pending_replenishments s"
| "reducer_step D s (ObserveReplenishmentInventory i) = quiet (observe_replenishment_inventory D s i)"
| "reducer_step D s (InstallEpoch e) = install_epoch D s e"
| "reducer_step D s (ObserveFill f adjust) = observe_owned_fill_inner D s f adjust"
| "reducer_step D s (RetireFill f) = quiet (retire_owned_fill_during_reset D s f)"
| "reducer_step D s (SettleTransaction t success) = settle_transaction s t success"
| "reducer_step D s (AbandonTransactions ts) = abandon_unsubmitted_transactions s ts"
| "reducer_step D s (BeginReconciliationReset m) = quiet (begin_reconciliation_reset D s m)"
| "reducer_step D s BlockForReconciliation = quiet (block_for_order_reconciliation s)"
| "reducer_step D s (DeferReconciliation t) = quiet (defer_blocked_reconciliation_until s t)"
| "reducer_step D s (ReconcileBlocked m) = quiet (reconcile_blocked_orders D s m)"
| "reducer_step D s (ReconcileStopping m) = quiet (reconcile_stopping_orders D s m)"
| "reducer_step D s OperatorStop = (s\<lparr>hs_phase := Stopping\<rparr>, Ok NoAction)"

section \<open>Operations on phases and inventory\<close>

definition ledger where
  "ledger s = (hs_owned_orders s, hs_seen_fill_ids s, hs_owned_fill_records s,
     hs_pending_transactions s, hs_epoch s, hs_order_sequences s)"

named_theorems ledger_kept \<open>operations that leave the ledger of the reducer alone\<close>

lemma ledger_updates [simp]:
  "ledger (s\<lparr>hs_phase := p\<rparr>) = ledger s"
  "ledger (s\<lparr>hs_reset_reason := r\<rparr>) = ledger s"
  "ledger (s\<lparr>hs_inventory := i\<rparr>) = ledger s"
  "ledger (s\<lparr>hs_inventory_recovery := v\<rparr>) = ledger s"
  "ledger (s\<lparr>hs_pending_replenishments := m\<rparr>) = ledger s"
  "ledger (s\<lparr>hs_replenish_round := n\<rparr>) = ledger s"
  "ledger (s\<lparr>hs_suppress_replenishment := b\<rparr>) = ledger s"
  "ledger (s\<lparr>hs_blocked_not_before_ms := t\<rparr>) = ledger s"
  "ledger (s\<lparr>hs_stream_adjustments := a\<rparr>) = ledger s"
  by (simp_all add: ledger_def)

lemma ledger_attempt:
  "(\<And>x. m = Ok x \<Longrightarrow> ledger (fst (f x)) = l) \<Longrightarrow> ledger s = l \<Longrightarrow> ledger (fst (attempt s m f)) = l"
  by (rule attempt_fst [where P = "\<lambda>t. ledger t = l"])

lemma ledger_chain:
  "ledger (fst m) = l \<Longrightarrow> (\<And>s x. ledger s = l \<Longrightarrow> ledger (fst (f s x)) = l)
   \<Longrightarrow> ledger (fst (chain m f)) = l"
  by (rule chain_fst [where P = "\<lambda>t. ledger t = l"])

lemma update_recovery_ledger [ledger_kept]: "ledger (fst (update_inventory_recovery D s i)) = ledger s"
  by (auto simp: update_inventory_recovery_def attempt_def split: option.splits outcome.splits)

lemma observe_inventory_ledger [ledger_kept]: "ledger (fst (observe_inventory D s i)) = ledger s"
proof -
  have "ledger (fst (observe_new_inventory D s i)) = ledger s"
    unfolding observe_new_inventory_def Let_def
    by (intro ledger_chain ledger_attempt) (auto simp: ledger_kept)
  then show ?thesis
    unfolding observe_inventory_def
    by (intro ledger_attempt) (auto split: option.splits)
qed

lemma observe_replenishment_ledger [ledger_kept]:
  "ledger (fst (observe_replenishment_inventory D s i)) = ledger s"
  by (auto simp: observe_replenishment_inventory_def attempt_def split: outcome.splits)

lemma phase_ops_ledger [ledger_kept]:
  "ledger (fst (begin_inventory_check s)) = ledger s"
  "ledger (fst (request_reset s reason)) = ledger s"
  "ledger (fst (begin_reanchor_rebuild s)) = ledger s"
  "ledger (fst (complete_reanchor_rebuild D s)) = ledger s"
  "ledger (fst (reconcile_replenishment_round s n)) = ledger s"
  "ledger (fst (request_restart_without_replenishment s)) = ledger s"
  "ledger (fst (resume_after_stop D s)) = ledger s"
  "ledger (fst (replenishment_settled s p)) = ledger s"
  "ledger (fst (block_for_order_reconciliation s)) = ledger s"
  "ledger (fst (defer_blocked_reconciliation_until s t)) = ledger s"
  by (auto simp: begin_inventory_check_def request_reset_def begin_reanchor_rebuild_def
      complete_reanchor_rebuild_def reconcile_replenishment_round_def
      request_restart_without_replenishment_def resume_after_stop_def replenishment_settled_def
      block_for_order_reconciliation_def defer_blocked_reconciliation_until_def attempt_def Let_def
      split: inventory_recovery_state.splits option.splits outcome.splits)

lemma replenish_position_ledger:
  "ledger (fst acc) = l \<Longrightarrow> ledger (fst (replenish_position D i acc p)) = l"
  unfolding replenish_position_def
  by (intro ledger_chain ledger_attempt) (auto simp: attempt_def Let_def split: outcome.splits)

lemma begin_replenishment_ledger [ledger_kept]: "ledger (fst (begin_replenishment D s)) = ledger s"
  unfolding begin_replenishment_def Let_def
  by (auto intro!: ledger_attempt ledger_chain replenish_position_ledger)

lemma settle_fold_ledger:
  "ledger (fst acc) = l
   \<Longrightarrow> ledger (fst (foldl (\<lambda>acc p. chain acc (\<lambda>s _. replenishment_settled s p)) acc ps)) = l"
proof (induction ps arbitrary: acc)
  case (Cons p ps)
  have "ledger (fst (chain acc (\<lambda>s _. replenishment_settled s p))) = l"
    using Cons.prems by (intro ledger_chain) (auto simp: ledger_kept)
  then show ?case unfolding foldl.simps by (rule Cons.IH)
qed simp

lemma settle_pending_ledger [ledger_kept]: "ledger (fst (settle_pending_replenishments s)) = ledger s"
  by (auto simp: settle_pending_replenishments_def intro: settle_fold_ledger)

end
