(* ===== verification/Reducer_Moves.thy ===== *)
theory Reducer_Moves
  imports Reducer_Facts
begin

text \<open>
  What the operations of the grid reducer do to the consumed fills, to the recovery of
  deficient inventory, and to the sequences that number new orders.
\<close>

section \<open>Consumed fills\<close>

definition consumed :: "'d hedged_grid_state \<Rightarrow> string set" where
  "consumed s = set (bt_keys (hs_seen_fill_ids s))"

lemma consumed_ledger: "ledger s = ledger t \<Longrightarrow> consumed s = consumed t"
  by (simp add: consumed_def ledger_def)

lemma consumed_updates [simp]:
  "consumed (s\<lparr>hs_owned_orders := m\<rparr>) = consumed s"
  "consumed (s\<lparr>hs_owned_fill_records := r\<rparr>) = consumed s"
  "consumed (s\<lparr>hs_pending_transactions := p\<rparr>) = consumed s"
  "consumed (s\<lparr>hs_epoch := e\<rparr>) = consumed s"
  "consumed (s\<lparr>hs_order_sequences := q\<rparr>) = consumed s"
  "consumed (s\<lparr>hs_phase := ph\<rparr>) = consumed s"
  "consumed (s\<lparr>hs_reset_reason := rr\<rparr>) = consumed s"
  "consumed (s\<lparr>hs_inventory_recovery := v\<rparr>) = consumed s"
  "consumed (s\<lparr>hs_pending_replenishments := pr\<rparr>) = consumed s"
  "consumed (s\<lparr>hs_blocked_not_before_ms := bl\<rparr>) = consumed s"
  "consumed (s\<lparr>hs_stream_adjustments := a\<rparr>) = consumed s"
  by (simp_all add: consumed_def)

lemma consumed_insert [simp]:
  "consumed (t\<lparr>hs_seen_fill_ids := bt_insert k v (hs_seen_fill_ids s)\<rparr>) = insert k (consumed s)"
  using bt_insert_keys [of k v "hs_seen_fill_ids s"] by (simp add: consumed_def bt_keys_def)

lemma consumed_attempt:
  "(\<And>x. m = Ok x \<Longrightarrow> c \<subseteq> consumed (fst (f x))) \<Longrightarrow> c \<subseteq> consumed s
   \<Longrightarrow> c \<subseteq> consumed (fst (attempt s m f))"
  by (rule attempt_fst [where P = "\<lambda>t. c \<subseteq> consumed t"])

lemma consumed_chain:
  "c \<subseteq> consumed (fst m) \<Longrightarrow> (\<And>s x. c \<subseteq> consumed s \<Longrightarrow> c \<subseteq> consumed (fst (f s x)))
   \<Longrightarrow> c \<subseteq> consumed (fst (chain m f))"
  by (rule chain_fst [where P = "\<lambda>t. c \<subseteq> consumed t"])

lemma consumed_if:
  "(p \<Longrightarrow> c \<subseteq> consumed (fst a)) \<Longrightarrow> (\<not> p \<Longrightarrow> c \<subseteq> consumed (fst b))
   \<Longrightarrow> c \<subseteq> consumed (fst (if p then a else b))"
  by simp

lemmas consumed_intros = consumed_attempt consumed_chain consumed_if

lemma consumed_reconcile [simp]: "consumed (reconcile_order_sequences s) = consumed s"
  by (simp add: reconcile_order_sequences_def split: option.splits)

lemma consumed_consume [simp]: "consumed (consume_fill i k s) = insert i (consumed s)"
  using bt_insert_keys [of i k "hs_seen_fill_ids s"]
  by (simp add: consume_fill_def consumed_def bt_keys_def)

lemma consumed_apply [simp]: "consumed (apply_transaction t s) = consumed s"
  by (simp add: apply_transaction_def)

lemma consumed_retire: "consumed s \<subseteq> consumed (foldl retire_record s xs)"
proof (induction xs arbitrary: s)
  case (Cons x xs)
  have "consumed s \<subseteq> consumed (retire_record s x)"
    by (cases x) (auto simp: retire_record_def Let_def split: option.splits)
  then show ?case using Cons.IH [of "retire_record s x"] by simp
qed simp

lemma consumed_adjust: "adjust_stream_inventory D s x = Ok t \<Longrightarrow> consumed t = consumed s"
  by (auto simp: adjust_stream_inventory_def Let_def outcome_simps)

text \<open>An emission consumes its fill, and nothing else does.\<close>

lemma emit_consumes:
  assumes "emit_maker_fill_action D s i = (s', r)"
  shows "consumed s \<subseteq> consumed s'" and "r = Ok (Actions acts) \<Longrightarrow> i \<in> consumed s'"
  using assms
  by (auto simp: emit_maker_fill_action_def Let_def attempt_def
      split: if_splits outcome.splits inventory_recovery_state.splits)

lemma emit_subset: "consumed s \<subseteq> consumed (fst (emit_maker_fill_action D s i))"
  by (cases "emit_maker_fill_action D s i") (auto dest: emit_consumes(1))

lemma record_subset: "consumed s \<subseteq> consumed (fst (record_owned_fill D s f adjust))"
  unfolding record_owned_fill_def Let_def
  by (intro consumed_intros subset_trans [OF _ emit_subset])
    (auto dest: consumed_adjust split: if_splits)

lemma fill_subset: "consumed s \<subseteq> consumed (fst (observe_owned_fill_inner D s f adjust))"
  unfolding observe_owned_fill_inner_def
  by (intro consumed_intros)
    (auto simp: replay_recorded_fill_def Let_def dest: subsetD [OF emit_subset] subsetD [OF record_subset]
      split: option.splits)

lemma fill_consumes:
  assumes "observe_owned_fill_inner D s f adjust = (s', Ok (Actions acts))"
  shows "of_fill_id f \<in> consumed s'"
  using assms
  by (auto simp: observe_owned_fill_inner_def attempt_Ok replay_recorded_fill_def
      record_owned_fill_def Let_def dest: emit_consumes(2) split: if_splits option.splits)

lemma retire_superseded_consumes: "consumed s \<subseteq> consumed (fst (retire_superseded_maker_facts s))"
  using consumed_retire [of s]
  by (auto simp: retire_superseded_maker_facts_def Let_def split: option.splits)

lemma retire_fill_consumes: "consumed s \<subseteq> consumed (fst (retire_owned_fill_during_reset D s f))"
  by (auto simp: retire_owned_fill_during_reset_def Let_def attempt_def dest: consumed_adjust
      split: if_splits option.splits outcome.splits)

lemma install_consumes: "consumed s \<subseteq> consumed (fst (install_epoch D s e))"
proof -
  have update: "consumed (fst (update_inventory_recovery D t i)) = consumed t" for t i
    by (rule consumed_ledger) (simp add: ledger_kept)
  show ?thesis
    unfolding install_epoch_def Let_def
    by (intro consumed_intros subset_trans [OF _ retire_superseded_consumes])
      (auto simp: update split: option.splits)
qed

lemma abandon_fold_consumes: "consumed s \<subseteq> consumed (fst acc)
    \<Longrightarrow> consumed s \<subseteq> consumed (fst (foldl abandon_transaction acc ts))"
proof (induction ts arbitrary: acc)
  case (Cons t ts)
  have "consumed s \<subseteq> consumed (fst (abandon_transaction acc t))"
    unfolding abandon_transaction_def
    using Cons.prems by (intro consumed_chain) (auto split: option.splits)
  then show ?case unfolding foldl.simps by (rule Cons.IH)
qed simp

lemma reducer_step_consumes: "consumed s \<subseteq> consumed (fst (reducer_step D s e))"
proof (cases e)
  case (ObserveFill f adjust)
  then show ?thesis using fill_subset by simp
next
  case (InstallEpoch x)
  then show ?thesis using install_consumes by simp
next
  case (RetireFill f)
  then show ?thesis using retire_fill_consumes by simp
next
  case (AbandonTransactions ids)
  have "consumed (fst (request_reset t q)) = consumed t" for t :: "'a hedged_grid_state" and q
    by (rule consumed_ledger) (simp add: ledger_kept)
  then show ?thesis unfolding AbandonTransactions reducer_step.simps abandon_unsubmitted_transactions_def Let_def
    by (intro consumed_intros) (simp_all add: abandon_fold_consumes)
qed (auto simp: ledger_kept reset_orders_settled_def settle_transaction_def
    begin_reconciliation_reset_def reconcile_blocked_orders_def reconcile_stopping_orders_def
    attempt_def Let_def consumed_ledger [OF ledger_kept(1)]
    intro!: equalityD2 [OF consumed_ledger] split: outcome.splits)

text \<open>A consumed fill never acts again.\<close>

lemma consumed_fill_inert:
  assumes "of_fill_id f \<in> consumed s"
  shows "\<exists>r. observe_owned_fill_inner D s f adjust = (s, r) \<and> (\<forall>acts. r \<noteq> Ok (Actions acts))"
proof -
  obtain k where "bt_lookup (hs_seen_fill_ids s) (of_fill_id f) = Some k"
    using assms weak_map_of_SomeI by (fastforce simp: consumed_def bt_keys_def bt_lookup_def)
  then show ?thesis
    by (auto simp: observe_owned_fill_inner_def attempt_def split: outcome.splits option.splits)
qed

interpretation reducer: mutating_machine "reducer_step D" "\<lambda>_. True"
  "\<lambda>s t. consumed s \<subseteq> consumed t"
  by unfold_locales (auto dest: subsetD [OF reducer_step_consumes])

end
