(* ===== verification/Reducer_Recovery.thy ===== *)
theory Reducer_Recovery
  imports Reducer_Moves Grid_Shape
begin

text \<open>
  The recovery of deficient inventory: a pending or running rebuild is backed, in every
  reachable state, by the consumed maker fill that triggered it.
\<close>

section \<open>The fill behind a rebuild\<close>

definition recovery_fill :: "'d hedged_grid_state \<Rightarrow> (string \<times> 'd price) option" where
  "recovery_fill s =
     (case hs_inventory_recovery s of
        ReanchorPending fill_id fill_price \<Rightarrow> Some (fill_id, fill_price)
      | Rebuilding fill_id fill_price \<Rightarrow> Some (fill_id, fill_price)
      | _ \<Rightarrow> None)"

lemma recovery_fill_active: "active_recovery_fill s = map_option fst (recovery_fill s)"
  by (simp add: active_recovery_fill_def recovery_fill_def split: inventory_recovery_state.splits)

named_theorems recovery_kept \<open>operations that start no rebuild\<close>

lemma recovery_updates [simp]:
  "recovery_fill (s\<lparr>hs_phase := p\<rparr>) = recovery_fill s"
  "recovery_fill (s\<lparr>hs_reset_reason := r\<rparr>) = recovery_fill s"
  "recovery_fill (s\<lparr>hs_inventory := i\<rparr>) = recovery_fill s"
  "recovery_fill (s\<lparr>hs_epoch := e\<rparr>) = recovery_fill s"
  "recovery_fill (s\<lparr>hs_order_sequences := q\<rparr>) = recovery_fill s"
  "recovery_fill (s\<lparr>hs_owned_orders := m\<rparr>) = recovery_fill s"
  "recovery_fill (s\<lparr>hs_seen_fill_ids := d\<rparr>) = recovery_fill s"
  "recovery_fill (s\<lparr>hs_owned_fill_records := f\<rparr>) = recovery_fill s"
  "recovery_fill (s\<lparr>hs_pending_transactions := u\<rparr>) = recovery_fill s"
  "recovery_fill (s\<lparr>hs_pending_replenishments := v\<rparr>) = recovery_fill s"
  "recovery_fill (s\<lparr>hs_replenish_round := n\<rparr>) = recovery_fill s"
  "recovery_fill (s\<lparr>hs_suppress_replenishment := b\<rparr>) = recovery_fill s"
  "recovery_fill (s\<lparr>hs_blocked_not_before_ms := t\<rparr>) = recovery_fill s"
  "recovery_fill (s\<lparr>hs_stream_adjustments := a\<rparr>) = recovery_fill s"
  by (simp_all add: recovery_fill_def)

definition no_rebuild_starts :: "'d hedged_grid_state \<Rightarrow> 'd hedged_grid_state \<Rightarrow> bool" where
  "no_rebuild_starts s t \<longleftrightarrow> recovery_fill t = None \<or> recovery_fill t = recovery_fill s"

lemma no_rebuild_refl [simp]: "no_rebuild_starts s s"
  by (simp add: no_rebuild_starts_def)

lemma no_rebuild_same: "recovery_fill t = recovery_fill s \<Longrightarrow> no_rebuild_starts s t"
  by (simp add: no_rebuild_starts_def)

lemma no_rebuild_trans: "no_rebuild_starts s t \<Longrightarrow> no_rebuild_starts t u \<Longrightarrow> no_rebuild_starts s u"
  by (auto simp: no_rebuild_starts_def)

lemma rebuild_attempt:
  "(\<And>x. m = Ok x \<Longrightarrow> no_rebuild_starts s (fst (f x))) \<Longrightarrow> no_rebuild_starts s u
   \<Longrightarrow> no_rebuild_starts s (fst (attempt u m f))"
  by (rule attempt_fst [where P = "no_rebuild_starts s"])

lemma rebuild_chain:
  "no_rebuild_starts s (fst m) \<Longrightarrow> (\<And>t x. no_rebuild_starts s t \<Longrightarrow> no_rebuild_starts s (fst (f t x)))
   \<Longrightarrow> no_rebuild_starts s (fst (chain m f))"
  by (rule chain_fst [where P = "no_rebuild_starts s"])

lemma rebuild_if:
  "(p \<Longrightarrow> no_rebuild_starts s (fst a)) \<Longrightarrow> (\<not> p \<Longrightarrow> no_rebuild_starts s (fst b))
   \<Longrightarrow> no_rebuild_starts s (fst (if p then a else b))"
  by simp

lemmas rebuild_intros = rebuild_attempt rebuild_chain rebuild_if

lemma update_recovery_rebuild [recovery_kept]:
  "no_rebuild_starts s (fst (update_inventory_recovery D s i))"
  by (auto simp: update_inventory_recovery_def attempt_def no_rebuild_starts_def recovery_fill_def
      next_recovery_def split: option.splits outcome.splits inventory_recovery_state.splits)

lemma observe_inventory_rebuild [recovery_kept]:
  "no_rebuild_starts s (fst (observe_inventory D s i))"
proof -
  have "no_rebuild_starts s (fst (observe_new_inventory D s i))"
    unfolding observe_new_inventory_def Let_def
    by (intro rebuild_intros no_rebuild_trans [OF no_rebuild_same update_recovery_rebuild])
      (auto simp: no_rebuild_starts_def)
  then show ?thesis
    unfolding observe_inventory_def
    by (intro rebuild_intros) (auto split: option.splits)
qed

lemma phase_ops_rebuild [recovery_kept]:
  "no_rebuild_starts s (fst (begin_inventory_check s))"
  "no_rebuild_starts s (fst (request_reset s reason))"
  "no_rebuild_starts s (fst (begin_reanchor_rebuild s))"
  "no_rebuild_starts s (fst (complete_reanchor_rebuild D s))"
  "no_rebuild_starts s (fst (reconcile_replenishment_round s n))"
  "no_rebuild_starts s (fst (request_restart_without_replenishment s))"
  "no_rebuild_starts s (fst (resume_after_stop D s))"
  "no_rebuild_starts s (fst (replenishment_settled s p))"
  "no_rebuild_starts s (fst (block_for_order_reconciliation s))"
  "no_rebuild_starts s (fst (defer_blocked_reconciliation_until s t))"
  "no_rebuild_starts s (fst (observe_replenishment_inventory D s i))"
  "no_rebuild_starts s (fst (reset_orders_settled s))"
  "no_rebuild_starts s (fst (settle_transaction s tid ok))"
  by (auto simp: begin_inventory_check_def request_reset_def begin_reanchor_rebuild_def
      complete_reanchor_rebuild_def reconcile_replenishment_round_def
      request_restart_without_replenishment_def resume_after_stop_def replenishment_settled_def
      block_for_order_reconciliation_def defer_blocked_reconciliation_until_def
      observe_replenishment_inventory_def reset_orders_settled_def settle_transaction_def
      attempt_def Let_def no_rebuild_starts_def recovery_fill_def
      split: inventory_recovery_state.splits option.splits outcome.splits)

lemma begin_replenishment_rebuild [recovery_kept]: "no_rebuild_starts s (fst (begin_replenishment D s))"
proof -
  have position: "no_rebuild_starts s (fst (replenish_position D i acc p))"
    if "no_rebuild_starts s (fst acc)" for i acc p
    unfolding replenish_position_def using that
    by (intro rebuild_intros) (auto simp: no_rebuild_starts_def attempt_def Let_def split: outcome.splits)
  show ?thesis
    unfolding begin_replenishment_def Let_def foldl.simps
    by (intro rebuild_intros position) (auto simp: no_rebuild_starts_def)
qed

lemma settle_pending_rebuild [recovery_kept]:
  "no_rebuild_starts s (fst (settle_pending_replenishments s))"
proof -
  have fold: "no_rebuild_starts s
      (fst (foldl (\<lambda>acc p. chain acc (\<lambda>s _. replenishment_settled s p)) acc ps))"
    if "no_rebuild_starts s (fst acc)" for acc ps using that
  proof (induction ps arbitrary: acc)
    case (Cons p ps)
    have "no_rebuild_starts s (fst (chain acc (\<lambda>s _. replenishment_settled s p)))"
      using Cons.prems by (intro rebuild_intros) (auto intro: no_rebuild_trans recovery_kept)
    then show ?case unfolding foldl.simps by (rule Cons.IH)
  qed simp
  show ?thesis by (auto simp: settle_pending_replenishments_def intro: fold)
qed

section \<open>The evidence of a rebuild\<close>

definition evidence_at ::
  "'d hedged_grid_state \<Rightarrow> string \<Rightarrow> 'd price \<Rightarrow> bool" where
  "evidence_at s fill_id fill_price \<longleftrightarrow>
     (case bt_lookup (hs_owned_fill_records s) fill_id of
        None \<Rightarrow> False
      | Some rec \<Rightarrow> fr_fill_price rec = fill_price \<and> fr_maker rec = Some True
          \<and> fr_grid_action_emitted rec
          \<and> bt_lookup (hs_seen_fill_ids s) fill_id = Some (gi_key (fr_source_order rec)))"

definition records_sound :: "'d hedged_grid_state \<Rightarrow> bool" where
  "records_sound s \<longleftrightarrow>
     list_all (\<lambda>(i, rec). i \<noteq> [] \<and> fr_private_generation rec \<noteq> 0) (hs_owned_fill_records s)"

definition recovery_backed :: "'d hedged_grid_state \<Rightarrow> bool" where
  "recovery_backed s \<longleftrightarrow> records_sound s
     \<and> (case recovery_fill s of None \<Rightarrow> True | Some (i, p) \<Rightarrow> evidence_at s i p)"

lemma backed_same:
  "hs_seen_fill_ids t = hs_seen_fill_ids s \<Longrightarrow> hs_owned_fill_records t = hs_owned_fill_records s
   \<Longrightarrow> recovery_fill t = recovery_fill s \<Longrightarrow> recovery_backed t = recovery_backed s"
  unfolding recovery_backed_def records_sound_def evidence_at_def by (simp split: option.splits)

lemma backed_kept:
  assumes "recovery_backed s" and "no_rebuild_starts s t"
    and "hs_seen_fill_ids t = hs_seen_fill_ids s" and "hs_owned_fill_records t = hs_owned_fill_records s"
  shows "recovery_backed t"
  using assms by (auto simp: recovery_backed_def records_sound_def evidence_at_def no_rebuild_starts_def
      split: option.splits)

lemma ledger_fields:
  "ledger t = ledger s \<Longrightarrow> hs_seen_fill_ids t = hs_seen_fill_ids s"
  "ledger t = ledger s \<Longrightarrow> hs_owned_fill_records t = hs_owned_fill_records s"
  by (simp_all add: ledger_def)

lemma backed_ledger:
  "recovery_backed s \<Longrightarrow> no_rebuild_starts s t \<Longrightarrow> ledger t = ledger s \<Longrightarrow> recovery_backed t"
  by (rule backed_kept [OF _ _ ledger_fields])

lemma backed_updates [simp]:
  "recovery_backed (s\<lparr>hs_owned_orders := m\<rparr>) = recovery_backed s"
  "recovery_backed (s\<lparr>hs_order_sequences := q\<rparr>) = recovery_backed s"
  "recovery_backed (s\<lparr>hs_pending_transactions := u\<rparr>) = recovery_backed s"
  "recovery_backed (s\<lparr>hs_phase := p\<rparr>) = recovery_backed s"
  "recovery_backed (s\<lparr>hs_reset_reason := r\<rparr>) = recovery_backed s"
  "recovery_backed (s\<lparr>hs_epoch := e\<rparr>) = recovery_backed s"
  "recovery_backed (s\<lparr>hs_blocked_not_before_ms := t\<rparr>) = recovery_backed s"
  "recovery_backed (s\<lparr>hs_pending_replenishments := v\<rparr>) = recovery_backed s"
  "recovery_backed (s\<lparr>hs_stream_adjustments := a\<rparr>) = recovery_backed s"
  by (rule backed_same; simp)+

lemma backed_reconcile [simp]: "recovery_backed (reconcile_order_sequences s) = recovery_backed s"
  by (simp add: reconcile_order_sequences_def split: option.splits)

lemma records_seen: "records_sound (s\<lparr>hs_seen_fill_ids := d\<rparr>) = records_sound s"
  by (simp add: records_sound_def)

lemma records_insert:
  "records_sound s \<Longrightarrow> i \<noteq> [] \<Longrightarrow> fr_private_generation rec \<noteq> 0
   \<Longrightarrow> records_sound (t\<lparr>hs_owned_fill_records := bt_insert i rec (hs_owned_fill_records s)\<rparr>)"
  using subsetD [OF bt_insert_set [of i rec "hs_owned_fill_records s"]]
  unfolding records_sound_def list_all_iff by (clarsimp; blast)

lemma records_lookup:
  "records_sound s \<Longrightarrow> bt_lookup (hs_owned_fill_records s) i = Some rec
   \<Longrightarrow> i \<noteq> [] \<and> fr_private_generation rec \<noteq> 0"
  unfolding records_sound_def bt_lookup_def list_all_iff by (fastforce dest: map_of_SomeD)

text \<open>Another fill's record may change, under sound evidence.\<close>

lemma backed_record:
  assumes "recovery_backed s" and "i \<noteq> []" and "fr_private_generation rec \<noteq> 0"
    and "map_option fst (recovery_fill s) \<noteq> Some i"
  shows "recovery_backed (s\<lparr>hs_owned_fill_records := bt_insert i rec (hs_owned_fill_records s)\<rparr>)"
  using assms records_insert [of s i rec s]
  by (auto simp: recovery_backed_def evidence_at_def split: option.splits)

lemma backed_seen:
  assumes "recovery_backed s" and "map_option fst (recovery_fill s) \<noteq> Some i"
  shows "recovery_backed (s\<lparr>hs_seen_fill_ids := bt_insert i k (hs_seen_fill_ids s)\<rparr>)"
  using assms records_seen
  by (auto simp: recovery_backed_def evidence_at_def split: option.splits)

lemma backed_fill: "recovery_backed s \<Longrightarrow> map_option fst (recovery_fill s) = Some i
    \<Longrightarrow> \<exists>rec. bt_lookup (hs_owned_fill_records s) i = Some rec \<and> fr_maker rec = Some True
      \<and> fr_grid_action_emitted rec"
  by (auto simp: recovery_backed_def evidence_at_def split: option.splits)

lemma backed_attempt:
  "(\<And>x. m = Ok x \<Longrightarrow> recovery_backed (fst (f x))) \<Longrightarrow> recovery_backed s
   \<Longrightarrow> recovery_backed (fst (attempt s m f))"
  by (rule attempt_fst [where P = recovery_backed])

lemma backed_chain:
  "recovery_backed (fst m) \<Longrightarrow> (\<And>t x. recovery_backed t \<Longrightarrow> recovery_backed (fst (f t x)))
   \<Longrightarrow> recovery_backed (fst (chain m f))"
  by (rule chain_fst [where P = recovery_backed])

lemma backed_if:
  "(c \<Longrightarrow> recovery_backed (fst a)) \<Longrightarrow> (\<not> c \<Longrightarrow> recovery_backed (fst b))
   \<Longrightarrow> recovery_backed (fst (if c then a else b))"
  by simp

lemmas backed_intros = backed_attempt backed_chain backed_if

lemma backed_retire:
  assumes "recovery_backed s" and "map_option fst (recovery_fill s) \<noteq> Some (fst x)"
  shows "recovery_backed (retire_record s x)" and "recovery_fill (retire_record s x) = recovery_fill s"
proof -
  obtain i k where x: "x = (i, k)" by (cases x)
  let ?s = "s\<lparr>hs_seen_fill_ids := bt_insert i k (hs_seen_fill_ids s)\<rparr>"
  have s: "recovery_backed ?s" using assms by (simp add: x backed_seen)
  show "recovery_fill (retire_record s x) = recovery_fill s"
    by (simp add: x retire_record_def Let_def split: option.splits)
  show "recovery_backed (retire_record s x)"
  proof (cases "bt_lookup (hs_owned_fill_records ?s) i")
    case (Some rec)
    then show ?thesis
      using backed_record [OF s, of i "rec\<lparr>fr_retired_without_action := True\<rparr>"] assms
        records_lookup [of s i rec]
      by (simp add: x retire_record_def Let_def recovery_backed_def)
  qed (use s in \<open>simp add: x retire_record_def Let_def\<close>)
qed

lemma backed_retire_fold:
  "recovery_backed s \<Longrightarrow> \<forall>x \<in> set xs. map_option fst (recovery_fill s) \<noteq> Some (fst x)
   \<Longrightarrow> recovery_backed (foldl retire_record s xs)"
  by (induction xs arbitrary: s) (auto simp: backed_retire)

lemma backed_superseded:
  "recovery_backed s \<Longrightarrow> recovery_backed (fst (retire_superseded_maker_facts s))"
  by (auto simp: retire_superseded_maker_facts_def Let_def recovery_fill_active
      split: option.splits intro!: backed_retire_fold)

section \<open>Every operation keeps the evidence\<close>

lemma backed_install: "recovery_backed s \<Longrightarrow> recovery_backed (fst (install_epoch D s e))"
proof -
  have update: "recovery_backed (fst (update_inventory_recovery D t i))" if "recovery_backed t" for t i
    using that update_recovery_rebuild by (rule backed_ledger) (simp add: ledger_kept)
  assume "recovery_backed s"
  then show ?thesis
    unfolding install_epoch_def Let_def
    by (intro backed_intros backed_superseded update) auto
qed

lemma backed_adjust:
  assumes "adjust_stream_inventory D s x = Ok t"
  shows "recovery_backed t = recovery_backed s \<and> recovery_fill t = recovery_fill s"
proof -
  have "hs_seen_fill_ids t = hs_seen_fill_ids s" "hs_owned_fill_records t = hs_owned_fill_records s"
    "recovery_fill t = recovery_fill s"
    using assms by (auto simp: adjust_stream_inventory_def Let_def outcome_simps)
  then show ?thesis using backed_same [of t s] by blast
qed

text \<open>A fill without a record takes one, and may be consumed with it.\<close>

lemma backed_new_record:
  assumes "recovery_backed s" and "bt_lookup (hs_owned_fill_records s) i = None"
    and "i \<noteq> []" and "fr_private_generation rec \<noteq> 0"
    and "(if adjust then adjust_stream_inventory D (s\<lparr>hs_owned_orders := m\<rparr>) x
      else Ok (s\<lparr>hs_owned_orders := m\<rparr>)) = Ok t"
  shows "recovery_backed (t\<lparr>hs_owned_fill_records := bt_insert i rec (hs_owned_fill_records t)\<rparr>)"
    and "recovery_backed (t\<lparr>hs_owned_fill_records := bt_insert i rec (hs_owned_fill_records t),
       hs_seen_fill_ids := bt_insert i k (hs_seen_fill_ids t)\<rparr>)"
proof -
  have other: "map_option fst (recovery_fill s) \<noteq> Some i"
    using backed_fill [OF assms(1), of i] assms(2) by auto
  have t: "recovery_backed t \<and> recovery_fill t = recovery_fill s"
  proof (cases adjust)
    case True
    then show ?thesis using assms(1,5) backed_adjust [of D "s\<lparr>hs_owned_orders := m\<rparr>" x t] by simp
  qed (use assms in auto)
  then show r: "recovery_backed (t\<lparr>hs_owned_fill_records := bt_insert i rec (hs_owned_fill_records t)\<rparr>)"
    using other assms(3,4) by (intro backed_record) simp_all
  show "recovery_backed (t\<lparr>hs_owned_fill_records := bt_insert i rec (hs_owned_fill_records t),
       hs_seen_fill_ids := bt_insert i k (hs_seen_fill_ids t)\<rparr>)"
    using backed_seen [OF r, of i k] t other by simp
qed

text \<open>Emitting backs the rebuild it starts, and consumes no fill behind another.\<close>

lemma backed_consume:
  assumes "recovery_backed s" and "bt_lookup (hs_owned_fill_records s) i = Some rec"
    and "map_option fst (recovery_fill s) \<noteq> Some i"
  shows "recovery_backed (consume_fill i k s)"
proof -
  let ?rec = "rec\<lparr>fr_maker := Some True, fr_grid_action_emitted := True\<rparr>"
  let ?s = "s\<lparr>hs_owned_fill_records := bt_insert i ?rec (hs_owned_fill_records s)\<rparr>"
  have "recovery_backed ?s"
    using assms records_lookup [of s i rec] by (intro backed_record) (auto simp: recovery_backed_def)
  then have "recovery_backed (?s\<lparr>hs_seen_fill_ids := bt_insert i k (hs_seen_fill_ids ?s)\<rparr>)"
    using assms(3) by (intro backed_seen) simp_all
  then show ?thesis using assms(2) by (simp add: consume_fill_def)
qed

lemma backed_reanchor:
  assumes "recovery_backed s" and "bt_lookup (hs_owned_fill_records s) i = Some rec"
  shows "recovery_backed (consume_fill i (gi_key (fr_source_order rec))
    (s\<lparr>hs_inventory_recovery := ReanchorPending i (fr_fill_price rec)\<rparr>))"
proof -
  let ?rec = "rec\<lparr>fr_maker := Some True, fr_grid_action_emitted := True\<rparr>"
  have sound: "records_sound s" and nonzero: "i \<noteq> []" "fr_private_generation ?rec \<noteq> 0"
    using assms records_lookup [of s i rec] by (auto simp: recovery_backed_def)
  have "records_sound (t\<lparr>hs_owned_fill_records := bt_insert i ?rec (hs_owned_fill_records s)\<rparr>)" for t
    using sound nonzero by (rule records_insert)
  then show ?thesis
    using assms(2) by (simp add: recovery_backed_def recovery_fill_def evidence_at_def consume_fill_def
        records_sound_def)
qed

lemma backed_emit:
  assumes "recovery_backed s"
  shows "recovery_backed (fst (emit_maker_fill_action D s i))"
proof -
  have other: "recovery_fill s \<noteq> Some (i, p)"
    if "bt_lookup (hs_owned_fill_records s) i = Some rec" "\<not> fr_grid_action_emitted rec" for rec p
    using that backed_fill [OF assms, of i] by auto
  have applied: "recovery_backed (apply_transaction t s)" "recovery_fill (apply_transaction t s) = recovery_fill s"
    "hs_owned_fill_records (apply_transaction t s) = hs_owned_fill_records s" for t
    using assms by (simp_all add: apply_transaction_def)
  show ?thesis
    unfolding emit_maker_fill_action_def Let_def
    by (intro backed_intros) (auto simp: assms applied ok_or_Ok dest: other intro!: backed_reanchor backed_consume)
qed

lemma backed_observe:
  assumes "recovery_backed s"
  shows "recovery_backed (fst (observe_owned_fill_inner D s f adjust))"
proof (cases "trim (of_fill_id f) = [] \<or> of_private_generation f = 0")
  case False
  then have id: "of_fill_id f \<noteq> []" "of_private_generation f \<noteq> 0" by auto
  have other: "map_option fst (recovery_fill s) \<noteq> Some (of_fill_id f)"
    if "bt_lookup (hs_owned_fill_records s) (of_fill_id f) = rec"
      "rec = None \<or> fr_maker (the rec) = None" for rec
    using that backed_fill [OF assms, of "of_fill_id f"] by auto
  have replay: "recovery_backed (fst (replay_recorded_fill D s f rec))"
    if "bt_lookup (hs_owned_fill_records s) (of_fill_id f) = Some rec" for rec
    using assms that other records_lookup [of s "of_fill_id f" rec]
    by (auto simp: replay_recorded_fill_def Let_def recovery_backed_def [of s]
        intro!: backed_emit backed_record)
  have first: "recovery_backed (fst (record_owned_fill D s f adjust))"
    if none: "bt_lookup (hs_owned_fill_records s) (of_fill_id f) = None"
    unfolding record_owned_fill_def Let_def
    by (intro backed_intros backed_emit)
      (auto simp: assms id(2) intro!: backed_new_record [OF assms none id(1)])
  show ?thesis
    unfolding observe_owned_fill_inner_def
    using assms replay first by (intro backed_intros) (auto split: option.splits)
qed (use assms in \<open>simp add: observe_owned_fill_inner_def\<close>)

lemma backed_retire_fill:
  assumes "recovery_backed s"
  shows "recovery_backed (fst (retire_owned_fill_during_reset D s f))"
proof (cases "trim (of_fill_id f) = [] \<or> of_private_generation f = 0
    \<or> bt_lookup (hs_owned_fill_records s) (of_fill_id f) \<noteq> None")
  case False
  then have id: "of_fill_id f \<noteq> []" "of_private_generation f \<noteq> 0"
    "bt_lookup (hs_owned_fill_records s) (of_fill_id f) = None" by auto
  note new = backed_new_record [OF assms id(3,1), where adjust = True, simplified]
  show ?thesis
    unfolding retire_owned_fill_during_reset_def Let_def id(3) option.case
    by (intro backed_intros) (auto simp: assms id(2) intro!: new)
qed (use assms in \<open>auto simp: retire_owned_fill_during_reset_def Let_def\<close>)

lemma backed_abandon_fold:
  "recovery_backed (fst acc) \<Longrightarrow> recovery_backed (fst (foldl abandon_transaction acc ts))"
proof (induction ts arbitrary: acc)
  case (Cons t ts)
  have "recovery_backed (fst (abandon_transaction acc t))"
    unfolding abandon_transaction_def
    using Cons.prems by (intro backed_intros) (auto split: option.splits)
  then show ?case unfolding foldl.simps by (rule Cons.IH)
qed simp

lemma backed_phase_op:
  assumes "recovery_backed s" and "no_rebuild_starts s (fst m)" and "ledger (fst m) = ledger s"
  shows "recovery_backed (fst m)"
  using assms by (rule backed_ledger)

lemma backed_abandon:
  assumes "recovery_backed s"
  shows "recovery_backed (fst (abandon_unsubmitted_transactions s ts))"
proof -
  have reset: "recovery_backed (fst (request_reset t q))" if "recovery_backed t" for t q
    using that by (rule backed_phase_op) (simp_all add: recovery_kept ledger_kept)
  show ?thesis
    unfolding abandon_unsubmitted_transactions_def Let_def
    using assms by (intro backed_intros backed_abandon_fold reset) auto
qed

lemma backed_reconciliation:
  assumes "recovery_backed s"
  shows "recovery_backed (fst (settle_transaction s t ok))"
    and "recovery_backed (fst (reset_orders_settled s))"
    and "recovery_backed (fst (begin_reconciliation_reset D s m))"
    and "recovery_backed (fst (reconcile_blocked_orders D s m))"
    and "recovery_backed (fst (reconcile_stopping_orders D s m))"
  using assms
  by (auto simp: settle_transaction_def reset_orders_settled_def begin_reconciliation_reset_def
      reconcile_blocked_orders_def reconcile_stopping_orders_def Let_def attempt_def
      split: outcome.splits)

lemma reducer_step_backed: "recovery_backed s \<Longrightarrow> recovery_backed (fst (reducer_step D s e))"
  by (cases e) (auto intro: backed_install backed_observe backed_retire_fill backed_abandon
      backed_reconciliation backed_phase_op simp: recovery_kept ledger_kept)

interpretation rebuild: mutating_machine "reducer_step D" recovery_backed "\<lambda>_ _. True"
  by unfold_locales (auto intro: reducer_step_backed)

text \<open>The evidence is what the validation of a checkpoint demands.\<close>

lemma backed_validates:
  assumes "recovery_backed s" and "recovery_fill s = Some (i, p)"
  shows "is_ok (validate_reanchor_record D s i p)"
  using assms
  by (auto simp: recovery_backed_def evidence_at_def validate_reanchor_record_def price_eq_def dec_eq_def
      split: option.splits dest: records_lookup)

end
