(* ===== verification/Reducer_Sequences.thy ===== *)
theory Reducer_Sequences
  imports Reducer_Facts Grid_Shape
begin

text \<open>
  The sequences that number rolling orders: what observing keys does to them, what a validated
  checkpoint says of them, and that a reserved transaction gets keys nothing in the state uses.
\<close>

section \<open>Observing keys\<close>

definition key_counted :: "grid_order_sequences \<Rightarrow> grid_order_key \<Rightarrow> bool" where
  "key_counted q k \<longleftrightarrow> gk_level k \<le> current_sequence q (gk_position k) (gk_role k)"

lemma observe_epoch [simp]: "sq_epoch (observe_sequence k q) = gk_epoch k"
  by (auto simp: observe_sequence_def sequences_of_epoch_def Let_def
      split: grid_position.splits grid_order_role.splits)

lemma observe_current:
  "gk_epoch k = sq_epoch q \<Longrightarrow> current_sequence (observe_sequence k q) p r
     = (if gk_position k = p \<and> gk_role k = r then max (current_sequence q p r) (gk_level k)
        else current_sequence q p r)"
  by (auto simp: observe_sequence_def current_sequence_def Let_def
      split: grid_position.splits grid_order_role.splits)

lemma current_sequences_of_epoch [simp]: "current_sequence (sequences_of_epoch e) p r = 0"
  by (cases p; cases r)
    (simp_all add: sequences_of_epoch_def sequences_default_def current_sequence_def)

lemma sequences_of_epoch_epoch [simp]: "sq_epoch (sequences_of_epoch e) = e"
  by (simp add: sequences_of_epoch_def)

lemma fold_observe:
  assumes "\<forall>k \<in> set ks. gk_epoch k = sq_epoch q"
  shows "sq_epoch (fold observe_sequence ks q) = sq_epoch q"
    and "current_sequence q p r \<le> current_sequence (fold observe_sequence ks q) p r"
    and "k \<in> set ks \<Longrightarrow> key_counted (fold observe_sequence ks q) k"
    and "(\<And>k. k \<in> set ks \<Longrightarrow> gk_position k = p \<Longrightarrow> gk_role k = r \<Longrightarrow> gk_level k \<le> b)
      \<Longrightarrow> current_sequence q p r \<le> b \<Longrightarrow> current_sequence (fold observe_sequence ks q) p r \<le> b"
proof -
  have "sq_epoch (fold observe_sequence ks q) = sq_epoch q
    \<and> (\<forall>p r. current_sequence q p r \<le> current_sequence (fold observe_sequence ks q) p r)
    \<and> (\<forall>k \<in> set ks. key_counted (fold observe_sequence ks q) k)
    \<and> (\<forall>p r b. (\<forall>k \<in> set ks. gk_position k = p \<longrightarrow> gk_role k = r \<longrightarrow> gk_level k \<le> b)
        \<longrightarrow> current_sequence q p r \<le> b \<longrightarrow> current_sequence (fold observe_sequence ks q) p r \<le> b)"
    using assms
  proof (induction ks arbitrary: q)
    case (Cons l ks)
    let ?q = "observe_sequence l q"
    have epoch: "gk_epoch l = sq_epoch q" and "\<forall>k \<in> set ks. gk_epoch k = sq_epoch ?q"
      using Cons.prems by auto
    note ih = Cons.IH [OF this(2)]
    note step = observe_current [OF epoch]
    have up: "current_sequence q p r \<le> current_sequence (fold observe_sequence ks ?q) p r" for p r
    proof -
      have "current_sequence q p r \<le> current_sequence ?q p r" using step [of p r] by simp
      also have "\<dots> \<le> current_sequence (fold observe_sequence ks ?q) p r" using ih by blast
      finally show ?thesis .
    qed
    have "key_counted (fold observe_sequence ks ?q) l"
      using ih step [of "gk_position l" "gk_role l"] unfolding key_counted_def
      by (metis max.bounded_iff)
    then show ?case using ih up epoch step by auto
  qed simp
  then show "sq_epoch (fold observe_sequence ks q) = sq_epoch q"
    and "current_sequence q p r \<le> current_sequence (fold observe_sequence ks q) p r"
    and "k \<in> set ks \<Longrightarrow> key_counted (fold observe_sequence ks q) k"
    and "(\<And>k. k \<in> set ks \<Longrightarrow> gk_position k = p \<Longrightarrow> gk_role k = r \<Longrightarrow> gk_level k \<le> b)
      \<Longrightarrow> current_sequence q p r \<le> b \<Longrightarrow> current_sequence (fold observe_sequence ks q) p r \<le> b"
    by blast+
qed

section \<open>A validated checkpoint counts every key\<close>

text \<open>The transactions of the current epoch name orders of that epoch only.\<close>

definition transactions_local :: "'d hedged_grid_state \<Rightarrow> u64 \<Rightarrow> bool" where
  "transactions_local s e \<longleftrightarrow>
     list_all (\<lambda>t. gk_epoch (gt_source_order t) = e
       \<longrightarrow> list_all (\<lambda>k. gk_epoch k = e) (gt_cancel t # map gi_key (gt_places t)))
     (bt_values (hs_pending_transactions s))"

lemma epoch_keys_epoch: "transactions_local s e \<Longrightarrow> k \<in> set (epoch_keys s e) \<Longrightarrow> gk_epoch k = e"
  by (fastforce simp: epoch_keys_def transactions_local_def list_all_iff)

lemma observed_counted:
  "transactions_local s e \<Longrightarrow> k \<in> set (epoch_keys s e) \<Longrightarrow> key_counted (observed_sequences s e) k"
  unfolding observed_sequences_def by (rule fold_observe(3)) (auto dest: epoch_keys_epoch)

lemma observed_least:
  assumes "transactions_local s e" and "\<And>k. k \<in> set (epoch_keys s e) \<Longrightarrow> key_counted q k"
  shows "current_sequence (observed_sequences s e) p r \<le> current_sequence q p r"
  unfolding observed_sequences_def
  using assms by (intro fold_observe(4)) (auto simp: key_counted_def dest: epoch_keys_epoch)

lemma validate_sequence_iff:
  assumes "hs_epoch s = Some e" and "transactions_local s (ge_epoch e)"
  shows "validate_sequence_checkpoint s = Ok () \<longleftrightarrow>
    sq_epoch (hs_order_sequences s) = ge_epoch e
    \<and> (\<forall>k \<in> set (epoch_keys s (ge_epoch e)). key_counted (hs_order_sequences s) k)"
    (is "?valid \<longleftrightarrow> ?counted")
proof -
  have all: "list_ex (\<lambda>(p, r). current_sequence q p r < current_sequence m p r)
      [(GLong, Open), (GLong, Close), (GShort, Open), (GShort, Close)]
    \<longleftrightarrow> (\<exists>p r. current_sequence q p r < current_sequence m p r)" for q m
  proof
    assume "\<exists>p r. current_sequence q p r < current_sequence m p r"
    then obtain p r where "current_sequence q p r < current_sequence m p r" by blast
    then show "list_ex (\<lambda>(p, r). current_sequence q p r < current_sequence m p r)
        [(GLong, Open), (GLong, Close), (GShort, Open), (GShort, Close)]"
      by (cases p; cases r) auto
  qed auto
  have "?valid \<longleftrightarrow> sq_epoch (hs_order_sequences s) = ge_epoch e
    \<and> (\<forall>p r. current_sequence (observed_sequences s (ge_epoch e)) p r
        \<le> current_sequence (hs_order_sequences s) p r)"
    unfolding validate_sequence_checkpoint_def assms(1) Let_def option.simps all
    by (auto simp flip: not_le)
  also have "\<dots> \<longleftrightarrow> ?counted"
    using observed_counted [OF assms(2)] observed_least [OF assms(2)]
    unfolding key_counted_def by (meson order_trans)
  finally show ?thesis .
qed

section \<open>Reserving a transaction\<close>

lemma rolling_order_key:
  assumes "rolling_order D s e source role cancel = Ok x"
  shows "sq_epoch (hs_order_sequences s) = ge_epoch e"
    and "gk_epoch (gi_key x) = ge_epoch e" and "gk_role (gi_key x) = role"
    and "gk_position (gi_key x) = gk_position (gi_key source)"
    and "current_sequence (hs_order_sequences s) (gk_position (gi_key source)) role
      < gk_level (gi_key x)"
proof -
  from assms obtain level where level: "sequence_next_level s (ge_epoch e)
      (gk_position (gi_key source)) role = Ok level"
    and x: "gi_key x = GridOrderKey (ge_epoch e) (gk_position (gi_key source)) role level"
    by (auto simp: rolling_order_def epoch_order_at_price_def Let_def and_then_Ok split: if_splits)
  from level show "sq_epoch (hs_order_sequences s) = ge_epoch e"
    by (auto simp: sequence_next_level_def split: if_splits)
  from level have "checked_add (current_sequence (hs_order_sequences s)
      (gk_position (gi_key source)) role) 1 = Some level"
    by (auto simp: sequence_next_level_def ok_or_Ok split: if_splits)
  then have "current_sequence (hs_order_sequences s) (gk_position (gi_key source)) role < level"
    by (auto simp: checked_add_Some word_less_nat_alt)
  with x show "gk_epoch (gi_key x) = ge_epoch e" "gk_role (gi_key x) = role"
    "gk_position (gi_key x) = gk_position (gi_key source)"
    "current_sequence (hs_order_sequences s) (gk_position (gi_key source)) role < gk_level (gi_key x)"
    by simp_all
qed

lemma reserved_keys:
  assumes "reserve_rolling_transaction D s e i source = Ok t"
  shows "gt_source_order t = gi_key source"
    and "gk_epoch (gt_cancel t) = ge_epoch e" and "gt_cancel t \<in> set (bt_keys (hs_owned_orders s))"
    and "\<forall>k \<in> gi_key ` set (gt_places t). gk_epoch k = ge_epoch e
      \<and> \<not> key_counted (hs_order_sequences s) k"
    and "distinct (map gi_key (gt_places t))"
proof -
  from assms obtain cancelled order closing where
    t: "t = \<lparr>gt_id = transaction_id (ge_epoch e) i (gi_key source), gt_source_fill_id = i,
          gt_source_order = gi_key source, gt_open = order, gt_close = closing,
          gt_cancel = fst cancelled, gt_cancelled_order = Some (snd cancelled)\<rparr>"
    and mem: "cancelled \<in> set (cancel_candidates s (ge_epoch e) (gk_position (gi_key source))
        (opposite_role (gk_role (gi_key source))))"
    and order: "rolling_order D s e source Open (fst cancelled) = Ok order"
    and closing: "rolling_order D s e source Close (fst cancelled) = Ok closing"
    by (auto simp: reserve_rolling_transaction_def Let_def and_then_Ok ok_or_Ok
        split: order_side.splits prod.splits dest: min_by_key_in max_by_key_in)
  note rolling_order_key [OF order] rolling_order_key [OF closing]
  then show "gt_source_order t = gi_key source" "distinct (map gi_key (gt_places t))"
    "\<forall>k \<in> gi_key ` set (gt_places t). gk_epoch k = ge_epoch e
      \<and> \<not> key_counted (hs_order_sequences s) k"
    by (auto simp: t gt_places_def key_counted_def not_le)
  from mem show "gk_epoch (gt_cancel t) = ge_epoch e" "gt_cancel t \<in> set (bt_keys (hs_owned_orders s))"
    by (auto simp: t cancel_candidates_def bt_keys_def)
qed

lemma emit_reserves:
  assumes "emit_maker_fill_action D s i = (s', Ok (Actions [DispatchTransaction t]))"
  obtains e rec where "hs_epoch s = Some e" and "bt_lookup (hs_owned_fill_records s) i = Some rec"
    and "reserve_rolling_transaction D s e i (fr_source_order rec) = Ok t"
    and "s' = consume_fill i (gi_key (fr_source_order rec)) (apply_transaction t s)"
  using assms
  by (auto simp: emit_maker_fill_action_def Let_def attempt_Ok ok_or_Ok
      split: if_splits inventory_recovery_state.splits)

text \<open>The keys of the epoch once a transaction is reserved and its fill consumed.\<close>

definition reserved_state ::
  "string \<Rightarrow> grid_order_key \<Rightarrow> 'd grid_transaction \<Rightarrow> 'd hedged_grid_state \<Rightarrow> 'd hedged_grid_state" where
  "reserved_state i source t s = consume_fill i source (apply_transaction t s)"

lemma reserved_state_fields:
  "hs_epoch (reserved_state i source t s) = hs_epoch s"
  "hs_order_sequences (reserved_state i source t s)
    = fold observe_sequence (map gi_key (gt_places t)) (hs_order_sequences s)"
  "hs_owned_orders (reserved_state i source t s)
    = foldl (\<lambda>m x. bt_insert (gi_key x) x m) (bt_remove (gt_cancel t) (hs_owned_orders s)) (gt_places t)"
  "hs_pending_transactions (reserved_state i source t s)
    = bt_insert (gt_id t) t (hs_pending_transactions s)"
  "hs_seen_fill_ids (reserved_state i source t s) = bt_insert i source (hs_seen_fill_ids s)"
  by (simp_all add: reserved_state_def consume_fill_def apply_transaction_def)

lemma bt_values_insert: "set (bt_values (bt_insert k v m)) \<subseteq> insert v (set (bt_values m))"
  using bt_insert_set [of k v m] by (force simp: bt_values_def)

lemma reserved_owned_keys:
  "set (bt_keys (hs_owned_orders (reserved_state i source t s)))
     = gi_key ` set (gt_places t) \<union> (set (bt_keys (hs_owned_orders s)) - {gt_cancel t})"
  by (auto simp: reserved_state_fields gt_places_def)

lemma reserved_epoch_keys:
  "set (epoch_keys (reserved_state i source t s) e) \<subseteq> set (epoch_keys s e)
     \<union> {k \<in> {source, gt_source_order t, gt_cancel t} \<union> gi_key ` set (gt_places t).
          k = source \<longrightarrow> gk_epoch source = e \<or> gk_epoch (gt_source_order t) = e}"
  using bt_values_insert [of i source "hs_seen_fill_ids s"]
    bt_values_insert [of "gt_id t" t "hs_pending_transactions s"]
  by (auto simp: epoch_keys_def reserved_owned_keys reserved_state_fields(4,5))

lemma reserved_local:
  assumes "transactions_local s e" and "gk_epoch (gt_cancel t) = e"
    and "\<forall>k \<in> gi_key ` set (gt_places t). gk_epoch k = e"
  shows "transactions_local (reserved_state i source t s) e"
  using assms bt_values_insert [of "gt_id t" t "hs_pending_transactions s"]
  by (fastforce simp: transactions_local_def reserved_state_fields(4) list_all_iff)

text \<open>Reserving keeps every key of the epoch counted, provided the source was.\<close>

lemma reserved_valid:
  assumes "hs_epoch s = Some e" and local: "transactions_local s (ge_epoch e)"
    and "validate_sequence_checkpoint s = Ok ()"
    and "reserve_rolling_transaction D s e i order = Ok t"
    and source: "gk_epoch (gi_key order) = ge_epoch e \<Longrightarrow> key_counted (hs_order_sequences s) (gi_key order)"
  shows "validate_sequence_checkpoint (reserved_state i (gi_key order) t s) = Ok ()"
    and "transactions_local (reserved_state i (gi_key order) t s) (ge_epoch e)"
proof -
  note keys = reserved_keys [OF assms(4)]
  let ?s = "reserved_state i (gi_key order) t s"
  have places: "\<forall>k \<in> set (map gi_key (gt_places t)). gk_epoch k = sq_epoch (hs_order_sequences s)"
    and old: "\<forall>k \<in> set (epoch_keys s (ge_epoch e)). key_counted (hs_order_sequences s) k"
    and epoch: "sq_epoch (hs_order_sequences s) = ge_epoch e"
    using assms(3) validate_sequence_iff [OF assms(1) local] keys(4) by auto
  show "transactions_local ?s (ge_epoch e)"
    using local keys by (intro reserved_local) auto
  moreover have "key_counted (hs_order_sequences ?s) k" if "k \<in> set (epoch_keys ?s (ge_epoch e))" for k
  proof (cases "k \<in> gi_key ` set (gt_places t)")
    case True
    then show ?thesis
      using fold_observe(3) [OF places] by (simp add: reserved_state_fields(2))
  next
    case False
    have "gt_cancel t \<in> set (epoch_keys s (ge_epoch e))"
      using keys(2,3) by (simp add: epoch_keys_def)
    then have "key_counted (hs_order_sequences s) k"
      using subsetD [OF reserved_epoch_keys that] False old source keys(1) by auto
    then show ?thesis
      using fold_observe(2) [OF places] unfolding key_counted_def reserved_state_fields(2)
      by (rule order_trans)
  qed
  ultimately show "validate_sequence_checkpoint ?s = Ok ()"
    using assms(1) fold_observe(1) [OF places] epoch
    by (simp add: validate_sequence_iff reserved_state_fields(1,2))
qed

section \<open>A fill observed for the first time\<close>

definition orders_keyed :: "'d hedged_grid_state \<Rightarrow> bool" where
  "orders_keyed s \<longleftrightarrow> list_all (\<lambda>(k, x). gi_key x = k) (hs_owned_orders s)"

lemma orders_keyed_lookup: "orders_keyed s \<Longrightarrow> bt_lookup (hs_owned_orders s) k = Some x \<Longrightarrow> gi_key x = k"
  unfolding orders_keyed_def bt_lookup_def list_all_iff by (auto dest: map_of_SomeD)

lemma reserved_keyed: "orders_keyed s \<Longrightarrow> orders_keyed (reserved_state i source t s)"
proof -
  have insert: "list_all (\<lambda>(k, x). gi_key x = k) (bt_insert (gi_key x) x m)"
    if "list_all (\<lambda>(k, x). gi_key x = k) m" for x :: "'d grid_order_intent" and m
    using that bt_insert_set [of "gi_key x" x m] unfolding list_all_iff by blast
  assume "orders_keyed s"
  then have "list_all (\<lambda>(k, x). gi_key x = k) (bt_remove (gt_cancel t) (hs_owned_orders s))"
    by (auto simp: orders_keyed_def list_all_iff bt_remove_def)
  then show ?thesis
    by (simp add: orders_keyed_def reserved_state_fields(3) gt_places_def insert)
qed

lemma record_reserves:
  assumes "record_owned_fill D s f adjust = (s', Ok (Actions [DispatchTransaction t]))"
  obtains u e order where "hs_epoch s = Some e" and "gk_epoch (of_source_order f) = ge_epoch e"
    and "bt_lookup (hs_owned_orders s) (of_source_order f) = Some order"
    and "hs_epoch u = hs_epoch s" and "hs_order_sequences u = hs_order_sequences s"
    and "hs_pending_transactions u = hs_pending_transactions s"
    and "hs_seen_fill_ids u = hs_seen_fill_ids s"
    and "hs_owned_orders u = bt_remove (of_source_order f) (hs_owned_orders s)"
    and "reserve_rolling_transaction D u e (of_fill_id f) order = Ok t"
    and "s' = reserved_state (of_fill_id f) (gi_key order) t u"
proof -
  from assms obtain e order v where e: "hs_epoch s = Some e" "gk_epoch (of_source_order f) = ge_epoch e"
    and order: "bt_lookup (hs_owned_orders s) (of_source_order f) = Some order"
    and v: "(if adjust then adjust_stream_inventory D (s\<lparr>hs_owned_orders :=
        bt_remove (of_source_order f) (hs_owned_orders s)\<rparr>) order
      else Ok (s\<lparr>hs_owned_orders := bt_remove (of_source_order f) (hs_owned_orders s)\<rparr>)) = Ok v"
    and emit: "emit_maker_fill_action D (v\<lparr>hs_owned_fill_records := bt_insert (of_fill_id f)
        \<lparr>fr_source_order = order, fr_fill_price = of_fill_price f,
          fr_private_generation = of_private_generation f, fr_maker = Some True,
          fr_grid_action_emitted = False, fr_retired_without_action = False\<rparr>
        (hs_owned_fill_records v)\<rparr>) (of_fill_id f) = (s', Ok (Actions [DispatchTransaction t]))"
    by (cases adjust) (auto simp: record_owned_fill_def Let_def attempt_Ok ok_or_Ok split: if_splits)
  let ?u = "v\<lparr>hs_owned_fill_records := bt_insert (of_fill_id f)
        \<lparr>fr_source_order = order, fr_fill_price = of_fill_price f,
          fr_private_generation = of_private_generation f, fr_maker = Some True,
          fr_grid_action_emitted = False, fr_retired_without_action = False\<rparr>
        (hs_owned_fill_records v)\<rparr>"
  have v_fields: "hs_epoch v = hs_epoch s" "hs_order_sequences v = hs_order_sequences s"
    "hs_pending_transactions v = hs_pending_transactions s" "hs_seen_fill_ids v = hs_seen_fill_ids s"
    "hs_owned_orders v = bt_remove (of_source_order f) (hs_owned_orders s)"
    using v by (auto simp: adjust_stream_inventory_def Let_def outcome_simps split: if_splits)
  obtain e' rec where "hs_epoch ?u = Some e'"
    and "bt_lookup (hs_owned_fill_records ?u) (of_fill_id f) = Some rec"
    and "reserve_rolling_transaction D ?u e' (of_fill_id f) (fr_source_order rec) = Ok t"
    and "s' = consume_fill (of_fill_id f) (gi_key (fr_source_order rec)) (apply_transaction t ?u)"
    using emit by (rule emit_reserves)
  then show ?thesis
    by (intro that [of e order ?u]) (auto simp: e order v_fields reserved_state_def)
qed

text \<open>
  What a transaction reserved for a new fill guarantees: distinct keys that no order, consumed
  fill or transaction of the epoch has, in the surface the transaction leaves.
\<close>

definition fresh_reservation ::
  "'d hedged_grid_state \<Rightarrow> u64 \<Rightarrow> 'd grid_transaction \<Rightarrow> 'd hedged_grid_state \<Rightarrow> bool" where
  "fresh_reservation s e t s' \<longleftrightarrow>
     distinct (map gi_key (gt_places t))
     \<and> list_all (\<lambda>k. gk_epoch k = e \<and> k \<notin> set (epoch_keys s e) \<and> k \<in> set (bt_keys (hs_owned_orders s')))
         (map gi_key (gt_places t))
     \<and> gt_cancel t \<in> set (bt_keys (hs_owned_orders s))
     \<and> gt_cancel t \<notin> set (bt_keys (hs_owned_orders s'))"

lemma reservation_fresh:
  assumes "hs_epoch u = Some e" and "hs_order_sequences u = hs_order_sequences s"
    and "set (bt_keys (hs_owned_orders u)) \<subseteq> set (bt_keys (hs_owned_orders s))"
    and counted: "\<forall>k \<in> set (epoch_keys s (ge_epoch e)). key_counted (hs_order_sequences s) k"
    and "reserve_rolling_transaction D u e i order = Ok t"
  shows "fresh_reservation s (ge_epoch e) t (reserved_state i source t u)"
proof -
  note keys = reserved_keys [OF assms(5)]
  have cancel: "gt_cancel t \<in> set (bt_keys (hs_owned_orders s))" using keys(3) assms(3) by blast
  then have "gt_cancel t \<in> set (epoch_keys s (ge_epoch e))"
    using keys(2) by (simp add: epoch_keys_def)
  then have "gt_cancel t \<notin> gi_key ` set (gt_places t)"
    using counted keys(4) assms(2) by metis
  then show ?thesis
    using keys cancel counted assms(2)
    by (auto simp: fresh_reservation_def list_all_iff reserved_owned_keys)
qed

end
