(* ===== verification/Reducer_Samples.thy ===== *)
theory Reducer_Samples
  imports Reducer_Facts Grid_Samples
begin

text \<open>
  Concrete runs of the grid reducer: two levels of 0.2 around 100 on both legs, a maker fill
  of the first opening order, and the recovery of a leg that was short of its capacity.
\<close>

definition reducer_binding :: hedged_grid_binding where
  "reducer_binding =
     \<lparr>gb_strategy_instance_id = ''grid'', gb_run_id = ''primary'', gb_exchange = ''binance'',
      gb_account = ''um'', gb_symbol = grid_symbol, gb_config_version = ''phase1'',
      gb_owner_scope = ''grid_primary''\<rparr>"

definition reducer_params :: "rat hedged_grid_params" where
  "reducer_params =
     \<lparr>gp_order_notional = amount_new grid_asset 5, gp_spacing_rate = 1 / 500, gp_grid_count = 2,
      gp_inventory_replenish_grid_count = INVENTORY_REPLENISH_GRID_COUNT\<rparr>"

definition reducer_inventory :: "u64 \<Rightarrow> rat \<Rightarrow> rat grid_inventory" where
  "reducer_inventory generation quantity =
     \<lparr>gv_private_generation = generation, gv_private_observed_at_ms = generation * 100,
      gv_mark_price = Price 100, gv_long_quantity = quantity, gv_short_quantity = quantity\<rparr>"

definition reducer_epoch :: "u64 \<Rightarrow> rat grid_epoch" where
  "reducer_epoch number =
     \<lparr>ge_epoch = number, ge_anchor_price = Price 100, ge_step = Price (1 / 5),
      ge_grid_quantity = 1 / 20, ge_passive_book_fallback = None\<rparr>"

definition reducer_fill :: "string \<Rightarrow> u64 \<Rightarrow> grid_order_key \<Rightarrow> rat \<Rightarrow> rat owned_grid_fill" where
  "reducer_fill fill_id generation source price =
     \<lparr>of_fill_id = fill_id, of_private_generation = generation, of_source_order = source,
      of_fill_price = Price price, of_complete = True, of_maker = Known True\<rparr>"

definition reducer_first :: "rat owned_grid_fill" where
  "reducer_first = reducer_fill ''fill-1'' 2 (GridOrderKey 1 GLong Open 1) (499 / 5)"

definition reducer_initial :: "rat hedged_grid_state" where
  "reducer_initial =
     \<lparr>hs_schema_version = 3, hs_binding = reducer_binding, hs_params = reducer_params,
      hs_phase = Recovering, hs_epoch = None, hs_inventory = None, hs_owned_orders = [],
      hs_pending_transactions = [], hs_pending_replenishments = [], hs_seen_fill_ids = [],
      hs_owned_fill_records = [], hs_inventory_recovery = Inactive, hs_reset_reason = None,
      hs_replenish_round = 0, hs_suppress_replenishment = False, hs_blocked_not_before_ms = None,
      hs_order_sequences = sequences_default, hs_stream_adjustments = adjustments_default rat_api\<rparr>"

lemma reducer_initial_new: "reducer_new rat_api reducer_binding reducer_params = Ok reducer_initial"
  by code_simp

definition reducer_order ::
  "grid_position \<Rightarrow> grid_order_role \<Rightarrow> u64 \<Rightarrow> order_side \<Rightarrow> rat \<Rightarrow> grid_order_key \<times> rat grid_order_intent"
  where
  "reducer_order position role level side price =
     (GridOrderKey 1 position role level,
      \<lparr>gi_key = GridOrderKey 1 position role level, gi_side = side, gi_price = Price price,
       gi_quantity = 1 / 20, gi_reduce_only = (role = Close)\<rparr>)"

text \<open>The grid of the first epoch, running: the orders of a leg that holds the given levels.\<close>

definition reducer_grid ::
  "rat \<Rightarrow> (grid_order_key \<times> rat grid_order_intent) list \<Rightarrow> (grid_order_key \<times> rat grid_order_intent) list
   \<Rightarrow> rat inventory_recovery_state \<Rightarrow> u64 \<Rightarrow> rat hedged_grid_state" where
  "reducer_grid held long_closes short_closes recovery closes = reducer_initial\<lparr>
     hs_phase := Running, hs_epoch := Some (reducer_epoch 1),
     hs_inventory := Some (reducer_inventory 1 held),
     hs_owned_orders := [reducer_order GLong Open 1 Buy (499 / 5), reducer_order GLong Open 2 Buy (498 / 5)]
       @ long_closes @ [reducer_order GShort Open 1 Sell (501 / 5), reducer_order GShort Open 2 Sell (502 / 5)]
       @ short_closes,
     hs_inventory_recovery := recovery,
     hs_order_sequences := \<lparr>sq_epoch = 1, sq_long_open = 2, sq_long_close = closes,
       sq_short_open = 2, sq_short_close = closes\<rparr>\<rparr>"

definition reducer_running :: "rat hedged_grid_state" where
  "reducer_running = reducer_grid (1 / 10)
     [reducer_order GLong Close 1 Sell (501 / 5), reducer_order GLong Close 2 Sell (502 / 5)]
     [reducer_order GShort Close 1 Buy (499 / 5), reducer_order GShort Close 2 Buy (498 / 5)] Inactive 2"

text \<open>Short of capacity, then recovered, then filled under a newer generation.\<close>

definition reducer_short :: "rat inventory_recovery_state \<Rightarrow> rat hedged_grid_state" where
  "reducer_short recovery = reducer_grid (2 / 25) [reducer_order GLong Close 1 Sell (501 / 5)]
     [reducer_order GShort Close 1 Buy (499 / 5)] recovery 1"

definition reducer_second :: "rat owned_grid_fill" where
  "reducer_second = reducer_fill ''fill-2'' 3 (GridOrderKey 1 GShort Open 1) (501 / 5)"

definition reducer_recovery :: "rat reducer_event list" where
  "reducer_recovery =
     [ObserveInventory (reducer_inventory 1 (2 / 25)), InstallEpoch (reducer_epoch 1),
      ObserveInventory (reducer_inventory 2 (1 / 10)), ObserveFill reducer_second True,
      BeginReanchorRebuild]"

definition reducer_recovered :: "rat hedged_grid_state" where
  "reducer_recovered =
     (reducer_short (AwaitingNextOwnedFill 2))\<lparr>hs_inventory := Some (reducer_inventory 2 (1 / 10))\<rparr>"

text \<open>The first fill observed, and the grid blocked and reconciled after it.\<close>

definition reducer_observed :: "rat hedged_grid_state \<times> (rat grid_decision, hedged_grid_error) outcome"
  where "reducer_observed = observe_owned_fill_inner rat_api reducer_running reducer_first True"

definition reducer_reconciled :: "rat reducer_event list" where
  "reducer_reconciled = [BlockForReconciliation, ReconcileBlocked (hs_owned_orders (fst reducer_observed))]"

definition reducer_transaction :: "rat grid_transaction" where
  "reducer_transaction =
     \<lparr>gt_id = ''roll-1-fill-1-Long-Open-1'', gt_source_fill_id = ''fill-1'',
      gt_source_order = GridOrderKey 1 GLong Open 1,
      gt_open = snd (reducer_order GLong Open 3 Buy (497 / 5)),
      gt_close = snd (reducer_order GLong Close 3 Sell 100),
      gt_cancel = GridOrderKey 1 GLong Close 2,
      gt_cancelled_order = Some (snd (reducer_order GLong Close 2 Sell (502 / 5)))\<rparr>"

text \<open>The runs, computed together.\<close>

lemma reducer_runs:
  "(fst (reducer_step rat_api reducer_initial (ObserveInventory (reducer_inventory 1 (2 / 25))))
     = reducer_initial\<lparr>hs_phase := ResettingGrid, hs_reset_reason := Some Startup,
         hs_inventory := Some (reducer_inventory 1 (2 / 25))\<rparr>)
   \<and> (fst (reducer_step rat_api (reducer_initial\<lparr>hs_phase := ResettingGrid, hs_reset_reason := Some Startup,
         hs_inventory := Some (reducer_inventory 1 (2 / 25))\<rparr>) (InstallEpoch (reducer_epoch 1)))
     = reducer_short (Deficient \<lparr>df_long = True, df_short = True\<rparr> 1))
   \<and> (fst (reducer_step rat_api (reducer_short (Deficient \<lparr>df_long = True, df_short = True\<rparr> 1))
       (ObserveInventory (reducer_inventory 2 (1 / 10)))) = reducer_recovered)
   \<and> (hs_inventory_recovery (run_in_place (reducer_step rat_api) reducer_recovered
     [ObserveFill reducer_second True, BeginReanchorRebuild]) = Rebuilding ''fill-2'' (Price (501 / 5)))
   \<and> snd reducer_observed = Ok (Actions [DispatchTransaction reducer_transaction])
   \<and> hs_phase (run_in_place (reducer_step rat_api) (fst reducer_observed) reducer_reconciled) = Running"
  by code_simp

lemma reducer_resets:
  "fst (reducer_step rat_api reducer_initial (ObserveInventory (reducer_inventory 1 (2 / 25))))
     = reducer_initial\<lparr>hs_phase := ResettingGrid, hs_reset_reason := Some Startup,
         hs_inventory := Some (reducer_inventory 1 (2 / 25))\<rparr>"
  using reducer_runs by (elim conjE)

lemma reducer_installs:
  "fst (reducer_step rat_api (reducer_initial\<lparr>hs_phase := ResettingGrid, hs_reset_reason := Some Startup,
         hs_inventory := Some (reducer_inventory 1 (2 / 25))\<rparr>) (InstallEpoch (reducer_epoch 1)))
     = reducer_short (Deficient \<lparr>df_long = True, df_short = True\<rparr> 1)"
  using reducer_runs by (elim conjE)

lemma reducer_recovers:
  "fst (reducer_step rat_api (reducer_short (Deficient \<lparr>df_long = True, df_short = True\<rparr> 1))
       (ObserveInventory (reducer_inventory 2 (1 / 10)))) = reducer_recovered"
  using reducer_runs by (elim conjE)

lemma reducer_reanchors:
  "hs_inventory_recovery (run_in_place (reducer_step rat_api) reducer_recovered
     [ObserveFill reducer_second True, BeginReanchorRebuild]) = Rebuilding ''fill-2'' (Price (501 / 5))"
  using reducer_runs by (elim conjE)

lemma reducer_observed_result:
  "snd reducer_observed = Ok (Actions [DispatchTransaction reducer_transaction])"
  using reducer_runs by (elim conjE)

lemma reducer_reconciles:
  "hs_phase (run_in_place (reducer_step rat_api) (fst reducer_observed) reducer_reconciled) = Running"
  using reducer_runs by (elim conjE)

lemma reducer_rebuilds:
  "hs_inventory_recovery (run_in_place (reducer_step rat_api) reducer_initial reducer_recovery)
     = Rebuilding ''fill-2'' (Price (501 / 5))"
  using reducer_reanchors
  unfolding reducer_recovery_def run_in_place_simps reducer_resets reducer_installs reducer_recovers .

lemma reducer_observes:
  "observe_owned_fill_inner rat_api reducer_running reducer_first True
     = (fst reducer_observed, Ok (Actions [DispatchTransaction reducer_transaction]))"
  using reducer_observed_result unfolding reducer_observed_def by (simp only: prod_eq_iff fst_conv snd_conv simp_thms)

end
