(* ===== verification/Reducer_Properties.thy ===== *)
theory Reducer_Properties
  imports Reducer_Recovery Reducer_Sequences Reducer_Samples
begin

text \<open>
  What the event-driven grid reducer promises: a fill acts once, a new order takes a key that
  nothing uses, and a rebuild always rests on the fill that triggered it.  At the end, a run in
  which reconciliation makes a new order repeat the key of a filled one.
\<close>

section \<open>A fill acts once\<close>

lemma fill_emits_one:
  assumes "observe_owned_fill_inner D s f adjust = (s', Ok (Actions acts))"
  shows "(\<exists>t. acts = [DispatchTransaction t]) \<or> (\<exists>p. acts = [ReanchorAtFill (of_fill_id f) p])"
proof -
  have emit: "(\<exists>t. acts = [DispatchTransaction t]) \<or> (\<exists>p. acts = [ReanchorAtFill (of_fill_id f) p])"
    if "emit_maker_fill_action D u (of_fill_id f) = (v, Ok (Actions acts))" for u v
    using that by (auto simp: emit_maker_fill_action_def Let_def attempt_Ok
        split: if_splits inventory_recovery_state.splits)
  show ?thesis using assms
    by (auto simp: observe_owned_fill_inner_def attempt_Ok replay_recorded_fill_def
        record_owned_fill_def Let_def dest: emit split: if_splits option.splits)
qed

text \<open>
  C18: An owned fill drives the grid exactly once: when its observation emits, it emits a single
  action, and after any further operations of the reducer every observation under the same fill
  identifier leaves the state as it is and emits nothing.
\<close>

theorem fill_drives_grid_once:
  assumes "observe_owned_fill_inner D s f adjust = (s', Ok (Actions acts))"
    and "of_fill_id g = of_fill_id f"
  shows "length acts = 1
    \<and> (let later = run_in_place (reducer_step D) s' events;
            (after, result) = observe_owned_fill_inner D later g again in
        after = later \<and> (case result of Ok (Actions _) \<Rightarrow> False | _ \<Rightarrow> True))"
proof -
  have "of_fill_id g \<in> consumed s'" using fill_consumes [OF assms(1)] assms(2) by simp
  then have "of_fill_id g \<in> consumed (run_in_place (reducer_step D) s' events)"
    using reducer.run_in_place_below [of s' D events] by blast
  then obtain r where "observe_owned_fill_inner D (run_in_place (reducer_step D) s' events) g again
      = (run_in_place (reducer_step D) s' events, r)" and "\<forall>acts. r \<noteq> Ok (Actions acts)"
    using consumed_fill_inert by blast
  then show ?thesis
    using fill_emits_one [OF assms(1)]
    by (auto simp: Let_def split: outcome.splits grid_decision.splits)
qed

lemma fill_drives_grid_once_witness:
  "snd reducer_observed = Ok (Actions [DispatchTransaction reducer_transaction])
   \<and> (let later = run_in_place (reducer_step rat_api) (fst reducer_observed) reducer_reconciled in
      hs_phase later = Running
      \<and> fst (observe_owned_fill_inner rat_api later reducer_first False) = later)"
  using fill_drives_grid_once [OF reducer_observes refl, of reducer_reconciled False]
    reducer_observed_result reducer_reconciles
  by (simp add: Let_def split: prod.splits)

section \<open>New orders take new keys\<close>



section \<open>A rebuild rests on its fill\<close>

text \<open>
  C20: In every state reachable from a new reducer, a pending or running rebuild of the grid
  names a recorded maker fill that was consumed and acted on, at its own price: the evidence
  that the validation of a checkpoint demands is there.
\<close>

theorem rebuild_backed_by_fill:
  assumes "reducer_new D binding params = Ok s"
    and "recovery_fill (run_in_place (reducer_step D) s events) = Some (fill_id, fill_price)"
  shows "evidence_at (run_in_place (reducer_step D) s events) fill_id fill_price
    \<and> is_ok (validate_reanchor_record D (run_in_place (reducer_step D) s events) fill_id fill_price)"
proof -
  have "recovery_backed s"
    using assms(1) by (auto simp: reducer_new_def and_then_Ok recovery_backed_def records_sound_def
        recovery_fill_def split: if_splits)
  then have "recovery_backed (run_in_place (reducer_step D) s events)"
    by (rule rebuild.run_in_place_inv)
  then show ?thesis
    using backed_validates [OF _ assms(2)] assms(2) by (simp add: recovery_backed_def)
qed

lemma rebuild_backed_by_fill_witness:
  "let s = run_in_place (reducer_step rat_api) reducer_initial reducer_recovery in
   hs_inventory_recovery s = Rebuilding ''fill-2'' (Price (501 / 5))
   \<and> is_ok (validate_reanchor_record rat_api s ''fill-2'' (Price (501 / 5)))"
proof -
  have "recovery_fill (run_in_place (reducer_step rat_api) reducer_initial reducer_recovery)
      = Some (''fill-2'', Price (501 / 5))"
    by (simp add: recovery_fill_def reducer_rebuilds)
  then show ?thesis
    using rebuild_backed_by_fill [OF reducer_initial_new] by (simp add: Let_def reducer_rebuilds)
qed

section \<open>Where the numbering falls short\<close>

text \<open>
  Reconciliation rebuilds the sequences from the orders, consumed fills and transactions, and
  leaves out a recorded fill whose maker evidence is still missing.  When the evidence arrives,
  the new opening order takes the key of the order that was filled.
\<close>

definition late_fill :: "rat owned_grid_fill" where
  "late_fill = reducer_fill ''late'' 2 (GridOrderKey 1 GLong Open 2) (498 / 5)"

definition late_blocked :: "rat hedged_grid_state" where
  "late_blocked = reducer_running\<lparr>
     hs_phase := BlockedUnknown,
     hs_owned_orders := bt_remove (GridOrderKey 1 GLong Open 2) (hs_owned_orders reducer_running),
     hs_owned_fill_records := [(''late'',
       \<lparr>fr_source_order = snd (reducer_order GLong Open 2 Buy (498 / 5)), fr_fill_price = Price (498 / 5),
        fr_private_generation = 2, fr_maker = None, fr_grid_action_emitted = False,
        fr_retired_without_action = False\<rparr>)],
     hs_stream_adjustments := \<lparr>sa_long = 1 / 20, sa_short = 0\<rparr>\<rparr>"

definition late_reconciled :: "rat hedged_grid_state" where
  "late_reconciled = late_blocked\<lparr>hs_phase := Running,
     hs_order_sequences := \<lparr>sq_epoch = 1, sq_long_open = 1, sq_long_close = 2,
       sq_short_open = 2, sq_short_close = 2\<rparr>\<rparr>"

lemma late_fill_runs:
  "(run_in_place (reducer_step rat_api) reducer_running
     [ObserveFill (late_fill\<lparr>of_maker := Unavailable NotYetObserved\<rparr>) True, BlockForReconciliation]
   = late_blocked)
   \<and> (fst (reducer_step rat_api late_blocked (ReconcileBlocked (hs_owned_orders late_blocked))) = late_reconciled)
   \<and> (validate_checkpoint_structure rat_api late_reconciled = Ok ())
   \<and> (case snd (observe_owned_fill_inner rat_api late_reconciled late_fill True) of
     Ok (Actions [DispatchTransaction t]) \<Rightarrow> gi_key (gt_open t) = of_source_order late_fill
   | _ \<Rightarrow> False)"
  by code_simp

lemma late_fill_blocks:
  "run_in_place (reducer_step rat_api) reducer_running
     [ObserveFill (late_fill\<lparr>of_maker := Unavailable NotYetObserved\<rparr>) True, BlockForReconciliation]
   = late_blocked"
  using late_fill_runs by (elim conjE)

lemma late_fill_reconciles:
  "fst (reducer_step rat_api late_blocked (ReconcileBlocked (hs_owned_orders late_blocked))) = late_reconciled"
  using late_fill_runs by (elim conjE)

lemma late_fill_valid:
  "validate_checkpoint_structure rat_api late_reconciled = Ok ()"
  using late_fill_runs by (elim conjE)

lemma rolled_key_repeats_after_reconciliation:
  "case snd (observe_owned_fill_inner rat_api late_reconciled late_fill True) of
     Ok (Actions [DispatchTransaction t]) \<Rightarrow> gi_key (gt_open t) = of_source_order late_fill
   | _ \<Rightarrow> False"
  using late_fill_runs by (elim conjE)

end
