(* ===== verification/Market_Maker.thy ===== *)
theory Market_Maker
  imports Risk_Snapshot Instruments Iteration
begin

text \<open>
  The inventory market maker of \<open>crates/venue-strategies/src/inventory_mm\<close> (\<open>model.rs\<close> and
  \<open>planner.rs\<close>): its configuration and facts, the limits every subset of its fills has to
  keep, and the plan of at most two quotes.
\<close>

section \<open>Configuration and facts (model.rs)\<close>

datatype mm_error = MM_Config | MM_Facts | MM_Arithmetic

record 'd mm_config =
  mc_symbol :: symbol
  mc_order_notional :: "'d amount"
  mc_max_leg_notional :: "'d amount"
  mc_max_gross_notional :: "'d amount"
  mc_max_net_notional :: "'d amount"
  mc_base_half_spread_bps :: 'd
  mc_inventory_skew_bps :: 'd
  mc_volatility_multiplier :: 'd
  mc_volatility_period :: u64
  mc_refresh_interval_ms :: u64
  mc_max_market_age_ms :: u64
  mc_max_private_age_ms :: u64
  mc_max_loss_quote :: "'d amount"
  mc_max_drawdown_quote :: "'d amount"

datatype mm_control = MmRun | MmStop

record 'd mm_quote =
  mq_side :: order_side
  mq_position_side :: position_side
  mq_price :: "'d price"
  mq_quantity :: 'd
  mq_reduce_only :: bool

text \<open>\<open>owned_order_ids\<close> is a set of which the code only asks membership.\<close>

record 'd mm_input =
  mi_config :: "'d mm_config"
  mi_instrument :: "'d instrument_metadata"
  mi_maximum_quantity :: 'd
  mi_maximum_price :: "'d price"
  mi_best_bid :: "'d price"
  mi_best_ask :: "'d price"
  mi_mark_price :: "'d price"
  mi_market_observed_at_ms :: u64
  mi_long_quantity :: 'd
  mi_short_quantity :: 'd
  mi_live_orders :: "'d order list"
  mi_owned_order_ids :: "string list"
  mi_pending_quotes :: "'d mm_quote list"
  mi_unknown_results :: bool
  mi_account :: "'d account_risk_snapshot"
  mi_equity_baseline :: "'d amount"
  mi_equity_peak :: "'d amount"
  mi_available_open_notional :: "'d amount"
  mi_volatility_bps :: 'd
  mi_previous_quotes_at_ms :: "u64 option"
  mi_now_ms :: u64
  mi_control :: mm_control

datatype mm_reason =
  Normal | RiskReduction | Replacement | PendingConfirmation | StaleFacts | UnknownResults
| Stopped | LossLimit | DrawdownLimit | NoSafeQuote

datatype 'd mm_action =
  Keep mm_reason
| CancelThenReplan "string list" mm_reason
| Quote "'d mm_quote list" mm_reason
| Halt mm_reason "string list"

record 'd mm_output =
  mp_action :: "'d mm_action"
  mp_net_notional :: 'd
  mp_gross_notional :: 'd
  mp_half_spread_bps :: 'd

section \<open>Arithmetic\<close>

definition mm_add :: "'d decimal_api \<Rightarrow> 'd \<Rightarrow> 'd \<Rightarrow> ('d, mm_error) outcome" where
  "mm_add D a b = ok_or MM_Arithmetic (dec_add D a b)"

definition mm_sub :: "'d decimal_api \<Rightarrow> 'd \<Rightarrow> 'd \<Rightarrow> ('d, mm_error) outcome" where
  "mm_sub D a b = ok_or MM_Arithmetic (dec_sub D a b)"

definition mm_mul :: "'d decimal_api \<Rightarrow> 'd \<Rightarrow> 'd \<Rightarrow> ('d, mm_error) outcome" where
  "mm_mul D a b = ok_or MM_Arithmetic (dec_mul D a b)"

definition mm_div :: "'d decimal_api \<Rightarrow> 'd \<Rightarrow> 'd \<Rightarrow> ('d, mm_error) outcome" where
  "mm_div D a b = ok_or MM_Arithmetic (dec_div D a b)"

definition mm_ceil_step :: "'d decimal_api \<Rightarrow> 'd \<Rightarrow> 'd \<Rightarrow> ('d, mm_error) outcome" where
  "mm_ceil_step D value step =
     and_then (mm_div D value step) (\<lambda>q. mm_mul D (dec_ceil D q) step)"

section \<open>Validation\<close>

definition mm_config_validate :: "'d decimal_api \<Rightarrow> 'd mm_config \<Rightarrow> (unit, mm_error) outcome" where
  "mm_config_validate D c =
     (if list_ex (\<lambda>v. \<not> dec_positive D (am_value v) \<or> asset_str (am_asset v) \<noteq> sym_quote (mc_symbol c))
          [mc_order_notional c, mc_max_leg_notional c, mc_max_gross_notional c, mc_max_net_notional c]
        \<or> dec_less D (am_value (mc_max_leg_notional c)) (am_value (mc_order_notional c))
        \<or> dec_less D (am_value (mc_max_gross_notional c)) (am_value (mc_max_leg_notional c))
        \<or> dec_less D (am_value (mc_max_net_notional c)) (am_value (mc_order_notional c))
        \<or> dec_less D (am_value (mc_max_leg_notional c)) (am_value (mc_max_net_notional c))
        \<or> \<not> dec_positive D (mc_base_half_spread_bps c)
        \<or> dec_le D (dec_of_int D 1000) (mc_base_half_spread_bps c)
        \<or> dec_negative D (mc_inventory_skew_bps c)
        \<or> dec_le D (dec_of_int D 1000) (mc_inventory_skew_bps c)
        \<or> dec_negative D (mc_volatility_multiplier c)
        \<or> \<not> (2 \<le> mc_volatility_period c \<and> mc_volatility_period c \<le> 10000)
        \<or> mc_refresh_interval_ms c = 0 \<or> mc_max_market_age_ms c = 0 \<or> mc_max_private_age_ms c = 0
        \<or> \<not> dec_positive D (am_value (mc_max_loss_quote c))
        \<or> \<not> dec_positive D (am_value (mc_max_drawdown_quote c))
        \<or> am_asset (mc_max_loss_quote c) \<noteq> am_asset (mc_max_drawdown_quote c)
      then Err MM_Config else Ok ())"

definition closes_leg :: "order_side \<Rightarrow> position_side \<Rightarrow> bool" where
  "closes_leg side position_side \<longleftrightarrow> (side, position_side) \<in> {(Sell, LongSide), (Buy, ShortSide)}"

definition mm_validate_quote :: "'d decimal_api \<Rightarrow> 'd mm_quote \<Rightarrow> (unit, mm_error) outcome" where
  "mm_validate_quote D q =
     (if \<not> dec_positive D (mq_quantity q) \<or> mq_position_side q = NetSide
        \<or> mq_reduce_only q \<noteq> closes_leg (mq_side q) (mq_position_side q)
      then Err MM_Facts else Ok ())"

text \<open>One live order of the loop that also refuses a second order with the same identifier.\<close>

definition mm_check_order ::
  "'d decimal_api \<Rightarrow> 'd mm_input \<Rightarrow> string list \<Rightarrow> 'd order \<Rightarrow> (string list, mm_error) outcome" where
  "mm_check_order D i ids ord =
     (if or_symbol ord \<noteq> mc_symbol (mi_config i) \<or> or_order_id ord \<in> set ids then Err MM_Facts
      else and_then (map_err (\<lambda>_. MM_Facts) (order_validate D ord)) (\<lambda>_. Ok (or_order_id ord # ids)))"

definition mm_validate_facts :: "'d decimal_api \<Rightarrow> 'd mm_input \<Rightarrow> (unit, mm_error) outcome" where
  "mm_validate_facts D i =
     and_then (map_err (\<lambda>_. MM_Facts) (metadata_validate D (mi_instrument i))) (\<lambda>_.
     let m = mi_instrument i; c = mi_config i in
     if \<not> md_trading_enabled m
       \<or> in_symbol (md_instrument m) \<noteq> mc_symbol c
       \<or> in_market (md_instrument m) \<noteq> LinearPerpetual
       \<or> md_contract m \<noteq> None
       \<or> dec_le D (price_value (mi_best_ask i)) (price_value (mi_best_bid i))
       \<or> dec_negative D (mi_long_quantity i)
       \<or> dec_negative D (mi_short_quantity i)
       \<or> dec_less D (mi_maximum_quantity i) (pr_minimum (md_quantity m))
       \<or> dec_less D (price_value (mi_maximum_price i)) (pr_minimum (md_price m))
       \<or> dec_negative D (mi_volatility_bps i)
       \<or> dec_negative D (am_value (mi_available_open_notional i))
       \<or> asset_str (am_asset (mi_available_open_notional i)) \<noteq> sym_quote (mc_symbol c)
       \<or> am_asset (mi_equity_baseline i) \<noteq> ar_risk_currency (mi_account i)
       \<or> am_asset (mi_equity_peak i) \<noteq> ar_risk_currency (mi_account i)
       \<or> am_asset (mc_max_loss_quote c) \<noteq> ar_risk_currency (mi_account i)
       \<or> \<not> dec_positive D (am_value (mi_equity_baseline i))
       \<or> dec_less D (am_value (mi_equity_peak i)) (am_value (mi_equity_baseline i))
       \<or> dec_less D (am_value (mi_equity_peak i)) (ar_account_equity (mi_account i))
     then Err MM_Facts
     else
     and_then (try_fold (mm_check_order D i) [] (mi_live_orders i)) (\<lambda>_.
     try_fold (\<lambda>_. mm_validate_quote D) () (mi_pending_quotes i)))"

section \<open>Orders as quotes\<close>

definition mm_active :: "order_state \<Rightarrow> bool" where
  "mm_active state \<longleftrightarrow> state \<in> {New, PartiallyFilled, UnknownState}"

definition mm_fresh :: "u64 \<Rightarrow> u64 \<Rightarrow> u64 \<Rightarrow> bool" where
  "mm_fresh observed now max_age \<longleftrightarrow> 0 < observed \<and> observed \<le> now \<and> now - observed \<le> max_age"

definition order_quote :: "'d decimal_api \<Rightarrow> 'd order \<Rightarrow> ('d mm_quote, mm_error) outcome" where
  "order_quote D ord =
     (case or_position_side ord of
        Known position_side \<Rightarrow>
          and_then (ok_or MM_Facts (or_limit_price ord)) (\<lambda>price.
          and_then (mm_sub D (or_quantity ord) (or_filled_quantity ord)) (\<lambda>quantity.
          let quote = \<lparr>mq_side = or_side ord, mq_position_side = position_side, mq_price = price,
                mq_quantity = quantity, mq_reduce_only = closes_leg (or_side ord) position_side\<rparr> in
          and_then (mm_validate_quote D quote) (\<lambda>_. Ok quote)))
      | _ \<Rightarrow> Err MM_Facts)"

definition signed_quotes :: "'d decimal_api \<Rightarrow> 'd mm_input \<Rightarrow> ('d mm_quote list, mm_error) outcome" where
  "signed_quotes D i = try_map (order_quote D) (filter (\<lambda>ord. mm_active (or_state ord)) (mi_live_orders i))"

definition mm_owned :: "'d mm_input \<Rightarrow> 'd order list" where
  "mm_owned i = filter (\<lambda>ord. mm_active (or_state ord) \<and> or_order_id ord \<in> set (mi_owned_order_ids i))
     (mi_live_orders i)"

definition mm_foreign :: "'d mm_input \<Rightarrow> 'd order list" where
  "mm_foreign i = filter (\<lambda>ord. mm_active (or_state ord) \<and> or_order_id ord \<notin> set (mi_owned_order_ids i))
     (mi_live_orders i)"

text \<open>The derived equality of quotes.\<close>

definition quote_eq :: "'d decimal_api \<Rightarrow> 'd mm_quote \<Rightarrow> 'd mm_quote \<Rightarrow> bool" where
  "quote_eq D a b \<longleftrightarrow>
     mq_side a = mq_side b \<and> mq_position_side a = mq_position_side b \<and> price_eq D (mq_price a) (mq_price b)
     \<and> dec_eq D (mq_quantity a) (mq_quantity b) \<and> mq_reduce_only a = mq_reduce_only b"

definition quote_in :: "'d decimal_api \<Rightarrow> 'd mm_quote \<Rightarrow> 'd mm_quote list \<Rightarrow> bool" where
  "quote_in D q qs \<longleftrightarrow> list_ex (\<lambda>x. quote_eq D x q) qs"

section \<open>The limits\<close>

record 'd mm_exposure =
  mx_long_open :: 'd
  mx_short_open :: 'd
  mx_long_close :: 'd
  mx_short_close :: 'd

definition mm_expose ::
  "'d decimal_api \<Rightarrow> 'd mm_exposure \<Rightarrow> 'd mm_quote \<Rightarrow> ('d mm_exposure, mm_error) outcome" where
  "mm_expose D x q =
     and_then (mm_validate_quote D q) (\<lambda>_.
     case (mq_position_side q, mq_reduce_only q) of
       (LongSide, False) \<Rightarrow> and_then (mm_add D (mx_long_open x) (mq_quantity q)) (\<lambda>v. Ok (x\<lparr>mx_long_open := v\<rparr>))
     | (ShortSide, False) \<Rightarrow> and_then (mm_add D (mx_short_open x) (mq_quantity q)) (\<lambda>v. Ok (x\<lparr>mx_short_open := v\<rparr>))
     | (LongSide, True) \<Rightarrow> and_then (mm_add D (mx_long_close x) (mq_quantity q)) (\<lambda>v. Ok (x\<lparr>mx_long_close := v\<rparr>))
     | (ShortSide, True) \<Rightarrow> and_then (mm_add D (mx_short_close x) (mq_quantity q)) (\<lambda>v. Ok (x\<lparr>mx_short_close := v\<rparr>))
     | _ \<Rightarrow> Err MM_Facts)"

definition risk_permits ::
  "'d decimal_api \<Rightarrow> 'd mm_input \<Rightarrow> 'd mm_quote list \<Rightarrow> bool \<Rightarrow> (bool, mm_error) outcome" where
  "risk_permits D i orders reduction =
     and_then (try_fold (mm_expose D) \<lparr>mx_long_open = dec_zero D, mx_short_open = dec_zero D,
       mx_long_close = dec_zero D, mx_short_close = dec_zero D\<rparr> orders) (\<lambda>x.
     if dec_less D (mi_long_quantity i) (mx_long_close x)
       \<or> dec_less D (mi_short_quantity i) (mx_short_close x)
     then Ok False
     else
     let mark = price_value (mi_mark_price i); c = mi_config i in
     and_then (mm_mul D (mi_long_quantity i) mark) (\<lambda>long.
     and_then (mm_mul D (mi_short_quantity i) mark) (\<lambda>short.
     let largest_leg = dec_greatest D long short in
     and_then (mm_add D long short) (\<lambda>gross.
     and_then (mm_sub D long short) (\<lambda>net.
     let cap = (\<lambda>limit current. if reduction then dec_greatest D (am_value limit) current else am_value limit);
         leg_cap = cap (mc_max_leg_notional c) largest_leg;
         gross_cap = cap (mc_max_gross_notional c) gross;
         net_cap = cap (mc_max_net_notional c) (dec_abs D net) in
     and_then (and_then (mm_mul D (mx_long_open x) mark) (mm_add D long)) (\<lambda>long_max.
     and_then (and_then (mm_mul D (mx_short_open x) mark) (mm_add D short)) (\<lambda>short_max.
     and_then (and_then (mm_add D (mx_long_open x) (mx_short_close x)) (\<lambda>q.
       and_then (mm_mul D q mark) (mm_add D net))) (\<lambda>max_net.
     and_then (and_then (mm_add D (mx_short_open x) (mx_long_close x)) (\<lambda>q.
       and_then (mm_mul D q mark) (mm_sub D net))) (\<lambda>min_net.
     if dec_le D long_max leg_cap \<and> dec_le D short_max leg_cap
     then
       and_then (mm_add D long_max short_max) (\<lambda>gross_max.
       Ok (dec_le D gross_max gross_cap \<and> dec_le D max_net net_cap
           \<and> dec_le D (dec_neg D net_cap) min_net))
     else Ok False)))))))))"

section \<open>One side's quote\<close>

text \<open>What is left of a leg to close once the reserved closes are taken off.\<close>

definition close_remaining ::
  "'d decimal_api \<Rightarrow> 'd mm_input \<Rightarrow> position_side \<Rightarrow> 'd \<Rightarrow> 'd mm_quote list \<Rightarrow> ('d, mm_error) outcome" where
  "close_remaining D i close_leg close_total reserved =
     and_then (try_fold (\<lambda>acc q. mm_add D acc (mq_quantity q)) (dec_zero D)
       (filter (\<lambda>q. mq_reduce_only q \<and> mq_position_side q = close_leg) reserved)) (\<lambda>close_reserved.
     and_then (mm_sub D close_total close_reserved) (\<lambda>left.
     Ok (dec_greatest D left (dec_zero D))))"

definition closing_quote ::
  "'d decimal_api \<Rightarrow> 'd mm_input \<Rightarrow> order_side \<Rightarrow> position_side \<Rightarrow> 'd price \<Rightarrow> 'd \<Rightarrow> bool \<Rightarrow> 'd
   \<Rightarrow> ('d mm_quote option, mm_error) outcome" where
  "closing_quote D i side close_leg price close_quantity reduction net =
     (if reduction \<and> ((dec_positive D net \<and> side = Buy) \<or> (dec_negative D net \<and> side = Sell))
      then Ok None
      else
      and_then
        (if reduction \<and> \<not> dec_is_zero D net then
           and_then (mm_div D (dec_abs D net) (price_value (mi_mark_price i))) (\<lambda>bound.
           map_err (\<lambda>_. MM_Facts) (precision_floor D (md_quantity (mi_instrument i))
             (dec_least D close_quantity bound)))
         else Ok close_quantity) (\<lambda>quantity.
      if dec_less D quantity (pr_minimum (md_quantity (mi_instrument i))) then Ok None
      else Ok (Some \<lparr>mq_side = side, mq_position_side = close_leg, mq_price = price,
        mq_quantity = quantity, mq_reduce_only = True\<rparr>)))"

text \<open>The notional of opening quantities at the worse of their price and the mark.\<close>

definition worst_notional :: "'d decimal_api \<Rightarrow> 'd mm_input \<Rightarrow> 'd \<Rightarrow> 'd price \<Rightarrow> ('d, mm_error) outcome" where
  "worst_notional D i quantity price =
     mm_mul D quantity (dec_greatest D (price_value price) (price_value (mi_mark_price i)))"

definition opening_quote ::
  "'d decimal_api \<Rightarrow> 'd mm_input \<Rightarrow> order_side \<Rightarrow> 'd price \<Rightarrow> 'd mm_quote list \<Rightarrow> 'd
   \<Rightarrow> ('d mm_quote option, mm_error) outcome" where
  "opening_quote D i side price reserved raw =
     (let instrument = mi_instrument i; precision = md_quantity instrument in
      and_then (mm_div D (am_value (in_minimum_notional (md_instrument instrument))) (price_value price))
        (\<lambda>legal.
      let least = dec_greatest D legal (pr_minimum precision) in
      and_then (map_err (\<lambda>_. MM_Facts) (precision_floor D precision raw)) (\<lambda>floored.
      and_then (if dec_less D floored least then mm_ceil_step D least (pr_step precision)
                else Ok floored) (\<lambda>quantity.
      if dec_less D quantity (pr_minimum precision) \<or> dec_less D (mi_maximum_quantity i) quantity
      then Ok None
      else
      and_then (worst_notional D i quantity price) (\<lambda>notional.
      and_then (try_fold (\<lambda>acc q. and_then (worst_notional D i (mq_quantity q) (mq_price q)) (mm_add D acc))
        (dec_zero D) (filter (\<lambda>q. \<not> mq_reduce_only q) reserved)) (\<lambda>reserved_open.
      and_then (mm_add D reserved_open notional) (\<lambda>opened.
      if dec_less D (am_value (mi_available_open_notional i)) opened then Ok None
      else Ok (Some \<lparr>mq_side = side,
        mq_position_side = (case side of Buy \<Rightarrow> LongSide | Sell \<Rightarrow> ShortSide),
        mq_price = price, mq_quantity = quantity, mq_reduce_only = False\<rparr>))))))))"

definition quote_for_side ::
  "'d decimal_api \<Rightarrow> 'd mm_input \<Rightarrow> order_side \<Rightarrow> 'd price \<Rightarrow> 'd mm_quote list \<Rightarrow> bool \<Rightarrow> 'd
   \<Rightarrow> ('d mm_quote option, mm_error) outcome" where
  "quote_for_side D i side price reserved reduction net =
     (let close_leg = (case side of Buy \<Rightarrow> ShortSide | Sell \<Rightarrow> LongSide);
          close_total = (case side of Buy \<Rightarrow> mi_short_quantity i | Sell \<Rightarrow> mi_long_quantity i);
          precision = md_quantity (mi_instrument i) in
      and_then (close_remaining D i close_leg close_total reserved) (\<lambda>remaining.
      and_then (mm_div D (am_value (mc_order_notional (mi_config i))) (price_value price)) (\<lambda>raw.
      and_then (map_err (\<lambda>_. MM_Facts) (precision_floor D precision
        (dec_least D (dec_least D raw remaining) (mi_maximum_quantity i)))) (\<lambda>close_quantity.
      if dec_le D (pr_minimum precision) close_quantity
      then closing_quote D i side close_leg price close_quantity reduction net
      else if reduction then Ok None
      else opening_quote D i side price reserved raw))))"

section \<open>The plan\<close>

text \<open>The quotes around the reservation price: skewed against the net, never inside the book.\<close>

definition mm_prices ::
  "'d decimal_api \<Rightarrow> 'd mm_input \<Rightarrow> 'd \<Rightarrow> 'd \<Rightarrow> ('d \<times> 'd, mm_error) outcome" where
  "mm_prices D i net spread =
     (let bid = price_value (mi_best_bid i); ask = price_value (mi_best_ask i); c = mi_config i;
          bps = dec_of_int D 10000; precision = md_price (mi_instrument i) in
      and_then (and_then (mm_add D bid ask) (\<lambda>s. mm_div D s (dec_of_int D 2))) (\<lambda>mid.
      and_then (mm_div D net (am_value (mc_max_net_notional c))) (\<lambda>ratio.
      let normalized_net = dec_least D (dec_greatest D ratio (dec_neg D (dec_one D))) (dec_one D) in
      and_then (mm_mul D normalized_net (mc_inventory_skew_bps c)) (\<lambda>skew.
      and_then (and_then (mm_div D skew bps) (\<lambda>x. and_then (mm_sub D (dec_one D) x) (mm_mul D mid)))
        (\<lambda>center.
      and_then (and_then (mm_div D spread bps) (mm_mul D mid)) (\<lambda>width.
      and_then (mm_sub D center width) (\<lambda>low.
      and_then (mm_add D center width) (\<lambda>high.
      and_then (map_err (\<lambda>_. MM_Facts) (precision_floor D precision (dec_least D low bid))) (\<lambda>quote_bid.
      and_then (mm_ceil_step D (dec_greatest D high ask) (pr_step precision)) (\<lambda>quote_ask.
      Ok (quote_bid, quote_ask)))))))))))"

text \<open>One turn of the loop over the sides: a quote is kept when the limits still hold with it.\<close>

definition desire_side ::
  "'d decimal_api \<Rightarrow> 'd mm_input \<Rightarrow> 'd mm_quote list \<Rightarrow> 'd \<Rightarrow> 'd \<Rightarrow> bool \<Rightarrow> 'd
   \<Rightarrow> 'd mm_quote list \<Rightarrow> order_side \<Rightarrow> ('d mm_quote list, mm_error) outcome" where
  "desire_side D i foreign bid ask breached net desired side =
     and_then (map_err (\<lambda>_. MM_Facts) (price_new D (case side of Buy \<Rightarrow> bid | Sell \<Rightarrow> ask))) (\<lambda>price.
     let reservations = foreign @ desired in
     and_then (quote_for_side D i side price reservations breached net) (\<lambda>found.
     case found of
       None \<Rightarrow> Ok desired
     | Some quote \<Rightarrow>
         and_then (risk_permits D i (reservations @ [quote]) breached) (\<lambda>permitted.
         Ok (if permitted then desired @ [quote] else desired))))"

definition mm_desired ::
  "'d decimal_api \<Rightarrow> 'd mm_input \<Rightarrow> 'd mm_quote list \<Rightarrow> 'd \<Rightarrow> 'd \<Rightarrow> bool \<Rightarrow> 'd
   \<Rightarrow> ('d mm_quote list, mm_error) outcome" where
  "mm_desired D i foreign bid ask breached net =
     try_fold (desire_side D i foreign bid ask breached net) []
       (if dec_negative D net then [Buy, Sell] else [Sell, Buy])"

text \<open>The action once the desired quotes are known.\<close>

definition mm_decide ::
  "'d decimal_api \<Rightarrow> 'd mm_input \<Rightarrow> 'd mm_quote list \<Rightarrow> 'd mm_quote list \<Rightarrow> bool \<Rightarrow> bool \<Rightarrow> 'd mm_action"
  where
  "mm_decide D i own_quotes desired outstanding_safe breached =
     (let owned = map or_order_id (mm_owned i) in
      if owned \<noteq> [] then
        if length own_quotes = 1 \<and> length desired = 2 \<and> quote_in D (hd own_quotes) desired
        then Quote (filter (\<lambda>q. \<not> quote_in D q own_quotes) desired) Normal
        else
        let same = (length own_quotes = length desired \<and> list_all (\<lambda>q. quote_in D q desired) own_quotes);
            before_refresh = (case mi_previous_quotes_at_ms i of
                None \<Rightarrow> False
              | Some observed \<Rightarrow> observed \<le> mi_now_ms i
                  \<and> mi_now_ms i - observed < mc_refresh_interval_ms (mi_config i)) in
        if same \<or> (before_refresh \<and> outstanding_safe \<and> desired \<noteq> []) then Keep Normal
        else CancelThenReplan owned Replacement
      else if desired = [] then Keep NoSafeQuote
      else Quote desired (if breached then RiskReduction else Normal))"

definition mm_breached ::
  "'d decimal_api \<Rightarrow> 'd mm_input \<Rightarrow> 'd \<Rightarrow> 'd \<Rightarrow> (bool, mm_error) outcome" where
  "mm_breached D i net gross =
     (let c = mi_config i in
      or_else (Ok (dec_less D (am_value (mc_max_net_notional c)) (dec_abs D net)
          \<or> dec_less D (am_value (mc_max_gross_notional c)) gross))
        (and_then (mm_mul D (dec_greatest D (mi_long_quantity i) (mi_short_quantity i))
          (price_value (mi_mark_price i))) (\<lambda>leg. Ok (dec_less D (am_value (mc_max_leg_notional c)) leg))))"

text \<open>The action on facts that are fresh, known and within the loss limits.\<close>

definition mm_act ::
  "'d decimal_api \<Rightarrow> 'd mm_input \<Rightarrow> 'd \<Rightarrow> 'd \<Rightarrow> 'd \<Rightarrow> ('d mm_action, mm_error) outcome" where
  "mm_act D i net gross spread =
     (let owned = map or_order_id (mm_owned i) in
      and_then (signed_quotes D i) (\<lambda>existing.
      and_then (mm_breached D i net gross) (\<lambda>breached.
      and_then (risk_permits D i (existing @ mi_pending_quotes i) breached) (\<lambda>outstanding_safe.
      and_then (try_map (order_quote D) (mm_owned i)) (\<lambda>own_quotes.
      let own_increases_risk = list_ex (\<lambda>q. \<not> mq_reduce_only q
            \<or> (dec_positive D net \<and> mq_side q = Buy) \<or> (dec_negative D net \<and> mq_side q = Sell))
            own_quotes in
      if owned \<noteq> [] \<and> ((breached \<and> own_increases_risk) \<or> \<not> outstanding_safe \<or> 2 < length owned)
      then Ok (CancelThenReplan owned RiskReduction)
      else if mi_pending_quotes i \<noteq> [] then Ok (Keep PendingConfirmation)
      else
      and_then (mm_prices D i net spread) (\<lambda>(bid, ask).
      if dec_less D bid (pr_minimum (md_price (mi_instrument i)))
        \<or> dec_less D (price_value (mi_maximum_price i)) ask \<or> dec_le D ask bid
      then Ok (Halt NoSafeQuote owned)
      else
      and_then (try_map (order_quote D) (mm_foreign i)) (\<lambda>foreign.
      and_then (mm_desired D i foreign bid ask breached net) (\<lambda>desired.
      Ok (mm_decide D i own_quotes desired outstanding_safe breached)))))))))"

definition mm_plan :: "'d decimal_api \<Rightarrow> 'd mm_input \<Rightarrow> ('d mm_output, mm_error) outcome" where
  "mm_plan D i =
     and_then (mm_config_validate D (mi_config i)) (\<lambda>_.
     and_then (mm_validate_facts D i) (\<lambda>_.
     let mark = price_value (mi_mark_price i); c = mi_config i; equity = ar_account_equity (mi_account i);
         owned = map or_order_id (mm_owned i) in
     and_then (and_then (mm_sub D (mi_long_quantity i) (mi_short_quantity i)) (\<lambda>q. mm_mul D q mark)) (\<lambda>net.
     and_then (and_then (mm_add D (mi_long_quantity i) (mi_short_quantity i)) (\<lambda>q. mm_mul D q mark)) (\<lambda>gross.
     and_then (mm_mul D (mi_volatility_bps i) (mc_volatility_multiplier c)) (\<lambda>volatile.
     let spread = dec_greatest D (mc_base_half_spread_bps c) volatile;
         output = (\<lambda>action. \<lparr>mp_action = action, mp_net_notional = net, mp_gross_notional = gross,
           mp_half_spread_bps = spread\<rparr>);
         halt = (\<lambda>reason. Ok (output (Halt reason owned))) in
     if mi_control i = MmStop then halt Stopped
     else if mi_unknown_results i \<or> list_ex (\<lambda>ord. or_state ord = UnknownState) (mi_live_orders i)
     then halt UnknownResults
     else if \<not> mm_fresh (mi_market_observed_at_ms i) (mi_now_ms i) (mc_max_market_age_ms c)
       \<or> \<not> is_ok (account_validate_at D (mi_account i) (mi_now_ms i) (mc_max_private_age_ms c))
     then halt StaleFacts
     else
     and_then (mm_sub D (am_value (mi_equity_baseline i)) equity) (\<lambda>loss.
     if dec_le D (am_value (mc_max_loss_quote c)) loss then halt LossLimit
     else
     and_then (mm_sub D (am_value (mi_equity_peak i)) equity) (\<lambda>drawdown.
     if dec_le D (am_value (mc_max_drawdown_quote c)) drawdown then halt DrawdownLimit
     else if dec_le D (dec_of_int D 10000) spread then halt NoSafeQuote
     else and_then (mm_act D i net gross spread) (\<lambda>action. Ok (output action)))))))))"

end
