(* ===== verification/Market_Maker_Limits.thy ===== *)
theory Market_Maker_Limits
  imports Market_Maker "HOL-Library.Multiset"
begin

text \<open>
  What resting quotes can do to the legs: the change of a leg under any fills lies between what
  the quotes close and what they open, and the arithmetic of \<open>risk_permits\<close> is exact when the
  quantities and the mark are on a common scale.
\<close>

section \<open>Fills\<close>

definition quote_value :: "'d decimal_api \<Rightarrow> 'd mm_quote \<Rightarrow> rat" where
  "quote_value D q = dec_value D (mq_quantity q)"

definition resting ::
  "'d decimal_api \<Rightarrow> position_side \<Rightarrow> bool \<Rightarrow> 'd mm_quote list \<Rightarrow> rat" where
  "resting D leg close qs =
     sum_list (map (quote_value D) (filter (\<lambda>q. mq_position_side q = leg \<and> mq_reduce_only q = close) qs))"

text \<open>A quote is filled by any part of its quantity; a closing fill shrinks its leg.\<close>

definition fills_within :: "'d decimal_api \<Rightarrow> 'd mm_quote list \<Rightarrow> rat list \<Rightarrow> bool" where
  "fills_within D qs fills \<longleftrightarrow> list_all2 (\<lambda>q x. 0 \<le> x \<and> x \<le> quote_value D q) qs fills"

definition leg_change :: "position_side \<Rightarrow> 'd mm_quote list \<Rightarrow> rat list \<Rightarrow> rat" where
  "leg_change leg qs fills =
     sum_list (map2 (\<lambda>q x. if mq_position_side q = leg then if mq_reduce_only q then - x else x else 0) qs fills)"

lemma leg_change_bounds:
  assumes "fills_within D qs fills"
  shows "- resting D leg True qs \<le> leg_change leg qs fills"
    and "leg_change leg qs fills \<le> resting D leg False qs"
    and "0 \<le> resting D leg close qs"
proof -
  have "- resting D leg True qs \<le> leg_change leg qs fills \<and> leg_change leg qs fills \<le> resting D leg False qs
    \<and> 0 \<le> resting D leg close qs"
    using assms unfolding fills_within_def
    by (induction rule: list_all2_induct) (auto simp: resting_def leg_change_def)
  then show "- resting D leg True qs \<le> leg_change leg qs fills"
    and "leg_change leg qs fills \<le> resting D leg False qs" and "0 \<le> resting D leg close qs"
    by blast+
qed

text \<open>What a list of quotes permits depends on its sums only.\<close>

lemma resting_append: "resting D leg close (qs @ rs) = resting D leg close qs + resting D leg close rs"
  by (simp add: resting_def)

lemma resting_Nil [simp]: "resting D leg close [] = 0"
  by (simp add: resting_def)

lemma resting_Cons: "resting D leg close (q # qs)
    = (if mq_position_side q = leg \<and> mq_reduce_only q = close then quote_value D q else 0)
      + resting D leg close qs"
  by (simp add: resting_def)

lemma resting_eq: "quote_eq D a b \<Longrightarrow> resting D leg close [a] = resting D leg close [b]"
  by (simp add: resting_Cons quote_eq_def quote_value_def dec_eq_def)

section \<open>The grid of the numbers\<close>

definition on_grid :: "nat \<Rightarrow> rat \<Rightarrow> bool" where
  "on_grid s v \<longleftrightarrow> (\<exists>m::int. v = of_int m / 10 ^ s)"

lemma on_scale_grid: "on_scale s v \<Longrightarrow> on_grid s v"
  by (auto simp: on_scale_def on_grid_def)

lemma on_grid_add: "on_grid s a \<Longrightarrow> on_grid s b \<Longrightarrow> on_grid s (a + b)"
  unfolding on_grid_def by (metis add_divide_distrib of_int_add)

lemma on_grid_diff: "on_grid s a \<Longrightarrow> on_grid s b \<Longrightarrow> on_grid s (a - b)"
  unfolding on_grid_def by (metis diff_divide_distrib of_int_diff)

lemma on_grid_mult: "on_grid s a \<Longrightarrow> on_grid t b \<Longrightarrow> on_grid (s + t) (a * b)"
  unfolding on_grid_def by (metis of_int_mult power_add times_divide_times_eq)

lemma on_grid_zero [simp]: "on_grid s 0"
  unfolding on_grid_def by (intro exI [of _ 0]) simp

lemma grid_representable: "on_grid s v \<Longrightarrow> on_scale s b \<Longrightarrow> \<bar>v\<bar> \<le> \<bar>b\<bar> \<Longrightarrow> dec_representable v"
  unfolding on_grid_def using on_scale_bounded on_scale_representable by blast

text \<open>
  The quantities of both legs and of the quotes are on one scale, the mark on another, and the
  sum of all quantities, and its value at the mark, are still decimals.
\<close>

definition total_quantity :: "'d decimal_api \<Rightarrow> 'd mm_input \<Rightarrow> 'd mm_quote list \<Rightarrow> rat" where
  "total_quantity D i qs =
     dec_value D (mi_long_quantity i) + dec_value D (mi_short_quantity i) + sum_list (map (quote_value D) qs)"

definition mm_on_scale :: "'d decimal_api \<Rightarrow> 'd mm_input \<Rightarrow> 'd mm_quote list \<Rightarrow> nat \<Rightarrow> nat \<Rightarrow> bool" where
  "mm_on_scale D i qs s t \<longleftrightarrow>
     on_scale s (dec_value D (mi_long_quantity i)) \<and> on_scale s (dec_value D (mi_short_quantity i))
     \<and> list_all (\<lambda>q. on_scale s (quote_value D q)) qs
     \<and> on_scale t (dec_value D (price_value (mi_mark_price i)))
     \<and> 0 < dec_value D (price_value (mi_mark_price i))
     \<and> on_scale s (total_quantity D i qs)
     \<and> on_scale (s + t) (total_quantity D i qs * dec_value D (price_value (mi_mark_price i)))"

text \<open>Every number up to the total is computed exactly, and so is its value at the mark.\<close>

definition mm_exact :: "'d decimal_api \<Rightarrow> nat \<Rightarrow> nat \<Rightarrow> rat \<Rightarrow> rat \<Rightarrow> bool" where
  "mm_exact D s t total_value mark \<longleftrightarrow>
     dec_exact_laws D \<and> on_scale s total_value \<and> on_scale t mark \<and> on_scale (s + t) (total_value * mark)
     \<and> 0 < mark \<and> 0 \<le> total_value"

lemma add_quantity:
  assumes "mm_exact D s t v mark" and "mm_add D a b = Ok c" and "on_grid s (dec_value D a)"
    and "on_grid s (dec_value D b)" and "\<bar>dec_value D a + dec_value D b\<bar> \<le> v"
  shows "dec_value D c = dec_value D a + dec_value D b"
proof -
  have "dec_representable (dec_value D a + dec_value D b)"
    using on_grid_add [OF assms(3,4)] assms(1,5) by (intro grid_representable) (auto simp: mm_exact_def)
  then show ?thesis
    using assms(1,2) dec_add_exact by (fastforce simp: mm_add_def ok_or_Ok mm_exact_def)
qed

lemma value_representable:
  assumes "mm_exact D s t v mark" and "on_grid s u" and "\<bar>u\<bar> \<le> v"
  shows "dec_representable (u * mark)"
proof -
  have "on_grid (s + t) (u * mark)"
    using assms(1,2) on_scale_grid on_grid_mult unfolding mm_exact_def by blast
  moreover have "\<bar>u * mark\<bar> \<le> \<bar>v * mark\<bar>"
    using assms(1,3) by (simp add: abs_mult mult_right_mono mm_exact_def)
  ultimately show ?thesis using assms(1) grid_representable unfolding mm_exact_def by blast
qed

lemma at_mark:
  assumes "mm_exact D s t v (dec_value D m)" and "mm_mul D a m = Ok c" and "on_grid s (dec_value D a)"
    and "\<bar>dec_value D a\<bar> \<le> v"
  shows "dec_value D c = dec_value D a * dec_value D m"
  using value_representable [OF assms(1,3,4)] assms(1,2) dec_mul_exact
  by (fastforce simp: mm_mul_def ok_or_Ok mm_exact_def)

lemma add_value:
  assumes "mm_exact D s t v mark" and "mm_add D a b = Ok c" and "dec_value D a = x * mark"
    and "dec_value D b = y * mark" and "on_grid s x" and "on_grid s y" and "\<bar>x + y\<bar> \<le> v"
  shows "dec_value D c = (x + y) * mark"
proof -
  have "dec_representable (dec_value D a + dec_value D b)"
    using value_representable [OF assms(1) on_grid_add [OF assms(5,6)] assms(7)]
    by (simp add: assms(3,4) distrib_right)
  then show ?thesis
    using assms(1-4) dec_add_exact by (fastforce simp: mm_add_def ok_or_Ok mm_exact_def distrib_right)
qed

lemma sub_value:
  assumes "mm_exact D s t v mark" and "mm_sub D a b = Ok c" and "dec_value D a = x * mark"
    and "dec_value D b = y * mark" and "on_grid s x" and "on_grid s y" and "\<bar>x - y\<bar> \<le> v"
  shows "dec_value D c = (x - y) * mark"
proof -
  have "dec_representable (dec_value D a - dec_value D b)"
    using value_representable [OF assms(1) on_grid_diff [OF assms(5,6)] assms(7)]
    by (simp add: assms(3,4) left_diff_distrib)
  then show ?thesis
    using assms(1-4) dec_sub_exact by (fastforce simp: mm_sub_def ok_or_Ok mm_exact_def left_diff_distrib)
qed

section \<open>The sums of the exposure\<close>

definition exposed :: "'d decimal_api \<Rightarrow> 'd mm_exposure \<Rightarrow> position_side \<Rightarrow> bool \<Rightarrow> rat" where
  "exposed D x leg close = (case leg of
       LongSide \<Rightarrow> dec_value D (if close then mx_long_close x else mx_long_open x)
     | ShortSide \<Rightarrow> dec_value D (if close then mx_short_close x else mx_short_open x)
     | NetSide \<Rightarrow> 0)"

definition exposed_total :: "'d decimal_api \<Rightarrow> 'd mm_exposure \<Rightarrow> rat" where
  "exposed_total D x = exposed D x LongSide False + exposed D x ShortSide False
     + exposed D x LongSide True + exposed D x ShortSide True"

definition exposed_grid :: "'d decimal_api \<Rightarrow> nat \<Rightarrow> 'd mm_exposure \<Rightarrow> bool" where
  "exposed_grid D s x \<longleftrightarrow> (\<forall>leg close. on_grid s (exposed D x leg close) \<and> 0 \<le> exposed D x leg close)"

lemma validated_quote:
  "mm_validate_quote D q = Ok u \<Longrightarrow> 0 < quote_value D q \<and> mq_position_side q \<noteq> NetSide
     \<and> mq_reduce_only q = closes_leg (mq_side q) (mq_position_side q)"
  by (auto simp: mm_validate_quote_def dec_positive_def quote_value_def split: if_splits)

lemma exposed_single:
  assumes "mm_expose D x q = Ok y" and "mm_exact D s t v mark" and "exposed_grid D s x"
    and "on_grid s (quote_value D q)" and "exposed_total D x + quote_value D q \<le> v"
  shows "exposed D y leg close = exposed D x leg close + resting D leg close [q]"
    and "exposed_total D y = exposed_total D x + quote_value D q" and "0 < quote_value D q"
    and "exposed_grid D s y"
proof -
  from assms(1) have q: "0 < quote_value D q" "mq_position_side q \<noteq> NetSide"
    using validated_quote by (fastforce simp: mm_expose_def and_then_Ok)+
  show "0 < quote_value D q" by (rule q)
  have grid: "on_grid s (exposed D x l c)" "0 \<le> exposed D x l c" for l c
    using assms(3) by (auto simp: exposed_grid_def)
  have step: "dec_value D z = dec_value D a + quote_value D q"
    if "mm_add D a (mq_quantity q) = Ok z" "dec_value D a = exposed D x l c"
      "(l, c) \<in> {LongSide, ShortSide} \<times> UNIV" for a z l c
  proof -
    have "exposed D x l c \<le> exposed_total D x"
      using that(3) grid(2) [of LongSide] grid(2) [of ShortSide]
      by (cases c) (auto simp: exposed_total_def add_increasing add_increasing2)
    then show ?thesis
      using add_quantity [OF assms(2) that(1)] grid [of l c] that(2) assms(4,5) q(1)
      by (simp add: quote_value_def)
  qed
  note steps = step [of _ _ LongSide False] step [of _ _ LongSide True] step [of _ _ ShortSide False]
    step [of _ _ ShortSide True]
  have sums: "exposed D y l c = exposed D x l c + resting D l c [q]" for l c
    using assms(1) steps q(2)
    by (auto simp: mm_expose_def and_then_Ok exposed_def resting_Cons
        split: position_side.splits bool.splits)
  show "exposed D y leg close = exposed D x leg close + resting D leg close [q]" by (rule sums)
  show "exposed_total D y = exposed_total D x + quote_value D q"
    using q(2) by (cases "mq_position_side q"; cases "mq_reduce_only q")
      (simp_all add: exposed_total_def sums resting_Cons)
  show "exposed_grid D s y"
    using grid assms(4) q(1) by (auto simp: exposed_grid_def sums resting_Cons on_grid_add)
qed

lemma expose_nonneg:
  assumes "try_fold (mm_expose D) x qs = Ok y" shows "0 \<le> sum_list (map (quote_value D) qs)"
  using assms
proof (induction qs arbitrary: x)
  case (Cons q qs)
  then obtain z where z: "mm_expose D x q = Ok z" "try_fold (mm_expose D) z qs = Ok y"
    by (auto simp: and_then_Ok)
  from z(1) obtain u where "mm_validate_quote D q = Ok u" by (auto simp: mm_expose_def and_then_Ok)
  then show ?case using Cons.IH [OF z(2)] validated_quote [of D q u] by simp
qed simp

lemma exposed_sums:
  assumes "try_fold (mm_expose D) x qs = Ok y" and "mm_exact D s t v mark" and "exposed_grid D s x"
    and "list_all (\<lambda>q. on_grid s (quote_value D q)) qs"
    and "exposed_total D x + sum_list (map (quote_value D) qs) \<le> v"
  shows "(\<forall>leg close. exposed D y leg close = exposed D x leg close + resting D leg close qs)
    \<and> exposed_grid D s y \<and> exposed_total D y = exposed_total D x + sum_list (map (quote_value D) qs)"
  using assms
proof (induction qs arbitrary: x)
  case Nil
  then show ?case by simp
next
  case (Cons q qs)
  from Cons.prems(1) obtain z where z: "mm_expose D x q = Ok z" "try_fold (mm_expose D) z qs = Ok y"
    by (auto simp: and_then_Ok)
  have rest: "0 \<le> sum_list (map (quote_value D) qs)"
    using z(2) by (rule expose_nonneg)
  have "exposed_total D x + quote_value D q \<le> v" using Cons.prems(5) rest by simp
  note single = exposed_single [OF z(1) Cons.prems(2,3) _ this]
  show ?case
    using Cons.IH [OF z(2) Cons.prems(2)] single Cons.prems(4,5)
    by (simp add: resting_Cons)
qed

section \<open>What the limits promise\<close>

text \<open>
  The legs \<open>l\<close> and \<open>s\<close> are not short, and each notional at the mark is at most its limit, or at
  most what it is now where that is more.
\<close>

definition mm_within :: "'d decimal_api \<Rightarrow> 'd mm_input \<Rightarrow> rat \<Rightarrow> rat \<Rightarrow> bool" where
  "mm_within D i l s \<longleftrightarrow>
     (let mark = dec_value D (price_value (mi_mark_price i)); long = dec_value D (mi_long_quantity i);
          short = dec_value D (mi_short_quantity i); c = mi_config i;
          cap = (\<lambda>limit now. max (dec_value D (am_value limit)) (now * mark)) in
      0 \<le> l \<and> 0 \<le> s
      \<and> l * mark \<le> cap (mc_max_leg_notional c) (max long short)
      \<and> s * mark \<le> cap (mc_max_leg_notional c) (max long short)
      \<and> (l + s) * mark \<le> cap (mc_max_gross_notional c) (long + short)
      \<and> \<bar>l - s\<bar> * mark \<le> cap (mc_max_net_notional c) \<bar>long - short\<bar>)"

text \<open>The four extremes that \<open>risk_permits\<close> compares.\<close>

definition mm_extremes_within ::
  "'d decimal_api \<Rightarrow> 'd mm_input \<Rightarrow> 'd mm_quote list \<Rightarrow> bool" where
  "mm_extremes_within D i qs \<longleftrightarrow>
     (let mark = dec_value D (price_value (mi_mark_price i)); long = dec_value D (mi_long_quantity i);
          short = dec_value D (mi_short_quantity i); c = mi_config i;
          cap = (\<lambda>limit now. max (dec_value D (am_value limit)) (now * mark));
          r = (\<lambda>leg close. resting D leg close qs) in
      r LongSide True \<le> long \<and> r ShortSide True \<le> short
      \<and> (long + r LongSide False) * mark \<le> cap (mc_max_leg_notional c) (max long short)
      \<and> (short + r ShortSide False) * mark \<le> cap (mc_max_leg_notional c) (max long short)
      \<and> (long + short + r LongSide False + r ShortSide False) * mark \<le> cap (mc_max_gross_notional c) (long + short)
      \<and> (long - short + r LongSide False + r ShortSide True) * mark \<le> cap (mc_max_net_notional c) \<bar>long - short\<bar>
      \<and> (short - long + r ShortSide False + r LongSide True) * mark \<le> cap (mc_max_net_notional c) \<bar>long - short\<bar>)"

lemma extremes_within_fills:
  assumes "mm_extremes_within D i qs" and "fills_within D qs fills"
    and "0 < dec_value D (price_value (mi_mark_price i))"
  shows "mm_within D i (dec_value D (mi_long_quantity i) + leg_change LongSide qs fills)
    (dec_value D (mi_short_quantity i) + leg_change ShortSide qs fills)"
proof -
  let ?m = "dec_value D (price_value (mi_mark_price i))"
  let ?l = "dec_value D (mi_long_quantity i) + leg_change LongSide qs fills"
  let ?s = "dec_value D (mi_short_quantity i) + leg_change ShortSide qs fills"
  note bounds = leg_change_bounds [OF assms(2)]
  have up: "x * ?m \<le> c" if "x \<le> y" "y * ?m \<le> c" for x y c
    by (rule order_trans [OF mult_right_mono [OF that(1)] that(2)]) (use assms(3) in simp)
  note extremes = assms(1) [unfolded mm_extremes_within_def Let_def]
  have "\<bar>?l - ?s\<bar> * ?m = max ((?l - ?s) * ?m) ((?s - ?l) * ?m)"
    using assms(3) by (simp add: abs_if max_def mult_le_cancel_right)
  moreover have "(?l - ?s) * ?m \<le> max (dec_value D (am_value (mc_max_net_notional (mi_config i))))
      (\<bar>dec_value D (mi_long_quantity i) - dec_value D (mi_short_quantity i)\<bar> * ?m)"
    by (rule up [of _ "dec_value D (mi_long_quantity i) - dec_value D (mi_short_quantity i)
      + resting D LongSide False qs + resting D ShortSide True qs"])
      (use bounds(1) [of ShortSide] bounds(2) [of LongSide] extremes in auto)
  moreover have "(?s - ?l) * ?m \<le> max (dec_value D (am_value (mc_max_net_notional (mi_config i))))
      (\<bar>dec_value D (mi_long_quantity i) - dec_value D (mi_short_quantity i)\<bar> * ?m)"
    by (rule up [of _ "dec_value D (mi_short_quantity i) - dec_value D (mi_long_quantity i)
      + resting D ShortSide False qs + resting D LongSide True qs"])
      (use bounds(1) [of LongSide] bounds(2) [of ShortSide] extremes in auto)
  moreover have "?l * ?m \<le> max (dec_value D (am_value (mc_max_leg_notional (mi_config i))))
      (max (dec_value D (mi_long_quantity i)) (dec_value D (mi_short_quantity i)) * ?m)"
    by (rule up [of _ "dec_value D (mi_long_quantity i) + resting D LongSide False qs"])
      (use bounds(2) [of LongSide] extremes in auto)
  moreover have "?s * ?m \<le> max (dec_value D (am_value (mc_max_leg_notional (mi_config i))))
      (max (dec_value D (mi_long_quantity i)) (dec_value D (mi_short_quantity i)) * ?m)"
    by (rule up [of _ "dec_value D (mi_short_quantity i) + resting D ShortSide False qs"])
      (use bounds(2) [of ShortSide] extremes in auto)
  moreover have "(?l + ?s) * ?m \<le> max (dec_value D (am_value (mc_max_gross_notional (mi_config i))))
      ((dec_value D (mi_long_quantity i) + dec_value D (mi_short_quantity i)) * ?m)"
    by (rule up [of _ "dec_value D (mi_long_quantity i) + dec_value D (mi_short_quantity i)
      + resting D LongSide False qs + resting D ShortSide False qs"])
      (use bounds(2) [of LongSide] bounds(2) [of ShortSide] extremes in auto)
  moreover have "0 \<le> ?l" "0 \<le> ?s"
    using bounds(1) [of LongSide] bounds(1) [of ShortSide] extremes by auto
  ultimately show ?thesis unfolding mm_within_def Let_def by simp
qed

section \<open>The limits are checked exactly\<close>

abbreviation mm_no_exposure :: "'d decimal_api \<Rightarrow> 'd mm_exposure" where
  "mm_no_exposure D \<equiv> \<lparr>mx_long_open = dec_zero D, mx_short_open = dec_zero D,
     mx_long_close = dec_zero D, mx_short_close = dec_zero D\<rparr>"

text \<open>The limit that a permitted exposure is compared with.\<close>

definition mm_cap :: "'d decimal_api \<Rightarrow> bool \<Rightarrow> 'd amount \<Rightarrow> 'd \<Rightarrow> 'd" where
  "mm_cap D reduction limit current = (if reduction then dec_greatest D (am_value limit) current else am_value limit)"

lemma mm_cap_value:
  "dec_choice_laws D \<Longrightarrow>
    dec_value D (mm_cap D reduction limit current) \<le> max (dec_value D (am_value limit)) (dec_value D current)"
  by (simp add: mm_cap_def dec_choice_laws_def)

lemma risk_permits_steps:
  assumes "risk_permits D i qs reduction = Ok True"
  obtains x long short gross net lo long_max so short_max up_q up max_net down_q down min_net gross_max
    where "try_fold (mm_expose D) (mm_no_exposure D) qs = Ok x"
      and "\<not> dec_less D (mi_long_quantity i) (mx_long_close x)"
      and "\<not> dec_less D (mi_short_quantity i) (mx_short_close x)"
      and "mm_mul D (mi_long_quantity i) (price_value (mi_mark_price i)) = Ok long"
      and "mm_mul D (mi_short_quantity i) (price_value (mi_mark_price i)) = Ok short"
      and "mm_add D long short = Ok gross" and "mm_sub D long short = Ok net"
      and "mm_mul D (mx_long_open x) (price_value (mi_mark_price i)) = Ok lo"
      and "mm_add D long lo = Ok long_max"
      and "mm_mul D (mx_short_open x) (price_value (mi_mark_price i)) = Ok so"
      and "mm_add D short so = Ok short_max"
      and "mm_add D (mx_long_open x) (mx_short_close x) = Ok up_q"
      and "mm_mul D up_q (price_value (mi_mark_price i)) = Ok up" and "mm_add D net up = Ok max_net"
      and "mm_add D (mx_short_open x) (mx_long_close x) = Ok down_q"
      and "mm_mul D down_q (price_value (mi_mark_price i)) = Ok down" and "mm_sub D net down = Ok min_net"
      and "mm_add D long_max short_max = Ok gross_max"
      and "dec_le D long_max (mm_cap D reduction (mc_max_leg_notional (mi_config i)) (dec_greatest D long short))"
      and "dec_le D short_max (mm_cap D reduction (mc_max_leg_notional (mi_config i)) (dec_greatest D long short))"
      and "dec_le D gross_max (mm_cap D reduction (mc_max_gross_notional (mi_config i)) gross)"
      and "dec_le D max_net (mm_cap D reduction (mc_max_net_notional (mi_config i)) (dec_abs D net))"
      and "dec_le D (dec_neg D (mm_cap D reduction (mc_max_net_notional (mi_config i)) (dec_abs D net))) min_net"
  using assms unfolding risk_permits_def Let_def mm_cap_def [symmetric] and_then_Ok
  by (auto simp: and_then_Ok split: if_splits)

lemma no_exposure_sums:
  assumes "try_fold (mm_expose D) (mm_no_exposure D) qs = Ok x" and "mm_exact D s t v mark"
    and "dec_const_laws D" and "list_all (\<lambda>q. on_grid s (quote_value D q)) qs"
    and "sum_list (map (quote_value D) qs) \<le> v"
  shows "exposed D x leg close = resting D leg close qs"
    and "on_grid s (resting D leg close qs)" and "0 \<le> resting D leg close qs"
    and "resting D LongSide False qs + resting D ShortSide False qs + resting D LongSide True qs
      + resting D ShortSide True qs = sum_list (map (quote_value D) qs)"
proof -
  have zero: "exposed D (mm_no_exposure D) l c = 0" for l c
    by (simp add: exposed_def assms(3) split: position_side.split)
  have grid: "exposed_grid D s (mm_no_exposure D)" by (simp add: exposed_grid_def zero)
  have total_zero: "exposed_total D (mm_no_exposure D) = 0" by (simp add: exposed_total_def zero)
  have all: "(\<forall>l c. exposed D x l c = exposed D (mm_no_exposure D) l c + resting D l c qs)
    \<and> exposed_grid D s x \<and> exposed_total D x = 0 + sum_list (map (quote_value D) qs)"
    using exposed_sums [OF assms(1,2) grid assms(4)] assms(5) by (simp add: total_zero)
  then show sums: "exposed D x leg close = resting D leg close qs" for leg close by (simp add: zero)
  from all have "on_grid s (exposed D x leg close) \<and> 0 \<le> exposed D x leg close"
    unfolding exposed_grid_def by blast
  then show "on_grid s (resting D leg close qs)" "0 \<le> resting D leg close qs" by (simp_all add: sums)
  from all have "exposed_total D x = sum_list (map (quote_value D) qs)" by simp
  then show "resting D LongSide False qs + resting D ShortSide False qs + resting D LongSide True qs
      + resting D ShortSide True qs = sum_list (map (quote_value D) qs)"
    unfolding exposed_total_def sums .
qed

lemma risk_permits_values:
  assumes "risk_permits D i qs reduction = Ok True" and scale: "mm_on_scale D i qs s t"
    and laws: "dec_exact_laws D" "dec_const_laws D"
    and legs: "0 \<le> dec_value D (mi_long_quantity i)" "0 \<le> dec_value D (mi_short_quantity i)"
    and m: "dec_value D (price_value (mi_mark_price i)) = m"
    and l: "dec_value D (mi_long_quantity i) = l" and sh: "dec_value D (mi_short_quantity i) = sh"
    and lo: "resting D LongSide False qs = lo" and so: "resting D ShortSide False qs = so"
    and lc: "resting D LongSide True qs = lc" and sc: "resting D ShortSide True qs = sc"
  obtains long short gross net long_max short_max gross_max max_net min_net
    where "lc \<le> l" and "sc \<le> sh"
      and "dec_value D long = l * m" and "dec_value D short = sh * m"
      and "dec_value D gross = (l + sh) * m" and "dec_value D net = (l - sh) * m"
      and "dec_value D long_max = (l + lo) * m" and "dec_value D short_max = (sh + so) * m"
      and "dec_value D gross_max = (l + lo + (sh + so)) * m"
      and "dec_value D max_net = (l - sh + (lo + sc)) * m"
      and "dec_value D min_net = (l - sh - (so + lc)) * m"
      and "dec_le D long_max (mm_cap D reduction (mc_max_leg_notional (mi_config i)) (dec_greatest D long short))"
      and "dec_le D short_max (mm_cap D reduction (mc_max_leg_notional (mi_config i)) (dec_greatest D long short))"
      and "dec_le D gross_max (mm_cap D reduction (mc_max_gross_notional (mi_config i)) gross)"
      and "dec_le D max_net (mm_cap D reduction (mc_max_net_notional (mi_config i)) (dec_abs D net))"
      and "dec_le D (dec_neg D (mm_cap D reduction (mc_max_net_notional (mi_config i)) (dec_abs D net))) min_net"
  using assms(1)
proof (cases rule: risk_permits_steps)
  case (1 x long short gross net lov long_max sov short_max up_q up max_net down_q down min_net gross_max)
  let ?v = "total_quantity D i qs"
  have quotes: "0 \<le> sum_list (map (quote_value D) qs)" using 1(1) by (rule expose_nonneg)
  then have "0 \<le> ?v" using legs by (simp add: total_quantity_def)
  then have exact: "mm_exact D s t ?v (dec_value D (price_value (mi_mark_price i)))"
    using scale laws(1) by (simp add: mm_on_scale_def mm_exact_def)
  have grid: "on_grid s (dec_value D (mi_long_quantity i))" "on_grid s (dec_value D (mi_short_quantity i))"
    and quote_grid: "list_all (\<lambda>q. on_grid s (quote_value D q)) qs"
    using scale on_scale_grid by (auto simp: mm_on_scale_def list_all_iff)
  have "sum_list (map (quote_value D) qs) \<le> ?v" using legs by (simp add: total_quantity_def)
  note sums = no_exposure_sums [OF 1(1) exact laws(2) quote_grid this]
  have fields: "dec_value D (mx_long_open x) = lo" "dec_value D (mx_short_open x) = so"
    "dec_value D (mx_long_close x) = lc" "dec_value D (mx_short_close x) = sc"
    using sums(1) [of LongSide False] sums(1) [of ShortSide False] sums(1) [of LongSide True]
      sums(1) [of ShortSide True] lo so lc sc
    by (simp_all add: exposed_def)
  have r: "on_grid s lo" "on_grid s so" "on_grid s lc" "on_grid s sc"
    using sums(2) lo so lc sc by blast+
  have nonneg: "0 \<le> lo" "0 \<le> so" "0 \<le> lc" "0 \<le> sc" "0 \<le> l" "0 \<le> sh"
    using sums(3) [of LongSide False] sums(3) [of ShortSide False] sums(3) [of LongSide True]
      sums(3) [of ShortSide True] lo so lc sc legs l sh by simp_all
  have all: "l + sh + lo + so + lc + sc = ?v"
    using sums(4) by (simp add: total_quantity_def l sh lo so lc sc)
  note exact = exact [unfolded m] and grid = grid [unfolded l sh]
  note at = at_mark [OF exact [folded m], unfolded m]
  have long: "dec_value D long = l * m" and short: "dec_value D short = sh * m"
    using at [OF 1(4)] at [OF 1(5)] grid nonneg all by (simp_all add: l sh)
  have gross: "dec_value D gross = (l + sh) * m"
    by (rule add_value [OF exact 1(6) long short grid]) (use nonneg all in linarith)
  have net: "dec_value D net = (l - sh) * m"
    by (rule sub_value [OF exact 1(7) long short grid]) (use nonneg all in linarith)
  have lov: "dec_value D lov = lo * m" and sov: "dec_value D sov = so * m"
    using at [OF 1(8)] at [OF 1(10)] r nonneg all by (simp_all add: fields)
  have long_max: "dec_value D long_max = (l + lo) * m"
    by (rule add_value [OF exact 1(9) long lov grid(1) r(1)]) (use nonneg all in linarith)
  have short_max: "dec_value D short_max = (sh + so) * m"
    by (rule add_value [OF exact 1(11) short sov grid(2) r(2)]) (use nonneg all in linarith)
  have quantities: "dec_value D up_q = lo + sc" "dec_value D down_q = so + lc"
    using add_quantity [OF exact 1(12)] add_quantity [OF exact 1(15)] r nonneg all
    by (simp_all add: fields)
  then have up: "dec_value D up = (lo + sc) * m" and down: "dec_value D down = (so + lc) * m"
    using at [OF 1(13)] at [OF 1(16)] r nonneg all by (simp_all add: on_grid_add)
  have max_net: "dec_value D max_net = (l - sh + (lo + sc)) * m"
    by (rule add_value [OF exact 1(14) net up on_grid_diff [OF grid] on_grid_add [OF r(1,4)]])
      (use nonneg all in linarith)
  have min_net: "dec_value D min_net = (l - sh - (so + lc)) * m"
    by (rule sub_value [OF exact 1(17) net down on_grid_diff [OF grid] on_grid_add [OF r(2,3)]])
      (use nonneg all in linarith)
  have gross_max: "dec_value D gross_max = (l + lo + (sh + so)) * m"
    by (rule add_value [OF exact 1(18) long_max short_max on_grid_add [OF grid(1) r(1)]
      on_grid_add [OF grid(2) r(2)]]) (use nonneg all in linarith)
  have closes: "lc \<le> l" "sc \<le> sh"
    using 1(2,3) by (simp_all add: dec_less_def fields l sh)
  show thesis
    by (rule that [OF closes long short gross net long_max short_max gross_max max_net min_net 1(19-23)])
qed

theorem risk_permits_exact:
  assumes permits: "risk_permits D i qs reduction = Ok True" and scale: "mm_on_scale D i qs s t"
    and laws: "dec_exact_laws D" "dec_const_laws D" "dec_sign_laws D" "dec_choice_laws D"
    and legs: "0 \<le> dec_value D (mi_long_quantity i)" "0 \<le> dec_value D (mi_short_quantity i)"
  shows "mm_extremes_within D i qs"
proof (rule risk_permits_values [OF permits scale laws(1,2) legs refl refl refl refl refl refl refl])
  let ?m = "dec_value D (price_value (mi_mark_price i))"
  let ?l = "dec_value D (mi_long_quantity i)" and ?s = "dec_value D (mi_short_quantity i)"
  fix long short gross net long_max short_max gross_max max_net min_net
  assume v: "resting D LongSide True qs \<le> ?l" "resting D ShortSide True qs \<le> ?s"
      "dec_value D long = ?l * ?m" "dec_value D short = ?s * ?m"
      "dec_value D gross = (?l + ?s) * ?m" "dec_value D net = (?l - ?s) * ?m"
      "dec_value D long_max = (?l + resting D LongSide False qs) * ?m"
      "dec_value D short_max = (?s + resting D ShortSide False qs) * ?m"
      "dec_value D gross_max = (?l + resting D LongSide False qs + (?s + resting D ShortSide False qs)) * ?m"
      "dec_value D max_net = (?l - ?s + (resting D LongSide False qs + resting D ShortSide True qs)) * ?m"
      "dec_value D min_net = (?l - ?s - (resting D ShortSide False qs + resting D LongSide True qs)) * ?m"
    and c: "dec_le D long_max (mm_cap D reduction (mc_max_leg_notional (mi_config i)) (dec_greatest D long short))"
      "dec_le D short_max (mm_cap D reduction (mc_max_leg_notional (mi_config i)) (dec_greatest D long short))"
      "dec_le D gross_max (mm_cap D reduction (mc_max_gross_notional (mi_config i)) gross)"
      "dec_le D max_net (mm_cap D reduction (mc_max_net_notional (mi_config i)) (dec_abs D net))"
      "dec_le D (dec_neg D (mm_cap D reduction (mc_max_net_notional (mi_config i)) (dec_abs D net))) min_net"
  have m: "0 < ?m" using scale by (simp add: mm_on_scale_def)
  have leg: "dec_value D (dec_greatest D long short) = max ?l ?s * ?m"
    using laws(4) m v(3,4) by (simp add: dec_choice_laws_def max_def mult_le_cancel_right)
  have absolute: "dec_value D (dec_abs D net) = \<bar>?l - ?s\<bar> * ?m"
    using m by (simp add: dec_abs_value laws(3) v(6) abs_mult)
  have neg: "dec_value D (dec_neg D a) = - dec_value D a" for a
    using laws(3) by (simp add: dec_sign_laws_def)
  note cap = mm_cap_value [OF laws(4), of reduction]
  have net_cap: "dec_value D max_net \<le> max (dec_value D (am_value (mc_max_net_notional (mi_config i)))) (\<bar>?l - ?s\<bar> * ?m)"
    "- dec_value D min_net \<le> max (dec_value D (am_value (mc_max_net_notional (mi_config i)))) (\<bar>?l - ?s\<bar> * ?m)"
    using c(4,5) cap [of "mc_max_net_notional (mi_config i)" "dec_abs D net"]
    by (simp_all only: dec_le_def neg absolute)
  have leg_cap: "dec_value D long_max \<le> max (dec_value D (am_value (mc_max_leg_notional (mi_config i)))) (max ?l ?s * ?m)"
    "dec_value D short_max \<le> max (dec_value D (am_value (mc_max_leg_notional (mi_config i)))) (max ?l ?s * ?m)"
    using c(1,2) cap [of "mc_max_leg_notional (mi_config i)" "dec_greatest D long short"]
    by (simp_all only: dec_le_def leg)
  have gross_cap: "dec_value D gross_max
      \<le> max (dec_value D (am_value (mc_max_gross_notional (mi_config i)))) ((?l + ?s) * ?m)"
    using c(3) cap [of "mc_max_gross_notional (mi_config i)" gross] by (simp only: dec_le_def v(5))
  show ?thesis
    using v(1,2) net_cap leg_cap gross_cap unfolding mm_extremes_within_def Let_def v(7-11)
    by (simp add: algebra_simps)
qed

section \<open>The plan's quotes have been permitted\<close>

text \<open>What the limits make of a list of quotes depends on its sums, so equal quotes may be exchanged.\<close>

definition same_resting :: "'d decimal_api \<Rightarrow> 'd mm_quote list \<Rightarrow> 'd mm_quote list \<Rightarrow> bool" where
  "same_resting D qs rs \<longleftrightarrow>
     (\<forall>leg close. resting D leg close qs = resting D leg close rs)
     \<and> sum_list (map (quote_value D) qs) = sum_list (map (quote_value D) rs)
     \<and> quote_value D ` set qs = quote_value D ` set rs"

lemma same_resting_scale:
  assumes "same_resting D qs rs" and "mm_on_scale D i rs s t" shows "mm_on_scale D i qs s t"
proof -
  have "\<forall>v \<in> quote_value D ` set qs. on_scale s v"
    using assms by (simp add: same_resting_def mm_on_scale_def list_all_iff)
  then show ?thesis
    using assms by (simp add: same_resting_def mm_on_scale_def total_quantity_def list_all_iff)
qed

lemma same_resting_extremes:
  "same_resting D qs rs \<Longrightarrow> mm_extremes_within D i qs \<Longrightarrow> mm_extremes_within D i rs"
  by (simp add: same_resting_def mm_extremes_within_def)

lemma same_resting_mset:
  fixes qs rs :: "'d mm_quote list"
  assumes same: "mset qs = mset rs"
  shows "same_resting D qs rs"
proof -
  have sums: "sum_list (map f qs) = sum_list (map f rs)" for f :: "'d mm_quote \<Rightarrow> rat"
    using arg_cong [OF same, of "\<lambda>m. sum_mset (image_mset f m)"]
    by (simp add: sum_mset_sum_list [symmetric])
  have "resting D leg close xs = sum_list (map (\<lambda>q. if mq_position_side q = leg \<and> mq_reduce_only q = close
      then quote_value D q else 0) xs)" for leg close and xs :: "'d mm_quote list"
    by (induction xs) (simp_all add: resting_Cons)
  then show ?thesis
    using sums mset_eq_setD [OF same] by (simp add: same_resting_def)
qed

lemma same_resting_trans: "same_resting D a b \<Longrightarrow> same_resting D b c \<Longrightarrow> same_resting D a c"
  by (simp add: same_resting_def)

lemma same_resting_append:
  "same_resting D a b \<Longrightarrow> same_resting D c d \<Longrightarrow> same_resting D (a @ c) (b @ d)"
  by (simp add: same_resting_def resting_append image_Un)

lemma same_resting_eq: "quote_eq D a b \<Longrightarrow> same_resting D [a] [b]"
  by (simp add: same_resting_def resting_eq) (simp add: quote_eq_def quote_value_def dec_eq_def)

lemma same_resting_refl [simp]: "same_resting D qs qs"
  by (simp add: same_resting_def)

text \<open>A quote of the loop has been permitted with all before it, and each side quotes once.\<close>

lemma desire_side_cases:
  assumes "desire_side D i foreign bid ask breached net desired side = Ok desired'"
  obtains "desired' = desired"
  | q where "desired' = desired @ [q]" and "mq_side q = side"
      and "risk_permits D i (foreign @ desired') breached = Ok True"
      and "quote_for_side D i side (mq_price q) (foreign @ desired) breached net = Ok (Some q)"
      and "price_value (mq_price q) = (case side of Buy \<Rightarrow> bid | Sell \<Rightarrow> ask)"
proof -
  have side: "mq_side q = side \<and> mq_price q = price"
    if "quote_for_side D i side price reserved breached net = Ok (Some q)" for price reserved q
    using that
    by (auto simp: quote_for_side_def Let_def and_then_Ok closing_quote_def opening_quote_def
        split: if_splits)
  obtain price found where price: "price_value price = (case side of Buy \<Rightarrow> bid | Sell \<Rightarrow> ask)"
    and found: "quote_for_side D i side price (foreign @ desired) breached net = Ok found"
    and rest: "(case found of None \<Rightarrow> Ok desired
      | Some quote \<Rightarrow> and_then (risk_permits D i ((foreign @ desired) @ [quote]) breached) (\<lambda>permitted.
          Ok (if permitted then desired @ [quote] else desired))) = Ok desired'"
    using assms unfolding desire_side_def Let_def and_then_Ok map_err_Ok price_new_Ok
    by (elim exE conjE) (rule that, simp_all)
  show thesis
  proof (cases found)
    case None
    then show thesis using rest that(1) by simp
  next
    case (Some q)
    then show thesis
      using rest that side [of price "foreign @ desired" q] found price
      by (cases "risk_permits D i (foreign @ desired @ [q]) breached") (auto split: if_splits)
  qed
qed

lemma mm_desired_permitted:
  assumes "mm_desired D i foreign bid ask breached net = Ok desired" and "q \<in> set desired"
  shows "risk_permits D i (foreign @ desired) breached = Ok True"
    and "distinct (map mq_side desired)" and "length desired \<le> 2"
    and "\<exists>reserved. quote_for_side D i (mq_side q) (mq_price q) reserved breached net = Ok (Some q)
      \<and> price_value (mq_price q) = (case mq_side q of Buy \<Rightarrow> bid | Sell \<Rightarrow> ask)"
proof -
  obtain first second d where sides: "distinct [first, second]"
    and one: "desire_side D i foreign bid ask breached net [] first = Ok d"
    and two: "desire_side D i foreign bid ask breached net d second = Ok desired"
    using assms(1) by (auto simp: mm_desired_def and_then_Ok split: if_splits)
  have "risk_permits D i (foreign @ desired) breached = Ok True \<and> distinct (map mq_side desired)
    \<and> length desired \<le> 2
    \<and> (\<exists>reserved. quote_for_side D i (mq_side q) (mq_price q) reserved breached net = Ok (Some q)
      \<and> price_value (mq_price q) = (case mq_side q of Buy \<Rightarrow> bid | Sell \<Rightarrow> ask))"
    using one
  proof (cases rule: desire_side_cases)
    case 1
    show ?thesis using two
    proof (cases rule: desire_side_cases)
      case 1
      then show ?thesis using assms(2) \<open>d = []\<close> by simp
    next
      case (2 b)
      then show ?thesis using assms(2) \<open>d = []\<close> by auto
    qed
  next
    case a: (2 a)
    show ?thesis using two
    proof (cases rule: desire_side_cases)
      case 1
      then show ?thesis using assms(2) a by auto
    next
      case (2 b)
      then show ?thesis using assms(2) a sides by auto
    qed
  qed
  then show "risk_permits D i (foreign @ desired) breached = Ok True"
    and "distinct (map mq_side desired)" and "length desired \<le> 2"
    and "\<exists>reserved. quote_for_side D i (mq_side q) (mq_price q) reserved breached net = Ok (Some q)
      \<and> price_value (mq_price q) = (case mq_side q of Buy \<Rightarrow> bid | Sell \<Rightarrow> ask)"
    by blast+
qed

lemma mm_decide_Quote:
  assumes "mm_decide D i own desired safe breached = Quote quotes reason"
  obtains "mm_owned i = []" and "quotes = desired" and "desired \<noteq> []"
  | old a b where "own = [old]" and "desired = [a, b]" and "quote_eq D a old \<or> quote_eq D b old"
      and "quotes = filter (\<lambda>q. \<not> quote_eq D old q) desired"
proof -
  have one: "\<exists>x. xs = [x]" if "length xs = Suc 0" for xs :: "'b list"
    using that by (cases xs) auto
  have two: "\<exists>x y. xs = [x, y]" if "length xs = 2" for xs :: "'b list"
    using that by (cases xs; cases "tl xs") auto
  show thesis
    using assms that one [of own] two [of desired]
    by (auto simp: mm_decide_def Let_def quote_in_def split: if_splits)
qed

lemma mm_act_Quote:
  assumes "mm_act D i net gross spread = Ok (Quote quotes reason)"
  obtains existing breached safe own bid ask foreign desired
    where "signed_quotes D i = Ok existing" and "mm_breached D i net gross = Ok breached"
      and "mi_pending_quotes i = []" and "try_map (order_quote D) (mm_owned i) = Ok own"
      and "mm_prices D i net spread = Ok (bid, ask)"
      and "\<not> dec_less D bid (pr_minimum (md_price (mi_instrument i)))"
      and "\<not> dec_less D (price_value (mi_maximum_price i)) ask" and "\<not> dec_le D ask bid"
      and "try_map (order_quote D) (mm_foreign i) = Ok foreign"
      and "mm_desired D i foreign bid ask breached net = Ok desired"
      and "mm_decide D i own desired safe breached = Quote quotes reason"
  using assms unfolding mm_act_def Let_def and_then_Ok
  by (auto simp: and_then_Ok split: if_splits prod.splits)

lemma try_map_partition:
  assumes "try_map f xs = Ok ys" and "try_map f (filter P xs) = Ok as'"
    and "try_map f (filter (\<lambda>x. \<not> P x) xs) = Ok bs"
  shows "mset ys = mset (bs @ as')"
  using assms
proof (induction xs arbitrary: ys as' bs)
  case (Cons x xs)
  then show ?case by (cases "P x") (fastforce simp: and_then_Ok)+
qed simp

lemma signed_partition:
  assumes "signed_quotes D i = Ok existing" and "try_map (order_quote D) (mm_owned i) = Ok own"
    and "try_map (order_quote D) (mm_foreign i) = Ok foreign"
  shows "mset existing = mset (foreign @ own)"
  using try_map_partition [OF assms(1) [unfolded signed_quotes_def],
      of "\<lambda>ord. or_order_id ord \<in> set (mi_owned_order_ids i)" own foreign] assms(2,3)
  by (simp add: mm_owned_def mm_foreign_def conj_commute)

text \<open>What rests after the plan is, in its sums, what the limits have permitted.\<close>

lemma quoted_same_resting:
  assumes act: "mm_act D i net gross spread = Ok (Quote quotes reason)"
    and existing: "signed_quotes D i = Ok existing"
  obtains foreign desired breached
    where "same_resting D (foreign @ desired) (existing @ quotes)"
      and "risk_permits D i (foreign @ desired) breached = Ok True"
  using act
proof (cases rule: mm_act_Quote)
  case (1 existing' breached safe own bid ask foreign desired)
  have before: "mset existing = mset (foreign @ own)"
    using signed_partition [OF existing 1(4,9)] .
  note permitted = mm_desired_permitted [OF 1(10)]
  show thesis using 1(11)
  proof (cases rule: mm_decide_Quote)
    case 1
    then have "own = []" using \<open>try_map (order_quote D) (mm_owned i) = Ok own\<close> by simp
    then have "same_resting D (foreign @ desired) (existing @ quotes)"
      using before 1 by (intro same_resting_mset) simp
    then show thesis using that permitted(1) [of "hd desired"] 1 by simp
  next
    case (2 old a b)
    then have sides: "mq_side a \<noteq> mq_side b" using permitted(2) [of a] by simp
    have sym: "quote_eq D x y \<Longrightarrow> quote_eq D y x" for x y
      by (auto simp: quote_eq_def price_eq_def dec_eq_def)
    have side: "quote_eq D x y \<Longrightarrow> mq_side x = mq_side y" for x y by (simp add: quote_eq_def)
    have "same_resting D desired (own @ quotes)"
    proof (cases "quote_eq D a old")
      case True
      then have "quotes = [b]" using 2 sides side [of a old] side [of old b] sym by auto
      then show ?thesis using same_resting_append [OF same_resting_eq [OF True], of "[b]" "[b]"] 2
        by (simp add: same_resting_def)
    next
      case False
      then have b: "quote_eq D b old" using 2 by simp
      then have "quotes = [a]" using 2 sides side [of b old] side [of old a] sym False by auto
      then show ?thesis
        using same_resting_append [OF same_resting_eq [OF b], of "[a]" "[a]"] 2
          same_resting_mset [of "[a, b]" "[b, a]" D] by (auto simp: same_resting_def)
    qed
    then have "same_resting D (foreign @ desired) (foreign @ own @ quotes)"
      by (rule same_resting_append [OF same_resting_refl])
    moreover have "same_resting D (foreign @ own @ quotes) (existing @ quotes)"
      using before by (intro same_resting_mset) simp
    ultimately show thesis
      using that permitted(1) [of a] 2 same_resting_trans by simp blast
  qed
qed

end
