(* ===== verification/Market_Maker_Samples.thy ===== *)
theory Market_Maker_Samples
  imports Market_Maker_Limits
begin

text \<open>
  A concrete input of the market maker and its plan, evaluated part by part.
\<close>

section \<open>A maker with a long leg\<close>

text \<open>
  One unit long around a book of 99 and 101; another order for a tenth already rests.  The plan
  closes a part of the leg at the ask and opens as much at the bid.
\<close>

definition mm_sample_config :: "rat mm_config" where
  "mm_sample_config =
     (let usd = amount_new (Asset ''USDC'') in
      \<lparr>mc_symbol = \<lparr>sym_base = ''BTC'', sym_quote = ''USDC''\<rparr>, mc_order_notional = usd 10,
       mc_max_leg_notional = usd 150, mc_max_gross_notional = usd 200, mc_max_net_notional = usd 130,
       mc_base_half_spread_bps = 20, mc_inventory_skew_bps = 0, mc_volatility_multiplier = 1,
       mc_volatility_period = 20, mc_refresh_interval_ms = 1000, mc_max_market_age_ms = 1000,
       mc_max_private_age_ms = 1000, mc_max_loss_quote = usd 50, mc_max_drawdown_quote = usd 50\<rparr>)"

definition mm_sample_order :: "rat order" where
  "mm_sample_order =
     \<lparr>or_order_id = ''7'', or_client_order_id = Missing,
      or_symbol = \<lparr>sym_base = ''BTC'', sym_quote = ''USDC''\<rparr>, or_side = Buy,
      or_position_side = Known LongSide, or_purpose = Missing, or_state = New, or_quantity = 1 / 10,
      or_filled_quantity = 0, or_limit_price = Some (Price 98), or_time_in_force = Missing,
      or_average_price = Missing, or_reduce_only = False\<rparr>"

definition mm_sample_metadata :: "rat instrument_metadata" where
  "mm_sample_metadata =
     \<lparr>md_instrument = \<lparr>in_symbol = \<lparr>sym_base = ''BTC'', sym_quote = ''USDC''\<rparr>,
        in_market = LinearPerpetual, in_settlement_asset = Some (Asset ''USDC''), in_generation = 1,
        in_price_tick = Price (1 / 10), in_quantity_step = 1 / 1000,
        in_minimum_notional = amount_new (Asset ''USDC'') 5\<rparr>,
      md_price = \<lparr>pr_step = 1 / 10, pr_minimum = 1 / 10\<rparr>,
      md_quantity = \<lparr>pr_step = 1 / 1000, pr_minimum = 1 / 1000\<rparr>, md_contract = None,
      md_trading_enabled = True\<rparr>"

definition mm_sample_account :: "rat account_risk_snapshot" where
  "mm_sample_account =
     \<lparr>ar_exchange = ''binance'', ar_account = ''main'', ar_risk_currency = Asset ''USDC'',
      ar_account_equity = 1000, ar_private_generation = 3, ar_observed_at_ms = 10,
      ar_source_status = Complete\<rparr>"

definition mm_sample :: "rat mm_input" where
  "mm_sample =
     \<lparr>mi_config = mm_sample_config, mi_instrument = mm_sample_metadata,
      mi_maximum_quantity = 100, mi_maximum_price = Price 10000, mi_best_bid = Price 99,
      mi_best_ask = Price 101, mi_mark_price = Price 100, mi_market_observed_at_ms = 10,
      mi_long_quantity = 1, mi_short_quantity = 0, mi_live_orders = [mm_sample_order],
      mi_owned_order_ids = [], mi_pending_quotes = [], mi_unknown_results = False,
      mi_account = mm_sample_account,
      mi_equity_baseline = amount_new (Asset ''USDC'') 1000, mi_equity_peak = amount_new (Asset ''USDC'') 1010,
      mi_available_open_notional = amount_new (Asset ''USDC'') 500, mi_volatility_bps = 5,
      mi_previous_quotes_at_ms = None, mi_now_ms = 20, mi_control = MmRun\<rparr>"

definition mm_sample_quotes :: "rat mm_quote list" where
  "mm_sample_quotes =
     [\<lparr>mq_side = Sell, mq_position_side = LongSide, mq_price = Price 101, mq_quantity = 99 / 1000,
       mq_reduce_only = True\<rparr>,
      \<lparr>mq_side = Buy, mq_position_side = LongSide, mq_price = Price 99, mq_quantity = 101 / 1000,
       mq_reduce_only = False\<rparr>]"

definition mm_sample_resting :: "rat mm_quote" where
  "mm_sample_resting =
     \<lparr>mq_side = Buy, mq_position_side = LongSide, mq_price = Price 98, mq_quantity = 1 / 10,
      mq_reduce_only = False\<rparr>"

lemma mm_sample_valid:
  "mm_config_validate rat_api mm_sample_config = Ok ()"
  "metadata_validate rat_api mm_sample_metadata = Ok ()"
  "order_validate rat_api mm_sample_order = Ok ()"
  "account_validate_at rat_api mm_sample_account 20 1000 = Ok ()"
  by code_simp+

lemma mm_sample_fields:
  "md_instrument mm_sample_metadata = \<lparr>in_symbol = \<lparr>sym_base = ''BTC'', sym_quote = ''USDC''\<rparr>,
     in_market = LinearPerpetual, in_settlement_asset = Some (Asset ''USDC''), in_generation = 1,
     in_price_tick = Price (1 / 10), in_quantity_step = 1 / 1000,
     in_minimum_notional = amount_new (Asset ''USDC'') 5\<rparr>"
  "md_price mm_sample_metadata = \<lparr>pr_step = 1 / 10, pr_minimum = 1 / 10\<rparr>"
  "md_quantity mm_sample_metadata = \<lparr>pr_step = 1 / 1000, pr_minimum = 1 / 1000\<rparr>"
  "md_contract mm_sample_metadata = None" "md_trading_enabled mm_sample_metadata"
  "ar_risk_currency mm_sample_account = Asset ''USDC''" "ar_account_equity mm_sample_account = 1000"
  "or_symbol mm_sample_order = \<lparr>sym_base = ''BTC'', sym_quote = ''USDC''\<rparr>"
  "or_state mm_sample_order = New" "or_order_id mm_sample_order = ''7''"
  "mc_max_private_age_ms mm_sample_config = 1000"
  "order_quote rat_api mm_sample_order = Ok mm_sample_resting"
  by (simp_all add: mm_sample_metadata_def mm_sample_account_def mm_sample_order_def mm_sample_config_def
      Let_def) code_simp

lemma mm_sample_facts: "mm_validate_facts rat_api mm_sample = Ok ()"
  by (simp add: mm_validate_facts_def mm_sample_def mm_sample_valid mm_sample_fields mm_check_order_def
      mm_sample_config_def Let_def dec_rel_defs)

lemma mm_sample_desired:
  "mm_desired rat_api mm_sample [mm_sample_resting] 99 101 False 100 = Ok mm_sample_quotes"
  by code_simp

lemma mm_sample_orders: "signed_quotes rat_api mm_sample = Ok [mm_sample_resting]"
  by (simp add: signed_quotes_def mm_sample_def mm_sample_fields mm_active_def)

lemma mm_sample_acts: "mm_act rat_api mm_sample 100 100 20 = Ok (Quote mm_sample_quotes Normal)"
proof -
  have parts: "mm_breached rat_api mm_sample 100 100 = Ok False"
    "risk_permits rat_api mm_sample [mm_sample_resting] False = Ok True"
    "mm_prices rat_api mm_sample 100 20 = Ok (99, 101)"
    by code_simp+
  have lists: "mm_owned mm_sample = []" "mm_foreign mm_sample = [mm_sample_order]"
    "mi_pending_quotes mm_sample = []" "mi_instrument mm_sample = mm_sample_metadata"
    "mi_maximum_price mm_sample = Price 10000"
    by (simp_all add: mm_owned_def mm_foreign_def mm_sample_def mm_sample_fields mm_active_def)
  show ?thesis
    by (simp add: mm_act_def Let_def mm_sample_orders parts lists mm_sample_fields mm_sample_desired
        mm_decide_def dec_rel_defs) (simp add: mm_sample_quotes_def)
qed

lemma mm_sample_planned:
  "mm_plan rat_api mm_sample =
    Ok \<lparr>mp_action = Quote mm_sample_quotes Normal, mp_net_notional = 100, mp_gross_notional = 100,
      mp_half_spread_bps = 20\<rparr>"
proof -
  have valid: "mm_config_validate rat_api (mi_config mm_sample) = Ok ()"
    "account_validate_at rat_api (mi_account mm_sample) (mi_now_ms mm_sample)
      (mc_max_private_age_ms (mi_config mm_sample)) = Ok ()"
    using mm_sample_valid by (simp_all add: mm_sample_def mm_sample_fields)
  have guards: "mm_sub rat_api (mi_long_quantity mm_sample) (mi_short_quantity mm_sample) = Ok 1"
    "mm_add rat_api (mi_long_quantity mm_sample) (mi_short_quantity mm_sample) = Ok 1"
    "mm_mul rat_api 1 (price_value (mi_mark_price mm_sample)) = Ok 100"
    "mm_mul rat_api (mi_volatility_bps mm_sample) (mc_volatility_multiplier (mi_config mm_sample)) = Ok 5"
    "mc_base_half_spread_bps (mi_config mm_sample) = 20"
    "mi_control mm_sample = MmRun" "\<not> mi_unknown_results mm_sample"
    "\<not> list_ex (\<lambda>ord. or_state ord = UnknownState) (mi_live_orders mm_sample)"
    "mm_fresh (mi_market_observed_at_ms mm_sample) (mi_now_ms mm_sample)
      (mc_max_market_age_ms (mi_config mm_sample))"
    "mm_sub rat_api (am_value (mi_equity_baseline mm_sample)) (ar_account_equity (mi_account mm_sample)) = Ok 0"
    "mm_sub rat_api (am_value (mi_equity_peak mm_sample)) (ar_account_equity (mi_account mm_sample)) = Ok 10"
    "am_value (mc_max_loss_quote (mi_config mm_sample)) = 50"
    "am_value (mc_max_drawdown_quote (mi_config mm_sample)) = 50"
    by (simp_all add: mm_sample_def mm_sample_config_def mm_sample_fields mm_add_def mm_sub_def mm_mul_def
        mm_fresh_def Let_def ok_or_Ok)
  show ?thesis
    by (simp add: mm_plan_def valid mm_sample_facts guards mm_sample_acts Let_def dec_rel_defs)
qed

text \<open>What rests and what is quoted is a multiple of a thousandth, the mark an integer.\<close>

lemma mm_sample_on_scale: "mm_on_scale rat_api mm_sample ([mm_sample_resting] @ mm_sample_quotes) 3 0"
proof -
  have scale: "on_scale s (of_int k / 10 ^ s)" if "\<bar>k\<bar> < 2 ^ 96" "s \<le> 28" for k s
    using that by (auto simp: on_scale_def)
  have "on_scale 3 1" "on_scale 3 0" "on_scale 3 (1 / 10)" "on_scale 3 (99 / 1000)" "on_scale 3 (101 / 1000)"
    "on_scale 0 100" "on_scale 3 (13 / 10)" "on_scale 3 130"
    using scale [of 1000 3] scale [of 0 3] scale [of 100 3] scale [of 99 3] scale [of 101 3] scale [of 100 0]
      scale [of 1300 3] scale [of 130000 3]
    by simp_all
  then show ?thesis
    by (simp add: mm_on_scale_def mm_sample_def mm_sample_quotes_def mm_sample_resting_def quote_value_def
        total_quantity_def)
qed

lemma mm_sample_action:
  "mp_action \<lparr>mp_action = Quote mm_sample_quotes Normal, mp_net_notional = 100 :: rat, mp_gross_notional = 100,
      mp_half_spread_bps = 20\<rparr> = Quote mm_sample_quotes Normal"
  by simp

lemma mm_sample_equity:
  "dec_representable (dec_value rat_api (am_value (mi_equity_baseline mm_sample))
     - dec_value rat_api (ar_account_equity (mi_account mm_sample)))"
  "dec_representable (dec_value rat_api (am_value (mi_equity_peak mm_sample))
     - dec_value rat_api (ar_account_equity (mi_account mm_sample)))"
  by (simp_all add: mm_sample_def mm_sample_fields dec_representable_def exI [of _ "0 :: nat"]
      exI [of _ "0 :: int"] exI [of _ "10 :: int"])

end
