(* ===== verification/Market_Maker_Properties.thy ===== *)
theory Market_Maker_Properties
  imports Market_Maker_Samples
begin

text \<open>
  Properties of the inventory market maker: whatever fills, the legs stay within the limits, and
  a quote is given only on safe facts.
\<close>

lemma mm_plan_Quote:
  assumes "mm_plan D i = Ok plan" and "mp_action plan = Quote quotes reason"
  obtains equity_loss equity_drawdown
    where "mm_validate_facts D i = Ok ()" and "mi_control i = MmRun" and "\<not> mi_unknown_results i"
      and "\<not> list_ex (\<lambda>ord. or_state ord = UnknownState) (mi_live_orders i)"
      and "mm_fresh (mi_market_observed_at_ms i) (mi_now_ms i) (mc_max_market_age_ms (mi_config i))"
      and "is_ok (account_validate_at D (mi_account i) (mi_now_ms i) (mc_max_private_age_ms (mi_config i)))"
      and "mm_sub D (am_value (mi_equity_baseline i)) (ar_account_equity (mi_account i)) = Ok equity_loss"
      and "\<not> dec_le D (am_value (mc_max_loss_quote (mi_config i))) equity_loss"
      and "mm_sub D (am_value (mi_equity_peak i)) (ar_account_equity (mi_account i)) = Ok equity_drawdown"
      and "\<not> dec_le D (am_value (mc_max_drawdown_quote (mi_config i))) equity_drawdown"
      and "mm_act D i (mp_net_notional plan) (mp_gross_notional plan) (mp_half_spread_bps plan)
          = Ok (Quote quotes reason)"
  using assms unfolding mm_plan_def Let_def and_then_Ok
  by (auto simp: and_then_Ok split: if_splits mm_control.splits) (metis mm_control.exhaust)

lemma mm_facts_legs:
  assumes "mm_validate_facts D i = Ok ()"
  shows "0 \<le> dec_value D (mi_long_quantity i)" and "0 \<le> dec_value D (mi_short_quantity i)"
  using assms unfolding mm_validate_facts_def Let_def and_then_Ok
  by (auto simp: dec_negative_def split: if_splits)

section \<open>The limits\<close>

text \<open>
  C17: Whatever part of the resting orders and of the new quotes is filled, the long and the short
  leg never go below zero, and the notional of each leg, of both together and of their
  difference stays within its limit, or within what it already is where that is more.
\<close>

theorem mm_fills_stay_within_limits:
  assumes "dec_exact_laws D" and "dec_const_laws D" and "dec_sign_laws D" and "dec_choice_laws D"
    and plan: "mm_plan D i = Ok plan" "mp_action plan = Quote quotes reason"
    and orders: "signed_quotes D i = Ok orders"
    and fills: "fills_within D (orders @ quotes) fills"
    and scale: "mm_on_scale D i (orders @ quotes) s t"
  shows "mm_within D i
    (dec_value D (mi_long_quantity i) + leg_change LongSide (orders @ quotes) fills)
    (dec_value D (mi_short_quantity i) + leg_change ShortSide (orders @ quotes) fills)"
  using plan
proof (cases rule: mm_plan_Quote)
  case (1 equity_loss equity_drawdown)
  obtain foreign desired breached where same: "same_resting D (foreign @ desired) (orders @ quotes)"
    and permits: "risk_permits D i (foreign @ desired) breached = Ok True"
    using quoted_same_resting [OF 1(11) orders] .
  have "mm_extremes_within D i (foreign @ desired)"
    using permits same_resting_scale [OF same scale] assms(1-4) mm_facts_legs [OF 1(1)]
    by (rule risk_permits_exact)
  then show ?thesis
    using extremes_within_fills [OF same_resting_extremes [OF same] fills] scale
    by (simp add: mm_on_scale_def)
qed

theorem mm_fills_stay_within_limits_witness:
  "mm_within rat_api mm_sample (1001 / 1000) 0"
  using mm_fills_stay_within_limits [OF _ _ _ _ mm_sample_planned mm_sample_action mm_sample_orders _
      mm_sample_on_scale, of "[1 / 20, 99 / 1000, 1 / 20]"]
  by (simp add: fills_within_def leg_change_def quote_value_def mm_sample_quotes_def
      mm_sample_resting_def mm_sample_def)

section \<open>The facts behind a quote\<close>







end
