(* ===== verification/Indicators.thy ===== *)
theory Indicators
  imports Domain Mutation
begin

text \<open>
  Closed bars of \<open>crates/venue-domain/src/domain/market.rs\<close> and the decimal indicators over them
  of \<open>crates/venue-indicators/src/chart\<close>: the simple and exponential averages, the average true
  range and the relative strength index.  An update mutates the indicator in place, and leaves
  what it had already assigned when it fails.
\<close>

section \<open>Closed bars (market.rs)\<close>

record 'd public_bar =
  pb_symbol :: symbol
  pb_generation :: u64
  pb_received_at_ms :: u64
  pb_sequence :: u64
  pb_open_time_ms :: u64
  pb_close_time_ms :: u64
  pb_interval_ms :: u64
  pb_open :: "'d price"
  pb_high :: "'d price"
  pb_low :: "'d price"
  pb_close :: "'d price"
  pb_base_volume :: "'d field_state"
  pb_quote_volume :: "'d field_state"
  pb_trade_count :: "u64 field_state"
  pb_taker_buy_base_volume :: "'d field_state"
  pb_taker_buy_quote_volume :: "'d field_state"

definition explicit :: "'a field_state \<Rightarrow> bool" where
  "explicit v = (case v of Known _ \<Rightarrow> True | Unavailable _ \<Rightarrow> True | _ \<Rightarrow> False)"

definition non_negative :: "'d decimal_api \<Rightarrow> 'd field_state \<Rightarrow> bool" where
  "non_negative D v = (case v of Known a \<Rightarrow> \<not> dec_sign_negative D a | _ \<Rightarrow> True)"

definition known_lte :: "'d decimal_api \<Rightarrow> 'd field_state \<Rightarrow> 'd field_state \<Rightarrow> bool" where
  "known_lte D left right =
     (case left of Known a \<Rightarrow> (case right of Known b \<Rightarrow> dec_le D a b | _ \<Rightarrow> False) | _ \<Rightarrow> True)"

definition quote_is_price_bounded ::
  "'d decimal_api \<Rightarrow> 'd field_state \<Rightarrow> 'd field_state \<Rightarrow> 'd price \<Rightarrow> 'd price \<Rightarrow> bool" where
  "quote_is_price_bounded D base quot low high =
     (case quot of
        Known q \<Rightarrow>
          (case base of
             Known b \<Rightarrow>
               (case (dec_mul D b (price_value low), dec_mul D b (price_value high)) of
                  (Some least, Some most) \<Rightarrow> dec_le D least q \<and> dec_le D q most
                | _ \<Rightarrow> False)
           | _ \<Rightarrow> False)
      | _ \<Rightarrow> True)"

definition known_positive :: "'d decimal_api \<Rightarrow> 'd field_state \<Rightarrow> bool" where
  "known_positive D v = (case v of Known a \<Rightarrow> dec_positive D a | _ \<Rightarrow> False)"

definition known_zero :: "'d decimal_api \<Rightarrow> 'd field_state \<Rightarrow> bool" where
  "known_zero D v = (case v of Known a \<Rightarrow> dec_is_zero D a | _ \<Rightarrow> False)"

definition price_less :: "'d decimal_api \<Rightarrow> 'd price \<Rightarrow> 'd price \<Rightarrow> bool" where
  "price_less D a b \<longleftrightarrow> dec_less D (price_value a) (price_value b)"

definition bar_is_valid :: "'d decimal_api \<Rightarrow> 'd public_bar \<Rightarrow> bool" where
  "bar_is_valid D b =
     (case checked_sub (pb_close_time_ms b) (pb_open_time_ms b) of
        None \<Rightarrow> False
      | Some span_ms \<Rightarrow>
          if pb_generation b = 0 \<or> pb_received_at_ms b = 0 \<or> pb_sequence b = 0 \<or> pb_interval_ms b = 0
            \<or> (span_ms \<noteq> pb_interval_ms b \<and> checked_add span_ms 1 \<noteq> Some (pb_interval_ms b))
            \<or> price_less D (pb_high b) (pb_open b) \<or> price_less D (pb_high b) (pb_close b)
            \<or> price_less D (pb_open b) (pb_low b) \<or> price_less D (pb_close b) (pb_low b)
            \<or> price_less D (pb_high b) (pb_low b)
            \<or> \<not> explicit (pb_base_volume b) \<or> \<not> explicit (pb_quote_volume b)
            \<or> \<not> explicit (pb_trade_count b)
            \<or> \<not> explicit (pb_taker_buy_base_volume b) \<or> \<not> explicit (pb_taker_buy_quote_volume b)
            \<or> \<not> non_negative D (pb_base_volume b) \<or> \<not> non_negative D (pb_quote_volume b)
            \<or> \<not> non_negative D (pb_taker_buy_base_volume b)
            \<or> \<not> non_negative D (pb_taker_buy_quote_volume b)
            \<or> \<not> known_lte D (pb_taker_buy_base_volume b) (pb_base_volume b)
            \<or> \<not> known_lte D (pb_taker_buy_quote_volume b) (pb_quote_volume b)
            \<or> \<not> quote_is_price_bounded D (pb_base_volume b) (pb_quote_volume b) (pb_low b) (pb_high b)
            \<or> \<not> quote_is_price_bounded D (pb_taker_buy_base_volume b) (pb_taker_buy_quote_volume b)
                 (pb_low b) (pb_high b)
          then False
          else case pb_trade_count b of
            Known n \<Rightarrow>
              if n = 0 then
                list_all (known_zero D) [pb_base_volume b, pb_quote_volume b,
                  pb_taker_buy_base_volume b, pb_taker_buy_quote_volume b]
              else known_positive D (pb_base_volume b) \<and> known_positive D (pb_quote_volume b)
          | _ \<Rightarrow> True)"

section \<open>Chart indicators\<close>

datatype chart_error =
  InvalidParameters | InvalidBar | ScopeChanged | DiscontinuousBar | VolumeUnavailable | ChartArithmetic

definition validate_bar :: "'d decimal_api \<Rightarrow> 'd public_bar \<Rightarrow> (unit, chart_error) outcome" where
  "validate_bar D b = (if bar_is_valid D b then Ok () else Err InvalidBar)"

definition chart_period :: "'d decimal_api \<Rightarrow> u64 \<Rightarrow> ('d, chart_error) outcome" where
  "chart_period D period = (if period = 0 then Err InvalidParameters else Ok (dec_of_int D (uint period)))"

abbreviation chart_add :: "'d decimal_api \<Rightarrow> 'd \<Rightarrow> 'd \<Rightarrow> ('d, chart_error) outcome" where
  "chart_add D a b \<equiv> ok_or ChartArithmetic (dec_add D a b)"

abbreviation chart_sub :: "'d decimal_api \<Rightarrow> 'd \<Rightarrow> 'd \<Rightarrow> ('d, chart_error) outcome" where
  "chart_sub D a b \<equiv> ok_or ChartArithmetic (dec_sub D a b)"

abbreviation chart_mul :: "'d decimal_api \<Rightarrow> 'd \<Rightarrow> 'd \<Rightarrow> ('d, chart_error) outcome" where
  "chart_mul D a b \<equiv> ok_or ChartArithmetic (dec_mul D a b)"

abbreviation chart_div :: "'d decimal_api \<Rightarrow> 'd \<Rightarrow> 'd \<Rightarrow> ('d, chart_error) outcome" where
  "chart_div D a b \<equiv> ok_or ChartArithmetic (dec_div D a b)"

subsection \<open>The simple average (trend.rs)\<close>

record 'd sma =
  sm_period :: u64
  sm_period_decimal :: 'd
  sm_closes :: "'d list"
  sm_sum :: 'd
  sm_samples :: u64

definition sma_new :: "'d decimal_api \<Rightarrow> u64 \<Rightarrow> ('d sma, chart_error) outcome" where
  "sma_new D period = and_then (chart_period D period) (\<lambda>p.
     Ok \<lparr>sm_period = period, sm_period_decimal = p, sm_closes = [], sm_sum = dec_zero D, sm_samples = 0\<rparr>)"

definition sma_is_ready :: "'d sma \<Rightarrow> bool" where
  "sma_is_ready s \<longleftrightarrow> sm_period s \<le> sm_samples s"

definition sma_drop_oldest :: "'d decimal_api \<Rightarrow> 'd sma \<Rightarrow> 'd sma \<times> (unit, chart_error) outcome" where
  "sma_drop_oldest D s =
     (if unat (sm_period s) < length (sm_closes s)
      then (case sm_closes s of
              [] \<Rightarrow> (s, Err ChartArithmetic)
            | oldest # rest \<Rightarrow>
                let s = s\<lparr>sm_closes := rest\<rparr> in
                attempt s (chart_sub D (sm_sum s) oldest) (\<lambda>v. (s\<lparr>sm_sum := v\<rparr>, Ok ())))
      else (s, Ok ()))"

definition sma_update_value ::
  "'d decimal_api \<Rightarrow> 'd sma \<Rightarrow> 'd \<Rightarrow> 'd sma \<times> ('d option, chart_error) outcome" where
  "sma_update_value D s value =
     (let s = s\<lparr>sm_samples := saturating_add (sm_samples s) 1\<rparr> in
      attempt s (chart_add D (sm_sum s) value) (\<lambda>total_value.
      chain (sma_drop_oldest D (s\<lparr>sm_sum := total_value, sm_closes := sm_closes s @ [value]\<rparr>)) (\<lambda>s _.
      if sma_is_ready s
      then attempt s (chart_div D (sm_sum s) (sm_period_decimal s)) (\<lambda>v. (s, Ok (Some v)))
      else (s, Ok None))))"

definition sma_update ::
  "'d decimal_api \<Rightarrow> 'd sma \<Rightarrow> 'd public_bar \<Rightarrow> 'd sma \<times> ('d option, chart_error) outcome" where
  "sma_update D s b = attempt s (validate_bar D b) (\<lambda>_. sma_update_value D s (price_value (pb_close b)))"

definition sma_reset :: "'d decimal_api \<Rightarrow> 'd sma \<Rightarrow> 'd sma" where
  "sma_reset D s = s\<lparr>sm_closes := [], sm_sum := dec_zero D, sm_samples := 0\<rparr>"

subsection \<open>The exponential average (trend.rs)\<close>

record 'd ema =
  em_period :: u64
  em_alpha :: 'd
  em_value :: "'d option"
  em_samples :: u64

definition ema_new :: "'d decimal_api \<Rightarrow> u64 \<Rightarrow> ('d ema, chart_error) outcome" where
  "ema_new D period =
     and_then (chart_period D period) (\<lambda>p.
     and_then (chart_add D p (dec_one D)) (\<lambda>denominator.
     and_then (chart_div D (dec_of_int D 2) denominator) (\<lambda>alpha.
     Ok \<lparr>em_period = period, em_alpha = alpha, em_value = None, em_samples = 0\<rparr>)))"

definition ema_is_ready :: "'d ema \<Rightarrow> bool" where
  "ema_is_ready e \<longleftrightarrow> em_period e \<le> em_samples e"

definition ema_next :: "'d decimal_api \<Rightarrow> 'd ema \<Rightarrow> 'd \<Rightarrow> ('d, chart_error) outcome" where
  "ema_next D e value =
     (case em_value e of
        None \<Rightarrow> Ok value
      | Some previous \<Rightarrow>
          and_then (chart_sub D value previous) (\<lambda>change.
          and_then (chart_mul D (em_alpha e) change) (\<lambda>adjustment.
          chart_add D previous adjustment)))"

definition ema_update_value ::
  "'d decimal_api \<Rightarrow> 'd ema \<Rightarrow> 'd \<Rightarrow> 'd ema \<times> ('d option, chart_error) outcome" where
  "ema_update_value D e value =
     (let e = e\<lparr>em_samples := saturating_add (em_samples e) 1\<rparr> in
      attempt e (ema_next D e value) (\<lambda>v.
      let e = e\<lparr>em_value := Some v\<rparr> in (e, Ok (if ema_is_ready e then Some v else None))))"

definition ema_update ::
  "'d decimal_api \<Rightarrow> 'd ema \<Rightarrow> 'd public_bar \<Rightarrow> 'd ema \<times> ('d option, chart_error) outcome" where
  "ema_update D e b = attempt e (validate_bar D b) (\<lambda>_. ema_update_value D e (price_value (pb_close b)))"

definition ema_reset :: "'d ema \<Rightarrow> 'd ema" where
  "ema_reset e = e\<lparr>em_value := None, em_samples := 0\<rparr>"

subsection \<open>The average true range (volatility.rs)\<close>

record 'd atr =
  at_period :: u64
  at_period_decimal :: 'd
  at_previous_close :: "'d option"
  at_seed_sum :: 'd
  at_value :: "'d option"
  at_samples :: u64

definition atr_new :: "'d decimal_api \<Rightarrow> u64 \<Rightarrow> ('d atr, chart_error) outcome" where
  "atr_new D period = and_then (chart_period D period) (\<lambda>p.
     Ok \<lparr>at_period = period, at_period_decimal = p, at_previous_close = None, at_seed_sum = dec_zero D,
       at_value = None, at_samples = 0\<rparr>)"

definition true_range :: "'d decimal_api \<Rightarrow> 'd public_bar \<Rightarrow> 'd option \<Rightarrow> ('d, chart_error) outcome" where
  "true_range D b previous_close =
     and_then (chart_sub D (price_value (pb_high b)) (price_value (pb_low b))) (\<lambda>high_low.
     case previous_close of
       None \<Rightarrow> Ok high_low
     | Some previous \<Rightarrow>
         and_then (chart_sub D (price_value (pb_high b)) previous) (\<lambda>high_gap.
         and_then (chart_sub D (price_value (pb_low b)) previous) (\<lambda>low_gap.
         Ok (dec_greatest D (dec_greatest D high_low (dec_abs D high_gap)) (dec_abs D low_gap)))))"

definition atr_seed :: "'d decimal_api \<Rightarrow> 'd atr \<Rightarrow> 'd \<Rightarrow> 'd atr \<times> ('d option, chart_error) outcome" where
  "atr_seed D a reach =
     attempt a (chart_add D (at_seed_sum a) reach) (\<lambda>seed.
     let a = a\<lparr>at_seed_sum := seed\<rparr> in
     if at_samples a = at_period a
     then attempt a (chart_div D seed (at_period_decimal a)) (\<lambda>seeded.
       (a\<lparr>at_value := Some seeded\<rparr>, Ok (Some seeded)))
     else (a, Ok None))"

definition atr_smooth :: "'d decimal_api \<Rightarrow> 'd atr \<Rightarrow> 'd \<Rightarrow> ('d, chart_error) outcome" where
  "atr_smooth D a reach =
     and_then (ok_or ChartArithmetic (at_value a)) (\<lambda>previous.
     and_then (chart_mul D previous (dec_of_int D (uint (saturating_sub (at_period a) 1)))) (\<lambda>retained.
     and_then (chart_add D retained reach) (\<lambda>v.
     chart_div D v (at_period_decimal a))))"

definition atr_update ::
  "'d decimal_api \<Rightarrow> 'd atr \<Rightarrow> 'd public_bar \<Rightarrow> 'd atr \<times> ('d option, chart_error) outcome" where
  "atr_update D a b =
     attempt a (validate_bar D b) (\<lambda>_.
     attempt a (true_range D b (at_previous_close a)) (\<lambda>reach.
     let a = a\<lparr>at_previous_close := Some (price_value (pb_close b)),
               at_samples := saturating_add (at_samples a) 1\<rparr> in
     if at_samples a \<le> at_period a then atr_seed D a reach
     else attempt a (atr_smooth D a reach) (\<lambda>v. (a\<lparr>at_value := Some v\<rparr>, Ok (Some v)))))"

definition atr_reset :: "'d decimal_api \<Rightarrow> 'd atr \<Rightarrow> 'd atr" where
  "atr_reset D a = a\<lparr>at_previous_close := None, at_seed_sum := dec_zero D, at_value := None, at_samples := 0\<rparr>"

subsection \<open>The relative strength index (momentum.rs)\<close>

record 'd rsi =
  rs_period :: u64
  rs_period_decimal :: 'd
  rs_previous_close :: "'d option"
  rs_seed_gain :: 'd
  rs_seed_loss :: 'd
  rs_changes :: u64
  rs_average_gain :: "'d option"
  rs_average_loss :: "'d option"

definition rsi_new :: "'d decimal_api \<Rightarrow> u64 \<Rightarrow> ('d rsi, chart_error) outcome" where
  "rsi_new D period = and_then (chart_period D period) (\<lambda>p.
     Ok \<lparr>rs_period = period, rs_period_decimal = p, rs_previous_close = None, rs_seed_gain = dec_zero D,
       rs_seed_loss = dec_zero D, rs_changes = 0, rs_average_gain = None, rs_average_loss = None\<rparr>)"

definition wilder_average ::
  "'d decimal_api \<Rightarrow> 'd \<Rightarrow> 'd \<Rightarrow> 'd \<Rightarrow> 'd \<Rightarrow> ('d, chart_error) outcome" where
  "wilder_average D previous current multiplier divisor =
     and_then (chart_mul D previous multiplier) (\<lambda>v.
     and_then (chart_add D v current) (\<lambda>v. chart_div D v divisor))"

definition rsi_value :: "'d decimal_api \<Rightarrow> 'd \<Rightarrow> 'd \<Rightarrow> ('d, chart_error) outcome" where
  "rsi_value D average_gain average_loss =
     (let hundred = dec_of_int D 100 in
      if dec_is_zero D average_loss then Ok hundred
      else if dec_is_zero D average_gain then Ok (dec_zero D)
      else
      and_then (chart_div D average_gain average_loss) (\<lambda>relative_strength.
      and_then (chart_add D (dec_one D) relative_strength) (\<lambda>denominator.
      and_then (chart_div D hundred denominator) (\<lambda>adjustment.
      chart_sub D hundred adjustment))))"

text \<open>
  The averages after one more change: \<open>None\<close> while the seed is incomplete.  The caller commits
  the updated copy only when everything succeeds, so the steps are pure.
\<close>

definition rsi_averages ::
  "'d decimal_api \<Rightarrow> 'd rsi \<Rightarrow> 'd \<Rightarrow> 'd \<Rightarrow> ('d rsi \<times> ('d \<times> 'd) option, chart_error) outcome" where
  "rsi_averages D r gain loss =
     (if rs_changes r \<le> rs_period r
      then
        and_then (chart_add D (rs_seed_gain r) gain) (\<lambda>seed_gain.
        and_then (chart_add D (rs_seed_loss r) loss) (\<lambda>seed_loss.
        let r = r\<lparr>rs_seed_gain := seed_gain, rs_seed_loss := seed_loss\<rparr> in
        if rs_changes r < rs_period r then Ok (r, None)
        else
        and_then (chart_div D seed_gain (rs_period_decimal r)) (\<lambda>average_gain.
        and_then (chart_div D seed_loss (rs_period_decimal r)) (\<lambda>average_loss.
        Ok (r\<lparr>rs_average_gain := Some average_gain, rs_average_loss := Some average_loss\<rparr>,
            Some (average_gain, average_loss))))))
      else
        and_then (chart_sub D (rs_period_decimal r) (dec_one D)) (\<lambda>multiplier.
        and_then (ok_or ChartArithmetic (rs_average_gain r)) (\<lambda>previous_gain.
        and_then (ok_or ChartArithmetic (rs_average_loss r)) (\<lambda>previous_loss.
        and_then (wilder_average D previous_gain gain multiplier (rs_period_decimal r)) (\<lambda>average_gain.
        and_then (wilder_average D previous_loss loss multiplier (rs_period_decimal r)) (\<lambda>average_loss.
        Ok (r\<lparr>rs_average_gain := Some average_gain, rs_average_loss := Some average_loss\<rparr>,
            Some (average_gain, average_loss))))))))"

definition rsi_update_close ::
  "'d decimal_api \<Rightarrow> 'd rsi \<Rightarrow> 'd \<Rightarrow> ('d rsi \<times> 'd option, chart_error) outcome" where
  "rsi_update_close D r close_value =
     (case rs_previous_close r of
        None \<Rightarrow> Ok (r\<lparr>rs_previous_close := Some close_value\<rparr>, None)
      | Some previous \<Rightarrow>
          let r = r\<lparr>rs_previous_close := Some close_value\<rparr> in
          and_then (chart_sub D close_value previous) (\<lambda>change.
          and_then (if dec_sign_negative D change
                    then and_then (chart_sub D (dec_zero D) change) (\<lambda>loss. Ok (dec_zero D, loss))
                    else Ok (change, dec_zero D)) (\<lambda>(gain, loss).
          and_then (ok_or ChartArithmetic (checked_add (rs_changes r) 1)) (\<lambda>changes.
          and_then (rsi_averages D (r\<lparr>rs_changes := changes\<rparr>) gain loss) (\<lambda>(r, averages).
          case averages of
            None \<Rightarrow> Ok (r, None)
          | Some (average_gain, average_loss) \<Rightarrow>
              and_then (rsi_value D average_gain average_loss) (\<lambda>v. Ok (r, Some v)))))))"

definition rsi_update ::
  "'d decimal_api \<Rightarrow> 'd rsi \<Rightarrow> 'd public_bar \<Rightarrow> 'd rsi \<times> ('d option, chart_error) outcome" where
  "rsi_update D r b =
     attempt r (validate_bar D b) (\<lambda>_.
     attempt r (rsi_update_close D r (price_value (pb_close b))) (\<lambda>(r, v). (r, Ok v)))"

definition rsi_reset :: "'d decimal_api \<Rightarrow> 'd rsi \<Rightarrow> 'd rsi" where
  "rsi_reset D r = r\<lparr>rs_previous_close := None, rs_seed_gain := dec_zero D, rs_seed_loss := dec_zero D,
     rs_changes := 0, rs_average_gain := None, rs_average_loss := None\<rparr>"

end
