(* ===== verification/Market_Volatility.thy ===== *)
theory Market_Volatility
  imports Indicators Market_Maker Contracts
begin

text \<open>
  The volatility signal of \<open>crates/venue-strategies/src/inventory_mm/volatility.rs\<close>: the average
  of the absolute returns of the midpoint, over observations that move forward in time.
\<close>

record 'd mm_volatility =
  mv_previous :: "(u64 \<times> 'd price) option"
  mv_average :: "'d ema"

definition volatility_new :: "'d decimal_api \<Rightarrow> u64 \<Rightarrow> ('d mm_volatility, mm_error) outcome" where
  "volatility_new D period =
     (if \<not> (2 \<le> period \<and> period \<le> 10000) then Err MM_Config
      else and_then (map_err (\<lambda>_. MM_Config) (ema_new D period)) (\<lambda>average.
        Ok \<lparr>mv_previous = None, mv_average = average\<rparr>))"

text \<open>The absolute return in basis points.\<close>

definition absolute_return :: "'d decimal_api \<Rightarrow> 'd price \<Rightarrow> 'd price \<Rightarrow> ('d, mm_error) outcome" where
  "absolute_return D previous midpoint =
     and_then (mm_sub D (price_value midpoint) (price_value previous)) (\<lambda>change.
     and_then (mm_div D change (price_value previous)) (\<lambda>rate.
     mm_mul D (dec_abs D rate) (dec_of_int D 10000)))"

definition volatility_sample ::
  "'d decimal_api \<Rightarrow> 'd mm_volatility \<Rightarrow> 'd price \<Rightarrow> 'd mm_volatility \<times> ('d option, mm_error) outcome" where
  "volatility_sample D v midpoint =
     (case mv_previous v of
        None \<Rightarrow> (v, Ok None)
      | Some (_, previous) \<Rightarrow>
          attempt v (absolute_return D previous midpoint) (\<lambda>bps.
          let (average, result) = ema_update_value D (mv_average v) bps in
          (v\<lparr>mv_average := average\<rparr>, map_err (\<lambda>_. MM_Arithmetic) result)))"

definition volatility_update ::
  "'d decimal_api \<Rightarrow> 'd mm_volatility \<Rightarrow> u64 \<times> 'd price \<Rightarrow> 'd mm_volatility \<times> ('d option, mm_error) outcome"
  where
  "volatility_update D v observation =
     (let (observed_at_ms, midpoint) = observation in
      if observed_at_ms = 0 \<or> (case mv_previous v of None \<Rightarrow> False | Some (time, _) \<Rightarrow> observed_at_ms \<le> time)
      then (v, Err MM_Facts)
      else chain (volatility_sample D v midpoint) (\<lambda>v next_value.
        (v\<lparr>mv_previous := Some (observed_at_ms, midpoint)\<rparr>, Ok next_value)))"

section \<open>Observations move forward in time\<close>

definition observed_time :: "'d mm_volatility \<Rightarrow> u64" where
  "observed_time v = (case mv_previous v of None \<Rightarrow> 0 | Some (time, _) \<Rightarrow> time)"

text \<open>The last observation is from a positive time.\<close>

definition volatility_inv :: "'d decimal_api \<Rightarrow> 'd mm_volatility \<Rightarrow> bool" where
  "volatility_inv D v \<longleftrightarrow> (case mv_previous v of None \<Rightarrow> True | Some (time, _) \<Rightarrow> 0 < time)"

lemma volatility_sample_previous: "mv_previous (fst (volatility_sample D v midpoint)) = mv_previous v"
  by (auto simp: volatility_sample_def attempt_def Let_def split: option.splits outcome.splits prod.splits)

lemma volatility_update_time:
  assumes "volatility_inv D v"
  shows "volatility_inv D (fst (volatility_update D v observation))"
    and "observed_time v \<le> observed_time (fst (volatility_update D v observation))"
proof -
  obtain time midpoint where o: "observation = (time, midpoint)" by (cases observation)
  obtain v' r where s: "volatility_sample D v midpoint = (v', r)" by fastforce
  then have "mv_previous v' = mv_previous v" using volatility_sample_previous [of D v midpoint] by simp
  with s o assms show "volatility_inv D (fst (volatility_update D v observation))"
    and "observed_time v \<le> observed_time (fst (volatility_update D v observation))"
    by (cases r; auto simp: volatility_update_def volatility_inv_def observed_time_def word_neq_0_conv
        split: option.splits)+
qed

interpretation volatility: mutating_machine "volatility_update D" "volatility_inv D"
    "\<lambda>v w. observed_time v \<le> observed_time w"
  by unfold_locales (auto simp: volatility_update_time)

end
