(* ===== verification/Order_Mirror.thy ===== *)
theory Order_Mirror
  imports Domain Iteration
begin

text \<open>
  The planner of mirrored orders, \<open>apps/venue-control/src/order_mirror/planner.rs\<close>, with the
  scaling of \<open>kol_executor.rs\<close> and the sizing choice of
  \<open>crates/venue-control-protocol/src/follow_sizing.rs\<close>: which leader orders are copied, how large
  the follower's order is, and how a close is enlarged to unwind an enlarged opening.
\<close>

section \<open>Orders of the leader (kol.rs)\<close>

datatype terminal_order_state = TerminalNew | TerminalPartiallyFilled

record 'd terminal_open_order =
  to_client_order_id :: string
  to_native_order_id :: "string option"
  to_symbol :: symbol
  to_order_side :: order_side
  to_position_side :: position_side
  to_quantity :: 'd
  to_filled_quantity :: "'d option"
  to_limit_price :: "'d option"
  to_time_in_force :: "limit_time_in_force option"
  to_post_only :: bool
  to_reduce_only :: bool
  to_state :: terminal_order_state
  to_created_ms :: "u64 option"

datatype 'd follow_sizing = Proportional | SourceRatio 'd | FixedNotional 'd

record 'd minimum_uplifted_open =
  uo_source :: "'d terminal_open_order"
  uo_child_quantity :: 'd

datatype ledger_conflict = LedgerUnavailable | LedgerConflict

section \<open>Which orders are copied\<close>

definition reducing :: "'d terminal_open_order \<Rightarrow> bool" where
  "reducing ord \<longleftrightarrow> (to_position_side ord, to_order_side ord) \<in> {(LongSide, Sell), (ShortSide, Buy)}"

text \<open>Equality of optional decimals.\<close>

definition option_eq :: "'d decimal_api \<Rightarrow> 'd option \<Rightarrow> 'd option \<Rightarrow> bool" where
  "option_eq D a b = (case (a, b) of (Some x, Some y) \<Rightarrow> dec_eq D x y | (None, None) \<Rightarrow> True | _ \<Rightarrow> False)"

definition same_terms ::
  "'d decimal_api \<Rightarrow> 'd terminal_open_order \<Rightarrow> 'd terminal_open_order \<Rightarrow> bool" where
  "same_terms D left right \<longleftrightarrow>
     to_native_order_id left = to_native_order_id right
     \<and> to_client_order_id left = to_client_order_id right
     \<and> to_symbol left = to_symbol right
     \<and> to_order_side left = to_order_side right
     \<and> to_position_side left = to_position_side right
     \<and> dec_eq D (to_quantity left) (to_quantity right)
     \<and> option_eq D (to_limit_price left) (to_limit_price right)
     \<and> to_post_only left = to_post_only right
     \<and> to_time_in_force left = to_time_in_force right
     \<and> reducing left = reducing right"

definition eligible :: "'d decimal_api \<Rightarrow> 'd terminal_open_order \<Rightarrow> u64 \<Rightarrow> bool" where
  "eligible D ord cutoff \<longleftrightarrow>
     (case to_created_ms ord of None \<Rightarrow> False | Some time \<Rightarrow> cutoff < time)
     \<and> (to_time_in_force ord, to_post_only ord) \<in> {(Some Gtc, False), (Some PostOnly, True)}
     \<and> (case to_native_order_id ord of None \<Rightarrow> False | Some i \<Rightarrow> i \<noteq> [])
     \<and> dec_positive D (to_quantity ord)
     \<and> (case to_filled_quantity ord of None \<Rightarrow> False
        | Some filled \<Rightarrow> \<not> dec_negative D filled \<and> dec_less D filled (to_quantity ord))
     \<and> (case to_limit_price ord of None \<Rightarrow> False | Some price \<Rightarrow> dec_positive D price)
     \<and> to_position_side ord \<in> {LongSide, ShortSide}"

section \<open>How large the copy is\<close>

definition scaled_copy_quantity ::
  "'d decimal_api \<Rightarrow> 'd \<Rightarrow> 'd \<Rightarrow> 'd \<Rightarrow> 'd \<Rightarrow> ('d, ledger_conflict) outcome" where
  "scaled_copy_quantity D leader_fill_quantity allocated capital multiplier =
     (if \<not> dec_positive D leader_fill_quantity \<or> \<not> dec_positive D allocated
        \<or> \<not> dec_positive D capital \<or> \<not> dec_positive D multiplier
      then Err LedgerConflict
      else
      and_then (ok_or LedgerConflict (dec_mul D leader_fill_quantity allocated)) (\<lambda>v.
      and_then (ok_or LedgerConflict (dec_mul D v multiplier)) (\<lambda>v.
      and_then (ok_or LedgerConflict (dec_div D v capital)) (\<lambda>v.
      if dec_positive D v then Ok v else Err LedgerConflict))))"

definition source_ratio_quantity ::
  "'d decimal_api \<Rightarrow> 'd \<Rightarrow> 'd \<Rightarrow> ('d, ledger_conflict) outcome" where
  "source_ratio_quantity D quantity ratio =
     (if \<not> dec_positive D ratio \<or> dec_less D (dec_one D) ratio then Err LedgerConflict
      else scaled_copy_quantity D quantity ratio (dec_one D) (dec_one D))"

text \<open>The size before the child's earlier fills are taken off.\<close>

definition scaled_by_sizing ::
  "'d decimal_api \<Rightarrow> 'd terminal_open_order \<Rightarrow> 'd \<Rightarrow> 'd \<Rightarrow> 'd \<Rightarrow> 'd follow_sizing
   \<Rightarrow> ('d, ledger_conflict) outcome" where
  "scaled_by_sizing D ord allocated capital multiplier sizing =
     (case sizing of
        Proportional \<Rightarrow> scaled_copy_quantity D (to_quantity ord) allocated capital multiplier
      | SourceRatio ratio \<Rightarrow> source_ratio_quantity D (to_quantity ord) ratio
      | FixedNotional notional \<Rightarrow>
          (case to_limit_price ord of
             None \<Rightarrow> Err LedgerConflict
           | Some price \<Rightarrow>
               if \<not> dec_positive D price \<or> \<not> dec_positive D notional then Err LedgerConflict
               else ok_or LedgerConflict (dec_div D notional price)))"

definition replacement_quantity ::
  "'d decimal_api \<Rightarrow> 'd terminal_open_order \<Rightarrow> 'd \<Rightarrow> 'd \<Rightarrow> 'd \<Rightarrow> 'd follow_sizing \<Rightarrow> 'd
   \<Rightarrow> ('d, ledger_conflict) outcome" where
  "replacement_quantity D ord allocated capital multiplier sizing prior_filled =
     (if dec_negative D prior_filled then Err LedgerConflict
      else
      and_then (scaled_by_sizing D ord allocated capital multiplier sizing) (\<lambda>scaled.
      and_then (ok_or LedgerConflict (dec_sub D scaled prior_filled)) (\<lambda>left.
      Ok (dec_greatest D left (dec_zero D)))))"

definition sizing_valid_for :: "'d decimal_api \<Rightarrow> 'd follow_sizing \<Rightarrow> 'd \<Rightarrow> bool" where
  "sizing_valid_for D sizing order_cap =
     (case sizing of
        Proportional \<Rightarrow> True
      | SourceRatio ratio \<Rightarrow> dec_positive D ratio \<and> dec_le D ratio (dec_one D)
      | FixedNotional notional \<Rightarrow> dec_positive D notional \<and> dec_le D notional order_cap)"

section \<open>Unwinding an enlarged opening\<close>

text \<open>A product of optional prices that overflows counts as no product.\<close>

definition terminal_notional :: "'d decimal_api \<Rightarrow> 'd terminal_open_order \<Rightarrow> 'd option" where
  "terminal_notional D ord = Option.bind (to_limit_price ord) (\<lambda>price. dec_mul D (to_quantity ord) price)"

definition substantially_same_source_notional ::
  "'d decimal_api \<Rightarrow> 'd terminal_open_order \<Rightarrow> 'd terminal_open_order \<Rightarrow> bool" where
  "substantially_same_source_notional D close_order opening =
     (case terminal_notional D opening of
        None \<Rightarrow> False
      | Some opening_notional \<Rightarrow>
     (case terminal_notional D close_order of
        None \<Rightarrow> False
      | Some close_notional \<Rightarrow>
     (case dec_mul D opening_notional (dec_new D 99 2) of
        None \<Rightarrow> False
      | Some lower \<Rightarrow>
     (case dec_mul D opening_notional (dec_new D 101 2) of
        None \<Rightarrow> False
      | Some upper \<Rightarrow> dec_le D lower close_notional \<and> dec_le D close_notional upper))))"

definition uplift_matches ::
  "'d decimal_api \<Rightarrow> 'd terminal_open_order \<Rightarrow> 'd minimum_uplifted_open \<Rightarrow> bool" where
  "uplift_matches D close_order opening \<longleftrightarrow>
     (let source = uo_source opening in
      \<not> reducing source
      \<and> to_symbol source = to_symbol close_order
      \<and> to_position_side source = to_position_side close_order
      \<and> to_order_side source \<noteq> to_order_side close_order
      \<and> (case (to_created_ms source, to_created_ms close_order) of
           (Some opened_at, Some closed_at) \<Rightarrow> opened_at < closed_at | _ \<Rightarrow> False)
      \<and> substantially_same_source_notional D close_order source)"

text \<open>\<open>None\<close> is below every time.\<close>

definition created_rank :: "'d minimum_uplifted_open \<Rightarrow> nat" where
  "created_rank opening = (case to_created_ms (uo_source opening) of None \<Rightarrow> 0 | Some t \<Rightarrow> Suc (unat t))"

definition close_quantity_with_minimum_uplift ::
  "'d decimal_api \<Rightarrow> 'd terminal_open_order \<Rightarrow> 'd \<Rightarrow> 'd minimum_uplifted_open list \<Rightarrow> 'd" where
  "close_quantity_with_minimum_uplift D close_order proportional_quantity openings =
     (if \<not> reducing close_order then proportional_quantity
      else case max_by_key created_rank (filter (uplift_matches D close_order) openings) of
        None \<Rightarrow> proportional_quantity
      | Some opening \<Rightarrow> dec_greatest D proportional_quantity (uo_child_quantity opening))"

end
