(* ===== verification/Support_Martingale.thy ===== *)
theory Support_Martingale
  imports Indicators Iteration
begin

text \<open>
  The staged long strategy of \<open>crates/venue-strategies/src/support_martingale/mod.rs\<close>: the market
  environment, the support zones, the callback that confirms an entry, and the price that takes
  the profit.  Unchecked operators on decimals panic on overflow.
\<close>

section \<open>Configuration\<close>

datatype strategy_error =
  SM_InvalidConfig string | SM_InvalidBar | SM_Warmup | SM_Arithmetic | SM_MissingVolume | SM_PriceBlocked

record 'd support_config =
  sc_symbol :: symbol
  sc_first_order_notional :: 'd
  sc_max_entries :: u8
  sc_size_multiplier :: 'd
  sc_target_profit_rate :: 'd
  sc_minimum_profit_quote :: 'd
  sc_environment_period :: u64
  sc_support_period :: u64
  sc_callback_period :: u64
  sc_environment_ema_fast :: u64
  sc_environment_ema_slow :: u64
  sc_rsi_period :: u64
  sc_atr_period :: u64
  sc_oversold_rsi :: 'd
  sc_volume_multiple :: 'd
  sc_callback_max_bars :: u64
  sc_support_tolerance_atr :: 'd
  sc_max_signal_age_ms :: u64
  sc_cooldown_ms :: u64

definition research_default :: "'d decimal_api \<Rightarrow> ('d support_config, strategy_error) outcome" where
  "research_default D =
     and_then (map_err (\<lambda>_. SM_InvalidConfig ''default symbol'') (symbol_new ''BTC'' ''USDT'')) (\<lambda>symbol.
     Ok \<lparr>sc_symbol = symbol, sc_first_order_notional = dec_of_int D 5, sc_max_entries = 10,
       sc_size_multiplier = dec_new D 125 2, sc_target_profit_rate = dec_new D 5 3,
       sc_minimum_profit_quote = dec_zero D, sc_environment_period = 14400000,
       sc_support_period = 3600000, sc_callback_period = 900000, sc_environment_ema_fast = 20,
       sc_environment_ema_slow = 60, sc_rsi_period = 14, sc_atr_period = 14,
       sc_oversold_rsi = dec_of_int D 35, sc_volume_multiple = dec_new D 18 1,
       sc_callback_max_bars = 4, sc_support_tolerance_atr = dec_new D 25 2,
       sc_max_signal_age_ms = 30000, sc_cooldown_ms = 1800000\<rparr>)"

definition support_config_validate :: "'d decimal_api \<Rightarrow> 'd support_config \<Rightarrow> (unit, strategy_error) outcome"
  where
  "support_config_validate D c =
     (if \<not> dec_positive D (sc_first_order_notional c)
      then Err (SM_InvalidConfig ''first_order_notional must be positive'')
      else if \<not> (1 \<le> sc_max_entries c \<and> sc_max_entries c \<le> 100)
      then Err (SM_InvalidConfig ''max_entries must be 1..=100'')
      else if dec_less D (sc_size_multiplier c) (dec_one D)
      then Err (SM_InvalidConfig ''size_multiplier must be at least one'')
      else if dec_negative D (sc_target_profit_rate c) \<or> dec_negative D (sc_minimum_profit_quote c)
      then Err (SM_InvalidConfig ''profit thresholds must be non-negative'')
      else if sc_environment_ema_fast c = 0 \<or> sc_environment_ema_slow c \<le> sc_environment_ema_fast c
        \<or> 1000 < sc_environment_ema_slow c
      then Err (SM_InvalidConfig ''EMA periods are invalid'')
      else if sc_rsi_period c = 0 \<or> sc_atr_period c = 0 \<or> sc_callback_max_bars c = 0
      then Err (SM_InvalidConfig ''indicator periods are invalid'')
      else if \<not> dec_positive D (sc_oversold_rsi c) \<or> dec_le D (dec_of_int D 50) (sc_oversold_rsi c)
        \<or> dec_le D (sc_volume_multiple c) (dec_one D)
      then Err (SM_InvalidConfig ''callback thresholds are invalid'')
      else if \<not> dec_positive D (sc_support_tolerance_atr c) \<or> sc_max_signal_age_ms c = 0
      then Err (SM_InvalidConfig ''support and signal limits are invalid'')
      else Ok ())"

section \<open>Series of bars\<close>

definition validate_series_bar ::
  "'d decimal_api \<Rightarrow> symbol \<Rightarrow> u64 \<Rightarrow> u64 \<Rightarrow> u64 option \<Rightarrow> 'd public_bar
   \<Rightarrow> (u64 option, strategy_error) outcome" where
  "validate_series_bar D symbol interval now_ms previous b =
     (if pb_symbol b \<noteq> symbol \<or> pb_interval_ms b \<noteq> interval \<or> \<not> bar_is_valid D b
        \<or> now_ms < pb_close_time_ms b
        \<or> (case previous of None \<Rightarrow> False | Some p \<Rightarrow> pb_open_time_ms b \<le> p)
      then Err SM_InvalidBar else Ok (Some (pb_open_time_ms b)))"

definition validate_series ::
  "'d decimal_api \<Rightarrow> 'd public_bar list \<Rightarrow> symbol \<Rightarrow> u64 \<Rightarrow> u64 \<Rightarrow> (unit, strategy_error) outcome" where
  "validate_series D bars symbol interval now_ms =
     (if bars = [] then Err SM_Warmup
      else and_then (try_fold (validate_series_bar D symbol interval now_ms) None bars) (\<lambda>_. Ok ()))"

text \<open>
  An indicator over a series: the value after each bar.  An error ends the strategy's function,
  which drops the indicator.
\<close>

definition indicate ::
  "('s \<Rightarrow> 'd public_bar \<Rightarrow> 's \<times> ('d option, chart_error) outcome)
   \<Rightarrow> 's \<times> 'd option list \<Rightarrow> 'd public_bar \<Rightarrow> ('s \<times> 'd option list, strategy_error) outcome" where
  "indicate update state b =
     (case update (fst state) b of
        (s, result) \<Rightarrow> and_then (map_err (\<lambda>_. SM_Arithmetic) result) (\<lambda>v. Ok (s, snd state @ [v])))"

definition confirmed_swing_highs :: "'d decimal_api \<Rightarrow> 'd public_bar list \<Rightarrow> (nat \<times> 'd) list" where
  "confirmed_swing_highs D bars =
     (let high = (\<lambda>i. price_value (pb_high (bars ! i))) in
      map (\<lambda>i. (i, high i))
        (filter (\<lambda>i. dec_less D (high (i - 1)) (high i) \<and> dec_less D (high (i - 2)) (high i)
            \<and> dec_le D (high (i + 1)) (high i) \<and> dec_le D (high (i + 2)) (high i))
          [2 ..< length bars - 2]))"

definition confirmed_swing_lows :: "'d decimal_api \<Rightarrow> 'd public_bar list \<Rightarrow> (nat \<times> 'd) list" where
  "confirmed_swing_lows D bars =
     (let low = (\<lambda>i. price_value (pb_low (bars ! i))) in
      map (\<lambda>i. (i, low i))
        (filter (\<lambda>i. dec_less D (low i) (low (i - 1)) \<and> dec_less D (low i) (low (i - 2))
            \<and> dec_le D (low i) (low (i + 1)) \<and> dec_le D (low i) (low (i + 2)))
          [2 ..< length bars - 2]))"

definition descending_last_two :: "'d decimal_api \<Rightarrow> (nat \<times> 'd) list \<Rightarrow> bool" where
  "descending_last_two D points =
     (case drop (length points - 2) points of
        [a, b] \<Rightarrow> dec_less D (snd b) (snd a)
      | _ \<Rightarrow> False)"

section \<open>The market environment\<close>

datatype market_environment = EnvUp | EnvDown | EnvRange | EnvNeutral | EnvWarmup

record 'd environment_signal =
  es_environment :: market_environment
  es_close :: "'d price"
  es_ema_fast :: "'d option"
  es_ema_slow :: "'d option"
  es_atr :: "'d option"
  es_observed_at_ms :: u64

abbreviation dec_add_panic :: "'d decimal_api \<Rightarrow> 'd \<Rightarrow> 'd \<Rightarrow> ('d, 'e) outcome" where
  "dec_add_panic D a b \<equiv> or_panic (dec_add D a b)"

abbreviation dec_sub_panic :: "'d decimal_api \<Rightarrow> 'd \<Rightarrow> 'd \<Rightarrow> ('d, 'e) outcome" where
  "dec_sub_panic D a b \<equiv> or_panic (dec_sub D a b)"

abbreviation dec_mul_panic :: "'d decimal_api \<Rightarrow> 'd \<Rightarrow> 'd \<Rightarrow> ('d, 'e) outcome" where
  "dec_mul_panic D a b \<equiv> or_panic (dec_mul D a b)"

primrec three_apart :: "nat list \<Rightarrow> bool" where
  "three_apart [] = False"
| "three_apart (first # rest) = (list_ex (\<lambda>second. 3 \<le> second - first) rest \<or> three_apart rest)"

definition near_boundary ::
  "'d decimal_api \<Rightarrow> 'd \<Rightarrow> 'd \<Rightarrow> nat list \<Rightarrow> nat \<times> 'd \<Rightarrow> (nat list, 'e) outcome" where
  "near_boundary D boundary tolerance found point =
     and_then (dec_sub_panic D (snd point) boundary) (\<lambda>gap.
     Ok (if dec_le D (dec_abs D gap) tolerance then found @ [fst point] else found))"

definition boundary_has_two_confirmations ::
  "'d decimal_api \<Rightarrow> (nat \<times> 'd) list \<Rightarrow> 'd \<Rightarrow> 'd \<Rightarrow> (bool, 'e) outcome" where
  "boundary_has_two_confirmations D points boundary tolerance =
     and_then (try_fold (near_boundary D boundary tolerance) [] points) (\<lambda>found. Ok (three_apart found))"

definition confirmed_range ::
  "'d decimal_api \<Rightarrow> 'd public_bar list \<Rightarrow> 'd \<Rightarrow> 'd \<Rightarrow> 'd \<Rightarrow> (bool, 'e) outcome" where
  "confirmed_range D bars ema_fast prior_ema atr =
     (if length bars < 20 \<or> \<not> dec_positive D atr then Ok False
      else
      let window = drop (length bars - 20) bars in
      case max_by_key (dec_value D) (map (\<lambda>b. price_value (pb_high b)) window) of
        None \<Rightarrow> Ok False
      | Some high \<Rightarrow>
      case min_by_key (dec_value D) (map (\<lambda>b. price_value (pb_low b)) window) of
        None \<Rightarrow> Ok False
      | Some low \<Rightarrow>
      and_then (or_else
        (and_then (dec_sub_panic D high low) (\<lambda>height.
         and_then (dec_mul_panic D atr (dec_of_int D 6)) (\<lambda>most. Ok (dec_less D most height))))
        (and_then (dec_sub_panic D ema_fast prior_ema) (\<lambda>drift.
         and_then (dec_mul_panic D atr (dec_new D 1 1)) (\<lambda>most. Ok (dec_less D most (dec_abs D drift))))))
        (\<lambda>outside.
      if outside then Ok False
      else
      and_then (dec_mul_panic D atr (dec_new D 25 2)) (\<lambda>tolerance.
      and_also (boundary_has_two_confirmations D (confirmed_swing_highs D window) high tolerance)
        (boundary_has_two_confirmations D (confirmed_swing_lows D window) low tolerance))))"

text \<open>The choice once both averages are there.\<close>

definition choose_environment ::
  "'d decimal_api \<Rightarrow> 'd public_bar list \<Rightarrow> 'd \<Rightarrow> 'd \<Rightarrow> 'd \<Rightarrow> 'd option \<Rightarrow> 'd \<Rightarrow> (market_environment, 'e) outcome"
  where
  "choose_environment D bars ef es ago atr_value close_value =
     (let swing_highs = confirmed_swing_highs D bars; swing_lows = confirmed_swing_lows D bars;
          up_structure_holds = (swing_lows \<noteq> [] \<and> dec_le D (snd (last swing_lows)) close_value);
          down_structure_holds = (descending_last_two D swing_highs \<and> descending_last_two D swing_lows) in
      case atr_value of
        None \<Rightarrow> Ok EnvWarmup
      | Some atr \<Rightarrow>
          if dec_less D ef close_value \<and> dec_less D es ef \<and> dec_less D ago ef \<and> up_structure_holds
          then Ok EnvUp
          else if dec_less D close_value ef \<and> dec_less D ef es \<and> dec_less D ef ago \<and> down_structure_holds
          then Ok EnvDown
          else and_then (confirmed_range D bars ef ago atr) (\<lambda>ranging.
            Ok (if ranging then EnvRange else EnvNeutral)))"

definition classify_environment ::
  "'d decimal_api \<Rightarrow> 'd public_bar list \<Rightarrow> 'd support_config \<Rightarrow> u64
   \<Rightarrow> ('d environment_signal, strategy_error) outcome" where
  "classify_environment D bars c now_ms =
     and_then (support_config_validate D c) (\<lambda>_.
     and_then (validate_series D bars (sc_symbol c) (sc_environment_period c) now_ms) (\<lambda>_.
     and_then (map_err (\<lambda>_. SM_Arithmetic) (ema_new D (sc_environment_ema_fast c))) (\<lambda>fast.
     and_then (map_err (\<lambda>_. SM_Arithmetic) (ema_new D (sc_environment_ema_slow c))) (\<lambda>slow.
     and_then (map_err (\<lambda>_. SM_Arithmetic) (atr_new D (sc_atr_period c))) (\<lambda>atr.
     and_then (try_fold (\<lambda>(f, s, a) b.
         and_then (indicate (ema_update D) f b) (\<lambda>f.
         and_then (indicate (ema_update D) s b) (\<lambda>s.
         and_then (indicate (atr_update D) a b) (\<lambda>a. Ok (f, s, a)))))
       ((fast, []), (slow, []), (atr, [])) bars) (\<lambda>((_, fast_values), (_, slow_values), (_, atr_values)).
     let final_bar = last bars; atr_value = last atr_values;
         signal = (\<lambda>environment ef es av. \<lparr>es_environment = environment, es_close = pb_close final_bar,
           es_ema_fast = ef, es_ema_slow = es, es_atr = av, es_observed_at_ms = pb_close_time_ms final_bar\<rparr>) in
     case last fast_values of
       None \<Rightarrow> Ok (signal EnvWarmup None None None)
     | Some ef \<Rightarrow>
     case last slow_values of
       None \<Rightarrow> Ok (signal EnvWarmup (Some ef) None atr_value)
     | Some es \<Rightarrow>
     let ago = (case fast_values ! (length fast_values - 4) of None \<Rightarrow> ef | Some v \<Rightarrow> v) in
     and_then (choose_environment D bars ef es ago atr_value (price_value (pb_close final_bar)))
       (\<lambda>environment. Ok (signal environment (Some ef) (Some es) atr_value))))))))"

section \<open>Support zones\<close>

record 'd support_zone =
  sz_id :: string
  sz_lower :: "'d price"
  sz_upper :: "'d price"
  sz_source_price :: "'d price"
  sz_confirmed_at_ms :: u64
  sz_version :: u64

definition zone_contains :: "'d decimal_api \<Rightarrow> 'd support_zone \<Rightarrow> 'd \<Rightarrow> bool" where
  "zone_contains D z price \<longleftrightarrow>
     dec_le D (price_value (sz_lower z)) price \<and> dec_le D price (price_value (sz_upper z))"

definition support_text :: "symbol \<Rightarrow> u64 \<Rightarrow> string" where
  "support_text symbol confirmed = symbol_to_string symbol @ ''-'' @ decimal_text (unat confirmed)"

text \<open>The zone of one local low, when a later close has broken the last high before it.\<close>

definition support_at ::
  "'d decimal_api \<Rightarrow> 'd public_bar list \<Rightarrow> 'd option list \<Rightarrow> (nat \<times> 'd) list \<Rightarrow> 'd support_config \<Rightarrow> nat
   \<Rightarrow> ('d support_zone option, strategy_error) outcome" where
  "support_at D bars atrs swing_highs c i =
     (let b = bars ! i; low = price_value (pb_low b) in
      if price_less D (pb_low (bars ! (i - 1))) (pb_low b)
        \<or> price_less D (pb_low (bars ! (i - 2))) (pb_low b)
        \<or> price_less D (pb_low (bars ! (i + 1))) (pb_low b)
        \<or> price_less D (pb_low (bars ! (i + 2))) (pb_low b)
      then Ok None
      else case find (\<lambda>point. fst point < i) (rev swing_highs) of
        None \<Rightarrow> Ok None
      | Some point \<Rightarrow>
      case find (\<lambda>later. dec_less D (snd point) (price_value (pb_close later))) (drop (i + 2) bars) of
        None \<Rightarrow> Ok None
      | Some breakout \<Rightarrow>
      and_then (dec_sub_panic D (price_value (pb_high b)) low) (\<lambda>height.
      and_then (dec_mul_panic D (case atrs ! i of None \<Rightarrow> height | Some a \<Rightarrow> a) (sc_support_tolerance_atr c)) (\<lambda>width.
      and_then (dec_sub_panic D low width) (\<lambda>below.
      and_then (dec_add_panic D low width) (\<lambda>above.
      let confirmed = pb_close_time_ms breakout in
      and_then (map_err (\<lambda>_. SM_Arithmetic) (price_new D (dec_greatest D below (dec_zero D)))) (\<lambda>lower.
      and_then (map_err (\<lambda>_. SM_Arithmetic) (price_new D above)) (\<lambda>upper.
      Ok (Some \<lparr>sz_id = support_text (pb_symbol b) confirmed, sz_lower = lower, sz_upper = upper,
        sz_source_price = pb_low b, sz_confirmed_at_ms = confirmed, sz_version = confirmed\<rparr>))))))))"

definition detect_supports ::
  "'d decimal_api \<Rightarrow> 'd public_bar list \<Rightarrow> 'd support_config \<Rightarrow> u64
   \<Rightarrow> ('d support_zone list, strategy_error) outcome" where
  "detect_supports D bars c now_ms =
     and_then (validate_series D bars (sc_symbol c) (sc_support_period c) now_ms) (\<lambda>_.
     if length bars < 5 then Ok []
     else
     and_then (map_err (\<lambda>_. SM_Arithmetic) (atr_new D (sc_atr_period c))) (\<lambda>atr.
     and_then (try_fold (indicate (atr_update D)) (atr, []) bars) (\<lambda>(_, atrs).
     let swing_highs = confirmed_swing_highs D bars in
     try_fold (\<lambda>zones i.
         and_then (support_at D bars atrs swing_highs c i) (\<lambda>found.
         Ok (case found of None \<Rightarrow> zones | Some zone \<Rightarrow> zones @ [zone])))
       [] [2 ..< length bars - 2])))"

section \<open>Callbacks\<close>

datatype entry_kind = FirstEntry | AddEntry

record 'd callback_signal =
  cs_kind :: entry_kind
  cs_support_id :: string
  cs_confirmed_at_ms :: u64
  cs_confirmation_low :: "'d price"
  cs_reference_price :: "'d price"
  cs_rsi :: 'd
  cs_relative_volume :: 'd

definition known_volume :: "'d public_bar \<Rightarrow> ('d, strategy_error) outcome" where
  "known_volume b = (case pb_quote_volume b of Known v \<Rightarrow> Ok v | _ \<Rightarrow> Err SM_MissingVolume)"

definition relative_volume ::
  "'d decimal_api \<Rightarrow> 'd public_bar list \<Rightarrow> nat \<Rightarrow> ('d, strategy_error) outcome" where
  "relative_volume D bars index =
     and_then (known_volume (bars ! index)) (\<lambda>current.
     if index < 20 then Ok (dec_zero D)
     else
     and_then (try_map known_volume (take 20 (drop (index - 20) bars))) (\<lambda>volumes.
     let sorted_volumes = sort_key (dec_value D) volumes; median = sorted_volumes ! (length sorted_volumes div 2) in
     if \<not> dec_positive D median then Err SM_MissingVolume
     else ok_or SM_Arithmetic (dec_div D current median)))"

text \<open>The bar that ends a support interval.\<close>

definition closes_support_interval :: "'d support_config \<Rightarrow> 'd public_bar \<Rightarrow> bool" where
  "closes_support_interval c b =
     (case checked_add (pb_close_time_ms b) 1 of
        None \<Rightarrow> False
      | Some after \<Rightarrow> 0 < sc_support_period c \<and> after mod sc_support_period c = 0)"

definition touches_zone :: "'d decimal_api \<Rightarrow> 'd support_zone \<Rightarrow> 'd public_bar \<Rightarrow> bool" where
  "touches_zone D z b \<longleftrightarrow>
     dec_le D (price_value (pb_low b)) (price_value (sz_upper z))
     \<and> dec_le D (price_value (sz_lower z)) (price_value (pb_high b))"

text \<open>What the loop carries: the bar of the first touch, and whether the zone is broken.\<close>

type_synonym touch_state = "nat option \<times> bool"

datatype 'd callback_turn = Continue touch_state | Confirm "'d callback_signal"

text \<open>The checks of a bar after a touch.\<close>

definition callback_confirms ::
  "'d decimal_api \<Rightarrow> 'd public_bar list \<Rightarrow> 'd option list \<Rightarrow> 'd support_zone \<Rightarrow> 'd support_config \<Rightarrow> u64
   \<Rightarrow> nat \<Rightarrow> nat \<Rightarrow> 'd \<Rightarrow> bool" where
  "callback_confirms D bars values support c now_ms touch i r \<longleftrightarrow>
     (let b = bars ! i; close_value = price_value (pb_close b) in
      dec_less D (sc_oversold_rsi c) r
      \<and> \<not> (i = 0 \<or> dec_le D close_value (price_value (sz_upper support))
          \<or> dec_le D close_value (price_value (pb_high (bars ! (i - 1))))
          \<or> now_ms < pb_close_time_ms b
          \<or> sc_max_signal_age_ms c < saturating_sub now_ms (pb_close_time_ms b))
      \<and> list_ex (\<lambda>v. case v of None \<Rightarrow> False | Some value \<Rightarrow> dec_less D value (sc_oversold_rsi c))
          (take (Suc i - touch) (drop touch values)))"

definition event_volume ::
  "'d decimal_api \<Rightarrow> 'd public_bar list \<Rightarrow> nat \<Rightarrow> nat \<Rightarrow> ('d, strategy_error) outcome" where
  "event_volume D bars touch i =
     try_fold (\<lambda>most index. and_then (relative_volume D bars index) (\<lambda>v. Ok (dec_greatest D most v)))
       (dec_zero D) [touch ..< Suc i]"

definition callback_bar ::
  "'d decimal_api \<Rightarrow> 'd public_bar list \<Rightarrow> 'd option list \<Rightarrow> 'd support_zone \<Rightarrow> 'd support_config
   \<Rightarrow> entry_kind \<Rightarrow> u64 \<Rightarrow> touch_state \<Rightarrow> nat \<Rightarrow> ('d callback_turn, strategy_error) outcome" where
  "callback_bar D bars values support c kind now_ms state i =
     (let (touched_at, invalidated) = state; b = bars ! i; close_value = price_value (pb_close b) in
      if pb_open_time_ms b \<le> sz_confirmed_at_ms support then Ok (Continue (touched_at, invalidated))
      else if closes_support_interval c b \<and> dec_less D close_value (price_value (sz_lower support))
      then Ok (Continue (None, True))
      else if invalidated
      then Ok (Continue (touched_at, \<not> dec_less D (price_value (sz_upper support)) close_value))
      else
      let touched_at = (if touched_at = None \<and> touches_zone D support b then Some i else touched_at);
          carry_on = Ok (Continue (touched_at, False)) in
      case touched_at of
        None \<Rightarrow> carry_on
      | Some touch \<Rightarrow>
      case values ! i of
        None \<Rightarrow> carry_on
      | Some r \<Rightarrow>
      if \<not> callback_confirms D bars values support c now_ms touch i r then carry_on
      else
      and_then (event_volume D bars touch i) (\<lambda>volume.
      if dec_less D volume (sc_volume_multiple c) then carry_on
      else Ok (Confirm \<lparr>cs_kind = kind, cs_support_id = sz_id support,
        cs_confirmed_at_ms = pb_close_time_ms b, cs_confirmation_low = pb_low b,
        cs_reference_price = pb_close b, cs_rsi = r, cs_relative_volume = volume\<rparr>)))"

primrec callback_loop ::
  "'d decimal_api \<Rightarrow> 'd public_bar list \<Rightarrow> 'd option list \<Rightarrow> 'd support_zone \<Rightarrow> 'd support_config
   \<Rightarrow> entry_kind \<Rightarrow> u64 \<Rightarrow> touch_state \<Rightarrow> nat list \<Rightarrow> ('d callback_signal option, strategy_error) outcome" where
  "callback_loop D bars values support c kind now_ms state [] = Ok None"
| "callback_loop D bars values support c kind now_ms state (i # rest) =
     and_then (callback_bar D bars values support c kind now_ms state i) (\<lambda>turn.
     case turn of
       Continue next_state \<Rightarrow> callback_loop D bars values support c kind now_ms next_state rest
     | Confirm signal \<Rightarrow> Ok (Some signal))"

definition evaluate_callback ::
  "'d decimal_api \<Rightarrow> 'd public_bar list \<Rightarrow> 'd support_zone \<Rightarrow> 'd support_config \<Rightarrow> entry_kind \<Rightarrow> u64
   \<Rightarrow> ('d callback_signal option, strategy_error) outcome" where
  "evaluate_callback D bars support c kind now_ms =
     and_then (validate_series D bars (sc_symbol c) (sc_callback_period c) now_ms) (\<lambda>_.
     if bars = [] then Ok None
     else
     and_then (map_err (\<lambda>_. SM_Arithmetic) (rsi_new D (sc_rsi_period c))) (\<lambda>rsi.
     and_then (try_fold (indicate (rsi_update D)) (rsi, []) bars) (\<lambda>(_, values).
     callback_loop D bars values support c kind now_ms (None, False)
       [length bars - unat (sc_callback_max_bars c) ..< length bars])))"

section \<open>Taking the profit\<close>

record 'd position_cost =
  pk_quantity :: 'd
  pk_buy_notional :: 'd
  pk_entry_fee :: 'd
  pk_funding :: 'd

record 'd take_profit_input =
  tk_position :: "'d position_cost"
  tk_target_profit_rate :: 'd
  tk_minimum_profit_quote :: 'd
  tk_exit_fee_rate :: "'d option"
  tk_tick_size :: 'd
  tk_minimum_price :: "'d price option"
  tk_maximum_price :: "'d price option"

datatype take_profit_block = ZeroQuantity | MissingExitFee | InvalidTick | PriceOutOfRange | TakeProfitArithmetic

datatype 'd take_profit_result =
  Ready "'d price" 'd bool
| Blocked take_profit_block

text \<open>A chain of checked operations.\<close>

definition profit_target :: "'d decimal_api \<Rightarrow> 'd take_profit_input \<Rightarrow> 'd option" where
  "profit_target D input =
     (let p = tk_position input in
      Option.bind (dec_add D (pk_buy_notional p) (pk_entry_fee p)) (\<lambda>v.
      Option.bind (dec_add D v (pk_funding p)) (\<lambda>v.
      Option.bind (dec_mul D (pk_buy_notional p) (tk_target_profit_rate input)) (\<lambda>profit.
      Option.bind (dec_add D v profit) (\<lambda>v.
      dec_add D v (tk_minimum_profit_quote input))))))"

definition net_profit :: "'d decimal_api \<Rightarrow> 'd position_cost \<Rightarrow> 'd \<Rightarrow> 'd \<Rightarrow> 'd option" where
  "net_profit D p price_number exit_fee =
     Option.bind (dec_mul D price_number (pk_quantity p)) (\<lambda>v.
     Option.bind (dec_sub D v (pk_buy_notional p)) (\<lambda>v.
     Option.bind (dec_sub D v (pk_entry_fee p)) (\<lambda>v.
     Option.bind (dec_sub D v (pk_funding p)) (\<lambda>v.
     Option.bind (dec_mul D price_number (pk_quantity p)) (\<lambda>gross.
     Option.bind (dec_mul D gross exit_fee) (\<lambda>fee.
     dec_sub D v fee))))))"

definition take_profit_price ::
  "'d decimal_api \<Rightarrow> 'd take_profit_input \<Rightarrow> 'd \<Rightarrow> ('d price, take_profit_block) outcome" where
  "take_profit_price D input raw =
     and_then (or_panic (dec_div D raw (tk_tick_size input))) (\<lambda>ticks.
     and_then (ok_or TakeProfitArithmetic (dec_mul D (dec_ceil D ticks) (tk_tick_size input))) (\<lambda>v.
     and_then (map_err (\<lambda>_. PriceOutOfRange) (price_new D v)) (\<lambda>price.
     if (case tk_minimum_price input of None \<Rightarrow> False | Some p \<Rightarrow> price_less D price p)
       \<or> (case tk_maximum_price input of None \<Rightarrow> False | Some p \<Rightarrow> price_less D p price)
     then Err PriceOutOfRange else Ok price)))"

text \<open>The steps of \<open>calculate_take_profit\<close>; an error is a blocked result.\<close>

definition take_profit_steps ::
  "'d decimal_api \<Rightarrow> 'd take_profit_input \<Rightarrow> ('d price \<times> 'd, take_profit_block) outcome" where
  "take_profit_steps D input =
     (let p = tk_position input in
      if \<not> dec_positive D (pk_quantity p) then Err ZeroQuantity
      else if \<not> dec_positive D (tk_tick_size input) then Err InvalidTick
      else case tk_exit_fee_rate input of
        None \<Rightarrow> Err MissingExitFee
      | Some exit_fee \<Rightarrow>
      if dec_negative D exit_fee \<or> dec_le D (dec_one D) exit_fee then Err MissingExitFee
      else
      and_then (ok_or TakeProfitArithmetic (profit_target D input)) (\<lambda>target.
      and_then (ok_or TakeProfitArithmetic (dec_sub D (dec_one D) exit_fee)) (\<lambda>net_rate.
      and_then (ok_or TakeProfitArithmetic (dec_mul D (pk_quantity p) net_rate)) (\<lambda>denom.
      and_then (ok_or TakeProfitArithmetic (dec_div D target denom)) (\<lambda>raw.
      and_then (take_profit_price D input raw) (\<lambda>price.
      and_then (ok_or TakeProfitArithmetic (net_profit D p (price_value price) exit_fee)) (\<lambda>net.
      Ok (price, net))))))))"

definition calculate_take_profit ::
  "'d decimal_api \<Rightarrow> 'd take_profit_input \<Rightarrow> ('d take_profit_result, 'e) outcome" where
  "calculate_take_profit D input =
     (case take_profit_steps D input of
        Ok (price, net) \<Rightarrow> Ok (Ready price net False)
      | Err block \<Rightarrow> Ok (Blocked block)
      | Panic \<Rightarrow> Panic)"

end
