(* ===== verification/Support_Series.thy ===== *)
theory Support_Series
  imports Support_Martingale
begin

text \<open>
  What a validated series of bars is: closed bars of one symbol and interval in the order of time.
\<close>

lemma validate_series_bar_Ok:
  "validate_series_bar D symbol interval now_ms previous b = Ok r \<longleftrightarrow>
     pb_symbol b = symbol \<and> pb_interval_ms b = interval \<and> bar_is_valid D b \<and> pb_close_time_ms b \<le> now_ms
     \<and> (case previous of None \<Rightarrow> True | Some p \<Rightarrow> p < pb_open_time_ms b) \<and> r = Some (pb_open_time_ms b)"
  by (auto simp: validate_series_bar_def not_le not_less split: option.split)

lemma validate_series_bars:
  assumes "validate_series D bars symbol interval now_ms = Ok ()"
  shows "list_all (\<lambda>b. pb_symbol b = symbol \<and> pb_interval_ms b = interval \<and> bar_is_valid D b
      \<and> pb_close_time_ms b \<le> now_ms) bars"
    and "sorted_wrt (\<lambda>a b. pb_open_time_ms a < pb_open_time_ms b) bars"
proof -
  have step: "list_all (\<lambda>b. pb_symbol b = symbol \<and> pb_interval_ms b = interval \<and> bar_is_valid D b
      \<and> pb_close_time_ms b \<le> now_ms \<and> (case previous of None \<Rightarrow> True | Some p \<Rightarrow> p < pb_open_time_ms b)) bars
    \<and> sorted_wrt (\<lambda>a b. pb_open_time_ms a < pb_open_time_ms b) bars"
    if "try_fold (validate_series_bar D symbol interval now_ms) previous bars = Ok r" for previous r
    using that
  proof (induction bars arbitrary: previous)
    case (Cons b bars)
    from Cons.prems obtain q where "validate_series_bar D symbol interval now_ms previous b = Ok q"
      and "try_fold (validate_series_bar D symbol interval now_ms) q bars = Ok r"
      unfolding try_fold.simps and_then_Ok by blast
    then have b: "pb_symbol b = symbol" "pb_interval_ms b = interval" "bar_is_valid D b"
      "pb_close_time_ms b \<le> now_ms" "case previous of None \<Rightarrow> True | Some p \<Rightarrow> p < pb_open_time_ms b"
      and rest: "try_fold (validate_series_bar D symbol interval now_ms) (Some (pb_open_time_ms b)) bars = Ok r"
      unfolding validate_series_bar_Ok by blast+
    from Cons.IH [OF rest] b show ?case
      by (cases previous) (auto simp: list_all_iff intro: less_trans)
  qed simp
  from assms obtain r where "try_fold (validate_series_bar D symbol interval now_ms) None bars = Ok r"
    by (auto simp: validate_series_def and_then_Ok split: if_splits)
  from step [OF this] show "list_all (\<lambda>b. pb_symbol b = symbol \<and> pb_interval_ms b = interval
      \<and> bar_is_valid D b \<and> pb_close_time_ms b \<le> now_ms) bars"
    and "sorted_wrt (\<lambda>a b. pb_open_time_ms a < pb_open_time_ms b) bars"
    by (auto simp: list_all_iff)
qed

end
