(* ===== verification/Support_Samples.thy ===== *)
theory Support_Samples
  imports Support_Series
begin

text \<open>
  Concrete inputs of the staged long strategy: twenty flat bars, one that drops into the zone with
  twice the volume and one that reclaims it; and a position of one unit.
\<close>

definition sample_bar :: "u64 \<Rightarrow> rat \<Rightarrow> rat \<Rightarrow> rat \<Rightarrow> rat \<Rightarrow> rat \<Rightarrow> rat public_bar" where
  "sample_bar open_ms first high low final base =
     \<lparr>pb_symbol = \<lparr>sym_base = ''BTC'', sym_quote = ''USDT''\<rparr>, pb_generation = 1, pb_received_at_ms = 1,
      pb_sequence = 1, pb_open_time_ms = open_ms, pb_close_time_ms = open_ms + 9, pb_interval_ms = 10,
      pb_open = Price first, pb_high = Price high, pb_low = Price low, pb_close = Price final,
      pb_base_volume = Known base, pb_quote_volume = Known (100 * base), pb_trade_count = Known 1,
      pb_taker_buy_base_volume = Unavailable SourceOmitted,
      pb_taker_buy_quote_volume = Unavailable SourceOmitted\<rparr>"

definition sample_bars :: "rat public_bar list" where
  "sample_bars =
     map (\<lambda>n. sample_bar (10 * of_nat n) 100 101 99 100 1) [0 ..< 20]
     @ [sample_bar 200 100 101 79 80 2, sample_bar 210 80 104 80 103 1]"

definition sample_support :: "rat support_config" where
  "sample_support =
     \<lparr>sc_symbol = \<lparr>sym_base = ''BTC'', sym_quote = ''USDT''\<rparr>, sc_first_order_notional = 5,
      sc_max_entries = 10, sc_size_multiplier = 5 / 4, sc_target_profit_rate = 1 / 200,
      sc_minimum_profit_quote = 0, sc_environment_period = 4000, sc_support_period = 1000,
      sc_callback_period = 10, sc_environment_ema_fast = 20, sc_environment_ema_slow = 60,
      sc_rsi_period = 2, sc_atr_period = 14, sc_oversold_rsi = 35, sc_volume_multiple = 9 / 5,
      sc_callback_max_bars = 4, sc_support_tolerance_atr = 1 / 4, sc_max_signal_age_ms = 30,
      sc_cooldown_ms = 1800\<rparr>"

definition sample_zone :: "rat support_zone" where
  "sample_zone =
     \<lparr>sz_id = ''support-1'', sz_lower = Price 79, sz_upper = Price 81, sz_source_price = Price 80,
      sz_confirmed_at_ms = 150, sz_version = 1\<rparr>"

definition sample_signal :: "rat callback_signal" where
  "sample_signal =
     \<lparr>cs_kind = FirstEntry, cs_support_id = ''support-1'', cs_confirmed_at_ms = 219,
      cs_confirmation_low = Price 80, cs_reference_price = Price 103, cs_rsi = 2300 / 33,
      cs_relative_volume = 2\<rparr>"

lemma sample_series:
  "validate_series rat_api sample_bars (sc_symbol sample_support) (sc_callback_period sample_support) 225 = Ok ()"
  by code_simp

definition sample_rsi :: "rat option list" where
  "sample_rsi = [None, None] @ replicate 18 (Some 100) @ [Some 0, Some (2300 / 33)]"

text \<open>On flat bars the index stays at 100 and only the number of changes grows.\<close>

definition sample_steady :: "u64 \<Rightarrow> rat rsi" where
  "sample_steady changes =
     \<lparr>rs_period = 2, rs_period_decimal = 2, rs_previous_close = Some 100, rs_seed_gain = 0, rs_seed_loss = 0,
      rs_changes = changes, rs_average_gain = Some 0, rs_average_loss = Some 0\<rparr>"

lemma sample_flat_step:
  assumes "checked_add c 1 = Some c'" and "\<not> c' \<le> 2" and "bar_is_valid rat_api b" and "pb_close b = Price 100"
  shows "rsi_update rat_api (sample_steady c) b = (sample_steady c', Ok (Some 100))"
  using assms
  by (simp add: rsi_update_def validate_bar_def sample_steady_def rsi_update_close_def rsi_averages_def
      wilder_average_def rsi_value_def dec_is_zero_def Let_def rat_bounded_def)

lemma sample_flat_count:
  assumes "2 \<le> n" and "n < 100"
  shows "checked_add (of_nat n) 1 = Some (of_nat (Suc n) :: u64)" and "\<not> of_nat (Suc n) \<le> (2 :: u64)"
proof -
  have small: "n < 2 ^ LENGTH(64)" "Suc n < 2 ^ LENGTH(64)"
    using assms(2) by (simp_all add: less_trans [of _ 100])
  note counts = unat_of_nat_small [OF small(1)] unat_of_nat_small [OF small(2)]
  show "checked_add (of_nat n) 1 = Some (of_nat (Suc n) :: u64)"
    unfolding checked_add_def counts using assms(2) by simp
  show "\<not> of_nat (Suc n) \<le> (2 :: u64)"
    unfolding word_le_nat_alt counts using assms(1) by simp
qed

lemma sample_flat:
  assumes "list_all (\<lambda>b. bar_is_valid rat_api b \<and> pb_close b = Price 100) bars" and "2 \<le> n"
    and "length bars = m" and "n + m < 100"
  shows "try_fold (indicate (rsi_update rat_api)) (sample_steady (of_nat n), vs) bars
    = Ok (sample_steady (of_nat (n + m)), vs @ replicate m (Some 100))"
  using assms
proof (induction bars arbitrary: n m vs)
  case (Cons b bars)
  obtain k where m: "m = Suc k" using Cons.prems(3) by auto
  have step: "indicate (rsi_update rat_api) (sample_steady (of_nat n), vs) b
      = Ok (sample_steady (of_nat (Suc n)), vs @ [Some 100])"
    using sample_flat_step [OF sample_flat_count, of n b] Cons.prems by (simp add: indicate_def)
  have "try_fold (indicate (rsi_update rat_api)) (sample_steady (of_nat (Suc n)), vs @ [Some 100]) bars
      = Ok (sample_steady (of_nat (Suc n + k)), (vs @ [Some 100]) @ replicate k (Some 100))"
    by (rule Cons.IH) (use Cons.prems m in simp_all)
  then show ?case by (simp only: try_fold.simps step and_then.simps m) simp
qed simp

definition sample_start :: "rat rsi" where
  "sample_start =
     \<lparr>rs_period = 2, rs_period_decimal = 2, rs_previous_close = None, rs_seed_gain = 0, rs_seed_loss = 0,
      rs_changes = 0, rs_average_gain = None, rs_average_loss = None\<rparr>"

definition sample_end :: "rat rsi" where
  "sample_end =
     \<lparr>rs_period = 2, rs_period_decimal = 2, rs_previous_close = Some 103, rs_seed_gain = 0, rs_seed_loss = 0,
      rs_changes = 21, rs_average_gain = Some (23 / 2), rs_average_loss = Some 5\<rparr>"

lemma sample_indicated:
  "try_fold (indicate (rsi_update rat_api)) (sample_start, []) sample_bars = Ok (sample_end, sample_rsi)"
proof -
  let ?fold = "try_fold (indicate (rsi_update rat_api))"
  let ?flat = "\<lambda>n. sample_bar (10 * of_nat n) 100 101 99 100 1"
  have split: "sample_bars = map ?flat [0 ..< 3] @ map ?flat [3 ..< 20]
      @ [sample_bar 200 100 101 79 80 2, sample_bar 210 80 104 80 103 1]"
    by (simp add: sample_bars_def upt_conv_Cons)
  have seeded: "?fold (sample_start, []) (map ?flat [0 ..< 3]) = Ok (sample_steady 2, [None, None, Some 100])"
    by code_simp
  have "list_all (\<lambda>b. bar_is_valid rat_api b) sample_bars"
    using validate_series_bars(1) [OF sample_series] by (simp add: list_all_iff)
  then have "list_all (\<lambda>b. bar_is_valid rat_api b \<and> pb_close b = Price 100) (map ?flat [3 ..< 20])"
    unfolding split list_all_append by (simp add: list_all_iff sample_bar_def)
  then have "?fold (sample_steady (of_nat 2), [None, None, Some 100]) (map ?flat [3 ..< 20])
      = Ok (sample_steady (of_nat (2 + 17)), [None, None, Some 100] @ replicate 17 (Some 100))"
    by (rule sample_flat) simp_all
  then have flat: "?fold (sample_steady 2, [None, None, Some 100]) (map ?flat [3 ..< 20])
      = Ok (sample_steady 19, [None, None, Some 100] @ replicate 17 (Some 100))"
    by simp
  have moved: "?fold (sample_steady 19, [None, None, Some 100] @ replicate 17 (Some 100))
      [sample_bar 200 100 101 79 80 2, sample_bar 210 80 104 80 103 1] = Ok (sample_end, sample_rsi)"
    by code_simp
  show ?thesis unfolding split try_fold_append seeded flat and_then.simps moved ..
qed

lemma sample_loop:
  "callback_loop rat_api sample_bars sample_rsi sample_zone sample_support FirstEntry 225 (None, False) [18 ..< 22]
    = Ok (Some sample_signal)"
  by code_simp

lemma sample_callback:
  "evaluate_callback rat_api sample_bars sample_zone sample_support FirstEntry 225 = Ok (Some sample_signal)"
proof -
  have parts: "rsi_new rat_api (sc_rsi_period sample_support) = Ok sample_start"
    "length sample_bars - unat (sc_callback_max_bars sample_support) = 18" "length sample_bars = 22"
    by (simp_all add: sample_support_def rsi_new_def chart_period_def sample_start_def sample_bars_def)
  have window: "[18 ..< 22] = [length sample_bars - unat (sc_callback_max_bars sample_support) ..< length sample_bars]"
    unfolding parts(2) unfolding parts(3) ..
  have "sample_bars \<noteq> []" using parts(3) by auto
  then show ?thesis
    using sample_loop [unfolded window]
    by (simp add: evaluate_callback_def sample_series parts(1) sample_indicated)
qed

text \<open>A position of one unit bought for 100 and an exit fee of a fifth.\<close>

definition sample_position :: "rat take_profit_input" where
  "sample_position =
     \<lparr>tk_position = \<lparr>pk_quantity = 1, pk_buy_notional = 100, pk_entry_fee = 1, pk_funding = 0\<rparr>,
      tk_target_profit_rate = 1 / 200, tk_minimum_profit_quote = 0, tk_exit_fee_rate = Some (1 / 5),
      tk_tick_size = 1 / 10, tk_minimum_price = Some (Price 1), tk_maximum_price = None\<rparr>"

lemma sample_profit:
  "(calculate_take_profit rat_api sample_position :: (rat take_profit_result, unit) outcome)
    = Ok (Ready (Price (1269 / 10)) (13 / 25) False)"
  by code_simp

end
