(* ===== verification/Support_Properties.thy ===== *)
theory Support_Properties
  imports Support_Samples
begin

text \<open>
  Properties of the staged long strategy: what a confirmed callback rests on, and what a price
  that takes the profit earns.
\<close>

section \<open>Callbacks\<close>

text \<open>A bar that breaks the zone: it ends a support interval below it.\<close>

definition breaks_zone :: "'d decimal_api \<Rightarrow> 'd support_zone \<Rightarrow> 'd support_config \<Rightarrow> 'd public_bar \<Rightarrow> bool" where
  "breaks_zone D z c b \<longleftrightarrow>
     closes_support_interval c b \<and> dec_less D (price_value (pb_close b)) (price_value (sz_lower z))"

text \<open>A touch since which no bar before \<open>i\<close> has broken the zone.\<close>

definition touch_stands ::
  "'d decimal_api \<Rightarrow> 'd public_bar list \<Rightarrow> 'd support_zone \<Rightarrow> 'd support_config \<Rightarrow> nat \<Rightarrow> nat \<Rightarrow> nat \<Rightarrow> bool" where
  "touch_stands D bars z c start i touch \<longleftrightarrow>
     start \<le> touch \<and> touch < i \<and> sz_confirmed_at_ms z < pb_open_time_ms (bars ! touch)
     \<and> touches_zone D z (bars ! touch)
     \<and> list_all (\<lambda>k. sz_confirmed_at_ms z < pb_open_time_ms (bars ! k) \<longrightarrow> \<not> breaks_zone D z c (bars ! k))
         [touch ..< i]"

text \<open>The touch after looking at bar \<open>i\<close>.\<close>

definition touch_after :: "'d decimal_api \<Rightarrow> 'd public_bar list \<Rightarrow> 'd support_zone \<Rightarrow> nat option \<Rightarrow> nat \<Rightarrow> nat option" where
  "touch_after D bars z touched i = (if touched = None \<and> touches_zone D z (bars ! i) then Some i else touched)"

lemma callback_bar_Continue:
  assumes "callback_bar D bars values z c kind now_ms (touched, broken) i = Ok (Continue (touched', broken'))"
  obtains "touched' = None" | "pb_open_time_ms (bars ! i) \<le> sz_confirmed_at_ms z" and "touched' = touched"
  | "sz_confirmed_at_ms z < pb_open_time_ms (bars ! i)" and "\<not> breaks_zone D z c (bars ! i)"
      and "touched' \<in> {touched, touch_after D bars z touched i}"
  using assms
  by (auto simp: callback_bar_def Let_def breaks_zone_def touch_after_def and_then_Ok not_le
      split: if_splits option.splits)

lemma callback_bar_Confirm:
  assumes "callback_bar D bars values z c kind now_ms (touched, broken) i = Ok (Confirm signal)"
  obtains touch r volume where "sz_confirmed_at_ms z < pb_open_time_ms (bars ! i)"
    and "\<not> breaks_zone D z c (bars ! i)" and "touch_after D bars z touched i = Some touch"
    and "values ! i = Some r" and "callback_confirms D bars values z c now_ms touch i r"
    and "event_volume D bars touch i = Ok volume" and "\<not> dec_less D volume (sc_volume_multiple c)"
    and "signal = \<lparr>cs_kind = kind, cs_support_id = sz_id z, cs_confirmed_at_ms = pb_close_time_ms (bars ! i),
        cs_confirmation_low = pb_low (bars ! i), cs_reference_price = pb_close (bars ! i), cs_rsi = r,
        cs_relative_volume = volume\<rparr>"
  using assms
  by (auto simp: callback_bar_def Let_def breaks_zone_def touch_after_def and_then_Ok not_le
      split: if_splits option.splits)

lemma touch_stands_after:
  assumes "\<And>t. touched = Some t \<Longrightarrow> touch_stands D bars z c start i t" and "start \<le> i"
    and "sz_confirmed_at_ms z < pb_open_time_ms (bars ! i)" and "\<not> breaks_zone D z c (bars ! i)"
    and "touch_after D bars z touched i = Some touch"
  shows "touch_stands D bars z c start (Suc i) touch"
  using assms by (cases touched) (auto simp: touch_after_def touch_stands_def split: if_splits)

lemma callback_loop_Some:
  assumes "callback_loop D bars values z c kind now_ms (touched, broken) [i ..< n] = Ok (Some signal)"
    and "\<And>t. touched = Some t \<Longrightarrow> touch_stands D bars z c start i t" and "start \<le> i"
  obtains j touch r volume where "i \<le> j" and "j < n" and "touch_stands D bars z c start (Suc j) touch"
    and "values ! j = Some r" and "callback_confirms D bars values z c now_ms touch j r"
    and "event_volume D bars touch j = Ok volume" and "\<not> dec_less D volume (sc_volume_multiple c)"
    and "signal = \<lparr>cs_kind = kind, cs_support_id = sz_id z, cs_confirmed_at_ms = pb_close_time_ms (bars ! j),
        cs_confirmation_low = pb_low (bars ! j), cs_reference_price = pb_close (bars ! j), cs_rsi = r,
        cs_relative_volume = volume\<rparr>"
  using assms
proof (induction "n - i" arbitrary: i touched broken thesis)
  case 0
  then show ?case by simp
next
  case (Suc m)
  then have "[i ..< n] = i # [Suc i ..< n]" by (simp add: upt_conv_Cons)
  with Suc.prems(2) obtain turn where turn: "callback_bar D bars values z c kind now_ms (touched, broken) i = Ok turn"
    and rest: "(case turn of Continue s \<Rightarrow> callback_loop D bars values z c kind now_ms s [Suc i ..< n]
      | Confirm signal \<Rightarrow> Ok (Some signal)) = Ok (Some signal)"
    by (auto simp: and_then_Ok)
  show ?case
  proof (cases turn)
    case (Confirm s)
    then have "s = signal" using rest by simp
    from turn [unfolded Confirm this] show ?thesis
    proof (cases rule: callback_bar_Confirm)
      case (1 touch r volume)
      then show ?thesis
        using Suc.prems(1) [of i touch r volume] Suc.hyps(2) touch_stands_after [OF Suc.prems(3,4)] by simp
    qed
  next
    case (Continue s)
    obtain touched' broken' where s: "s = (touched', broken')" by (cases s)
    have stands: "touch_stands D bars z c start (Suc i) t" if "touched' = Some t" for t
      using turn [unfolded Continue s]
    proof (cases rule: callback_bar_Continue)
      case 2
      then have "touch_stands D bars z c start i t" using that Suc.prems(3) by simp
      then show ?thesis using 2(1) by (auto simp: touch_stands_def less_Suc_eq)
    next
      case 3
      have "touch_after D bars z touched i = Some t"
        using 3(3) that by (auto simp: touch_after_def)
      then show ?thesis using touch_stands_after [OF Suc.prems(3,4) 3(1,2)] by simp
    qed (use that in simp)
    have "m = n - Suc i" using Suc.hyps(2) by simp
    from Suc.hyps(1) [OF this _ _ stands] Suc.prems(1,4) rest Continue s show ?thesis
      by (metis Suc_leD callback_turn.simps(5) le_SucI)
  qed
qed

lemma indicated_length:
  "try_fold (indicate update) (s, vs) bars = Ok (s', values) \<Longrightarrow> length values = length vs + length bars"
proof (induction bars arbitrary: s vs)
  case (Cons b bars)
  obtain s1 result where "update s b = (s1, result)" by fastforce
  then show ?case using Cons by (cases result) (auto simp: indicate_def)
qed simp

lemma take_drop_ex:
  assumes "list_ex P (take (Suc i - touch) (drop touch xs))" and "i < length xs"
  shows "list_ex (\<lambda>k. P (xs ! k)) [touch ..< Suc i]"
proof -
  obtain n where "n < Suc i - touch" and "P (xs ! (touch + n))"
    using assms by (auto simp: list_ex_length)
  then show ?thesis unfolding list_ex_iff by (intro bexI [of _ "touch + n"]) auto
qed

text \<open>The largest volume of an event is one of its bars', or the zero it starts from.\<close>

lemma event_volume_some:
  assumes "event_volume D bars touch i = Ok volume" and "dec_choice_laws D" and "dec_const_laws D"
    and "0 < dec_value D multiple" and "\<not> dec_less D volume multiple"
  shows "list_ex (\<lambda>k. case relative_volume D bars k of Ok v \<Rightarrow> dec_le D multiple v | _ \<Rightarrow> False) [touch ..< Suc i]"
proof -
  let ?P = "\<lambda>v. v = dec_zero D \<or> (\<exists>k \<in> set [touch ..< Suc i]. relative_volume D bars k = Ok v)"
  have pick: "dec_greatest D a b \<in> {a, b}" for a b using assms(2) by (simp add: dec_choice_laws_def)
  have step: "?P v'" if prem: "?P v" "k \<in> set [touch ..< Suc i]"
    "and_then (relative_volume D bars k) (\<lambda>w. Ok (dec_greatest D v w)) = Ok v'" for v k v'
  proof -
    obtain w where "relative_volume D bars k = Ok w" "v' = dec_greatest D v w"
      using prem(3) by (auto simp: and_then_Ok)
    then show ?thesis using prem(1,2) pick [of v w] by auto
  qed
  have "?P volume"
    by (rule try_fold_inv [where P = ?P, OF step assms(1) [unfolded event_volume_def]]) auto
  moreover have "volume \<noteq> dec_zero D"
    using assms(3-5) by (auto simp: dec_less_def)
  ultimately obtain k where "k \<in> set [touch ..< Suc i]" and "relative_volume D bars k = Ok volume" by blast
  then show ?thesis
    using assms(5) unfolding list_ex_iff by (intro bexI [of _ k]) (simp_all add: dec_le_def dec_less_def)
qed

text \<open>
  C28: A callback is confirmed by a closed bar of the last few that closes above the zone and
  above the bar before it, is not older than the configured age, and has come back from oversold; the
  zone was touched by a bar that opened after the zone was confirmed, no bar from the touch on
  ended a support interval below the zone, some bar since had an oversold index and some bar
  since had the required volume.  Nothing of it lies in the future.
\<close>

theorem callback_rests_on_reclaim:
  assumes laws: "dec_choice_laws D" "dec_const_laws D"
    and found: "evaluate_callback D bars z c kind now_ms = Ok (Some signal)"
    and multiple: "dec_positive D (sc_volume_multiple c)"
  shows "\<exists>touch i start_rsi end_rsi values.
    length bars - unat (sc_callback_max_bars c) \<le> touch \<and> touch \<le> i \<and> i < length bars
    \<and> list_all (\<lambda>b. pb_symbol b = sc_symbol c \<and> pb_interval_ms b = sc_callback_period c
        \<and> bar_is_valid D b \<and> pb_close_time_ms b \<le> now_ms) bars
    \<and> sz_confirmed_at_ms z < pb_open_time_ms (bars ! touch) \<and> touches_zone D z (bars ! touch)
    \<and> list_all (\<lambda>k. \<not> breaks_zone D z c (bars ! k)) [touch ..< Suc i]
    \<and> price_less D (sz_upper z) (pb_close (bars ! i))
    \<and> 0 < i \<and> price_less D (pb_high (bars ! (i - 1))) (pb_close (bars ! i))
    \<and> now_ms - pb_close_time_ms (bars ! i) \<le> sc_max_signal_age_ms c
    \<and> rsi_new D (sc_rsi_period c) = Ok start_rsi
    \<and> try_fold (indicate (rsi_update D)) (start_rsi, []) bars = Ok (end_rsi, values)
    \<and> values ! i = Some (cs_rsi signal) \<and> dec_less D (sc_oversold_rsi c) (cs_rsi signal)
    \<and> list_ex (\<lambda>k. case values ! k of None \<Rightarrow> False | Some v \<Rightarrow> dec_less D v (sc_oversold_rsi c)) [touch ..< Suc i]
    \<and> list_ex (\<lambda>k. case relative_volume D bars k of Ok v \<Rightarrow> dec_le D (sc_volume_multiple c) v | _ \<Rightarrow> False)
        [touch ..< Suc i]
    \<and> cs_kind signal = kind \<and> cs_support_id signal = sz_id z
    \<and> cs_confirmed_at_ms signal = pb_close_time_ms (bars ! i)
    \<and> cs_confirmation_low signal = pb_low (bars ! i) \<and> cs_reference_price signal = pb_close (bars ! i)"
proof -
  let ?start = "length bars - unat (sc_callback_max_bars c)"
  obtain start_rsi end_rsi vals where series: "validate_series D bars (sc_symbol c) (sc_callback_period c) now_ms = Ok ()"
    and rsi: "rsi_new D (sc_rsi_period c) = Ok start_rsi"
    and run: "try_fold (indicate (rsi_update D)) (start_rsi, []) bars = Ok (end_rsi, vals)"
    and loop: "callback_loop D bars vals z c kind now_ms (None, False) [?start ..< length bars] = Ok (Some signal)"
    using found by (auto simp: evaluate_callback_def and_then_Ok map_err_Ok split: if_splits)
  note bars = validate_series_bars [OF series]
  obtain i touch r volume where i: "i < length bars" and stands: "touch_stands D bars z c ?start (Suc i) touch"
    and r: "vals ! i = Some r" and confirms: "callback_confirms D bars vals z c now_ms touch i r"
    and volume: "event_volume D bars touch i = Ok volume" "\<not> dec_less D volume (sc_volume_multiple c)"
    and signal: "signal = \<lparr>cs_kind = kind, cs_support_id = sz_id z, cs_confirmed_at_ms = pb_close_time_ms (bars ! i),
        cs_confirmation_low = pb_low (bars ! i), cs_reference_price = pb_close (bars ! i), cs_rsi = r,
        cs_relative_volume = volume\<rparr>"
    by (rule callback_loop_Some [OF loop, where start = ?start]) (simp, simp, rule that)
  have touch: "?start \<le> touch" "touch \<le> i" "sz_confirmed_at_ms z < pb_open_time_ms (bars ! touch)"
    "touches_zone D z (bars ! touch)" using stands by (auto simp: touch_stands_def)
  have "sz_confirmed_at_ms z < pb_open_time_ms (bars ! k)" if "k \<in> set [touch ..< Suc i]" for k
    using touch(3) sorted_wrt_nth_less [OF bars(2), of touch k] that i by (cases "touch = k") auto
  then have unbroken: "list_all (\<lambda>k. \<not> breaks_zone D z c (bars ! k)) [touch ..< Suc i]"
    using stands by (auto simp: touch_stands_def list_all_iff)
  have oversold: "list_ex (\<lambda>k. case vals ! k of None \<Rightarrow> False | Some v \<Rightarrow> dec_less D v (sc_oversold_rsi c)) [touch ..< Suc i]"
    using confirms indicated_length [OF run] i
    by (intro take_drop_ex) (simp_all add: callback_confirms_def Let_def)
  have "pb_close_time_ms (bars ! i) \<le> now_ms" using bars(1) i by (simp add: list_all_length)
  then have checks: "dec_less D (sc_oversold_rsi c) r" "price_less D (sz_upper z) (pb_close (bars ! i))" "0 < i"
    "price_less D (pb_high (bars ! (i - 1))) (pb_close (bars ! i))"
    "now_ms - pb_close_time_ms (bars ! i) \<le> sc_max_signal_age_ms c"
    using confirms by (auto simp: callback_confirms_def Let_def price_less_def dec_less_def dec_le_def
        saturating_sub_def not_less not_le)
  have "0 < dec_value D (sc_volume_multiple c)" using multiple by (simp add: dec_positive_def)
  note loud = event_volume_some [OF volume(1) laws this volume(2)]
  show ?thesis
    by (rule exI [of _ touch], rule exI [of _ i], rule exI [of _ start_rsi], rule exI [of _ end_rsi],
        rule exI [of _ vals])
      (simp only: touch bars(1) unbroken checks rsi run r signal oversold loud i callback_signal.simps simp_thms)
qed

theorem callback_rests_on_reclaim_witness:
  "price_less rat_api (sz_upper sample_zone) (cs_reference_price sample_signal)
    \<and> dec_less rat_api (sc_oversold_rsi sample_support) (cs_rsi sample_signal)"
proof -
  have "dec_positive rat_api (sc_volume_multiple sample_support)"
    by (simp add: sample_support_def dec_positive_def)
  from callback_rests_on_reclaim [OF rat_choice_laws rat_const_laws sample_callback this]
  show ?thesis by (elim exE conjE) simp
qed

section \<open>Taking the profit\<close>
















end
