(* ===== verification/Feature_Frame.thy ===== *)
theory Feature_Frame
  imports Domain Ordered_Map
begin

text \<open>
  The versioned feature frame of \<open>crates/venue-indicators/src/feature_frame.rs\<close>: the values one
  decision is taken on, with the cursor of every source they come from, and their validation.
\<close>

section \<open>The frame\<close>

record source_cursor =
  cu_generation :: u64
  cu_sequence :: u64
  cu_event_time_ms :: u64
  cu_fresh :: bool

datatype feature_state =
  FeatureWarmup | FeatureReady | FeatureStale | FeatureDataGap | FeatureRebuilding | FeatureUnknown

datatype breakout_direction = BreakoutLong | BreakoutShort

record breakout_opportunity =
  bo_schema_version :: u16
  bo_generation :: u64
  bo_feature_version :: string
  bo_direction :: breakout_direction
  bo_boundary_id :: string
  bo_boundary_sequence :: u64
  bo_compression_cycle_id :: string
  bo_compression_cycle_sequence :: u64
  bo_detected_at_ms :: u64
  bo_valid_until_ms :: u64

record 'd feature_values =
  fv_mid_price :: "'d price"
  fv_fair_price :: "'d price"
  fv_spread_bps :: 'd
  fv_depth_quote :: 'd
  fv_book_imbalance :: 'd
  fv_trade_imbalance :: 'd
  fv_short_return_bps :: 'd
  fv_trend_efficiency :: 'd
  fv_bandwidth_expansion :: 'd
  fv_expected_move_bps :: 'd
  fv_toxicity :: 'd

record 'd feature_frame =
  ff_symbol :: symbol
  ff_schema_version :: u16
  ff_generation :: u64
  ff_watermark_ms :: u64
  ff_state :: feature_state
  ff_cursors :: "(string, source_cursor) btree"
  ff_feature_versions :: "(string, string) btree"
  ff_values :: "'d feature_values"
  ff_breakout :: "breakout_opportunity option"

datatype feature_frame_error = FF_Identity | FF_Provenance | FF_Values | FF_Breakout

definition BREAKOUT_OPPORTUNITY_VERSION_KEY :: string where
  "BREAKOUT_OPPORTUNITY_VERSION_KEY = ''_breakout_opportunity''"

section \<open>Validation\<close>

definition breakout_validate_for ::
  "breakout_opportunity \<Rightarrow> 'd feature_frame \<Rightarrow> (unit, feature_frame_error) outcome" where
  "breakout_validate_for opportunity frame =
     (if bo_schema_version opportunity = 0 \<or> bo_generation opportunity \<noteq> ff_generation frame \<or> bo_feature_version opportunity = []
        \<or> bt_lookup (ff_feature_versions frame) BREAKOUT_OPPORTUNITY_VERSION_KEY \<noteq> Some (bo_feature_version opportunity)
        \<or> bo_boundary_id opportunity = [] \<or> bo_boundary_sequence opportunity = 0
        \<or> bo_compression_cycle_id opportunity = [] \<or> bo_compression_cycle_sequence opportunity = 0
        \<or> bo_detected_at_ms opportunity = 0 \<or> ff_watermark_ms frame < bo_detected_at_ms opportunity
        \<or> bo_valid_until_ms opportunity < ff_watermark_ms frame
      then Err FF_Breakout else Ok ())"

text \<open>A required source without a cursor or a version.\<close>

definition source_missing :: "'d feature_frame \<Rightarrow> string \<Rightarrow> bool" where
  "source_missing frame source \<longleftrightarrow>
     source = [] \<or> \<not> bt_contains (ff_cursors frame) source
     \<or> (case bt_lookup (ff_feature_versions frame) source of None \<Rightarrow> True | Some version \<Rightarrow> version = [])"

definition cursor_unusable :: "'d feature_frame \<Rightarrow> u64 \<Rightarrow> source_cursor \<Rightarrow> bool" where
  "cursor_unusable frame max_data_age_ms cursor \<longleftrightarrow>
     \<not> cu_fresh cursor \<or> cu_generation cursor \<noteq> ff_generation frame \<or> cu_sequence cursor = 0
     \<or> cu_event_time_ms cursor = 0 \<or> ff_watermark_ms frame < cu_event_time_ms cursor
     \<or> max_data_age_ms < saturating_sub (ff_watermark_ms frame) (cu_event_time_ms cursor)"

definition within_one :: "'d decimal_api \<Rightarrow> 'd \<Rightarrow> bool" where
  "within_one D v \<longleftrightarrow> dec_le D (dec_neg D (dec_one D)) v \<and> dec_le D v (dec_one D)"

definition values_invalid :: "'d decimal_api \<Rightarrow> 'd feature_values \<Rightarrow> bool" where
  "values_invalid D v \<longleftrightarrow>
     \<not> dec_positive D (price_value (fv_mid_price v)) \<or> \<not> dec_positive D (price_value (fv_fair_price v))
     \<or> dec_negative D (fv_spread_bps v) \<or> dec_negative D (fv_depth_quote v)
     \<or> \<not> within_one D (fv_book_imbalance v) \<or> \<not> within_one D (fv_trade_imbalance v)
     \<or> dec_negative D (fv_toxicity v) \<or> dec_less D (dec_one D) (fv_toxicity v)
     \<or> \<not> within_one D (fv_trend_efficiency v)
     \<or> dec_less D (fv_bandwidth_expansion v) (dec_neg D (dec_one D))
     \<or> dec_negative D (fv_expected_move_bps v)"

definition frame_validate ::
  "'d decimal_api \<Rightarrow> 'd feature_frame \<Rightarrow> string set \<Rightarrow> u64 \<Rightarrow> (unit, feature_frame_error) outcome" where
  "frame_validate D frame required_sources max_data_age_ms =
     (if ff_schema_version frame = 0 \<or> ff_generation frame = 0 \<or> ff_watermark_ms frame = 0
        \<or> ff_state frame \<noteq> FeatureReady \<or> required_sources = {}
        \<or> \<not> (\<forall>source \<in> required_sources. \<not> source_missing frame source)
      then Err FF_Identity
      else if list_ex (cursor_unusable frame max_data_age_ms) (bt_values (ff_cursors frame))
      then Err FF_Provenance
      else if values_invalid D (ff_values frame) then Err FF_Values
      else case ff_breakout frame of
        None \<Rightarrow> Ok ()
      | Some opportunity \<Rightarrow> breakout_validate_for opportunity frame)"

end
