(* ===== verification/Scalping_Model.thy ===== *)
theory Scalping_Model
  imports Feature_Frame Copy_Identity "HOL-Library.List_Lexorder"
begin

text \<open>
  The data of the scalping strategy, \<open>crates/venue-strategies/src/scalping/model.rs\<close>: binding,
  risk limits, the parameter release with its validation, candidates and their evidence, and the
  episode with the validation of a persisted one.  SHA-256, the text of a decimal and the JSON of
  the parameters are not in the repository: they are the functions of \<open>externals\<close>, with the
  Unicode table of \<open>to_lowercase\<close>.
\<close>

section \<open>Binding\<close>

datatype scalping_error =
  SC_Binding | SC_Parameters | SC_Symbol | SC_Feature feature_frame_error | SC_FeatureProfile
| SC_FeatureProgress | SC_Checkpoint | SC_Persistence | SC_Authorization | SC_ShadowOutcome
| SC_Evidence | SC_Reprice | SC_Episode | SC_Risk | SC_Fault

definition PHASE8_ATR14_PARAMETER_RELEASE_ID :: string where
  "PHASE8_ATR14_PARAMETER_RELEASE_ID = ''scalping_binance_phase8_atr14_5u_entry08_v2''"

datatype strategy_kind = Scalping

datatype control_target = Running | StopAndProtect | FlattenAndStop | EmergencyStop

record 'd strategy_binding =
  bd_strategy_kind :: strategy_kind
  bd_strategy_instance_id :: string
  bd_run_id :: string
  bd_exchange :: string
  bd_account :: string
  bd_symbol :: symbol
  bd_parameter_release_id :: string
  bd_owner_scope :: string
  bd_risk_budget :: "'d amount"

definition blank :: "string \<Rightarrow> bool" where
  "blank s \<longleftrightarrow> trim s = []"

definition strategy_binding_validate :: "'d decimal_api \<Rightarrow> 'd strategy_binding \<Rightarrow> (unit, scalping_error) outcome" where
  "strategy_binding_validate D b =
     (if bd_strategy_kind b \<noteq> Scalping
        \<or> list_ex blank [bd_strategy_instance_id b, bd_run_id b, bd_exchange b, bd_account b,
            bd_parameter_release_id b, bd_owner_scope b]
        \<or> \<not> dec_positive D (am_value (bd_risk_budget b))
      then Err SC_Binding else Ok ())"

section \<open>Risk limits\<close>

datatype risk_unit = RiskUnit (unit_str: string)

definition unit_text_valid :: "string \<Rightarrow> bool" where
  "unit_text_valid value \<longleftrightarrow>
     value \<noteq> [] \<and> length value \<le> 64
     \<and> list_all (\<lambda>c. is_ascii_alphanumeric c \<or> c = CHR ''-'' \<or> c = CHR ''_'') value"

definition risk_unit_new :: "string \<Rightarrow> (risk_unit, scalping_error) outcome" where
  "risk_unit_new value = (if \<not> unit_text_valid value then Err SC_Parameters else Ok (RiskUnit value))"

definition shadow_unit :: risk_unit where "shadow_unit = RiskUnit ''risk''"

record 'd risk_limit =
  rk_value :: 'd
  rk_unit :: risk_unit

definition risk_limit_valid :: "'d decimal_api \<Rightarrow> 'd risk_limit \<Rightarrow> bool" where
  "risk_limit_valid D l \<longleftrightarrow> dec_positive D (rk_value l) \<and> unit_text_valid (unit_str (rk_unit l))"

record 'd risk_plan =
  rp_risk_per_episode :: "'d risk_limit"
  rp_quote_cap :: "'d amount"
  rp_max_episode_loss :: "'d risk_limit"

definition risk_plan_valid :: "'d decimal_api \<Rightarrow> 'd risk_plan \<Rightarrow> bool" where
  "risk_plan_valid D p \<longleftrightarrow>
     risk_limit_valid D (rp_risk_per_episode p) \<and> risk_limit_valid D (rp_max_episode_loss p)
     \<and> rk_unit (rp_risk_per_episode p) = rk_unit (rp_max_episode_loss p)
     \<and> dec_le D (rk_value (rp_risk_per_episode p)) (rk_value (rp_max_episode_loss p))
     \<and> dec_positive D (am_value (rp_quote_cap p))"

definition admits_worst_loss :: "'d decimal_api \<Rightarrow> 'd risk_plan \<Rightarrow> 'd risk_limit \<Rightarrow> bool" where
  "admits_worst_loss D p worst_loss \<longleftrightarrow>
     risk_limit_valid D worst_loss \<and> rk_unit worst_loss = rk_unit (rp_risk_per_episode p)
     \<and> dec_le D (rk_value worst_loss) (rk_value (rp_risk_per_episode p))
     \<and> dec_le D (rk_value worst_loss) (rk_value (rp_max_episode_loss p))"

section \<open>Exit distances\<close>

datatype 'd exit_distance_policy = StaticHardStop 'd | AtrMultiples u16 'd 'd

definition policy_phase6 :: "'d decimal_api \<Rightarrow> 'd exit_distance_policy" where
  "policy_phase6 D = StaticHardStop (dec_new D 20 0)"

definition policy_phase8 :: "'d decimal_api \<Rightarrow> 'd exit_distance_policy" where
  "policy_phase8 D = AtrMultiples 14 (dec_new D 12 1) (dec_new D 8 1)"

primrec policy_valid :: "'d decimal_api \<Rightarrow> 'd exit_distance_policy \<Rightarrow> bool" where
  "policy_valid D (StaticHardStop distance) = dec_positive D distance"
| "policy_valid D (AtrMultiples period stop_multiplier target_multiplier) =
     (period = 14 \<and> dec_positive D stop_multiplier \<and> dec_positive D target_multiplier)"

primrec distances_bps ::
  "'d decimal_api \<Rightarrow> 'd exit_distance_policy \<Rightarrow> 'd \<Rightarrow> ('d \<times> 'd, 'e) outcome" where
  "distances_bps D (StaticHardStop distance) atr = Ok (distance, dec_abs D atr)"
| "distances_bps D (AtrMultiples period stop_multiplier target_multiplier) atr =
     and_then (or_panic (dec_mul D (dec_abs D atr) stop_multiplier)) (\<lambda>hard_stop.
     and_then (or_panic (dec_mul D (dec_abs D atr) target_multiplier)) (\<lambda>target.
     Ok (hard_stop, target)))"

section \<open>Kinds\<close>

datatype expert = RangeFade | TrendPullback | BreakoutContinuation

primrec expert_rank :: "expert \<Rightarrow> nat" where
  "expert_rank RangeFade = 0"
| "expert_rank TrendPullback = 1"
| "expert_rank BreakoutContinuation = 2"

instantiation expert :: linorder
begin

definition less_expert :: "expert \<Rightarrow> expert \<Rightarrow> bool" where
  "less_expert a b \<longleftrightarrow> expert_rank a < expert_rank b"

definition less_eq_expert :: "expert \<Rightarrow> expert \<Rightarrow> bool" where
  "less_eq_expert a b \<longleftrightarrow> expert_rank a \<le> expert_rank b"

instance
proof
  fix a b :: expert
  assume "a \<le> b" "b \<le> a"
  then show "a = b" by (cases a; cases b) (simp_all add: less_eq_expert_def)
qed (auto simp: less_eq_expert_def less_expert_def)

end

datatype entry_style = PassiveMaker | MarketableLimit

datatype exit_template = FairValue | TrendTrail | BreakoutExit

datatype market_regime =
  RegimeRange | TrendUp | TrendDown | ExpansionUp | ExpansionDown | RegimeShock | RegimeUnknown

datatype exposure_state = ExposureFlat | ExposureOpen | ExposureUnknown

datatype protection_state = ProtectionComplete | ProtectionGap | ProtectionUnknown

record safety_projection =
  sf_private_snapshot_ready :: bool
  sf_exposure :: exposure_state
  sf_execution_unknown :: bool
  sf_protection :: protection_state
  sf_owner_conflict :: bool
  sf_risk_budget_available :: bool

datatype trade_direction = DirectionLong | DirectionShort

datatype semantic_purpose = SemanticEntry

section \<open>The parameter release\<close>

record 'd scalping_params =
  sx_feature_profile :: string
  sx_feature_digest :: string
  sx_calibration_model_version :: string
  sx_calibration_model_digest :: string
  sx_required_sources :: "string set"
  sx_enabled_experts :: "expert set"
  sx_enabled_entry_styles :: "entry_style set"
  sx_short_window_ms :: u64
  sx_mid_window_ms :: u64
  sx_slow_window_ms :: u64
  sx_max_data_age_ms :: u64
  sx_max_spread_bps :: 'd
  sx_min_depth_quote :: 'd
  sx_max_decision_latency_ms :: u64
  sx_regime_min_confidence :: 'd
  sx_regime_confidence_margin :: 'd
  sx_max_toxicity :: 'd
  sx_min_deviation_bps :: 'd
  sx_trend_threshold :: 'd
  sx_breakout_threshold :: 'd
  sx_shock_return_bps :: 'd
  sx_regime_dwell_ms :: u64
  sx_max_order_attempts :: u32
  sx_max_reprices :: u32
  sx_entry_retry_cooldown_ms :: u64
  sx_min_net_ev_bps :: 'd
  sx_uncertainty_multiplier :: 'd
  sx_conflict_margin_bps :: 'd
  sx_max_entry_slippage_bps :: 'd
  sx_risk_per_episode :: "'d risk_limit"
  sx_quote_cap :: "'d amount"
  sx_max_episode_loss :: "'d risk_limit"
  sx_candidate_ttl_ms :: u64
  sx_entry_ttl_ms :: u64
  sx_cooldown_ms :: u64
  sx_max_hold_ms :: u64
  sx_max_unprotected_ms :: u64
  sx_loss_window_ms :: u64
  sx_drawdown_window_ms :: u64
  sx_loss_window_limit :: "'d risk_limit"
  sx_drawdown_limit :: "'d risk_limit"
  sx_max_loss_streak :: u32
  sx_loss_cooldown_ms :: u64
  sx_exit_distance_policy :: "'d exit_distance_policy"

definition shadow_params :: "'d decimal_api \<Rightarrow> 'd amount \<Rightarrow> 'd scalping_params" where
  "shadow_params D quote_hard_cap =
     (let one_unit = \<lparr>rk_value = dec_one D, rk_unit = shadow_unit\<rparr> in
      \<lparr>sx_feature_profile = ''scalping-shadow-v1'',
       sx_feature_digest = replicate 64 (CHR ''0''),
       sx_calibration_model_version = ''scalping-shadow-calibration-v1'',
       sx_calibration_model_digest = replicate 64 (CHR ''0''),
       sx_required_sources = {''book'', ''trades'', ''bars''},
       sx_enabled_experts = {RangeFade, TrendPullback, BreakoutContinuation},
       sx_enabled_entry_styles = {PassiveMaker, MarketableLimit}, sx_short_window_ms = 5000,
       sx_mid_window_ms = 30000, sx_slow_window_ms = 120000, sx_max_data_age_ms = 65000,
       sx_max_spread_bps = dec_new D 8 1, sx_min_depth_quote = dec_new D 100 0,
       sx_max_decision_latency_ms = 250, sx_regime_min_confidence = dec_new D 6 1,
       sx_regime_confidence_margin = dec_new D 1 1, sx_max_toxicity = dec_new D 8 1,
       sx_min_deviation_bps = dec_new D 2 1, sx_trend_threshold = dec_new D 6 1,
       sx_breakout_threshold = dec_new D 5 1, sx_shock_return_bps = dec_new D 30 0,
       sx_regime_dwell_ms = 2000, sx_max_order_attempts = 2, sx_max_reprices = 1,
       sx_entry_retry_cooldown_ms = 250, sx_min_net_ev_bps = dec_new D 2 1,
       sx_uncertainty_multiplier = dec_one D, sx_conflict_margin_bps = dec_new D 1 1,
       sx_max_entry_slippage_bps = dec_one D, sx_risk_per_episode = one_unit,
       sx_quote_cap = amount_new (am_asset quote_hard_cap) (dec_new D 100 0),
       sx_max_episode_loss = one_unit, sx_candidate_ttl_ms = 1000, sx_entry_ttl_ms = 1000,
       sx_cooldown_ms = 1000, sx_max_hold_ms = 60000, sx_max_unprotected_ms = 1000,
       sx_loss_window_ms = 3600000, sx_drawdown_window_ms = 3600000,
       sx_loss_window_limit = one_unit, sx_drawdown_limit = one_unit, sx_max_loss_streak = 3,
       sx_loss_cooldown_ms = 5000, sx_exit_distance_policy = policy_phase6 D\<rparr>)"

definition phase8_params :: "'d decimal_api \<Rightarrow> 'd amount \<Rightarrow> 'd scalping_params" where
  "phase8_params D quote_hard_cap = (shadow_params D quote_hard_cap)
     \<lparr>sx_feature_profile := ''scalping-phase8-atr14-v1'', sx_enabled_entry_styles := {PassiveMaker},
      sx_max_spread_bps := dec_new D 20 0, sx_exit_distance_policy := policy_phase8 D,
      sx_max_loss_streak := 3, sx_loss_cooldown_ms := 3600000\<rparr>"

definition params_for_binding :: "'d decimal_api \<Rightarrow> 'd strategy_binding \<Rightarrow> 'd scalping_params" where
  "params_for_binding D b =
     (if bd_parameter_release_id b = PHASE8_ATR14_PARAMETER_RELEASE_ID
      then phase8_params D (bd_risk_budget b) else shadow_params D (bd_risk_budget b))"

definition digest_is_valid :: "string \<Rightarrow> bool" where
  "digest_is_valid value \<longleftrightarrow> length value = 64 \<and> list_all is_ascii_hexdigit value"

definition plan_of_params :: "'d scalping_params \<Rightarrow> 'd risk_plan" where
  "plan_of_params p =
     \<lparr>rp_risk_per_episode = sx_risk_per_episode p, rp_quote_cap = sx_quote_cap p,
      rp_max_episode_loss = sx_max_episode_loss p\<rparr>"

text \<open>The conditions of \<open>validate_for\<close>, in three groups.\<close>

definition identity_invalid :: "'d scalping_params \<Rightarrow> bool" where
  "identity_invalid p \<longleftrightarrow>
     blank (sx_feature_profile p) \<or> blank (sx_calibration_model_version p)
     \<or> \<not> (digest_is_valid (sx_feature_digest p) \<and> digest_is_valid (sx_calibration_model_digest p))
     \<or> sx_required_sources p = {} \<or> sx_enabled_experts p = {} \<or> sx_enabled_entry_styles p = {}
     \<or> \<not> (\<forall>source \<in> sx_required_sources p. \<not> blank source)"

definition times_invalid :: "'d scalping_params \<Rightarrow> bool" where
  "times_invalid p \<longleftrightarrow>
     sx_max_data_age_ms p = 0 \<or> sx_short_window_ms p = 0
     \<or> sx_mid_window_ms p \<le> sx_short_window_ms p \<or> sx_slow_window_ms p \<le> sx_mid_window_ms p
     \<or> sx_max_decision_latency_ms p = 0
     \<or> sx_candidate_ttl_ms p = 0 \<or> sx_short_window_ms p < sx_candidate_ttl_ms p
     \<or> sx_entry_ttl_ms p = 0 \<or> sx_cooldown_ms p = 0
     \<or> sx_entry_retry_cooldown_ms p = 0 \<or> sx_candidate_ttl_ms p < sx_entry_retry_cooldown_ms p
     \<or> sx_max_hold_ms p = 0 \<or> sx_max_unprotected_ms p = 0 \<or> sx_max_hold_ms p < sx_max_unprotected_ms p
     \<or> sx_loss_window_ms p = 0 \<or> sx_drawdown_window_ms p = 0
     \<or> sx_drawdown_window_ms p < sx_loss_window_ms p
     \<or> sx_max_loss_streak p = 0 \<or> sx_regime_dwell_ms p = 0 \<or> sx_max_order_attempts p = 0"

definition above_one :: "'d decimal_api \<Rightarrow> 'd \<Rightarrow> bool" where
  "above_one D v \<longleftrightarrow> dec_less D (dec_one D) v"

definition amounts_invalid :: "'d decimal_api \<Rightarrow> 'd scalping_params \<Rightarrow> bool" where
  "amounts_invalid D p \<longleftrightarrow>
     \<not> dec_positive D (sx_min_net_ev_bps p) \<or> \<not> dec_positive D (sx_uncertainty_multiplier p)
     \<or> dec_negative D (sx_conflict_margin_bps p) \<or> \<not> dec_positive D (sx_max_spread_bps p)
     \<or> \<not> dec_positive D (sx_min_depth_quote p)
     \<or> \<not> dec_positive D (sx_regime_min_confidence p) \<or> above_one D (sx_regime_min_confidence p)
     \<or> dec_negative D (sx_regime_confidence_margin p) \<or> above_one D (sx_regime_confidence_margin p)
     \<or> dec_negative D (sx_max_toxicity p) \<or> above_one D (sx_max_toxicity p)
     \<or> \<not> dec_positive D (sx_min_deviation_bps p)
     \<or> \<not> dec_positive D (sx_trend_threshold p) \<or> above_one D (sx_trend_threshold p)
     \<or> \<not> dec_positive D (sx_breakout_threshold p) \<or> \<not> dec_positive D (sx_shock_return_bps p)
     \<or> \<not> dec_positive D (sx_max_entry_slippage_bps p)
     \<or> \<not> policy_valid D (sx_exit_distance_policy p)"

definition params_validate_for ::
  "'d decimal_api \<Rightarrow> 'd scalping_params \<Rightarrow> 'd strategy_binding \<Rightarrow> (unit, scalping_error) outcome" where
  "params_validate_for D p b =
     (if identity_invalid p \<or> times_invalid p \<or> amounts_invalid D p
        \<or> \<not> risk_plan_valid D (plan_of_params p)
        \<or> am_asset (sx_quote_cap p) \<noteq> am_asset (bd_risk_budget b)
        \<or> \<not> risk_limit_valid D (sx_loss_window_limit p) \<or> \<not> risk_limit_valid D (sx_drawdown_limit p)
        \<or> rk_unit (sx_loss_window_limit p) \<noteq> rk_unit (sx_risk_per_episode p)
        \<or> rk_unit (sx_drawdown_limit p) \<noteq> rk_unit (sx_risk_per_episode p)
        \<or> sx_loss_cooldown_ms p < sx_cooldown_ms p
      then Err SC_Parameters else Ok ())"

section \<open>Candidates and their evidence\<close>

record breakout_cursor =
  bc_feature_generation :: u64
  bc_boundary_sequence :: u64
  bc_compression_cycle_sequence :: u64

record 'd fill_slice =
  fs_fill_ratio :: 'd
  fs_probability :: 'd

record 'd outcome_probabilities =
  op_target :: 'd
  op_stop :: 'd
  op_other :: 'd

record 'd candidate_costs =
  cc_entry_cost_bps :: 'd
  cc_exit_cost_bps :: 'd
  cc_funding_cost_bps :: 'd
  cc_nonfill_cost_bps :: 'd
  cc_opportunity_cost_bps :: 'd

record 'd semantic_intent =
  it_intent_id :: string
  it_symbol :: symbol
  it_direction :: trade_direction
  it_purpose :: semantic_purpose
  it_expert :: expert
  it_entry_style :: entry_style
  it_exit_template :: exit_template
  it_attempt_cap :: u32
  it_max_reprices :: u32
  it_risk_plan :: "'d risk_plan"
  it_target_quote :: "'d amount"
  it_reference_price :: "'d price"
  it_max_slippage_bps :: 'd
  it_valid_until_ms :: u64
  it_entry_ttl_ms :: u64
  it_hard_stop_distance_bps :: 'd
  it_target_distance_bps :: 'd
  it_max_hold_ms :: u64
  it_max_unprotected_ms :: u64
  it_requires_server_protection :: bool
  it_opportunity_key :: string
  it_breakout_cursor :: "breakout_cursor option"
  it_idempotency_seed :: string

record 'd candidate_preparation =
  cp_preparation_id :: string
  cp_binding_digest :: string
  cp_controller_revision :: u64
  cp_authority_generation :: u64
  cp_market_regime :: market_regime
  cp_frame_generation :: u64
  cp_watermark_ms :: u64
  cp_valid_until_ms :: u64
  cp_candidates :: "'d semantic_intent list"

record 'd candidate_evidence =
  ev_candidate_id :: string
  ev_preparation_id :: string
  ev_binding_digest :: string
  ev_frame_generation :: u64
  ev_watermark_ms :: u64
  ev_valid_until_ms :: u64
  ev_calibration_model_version :: string
  ev_calibration_digest :: string
  ev_cost_digest :: string
  ev_risk_digest :: string
  ev_worst_loss :: "'d risk_limit"
  ev_fill_probability :: 'd
  ev_fill_distribution :: "'d fill_slice list"
  ev_outcomes :: "'d outcome_probabilities"
  ev_costs :: "'d candidate_costs"
  ev_target_pnl_bps :: 'd
  ev_stop_pnl_bps :: 'd
  ev_other_pnl_bps :: 'd
  ev_outcome_expected_value_bps :: 'd
  ev_net_expected_value_bps :: 'd
  ev_uncertainty_bps :: 'd
  ev_admissible :: bool

section \<open>Faults\<close>

datatype episode_fault_kind = UnprotectedExposure | ExecutionUnknown | OwnerConflict

datatype fault_scope = EpisodeScope episode_fault_kind | ControlScope

record safety_deadline =
  sd_deadline_id :: string
  sd_generation :: u64
  sd_armed_at_ms :: u64
  sd_expires_at_ms :: u64

definition deadline_validate :: "safety_deadline \<Rightarrow> (unit, scalping_error) outcome" where
  "deadline_validate d =
     (if blank (sd_deadline_id d) \<or> sd_generation d = 0 \<or> sd_armed_at_ms d = 0
        \<or> sd_expires_at_ms d \<le> sd_armed_at_ms d
      then Err SC_Fault else Ok ())"

record armed_deadline =
  ad_kind :: episode_fault_kind
  ad_deadline :: safety_deadline

record deadline_fired =
  df_deadline_id :: string
  df_generation :: u64
  df_fired_at_ms :: u64
  df_root_cause_fact_id :: string

record fault_projection =
  fa_scope :: fault_scope
  fa_deadline_id :: string
  fa_generation :: u64
  fa_root_cause_fact_id :: string
  fa_faulted_at_ms :: u64

definition fault_validate :: "fault_projection \<Rightarrow> (unit, scalping_error) outcome" where
  "fault_validate f =
     (if blank (fa_deadline_id f) \<or> fa_generation f = 0 \<or> blank (fa_root_cause_fact_id f)
        \<or> fa_faulted_at_ms f = 0
      then Err SC_Fault else Ok ())"

record fault_recovery =
  fx_authorization_id :: string
  fx_episode_id :: string
  fx_scope :: fault_scope
  fx_fault_generation :: u64
  fx_root_cause_fact_id :: string
  fx_valid_until_ms :: u64

section \<open>Episodes\<close>

datatype episode_state =
  EpReserved | EpEntryRetryWait | EpOpen | EpExitPending | EpStoppedProtected | EpStoppedFlat
| EpCooldown | EpEpisodeFaulted | EpControlFaulted

record 'd episode =
  ep_episode_id :: string
  ep_frozen_intent :: "'d semantic_intent"
  ep_frozen_evidence :: "'d candidate_evidence option"
  ep_state :: episode_state
  ep_attempts_started :: u32
  ep_retry_not_before_ms :: "u64 option"
  ep_opened_at_ms :: "u64 option"
  ep_last_observed_at_ms :: u64
  ep_last_fact_id :: "string option"
  ep_episode_fault_deadline :: "armed_deadline option"
  ep_control_fault_deadline :: "safety_deadline option"
  ep_fault :: "fault_projection option"
  ep_last_deadline_fired_id :: "string option"
  ep_last_deadline_fired_generation :: "u64 option"
  ep_last_recovery_authorization_id :: "string option"

definition episode_reserve ::
  "'d semantic_intent \<Rightarrow> 'd candidate_evidence option \<Rightarrow> u64 \<Rightarrow> 'd episode" where
  "episode_reserve frozen_intent frozen_evidence observed_at_ms =
     \<lparr>ep_episode_id = it_intent_id frozen_intent, ep_frozen_intent = frozen_intent,
      ep_frozen_evidence = frozen_evidence, ep_state = EpReserved, ep_attempts_started = 1,
      ep_retry_not_before_ms = None, ep_opened_at_ms = None,
      ep_last_observed_at_ms = observed_at_ms, ep_last_fact_id = None,
      ep_episode_fault_deadline = None, ep_control_fault_deadline = None, ep_fault = None,
      ep_last_deadline_fired_id = None, ep_last_deadline_fired_generation = None,
      ep_last_recovery_authorization_id = None\<rparr>"

definition holds_for :: "'a option \<Rightarrow> ('a \<Rightarrow> bool) \<Rightarrow> bool" where
  "holds_for m P = (case m of None \<Rightarrow> False | Some x \<Rightarrow> P x)"

definition intent_invalid :: "'d decimal_api \<Rightarrow> 'd episode \<Rightarrow> bool" where
  "intent_invalid D e \<longleftrightarrow>
     (let intent = ep_frozen_intent e; plan = it_risk_plan intent in
      blank (ep_episode_id e) \<or> ep_episode_id e \<noteq> it_intent_id intent
      \<or> holds_for (ep_frozen_evidence e) (\<lambda>ev. ev_candidate_id ev \<noteq> it_intent_id intent)
      \<or> \<not> risk_plan_valid D plan
      \<or> am_asset (it_target_quote intent) \<noteq> am_asset (rp_quote_cap plan)
      \<or> \<not> dec_positive D (am_value (it_target_quote intent))
      \<or> dec_less D (am_value (rp_quote_cap plan)) (am_value (it_target_quote intent))
      \<or> ep_attempts_started e = 0 \<or> it_attempt_cap intent < ep_attempts_started e
      \<or> it_attempt_cap intent = 0 \<or> it_max_hold_ms intent = 0 \<or> it_max_unprotected_ms intent = 0)"

definition fault_fits_state :: "fault_scope \<Rightarrow> episode_state \<Rightarrow> bool" where
  "fault_fits_state scope state \<longleftrightarrow>
     (case scope of EpisodeScope _ \<Rightarrow> state = EpEpisodeFaulted | ControlScope \<Rightarrow> state = EpControlFaulted)"

definition progress_invalid :: "'d episode \<Rightarrow> bool" where
  "progress_invalid e \<longleftrightarrow>
     ep_last_observed_at_ms e = 0
     \<or> (ep_state e = EpEntryRetryWait) \<noteq> (ep_retry_not_before_ms e \<noteq> None)
     \<or> holds_for (ep_opened_at_ms e) (\<lambda>opened. opened = 0 \<or> ep_last_observed_at_ms e < opened)
     \<or> holds_for (ep_episode_fault_deadline e) (\<lambda>armed.
          \<not> is_ok (deadline_validate (ad_deadline armed))
          \<or> saturating_add (sd_armed_at_ms (ad_deadline armed))
              (it_max_unprotected_ms (ep_frozen_intent e)) < sd_expires_at_ms (ad_deadline armed))
     \<or> holds_for (ep_control_fault_deadline e) (\<lambda>d. \<not> is_ok (deadline_validate d))
     \<or> holds_for (ep_fault e) (\<lambda>f. \<not> is_ok (fault_validate f))
     \<or> holds_for (ep_fault e) (\<lambda>f. \<not> fault_fits_state (fa_scope f) (ep_state e))
     \<or> (ep_last_deadline_fired_id e \<noteq> None) \<noteq> (ep_last_deadline_fired_generation e \<noteq> None)
     \<or> (ep_state e \<in> {EpEpisodeFaulted, EpControlFaulted}) \<noteq> (ep_fault e \<noteq> None)"

definition episode_validate_persisted ::
  "'d decimal_api \<Rightarrow> 'd episode \<Rightarrow> (unit, scalping_error) outcome" where
  "episode_validate_persisted D e =
     (if intent_invalid D e \<or> progress_invalid e then Err SC_Checkpoint else Ok ())"

datatype episode_exit_reason =
  HardStop | TargetReached | MaxHoldElapsed | ExitStopAndProtect | ExitFlattenAndStop
| ExitEmergencyStop | SafetyProjectionLost | UnprotectedDeadline

datatype 'd episode_action =
  CancelEntry episode_exit_reason
| MaintainProtection trade_direction 'd
| ExitEpisode trade_direction episode_exit_reason string
| ArmFaultDeadline episode_fault_kind u64
| CancelFaultDeadline string

datatype blocking_reason =
  BlockControlStopped | BlockPrivateSnapshot | BlockExposureNotFlat | BlockExecutionUnknown
| BlockProtectionGap | BlockOwnerConflict | BlockRiskBudget | BlockStrategyRisk
| BlockRecoveryAuthorization | BlockFeatureFrame | BlockFeatureProgress

datatype 'd scalping_state =
  ScBootstrapping | ScReady | ScCandidatePending "'d candidate_preparation"
| ScReserved "'d semantic_intent" | ScCooldown u64 | ScBlocked blocking_reason

datatype noop_reason =
  NoopBlocked blocking_reason | NoopDecisionExpired | NoopRegimeAmbiguous | NoopCandidatePending
| NoopActiveEpisode | NoopEvidenceUnavailable | NoopDuplicateOpportunity | NoopCandidateMemoryFull
| NoopRecoveryWarmup | NoopCooldown | NoopNoSignal

datatype 'd scalping_decision =
  Prepared "'d candidate_preparation" | Intent "'d semantic_intent" | Noop noop_reason

section \<open>Digests\<close>

record 'd externals =
  xt_sha256 :: "u8 list \<Rightarrow> u8 list"
  xt_decimal_text :: "'d \<Rightarrow> string"
  xt_normalized_text :: "'d \<Rightarrow> string"
  xt_params_json :: "'d scalping_params \<Rightarrow> u8 list option"
  xt_lowercase :: "string \<Rightarrow> string"

text \<open>Each part is preceded by its length, as eight bytes.\<close>

definition framed :: "u8 list \<Rightarrow> u8 list" where
  "framed part = u64_be_bytes (of_nat (length part)) @ part"

definition hex_text :: "u8 list \<Rightarrow> string" where
  "hex_text bytes = concat (map hex_byte bytes)"

definition binding_fields :: "'d externals \<Rightarrow> 'd strategy_binding \<Rightarrow> u8 list list" where
  "binding_fields X b = map utf8_bytes
     [''scalping'', bd_strategy_instance_id b, bd_run_id b, bd_exchange b, bd_account b,
      symbol_to_string (bd_symbol b), bd_parameter_release_id b, bd_owner_scope b,
      asset_str (am_asset (bd_risk_budget b)), xt_normalized_text X (am_value (bd_risk_budget b))]"

definition binding_digest :: "'d externals \<Rightarrow> 'd strategy_binding \<Rightarrow> string" where
  "binding_digest X b = hex_text (xt_sha256 X (concat (map framed (binding_fields X b))))"

end
