(* ===== verification/Scalping_Risk.thy ===== *)
theory Scalping_Risk
  imports Scalping_Model Iteration Mutation
begin

text \<open>
  The logical risk ledger of \<open>crates/venue-strategies/src/scalping/risk.rs\<close>: profit and loss
  facts of one valuation generation inside a time window, the gate they give, and the proofs that
  revalue them.  The deque is a list, the two sets of fact identifiers are sets.
\<close>

section \<open>Facts and the ledger\<close>

definition MAX_RISK_FACTS :: int where "MAX_RISK_FACTS = 65536"

definition MAX_PENDING_REVALUATION_FACTS :: int where "MAX_PENDING_REVALUATION_FACTS = 4096"

record 'd risk_fact =
  rf_fact_id :: string
  rf_event_time_ms :: u64
  rf_valuation_generation :: u64
  rf_risk_unit :: risk_unit
  rf_realized_pnl :: 'd

record 'd risk_revaluation =
  rv_proof_id :: string
  rv_target_generation :: u64
  rv_risk_unit :: risk_unit
  rv_window_start_ms :: u64
  rv_complete_through_ms :: u64
  rv_source_fact_ids :: "string list"
  rv_revalued_facts :: "'d risk_fact list"

datatype risk_gate =
  GateOpen | GateLossWindow | GateDrawdown | GateLossStreak | GateCooldown | GateGenerationMismatch

record 'd risk_view =
  rs_gate :: risk_gate
  rs_valuation_generation :: "u64 option"
  rs_risk_unit :: risk_unit
  rs_rolling_loss :: 'd
  rs_drawdown :: 'd
  rs_loss_streak :: u32
  rs_cooldown_until_ms :: "u64 option"

record 'd risk_ledger_state =
  lt_facts :: "'d risk_fact list"
  lt_seen_fact_ids :: "string list"
  lt_pending_revaluation_fact_ids :: "string list"
  lt_last_event_time_ms :: "u64 option"
  lt_valuation_generation :: "u64 option"
  lt_generation_mismatch :: bool
  lt_cooldown_until_ms :: "u64 option"
  lt_last_revaluation_id :: "string option"

record 'd risk_ledger =
  rl_facts :: "'d risk_fact list"
  rl_seen :: "string set"
  rl_pending_revaluation :: "string set"
  rl_last_event_time :: "u64 option"
  rl_generation :: "u64 option"
  rl_generation_mismatch :: bool
  rl_cooldown_until :: "u64 option"
  rl_last_revaluation_id :: "string option"
  rl_risk_unit :: risk_unit
  rl_loss_window_ms :: u64
  rl_drawdown_window_ms :: u64
  rl_loss_window_limit :: 'd
  rl_drawdown_limit :: 'd
  rl_max_loss_streak :: u32
  rl_loss_cooldown_ms :: u64

definition risk_ledger_new :: "'d scalping_params \<Rightarrow> 'd risk_ledger" where
  "risk_ledger_new p =
     \<lparr>rl_facts = [], rl_seen = {}, rl_pending_revaluation = {}, rl_last_event_time = None,
      rl_generation = None, rl_generation_mismatch = False, rl_cooldown_until = None,
      rl_last_revaluation_id = None, rl_risk_unit = rk_unit (sx_risk_per_episode p),
      rl_loss_window_ms = sx_loss_window_ms p, rl_drawdown_window_ms = sx_drawdown_window_ms p,
      rl_loss_window_limit = rk_value (sx_loss_window_limit p),
      rl_drawdown_limit = rk_value (sx_drawdown_limit p),
      rl_max_loss_streak = sx_max_loss_streak p, rl_loss_cooldown_ms = sx_loss_cooldown_ms p\<rparr>"

definition is_pristine :: "'d risk_ledger \<Rightarrow> bool" where
  "is_pristine l \<longleftrightarrow>
     rl_facts l = [] \<and> rl_pending_revaluation l = {} \<and> rl_last_event_time l = None
     \<and> rl_generation l = None \<and> \<not> rl_generation_mismatch l"

section \<open>The gate\<close>

text \<open>The sum operators panic when a total does not fit.\<close>

definition total_pnl :: "'d decimal_api \<Rightarrow> 'd risk_fact list \<Rightarrow> ('d, 'e) outcome" where
  "total_pnl D facts =
     try_fold (\<lambda>acc f. or_panic (dec_add D acc (rf_realized_pnl f))) (dec_zero D) facts"

text \<open>The loop of \<open>drawdown_and_streak\<close> over equity, peak, drawdown and streak.\<close>

definition drawdown_step ::
  "'d decimal_api \<Rightarrow> 'd \<times> 'd \<times> 'd \<times> u32 \<Rightarrow> 'd risk_fact \<Rightarrow> ('d \<times> 'd \<times> 'd \<times> u32, 'e) outcome" where
  "drawdown_step D = (\<lambda>(equity, peak, drawdown, streak) f.
     and_then (or_panic (dec_add D equity (rf_realized_pnl f))) (\<lambda>equity.
     let peak = dec_greatest D peak equity in
     and_then (or_panic (dec_sub D peak equity)) (\<lambda>fall.
     and_then (if dec_negative D (rf_realized_pnl f) then or_panic (checked_add streak 1) else Ok 0)
       (\<lambda>streak. Ok (equity, peak, dec_greatest D drawdown fall, streak)))))"

definition drawdown_and_streak :: "'d decimal_api \<Rightarrow> 'd risk_fact list \<Rightarrow> ('d \<times> u32, 'e) outcome" where
  "drawdown_and_streak D facts =
     and_then (try_fold (drawdown_step D) (dec_zero D, dec_zero D, dec_zero D, 0) facts)
       (\<lambda>(_, _, drawdown, streak). Ok (drawdown, streak))"

definition facts_since :: "u64 \<Rightarrow> 'd risk_fact list \<Rightarrow> 'd risk_fact list" where
  "facts_since start facts = filter (\<lambda>f. start \<le> rf_event_time_ms f) facts"

definition risk_snapshot :: "'d decimal_api \<Rightarrow> 'd risk_ledger \<Rightarrow> u64 \<Rightarrow> ('d risk_view, 'e) outcome" where
  "risk_snapshot D l now_ms =
     (case rl_generation l of
        None \<Rightarrow> Ok \<lparr>rs_gate = GateGenerationMismatch, rs_valuation_generation = None,
          rs_risk_unit = rl_risk_unit l, rs_rolling_loss = dec_zero D, rs_drawdown = dec_zero D,
          rs_loss_streak = 0, rs_cooldown_until_ms = None\<rparr>
      | Some generation \<Rightarrow>
      and_then (total_pnl D (facts_since (saturating_sub now_ms (rl_loss_window_ms l)) (rl_facts l))) (\<lambda>rolling.
      let rolling_loss = dec_greatest D (dec_neg D rolling) (dec_zero D) in
      and_then (drawdown_and_streak D
          (facts_since (saturating_sub now_ms (rl_drawdown_window_ms l)) (rl_facts l)))
        (\<lambda>(drawdown, loss_streak).
      let risk_gate = (if dec_le D (rl_loss_window_limit l) rolling_loss then GateLossWindow
            else if dec_le D (rl_drawdown_limit l) drawdown then GateDrawdown
            else if rl_max_loss_streak l \<le> loss_streak then GateLossStreak
            else GateOpen);
          cooldown_until_ms = (case rl_cooldown_until l of
            None \<Rightarrow> None | Some until \<Rightarrow> if now_ms < until then Some until else None);
          gate = (if risk_gate = GateOpen \<and> cooldown_until_ms \<noteq> None then GateCooldown else risk_gate) in
      Ok \<lparr>rs_gate = gate, rs_valuation_generation = Some generation, rs_risk_unit = rl_risk_unit l,
        rs_rolling_loss = rolling_loss, rs_drawdown = drawdown, rs_loss_streak = loss_streak,
        rs_cooldown_until_ms = cooldown_until_ms\<rparr>)))"

section \<open>Recording\<close>

definition ledger_trim_at :: "u64 \<Rightarrow> 'd risk_ledger \<Rightarrow> 'd risk_ledger" where
  "ledger_trim_at latest l =
     (let earliest = saturating_sub latest (max (rl_drawdown_window_ms l) (rl_loss_window_ms l));
          old = (\<lambda>f. rf_event_time_ms f < earliest) in
      l\<lparr>rl_facts := dropWhile old (rl_facts l),
        rl_seen := rl_seen l - set (map rf_fact_id (takeWhile old (rl_facts l)))\<rparr>)"

definition ledger_trim :: "'d risk_ledger \<Rightarrow> 'd risk_ledger" where
  "ledger_trim l = (case rl_last_event_time l of None \<Rightarrow> l | Some latest \<Rightarrow> ledger_trim_at latest l)"

text \<open>A fact of a generation that is no longer valued waits for a revaluation.\<close>

definition await_revaluation :: "'d risk_fact \<Rightarrow> 'd risk_ledger \<Rightarrow> 'd risk_ledger" where
  "await_revaluation f l = l\<lparr>rl_last_event_time := Some (rf_event_time_ms f),
     rl_pending_revaluation := insert (rf_fact_id f) (rl_pending_revaluation l)\<rparr>"

text \<open>A fact of the current generation, and the cooldown when a limit is reached.\<close>

definition append_fact ::
  "'d decimal_api \<Rightarrow> 'd risk_fact \<Rightarrow> 'd risk_ledger \<Rightarrow> 'd risk_ledger \<times> ('d risk_view, scalping_error) outcome"
  where
  "append_fact D f l =
     (let l = ledger_trim (l\<lparr>rl_generation := Some (rf_valuation_generation f),
            rl_last_event_time := Some (rf_event_time_ms f),
            rl_seen := insert (rf_fact_id f) (rl_seen l), rl_facts := rl_facts l @ [f]\<rparr>);
          now_ms = (case rl_last_event_time l of None \<Rightarrow> 0 | Some t \<Rightarrow> t) in
      attempt l (risk_snapshot D l now_ms) (\<lambda>view.
      let l = (if rs_gate view \<in> {GateLossWindow, GateDrawdown, GateLossStreak}
            then l\<lparr>rl_cooldown_until := Some (max
              (case rl_cooldown_until l of None \<Rightarrow> 0 | Some until \<Rightarrow> until)
              (saturating_add now_ms (rl_loss_cooldown_ms l)))\<rparr>
            else l) in
      (l, risk_snapshot D l now_ms)))"

definition ledger_record ::
  "'d decimal_api \<Rightarrow> 'd risk_ledger \<Rightarrow> 'd risk_fact \<Rightarrow> 'd risk_ledger \<times> ('d risk_view, scalping_error) outcome"
  where
  "ledger_record D l f =
     (if rf_fact_id f \<in> rl_seen l \<or> rf_fact_id f \<in> rl_pending_revaluation l
      then (l, risk_snapshot D l
        (case rl_last_event_time l of None \<Rightarrow> rf_event_time_ms f | Some t \<Rightarrow> t))
      else if blank (rf_fact_id f) \<or> rf_event_time_ms f = 0 \<or> rf_valuation_generation f = 0
        \<or> rf_risk_unit f \<noteq> rl_risk_unit l
        \<or> holds_for (rl_last_event_time l) (\<lambda>final. rf_event_time_ms f < final)
      then (l, Err SC_Risk)
      else if rl_generation_mismatch l then
        (if MAX_PENDING_REVALUATION_FACTS \<le> int (card (rl_pending_revaluation l)) then (l, Err SC_Risk)
         else let l = await_revaluation f l in (l, risk_snapshot D l (rf_event_time_ms f)))
      else if holds_for (rl_generation l) (\<lambda>g. g \<noteq> rf_valuation_generation f) then
        (let l = await_revaluation f (l\<lparr>rl_generation := None, rl_generation_mismatch := True\<rparr>) in
         (l, risk_snapshot D l (rf_event_time_ms f)))
      else if MAX_RISK_FACTS \<le> int (length (rl_facts l)) then
        (let l = ledger_trim_at (rf_event_time_ms f) l in
         if MAX_RISK_FACTS \<le> int (length (rl_facts l)) then (l, Err SC_Risk) else append_fact D f l)
      else append_fact D f l)"

definition ledger_require_revaluation ::
  "'d decimal_api \<Rightarrow> 'd risk_ledger \<Rightarrow> u64 \<Rightarrow> 'd risk_ledger \<times> ('d risk_view, scalping_error) outcome"
  where
  "ledger_require_revaluation D l observed_at_ms =
     (if observed_at_ms = 0 \<or> holds_for (rl_last_event_time l) (\<lambda>final. observed_at_ms < final)
      then (l, Err SC_Risk)
      else let l = l\<lparr>rl_last_event_time := Some observed_at_ms, rl_generation := None,
             rl_generation_mismatch := True\<rparr> in
           (l, risk_snapshot D l observed_at_ms))"

section \<open>Checkpoints\<close>

definition ledger_export :: "'d risk_ledger \<Rightarrow> 'd risk_ledger_state" where
  "ledger_export l =
     \<lparr>lt_facts = rl_facts l, lt_seen_fact_ids = sorted_list_of_set (rl_seen l),
      lt_pending_revaluation_fact_ids = sorted_list_of_set (rl_pending_revaluation l),
      lt_last_event_time_ms = rl_last_event_time l, lt_valuation_generation = rl_generation l,
      lt_generation_mismatch = rl_generation_mismatch l, lt_cooldown_until_ms = rl_cooldown_until l,
      lt_last_revaluation_id = rl_last_revaluation_id l\<rparr>"

definition out_of_order :: "'d risk_fact list \<Rightarrow> bool" where
  "out_of_order facts \<longleftrightarrow> list_ex (\<lambda>(a, b). rf_event_time_ms b < rf_event_time_ms a) (pairs facts)"

definition ledger_state_invalid :: "'d risk_ledger \<Rightarrow> 'd risk_ledger_state \<Rightarrow> bool" where
  "ledger_state_invalid l t \<longleftrightarrow>
     out_of_order (lt_facts t) \<or> MAX_RISK_FACTS < int (length (lt_facts t))
     \<or> MAX_PENDING_REVALUATION_FACTS < int (length (lt_pending_revaluation_fact_ids t))
     \<or> list_ex (\<lambda>f. blank (rf_fact_id f) \<or> rf_risk_unit f \<noteq> rl_risk_unit l
          \<or> rf_event_time_ms f = 0 \<or> rf_valuation_generation f = 0) (lt_facts t)
     \<or> (lt_generation_mismatch t \<and> lt_valuation_generation t \<noteq> None)
     \<or> (\<not> lt_generation_mismatch t \<and> lt_facts t \<noteq> [] \<and> lt_valuation_generation t = None)
     \<or> list_ex (\<lambda>f. holds_for (lt_valuation_generation t) (\<lambda>g. g \<noteq> rf_valuation_generation f)) (lt_facts t)"

definition ledger_restore ::
  "'d risk_ledger \<Rightarrow> 'd risk_ledger_state \<Rightarrow> 'd risk_ledger \<times> (unit, scalping_error) outcome" where
  "ledger_restore l t =
     (if ledger_state_invalid l t then (l, Err SC_Checkpoint)
      else
      let l = l\<lparr>rl_facts := lt_facts t, rl_seen := set (lt_seen_fact_ids t),
            rl_pending_revaluation := set (lt_pending_revaluation_fact_ids t),
            rl_last_event_time := lt_last_event_time_ms t, rl_generation := lt_valuation_generation t,
            rl_generation_mismatch := lt_generation_mismatch t,
            rl_cooldown_until := lt_cooldown_until_ms t,
            rl_last_revaluation_id := lt_last_revaluation_id t\<rparr> in
      if card (rl_seen l) \<noteq> length (rl_facts l)
        \<or> card (rl_pending_revaluation l) \<noteq> length (lt_pending_revaluation_fact_ids t)
        \<or> rl_seen l \<inter> rl_pending_revaluation l \<noteq> {}
        \<or> list_ex (\<lambda>f. rf_fact_id f \<notin> rl_seen l) (rl_facts l)
        \<or> (\<not> rl_generation_mismatch l \<and> rl_pending_revaluation l \<noteq> {})
      then (l, Err SC_Checkpoint)
      else (ledger_trim l, Ok ()))"

section \<open>Revaluation\<close>

definition revaluation_refused :: "'d risk_ledger \<Rightarrow> 'd risk_revaluation \<Rightarrow> bool" where
  "revaluation_refused l p \<longleftrightarrow>
     (let required_start = saturating_sub (rv_complete_through_ms p)
            (max (rl_drawdown_window_ms l) (rl_loss_window_ms l));
          source_ids = set (rv_source_fact_ids p);
          required_ids = set (map rf_fact_id (facts_since (rv_window_start_ms p) (rl_facts l)))
            \<union> rl_pending_revaluation l;
          revalued_ids = set (map rf_fact_id (rv_revalued_facts p)) in
      (\<not> rl_generation_mismatch l \<and> (rl_generation l \<noteq> None \<or> rl_facts l \<noteq> []))
      \<or> blank (rv_proof_id p) \<or> rv_target_generation p = 0 \<or> rv_risk_unit p \<noteq> rl_risk_unit l
      \<or> rv_complete_through_ms p = 0 \<or> required_start < rv_window_start_ms p
      \<or> holds_for (rl_last_event_time l) (\<lambda>final. rv_complete_through_ms p < final)
      \<or> MAX_RISK_FACTS < int (length (rv_revalued_facts p))
      \<or> card source_ids \<noteq> length (rv_source_fact_ids p)
      \<or> list_ex blank (rv_source_fact_ids p)
      \<or> \<not> required_ids \<subseteq> source_ids
      \<or> card revalued_ids \<noteq> length (rv_revalued_facts p)
      \<or> out_of_order (rv_revalued_facts p)
      \<or> list_ex (\<lambda>f. blank (rf_fact_id f) \<or> rf_risk_unit f \<noteq> rl_risk_unit l
           \<or> rf_valuation_generation f \<noteq> rv_target_generation p
           \<or> rf_event_time_ms f < rv_window_start_ms p
           \<or> rv_complete_through_ms p < rf_event_time_ms f) (rv_revalued_facts p))"

definition ledger_apply_revaluation ::
  "'d decimal_api \<Rightarrow> 'd risk_ledger \<Rightarrow> 'd risk_revaluation
   \<Rightarrow> 'd risk_ledger \<times> ('d risk_view, scalping_error) outcome" where
  "ledger_apply_revaluation D l p =
     (if rl_last_revaluation_id l = Some (rv_proof_id p)
      then (l, risk_snapshot D l (rv_complete_through_ms p))
      else if revaluation_refused l p then (l, Err SC_Risk)
      else
      let l = ledger_trim (l\<lparr>rl_facts := rv_revalued_facts p,
            rl_seen := set (map rf_fact_id (rv_revalued_facts p)), rl_pending_revaluation := {},
            rl_last_event_time := Some (rv_complete_through_ms p),
            rl_generation := Some (rv_target_generation p), rl_generation_mismatch := False,
            rl_last_revaluation_id := Some (rv_proof_id p)\<rparr>) in
      (l, risk_snapshot D l (rv_complete_through_ms p)))"

end
