(* ===== verification/Scalping_Risk_Facts.thy ===== *)
theory Scalping_Risk_Facts
  imports Scalping_Risk Contracts
begin

text \<open>
  The risk ledger as a machine over its operations: its invariant, which is what the restoration
  of a checkpoint checks, and what an open gate bounds.
\<close>

section \<open>Order and trimming\<close>

lemma descending_pair_unsorted: "list_ex (\<lambda>(a, b). t b < t a) (pairs xs) \<longleftrightarrow> \<not> sorted (map t xs)"
proof (induction xs)
  case (Cons x xs)
  then show ?case by (cases xs) (auto simp: pairs_def, (meson not_le order.trans)+)
qed (simp add: pairs_def)

lemma out_of_order_sorted: "out_of_order facts \<longleftrightarrow> \<not> sorted (map rf_event_time_ms facts)"
  by (simp add: out_of_order_def descending_pair_unsorted)

lemma distinct_drop_ids:
  assumes "distinct (map f xs)"
  shows "set (map f xs) - set (map f (takeWhile P xs)) = set (map f (dropWhile P xs))"
proof -
  have "distinct (map f (takeWhile P xs) @ map f (dropWhile P xs))"
    using assms by (simp flip: map_append)
  moreover have "set (map f xs) = set (map f (takeWhile P xs)) \<union> set (map f (dropWhile P xs))"
    by (metis takeWhile_dropWhile_id map_append set_append)
  ultimately show ?thesis by auto
qed

section \<open>The invariant\<close>

definition fact_sound :: "risk_unit \<Rightarrow> 'd risk_fact \<Rightarrow> bool" where
  "fact_sound ru f \<longleftrightarrow>
     \<not> blank (rf_fact_id f) \<and> rf_risk_unit f = ru \<and> rf_event_time_ms f \<noteq> 0 \<and> rf_valuation_generation f \<noteq> 0"

definition no_later :: "u64 option \<Rightarrow> 'd risk_fact \<Rightarrow> bool" where
  "no_later final f \<longleftrightarrow> holds_for final (\<lambda>t. rf_event_time_ms f \<le> t)"

definition of_generation :: "u64 option \<Rightarrow> 'd risk_fact \<Rightarrow> bool" where
  "of_generation generation f \<longleftrightarrow> generation = None \<or> generation = Some (rf_valuation_generation f)"

definition ledger_inv :: "'d risk_ledger \<Rightarrow> bool" where
  "ledger_inv l \<longleftrightarrow>
     sorted (map rf_event_time_ms (rl_facts l)) \<and> int (length (rl_facts l)) \<le> MAX_RISK_FACTS
     \<and> list_all (fact_sound (rl_risk_unit l)) (rl_facts l)
     \<and> list_all (no_later (rl_last_event_time l)) (rl_facts l)
     \<and> list_all (of_generation (rl_generation l)) (rl_facts l)
     \<and> distinct (map rf_fact_id (rl_facts l)) \<and> rl_seen l = set (map rf_fact_id (rl_facts l))
     \<and> finite (rl_pending_revaluation l) \<and> int (card (rl_pending_revaluation l)) \<le> MAX_PENDING_REVALUATION_FACTS
     \<and> rl_seen l \<inter> rl_pending_revaluation l = {}
     \<and> (if rl_generation_mismatch l then rl_generation l = None
        else rl_pending_revaluation l = {} \<and> (rl_facts l \<noteq> [] \<longrightarrow> rl_generation l \<noteq> None))"

definition ledger_config :: "'d risk_ledger \<Rightarrow> risk_unit \<times> u64 \<times> u64 \<times> 'd \<times> 'd \<times> u32 \<times> u64" where
  "ledger_config l =
     (rl_risk_unit l, rl_loss_window_ms l, rl_drawdown_window_ms l, rl_loss_window_limit l,
      rl_drawdown_limit l, rl_max_loss_streak l, rl_loss_cooldown_ms l)"

lemma ledger_limits [simp]: "0 \<le> MAX_RISK_FACTS" "0 \<le> MAX_PENDING_REVALUATION_FACTS"
  by (simp_all add: MAX_RISK_FACTS_def MAX_PENDING_REVALUATION_FACTS_def)

lemma ledger_inv_new [simp]: "ledger_inv (risk_ledger_new p)"
  by (simp add: ledger_inv_def risk_ledger_new_def)

lemma trim_at_facts:
  fixes l :: "'d risk_ledger" and latest
  defines "kept \<equiv> dropWhile (\<lambda>f. rf_event_time_ms f
      < saturating_sub latest (max (rl_drawdown_window_ms l) (rl_loss_window_ms l))) (rl_facts l)"
  assumes "ledger_inv l"
  shows "ledger_trim_at latest l = l\<lparr>rl_facts := kept, rl_seen := set (map rf_fact_id kept)\<rparr>"
proof -
  have ids: "rl_seen l = set (map rf_fact_id (rl_facts l))" "distinct (map rf_fact_id (rl_facts l))"
    using assms(2) by (simp_all add: ledger_inv_def)
  show ?thesis
    unfolding ledger_trim_at_def Let_def ids(1) distinct_drop_ids [OF ids(2)] kept_def ..
qed

lemma trim_at_inv:
  assumes "ledger_inv l"
  shows "ledger_inv (ledger_trim_at latest l)"
proof -
  have kept: "sorted (map rf_event_time_ms (dropWhile P (rl_facts l)))"
    "distinct (map rf_fact_id (dropWhile P (rl_facts l)))"
    "int (length (dropWhile P (rl_facts l))) \<le> MAX_RISK_FACTS" for P
    using assms length_dropWhile_le [of P "rl_facts l"]
    by (auto simp: ledger_inv_def dropWhile_eq_drop simp flip: drop_map intro: sorted_wrt_drop)
  show ?thesis
    unfolding trim_at_facts [OF assms] using assms kept
    by (auto simp: ledger_inv_def list_all_iff disjoint_iff split: if_splits dest: set_dropWhileD)
qed

lemma trim_inv: "ledger_inv l \<Longrightarrow> ledger_inv (ledger_trim l)"
  by (auto simp: ledger_trim_def trim_at_inv split: option.split)

lemma trim_same [simp]:
  "ledger_config (ledger_trim_at latest l) = ledger_config l"
  "rl_last_event_time (ledger_trim_at latest l) = rl_last_event_time l"
  "rl_generation (ledger_trim_at latest l) = rl_generation l"
  "ledger_config (ledger_trim l) = ledger_config l"
  "rl_last_event_time (ledger_trim l) = rl_last_event_time l"
  "rl_generation (ledger_trim l) = rl_generation l"
  by (simp_all add: ledger_trim_def ledger_trim_at_def Let_def ledger_config_def split: option.split)

section \<open>Every operation keeps it\<close>

datatype 'd ledger_event =
  RecordFact "'d risk_fact" | RequireRevaluation u64 | ApplyRevaluation "'d risk_revaluation"

primrec ledger_step ::
  "'d decimal_api \<Rightarrow> 'd risk_ledger \<Rightarrow> 'd ledger_event \<Rightarrow> 'd risk_ledger \<times> ('d risk_view, scalping_error) outcome"
  where
  "ledger_step D l (RecordFact f) = ledger_record D l f"
| "ledger_step D l (RequireRevaluation t) = ledger_require_revaluation D l t"
| "ledger_step D l (ApplyRevaluation p) = ledger_apply_revaluation D l p"

text \<open>A revaluation lists no fact at time zero, which the restoration of a checkpoint refuses.\<close>

definition event_timed :: "'d ledger_event \<Rightarrow> bool" where
  "event_timed e \<longleftrightarrow>
     (case e of ApplyRevaluation p \<Rightarrow> list_all (\<lambda>f. rf_event_time_ms f \<noteq> 0) (rv_revalued_facts p) | _ \<Rightarrow> True)"

lemma appended_inv:
  assumes "ledger_inv l" and "fact_sound (rl_risk_unit l) f" and "\<not> rl_generation_mismatch l"
    and "rf_fact_id f \<notin> rl_seen l" and "int (length (rl_facts l)) < MAX_RISK_FACTS"
    and "\<not> holds_for (rl_last_event_time l) (\<lambda>final. rf_event_time_ms f < final)"
    and "\<not> holds_for (rl_generation l) (\<lambda>g. g \<noteq> rf_valuation_generation f)"
  shows "ledger_inv (l\<lparr>rl_generation := Some (rf_valuation_generation f),
    rl_last_event_time := Some (rf_event_time_ms f),
    rl_seen := insert (rf_fact_id f) (rl_seen l), rl_facts := rl_facts l @ [f]\<rparr>)"
proof -
  have "rf_event_time_ms g \<le> rf_event_time_ms f" if "g \<in> set (rl_facts l)" for g
    using assms(1,6) that by (fastforce simp: ledger_inv_def no_later_def holds_for_def list_all_iff
        not_less split: option.splits)
  moreover have "rf_valuation_generation g = rf_valuation_generation f" if "g \<in> set (rl_facts l)" for g
    using assms(1,3,7) that by (fastforce simp: ledger_inv_def of_generation_def holds_for_def list_all_iff
        split: option.splits if_splits)
  ultimately show ?thesis
    using assms(1-5) by (auto simp: ledger_inv_def no_later_def of_generation_def holds_for_def
        list_all_iff sorted_append)
qed

lemma append_fact_keeps:
  assumes "P (ledger_trim (l\<lparr>rl_generation := Some (rf_valuation_generation f),
      rl_last_event_time := Some (rf_event_time_ms f),
      rl_seen := insert (rf_fact_id f) (rl_seen l), rl_facts := rl_facts l @ [f]\<rparr>))"
    and "\<And>m c. P m \<Longrightarrow> P (m\<lparr>rl_cooldown_until := c\<rparr>)"
  shows "P (fst (append_fact D f l))"
  unfolding append_fact_def Let_def by (rule attempt_fst) (use assms in \<open>auto split: if_splits\<close>)

lemma cooldown_inv: "ledger_inv m \<Longrightarrow> ledger_inv (m\<lparr>rl_cooldown_until := c\<rparr>)"
  by (auto simp: ledger_inv_def)

lemma await_inv:
  assumes "ledger_inv l" and "rf_fact_id f \<notin> rl_seen l" and "rf_fact_id f \<notin> rl_pending_revaluation l"
    and "\<not> holds_for (rl_last_event_time l) (\<lambda>final. rf_event_time_ms f < final)"
    and "rl_generation_mismatch l" and "int (card (rl_pending_revaluation l)) < MAX_PENDING_REVALUATION_FACTS"
  shows "ledger_inv (await_revaluation f l)"
proof -
  have "rf_event_time_ms g \<le> rf_event_time_ms f" if "g \<in> set (rl_facts l)" for g
    using assms(1,4) that by (fastforce simp: ledger_inv_def no_later_def holds_for_def list_all_iff
        not_less split: option.splits)
  then show ?thesis
    using assms by (auto simp: ledger_inv_def await_revaluation_def no_later_def holds_for_def list_all_iff)
qed

lemma mismatch_inv:
  "ledger_inv l \<Longrightarrow> ledger_inv (l\<lparr>rl_generation := None, rl_generation_mismatch := True\<rparr>)"
  by (auto simp: ledger_inv_def of_generation_def list_all_iff split: if_splits)

lemma record_inv:
  assumes inv: "ledger_inv l"
  shows "ledger_inv (fst (ledger_record D l f))"
proof -
  let ?new = "rf_fact_id f \<notin> rl_seen l" and ?apart = "rf_fact_id f \<notin> rl_pending_revaluation l"
  let ?late = "holds_for (rl_last_event_time l) (\<lambda>final. rf_event_time_ms f < final)"
  have append: "ledger_inv (fst (append_fact D f m))"
    if "ledger_inv m" "fact_sound (rl_risk_unit m) f" "\<not> rl_generation_mismatch m"
      "rf_fact_id f \<notin> rl_seen m" "int (length (rl_facts m)) < MAX_RISK_FACTS"
      "\<not> holds_for (rl_last_event_time m) (\<lambda>final. rf_event_time_ms f < final)"
      "\<not> holds_for (rl_generation m) (\<lambda>g. g \<noteq> rf_valuation_generation f)" for m
    by (rule append_fact_keeps) (simp_all add: cooldown_inv trim_inv appended_inv [OF that])
  show ?thesis
  proof (cases "?new \<and> ?apart \<and> fact_sound (rl_risk_unit l) f \<and> \<not> ?late")
    case False
    then show ?thesis using inv by (auto simp: ledger_record_def fact_sound_def)
  next
    case True
    note fresh = True
    have trimmed: "ledger_inv (ledger_trim_at t l)" "rl_risk_unit (ledger_trim_at t l) = rl_risk_unit l"
      "rl_generation_mismatch (ledger_trim_at t l) = rl_generation_mismatch l"
      "rf_fact_id f \<notin> rl_seen (ledger_trim_at t l)" for t
      using trim_at_inv [OF inv] fresh by (simp_all add: ledger_trim_at_def Let_def)
    have awaits: "ledger_inv (await_revaluation f (l\<lparr>rl_generation := None, rl_generation_mismatch := True\<rparr>))"
      if "\<not> rl_generation_mismatch l"
      using fresh that inv by (intro await_inv mismatch_inv)
        (auto simp: ledger_inv_def MAX_PENDING_REVALUATION_FACTS_def)
    show ?thesis
      using fresh inv trimmed awaits await_inv [OF inv]
      by (auto simp: ledger_record_def Let_def fact_sound_def not_le intro!: append)
  qed
qed

lemma require_inv:
  assumes "ledger_inv l"
  shows "ledger_inv (fst (ledger_require_revaluation D l t))"
proof -
  have "rf_event_time_ms g \<le> t"
    if "g \<in> set (rl_facts l)" "\<not> holds_for (rl_last_event_time l) (\<lambda>final. t < final)" for g
    using assms that by (fastforce simp: ledger_inv_def no_later_def holds_for_def list_all_iff
        not_less split: option.splits)
  then show ?thesis
    using assms by (auto simp: ledger_require_revaluation_def Let_def ledger_inv_def no_later_def
        of_generation_def holds_for_def list_all_iff split: if_splits)
qed

lemma revaluation_inv:
  assumes "ledger_inv l" and "event_timed (ApplyRevaluation p)"
  shows "ledger_inv (fst (ledger_apply_revaluation D l p))"
proof -
  have "ledger_inv (l\<lparr>rl_facts := rv_revalued_facts p,
      rl_seen := set (map rf_fact_id (rv_revalued_facts p)), rl_pending_revaluation := {},
      rl_last_event_time := Some (rv_complete_through_ms p),
      rl_generation := Some (rv_target_generation p), rl_generation_mismatch := False,
      rl_last_revaluation_id := Some (rv_proof_id p)\<rparr>)" if "\<not> revaluation_refused l p"
    using that assms(2)
    by (auto simp: revaluation_refused_def Let_def ledger_inv_def out_of_order_sorted event_timed_def
        fact_sound_def no_later_def of_generation_def holds_for_def list_all_iff list_ex_iff not_less
        card_distinct length_map [symmetric] simp del: length_map)
  then show ?thesis
    using assms(1) by (auto simp: ledger_apply_revaluation_def Let_def intro: trim_inv)
qed

lemma ledger_step_inv:
  assumes "ledger_inv l" and "event_timed e"
  shows "ledger_inv (fst (ledger_step D l e))"
  using assms by (cases e) (simp_all add: record_inv require_inv revaluation_inv)

lemma ledger_run_inv:
  assumes "ledger_inv l" and "list_all event_timed events"
  shows "ledger_inv (run_in_place (ledger_step D) l events)"
  using assms by (induction events arbitrary: l) (simp_all add: ledger_step_inv)

text \<open>The configuration stays and the clock of the ledger never goes back.\<close>

definition ledger_later :: "'d risk_ledger \<Rightarrow> 'd risk_ledger \<Rightarrow> bool" where
  "ledger_later l m \<longleftrightarrow>
     ledger_config m = ledger_config l
     \<and> (case (rl_last_event_time l, rl_last_event_time m) of
          (None, _) \<Rightarrow> True | (Some _, None) \<Rightarrow> False | (Some t, Some u) \<Rightarrow> t \<le> u)"

lemma ledger_laterI:
  assumes "ledger_config m = ledger_config l"
    and "rl_last_event_time m = rl_last_event_time l
      \<or> (\<exists>t. rl_last_event_time m = Some t \<and> \<not> holds_for (rl_last_event_time l) (\<lambda>final. t < final))"
  shows "ledger_later l m"
  using assms by (auto simp: ledger_later_def holds_for_def not_less split: option.splits)

lemma config_updates [simp]:
  "ledger_config (l\<lparr>rl_facts := xs\<rparr>) = ledger_config l"
  "ledger_config (l\<lparr>rl_seen := ids\<rparr>) = ledger_config l"
  "ledger_config (l\<lparr>rl_pending_revaluation := ids\<rparr>) = ledger_config l"
  "ledger_config (l\<lparr>rl_last_event_time := t\<rparr>) = ledger_config l"
  "ledger_config (l\<lparr>rl_generation := t\<rparr>) = ledger_config l"
  "ledger_config (l\<lparr>rl_generation_mismatch := b\<rparr>) = ledger_config l"
  "ledger_config (l\<lparr>rl_cooldown_until := t\<rparr>) = ledger_config l"
  "ledger_config (l\<lparr>rl_last_revaluation_id := i\<rparr>) = ledger_config l"
  by (simp_all add: ledger_config_def)

lemma await_same [simp]:
  "ledger_config (await_revaluation f l) = ledger_config l"
  "rl_last_event_time (await_revaluation f l) = Some (rf_event_time_ms f)"
  by (simp_all add: await_revaluation_def ledger_config_def)

lemma append_later:
  assumes "ledger_config m = ledger_config l" and "rl_last_event_time m = rl_last_event_time l"
    and "\<not> holds_for (rl_last_event_time l) (\<lambda>final. rf_event_time_ms f < final)"
  shows "ledger_later l (fst (append_fact D f m))"
proof (rule append_fact_keeps)
  show "ledger_later l (n\<lparr>rl_cooldown_until := c\<rparr>)" if "ledger_later l n" for n c
    using that by (simp add: ledger_later_def)
qed (use assms in \<open>auto intro!: ledger_laterI\<close>)

lemma record_later: "ledger_later l (fst (ledger_record D l f))"
proof (cases "holds_for (rl_last_event_time l) (\<lambda>final. rf_event_time_ms f < final)")
  case True
  then show ?thesis by (simp add: ledger_record_def ledger_laterI)
next
  case False
  have "ledger_later l (fst (append_fact D f l))"
    "ledger_later l (fst (append_fact D f (ledger_trim_at (rf_event_time_ms f) l)))"
    by (rule append_later; simp add: False)+
  moreover have "ledger_later l (await_revaluation f l)"
    "ledger_later l (await_revaluation f (l\<lparr>rl_generation := None, rl_generation_mismatch := True\<rparr>))"
    "ledger_later l l" "ledger_later l (ledger_trim_at (rf_event_time_ms f) l)"
    by (rule ledger_laterI; simp add: False)+
  ultimately show ?thesis by (simp add: ledger_record_def Let_def False)
qed

lemma ledger_step_later: "ledger_later l (fst (ledger_step D l e))"
proof (cases e)
  case (RecordFact f)
  then show ?thesis by (simp add: record_later)
next
  case (RequireRevaluation t)
  then show ?thesis by (auto simp: ledger_require_revaluation_def Let_def intro!: ledger_laterI)
next
  case (ApplyRevaluation p)
  then show ?thesis
    by (auto simp: ledger_apply_revaluation_def Let_def revaluation_refused_def intro!: ledger_laterI)
qed

interpretation risk: mutating_machine "ledger_step D" "\<lambda>_. True" ledger_later
  for D :: "'d decimal_api"
proof unfold_locales
  show "ledger_later l m \<Longrightarrow> ledger_later m n \<Longrightarrow> ledger_later l n" for l m n :: "'d risk_ledger"
    by (auto simp: ledger_later_def split: option.splits)
qed (auto simp: ledger_step_later, auto simp: ledger_later_def split: option.splits)

section \<open>Restoring a checkpoint\<close>

lemma export_fields:
  "lt_facts (ledger_export l) = rl_facts l"
  "lt_last_event_time_ms (ledger_export l) = rl_last_event_time l"
  "lt_valuation_generation (ledger_export l) = rl_generation l"
  "lt_generation_mismatch (ledger_export l) = rl_generation_mismatch l"
  "lt_cooldown_until_ms (ledger_export l) = rl_cooldown_until l"
  "lt_last_revaluation_id (ledger_export l) = rl_last_revaluation_id l"
  "finite (rl_seen l) \<Longrightarrow> set (lt_seen_fact_ids (ledger_export l)) = rl_seen l"
  "finite (rl_pending_revaluation l) \<Longrightarrow>
     set (lt_pending_revaluation_fact_ids (ledger_export l)) = rl_pending_revaluation l"
  "finite (rl_pending_revaluation l) \<Longrightarrow>
     length (lt_pending_revaluation_fact_ids (ledger_export l)) = card (rl_pending_revaluation l)"
  by (simp_all add: ledger_export_def)

lemma restore_exported:
  assumes inv: "ledger_inv l" and config: "ledger_config l0 = ledger_config l"
  shows "ledger_restore l0 (ledger_export l) = (ledger_trim l, Ok ())"
proof -
  have fin: "finite (rl_seen l)" "finite (rl_pending_revaluation l)"
    using inv by (simp_all add: ledger_inv_def)
  have same: "l0\<lparr>rl_facts := rl_facts l, rl_seen := rl_seen l,
      rl_pending_revaluation := rl_pending_revaluation l, rl_last_event_time := rl_last_event_time l,
      rl_generation := rl_generation l, rl_generation_mismatch := rl_generation_mismatch l,
      rl_cooldown_until := rl_cooldown_until l, rl_last_revaluation_id := rl_last_revaluation_id l\<rparr> = l"
    using config by (simp add: ledger_config_def)
  have valid: "\<not> ledger_state_invalid l0 (ledger_export l)"
    using inv config by (auto simp: ledger_state_invalid_def ledger_inv_def export_fields ledger_config_def
        out_of_order_sorted fact_sound_def of_generation_def holds_for_def list_all_iff list_ex_iff)
  have sets: "card (rl_seen l) = length (rl_facts l)"
    "rl_seen l \<inter> rl_pending_revaluation l = {}" "\<not> list_ex (\<lambda>f. rf_fact_id f \<notin> rl_seen l) (rl_facts l)"
    "\<not> (\<not> rl_generation_mismatch l \<and> rl_pending_revaluation l \<noteq> {})"
    using inv distinct_card [of "map rf_fact_id (rl_facts l)"]
    by (auto simp: ledger_inv_def list_ex_iff)
  show ?thesis
    unfolding ledger_restore_def if_not_P [OF valid] Let_def export_fields(1-6)
      export_fields(7) [OF fin(1)] export_fields(8,9) [OF fin(2)] same
    using sets by simp
qed

section \<open>What an open gate bounds\<close>

definition fact_pnl :: "'d decimal_api \<Rightarrow> 'd risk_fact \<Rightarrow> rat" where
  "fact_pnl D f = dec_value D (rf_realized_pnl f)"

text \<open>The running total after \<open>k\<close> facts.\<close>

definition running_pnl :: "'d decimal_api \<Rightarrow> 'd risk_fact list \<Rightarrow> nat \<Rightarrow> rat" where
  "running_pnl D facts k = sum_list (map (fact_pnl D) (take k facts))"

definition trailing_losses :: "'d decimal_api \<Rightarrow> 'd risk_fact list \<Rightarrow> nat" where
  "trailing_losses D facts = length (takeWhile (\<lambda>f. fact_pnl D f < 0) (rev facts))"

text \<open>Facts on one scale whose magnitudes add up to a decimal.\<close>

definition pnl_on_scale :: "'d decimal_api \<Rightarrow> nat \<Rightarrow> 'd risk_fact list \<Rightarrow> bool" where
  "pnl_on_scale D s facts \<longleftrightarrow> s \<le> 28 \<and>
     (\<exists>ms :: int list. map (fact_pnl D) facts = map (\<lambda>m. of_int m / 10 ^ s) ms \<and> sum_list (map abs ms) < 2 ^ 96)"

lemma sum_list_segment_abs:
  fixes ms :: "int list"
  shows "\<bar>sum_list (take i ms) - sum_list (take j ms)\<bar> \<le> sum_list (map abs ms)"
proof -
  have segment: "\<bar>sum_list (take j ms) - sum_list (take i ms)\<bar> \<le> sum_list (map abs ms)" if "i \<le> j" for i j
  proof -
    have parts: "ms = take i ms @ drop i (take j ms) @ drop j ms" "take j ms = take i ms @ drop i (take j ms)"
      using that by (metis append.assoc append_take_drop_id min.absorb1 take_take)+
    have total: "sum_list (map abs ms) = sum_list (map abs (take i ms))
        + sum_list (map abs (drop i (take j ms))) + sum_list (map abs (drop j ms))"
      by (subst parts(1)) simp
    have "sum_list (take j ms) - sum_list (take i ms) = sum_list (drop i (take j ms))"
      by (subst parts(2)) simp
    moreover have "0 \<le> sum_list (map abs xs)" for xs :: "int list" by (induction xs) auto
    ultimately show ?thesis
      using sum_list_abs [of "drop i (take j ms)"] total by (simp add: add_increasing add_increasing2)
  qed
  show ?thesis using segment [of i j] segment [of j i] by (cases "i \<le> j") (auto simp: abs_minus_commute)
qed

lemma falls_representable:
  assumes "pnl_on_scale D s facts"
  shows "dec_representable (running_pnl D facts i - running_pnl D facts j)"
proof -
  obtain ms :: "int list" where s: "s \<le> 28" and small: "sum_list (map abs ms) < 2 ^ 96"
    and ms: "map (fact_pnl D) facts = map (\<lambda>m. of_int m / 10 ^ s) ms"
    using assms by (auto simp: pnl_on_scale_def)
  have total: "running_pnl D facts k = of_int (sum_list (take k ms)) / 10 ^ s" for k
  proof -
    have "sum_list (map (\<lambda>m. of_int m / 10 ^ s :: rat) xs) = of_int (sum_list xs) / 10 ^ s" for xs
      by (induction xs) (simp_all add: add_divide_distrib)
    then show ?thesis unfolding running_pnl_def take_map [symmetric] ms unfolding take_map by simp
  qed
  have "\<bar>sum_list (take i ms) - sum_list (take j ms)\<bar> < 2 ^ 96"
    using sum_list_segment_abs [of i ms j] small by linarith
  moreover have "running_pnl D facts i - running_pnl D facts j
      = of_int (sum_list (take i ms) - sum_list (take j ms)) / 10 ^ s"
    by (simp add: total diff_divide_distrib)
  ultimately show ?thesis unfolding dec_representable_def using s by blast
qed

text \<open>What the loop has computed after some facts.\<close>

definition drawdown_inv :: "'d decimal_api \<Rightarrow> 'd risk_fact list \<Rightarrow> 'd \<times> 'd \<times> 'd \<times> u32 \<Rightarrow> bool" where
  "drawdown_inv D facts = (\<lambda>(equity, peak, drawdown, streak).
     let T = running_pnl D facts; n = length facts in
     dec_value D equity = T n
     \<and> (\<forall>i \<le> n. T i \<le> dec_value D peak) \<and> (\<exists>i \<le> n. T i = dec_value D peak)
     \<and> (\<forall>i j. i \<le> j \<longrightarrow> j \<le> n \<longrightarrow> T i - T j \<le> dec_value D drawdown)
     \<and> (\<exists>i j. i \<le> j \<and> j \<le> n \<and> T i - T j = dec_value D drawdown)
     \<and> unat streak = trailing_losses D facts)"

lemma running_pnl_append: "k \<le> length facts \<Longrightarrow> running_pnl D (facts @ rest) k = running_pnl D facts k"
  by (simp add: running_pnl_def)

lemma running_pnl_snoc: "running_pnl D (facts @ [f]) (Suc (length facts)) = running_pnl D facts (length facts) + fact_pnl D f"
  by (simp add: running_pnl_def)

lemma trailing_losses_snoc:
  "trailing_losses D (facts @ [f]) = (if fact_pnl D f < 0 then Suc (trailing_losses D facts) else 0)"
  by (simp add: trailing_losses_def)

lemma drawdown_step_inv:
  assumes laws: "dec_exact_laws D" "dec_choice_laws D"
    and exact: "\<And>i j. dec_representable (running_pnl D (facts @ [f]) i - running_pnl D (facts @ [f]) j)"
    and inv: "drawdown_inv D facts st" and step: "drawdown_step D st f = Ok st'"
  shows "drawdown_inv D (facts @ [f]) st'"
proof -
  obtain equity peak drawdown streak where st: "st = (equity, peak, drawdown, streak)" by (cases st)
  obtain equity' fall streak' where e: "dec_add D equity (rf_realized_pnl f) = Some equity'"
    and fall: "dec_sub D (dec_greatest D peak equity') equity' = Some fall"
    and streak': "(if fact_pnl D f < 0 then checked_add streak 1 else Some 0) = Some streak'"
    and st': "st' = (equity', dec_greatest D peak equity', dec_greatest D drawdown fall, streak')"
    using step by (auto simp: drawdown_step_def st Let_def outcome_simps dec_negative_def fact_pnl_def
        split: if_splits)
  let ?T = "running_pnl D (facts @ [f])" and ?n = "length facts"
  have old: "?T i = running_pnl D facts i" if "i \<le> ?n" for i
    using that by (rule running_pnl_append)
  have zero: "?T 0 = 0" by (simp add: running_pnl_def)
  have equity: "dec_value D equity = ?T ?n"
    using inv by (simp add: drawdown_inv_def st Let_def old)
  have equity': "dec_value D equity' = ?T (Suc ?n)"
    using dec_add_exact [OF laws(1) e] exact [of "Suc ?n" 0] equity
    by (simp add: zero running_pnl_snoc fact_pnl_def old)
  have greatest: "dec_value D (dec_greatest D a b) = max (dec_value D a) (dec_value D b)" for a b
    using laws(2) by (simp add: dec_choice_laws_def)
  have peak_old: "\<forall>i \<le> ?n. ?T i \<le> dec_value D peak" "\<exists>i \<le> ?n. ?T i = dec_value D peak"
    using inv by (auto simp: drawdown_inv_def st Let_def old)
  have peak: "\<forall>i \<le> Suc ?n. ?T i \<le> dec_value D (dec_greatest D peak equity')"
    using peak_old(1) by (auto simp: greatest equity' le_Suc_eq max.coboundedI1)
  have peak_at: "\<exists>i \<le> Suc ?n. ?T i = dec_value D (dec_greatest D peak equity')"
    using peak_old(2) unfolding greatest equity' max_def by (metis le_SucI order_refl)
  have fall: "dec_value D fall = dec_value D (dec_greatest D peak equity') - ?T (Suc ?n)"
    using dec_sub_exact [OF laws(1) fall] peak_at exact by (metis equity')
  have draw_old: "\<forall>i j. i \<le> j \<longrightarrow> j \<le> ?n \<longrightarrow> ?T i - ?T j \<le> dec_value D drawdown"
    "\<exists>i j. i \<le> j \<and> j \<le> ?n \<and> ?T i - ?T j = dec_value D drawdown"
    using inv by (fastforce simp: drawdown_inv_def st Let_def old)+
  have draw: "\<forall>i j. i \<le> j \<longrightarrow> j \<le> Suc ?n \<longrightarrow> ?T i - ?T j \<le> dec_value D (dec_greatest D drawdown fall)"
    using draw_old(1) peak by (auto simp: greatest fall le_Suc_eq max.coboundedI1 max.coboundedI2)
  have draw_at: "\<exists>i j. i \<le> j \<and> j \<le> Suc ?n \<and> ?T i - ?T j = dec_value D (dec_greatest D drawdown fall)"
  proof (cases "dec_value D drawdown \<le> dec_value D fall")
    case True
    obtain k where k: "k \<le> Suc ?n" "?T k = dec_value D (dec_greatest D peak equity')"
      using peak_at by blast
    then have "?T k - ?T (Suc ?n) = dec_value D (dec_greatest D drawdown fall)"
      using True fall by (simp add: greatest [of drawdown])
    with k(1) show ?thesis by blast
  next
    case False
    with draw_old(2) show ?thesis by (auto simp: greatest [of drawdown] max_def intro: le_SucI)
  qed
  have "unat streak = trailing_losses D facts" using inv by (simp add: drawdown_inv_def st Let_def)
  then have "unat streak' = trailing_losses D (facts @ [f])"
    using streak' checked_add_Some [of streak 1 streak'] by (auto simp: trailing_losses_snoc split: if_splits)
  then show ?thesis
    using equity' peak peak_at draw draw_at by (simp add: drawdown_inv_def st' Let_def)
qed

lemma drawdown_loop:
  assumes laws: "dec_exact_laws D" "dec_choice_laws D" "dec_const_laws D"
    and exact: "\<And>i j. dec_representable (running_pnl D facts i - running_pnl D facts j)"
    and run: "try_fold (drawdown_step D) (dec_zero D, dec_zero D, dec_zero D, 0) facts = (Ok st :: (_, 'e) outcome)"
  shows "drawdown_inv D facts st"
  using exact run
proof (induction facts arbitrary: st rule: rev_induct)
  case Nil
  then show ?case using laws(3) by (auto simp: drawdown_inv_def running_pnl_def trailing_losses_def)
next
  case (snoc f facts)
  obtain mid where mid: "try_fold (drawdown_step D) (dec_zero D, dec_zero D, dec_zero D, 0) facts
      = (Ok mid :: (_, 'e) outcome)" and final: "drawdown_step D mid f = (Ok st :: (_, 'e) outcome)"
    using snoc.prems(2) unfolding try_fold_append and_then_Ok try_fold.simps outcome.inject by blast
  have "dec_representable (running_pnl D facts i - running_pnl D facts j)" for i j
  proof -
    have "running_pnl D facts k = running_pnl D (facts @ [f]) (min k (length facts))" for k
      by (simp add: running_pnl_def min_def)
    then show ?thesis using snoc.prems(1) by simp
  qed
  then have "drawdown_inv D facts mid" using mid by (rule snoc.IH)
  then show ?case using drawdown_step_inv [OF laws(1,2) snoc.prems(1) _ final] by blast
qed

lemma prefix_running:
  "running_pnl D facts k = running_pnl D (facts @ [f]) (min k (length facts))"
  by (simp add: running_pnl_def min_def)

lemma total_pnl_value:
  assumes laws: "dec_exact_laws D" "dec_const_laws D"
    and exact: "\<And>i j. dec_representable (running_pnl D facts i - running_pnl D facts j)"
    and run: "total_pnl D facts = (Ok amount :: ('d, 'e) outcome)"
  shows "dec_value D amount = sum_list (map (fact_pnl D) facts)"
  using exact run
proof (induction facts arbitrary: amount rule: rev_induct)
  case Nil
  then have "amount = dec_zero D" by (simp add: total_pnl_def)
  then show ?case using laws(2) by simp
next
  case (snoc f facts)
  obtain mid where mid: "total_pnl D facts = (Ok mid :: ('d, 'e) outcome)"
    and final: "dec_add D mid (rf_realized_pnl f) = Some amount"
    using snoc.prems(2) by (auto simp: total_pnl_def try_fold_append outcome_simps)
  have "dec_representable (running_pnl D facts i - running_pnl D facts j)" for i j
    unfolding prefix_running [of D facts _ f] by (rule snoc.prems(1))
  then have "dec_value D mid = sum_list (map (fact_pnl D) facts)" using mid by (rule snoc.IH)
  moreover have "dec_representable (sum_list (map (fact_pnl D) (facts @ [f])))"
    using snoc.prems(1) [of "Suc (length facts)" 0] by (simp add: running_pnl_def)
  ultimately show ?case
    using dec_add_exact [OF laws(1) final] by (simp add: fact_pnl_def [of D f])
qed

lemma snapshot_open:
  assumes "risk_snapshot D l now_ms = (Ok view :: (_, 'e) outcome)" and "rs_gate view = GateOpen"
  obtains amount drawdown streak where "rl_generation l \<noteq> None"
    and "total_pnl D (facts_since (saturating_sub now_ms (rl_loss_window_ms l)) (rl_facts l))
      = (Ok amount :: (_, 'e) outcome)"
    and "drawdown_and_streak D (facts_since (saturating_sub now_ms (rl_drawdown_window_ms l)) (rl_facts l))
      = (Ok (drawdown, streak) :: (_, 'e) outcome)"
    and "dec_less D (dec_greatest D (dec_neg D amount) (dec_zero D)) (rl_loss_window_limit l)"
    and "dec_less D drawdown (rl_drawdown_limit l)" and "streak < rl_max_loss_streak l"
    and "\<not> holds_for (rl_cooldown_until l) (\<lambda>until. now_ms < until)"
  using assms
  by (auto simp: risk_snapshot_def Let_def outcome_simps holds_for_def dec_le_def dec_less_def not_le
      split: option.splits if_splits)

lemma drawdown_and_streak_value:
  assumes laws: "dec_exact_laws D" "dec_choice_laws D" "dec_const_laws D"
    and exact: "\<And>i j. dec_representable (running_pnl D facts i - running_pnl D facts j)"
    and run: "drawdown_and_streak D facts = (Ok (drawdown, streak) :: (_, 'e) outcome)"
  shows "i \<le> j \<Longrightarrow> running_pnl D facts i - running_pnl D facts j \<le> dec_value D drawdown"
    and "unat streak = trailing_losses D facts"
proof -
  obtain equity peak where "try_fold (drawdown_step D) (dec_zero D, dec_zero D, dec_zero D, 0) facts
      = (Ok (equity, peak, drawdown, streak) :: (_, 'e) outcome)"
    using run by (auto simp: drawdown_and_streak_def outcome_simps)
  then have inv: "drawdown_inv D facts (equity, peak, drawdown, streak)"
    by (rule drawdown_loop [OF laws exact])
  show "unat streak = trailing_losses D facts" using inv by (simp add: drawdown_inv_def Let_def)
  have cap: "running_pnl D facts k = running_pnl D facts (min k (length facts))" for k
    by (simp add: running_pnl_def min_def)
  show "running_pnl D facts i - running_pnl D facts j \<le> dec_value D drawdown" if "i \<le> j"
    using inv that unfolding cap [of i] cap [of j] drawdown_inv_def Let_def prod.case
    by (meson min.cobounded2 min.mono order_refl)
qed

end
