(* ===== verification/Scalping_Memory.thy ===== *)
theory Scalping_Memory
  imports Scalping_Model
begin

text \<open>
  The memory of admitted candidates, \<open>crates/venue-strategies/src/scalping/candidate_memory.rs\<close>:
  an opportunity is admitted once while it is valid, and breakouts only in order.
\<close>

section \<open>The memory\<close>

definition MAX_TRACKED_CANDIDATES :: int where "MAX_TRACKED_CANDIDATES = 4096"

record seen_candidate =
  sw_candidate_id :: string
  sw_opportunity_key :: string
  sw_expert :: expert
  sw_expires_at_ms :: u64

record candidate_memory_state =
  ms_candidates :: "seen_candidate list"
  ms_breakout_cursor :: "breakout_cursor option"

datatype memory_rejection = MemoryDuplicate | MemoryCapacity

record candidate_memory =
  cm_candidates :: "(string, seen_candidate) btree"
  cm_breakout_cursor :: "breakout_cursor option"

definition memory_new :: candidate_memory where
  "memory_new = \<lparr>cm_candidates = [], cm_breakout_cursor = None\<rparr>"

definition memory_prune :: "u64 \<Rightarrow> candidate_memory \<Rightarrow> candidate_memory" where
  "memory_prune watermark_ms m =
     m\<lparr>cm_candidates := filter (\<lambda>(_, seen). watermark_ms \<le> sw_expires_at_ms seen) (cm_candidates m)\<rparr>"

definition is_new_breakout :: "breakout_cursor option \<Rightarrow> breakout_cursor \<Rightarrow> bool" where
  "is_new_breakout previous later \<longleftrightarrow>
     (case previous of
        None \<Rightarrow> True
      | Some p \<Rightarrow>
          bc_feature_generation p < bc_feature_generation later
          \<or> bc_feature_generation later = bc_feature_generation p
            \<and> bc_boundary_sequence p < bc_boundary_sequence later
            \<and> bc_compression_cycle_sequence p < bc_compression_cycle_sequence later)"

definition same_opportunity :: "'d semantic_intent \<Rightarrow> seen_candidate \<Rightarrow> bool" where
  "same_opportunity candidate seen \<longleftrightarrow>
     sw_expert seen = it_expert candidate \<and> sw_opportunity_key seen = it_opportunity_key candidate"

definition seen_of :: "'d semantic_intent \<Rightarrow> seen_candidate" where
  "seen_of candidate =
     \<lparr>sw_candidate_id = it_intent_id candidate, sw_opportunity_key = it_opportunity_key candidate,
      sw_expert = it_expert candidate, sw_expires_at_ms = it_valid_until_ms candidate\<rparr>"

definition check_and_record ::
  "candidate_memory \<Rightarrow> 'd semantic_intent \<Rightarrow> u64 \<Rightarrow> candidate_memory \<times> (unit, memory_rejection) outcome"
  where
  "check_and_record m candidate watermark_ms =
     (let m = memory_prune watermark_ms m in
      if bt_contains (cm_candidates m) (it_intent_id candidate)
        \<or> list_ex (same_opportunity candidate) (bt_values (cm_candidates m))
      then (m, Err MemoryDuplicate)
      else if holds_for (it_breakout_cursor candidate)
          (\<lambda>later. \<not> is_new_breakout (cm_breakout_cursor m) later)
      then (m, Err MemoryDuplicate)
      else if MAX_TRACKED_CANDIDATES \<le> int (length (cm_candidates m)) then (m, Err MemoryCapacity)
      else (m\<lparr>cm_candidates := bt_insert (it_intent_id candidate) (seen_of candidate) (cm_candidates m),
             cm_breakout_cursor := (if it_breakout_cursor candidate \<noteq> None
               then it_breakout_cursor candidate else cm_breakout_cursor m)\<rparr>, Ok ()))"

section \<open>Checkpoints\<close>

definition memory_export :: "candidate_memory \<Rightarrow> candidate_memory_state" where
  "memory_export m =
     \<lparr>ms_candidates = bt_values (cm_candidates m), ms_breakout_cursor = cm_breakout_cursor m\<rparr>"

text \<open>Two candidates of one opportunity.\<close>

primrec repeated_opportunity :: "seen_candidate list \<Rightarrow> bool" where
  "repeated_opportunity [] = False"
| "repeated_opportunity (seen # others) \<longleftrightarrow>
     list_ex (\<lambda>other. sw_expert seen = sw_expert other \<and> sw_opportunity_key seen = sw_opportunity_key other)
       others \<or> repeated_opportunity others"

definition by_candidate_id :: "seen_candidate list \<Rightarrow> (string, seen_candidate) btree" where
  "by_candidate_id candidates = foldl (\<lambda>m seen. bt_insert (sw_candidate_id seen) seen m) [] candidates"

definition memory_restore ::
  "candidate_memory \<Rightarrow> candidate_memory_state \<Rightarrow> candidate_memory \<times> (unit, scalping_error) outcome" where
  "memory_restore m t =
     (let candidates = by_candidate_id (ms_candidates t) in
      if MAX_TRACKED_CANDIDATES < int (length (ms_candidates t))
        \<or> list_ex (\<lambda>seen. blank (sw_candidate_id seen) \<or> blank (sw_opportunity_key seen)
             \<or> sw_expires_at_ms seen = 0) (ms_candidates t)
        \<or> repeated_opportunity (ms_candidates t)
      then (m, Err SC_Checkpoint)
      else if length candidates \<noteq> length (ms_candidates t) then (m, Err SC_Checkpoint)
      else if holds_for (ms_breakout_cursor t) (\<lambda>cursor. bc_feature_generation cursor = 0
          \<or> bc_boundary_sequence cursor = 0 \<or> bc_compression_cycle_sequence cursor = 0)
      then (m, Err SC_Checkpoint)
      else (m\<lparr>cm_candidates := candidates, cm_breakout_cursor := ms_breakout_cursor t\<rparr>, Ok ()))"

section \<open>An opportunity is admitted once\<close>

text \<open>A refused candidate only lets expired ones go.\<close>

definition remembers :: "candidate_memory \<Rightarrow> seen_candidate \<Rightarrow> bool" where
  "remembers m seen \<longleftrightarrow> bt_lookup (cm_candidates m) (sw_candidate_id seen) = Some seen"

lemma lookup_filter_kept:
  assumes "bt_lookup m k = Some v" and "P v"
  shows "bt_lookup (filter (\<lambda>(_, w). P w) m) k = Some v"
  using assms by (induction m) (auto simp: bt_lookup_def split: if_splits)

lemma prune_keeps:
  "remembers m seen \<Longrightarrow> watermark_ms \<le> sw_expires_at_ms seen \<Longrightarrow> remembers (memory_prune watermark_ms m) seen"
  by (simp add: remembers_def memory_prune_def lookup_filter_kept)

lemma recorded_remembered:
  "check_and_record m candidate watermark_ms = (m', Ok ()) \<Longrightarrow> remembers m' (seen_of candidate)"
  by (auto simp: check_and_record_def Let_def remembers_def seen_of_def split: if_splits)

lemma record_keeps:
  assumes "remembers m seen" and "watermark_ms \<le> sw_expires_at_ms seen"
  shows "remembers (fst (check_and_record m candidate watermark_ms)) seen"
  using prune_keeps [OF assms]
  by (auto simp: check_and_record_def Let_def remembers_def bt_contains_def)

lemma remembered_refused:
  assumes "remembers m seen" and "watermark_ms \<le> sw_expires_at_ms seen"
    and "it_intent_id candidate = sw_candidate_id seen \<or> same_opportunity candidate seen"
  shows "snd (check_and_record m candidate watermark_ms) = Err MemoryDuplicate"
proof -
  let ?m = "cm_candidates (memory_prune watermark_ms m)"
  have found: "bt_lookup ?m (sw_candidate_id seen) = Some seen"
    using prune_keeps [OF assms(1,2)] by (simp add: remembers_def)
  then have "seen \<in> set (bt_values ?m)"
    by (force simp: bt_lookup_def bt_values_def dest!: map_of_SomeD)
  then show ?thesis
    using found assms(3) by (auto simp: check_and_record_def Let_def bt_contains_def list_ex_iff)
qed

lemma run_remembers:
  assumes "remembers m seen" and "list_all (\<lambda>(_, watermark_ms). watermark_ms \<le> sw_expires_at_ms seen) calls"
  shows "remembers (foldl (\<lambda>m (candidate, watermark_ms). fst (check_and_record m candidate watermark_ms)) m calls) seen"
  using assms
proof (induction calls arbitrary: m)
  case (Cons c calls)
  then show ?case using record_keeps [of m seen "snd c" "fst c"] by (simp add: case_prod_beta)
qed simp

end
