(* ===== verification/Scalping_Fault.thy ===== *)
theory Scalping_Fault
  imports Scalping_Memory Scalping_Risk
begin

text \<open>
  The state of the scalping strategy (\<open>engine.rs\<close>) and its fault projection,
  \<open>crates/venue-strategies/src/scalping/fault.rs\<close>: what an episode does with the facts about
  its exposure, the deadlines that fault it and the authorized recovery from a fault.
\<close>

section \<open>The strategy\<close>

record 'd scalping_strategy =
  sg_binding :: "'d strategy_binding"
  sg_binding_digest :: string
  sg_params :: "'d scalping_params"
  sg_params_digest :: string
  sg_controller_revision :: u64
  sg_authority_generation :: u64
  sg_requires_fresh_authorization :: bool
  sg_regime :: "market_regime option"
  sg_regime_entered_at_ms :: "u64 option"
  sg_state :: "'d scalping_state"
  sg_episode :: "'d episode option"
  sg_last_frame_generation :: "u64 option"
  sg_last_watermark_ms :: "u64 option"
  sg_cursors :: "(string, source_cursor) btree"
  sg_candidate_memory :: candidate_memory
  sg_risk :: "'d risk_ledger"
  sg_recovery_rewarm_pending :: bool
  sg_recovery_rewarm_until_ms :: "u64 option"

definition put_episode :: "'d episode \<Rightarrow> 'd scalping_strategy \<Rightarrow> 'd scalping_strategy" where
  "put_episode e s = s\<lparr>sg_episode := Some e\<rparr>"

text \<open>The cooldown that follows an episode.\<close>

definition cool_down :: "u64 \<Rightarrow> 'd scalping_strategy \<Rightarrow> 'd scalping_strategy" where
  "cool_down observed_at_ms s =
     s\<lparr>sg_state := ScCooldown (saturating_add observed_at_ms (sx_cooldown_ms (sg_params s)))\<rparr>"

section \<open>Risk facts\<close>

definition put_risk ::
  "'d scalping_strategy \<Rightarrow> 'd risk_ledger \<times> ('d risk_view, scalping_error) outcome
   \<Rightarrow> 'd scalping_strategy \<times> ('d risk_view, scalping_error) outcome" where
  "put_risk s = (\<lambda>(l, result). (s\<lparr>sg_risk := l\<rparr>, result))"

definition record_risk ::
  "'d decimal_api \<Rightarrow> 'd scalping_strategy \<Rightarrow> 'd risk_fact
   \<Rightarrow> 'd scalping_strategy \<times> ('d risk_view, scalping_error) outcome" where
  "record_risk D s f = put_risk s (ledger_record D (sg_risk s) f)"

definition require_risk_revaluation ::
  "'d decimal_api \<Rightarrow> 'd scalping_strategy \<Rightarrow> u64
   \<Rightarrow> 'd scalping_strategy \<times> ('d risk_view, scalping_error) outcome" where
  "require_risk_revaluation D s observed_at_ms =
     put_risk s (ledger_require_revaluation D (sg_risk s) observed_at_ms)"

definition apply_risk_revaluation ::
  "'d decimal_api \<Rightarrow> 'd scalping_strategy \<Rightarrow> 'd risk_revaluation
   \<Rightarrow> 'd scalping_strategy \<times> ('d risk_view, scalping_error) outcome" where
  "apply_risk_revaluation D s revaluation = put_risk s (ledger_apply_revaluation D (sg_risk s) revaluation)"

section \<open>The projection of an episode\<close>

primrec control_exit_reason :: "control_target \<Rightarrow> episode_exit_reason" where
  "control_exit_reason StopAndProtect = ExitStopAndProtect"
| "control_exit_reason FlattenAndStop = ExitFlattenAndStop"
| "control_exit_reason EmergencyStop = ExitEmergencyStop"
| "control_exit_reason Running = SafetyProjectionLost"

text \<open>The operators panic when a result does not fit.\<close>

definition price_factor ::
  "'d decimal_api \<Rightarrow> ('d \<Rightarrow> 'd \<Rightarrow> 'd option) \<Rightarrow> 'd \<Rightarrow> 'd \<Rightarrow> ('d, 'e) outcome" where
  "price_factor D combine reference ratio =
     and_then (or_panic (combine (dec_one D) ratio)) (\<lambda>factor. or_panic (dec_mul D reference factor))"

definition price_hits ::
  "'d decimal_api \<Rightarrow> trade_direction \<Rightarrow> 'd \<Rightarrow> 'd \<Rightarrow> 'd \<Rightarrow> 'd \<Rightarrow> (bool \<times> bool, 'e) outcome" where
  "price_hits D direction reference mark stop_ratio target_ratio =
     (case direction of
        DirectionLong \<Rightarrow>
          and_then (price_factor D (dec_sub D) reference stop_ratio) (\<lambda>stop_price.
          and_then (price_factor D (dec_add D) reference target_ratio) (\<lambda>target_price.
          Ok (dec_le D mark stop_price, dec_le D target_price mark)))
      | DirectionShort \<Rightarrow>
          and_then (price_factor D (dec_add D) reference stop_ratio) (\<lambda>stop_price.
          and_then (price_factor D (dec_sub D) reference target_ratio) (\<lambda>target_price.
          Ok (dec_le D stop_price mark, dec_le D mark target_price))))"

definition exit_reason_at ::
  "'d decimal_api \<Rightarrow> 'd episode \<Rightarrow> 'd price \<Rightarrow> u64 \<Rightarrow> (episode_exit_reason option, 'e) outcome" where
  "exit_reason_at D e mark_price observed_at_ms =
     (let intent = ep_frozen_intent e; scale = dec_new D 10000 0 in
      and_then (or_panic (dec_div D (it_hard_stop_distance_bps intent) scale)) (\<lambda>stop_ratio.
      and_then (or_panic (dec_div D (it_target_distance_bps intent) scale)) (\<lambda>target_ratio.
      and_then (price_hits D (it_direction intent) (price_value (it_reference_price intent))
          (price_value mark_price) stop_ratio target_ratio) (\<lambda>(hard_stop_hit, target_hit).
      Ok (if hard_stop_hit then Some HardStop
          else if target_hit then Some TargetReached
          else if holds_for (ep_opened_at_ms e) (\<lambda>opened.
              saturating_add opened (it_max_hold_ms intent) \<le> observed_at_ms)
          then Some MaxHoldElapsed else None)))))"

definition had_exposure :: "'d episode \<Rightarrow> bool" where
  "had_exposure e \<longleftrightarrow>
     ep_opened_at_ms e \<noteq> None \<or> ep_state e \<in> {EpOpen, EpExitPending, EpStoppedProtected}"

definition safety_lost :: "safety_projection \<Rightarrow> bool" where
  "safety_lost safety \<longleftrightarrow>
     \<not> sf_private_snapshot_ready safety \<or> sf_exposure safety = ExposureUnknown
     \<or> sf_execution_unknown safety \<or> sf_owner_conflict safety \<or> \<not> sf_risk_budget_available safety"

definition exit_action :: "'d episode \<Rightarrow> episode_exit_reason \<Rightarrow> 'd episode_action" where
  "exit_action e reason =
     ExitEpisode (it_direction (ep_frozen_intent e)) reason (it_opportunity_key (ep_frozen_intent e))"

text \<open>The position is flat.\<close>

definition project_flat ::
  "'d scalping_strategy \<Rightarrow> 'd episode \<Rightarrow> control_target \<Rightarrow> u64
   \<Rightarrow> 'd scalping_strategy \<times> ('d episode_action list, scalping_error) outcome" where
  "project_flat s e target observed_at_ms =
     (if target = Running \<and> (had_exposure e \<or> ep_state e = EpExitPending)
      then (cool_down observed_at_ms
              (put_episode (e\<lparr>ep_state := EpCooldown, ep_retry_not_before_ms := None\<rparr>) s), Ok [])
      else if target \<noteq> Running
      then (put_episode (e\<lparr>ep_state := EpStoppedFlat\<rparr>) s,
            Ok (if had_exposure e then [] else [CancelEntry (control_exit_reason target)]))
      else (put_episode e s, Ok []))"

text \<open>The position is open and protected, or is to be closed.\<close>

definition project_target ::
  "'d decimal_api \<Rightarrow> 'd scalping_strategy \<Rightarrow> 'd episode \<Rightarrow> control_target \<Rightarrow> 'd price \<Rightarrow> u64
   \<Rightarrow> 'd scalping_strategy \<times> ('d episode_action list, scalping_error) outcome" where
  "project_target D s e target mark_price observed_at_ms =
     (let cancelled = (case ep_episode_fault_deadline e of
            None \<Rightarrow> [] | Some armed \<Rightarrow> [CancelFaultDeadline (sd_deadline_id (ad_deadline armed))]) in
      case target of
        StopAndProtect \<Rightarrow>
          (put_episode (e\<lparr>ep_state := EpStoppedProtected\<rparr>) s,
           Ok (cancelled @ [MaintainProtection (it_direction (ep_frozen_intent e))
             (it_hard_stop_distance_bps (ep_frozen_intent e))]))
      | Running \<Rightarrow>
          (let e = e\<lparr>ep_state := EpOpen\<rparr> in
           attempt (put_episode e s) (exit_reason_at D e mark_price observed_at_ms) (\<lambda>reason.
           case reason of
             None \<Rightarrow> (put_episode e s, Ok cancelled)
           | Some reason \<Rightarrow>
               (put_episode (e\<lparr>ep_state := EpExitPending\<rparr>) s, Ok (cancelled @ [exit_action e reason]))))
      | _ \<Rightarrow>
          (put_episode (e\<lparr>ep_state := EpExitPending\<rparr>) s,
           Ok (cancelled @ [exit_action e (control_exit_reason target)])))"

definition project_open ::
  "'d decimal_api \<Rightarrow> 'd scalping_strategy \<Rightarrow> 'd episode \<Rightarrow> control_target \<Rightarrow> safety_projection \<Rightarrow> 'd price \<Rightarrow> u64
   \<Rightarrow> 'd scalping_strategy \<times> ('d episode_action list, scalping_error) outcome" where
  "project_open D s e target safety mark_price observed_at_ms =
     (let e = e\<lparr>ep_opened_at_ms := Some
            (case ep_opened_at_ms e of None \<Rightarrow> observed_at_ms | Some opened \<Rightarrow> opened)\<rparr> in
      if ep_state e = EpExitPending then (put_episode e s, Ok [])
      else if sf_protection safety \<noteq> ProtectionComplete \<and> target \<notin> {FlattenAndStop, EmergencyStop}
      then (put_episode (e\<lparr>ep_state := EpOpen\<rparr>) s,
            Ok (if ep_episode_fault_deadline e = None
                then [ArmFaultDeadline UnprotectedExposure
                  (saturating_add observed_at_ms (it_max_unprotected_ms (ep_frozen_intent e)))]
                else []))
      else project_target D s e target mark_price observed_at_ms)"

definition project_new_fact ::
  "'d decimal_api \<Rightarrow> 'd scalping_strategy \<Rightarrow> 'd episode \<Rightarrow> control_target \<Rightarrow> safety_projection \<Rightarrow> 'd price \<Rightarrow> u64
   \<Rightarrow> 'd scalping_strategy \<times> ('d episode_action list, scalping_error) outcome" where
  "project_new_fact D s e target safety mark_price observed_at_ms =
     (case ep_fault e of
        Some fault \<Rightarrow>
          (put_episode e s, Ok (if sf_exposure safety = ExposureOpen
             then [exit_action e (if fa_scope fault = EpisodeScope UnprotectedExposure
                then UnprotectedDeadline else SafetyProjectionLost)]
             else []))
      | None \<Rightarrow>
          if safety_lost safety
          then (put_episode (e\<lparr>ep_state := EpExitPending\<rparr>) s,
                Ok [if had_exposure e then exit_action e SafetyProjectionLost
                    else CancelEntry SafetyProjectionLost])
          else if sf_exposure safety = ExposureFlat then project_flat s e target observed_at_ms
          else project_open D s e target safety mark_price observed_at_ms)"

definition project_episode ::
  "'d decimal_api \<Rightarrow> 'd scalping_strategy \<Rightarrow> control_target \<Rightarrow> safety_projection \<Rightarrow> 'd price \<Rightarrow> u64 \<Rightarrow> string
   \<Rightarrow> 'd scalping_strategy \<times> ('d episode_action list, scalping_error) outcome" where
  "project_episode D s target safety mark_price observed_at_ms fact_id =
     (case sg_episode s of
        None \<Rightarrow> (s, Err SC_Episode)
      | Some e \<Rightarrow>
          if blank fact_id \<or> observed_at_ms < ep_last_observed_at_ms e then (s, Err SC_Episode)
          else if ep_last_fact_id e = Some fact_id
          then (s, if observed_at_ms = ep_last_observed_at_ms e then Ok [] else Err SC_Episode)
          else project_new_fact D s
                 (e\<lparr>ep_last_observed_at_ms := observed_at_ms, ep_last_fact_id := Some fact_id\<rparr>)
                 target safety mark_price observed_at_ms)"

section \<open>Deadlines\<close>

definition arm_episode_fault_deadline ::
  "'d scalping_strategy \<Rightarrow> episode_fault_kind \<Rightarrow> safety_deadline
   \<Rightarrow> 'd scalping_strategy \<times> (unit, scalping_error) outcome" where
  "arm_episode_fault_deadline s kind deadline =
     attempt s (deadline_validate deadline) (\<lambda>_.
     case sg_episode s of
       None \<Rightarrow> (s, Err SC_Episode)
     | Some e \<Rightarrow>
         if ep_fault e \<noteq> None \<or> sd_armed_at_ms deadline < ep_last_observed_at_ms e
           \<or> saturating_add (sd_armed_at_ms deadline) (it_max_unprotected_ms (ep_frozen_intent e))
               < sd_expires_at_ms deadline
           \<or> holds_for (ep_control_fault_deadline e) (\<lambda>c. sd_deadline_id c = sd_deadline_id deadline)
         then (s, Err SC_Fault)
         else
         let armed = \<lparr>ad_kind = kind, ad_deadline = deadline\<rparr> in
         case ep_episode_fault_deadline e of
           Some existing \<Rightarrow> (s, if existing = armed then Ok () else Err SC_Fault)
         | None \<Rightarrow> (put_episode (e\<lparr>ep_episode_fault_deadline := Some armed\<rparr>) s, Ok ()))"

definition arm_control_fault_deadline ::
  "'d scalping_strategy \<Rightarrow> safety_deadline \<Rightarrow> 'd scalping_strategy \<times> (unit, scalping_error) outcome" where
  "arm_control_fault_deadline s deadline =
     attempt s (deadline_validate deadline) (\<lambda>_.
     case sg_episode s of
       None \<Rightarrow> (s, Err SC_Episode)
     | Some e \<Rightarrow>
         if ep_fault e \<noteq> None \<or> sd_armed_at_ms deadline < ep_last_observed_at_ms e
           \<or> holds_for (ep_episode_fault_deadline e)
               (\<lambda>armed. sd_deadline_id (ad_deadline armed) = sd_deadline_id deadline)
         then (s, Err SC_Fault)
         else
         case ep_control_fault_deadline e of
           Some existing \<Rightarrow> (s, if existing = deadline then Ok () else Err SC_Fault)
         | None \<Rightarrow> (put_episode (e\<lparr>ep_control_fault_deadline := Some deadline\<rparr>) s, Ok ()))"

definition cancel_episode_fault_deadline ::
  "'d scalping_strategy \<Rightarrow> string \<Rightarrow> u64 \<Rightarrow> u64 \<Rightarrow> 'd scalping_strategy \<times> (bool, scalping_error) outcome" where
  "cancel_episode_fault_deadline s deadline_id generation completed_at_ms =
     (case sg_episode s of
        None \<Rightarrow> (s, Err SC_Episode)
      | Some e \<Rightarrow>
          if blank deadline_id \<or> generation = 0 \<or> completed_at_ms < ep_last_observed_at_ms e
          then (s, Err SC_Fault)
          else
          case ep_episode_fault_deadline e of
            None \<Rightarrow> (s, Ok False)
          | Some armed \<Rightarrow>
              if sd_deadline_id (ad_deadline armed) \<noteq> deadline_id
                \<or> sd_generation (ad_deadline armed) \<noteq> generation
                \<or> completed_at_ms < sd_armed_at_ms (ad_deadline armed)
              then (s, Err SC_Fault)
              else (put_episode (e\<lparr>ep_episode_fault_deadline := None,
                      ep_last_observed_at_ms := completed_at_ms\<rparr>) s, Ok True))"

definition names_deadline :: "deadline_fired \<Rightarrow> safety_deadline \<Rightarrow> bool" where
  "names_deadline fired d \<longleftrightarrow>
     sd_deadline_id d = df_deadline_id fired \<and> sd_generation d = df_generation fired"

text \<open>The armed deadline that has fired, with its scope and its expiry.\<close>

definition fired_scope :: "'d episode \<Rightarrow> deadline_fired \<Rightarrow> (fault_scope \<times> u64) option" where
  "fired_scope e fired =
     (let control = (case ep_control_fault_deadline e of
            None \<Rightarrow> None
          | Some c \<Rightarrow> if names_deadline fired c then Some (ControlScope, sd_expires_at_ms c) else None) in
      case ep_episode_fault_deadline e of
        None \<Rightarrow> control
      | Some armed \<Rightarrow>
          if names_deadline fired (ad_deadline armed)
          then Some (EpisodeScope (ad_kind armed), sd_expires_at_ms (ad_deadline armed))
          else control)"

definition enter_fault :: "'d episode \<Rightarrow> deadline_fired \<Rightarrow> fault_scope \<Rightarrow> 'd episode" where
  "enter_fault e fired scope =
     (let e = (case scope of
            EpisodeScope _ \<Rightarrow> e\<lparr>ep_episode_fault_deadline := None\<rparr>
          | ControlScope \<Rightarrow> e\<lparr>ep_control_fault_deadline := None\<rparr>) in
      e\<lparr>ep_fault := Some \<lparr>fa_scope = scope, fa_deadline_id = df_deadline_id fired,
          fa_generation = df_generation fired, fa_root_cause_fact_id = df_root_cause_fact_id fired,
          fa_faulted_at_ms = df_fired_at_ms fired\<rparr>,
        ep_last_deadline_fired_id := Some (df_deadline_id fired),
        ep_last_deadline_fired_generation := Some (df_generation fired),
        ep_last_observed_at_ms := max (ep_last_observed_at_ms e) (df_fired_at_ms fired),
        ep_state := (case scope of EpisodeScope _ \<Rightarrow> EpEpisodeFaulted | ControlScope \<Rightarrow> EpControlFaulted)\<rparr>)"

definition apply_fault_deadline ::
  "'d scalping_strategy \<Rightarrow> deadline_fired \<Rightarrow> 'd scalping_strategy \<times> (bool, scalping_error) outcome" where
  "apply_fault_deadline s fired =
     (case sg_episode s of
        None \<Rightarrow> (s, Err SC_Episode)
      | Some e \<Rightarrow>
          if blank (df_deadline_id fired) \<or> df_generation fired = 0 \<or> df_fired_at_ms fired = 0
            \<or> blank (df_root_cause_fact_id fired)
          then (s, Err SC_Fault)
          else if ep_last_deadline_fired_id e = Some (df_deadline_id fired)
          then (s, if ep_last_deadline_fired_generation e = Some (df_generation fired)
                   then Ok False else Err SC_Fault)
          else
          case fired_scope e fired of
            None \<Rightarrow> (s, Err SC_Fault)
          | Some (scope, expires_at_ms) \<Rightarrow>
              if df_fired_at_ms fired < expires_at_ms \<or> ep_fault e \<noteq> None then (s, Err SC_Fault)
              else (put_episode (enter_fault e fired scope) s, Ok True))"

section \<open>Recovery\<close>

definition fault_recovery_matches ::
  "'d episode \<Rightarrow> fault_projection \<Rightarrow> fault_recovery \<Rightarrow> safety_projection \<Rightarrow> u64 \<Rightarrow> string \<Rightarrow> bool" where
  "fault_recovery_matches e fault authorization safety observed_at_ms root_cause_fact_id \<longleftrightarrow>
     \<not> blank (fx_authorization_id authorization) \<and> fx_episode_id authorization = ep_episode_id e
     \<and> fx_scope authorization = fa_scope fault \<and> fx_fault_generation authorization = fa_generation fault
     \<and> fx_root_cause_fact_id authorization = fa_root_cause_fact_id fault
     \<and> root_cause_fact_id = fa_root_cause_fact_id fault
     \<and> observed_at_ms < fx_valid_until_ms authorization
     \<and> fa_faulted_at_ms fault \<le> observed_at_ms \<and> ep_last_observed_at_ms e \<le> observed_at_ms
     \<and> sf_private_snapshot_ready safety \<and> sf_exposure safety \<noteq> ExposureUnknown
     \<and> \<not> sf_execution_unknown safety \<and> \<not> sf_owner_conflict safety \<and> sf_risk_budget_available safety
     \<and> (sf_exposure safety = ExposureFlat \<or> sf_protection safety = ProtectionComplete)"

definition already_recovered :: "'d episode \<Rightarrow> fault_recovery \<Rightarrow> bool" where
  "already_recovered e authorization \<longleftrightarrow>
     ep_last_recovery_authorization_id e = Some (fx_authorization_id authorization) \<and> ep_fault e = None"

definition clear_fault :: "'d episode \<Rightarrow> fault_recovery \<Rightarrow> u64 \<Rightarrow> 'd episode" where
  "clear_fault e authorization observed_at_ms =
     e\<lparr>ep_fault := None, ep_last_recovery_authorization_id := Some (fx_authorization_id authorization),
       ep_last_observed_at_ms := observed_at_ms\<rparr>"

definition recover_episode_fault ::
  "'d scalping_strategy \<Rightarrow> fault_recovery \<Rightarrow> safety_projection \<Rightarrow> u64 \<Rightarrow> string
   \<Rightarrow> 'd scalping_strategy \<times> (unit, scalping_error) outcome" where
  "recover_episode_fault s authorization safety observed_at_ms root_cause_fact_id =
     (case sg_episode s of
        None \<Rightarrow> (s, Err SC_Episode)
      | Some e \<Rightarrow>
          if already_recovered e authorization then (s, Ok ())
          else
          case ep_fault e of
            None \<Rightarrow> (s, Err SC_Fault)
          | Some fault \<Rightarrow>
              if fa_scope fault = ControlScope
                \<or> \<not> fault_recovery_matches e fault authorization safety observed_at_ms root_cause_fact_id
              then (s, Err SC_Fault)
              else
              let e = clear_fault e authorization observed_at_ms in
              case sf_exposure safety of
                ExposureOpen \<Rightarrow> (put_episode (e\<lparr>ep_state := EpOpen\<rparr>) s, Ok ())
              | ExposureFlat \<Rightarrow> (cool_down observed_at_ms (put_episode (e\<lparr>ep_state := EpCooldown\<rparr>) s), Ok ())
              | ExposureUnknown \<Rightarrow> (put_episode e s, Err SC_Fault))"

definition recover_control_fault ::
  "'d scalping_strategy \<Rightarrow> fault_recovery \<Rightarrow> safety_projection \<Rightarrow> control_target \<Rightarrow> u64 \<Rightarrow> string
   \<Rightarrow> 'd scalping_strategy \<times> (unit, scalping_error) outcome" where
  "recover_control_fault s authorization safety target observed_at_ms root_cause_fact_id =
     (case sg_episode s of
        None \<Rightarrow> (s, Err SC_Episode)
      | Some e \<Rightarrow>
          if already_recovered e authorization then (s, Ok ())
          else
          case ep_fault e of
            None \<Rightarrow> (s, Err SC_Fault)
          | Some fault \<Rightarrow>
              if fa_scope fault \<noteq> ControlScope
                \<or> \<not> fault_recovery_matches e fault authorization safety observed_at_ms root_cause_fact_id
                \<or> (sf_exposure safety = ExposureOpen \<and> target \<in> {FlattenAndStop, EmergencyStop})
              then (s, Err SC_Fault)
              else
              let e = clear_fault e authorization observed_at_ms in
              case (target, sf_exposure safety) of
                (_, ExposureFlat) \<Rightarrow> (put_episode (e\<lparr>ep_state := EpStoppedFlat\<rparr>) s, Ok ())
              | (Running, ExposureOpen) \<Rightarrow> (put_episode (e\<lparr>ep_state := EpOpen\<rparr>) s, Ok ())
              | (StopAndProtect, ExposureOpen) \<Rightarrow> (put_episode (e\<lparr>ep_state := EpStoppedProtected\<rparr>) s, Ok ())
              | _ \<Rightarrow> (put_episode e s, Err SC_Fault))"

end
