(* ===== verification/Scalping_Evidence.thy ===== *)
theory Scalping_Evidence
  imports Scalping_Model Iteration
begin

text \<open>
  Pricing of the evidence for a candidate, \<open>crates/venue-strategies/src/scalping/evidence.rs\<close>:
  the expected value after costs of a fill distribution and three outcomes, and its value less
  the uncertainty.  The operators panic when a result does not fit.
\<close>

record 'd evidence_score =
  sk_fill_probability :: 'd
  sk_outcome_expected_value_bps :: 'd
  sk_net_expected_value_bps :: 'd

definition add_panic :: "'d decimal_api \<Rightarrow> 'd \<Rightarrow> 'd \<Rightarrow> ('d, 'e) outcome" where
  "add_panic D a b = or_panic (dec_add D a b)"

definition sub_panic :: "'d decimal_api \<Rightarrow> 'd \<Rightarrow> 'd \<Rightarrow> ('d, 'e) outcome" where
  "sub_panic D a b = or_panic (dec_sub D a b)"

definition mul_panic :: "'d decimal_api \<Rightarrow> 'd \<Rightarrow> 'd \<Rightarrow> ('d, 'e) outcome" where
  "mul_panic D a b = or_panic (dec_mul D a b)"

definition sum_panic :: "'d decimal_api \<Rightarrow> 'd list \<Rightarrow> ('d, 'e) outcome" where
  "sum_panic D xs = try_fold (add_panic D) (dec_zero D) xs"

definition in_unit :: "'d decimal_api \<Rightarrow> 'd \<Rightarrow> bool" where
  "in_unit D v \<longleftrightarrow> \<not> dec_negative D v \<and> dec_le D v (dec_one D)"

definition evidence_malformed ::
  "'d decimal_api \<Rightarrow> 'd fill_slice list \<Rightarrow> 'd outcome_probabilities \<Rightarrow> 'd \<Rightarrow> 'd \<Rightarrow> 'd candidate_costs
   \<Rightarrow> 'd \<Rightarrow> 'd \<Rightarrow> bool" where
  "evidence_malformed D fills outcomes target_pnl_bps stop_pnl_bps costs fill_mass outcome_mass \<longleftrightarrow>
     fills = [] \<or> \<not> dec_eq D fill_mass (dec_one D)
     \<or> \<not> list_ex (\<lambda>s. dec_positive D (fs_fill_ratio s)) fills
     \<or> list_ex (\<lambda>s. \<not> in_unit D (fs_fill_ratio s) \<or> \<not> in_unit D (fs_probability s)) fills
     \<or> \<not> dec_eq D outcome_mass (dec_one D)
     \<or> list_ex (\<lambda>p. \<not> in_unit D p) [op_target outcomes, op_stop outcomes, op_other outcomes]
     \<or> \<not> dec_positive D target_pnl_bps \<or> \<not> dec_negative D stop_pnl_bps
     \<or> list_ex (dec_negative D) [cc_entry_cost_bps costs, cc_exit_cost_bps costs,
          cc_nonfill_cost_bps costs, cc_opportunity_cost_bps costs]"

definition outcome_value ::
  "'d decimal_api \<Rightarrow> 'd outcome_probabilities \<Rightarrow> 'd \<Rightarrow> 'd \<Rightarrow> 'd \<Rightarrow> ('d, 'e) outcome" where
  "outcome_value D outcomes target_pnl_bps stop_pnl_bps other_pnl_bps =
     and_then (mul_panic D (op_target outcomes) target_pnl_bps) (\<lambda>t.
     and_then (mul_panic D (op_stop outcomes) stop_pnl_bps) (\<lambda>s.
     and_then (add_panic D t s) (\<lambda>ts.
     and_then (mul_panic D (op_other outcomes) other_pnl_bps) (\<lambda>r.
     add_panic D ts r))))"

text \<open>The value of a filled order, before the parts that are not filled.\<close>

definition filled_value ::
  "'d decimal_api \<Rightarrow> 'd candidate_costs \<Rightarrow> 'd \<Rightarrow> ('d, 'e) outcome" where
  "filled_value D costs expected =
     and_then (sub_panic D expected (cc_entry_cost_bps costs)) (\<lambda>v.
     and_then (sub_panic D v (cc_exit_cost_bps costs)) (\<lambda>v.
     sub_panic D v (cc_funding_cost_bps costs)))"

definition slice_value :: "'d decimal_api \<Rightarrow> 'd \<Rightarrow> 'd fill_slice \<Rightarrow> ('d, 'e) outcome" where
  "slice_value D filled s =
     and_then (mul_panic D (fs_fill_ratio s) (fs_probability s)) (\<lambda>w. mul_panic D w filled)"

text \<open>The sum consumes the products as they are made.\<close>

definition net_value ::
  "'d decimal_api \<Rightarrow> 'd fill_slice list \<Rightarrow> 'd candidate_costs \<Rightarrow> 'd \<Rightarrow> ('d, 'e) outcome" where
  "net_value D fills costs filled =
     and_then (try_fold (\<lambda>acc s. and_then (slice_value D filled s) (add_panic D acc)) (dec_zero D) fills) (\<lambda>v.
     and_then (sub_panic D v (cc_nonfill_cost_bps costs)) (\<lambda>v.
     sub_panic D v (cc_opportunity_cost_bps costs)))"

definition score_candidate_evidence ::
  "'d decimal_api \<Rightarrow> 'd fill_slice list \<Rightarrow> 'd outcome_probabilities \<Rightarrow> 'd \<Rightarrow> 'd \<Rightarrow> 'd \<Rightarrow> 'd candidate_costs
   \<Rightarrow> ('d evidence_score, scalping_error) outcome" where
  "score_candidate_evidence D fills outcomes target_pnl_bps stop_pnl_bps other_pnl_bps costs =
     and_then (sum_panic D (map fs_probability fills)) (\<lambda>fill_mass.
     and_then (add_panic D (op_target outcomes) (op_stop outcomes)) (\<lambda>mass.
     and_then (add_panic D mass (op_other outcomes)) (\<lambda>outcome_mass.
     if evidence_malformed D fills outcomes target_pnl_bps stop_pnl_bps costs fill_mass outcome_mass
     then Err SC_Evidence
     else
     and_then (outcome_value D outcomes target_pnl_bps stop_pnl_bps other_pnl_bps) (\<lambda>expected.
     and_then (filled_value D costs expected) (\<lambda>filled.
     and_then (sum_panic D (map fs_probability (filter (\<lambda>s. dec_positive D (fs_fill_ratio s)) fills))) (\<lambda>probability.
     and_then (net_value D fills costs filled) (\<lambda>net.
     Ok \<lparr>sk_fill_probability = probability, sk_outcome_expected_value_bps = expected,
       sk_net_expected_value_bps = net\<rparr>)))))))"

definition robust_value ::
  "'d decimal_api \<Rightarrow> 'd candidate_evidence \<Rightarrow> 'd \<Rightarrow> ('d, scalping_error) outcome" where
  "robust_value D ev uncertainty_multiplier =
     (if \<not> dec_positive D uncertainty_multiplier \<or> dec_negative D (ev_uncertainty_bps ev)
      then Err SC_Evidence
      else
      and_then (score_candidate_evidence D (ev_fill_distribution ev) (ev_outcomes ev)
          (ev_target_pnl_bps ev) (ev_stop_pnl_bps ev) (ev_other_pnl_bps ev) (ev_costs ev)) (\<lambda>score.
      if \<not> dec_eq D (ev_fill_probability ev) (sk_fill_probability score)
        \<or> \<not> dec_eq D (ev_outcome_expected_value_bps ev) (sk_outcome_expected_value_bps score)
        \<or> \<not> dec_eq D (ev_net_expected_value_bps ev) (sk_net_expected_value_bps score)
      then Err SC_Evidence
      else
      and_then (mul_panic D uncertainty_multiplier (ev_uncertainty_bps ev)) (\<lambda>margin.
      sub_panic D (sk_net_expected_value_bps score) margin)))"

text \<open>What a robust value rests on.\<close>

lemma robust_value_Ok:
  assumes "robust_value D ev multiplier = Ok v"
  obtains score margin where "dec_positive D multiplier" and "\<not> dec_negative D (ev_uncertainty_bps ev)"
    and "score_candidate_evidence D (ev_fill_distribution ev) (ev_outcomes ev) (ev_target_pnl_bps ev)
      (ev_stop_pnl_bps ev) (ev_other_pnl_bps ev) (ev_costs ev) = Ok score"
    and "dec_eq D (ev_net_expected_value_bps ev) (sk_net_expected_value_bps score)"
    and "dec_mul D multiplier (ev_uncertainty_bps ev) = Some margin"
    and "dec_sub D (sk_net_expected_value_bps score) margin = Some v"
  using assms by (auto simp: robust_value_def mul_panic_def sub_panic_def outcome_simps split: if_splits)

lemma robust_value_is:
  fixes D :: "'d decimal_api"
  assumes "robust_value D ev multiplier = Ok v" and "dec_sign_laws D" and "dec_exact_laws D"
    and "dec_representable (dec_value D (ev_net_expected_value_bps ev)
      - dec_value D multiplier * dec_value D (ev_uncertainty_bps ev))"
    and "dec_representable (dec_value D multiplier * dec_value D (ev_uncertainty_bps ev))"
  shows "dec_value D v = dec_value D (ev_net_expected_value_bps ev)
      - dec_value D multiplier * dec_value D (ev_uncertainty_bps ev)"
proof -
  obtain score :: "'d evidence_score" and margin where
    eq: "dec_eq D (ev_net_expected_value_bps ev) (sk_net_expected_value_bps score)"
    and margin: "dec_mul D multiplier (ev_uncertainty_bps ev) = Some margin"
    and v: "dec_sub D (sk_net_expected_value_bps score) margin = Some v"
    using assms(1) by (rule robust_value_Ok)
  have "dec_value D margin = dec_value D multiplier * dec_value D (ev_uncertainty_bps ev)"
    using dec_mul_exact [OF assms(3) margin assms(5)] .
  then show ?thesis using dec_sub_exact [OF assms(3) v] eq assms(4) by (simp add: dec_eq_def)
qed

end
