(* ===== verification/Scalping_Engine.thy ===== *)
theory Scalping_Engine
  imports Scalping_Fault Scalping_Evidence "HOL-Library.Product_Lexorder"
begin

text \<open>
  The reducer of the scalping strategy, \<open>crates/venue-strategies/src/scalping/engine.rs\<close> and
  \<open>checkpoint.rs\<close>: frames in, candidates out, the admission of one of them, the life of its
  entry, and checkpoints.
\<close>

section \<open>Creation\<close>

text \<open>What the controller says about an authorization (the trait \<open>LifecycleAuthorization\<close>).\<close>

record 'd lifecycle_authorization =
  la_is_allowed :: bool
  la_matches_at :: "'d strategy_binding \<Rightarrow> u64 \<Rightarrow> bool"
  la_revision :: u64
  la_authority_generation :: u64

definition digest_params :: "'d externals \<Rightarrow> 'd scalping_params \<Rightarrow> (string, scalping_error) outcome" where
  "digest_params X p =
     and_then (ok_or SC_Parameters (xt_params_json X p)) (\<lambda>bytes. Ok (hex_text (xt_sha256 X bytes)))"

definition strategy_new ::
  "'d decimal_api \<Rightarrow> 'd externals \<Rightarrow> 'd strategy_binding \<Rightarrow> 'd scalping_params
   \<Rightarrow> ('d scalping_strategy, scalping_error) outcome" where
  "strategy_new D X b p =
     and_then (strategy_binding_validate D b) (\<lambda>_.
     and_then (params_validate_for D p b) (\<lambda>_.
     and_then (digest_params X p) (\<lambda>params_digest.
     Ok \<lparr>sg_binding = b, sg_binding_digest = binding_digest X b, sg_params = p,
       sg_params_digest = params_digest, sg_controller_revision = 0, sg_authority_generation = 0,
       sg_requires_fresh_authorization = False, sg_regime = None, sg_regime_entered_at_ms = None,
       sg_state = ScBootstrapping, sg_episode = None, sg_last_frame_generation = None,
       sg_last_watermark_ms = None, sg_cursors = [], sg_candidate_memory = memory_new,
       sg_risk = risk_ledger_new p, sg_recovery_rewarm_pending = False,
       sg_recovery_rewarm_until_ms = None\<rparr>)))"

section \<open>Checkpoints\<close>

definition SCALPING_CHECKPOINT_SCHEMA :: u16 where "SCALPING_CHECKPOINT_SCHEMA = 4"

record 'd scalping_checkpoint =
  kp_schema_version :: u16
  kp_strategy_kind :: strategy_kind
  kp_binding_digest :: string
  kp_params_digest :: string
  kp_controller_revision :: u64
  kp_authority_generation :: u64
  kp_regime :: "market_regime option"
  kp_regime_entered_at_ms :: "u64 option"
  kp_state :: "'d scalping_state"
  kp_episode :: "'d episode option"
  kp_last_frame_generation :: "u64 option"
  kp_last_watermark_ms :: "u64 option"
  kp_cursors :: "(string, source_cursor) btree"
  kp_candidate_memory :: candidate_memory_state
  kp_risk :: "'d risk_ledger_state"

definition strategy_checkpoint :: "'d scalping_strategy \<Rightarrow> 'd scalping_checkpoint" where
  "strategy_checkpoint s =
     \<lparr>kp_schema_version = SCALPING_CHECKPOINT_SCHEMA, kp_strategy_kind = bd_strategy_kind (sg_binding s),
      kp_binding_digest = sg_binding_digest s, kp_params_digest = sg_params_digest s,
      kp_controller_revision = sg_controller_revision s,
      kp_authority_generation = sg_authority_generation s, kp_regime = sg_regime s,
      kp_regime_entered_at_ms = sg_regime_entered_at_ms s, kp_state = sg_state s,
      kp_episode = sg_episode s, kp_last_frame_generation = sg_last_frame_generation s,
      kp_last_watermark_ms = sg_last_watermark_ms s, kp_cursors = sg_cursors s,
      kp_candidate_memory = memory_export (sg_candidate_memory s), kp_risk = ledger_export (sg_risk s)\<rparr>"

definition cursor_within :: "u64 \<Rightarrow> u64 \<Rightarrow> source_cursor \<Rightarrow> bool" where
  "cursor_within generation watermark cursor \<longleftrightarrow>
     cu_generation cursor = generation \<and> 0 < cu_sequence cursor \<and> 0 < cu_event_time_ms cursor
     \<and> cu_event_time_ms cursor \<le> watermark"

definition validate_checkpoint_progress ::
  "'d scalping_checkpoint \<Rightarrow> string set \<Rightarrow> (unit, scalping_error) outcome" where
  "validate_checkpoint_progress k required_sources =
     (case (kp_last_frame_generation k, kp_last_watermark_ms k) of
        (None, None) \<Rightarrow> if kp_cursors k = [] then Ok () else Err SC_Checkpoint
      | (Some generation, Some watermark) \<Rightarrow>
          if (\<forall>source \<in> required_sources. bt_contains (kp_cursors k) source)
            \<and> list_all (cursor_within generation watermark) (bt_values (kp_cursors k))
          then Ok () else Err SC_Checkpoint
      | _ \<Rightarrow> Err SC_Checkpoint)"

definition restored_episode_valid ::
  "'d decimal_api \<Rightarrow> 'd scalping_strategy \<Rightarrow> 'd episode option \<Rightarrow> (unit, scalping_error) outcome" where
  "restored_episode_valid D s episode =
     (case episode of
        None \<Rightarrow> Ok ()
      | Some e \<Rightarrow>
          and_then (episode_validate_persisted D e) (\<lambda>_.
          if it_symbol (ep_frozen_intent e) \<noteq> bd_symbol (sg_binding s)
            \<or> holds_for (ep_frozen_evidence e) (\<lambda>ev.
                ev_binding_digest ev \<noteq> sg_binding_digest s
                \<or> ev_calibration_model_version ev \<noteq> sx_calibration_model_version (sg_params s)
                \<or> ev_calibration_digest ev \<noteq> sx_calibration_model_digest (sg_params s))
          then Err SC_Checkpoint else Ok ()))"

text \<open>A reservation is not restored: a new authorization has to be given first.\<close>

primrec restored_state :: "'d scalping_state \<Rightarrow> 'd scalping_state" where
  "restored_state (ScCooldown until_ms) = ScCooldown until_ms"
| "restored_state ScBootstrapping = ScBootstrapping"
| "restored_state ScReady = ScBootstrapping"
| "restored_state (ScReserved intent) = ScBootstrapping"
| "restored_state (ScBlocked reason) = ScBootstrapping"
| "restored_state (ScCandidatePending preparation) = ScCandidatePending preparation"

definition strategy_restore ::
  "'d decimal_api \<Rightarrow> 'd externals \<Rightarrow> 'd strategy_binding \<Rightarrow> 'd scalping_params \<Rightarrow> 'd scalping_checkpoint
   \<Rightarrow> ('d scalping_strategy, scalping_error) outcome" where
  "strategy_restore D X b p k =
     and_then (strategy_new D X b p) (\<lambda>s.
     if kp_schema_version k \<noteq> SCALPING_CHECKPOINT_SCHEMA
       \<or> kp_strategy_kind k \<noteq> bd_strategy_kind (sg_binding s)
       \<or> kp_binding_digest k \<noteq> sg_binding_digest s \<or> kp_params_digest k \<noteq> sg_params_digest s
     then Err SC_Checkpoint
     else
     and_then (validate_checkpoint_progress k (sx_required_sources (sg_params s))) (\<lambda>_.
     and_then (restored_episode_valid D s (kp_episode k)) (\<lambda>_.
     case memory_restore (sg_candidate_memory s) (kp_candidate_memory k) of (memory, restored) \<Rightarrow>
     and_then restored (\<lambda>_.
     case ledger_restore (sg_risk s) (kp_risk k) of (ledger, restored) \<Rightarrow>
     and_then restored (\<lambda>_.
     Ok (s\<lparr>sg_candidate_memory := memory, sg_risk := ledger, sg_state := restored_state (kp_state k),
       sg_episode := kp_episode k, sg_last_watermark_ms := kp_last_watermark_ms k,
       sg_last_frame_generation := kp_last_frame_generation k, sg_cursors := kp_cursors k,
       sg_controller_revision := kp_controller_revision k,
       sg_authority_generation := kp_authority_generation k,
       sg_requires_fresh_authorization := True, sg_regime := kp_regime k,
       sg_regime_entered_at_ms := kp_regime_entered_at_ms k,
       sg_recovery_rewarm_pending := (kp_last_frame_generation k \<noteq> None),
       sg_recovery_rewarm_until_ms := None\<rparr>))))))"

section \<open>Frames\<close>

definition block_for :: "blocking_reason \<Rightarrow> 'd scalping_strategy \<Rightarrow> 'd scalping_strategy \<times> ('d scalping_decision, scalping_error) outcome"
  where
  "block_for reason s = (s\<lparr>sg_state := ScBlocked reason\<rparr>, Ok (Noop (NoopBlocked reason)))"

definition cursor_regressed :: "source_cursor \<Rightarrow> source_cursor \<Rightarrow> bool" where
  "cursor_regressed previous current \<longleftrightarrow>
     cu_sequence current < cu_sequence previous \<or> cu_event_time_ms current < cu_event_time_ms previous
     \<or> (cu_sequence current = cu_sequence previous
         \<and> cu_event_time_ms current \<noteq> cu_event_time_ms previous)"

text \<open>A source of the same generation that is missing or has gone back, and one that has moved on.\<close>

definition source_regressed ::
  "(string, source_cursor) btree \<Rightarrow> (string, source_cursor) btree \<Rightarrow> string \<Rightarrow> bool" where
  "source_regressed before later source \<longleftrightarrow>
     (case (bt_lookup before source, bt_lookup later source) of
        (Some previous, Some current) \<Rightarrow> cursor_regressed previous current
      | _ \<Rightarrow> True)"

definition source_advanced ::
  "(string, source_cursor) btree \<Rightarrow> (string, source_cursor) btree \<Rightarrow> string \<Rightarrow> bool" where
  "source_advanced before later source \<longleftrightarrow>
     (case (bt_lookup before source, bt_lookup later source) of
        (Some previous, Some current) \<Rightarrow> cu_sequence previous < cu_sequence current
      | _ \<Rightarrow> False)"

definition source_later ::
  "(string, source_cursor) btree \<Rightarrow> (string, source_cursor) btree \<Rightarrow> string \<Rightarrow> bool" where
  "source_later before later source \<longleftrightarrow>
     (case (bt_lookup before source, bt_lookup later source) of
        (Some previous, Some current) \<Rightarrow> cu_event_time_ms previous < cu_event_time_ms current
      | _ \<Rightarrow> False)"

definition validate_progress ::
  "'d scalping_strategy \<Rightarrow> 'd feature_frame \<Rightarrow> (unit, scalping_error) outcome" where
  "validate_progress s frame =
     (case sg_last_frame_generation s of
        None \<Rightarrow> Ok ()
      | Some previous_generation \<Rightarrow>
      and_then (ok_or SC_FeatureProgress (sg_last_watermark_ms s)) (\<lambda>previous_watermark.
      let required = sx_required_sources (sg_params s);
          before = sg_cursors s; later = ff_cursors frame in
      if ff_generation frame < previous_generation
        \<or> (ff_generation frame = previous_generation \<and> ff_watermark_ms frame < previous_watermark)
      then Err SC_FeatureProgress
      else if ff_generation frame = previous_generation then
        (if (\<exists>source \<in> required. source_regressed before later source)
           \<or> \<not> (\<exists>source \<in> required. source_advanced before later source)
         then Err SC_FeatureProgress else Ok ())
      else if ff_watermark_ms frame \<le> previous_watermark
        \<or> (\<exists>source \<in> required. \<not> source_later before later source)
      then Err SC_FeatureProgress else Ok ()))"

definition record_frame :: "'d feature_frame \<Rightarrow> 'd scalping_strategy \<Rightarrow> 'd scalping_strategy" where
  "record_frame frame s = s\<lparr>sg_last_frame_generation := Some (ff_generation frame),
     sg_last_watermark_ms := Some (ff_watermark_ms frame), sg_cursors := ff_cursors frame\<rparr>"

text \<open>The symbol, the validity and the profile of a frame, which three operations check.\<close>

definition check_frame ::
  "'d decimal_api \<Rightarrow> 'd scalping_strategy \<Rightarrow> 'd feature_frame \<Rightarrow> (unit, scalping_error) outcome" where
  "check_frame D s frame =
     (if ff_symbol frame \<noteq> bd_symbol (sg_binding s) then Err SC_Symbol
      else
      and_then (map_err SC_Feature (frame_validate D frame (sx_required_sources (sg_params s))
          (sx_max_data_age_ms (sg_params s)))) (\<lambda>_.
      if bt_lookup (ff_feature_versions frame) ''_feature_profile'' \<noteq> Some (sx_feature_profile (sg_params s))
        \<or> bt_lookup (ff_feature_versions frame) ''_feature_profile_digest''
            \<noteq> Some (sx_feature_digest (sg_params s))
      then Err SC_FeatureProfile else Ok ()))"

definition validate_and_record_frame ::
  "'d decimal_api \<Rightarrow> 'd scalping_strategy \<Rightarrow> 'd feature_frame \<Rightarrow> u64
   \<Rightarrow> 'd scalping_strategy \<times> ('d scalping_decision option, scalping_error) outcome" where
  "validate_and_record_frame D s frame decision_at_ms =
     attempt s (check_frame D s frame) (\<lambda>_.
     if decision_at_ms < ff_watermark_ms frame
       \<or> sx_max_decision_latency_ms (sg_params s)
           < saturating_sub decision_at_ms (ff_watermark_ms frame)
     then (s, Ok (Some (Noop NoopDecisionExpired)))
     else attempt s (validate_progress s frame) (\<lambda>_. (record_frame frame s, Ok None)))"

end
