(* ===== verification/Scalping_Prepare.thy ===== *)
theory Scalping_Prepare
  imports Scalping_Engine
begin

text \<open>
  The candidates of a frame, \<open>crates/venue-strategies/src/scalping/engine.rs\<close>: the regime a
  frame shows, the trades each regime permits, their frozen intents and the preparation that
  waits for evidence.
\<close>

section \<open>Guards\<close>

definition unsafe_reason :: "safety_projection \<Rightarrow> blocking_reason option" where
  "unsafe_reason safety =
     (if \<not> sf_private_snapshot_ready safety then Some BlockPrivateSnapshot
      else if sf_exposure safety \<noteq> ExposureFlat then Some BlockExposureNotFlat
      else if sf_execution_unknown safety then Some BlockExecutionUnknown
      else if sf_protection safety \<noteq> ProtectionComplete then Some BlockProtectionGap
      else if sf_owner_conflict safety then Some BlockOwnerConflict
      else if \<not> sf_risk_budget_available safety then Some BlockRiskBudget
      else None)"

text \<open>The gate of the risk ledger, which is asked only when the ledger has been used.\<close>

definition risk_closed :: "'d decimal_api \<Rightarrow> 'd scalping_strategy \<Rightarrow> u64 \<Rightarrow> (bool, 'e) outcome" where
  "risk_closed D s watermark_ms =
     (if is_pristine (sg_risk s) then Ok False
      else and_then (risk_snapshot D (sg_risk s) watermark_ms) (\<lambda>view. Ok (rs_gate view \<noteq> GateOpen)))"

definition phase8_shock_reversal_enabled :: "'d scalping_strategy \<Rightarrow> bool" where
  "phase8_shock_reversal_enabled s \<longleftrightarrow>
     bd_parameter_release_id (sg_binding s) = PHASE8_ATR14_PARAMETER_RELEASE_ID"

section \<open>Regimes\<close>

definition classify_regime :: "'d decimal_api \<Rightarrow> 'd feature_frame \<Rightarrow> 'd scalping_params \<Rightarrow> market_regime" where
  "classify_regime D frame p =
     (let v = ff_values frame;
          expanding = dec_le D (sx_breakout_threshold p) (fv_bandwidth_expansion v);
          up = dec_le D (sx_trend_threshold p) (fv_trend_efficiency v);
          down = dec_le D (fv_trend_efficiency v) (dec_neg D (sx_trend_threshold p)) in
      if dec_le D (sx_shock_return_bps p) (dec_abs D (fv_short_return_bps v)) then RegimeShock
      else if expanding \<and> up then ExpansionUp
      else if expanding \<and> down then ExpansionDown
      else if up then TrendUp
      else if down then TrendDown
      else RegimeRange)"

definition observe_regime ::
  "'d decimal_api \<Rightarrow> 'd feature_frame \<Rightarrow> 'd scalping_strategy \<Rightarrow> 'd scalping_strategy \<times> market_regime" where
  "observe_regime D frame s =
     (let regime = classify_regime D frame (sg_params s) in
      (if sg_regime s \<noteq> Some regime
       then s\<lparr>sg_regime := Some regime, sg_regime_entered_at_ms := Some (ff_watermark_ms frame)\<rparr>
       else s, regime))"

text \<open>The confidence of a regime and of its runner-up, clamped to the unit interval.\<close>

definition regime_confidence ::
  "'d decimal_api \<Rightarrow> 'd feature_frame \<Rightarrow> market_regime \<Rightarrow> ('d, 'e) outcome" where
  "regime_confidence D frame regime =
     (let efficiency = dec_abs D (fv_trend_efficiency (ff_values frame)) in
      and_then (case regime of
          RegimeRange \<Rightarrow> sub_panic D (dec_one D) efficiency
        | RegimeShock \<Rightarrow> Ok (dec_zero D)
        | RegimeUnknown \<Rightarrow> Ok (dec_zero D)
        | _ \<Rightarrow> Ok efficiency)
        (\<lambda>confidence. Ok (dec_least D (dec_greatest D confidence (dec_zero D)) (dec_one D))))"

definition regime_is_admissible ::
  "'d decimal_api \<Rightarrow> 'd scalping_strategy \<Rightarrow> 'd feature_frame \<Rightarrow> market_regime \<Rightarrow> (bool, 'e) outcome" where
  "regime_is_admissible D s frame regime =
     (if regime = RegimeUnknown then Ok False
      else if regime = RegimeShock then Ok (phase8_shock_reversal_enabled s)
      else
      and_then (regime_confidence D frame regime) (\<lambda>confidence.
      and_then (sub_panic D (dec_one D) confidence) (\<lambda>runner_up_confidence.
      and_also (Ok (dec_le D (sx_regime_min_confidence (sg_params s)) confidence))
        (and_then (sub_panic D confidence runner_up_confidence) (\<lambda>margin.
           Ok (dec_le D (sx_regime_confidence_margin (sg_params s)) margin))))))"

text \<open>After a restore the regime has to hold for its dwell time once more.\<close>

definition start_rewarming :: "u64 \<Rightarrow> 'd scalping_strategy \<Rightarrow> 'd scalping_strategy" where
  "start_rewarming watermark_ms s =
     (if sg_recovery_rewarm_pending s
      then s\<lparr>sg_recovery_rewarm_until_ms :=
               Some (saturating_add watermark_ms (sx_regime_dwell_ms (sg_params s))),
             sg_recovery_rewarm_pending := False\<rparr>
      else s)"

definition recovery_rewarming :: "u64 \<Rightarrow> 'd scalping_strategy \<Rightarrow> 'd scalping_strategy \<times> bool" where
  "recovery_rewarming watermark_ms s =
     (let s = start_rewarming watermark_ms s in
      if holds_for (sg_recovery_rewarm_until_ms s) (\<lambda>deadline. watermark_ms < deadline) then (s, True)
      else (s\<lparr>sg_recovery_rewarm_until_ms := None\<rparr>, False))"

section \<open>Candidates\<close>

type_synonym candidate_plan = "trade_direction \<times> expert \<times> entry_style \<times> exit_template"

text \<open>The iterator of a set of entry styles goes in the order of the variants.\<close>

definition entry_styles :: "'d scalping_params \<Rightarrow> entry_style list" where
  "entry_styles p = filter (\<lambda>style. style \<in> sx_enabled_entry_styles p) [PassiveMaker, MarketableLimit]"

definition dwell_complete :: "'d scalping_strategy \<Rightarrow> 'd feature_frame \<Rightarrow> market_regime \<Rightarrow> bool" where
  "dwell_complete s frame regime \<longleftrightarrow>
     regime = RegimeRange
     \<or> holds_for (sg_regime_entered_at_ms s) (\<lambda>entered.
          sx_regime_dwell_ms (sg_params s) \<le> saturating_sub (ff_watermark_ms frame) entered)"

text \<open>The side on which a deviation is faded; in a shock the price must already be returning.\<close>

definition fade_direction ::
  "'d decimal_api \<Rightarrow> 'd scalping_params \<Rightarrow> 'd feature_values \<Rightarrow> bool \<Rightarrow> 'd \<Rightarrow> trade_direction option" where
  "fade_direction D p v returning deviation_bps =
     (if dec_le D deviation_bps (dec_neg D (sx_min_deviation_bps p))
        \<and> (returning \<longrightarrow> dec_positive D (fv_short_return_bps v))
        \<and> dec_positive D (fv_book_imbalance v) \<and> dec_positive D (fv_trade_imbalance v)
      then Some DirectionLong
      else if dec_le D (sx_min_deviation_bps p) deviation_bps
        \<and> (returning \<longrightarrow> dec_negative D (fv_short_return_bps v))
        \<and> dec_negative D (fv_book_imbalance v) \<and> dec_negative D (fv_trade_imbalance v)
      then Some DirectionShort
      else None)"

definition fade_candidates ::
  "'d decimal_api \<Rightarrow> 'd scalping_params \<Rightarrow> 'd feature_values \<Rightarrow> bool \<Rightarrow> 'd \<Rightarrow> candidate_plan list" where
  "fade_candidates D p v returning deviation_bps =
     (if RangeFade \<in> sx_enabled_experts p \<and> PassiveMaker \<in> sx_enabled_entry_styles p
      then (case fade_direction D p v returning deviation_bps of
              None \<Rightarrow> []
            | Some direction \<Rightarrow> [(direction, RangeFade, PassiveMaker, FairValue)])
      else [])"

definition pullback_candidates ::
  "'d decimal_api \<Rightarrow> 'd scalping_params \<Rightarrow> 'd feature_values \<Rightarrow> market_regime \<Rightarrow> candidate_plan list" where
  "pullback_candidates D p v regime =
     (if TrendPullback \<in> sx_enabled_experts p then
        (if regime = TrendUp \<and> dec_negative D (fv_short_return_bps v)
         then map (\<lambda>style. (DirectionLong, TrendPullback, style, TrendTrail)) (entry_styles p)
         else if regime = TrendDown \<and> dec_positive D (fv_short_return_bps v)
         then map (\<lambda>style. (DirectionShort, TrendPullback, style, TrendTrail)) (entry_styles p)
         else [])
      else [])"

primrec breakout_side :: "breakout_direction \<Rightarrow> trade_direction" where
  "breakout_side BreakoutLong = DirectionLong"
| "breakout_side BreakoutShort = DirectionShort"

definition breakout_candidates ::
  "'d scalping_params \<Rightarrow> 'd feature_frame \<Rightarrow> trade_direction \<Rightarrow> candidate_plan list" where
  "breakout_candidates p frame direction =
     (if BreakoutContinuation \<in> sx_enabled_experts p \<and> MarketableLimit \<in> sx_enabled_entry_styles p
        \<and> holds_for (ff_breakout frame) (\<lambda>b. breakout_side (bo_direction b) = direction)
      then [(direction, BreakoutContinuation, MarketableLimit, BreakoutExit)] else [])"

definition select_candidates ::
  "'d decimal_api \<Rightarrow> 'd scalping_strategy \<Rightarrow> 'd feature_frame \<Rightarrow> 'd \<Rightarrow> market_regime \<Rightarrow> candidate_plan list" where
  "select_candidates D s frame deviation_bps regime =
     (let p = sg_params s; v = ff_values frame in
      if regime = RegimeUnknown \<or> (regime = RegimeShock \<and> \<not> phase8_shock_reversal_enabled s) then []
      else if \<not> dwell_complete s frame regime then []
      else
      case regime of
        RegimeShock \<Rightarrow> fade_candidates D p v True deviation_bps
      | RegimeRange \<Rightarrow> fade_candidates D p v False deviation_bps
      | TrendUp \<Rightarrow> pullback_candidates D p v TrendUp
      | TrendDown \<Rightarrow> pullback_candidates D p v TrendDown
      | ExpansionUp \<Rightarrow> breakout_candidates p frame DirectionLong
      | ExpansionDown \<Rightarrow> breakout_candidates p frame DirectionShort
      | RegimeUnknown \<Rightarrow> [])"

section \<open>Intents\<close>

text \<open>The texts \<open>format!\<close> prints for the variants.\<close>

primrec expert_text :: "expert \<Rightarrow> string" where
  "expert_text RangeFade = ''RangeFade''"
| "expert_text TrendPullback = ''TrendPullback''"
| "expert_text BreakoutContinuation = ''BreakoutContinuation''"

primrec style_text :: "entry_style \<Rightarrow> string" where
  "style_text PassiveMaker = ''PassiveMaker''"
| "style_text MarketableLimit = ''MarketableLimit''"

primrec direction_text :: "trade_direction \<Rightarrow> string" where
  "direction_text DirectionLong = ''Long''"
| "direction_text DirectionShort = ''Short''"

primrec direction_tag :: "trade_direction \<Rightarrow> string" where
  "direction_tag DirectionLong = ''long''"
| "direction_tag DirectionShort = ''short''"

fun cursor_fields :: "bool \<Rightarrow> string \<times> source_cursor \<Rightarrow> u8 list list" where
  "cursor_fields timed (source, cursor) =
     [utf8_bytes source, u64_be_bytes (cu_generation cursor), u64_be_bytes (cu_sequence cursor)]
     @ (if timed then [u64_be_bytes (cu_event_time_ms cursor)] else [])"

definition frame_fields :: "bool \<Rightarrow> 'd feature_frame \<Rightarrow> u8 list list" where
  "frame_fields timed frame =
     [u64_be_bytes (ff_generation frame), u64_be_bytes (ff_watermark_ms frame)]
     @ concat (map (cursor_fields timed) (ff_cursors frame))"

definition digest_text :: "'d externals \<Rightarrow> u8 list list \<Rightarrow> string" where
  "digest_text X parts = hex_text (xt_sha256 X (concat (map framed parts)))"

definition intent_seed ::
  "'d externals \<Rightarrow> string \<Rightarrow> string \<Rightarrow> 'd feature_frame \<Rightarrow> trade_direction \<Rightarrow> expert \<Rightarrow> entry_style
   \<Rightarrow> string \<Rightarrow> string" where
  "intent_seed X binding_text params_text frame direction kind style opportunity_key =
     digest_text X (map utf8_bytes [binding_text, params_text, direction_tag direction,
         expert_text kind, style_text style, opportunity_key] @ frame_fields True frame)"

definition preparation_seed :: "'d externals \<Rightarrow> string \<Rightarrow> string \<Rightarrow> 'd feature_frame \<Rightarrow> string" where
  "preparation_seed X binding_text params_text frame =
     ''scalping-preparation-''
     @ digest_text X (map utf8_bytes [binding_text, params_text] @ frame_fields False frame)"

definition breakout_key :: "'d externals \<Rightarrow> breakout_opportunity \<Rightarrow> trade_direction \<Rightarrow> string" where
  "breakout_key X b direction = xt_lowercase X
     (''breakout:g'' @ decimal_text (unat (bo_generation b))
      @ '':b'' @ decimal_text (unat (bo_boundary_sequence b)) @ '':'' @ bo_boundary_id b
      @ '':c'' @ decimal_text (unat (bo_compression_cycle_sequence b)) @ '':'' @ bo_compression_cycle_id b
      @ '':'' @ direction_text direction)"

definition opportunity_identity ::
  "'d externals \<Rightarrow> 'd feature_frame \<Rightarrow> trade_direction \<Rightarrow> expert \<Rightarrow> entry_style
   \<Rightarrow> (string \<times> breakout_cursor option, scalping_error) outcome" where
  "opportunity_identity X frame direction kind style =
     (if kind \<noteq> BreakoutContinuation
      then Ok (xt_lowercase X (decimal_text (unat (ff_watermark_ms frame)) @ '':'' @ expert_text kind
             @ '':'' @ direction_text direction @ '':'' @ style_text style), None)
      else
      and_then (ok_or SC_Evidence (ff_breakout frame)) (\<lambda>b.
      if breakout_side (bo_direction b) \<noteq> direction then Err SC_Evidence
      else Ok (breakout_key X b direction,
        Some \<lparr>bc_feature_generation = bo_generation b, bc_boundary_sequence = bo_boundary_sequence b,
          bc_compression_cycle_sequence = bo_compression_cycle_sequence b\<rparr>)))"

definition target_quote :: "'d decimal_api \<Rightarrow> 'd scalping_strategy \<Rightarrow> 'd amount" where
  "target_quote D s =
     (if dec_le D (am_value (sx_quote_cap (sg_params s))) (am_value (bd_risk_budget (sg_binding s)))
      then sx_quote_cap (sg_params s) else bd_risk_budget (sg_binding s))"

primrec attempt_cap_of :: "'d scalping_params \<Rightarrow> expert \<Rightarrow> u32" where
  "attempt_cap_of p RangeFade = min (sx_max_order_attempts p) 2"
| "attempt_cap_of p TrendPullback = sx_max_order_attempts p"
| "attempt_cap_of p BreakoutContinuation = 1"

definition strategy_intent ::
  "'d decimal_api \<Rightarrow> 'd externals \<Rightarrow> 'd scalping_strategy \<Rightarrow> 'd feature_frame \<Rightarrow> 'd \<Rightarrow> candidate_plan
   \<Rightarrow> ('d semantic_intent, scalping_error) outcome" where
  "strategy_intent D X s frame deviation_bps = (\<lambda>(direction, kind, style, exit_kind).
     let p = sg_params s; v = ff_values frame in
     and_then (opportunity_identity X frame direction kind style) (\<lambda>(opportunity_key, cursor).
     let seed = intent_seed X (sg_binding_digest s) (sg_params_digest s) frame direction kind style
           opportunity_key in
     and_then (distances_bps D (sx_exit_distance_policy p) (fv_expected_move_bps v))
       (\<lambda>(hard_stop_distance_bps, target_distance_bps).
     Ok \<lparr>it_intent_id = ''scalping-'' @ seed, it_symbol = bd_symbol (sg_binding s),
       it_direction = direction, it_purpose = SemanticEntry, it_expert = kind,
       it_entry_style = style, it_exit_template = exit_kind, it_attempt_cap = attempt_cap_of p kind,
       it_max_reprices = (if style = PassiveMaker then sx_max_reprices p else 0),
       it_risk_plan = plan_of_params p, it_target_quote = target_quote D s,
       it_reference_price = (if phase8_shock_reversal_enabled s then fv_fair_price v else fv_mid_price v),
       it_max_slippage_bps = sx_max_entry_slippage_bps p,
       it_valid_until_ms = saturating_add (ff_watermark_ms frame) (sx_candidate_ttl_ms p),
       it_entry_ttl_ms = sx_entry_ttl_ms p, it_hard_stop_distance_bps = hard_stop_distance_bps,
       it_target_distance_bps = target_distance_bps, it_max_hold_ms = sx_max_hold_ms p,
       it_max_unprotected_ms = sx_max_unprotected_ms p, it_requires_server_protection = True,
       it_opportunity_key = opportunity_key, it_breakout_cursor = cursor,
       it_idempotency_seed = seed @ '':'' @ xt_decimal_text X deviation_bps\<rparr>)))"

end
