(* ===== verification/Scalping_Decision.thy ===== *)
theory Scalping_Decision
  imports Scalping_Prepare
begin

text \<open>
  The decisions of the scalping strategy, \<open>crates/venue-strategies/src/scalping/engine.rs\<close>: the
  preparation of candidates for a frame, the admission of one of them, and the life of its entry
  until it is open, rejected or out of attempts.
\<close>

section \<open>Preparation\<close>

definition set_state :: "'d scalping_state \<Rightarrow> 'd scalping_strategy \<Rightarrow> 'd scalping_strategy" where
  "set_state state s = s\<lparr>sg_state := state\<rparr>"

text \<open>A decision to do nothing, in the state it leaves.\<close>

definition noop ::
  "noop_reason \<Rightarrow> 'd scalping_strategy \<Rightarrow> 'd scalping_strategy \<times> ('d scalping_decision, scalping_error) outcome"
  where "noop reason s = (s, Ok (Noop reason))"

definition preparation_of ::
  "'d externals \<Rightarrow> 'd scalping_strategy \<Rightarrow> 'd feature_frame \<Rightarrow> 'd semantic_intent list \<Rightarrow> market_regime
   \<Rightarrow> u64 \<Rightarrow> 'd candidate_preparation" where
  "preparation_of X s frame intents regime valid_until_ms =
     \<lparr>cp_preparation_id = preparation_seed X (sg_binding_digest s) (sg_params_digest s) frame,
      cp_binding_digest = sg_binding_digest s, cp_controller_revision = sg_controller_revision s,
      cp_authority_generation = sg_authority_generation s, cp_market_regime = regime,
      cp_frame_generation = ff_generation frame, cp_watermark_ms = ff_watermark_ms frame,
      cp_valid_until_ms = valid_until_ms, cp_candidates = intents\<rparr>"

definition frame_deviation :: "'d decimal_api \<Rightarrow> 'd feature_values \<Rightarrow> ('d, 'e) outcome" where
  "frame_deviation D v =
     (let fair = price_value (fv_fair_price v) in
      and_then (sub_panic D (price_value (fv_mid_price v)) fair) (\<lambda>gap.
      and_then (or_panic (dec_div D gap fair)) (\<lambda>ratio.
      mul_panic D ratio (dec_new D 10000 0))))"

definition untradable :: "'d decimal_api \<Rightarrow> 'd scalping_params \<Rightarrow> 'd feature_values \<Rightarrow> bool" where
  "untradable D p v \<longleftrightarrow>
     dec_less D (sx_max_spread_bps p) (fv_spread_bps v)
     \<or> dec_less D (fv_depth_quote v) (sx_min_depth_quote p)
     \<or> dec_less D (sx_max_toxicity p) (fv_toxicity v)"

definition prepare_candidates ::
  "'d decimal_api \<Rightarrow> 'd externals \<Rightarrow> 'd feature_frame \<Rightarrow> market_regime \<Rightarrow> 'd scalping_strategy
   \<Rightarrow> 'd scalping_strategy \<times> ('d scalping_decision, scalping_error) outcome" where
  "prepare_candidates D X frame regime s =
     (if untradable D (sg_params s) (ff_values frame) then noop NoopNoSignal (set_state ScReady s)
      else
      attempt s (frame_deviation D (ff_values frame)) (\<lambda>deviation_bps.
      let plans = select_candidates D s frame deviation_bps regime in
      if plans = [] then noop NoopNoSignal (set_state ScReady s)
      else
      attempt s (try_map (strategy_intent D X s frame deviation_bps) plans) (\<lambda>intents.
      attempt s (ok_or SC_Evidence (sg_regime s)) (\<lambda>market_regime.
      attempt s (ok_or SC_Evidence (min_by_key id (map it_valid_until_ms intents))) (\<lambda>valid_until_ms.
      let preparation = preparation_of X s frame intents market_regime valid_until_ms in
      (set_state (ScCandidatePending preparation) s, Ok (Prepared preparation)))))))"

text \<open>The cooldown, and the episode that ends with it.\<close>

definition prepare_cooled ::
  "'d decimal_api \<Rightarrow> 'd externals \<Rightarrow> 'd feature_frame \<Rightarrow> market_regime \<Rightarrow> 'd scalping_strategy
   \<Rightarrow> 'd scalping_strategy \<times> ('d scalping_decision, scalping_error) outcome" where
  "prepare_cooled D X frame regime s =
     (case sg_state s of
        ScCooldown until_ms \<Rightarrow>
          if ff_watermark_ms frame < until_ms then noop NoopCooldown s
          else prepare_candidates D X frame regime (s\<lparr>sg_episode := None, sg_state := ScReady\<rparr>)
      | _ \<Rightarrow> prepare_candidates D X frame regime s)"

definition prepare_rested ::
  "'d decimal_api \<Rightarrow> 'd externals \<Rightarrow> 'd feature_frame \<Rightarrow> market_regime \<Rightarrow> 'd scalping_strategy
   \<Rightarrow> 'd scalping_strategy \<times> ('d scalping_decision, scalping_error) outcome" where
  "prepare_rested D X frame regime s =
     (case sg_state s of
        ScCandidatePending preparation \<Rightarrow>
          if ff_watermark_ms frame < cp_valid_until_ms preparation then noop NoopCandidatePending s
          else prepare_cooled D X frame regime (cool_down (ff_watermark_ms frame) s)
      | ScReserved intent \<Rightarrow> noop NoopCandidatePending s
      | _ \<Rightarrow> prepare_cooled D X frame regime s)"

definition prepare_in_regime ::
  "'d decimal_api \<Rightarrow> 'd externals \<Rightarrow> 'd feature_frame \<Rightarrow> 'd scalping_strategy
   \<Rightarrow> 'd scalping_strategy \<times> ('d scalping_decision, scalping_error) outcome" where
  "prepare_in_regime D X frame s =
     (case observe_regime D frame s of (s, regime) \<Rightarrow>
      attempt s (regime_is_admissible D s frame regime) (\<lambda>admissible.
      if \<not> admissible then noop NoopRegimeAmbiguous (set_state ScReady s)
      else
      case recovery_rewarming (ff_watermark_ms frame) s of (s, rewarming) \<Rightarrow>
      if rewarming then noop NoopRecoveryWarmup (set_state ScBootstrapping s)
      else prepare_rested D X frame regime s))"

definition release_stopped :: "'d scalping_strategy \<Rightarrow> 'd scalping_strategy" where
  "release_stopped s =
     (if holds_for (sg_episode s) (\<lambda>e. ep_state e = EpStoppedFlat)
      then s\<lparr>sg_episode := None, sg_state := ScReady\<rparr> else s)"

definition prepare_after_lifecycle ::
  "'d decimal_api \<Rightarrow> 'd externals \<Rightarrow> 'd feature_frame \<Rightarrow> safety_projection \<Rightarrow> 'd scalping_strategy
   \<Rightarrow> 'd scalping_strategy \<times> ('d scalping_decision, scalping_error) outcome" where
  "prepare_after_lifecycle D X frame safety s =
     (let s = release_stopped s in
      if holds_for (sg_episode s) (\<lambda>e. ep_state e \<noteq> EpCooldown) then noop NoopActiveEpisode s
      else
      case unsafe_reason safety of
        Some reason \<Rightarrow> block_for reason s
      | None \<Rightarrow>
      attempt s (risk_closed D s (ff_watermark_ms frame)) (\<lambda>closed_gate.
      if closed_gate then block_for BlockStrategyRisk s else prepare_in_regime D X frame s))"

section \<open>Evaluation\<close>

definition stale_authority :: "'d scalping_strategy \<Rightarrow> u64 \<Rightarrow> u64 \<Rightarrow> bool" where
  "stale_authority s revision generation \<longleftrightarrow>
     revision < sg_controller_revision s \<or> generation < sg_authority_generation s
     \<or> sg_requires_fresh_authorization s \<and> generation \<le> sg_authority_generation s"

definition authorize :: "u64 \<Rightarrow> u64 \<Rightarrow> 'd scalping_strategy \<Rightarrow> 'd scalping_strategy" where
  "authorize revision generation s = s\<lparr>sg_controller_revision := revision,
     sg_authority_generation := generation, sg_requires_fresh_authorization := False\<rparr>"

definition evaluate_frame_at ::
  "'d decimal_api \<Rightarrow> 'd externals \<Rightarrow> 'd scalping_strategy \<Rightarrow> 'd feature_frame \<Rightarrow> safety_projection
   \<Rightarrow> 'd lifecycle_authorization \<Rightarrow> u64
   \<Rightarrow> 'd scalping_strategy \<times> ('d scalping_decision, scalping_error) outcome" where
  "evaluate_frame_at D X s frame safety authorization decision_at_ms =
     chain (validate_and_record_frame D s frame decision_at_ms) (\<lambda>s early.
     case early of
       Some decision \<Rightarrow> (s, Ok decision)
     | None \<Rightarrow>
         if \<not> la_is_allowed authorization then block_for BlockControlStopped s
         else if \<not> la_matches_at authorization (sg_binding s) decision_at_ms
         then (s, Err SC_Authorization)
         else if stale_authority s (la_revision authorization) (la_authority_generation authorization)
         then block_for BlockRecoveryAuthorization s
         else prepare_after_lifecycle D X frame safety
                (authorize (la_revision authorization) (la_authority_generation authorization) s))"

definition evaluate_frame ::
  "'d decimal_api \<Rightarrow> 'd externals \<Rightarrow> 'd scalping_strategy \<Rightarrow> 'd feature_frame \<Rightarrow> safety_projection
   \<Rightarrow> 'd lifecycle_authorization
   \<Rightarrow> 'd scalping_strategy \<times> ('d scalping_decision, scalping_error) outcome" where
  "evaluate_frame D X s frame safety authorization =
     evaluate_frame_at D X s frame safety authorization (ff_watermark_ms frame)"

definition prepare_from_lifecycle ::
  "'d decimal_api \<Rightarrow> 'd externals \<Rightarrow> 'd scalping_strategy \<Rightarrow> 'd feature_frame \<Rightarrow> safety_projection
   \<Rightarrow> u64 \<Rightarrow> u64 \<Rightarrow> u64
   \<Rightarrow> 'd scalping_strategy \<times> ('d scalping_decision, scalping_error) outcome" where
  "prepare_from_lifecycle D X s frame safety controller_revision authority_generation decision_at_ms =
     (if controller_revision = 0 \<or> authority_generation = 0
        \<or> stale_authority s controller_revision authority_generation
      then block_for BlockRecoveryAuthorization s
      else
      chain (validate_and_record_frame D s frame decision_at_ms) (\<lambda>s early.
      case early of
        Some decision \<Rightarrow> (s, Ok decision)
      | None \<Rightarrow> prepare_after_lifecycle D X frame safety
          (authorize controller_revision authority_generation s)))"

section \<open>Admission\<close>

text \<open>An eligible candidate with the value of its evidence.\<close>

type_synonym 'd weighed_candidate = "'d \<times> 'd semantic_intent \<times> 'd candidate_evidence"

definition evidence_unbound ::
  "'d scalping_strategy \<Rightarrow> 'd candidate_preparation \<Rightarrow> 'd candidate_evidence \<Rightarrow> bool" where
  "evidence_unbound s preparation item \<longleftrightarrow>
     ev_preparation_id item \<noteq> cp_preparation_id preparation
     \<or> ev_binding_digest item \<noteq> cp_binding_digest preparation
     \<or> ev_frame_generation item \<noteq> cp_frame_generation preparation
     \<or> ev_watermark_ms item \<noteq> cp_watermark_ms preparation
     \<or> ev_valid_until_ms item < cp_watermark_ms preparation
     \<or> ev_calibration_model_version item \<noteq> sx_calibration_model_version (sg_params s)
     \<or> ev_calibration_digest item \<noteq> sx_calibration_model_digest (sg_params s)
     \<or> \<not> digest_is_valid (ev_calibration_digest item) \<or> \<not> digest_is_valid (ev_cost_digest item)
     \<or> \<not> digest_is_valid (ev_risk_digest item)"

definition weigh_evidence ::
  "'d decimal_api \<Rightarrow> 'd scalping_strategy \<Rightarrow> 'd candidate_preparation \<Rightarrow> u64
   \<Rightarrow> string set \<times> 'd weighed_candidate list \<Rightarrow> 'd candidate_evidence
   \<Rightarrow> (string set \<times> 'd weighed_candidate list, scalping_error) outcome" where
  "weigh_evidence D s preparation observed_at_ms = (\<lambda>(seen, eligible) item.
     if ev_candidate_id item \<in> seen \<or> evidence_unbound s preparation item then Err SC_Evidence
     else
     let seen = insert (ev_candidate_id item) seen in
     case find (\<lambda>candidate. it_intent_id candidate = ev_candidate_id item) (cp_candidates preparation) of
       None \<Rightarrow> Err SC_Evidence
     | Some candidate \<Rightarrow>
         if \<not> admits_worst_loss D (it_risk_plan candidate) (ev_worst_loss item) then Err SC_Evidence
         else if ev_admissible item \<and> observed_at_ms \<le> ev_valid_until_ms item
         then and_then (robust_value D item (sx_uncertainty_multiplier (sg_params s))) (\<lambda>value.
                Ok (seen, if dec_le D (sx_min_net_ev_bps (sg_params s)) value
                          then eligible @ [(value, candidate, item)] else eligible))
         else Ok (seen, eligible))"

text \<open>The best value first, then the smaller uncertainty, the expert and the opportunity.\<close>

definition eligible_rank ::
  "'d decimal_api \<Rightarrow> 'd weighed_candidate \<Rightarrow> rat \<times> rat \<times> expert \<times> string" where
  "eligible_rank D = (\<lambda>(value, candidate, item).
     (- dec_value D value, dec_value D (ev_uncertainty_bps item), it_expert candidate,
      it_opportunity_key candidate))"

primrec conflicts ::
  "'d decimal_api \<Rightarrow> 'd \<Rightarrow> trade_direction \<Rightarrow> 'd \<Rightarrow> 'd weighed_candidate list \<Rightarrow> (bool, 'e) outcome" where
  "conflicts D margin direction best [] = Ok False"
| "conflicts D margin direction best (other # others) =
     or_else (and_also (Ok (it_direction (fst (snd other)) \<noteq> direction))
         (and_then (sub_panic D best (fst other)) (\<lambda>gap. Ok (dec_less D gap margin))))
       (conflicts D margin direction best others)"

text \<open>The memory decides last; a new opportunity is reserved in an episode of its own.\<close>

definition reserve_candidate ::
  "'d scalping_strategy \<Rightarrow> 'd candidate_preparation \<Rightarrow> 'd semantic_intent \<Rightarrow> 'd candidate_evidence option
   \<Rightarrow> u64 \<Rightarrow> 'd scalping_strategy \<times> ('d scalping_decision, scalping_error) outcome" where
  "reserve_candidate s preparation candidate evidence observed_at_ms =
     (case check_and_record (sg_candidate_memory s) candidate (cp_watermark_ms preparation) of
        (memory, result) \<Rightarrow>
      let s = s\<lparr>sg_candidate_memory := memory\<rparr> in
      case result of
        Err MemoryDuplicate \<Rightarrow> noop NoopDuplicateOpportunity (set_state ScReady s)
      | Err MemoryCapacity \<Rightarrow> noop NoopCandidateMemoryFull (set_state ScReady s)
      | Panic \<Rightarrow> (s, Panic)
      | Ok _ \<Rightarrow>
          (set_state (ScReserved candidate)
             (put_episode (episode_reserve candidate evidence observed_at_ms) s), Ok (Intent candidate)))"

definition admit_evidence ::
  "'d decimal_api \<Rightarrow> 'd scalping_strategy \<Rightarrow> 'd candidate_evidence list \<Rightarrow> u64
   \<Rightarrow> 'd scalping_strategy \<times> ('d scalping_decision, scalping_error) outcome" where
  "admit_evidence D s evidence observed_at_ms =
     (case sg_state s of
        ScCandidatePending preparation \<Rightarrow>
          if cp_valid_until_ms preparation < observed_at_ms
          then noop NoopEvidenceUnavailable (cool_down observed_at_ms s)
          else
          attempt s (try_fold (weigh_evidence D s preparation observed_at_ms) ({}, []) evidence)
            (\<lambda>(seen, eligible).
          case sort_key (eligible_rank D) eligible of
            [] \<Rightarrow> noop NoopEvidenceUnavailable (set_state ScReady s)
          | (best, candidate, winner) # others \<Rightarrow>
              attempt s (conflicts D (sx_conflict_margin_bps (sg_params s)) (it_direction candidate)
                  best others) (\<lambda>ambiguous.
              if ambiguous then noop NoopEvidenceUnavailable (set_state ScReady s)
              else reserve_candidate s preparation candidate (Some winner) observed_at_ms))
      | _ \<Rightarrow> noop NoopEvidenceUnavailable s)"

definition direct_rank :: "'d semantic_intent \<Rightarrow> expert \<times> string \<times> string" where
  "direct_rank candidate = (it_expert candidate, it_opportunity_key candidate, it_intent_id candidate)"

definition admit_direct ::
  "'d scalping_strategy \<Rightarrow> u64 \<Rightarrow> 'd scalping_strategy \<times> ('d scalping_decision, scalping_error) outcome" where
  "admit_direct s observed_at_ms =
     (case sg_state s of
        ScCandidatePending preparation \<Rightarrow>
          if cp_valid_until_ms preparation < observed_at_ms
          then noop NoopDecisionExpired (cool_down observed_at_ms s)
          else
          (case sort_key direct_rank (cp_candidates preparation) of
             [] \<Rightarrow> noop NoopNoSignal (set_state ScReady s)
           | candidate # others \<Rightarrow>
               if list_ex (\<lambda>other. it_direction other \<noteq> it_direction candidate) others
               then noop NoopRegimeAmbiguous (set_state ScReady s)
               else reserve_candidate s preparation candidate None observed_at_ms)
      | _ \<Rightarrow> noop NoopEvidenceUnavailable s)"

definition validate_admission_context ::
  "'d decimal_api \<Rightarrow> 'd scalping_strategy \<Rightarrow> 'd feature_frame \<Rightarrow> 'd lifecycle_authorization
   \<Rightarrow> (unit, scalping_error) outcome" where
  "validate_admission_context D s frame authorization =
     and_then (check_frame D s frame) (\<lambda>_.
     and_then (validate_progress s frame) (\<lambda>_.
     if \<not> la_matches_at authorization (sg_binding s) (ff_watermark_ms frame)
       \<or> stale_authority s (la_revision authorization) (la_authority_generation authorization)
     then Err SC_Authorization else Ok ()))"

end
