(* ===== verification/Scalping_Entry.thy ===== *)
theory Scalping_Entry
  imports Scalping_Decision
begin

text \<open>
  The life of a reserved entry, \<open>crates/venue-strategies/src/scalping/engine.rs\<close>: it is
  acknowledged in shadow, confirmed as a live position, rejected, repriced on fresh costs, or
  retried until its attempts are used up.
\<close>

section \<open>Outcomes\<close>

definition reserved_intent :: "'d scalping_strategy \<Rightarrow> 'd semantic_intent option" where
  "reserved_intent s = (case sg_state s of ScReserved intent \<Rightarrow> Some intent | _ \<Rightarrow> None)"

text \<open>An outcome of another reservation, or from before the last frame.\<close>

definition outcome_stale :: "'d scalping_strategy \<Rightarrow> string \<Rightarrow> u64 \<Rightarrow> bool" where
  "outcome_stale s intent_id observed_at_ms \<longleftrightarrow>
     (case reserved_intent s of
        None \<Rightarrow> True
      | Some intent \<Rightarrow> it_intent_id intent \<noteq> intent_id
          \<or> observed_at_ms < (case sg_last_watermark_ms s of None \<Rightarrow> 0 | Some t \<Rightarrow> t))"

text \<open>An episode that ends in the cooldown.\<close>

definition end_entry :: "'d episode \<Rightarrow> u64 \<Rightarrow> 'd scalping_strategy \<Rightarrow> 'd scalping_strategy" where
  "end_entry e observed_at_ms s =
     cool_down observed_at_ms (put_episode
       (e\<lparr>ep_state := EpCooldown, ep_retry_not_before_ms := None, ep_last_observed_at_ms := observed_at_ms\<rparr>) s)"

definition acknowledge_shadow_intent ::
  "'d scalping_strategy \<Rightarrow> string \<Rightarrow> u64 \<Rightarrow> 'd scalping_strategy \<times> (unit, scalping_error) outcome" where
  "acknowledge_shadow_intent s intent_id observed_at_ms =
     (if outcome_stale s intent_id observed_at_ms then (s, Err SC_ShadowOutcome)
      else
      case sg_episode s of
        None \<Rightarrow> (s, Err SC_Episode)
      | Some e \<Rightarrow>
          if ep_episode_id e \<noteq> intent_id \<or> observed_at_ms < ep_last_observed_at_ms e
          then (s, Err SC_ShadowOutcome)
          else (end_entry e observed_at_ms s, Ok ()))"

definition confirm_live_entry ::
  "'d scalping_strategy \<Rightarrow> string \<Rightarrow> u64 \<Rightarrow> 'd scalping_strategy \<times> (unit, scalping_error) outcome" where
  "confirm_live_entry s intent_id observed_at_ms =
     (if holds_for (sg_episode s) (\<lambda>e. ep_episode_id e = intent_id \<and> ep_state e = EpOpen) then (s, Ok ())
      else if outcome_stale s intent_id observed_at_ms then (s, Err SC_ShadowOutcome)
      else
      case sg_episode s of
        None \<Rightarrow> (s, Err SC_Episode)
      | Some e \<Rightarrow>
          if ep_episode_id e \<noteq> intent_id \<or> ep_state e \<noteq> EpReserved
            \<or> observed_at_ms < ep_last_observed_at_ms e
          then (s, Err SC_ShadowOutcome)
          else (put_episode (e\<lparr>ep_opened_at_ms := Some observed_at_ms, ep_state := EpOpen,
                  ep_last_observed_at_ms := observed_at_ms\<rparr>) s, Ok ()))"

definition cooling_down :: "'d scalping_strategy \<Rightarrow> bool" where
  "cooling_down s \<longleftrightarrow> (case sg_state s of ScCooldown _ \<Rightarrow> True | _ \<Rightarrow> False)"

definition reject_reserved_entry ::
  "'d scalping_strategy \<Rightarrow> string \<Rightarrow> u64 \<Rightarrow> 'd scalping_strategy \<times> (unit, scalping_error) outcome" where
  "reject_reserved_entry s intent_id observed_at_ms =
     (case sg_episode s of
        None \<Rightarrow> (s, Err SC_Episode)
      | Some e \<Rightarrow>
          if ep_episode_id e = intent_id \<and> ep_state e = EpCooldown \<and> cooling_down s then (s, Ok ())
          else if ep_state e \<notin> {EpReserved, EpEntryRetryWait} \<or> ep_episode_id e \<noteq> intent_id
            \<or> observed_at_ms < ep_last_observed_at_ms e
          then (s, Err SC_Episode)
          else (end_entry e observed_at_ms s, Ok ()))"

section \<open>Reprices\<close>

definition slice_eq :: "'d decimal_api \<Rightarrow> 'd fill_slice \<Rightarrow> 'd fill_slice \<Rightarrow> bool" where
  "slice_eq D a b \<longleftrightarrow>
     dec_eq D (fs_fill_ratio a) (fs_fill_ratio b) \<and> dec_eq D (fs_probability a) (fs_probability b)"

definition outcomes_eq :: "'d decimal_api \<Rightarrow> 'd outcome_probabilities \<Rightarrow> 'd outcome_probabilities \<Rightarrow> bool" where
  "outcomes_eq D a b \<longleftrightarrow>
     dec_eq D (op_target a) (op_target b) \<and> dec_eq D (op_stop a) (op_stop b)
     \<and> dec_eq D (op_other a) (op_other b)"

definition same_frozen_evidence_identity ::
  "'d decimal_api \<Rightarrow> 'd candidate_evidence \<Rightarrow> 'd candidate_evidence \<Rightarrow> bool" where
  "same_frozen_evidence_identity D frozen fresh \<longleftrightarrow>
     ev_candidate_id fresh = ev_candidate_id frozen \<and> ev_preparation_id fresh = ev_preparation_id frozen
     \<and> ev_binding_digest fresh = ev_binding_digest frozen
     \<and> ev_frame_generation fresh = ev_frame_generation frozen
     \<and> ev_watermark_ms fresh = ev_watermark_ms frozen
     \<and> ev_calibration_model_version fresh = ev_calibration_model_version frozen
     \<and> ev_calibration_digest fresh = ev_calibration_digest frozen
     \<and> ev_risk_digest fresh = ev_risk_digest frozen
     \<and> dec_eq D (ev_fill_probability fresh) (ev_fill_probability frozen)
     \<and> list_all2 (slice_eq D) (ev_fill_distribution fresh) (ev_fill_distribution frozen)
     \<and> outcomes_eq D (ev_outcomes fresh) (ev_outcomes frozen)
     \<and> dec_eq D (ev_target_pnl_bps fresh) (ev_target_pnl_bps frozen)
     \<and> dec_eq D (ev_stop_pnl_bps fresh) (ev_stop_pnl_bps frozen)
     \<and> dec_eq D (ev_other_pnl_bps fresh) (ev_other_pnl_bps frozen)
     \<and> dec_eq D (ev_outcome_expected_value_bps fresh) (ev_outcome_expected_value_bps frozen)
     \<and> dec_eq D (ev_uncertainty_bps fresh) (ev_uncertainty_bps frozen)
     \<and> ev_admissible fresh = ev_admissible frozen"

definition validate_reprice ::
  "'d decimal_api \<Rightarrow> 'd scalping_strategy \<Rightarrow> 'd candidate_evidence \<Rightarrow> u64 \<Rightarrow> (unit, scalping_error) outcome" where
  "validate_reprice D s fresh observed_at_ms =
     and_then (ok_or SC_Reprice (sg_episode s)) (\<lambda>e.
     and_then (ok_or SC_Reprice (ep_frozen_evidence e)) (\<lambda>frozen.
     let intent = ep_frozen_intent e in
     if ep_state e \<notin> {EpReserved, EpEntryRetryWait} \<or> it_entry_style intent \<noteq> PassiveMaker
       \<or> it_max_reprices intent = 0 \<or> observed_at_ms = 0 \<or> it_valid_until_ms intent \<le> observed_at_ms
       \<or> ev_valid_until_ms fresh < observed_at_ms \<or> \<not> same_frozen_evidence_identity D frozen fresh
       \<or> \<not> digest_is_valid (ev_cost_digest fresh)
     then Err SC_Reprice
     else
     and_then (robust_value D fresh (sx_uncertainty_multiplier (sg_params s))) (\<lambda>worth.
     if dec_less D worth (sx_min_net_ev_bps (sg_params s)) then Err SC_Reprice else Ok ())))"

section \<open>Retries\<close>

definition retry_reserved_entry ::
  "'d scalping_strategy \<Rightarrow> string \<Rightarrow> u64 \<Rightarrow> 'd scalping_strategy \<times> (bool, scalping_error) outcome" where
  "retry_reserved_entry s intent_id observed_at_ms =
     (case sg_episode s of
        None \<Rightarrow> (s, Err SC_Episode)
      | Some e \<Rightarrow>
          if ep_state e \<noteq> EpReserved \<or> ep_episode_id e \<noteq> intent_id
            \<or> observed_at_ms < ep_last_observed_at_ms e
          then (s, Err SC_Episode)
          else if it_attempt_cap (ep_frozen_intent e) \<le> ep_attempts_started e
          then (end_entry e observed_at_ms s, Ok False)
          else (put_episode (e\<lparr>ep_last_observed_at_ms := observed_at_ms, ep_state := EpEntryRetryWait,
                  ep_retry_not_before_ms := Some (saturating_add observed_at_ms
                    (sx_entry_retry_cooldown_ms (sg_params s)))\<rparr>) s, Ok True))"

text \<open>The next attempt: the count stays below its cap, so it does not wrap.\<close>

definition start_attempt :: "'d episode \<Rightarrow> u64 \<Rightarrow> 'd scalping_strategy \<Rightarrow> 'd scalping_strategy" where
  "start_attempt e watermark_ms s =
     set_state (ScReserved (ep_frozen_intent e)) (put_episode
       (e\<lparr>ep_attempts_started := ep_attempts_started e + 1, ep_state := EpReserved,
         ep_retry_not_before_ms := None, ep_last_observed_at_ms := watermark_ms\<rparr>) s)"

definition release_attempt ::
  "'d episode \<Rightarrow> u64 \<Rightarrow> 'd scalping_strategy \<Rightarrow> 'd scalping_strategy \<times> (bool, scalping_error) outcome" where
  "release_attempt e watermark_ms s =
     (case ep_retry_not_before_ms e of
        None \<Rightarrow> (s, Err SC_Episode)
      | Some retry_at \<Rightarrow>
          if watermark_ms < retry_at then (s, Ok False)
          else if it_valid_until_ms (ep_frozen_intent e) \<le> watermark_ms
            \<or> it_attempt_cap (ep_frozen_intent e) \<le> ep_attempts_started e
          then (end_entry e watermark_ms s, Ok False)
          else (start_attempt e watermark_ms s, Ok True))"

definition advance_entry_retry_frame ::
  "'d decimal_api \<Rightarrow> 'd scalping_strategy \<Rightarrow> 'd feature_frame
   \<Rightarrow> 'd scalping_strategy \<times> (bool, scalping_error) outcome" where
  "advance_entry_retry_frame D s frame =
     (case sg_episode s of
        None \<Rightarrow> (s, Ok False)
      | Some e \<Rightarrow>
          if ep_state e \<noteq> EpEntryRetryWait then (s, Ok False)
          else
          attempt s (check_frame D s frame) (\<lambda>_.
          attempt s (validate_progress s frame) (\<lambda>_.
          release_attempt e (ff_watermark_ms frame) (record_frame frame s))))"

end
