(* ===== verification/Scalping_Facts.thy ===== *)
theory Scalping_Facts
  imports Scalping_Entry
begin

text \<open>
  What the decisions of the scalping strategy rest on: the evidence behind an admission and the
  facts behind a preparation.
\<close>

section \<open>Admission\<close>

text \<open>Evidence that makes a candidate eligible, with its value.\<close>

definition supported ::
  "'d decimal_api \<Rightarrow> 'd scalping_strategy \<Rightarrow> 'd candidate_preparation \<Rightarrow> u64 \<Rightarrow> 'd candidate_evidence
   \<Rightarrow> 'd semantic_intent \<Rightarrow> 'd \<Rightarrow> bool" where
  "supported D s p observed_at_ms item candidate v \<longleftrightarrow>
     find (\<lambda>c. it_intent_id c = ev_candidate_id item) (cp_candidates p) = Some candidate
     \<and> admits_worst_loss D (it_risk_plan candidate) (ev_worst_loss item)
     \<and> ev_admissible item \<and> observed_at_ms \<le> ev_valid_until_ms item
     \<and> robust_value D item (sx_uncertainty_multiplier (sg_params s)) = Ok v
     \<and> dec_le D (sx_min_net_ev_bps (sg_params s)) v"

lemma weigh_evidence_Ok:
  assumes "weigh_evidence D s p t (seen, eligible) item = Ok (seen', eligible')"
  shows "ev_candidate_id item \<notin> seen" and "\<not> evidence_unbound s p item"
    and "seen' = insert (ev_candidate_id item) seen"
    and "set eligible' = set eligible \<union> {(v, c, i). i = item \<and> supported D s p t item c v}"
  using assms
  by (auto simp: weigh_evidence_def supported_def Let_def outcome_simps split: if_splits option.splits)

lemma weighed_evidence:
  assumes "try_fold (weigh_evidence D s p t) (seen, eligible) evidence = Ok (seen', eligible')"
  shows "set eligible' = set eligible \<union> {(v, c, i). i \<in> set evidence \<and> supported D s p t i c v}
    \<and> (\<forall>i \<in> set evidence. \<not> evidence_unbound s p i \<and> ev_candidate_id i \<notin> seen)
    \<and> distinct (map ev_candidate_id evidence)"
  using assms
proof (induction evidence arbitrary: seen eligible)
  case (Cons item evidence)
  from Cons.prems obtain seen1 eligible1 where
    step: "weigh_evidence D s p t (seen, eligible) item = Ok (seen1, eligible1)"
    and rest: "try_fold (weigh_evidence D s p t) (seen1, eligible1) evidence = Ok (seen', eligible')"
    by (auto simp: outcome_simps)
  show ?case using weigh_evidence_Ok [OF step] Cons.IH [OF rest] by auto
qed auto

lemma conflicts_False:
  "conflicts D margin direction best others = Ok False \<longleftrightarrow>
     (\<forall>(v, c, i) \<in> set others. it_direction c \<noteq> direction \<longrightarrow>
        (\<exists>gap. dec_sub D best v = Some gap \<and> \<not> dec_less D gap margin))"
  by (induction others)
    (auto simp: or_else_False and_also_def sub_panic_def outcome_simps split: prod.splits)

lemma reserve_candidate_Intent:
  assumes "reserve_candidate s p c evidence t = (s', Ok (Intent c'))"
  obtains memory where "check_and_record (sg_candidate_memory s) c (cp_watermark_ms p) = (memory, Ok ())"
    and "c' = c"
    and "s' = s\<lparr>sg_candidate_memory := memory, sg_state := ScReserved c,
           sg_episode := Some (episode_reserve c evidence t)\<rparr>"
  using assms
  by (auto simp: reserve_candidate_def noop_def set_state_def put_episode_def Let_def
      split: prod.splits outcome.splits memory_rejection.splits)

lemma admit_evidence_Intent:
  assumes "admit_evidence D s evidence t = (s', Ok (Intent c))"
  obtains p seen eligible best item others where
    "sg_state s = ScCandidatePending p" "t \<le> cp_valid_until_ms p"
    "try_fold (weigh_evidence D s p t) ({}, []) evidence = Ok (seen, eligible)"
    "sort_key (eligible_rank D) eligible = (best, c, item) # others"
    "conflicts D (sx_conflict_margin_bps (sg_params s)) (it_direction c) best others
       = (Ok False :: (bool, scalping_error) outcome)"
    "reserve_candidate s p c (Some item) t = (s', Ok (Intent c))"
proof -
  obtain p where p: "sg_state s = ScCandidatePending p" "\<not> cp_valid_until_ms p < t"
    using assms by (auto simp: admit_evidence_def noop_def split: scalping_state.splits if_splits)
  obtain seen eligible where
    fold: "try_fold (weigh_evidence D s p t) ({}, []) evidence = Ok (seen, eligible)"
    and rest: "(case sort_key (eligible_rank D) eligible of
            [] \<Rightarrow> noop NoopEvidenceUnavailable (set_state ScReady s)
          | (best, candidate, winner) # others \<Rightarrow>
              attempt s (conflicts D (sx_conflict_margin_bps (sg_params s)) (it_direction candidate)
                  best others) (\<lambda>ambiguous.
              if ambiguous then noop NoopEvidenceUnavailable (set_state ScReady s)
              else reserve_candidate s p candidate (Some winner) t)) = (s', Ok (Intent c))"
    using assms p by (auto simp: admit_evidence_def attempt_Ok)
  then obtain best candidate item others where
    "sort_key (eligible_rank D) eligible = (best, candidate, item) # others"
    by (cases "sort_key (eligible_rank D) eligible") (auto simp: noop_def)
  with rest have "conflicts D (sx_conflict_margin_bps (sg_params s)) (it_direction candidate) best others
      = (Ok False :: (bool, scalping_error) outcome)"
    and reserve: "reserve_candidate s p candidate (Some item) t = (s', Ok (Intent c))"
    by (auto simp: attempt_Ok noop_def split: if_splits)
  moreover have "c = candidate" using reserve by (rule reserve_candidate_Intent)
  ultimately show thesis using that p(1) fold leI [OF p(2)]
      \<open>sort_key (eligible_rank D) eligible = (best, candidate, item) # others\<close> by blast
qed

text \<open>The first of the sorted candidates has the greatest value.\<close>

lemma sorted_best:
  assumes "sort_key (eligible_rank D) eligible = (best, c, item) # others" and "(v, c', i) \<in> set eligible"
  shows "dec_value D v \<le> dec_value D best"
proof -
  have "sorted (map (eligible_rank D) ((best, c, item) # others))"
    using sorted_sort_key [of "eligible_rank D" eligible] assms(1) by simp
  moreover have "(v, c', i) \<in> set ((best, c, item) # others)"
    using assms(2) set_sort [of "eligible_rank D" eligible] assms(1) by simp
  ultimately have "eligible_rank D (best, c, item) \<le> eligible_rank D (v, c', i)" by auto
  then show ?thesis by (auto simp: eligible_rank_def less_eq_prod_def)
qed

section \<open>Preparation\<close>

text \<open>The fields no step of a preparation changes.\<close>

definition standing :: "'d scalping_strategy \<Rightarrow> 'd scalping_strategy \<Rightarrow> bool" where
  "standing s s' \<longleftrightarrow>
     sg_binding s' = sg_binding s \<and> sg_binding_digest s' = sg_binding_digest s
     \<and> sg_params s' = sg_params s \<and> sg_params_digest s' = sg_params_digest s
     \<and> sg_candidate_memory s' = sg_candidate_memory s \<and> sg_risk s' = sg_risk s
     \<and> sg_last_watermark_ms s' = sg_last_watermark_ms s
     \<and> sg_controller_revision s' = sg_controller_revision s
     \<and> sg_authority_generation s' = sg_authority_generation s"

lemma standing_refl [simp]: "standing s s"
  by (simp add: standing_def)

lemma standing_trans: "standing s t \<Longrightarrow> standing t u \<Longrightarrow> standing s u"
  by (simp add: standing_def)

lemma standing_moves:
  "standing s (set_state state s)" "standing s (cool_down t s)" "standing s (release_stopped s)"
  "standing s (fst (observe_regime D frame s))" "standing s (fst (recovery_rewarming t s))"
  "standing s (s\<lparr>sg_episode := e, sg_state := ScReady\<rparr>)"
  by (auto simp: standing_def set_state_def cool_down_def release_stopped_def observe_regime_def
      recovery_rewarming_def start_rewarming_def Let_def)

text \<open>What a candidate of a frame promises.\<close>

definition candidate_sound ::
  "'d decimal_api \<Rightarrow> 'd scalping_strategy \<Rightarrow> 'd feature_frame \<Rightarrow> 'd semantic_intent \<Rightarrow> bool" where
  "candidate_sound D s frame c \<longleftrightarrow>
     it_symbol c = bd_symbol (sg_binding s) \<and> it_requires_server_protection c
     \<and> it_risk_plan c = plan_of_params (sg_params s)
     \<and> dec_value D (am_value (it_target_quote c)) \<le> dec_value D (am_value (sx_quote_cap (sg_params s)))
     \<and> dec_value D (am_value (it_target_quote c)) \<le> dec_value D (am_value (bd_risk_budget (sg_binding s)))
     \<and> it_valid_until_ms c = saturating_add (ff_watermark_ms frame) (sx_candidate_ttl_ms (sg_params s))
     \<and> it_expert c \<in> sx_enabled_experts (sg_params s)
     \<and> it_entry_style c \<in> sx_enabled_entry_styles (sg_params s)
     \<and> it_attempt_cap c \<le> max 1 (sx_max_order_attempts (sg_params s))
     \<and> (0 < sx_max_order_attempts (sg_params s) \<longrightarrow> 0 < it_attempt_cap c)"

definition plan_enabled :: "'d scalping_params \<Rightarrow> candidate_plan \<Rightarrow> bool" where
  "plan_enabled p = (\<lambda>(direction, kind, style, exit_kind).
     kind \<in> sx_enabled_experts p \<and> style \<in> sx_enabled_entry_styles p)"

lemma candidates_enabled:
  "list_all (plan_enabled p) (fade_candidates D p v returning deviation)"
  "list_all (plan_enabled p) (pullback_candidates D p v regime)"
  "list_all (plan_enabled p) (breakout_candidates p frame direction)"
  by (simp_all add: plan_enabled_def fade_candidates_def pullback_candidates_def breakout_candidates_def
      entry_styles_def split: option.split)

lemma select_candidates_enabled:
  "list_all (plan_enabled (sg_params s)) (select_candidates D s frame deviation regime)"
  by (simp add: select_candidates_def Let_def candidates_enabled split: market_regime.split)

lemma attempt_cap_at_most: "attempt_cap_of p kind \<le> max 1 (sx_max_order_attempts p)"
proof (cases kind)
  case RangeFade
  have "min (sx_max_order_attempts p) 2 \<le> max 1 (sx_max_order_attempts p)"
    by (rule order_trans [OF min.cobounded1 max.cobounded2])
  then show ?thesis using RangeFade by simp
qed simp_all

lemma attempt_cap_positive: "0 < sx_max_order_attempts p \<Longrightarrow> 0 < attempt_cap_of p kind"
  by (cases kind) auto

lemma target_quote_bounds:
  "dec_value D (am_value (target_quote D s)) \<le> dec_value D (am_value (sx_quote_cap (sg_params s)))"
  "dec_value D (am_value (target_quote D s)) \<le> dec_value D (am_value (bd_risk_budget (sg_binding s)))"
  by (simp_all add: target_quote_def dec_le_def)

lemma strategy_intent_sound:
  assumes "strategy_intent D X s frame deviation plan = Ok c"
    and "plan \<in> set (select_candidates D s frame deviation regime)"
  shows "candidate_sound D s frame c"
proof -
  obtain direction kind style exit_kind where plan: "plan = (direction, kind, style, exit_kind)"
    by (cases plan) auto
  have enabled: "kind \<in> sx_enabled_experts (sg_params s)" "style \<in> sx_enabled_entry_styles (sg_params s)"
    using select_candidates_enabled [of s D frame deviation regime] assms(2)
    by (auto simp: list_all_iff plan_enabled_def plan)
  show ?thesis using assms(1) unfolding plan
    by (clarsimp simp: strategy_intent_def Let_def and_then_Ok split: prod.splits split del: if_split)
      (simp add: candidate_sound_def enabled target_quote_bounds attempt_cap_at_most attempt_cap_positive)
qed

definition prepared_for ::
  "'d decimal_api \<Rightarrow> 'd scalping_strategy \<Rightarrow> 'd feature_frame \<Rightarrow> 'd candidate_preparation \<Rightarrow> bool" where
  "prepared_for D s frame q \<longleftrightarrow>
     cp_binding_digest q = sg_binding_digest s \<and> cp_frame_generation q = ff_generation frame
     \<and> cp_watermark_ms q = ff_watermark_ms frame
     \<and> cp_controller_revision q = sg_controller_revision s
     \<and> cp_authority_generation q = sg_authority_generation s
     \<and> cp_candidates q \<noteq> [] \<and> list_all (candidate_sound D s frame) (cp_candidates q)
     \<and> \<not> untradable D (sg_params s) (ff_values frame)"

lemma prepared_for_standing: "standing s s' \<Longrightarrow> prepared_for D s' frame q \<Longrightarrow> prepared_for D s frame q"
  unfolding prepared_for_def candidate_sound_def standing_def by simp

lemma prepare_candidates_Prepared:
  assumes "prepare_candidates D X frame regime s = (s', Ok (Prepared q))"
  shows "prepared_for D s frame q \<and> standing s s' \<and> sg_state s' = ScCandidatePending q"
proof -
  obtain deviation intents market_regime valid_until where
    tradable: "\<not> untradable D (sg_params s) (ff_values frame)"
    and plans: "select_candidates D s frame deviation regime \<noteq> []"
    and intents: "try_map (strategy_intent D X s frame deviation)
      (select_candidates D s frame deviation regime) = Ok intents"
    and q: "q = preparation_of X s frame intents market_regime valid_until"
    and s': "s' = set_state (ScCandidatePending q) s"
    using assms
    by (auto simp: prepare_candidates_def noop_def attempt_Ok Let_def outcome_simps split: if_splits)
  have "candidate_sound D s frame c" if "c \<in> set intents" for c
    using try_map_set [OF intents that] by (auto intro: strategy_intent_sound)
  moreover have "intents \<noteq> []" using try_map_length [OF intents] plans by auto
  ultimately show ?thesis using tradable q s' standing_moves(1)
    by (auto simp: prepared_for_def preparation_of_def list_all_iff set_state_def)
qed

text \<open>The stages before it only rest on the fields that stand.\<close>

lemma prepare_cooled_Prepared:
  assumes "prepare_cooled D X frame regime s = (s', Ok (Prepared q))"
  shows "prepared_for D s frame q \<and> standing s s' \<and> sg_state s' = ScCandidatePending q"
  using assms standing_moves(6) [of s None]
  by (auto simp: prepare_cooled_def noop_def split: scalping_state.splits if_splits
      dest!: prepare_candidates_Prepared dest: prepared_for_standing standing_trans)

lemma prepare_rested_Prepared:
  assumes "prepare_rested D X frame regime s = (s', Ok (Prepared q))"
  shows "prepared_for D s frame q \<and> standing s s' \<and> sg_state s' = ScCandidatePending q"
  using assms standing_moves(2) [of s "ff_watermark_ms frame"]
  by (auto simp: prepare_rested_def noop_def split: scalping_state.splits if_splits
      dest!: prepare_cooled_Prepared dest: prepared_for_standing standing_trans)

lemma prepare_in_regime_Prepared:
  assumes "prepare_in_regime D X frame s = (s', Ok (Prepared q))"
  shows "prepared_for D s frame q \<and> standing s s' \<and> sg_state s' = ScCandidatePending q"
proof -
  obtain s1 regime s2 where s1: "observe_regime D frame s = (s1, regime)"
    and s2: "recovery_rewarming (ff_watermark_ms frame) s1 = (s2, False)"
    and rest: "prepare_rested D X frame regime s2 = (s', Ok (Prepared q))"
    using assms by (auto simp: prepare_in_regime_def noop_def attempt_Ok split: prod.splits if_splits)
  have "standing s s2"
    using standing_moves(4) [of s D frame] standing_moves(5) [of s1 "ff_watermark_ms frame"] s1 s2
    by (auto intro: standing_trans)
  then show ?thesis using prepare_rested_Prepared [OF rest] prepared_for_standing standing_trans by blast
qed

lemma prepare_after_lifecycle_Prepared:
  assumes "prepare_after_lifecycle D X frame safety s = (s', Ok (Prepared q))"
  shows "prepared_for D s frame q \<and> standing s s' \<and> sg_state s' = ScCandidatePending q"
    and "unsafe_reason safety = None"
    and "risk_closed D s (ff_watermark_ms frame) = (Ok False :: (bool, scalping_error) outcome)"
    and "\<not> holds_for (sg_episode s) (\<lambda>e. ep_state e \<notin> {EpCooldown, EpStoppedFlat})"
proof -
  let ?s = "release_stopped s"
  have risk: "sg_risk ?s = sg_risk s" using standing_moves(3) [of s] by (simp add: standing_def)
  from assms have rest: "prepare_in_regime D X frame ?s = (s', Ok (Prepared q))"
    and "unsafe_reason safety = None"
    and "risk_closed D ?s (ff_watermark_ms frame) = (Ok False :: (bool, scalping_error) outcome)"
    and "\<not> holds_for (sg_episode ?s) (\<lambda>e. ep_state e \<noteq> EpCooldown)"
    by (auto simp: prepare_after_lifecycle_def noop_def block_for_def attempt_Ok Let_def
        split: if_splits option.splits)
  then show "unsafe_reason safety = None"
    and "risk_closed D s (ff_watermark_ms frame) = (Ok False :: (bool, scalping_error) outcome)"
    and "\<not> holds_for (sg_episode s) (\<lambda>e. ep_state e \<notin> {EpCooldown, EpStoppedFlat})"
    using risk by (auto simp: risk_closed_def release_stopped_def holds_for_def split: option.splits if_splits)
  show "prepared_for D s frame q \<and> standing s s' \<and> sg_state s' = ScCandidatePending q"
    using prepare_in_regime_Prepared [OF rest] standing_moves(3) [of s] prepared_for_standing
      standing_trans by blast
qed

lemma unsafe_reason_None:
  "unsafe_reason safety = None \<longleftrightarrow>
     sf_private_snapshot_ready safety \<and> sf_exposure safety = ExposureFlat \<and> \<not> sf_execution_unknown safety
     \<and> sf_protection safety = ProtectionComplete \<and> \<not> sf_owner_conflict safety
     \<and> sf_risk_budget_available safety"
  by (simp add: unsafe_reason_def)


lemma recorded_frame:
  assumes "validate_and_record_frame D s frame t = (s1, Ok None)"
  shows "check_frame D s frame = Ok ()" and "validate_progress s frame = Ok ()"
    and "ff_watermark_ms frame \<le> t"
    and "saturating_sub t (ff_watermark_ms frame) \<le> sx_max_decision_latency_ms (sg_params s)"
    and "s1 = record_frame frame s"
  using assms by (auto simp: validate_and_record_frame_def attempt_Ok split: if_splits)

section \<open>Open positions\<close>

text \<open>What an open position is met with.\<close>

definition exposure_met ::
  "'d decimal_api \<Rightarrow> 'd episode \<Rightarrow> control_target \<Rightarrow> safety_projection \<Rightarrow> 'd price \<Rightarrow> u64
   \<Rightarrow> 'd episode \<Rightarrow> 'd episode_action list \<Rightarrow> bool" where
  "exposure_met D e target safety mark t e' actions \<longleftrightarrow>
     (\<exists>reason. exit_action e reason \<in> set actions)
     \<or> ep_state e = EpExitPending \<and> ep_state e' = EpExitPending
     \<or> sf_protection safety \<noteq> ProtectionComplete \<and> ep_state e' = EpOpen
       \<and> (ep_episode_fault_deadline e' \<noteq> None
          \<or> ArmFaultDeadline UnprotectedExposure
              (saturating_add t (it_max_unprotected_ms (ep_frozen_intent e))) \<in> set actions)
     \<or> sf_protection safety = ProtectionComplete \<and> target = StopAndProtect
       \<and> MaintainProtection (it_direction (ep_frozen_intent e))
           (it_hard_stop_distance_bps (ep_frozen_intent e)) \<in> set actions
     \<or> sf_protection safety = ProtectionComplete \<and> target = Running \<and> ep_state e' = EpOpen
       \<and> exit_reason_at D e' mark t = (Ok None :: (episode_exit_reason option, scalping_error) outcome)"

lemma project_target_met:
  assumes "project_target D s e target mark t = (s', Ok actions)" and "sf_protection safety = ProtectionComplete
      \<or> target \<in> {FlattenAndStop, EmergencyStop}"
  shows "\<exists>e'. sg_episode s' = Some e' \<and> exposure_met D e target safety mark t e' actions"
proof (cases target)
  case Running
  then show ?thesis using assms
    by (auto simp: project_target_def Let_def attempt_Ok put_episode_def exposure_met_def exit_action_def
        split: option.splits)
qed (use assms in \<open>auto simp: project_target_def Let_def put_episode_def exposure_met_def exit_action_def\<close>)

end
