(* ===== verification/Scalping_Machine.thy ===== *)
theory Scalping_Machine
  imports Scalping_Facts Contracts
begin

text \<open>
  The scalping strategy as a machine over all its operations: what no operation changes, what
  its memory has admitted and how often an entry is attempted.
\<close>

section \<open>Operations\<close>

datatype 'd strategy_event =
  EvaluateAt "'d feature_frame" safety_projection "'d lifecycle_authorization" u64
| PrepareFrom "'d feature_frame" safety_projection u64 u64 u64
| AdmitEvidence "'d candidate_evidence list" u64
| AdmitDirect u64
| AcknowledgeShadow string u64
| ConfirmLive string u64
| RejectReserved string u64
| RetryReserved string u64
| AdvanceRetry "'d feature_frame"
| RecordRisk "'d risk_fact"
| RequireRevaluation u64
| ApplyRevaluation "'d risk_revaluation"
| ProjectEpisode control_target safety_projection "'d price" u64 string
| ArmEpisodeDeadline episode_fault_kind safety_deadline
| ArmControlDeadline safety_deadline
| CancelEpisodeDeadline string u64 u64
| FireDeadline deadline_fired
| RecoverEpisode fault_recovery safety_projection u64 string
| RecoverControl fault_recovery safety_projection control_target u64 string

text \<open>The decision of an operation that takes one.\<close>

definition decided ::
  "'s \<times> ('a, 'e) outcome \<Rightarrow> 's \<times> ('a option, 'e) outcome" where
  "decided = (\<lambda>(s, r). (s, and_then r (\<lambda>decision. Ok (Some decision))))"

definition undecided :: "'s \<times> ('a, 'e) outcome \<Rightarrow> 's \<times> ('b option, 'e) outcome" where
  "undecided = (\<lambda>(s, r). (s, and_then r (\<lambda>_. Ok None)))"

primrec strategy_step ::
  "'d decimal_api \<Rightarrow> 'd externals \<Rightarrow> 'd scalping_strategy \<Rightarrow> 'd strategy_event
   \<Rightarrow> 'd scalping_strategy \<times> ('d scalping_decision option, scalping_error) outcome" where
  "strategy_step D X s (EvaluateAt frame safety authorization t)
     = decided (evaluate_frame_at D X s frame safety authorization t)"
| "strategy_step D X s (PrepareFrom frame safety revision generation t)
     = decided (prepare_from_lifecycle D X s frame safety revision generation t)"
| "strategy_step D X s (AdmitEvidence evidence t) = decided (admit_evidence D s evidence t)"
| "strategy_step D X s (AdmitDirect t) = decided (admit_direct s t)"
| "strategy_step D X s (AcknowledgeShadow i t) = undecided (acknowledge_shadow_intent s i t)"
| "strategy_step D X s (ConfirmLive i t) = undecided (confirm_live_entry s i t)"
| "strategy_step D X s (RejectReserved i t) = undecided (reject_reserved_entry s i t)"
| "strategy_step D X s (RetryReserved i t) = undecided (retry_reserved_entry s i t)"
| "strategy_step D X s (AdvanceRetry frame) = undecided (advance_entry_retry_frame D s frame)"
| "strategy_step D X s (RecordRisk f) = undecided (record_risk D s f)"
| "strategy_step D X s (RequireRevaluation t) = undecided (require_risk_revaluation D s t)"
| "strategy_step D X s (ApplyRevaluation r) = undecided (apply_risk_revaluation D s r)"
| "strategy_step D X s (ProjectEpisode target safety mark t i)
     = undecided (project_episode D s target safety mark t i)"
| "strategy_step D X s (ArmEpisodeDeadline kind d) = undecided (arm_episode_fault_deadline s kind d)"
| "strategy_step D X s (ArmControlDeadline d) = undecided (arm_control_fault_deadline s d)"
| "strategy_step D X s (CancelEpisodeDeadline i g t)
     = undecided (cancel_episode_fault_deadline s i g t)"
| "strategy_step D X s (FireDeadline fired) = undecided (apply_fault_deadline s fired)"
| "strategy_step D X s (RecoverEpisode a safety t i) = undecided (recover_episode_fault s a safety t i)"
| "strategy_step D X s (RecoverControl a safety target t i)
     = undecided (recover_control_fault s a safety target t i)"

lemma fst_decided [simp]: "fst (decided m) = fst m"
  by (simp add: decided_def split_beta)

lemma fst_undecided [simp]: "fst (undecided m) = fst m"
  by (simp add: undecided_def split_beta)

lemma decided_Ok: "decided m = (s', Ok (Some d)) \<longleftrightarrow> m = (s', Ok d)"
  by (cases m; cases "snd m") (auto simp: decided_def)

lemma undecided_not_Some [simp]: "undecided m \<noteq> (s', Ok (Some d))"
  by (cases m; cases "snd m") (auto simp: undecided_def)

section \<open>What an operation keeps\<close>

definition watermark :: "'d scalping_strategy \<Rightarrow> nat" where
  "watermark s = (case sg_last_watermark_ms s of None \<Rightarrow> 0 | Some t \<Rightarrow> unat t)"

text \<open>
  A calm step leaves the memory and the parameters, keeps the frozen intent of the episode and
  its attempts within their cap, and only a frame makes a preparation, at the watermark it sets.
\<close>

definition attempts_kept :: "'d episode option \<Rightarrow> 'd episode option \<Rightarrow> bool" where
  "attempts_kept before after \<longleftrightarrow>
     (case after of None \<Rightarrow> True | Some e' \<Rightarrow>
        holds_for before (\<lambda>e. ep_frozen_intent e' = ep_frozen_intent e
          \<and> ep_attempts_started e \<le> ep_attempts_started e'
          \<and> (ep_attempts_started e' = ep_attempts_started e
             \<or> ep_attempts_started e' \<le> it_attempt_cap (ep_frozen_intent e))))"

definition cap_sound :: "'d scalping_params \<Rightarrow> 'd semantic_intent \<Rightarrow> bool" where
  "cap_sound p c \<longleftrightarrow>
     it_attempt_cap c \<le> max 1 (sx_max_order_attempts p)
     \<and> (0 < sx_max_order_attempts p \<longrightarrow> 0 < it_attempt_cap c)"

definition fresh_preparation ::
  "'d scalping_strategy \<Rightarrow> 'd scalping_strategy \<Rightarrow> 'd candidate_preparation \<Rightarrow> bool" where
  "fresh_preparation s s' p \<longleftrightarrow>
     watermark s \<le> unat (cp_watermark_ms p) \<and> unat (cp_watermark_ms p) \<le> watermark s'
     \<and> list_all (cap_sound (sg_params s)) (cp_candidates p)"

definition calm :: "'d scalping_strategy \<Rightarrow> 'd scalping_strategy \<Rightarrow> bool" where
  "calm s s' \<longleftrightarrow>
     sg_candidate_memory s' = sg_candidate_memory s \<and> sg_params s' = sg_params s
     \<and> watermark s \<le> watermark s'
     \<and> (sg_last_frame_generation s' = None \<longrightarrow>
          sg_last_frame_generation s = None \<and> sg_last_watermark_ms s' = sg_last_watermark_ms s)
     \<and> (\<forall>p. sg_state s' = ScCandidatePending p \<longrightarrow>
          sg_state s = ScCandidatePending p \<or> fresh_preparation s s' p)
     \<and> attempts_kept (sg_episode s) (sg_episode s')"

lemma attempts_kept_refl [simp]: "attempts_kept e e"
  by (simp add: attempts_kept_def holds_for_def split: option.split)

lemma attempts_kept_None [simp]: "attempts_kept e None"
  by (simp add: attempts_kept_def)

lemma attempts_kept_trans: "attempts_kept a b \<Longrightarrow> attempts_kept b c \<Longrightarrow> attempts_kept a c"
  by (cases a; cases b; cases c) (auto simp: attempts_kept_def holds_for_def)

lemma calm_refl [simp]: "calm s s"
  by (simp add: calm_def)

lemma calm_trans: "calm s t \<Longrightarrow> calm t u \<Longrightarrow> calm s u"
  by (auto simp: calm_def fresh_preparation_def intro: attempts_kept_trans dest: order_trans)

lemma calm_put_episode:
  "sg_episode s = Some e \<Longrightarrow> ep_attempts_started e' = ep_attempts_started e \<Longrightarrow>
   ep_frozen_intent e' = ep_frozen_intent e \<Longrightarrow> calm s (put_episode e' s)"
  by (simp add: calm_def attempts_kept_def holds_for_def put_episode_def watermark_def)

lemma calm_state:
  "(\<And>p. state \<noteq> ScCandidatePending p) \<Longrightarrow> calm s (s\<lparr>sg_state := state\<rparr>)"
  "(\<And>p. state \<noteq> ScCandidatePending p) \<Longrightarrow> calm s (set_state state s)"
  "(\<And>p. state \<noteq> ScCandidatePending p) \<Longrightarrow> calm s (s\<lparr>sg_episode := None, sg_state := state\<rparr>)"
  by (simp_all add: calm_def set_state_def watermark_def)

lemma calm_cool_down [simp]: "calm s (cool_down t s)"
  by (simp add: cool_down_def calm_state)

lemma calm_ended:
  "sg_episode s = Some e \<Longrightarrow> ep_attempts_started e' = ep_attempts_started e \<Longrightarrow>
   ep_frozen_intent e' = ep_frozen_intent e \<Longrightarrow> calm s (cool_down t (put_episode e' s))"
  by (blast intro: calm_trans calm_put_episode calm_cool_down)

lemma calm_put_risk [simp]: "calm s (fst (put_risk s m))"
  by (simp add: put_risk_def calm_def watermark_def split_beta)

lemma attempt_calm: "(\<And>x. m = Ok x \<Longrightarrow> calm s (fst (f x))) \<Longrightarrow> calm s (fst (attempt s m f))"
  by (rule attempt_fst) simp_all

section \<open>Episodes\<close>

lemma outcomes_calm:
  "calm s (fst (acknowledge_shadow_intent s i t))"
  "calm s (fst (confirm_live_entry s i t))"
  "calm s (fst (reject_reserved_entry s i t))"
  "calm s (fst (retry_reserved_entry s i t))"
  by (auto simp: acknowledge_shadow_intent_def confirm_live_entry_def reject_reserved_entry_def
      retry_reserved_entry_def end_entry_def intro!: calm_ended calm_put_episode split: option.split)

lemma deadlines_calm:
  "calm s (fst (arm_episode_fault_deadline s kind d))"
  "calm s (fst (arm_control_fault_deadline s d))"
  "calm s (fst (cancel_episode_fault_deadline s i g t))"
  "calm s (fst (apply_fault_deadline s fired))"
  by (auto simp: arm_episode_fault_deadline_def arm_control_fault_deadline_def
      cancel_episode_fault_deadline_def apply_fault_deadline_def enter_fault_def Let_def
      intro!: attempt_calm calm_put_episode split: option.split prod.split fault_scope.split)

lemma recoveries_calm:
  "calm s (fst (recover_episode_fault s a safety t i))"
  "calm s (fst (recover_control_fault s a safety target t i))"
  by (auto simp: recover_episode_fault_def recover_control_fault_def clear_fault_def Let_def
      intro!: calm_put_episode calm_ended
      split: option.split exposure_state.split control_target.split)

lemma risk_calm:
  "calm s (fst (record_risk D s f))" "calm s (fst (require_risk_revaluation D s t))"
  "calm s (fst (apply_risk_revaluation D s r))"
  by (simp_all add: record_risk_def require_risk_revaluation_def apply_risk_revaluation_def)

lemma project_target_calm:
  assumes "sg_episode s = Some e0" "ep_attempts_started e = ep_attempts_started e0"
    and "ep_frozen_intent e = ep_frozen_intent e0"
  shows "calm s (fst (project_target D s e target mark t))"
  using assms
  by (auto simp: project_target_def Let_def attempt_def intro!: calm_put_episode
      split: control_target.split outcome.split option.split)

lemma project_new_fact_calm:
  assumes "sg_episode s = Some e0" "ep_attempts_started e = ep_attempts_started e0"
    and "ep_frozen_intent e = ep_frozen_intent e0"
  shows "calm s (fst (project_new_fact D s e target safety mark t))"
  using assms
  by (auto simp: project_new_fact_def project_flat_def project_open_def Let_def
      intro!: calm_put_episode calm_ended project_target_calm split: option.split)

lemma project_episode_calm: "calm s (fst (project_episode D s target safety mark t i))"
  by (auto simp: project_episode_def intro!: project_new_fact_calm split: option.split)

section \<open>Frames\<close>

definition tracked :: "'d scalping_strategy \<Rightarrow> bool" where
  "tracked s \<longleftrightarrow> (sg_last_frame_generation s = None \<longrightarrow> sg_last_watermark_ms s = None)"

lemma progress_watermark:
  assumes "tracked s" and "validate_progress s frame = Ok ()"
  shows "watermark s \<le> unat (ff_watermark_ms frame)"
  using assms
  by (auto simp: tracked_def validate_progress_def watermark_def ok_or_Ok and_then_Ok Let_def not_less
      not_le word_less_nat_alt word_le_nat_alt split: option.splits if_splits)

lemma calm_record_frame:
  "watermark s \<le> unat (ff_watermark_ms frame) \<Longrightarrow> calm s (record_frame frame s)"
  by (simp add: calm_def record_frame_def watermark_def)

lemma validate_and_record_calm:
  "tracked s \<Longrightarrow> calm s (fst (validate_and_record_frame D s frame t))"
  by (auto simp: validate_and_record_frame_def intro!: attempt_calm calm_record_frame progress_watermark)

lemma calm_authorize: "calm s (authorize revision generation s)"
  by (simp add: calm_def authorize_def watermark_def)

text \<open>A preparation is made at the watermark of the frame that was recorded.\<close>

definition at_frame :: "'d feature_frame \<Rightarrow> 'd scalping_strategy \<Rightarrow> bool" where
  "at_frame frame s \<longleftrightarrow> sg_last_watermark_ms s = Some (ff_watermark_ms frame)"

lemma standing_at_frame: "standing s s' \<Longrightarrow> at_frame frame s' = at_frame frame s"
  by (simp add: standing_def at_frame_def)

lemmas at_frame_moves [simp] = standing_moves [THEN standing_at_frame]

lemma prepared_calm:
  assumes "prepared_for D s frame q" and "at_frame frame s"
  shows "calm s (set_state (ScCandidatePending q) s)"
  using assms
  by (auto simp: calm_def set_state_def prepared_for_def at_frame_def fresh_preparation_def
      watermark_def list_all_iff candidate_sound_def cap_sound_def)

lemma prepare_candidates_calm:
  assumes "at_frame frame s"
  shows "calm s (fst (prepare_candidates D X frame regime s))"
proof (cases "prepare_candidates D X frame regime s")
  case (Pair s' r)
  show ?thesis
  proof (cases "\<exists>q. r = Ok (Prepared q)")
    case True
    then obtain q where q: "prepare_candidates D X frame regime s = (s', Ok (Prepared q))" using Pair by auto
    then have "s' = set_state (ScCandidatePending q) s"
      by (auto simp: prepare_candidates_def noop_def attempt_Ok Let_def split: if_splits)
    then show ?thesis
      using prepare_candidates_Prepared [OF q] prepared_calm assms Pair by auto
  next
    case False
    then have "s' = s \<or> s' = set_state ScReady s"
      using Pair by (auto simp: prepare_candidates_def noop_def attempt_def Let_def
          split: if_splits outcome.splits)
    then show ?thesis using Pair by (auto intro: calm_state)
  qed
qed

lemma prepare_cooled_calm:
  assumes "at_frame frame s"
  shows "calm s (fst (prepare_cooled D X frame regime s))"
proof -
  let ?s = "s\<lparr>sg_episode := None, sg_state := ScReady\<rparr>"
  have "calm s ?s" by (rule calm_state) simp
  moreover have "calm ?s (fst (prepare_candidates D X frame regime ?s))"
    using assms by (intro prepare_candidates_calm) (simp add: at_frame_def)
  ultimately have "calm s (fst (prepare_candidates D X frame regime ?s))" by (rule calm_trans)
  then show ?thesis
    using assms by (auto simp: prepare_cooled_def noop_def intro: prepare_candidates_calm split: scalping_state.split)
qed

lemma prepare_rested_calm:
  assumes "at_frame frame s"
  shows "calm s (fst (prepare_rested D X frame regime s))"
proof -
  have "calm s (fst (prepare_cooled D X frame regime (cool_down t s)))" for t
    using assms by (intro calm_trans [OF calm_cool_down prepare_cooled_calm]) simp
  then show ?thesis
    using assms by (auto simp: prepare_rested_def noop_def intro: prepare_cooled_calm split: scalping_state.split)
qed

lemma observed_calm: "calm s (fst (observe_regime D frame s))" "calm s (fst (recovery_rewarming t s))"
  by (auto simp: observe_regime_def recovery_rewarming_def start_rewarming_def Let_def calm_def watermark_def)

lemma prepare_in_regime_calm:
  assumes "at_frame frame s"
  shows "calm s (fst (prepare_in_regime D X frame s))"
proof -
  obtain s1 regime where s1: "observe_regime D frame s = (s1, regime)" by fastforce
  obtain s2 rewarming where s2: "recovery_rewarming (ff_watermark_ms frame) s1 = (s2, rewarming)" by fastforce
  have calm1: "calm s s1" and calm2: "calm s1 s2"
    using observed_calm(1) [of s D frame] observed_calm(2) [of s1 "ff_watermark_ms frame"] s1 s2 by auto
  have "standing s s2"
    using standing_moves(4) [of s D frame] standing_moves(5) [of s1 "ff_watermark_ms frame"] s1 s2
    by (auto intro: standing_trans)
  then have "at_frame frame s2" using assms standing_at_frame by blast
  then have "calm s2 (fst (if rewarming then noop NoopRecoveryWarmup (set_state ScBootstrapping s2)
      else prepare_rested D X frame regime s2))"
    by (auto simp: noop_def intro: calm_state prepare_rested_calm)
  with calm2 have "calm s1 (fst (attempt s1 (regime_is_admissible D s1 frame regime) (\<lambda>admissible.
      if \<not> admissible then noop NoopRegimeAmbiguous (set_state ScReady s1)
      else if rewarming then noop NoopRecoveryWarmup (set_state ScBootstrapping s2)
      else prepare_rested D X frame regime s2)))"
    by (intro attempt_calm) (auto simp: noop_def intro: calm_state calm_trans)
  then show ?thesis unfolding prepare_in_regime_def s1 s2 prod.case by (rule calm_trans [OF calm1])
qed

lemma block_calm: "calm s (fst (block_for reason s))"
  by (simp add: block_for_def calm_state)

lemma prepare_after_lifecycle_calm:
  assumes "at_frame frame s"
  shows "calm s (fst (prepare_after_lifecycle D X frame safety s))"
proof -
  let ?s = "release_stopped s"
  have stopped: "calm s ?s" by (simp add: release_stopped_def calm_state)
  have "at_frame frame ?s" using assms by simp
  then have "calm ?s (fst (prepare_after_lifecycle D X frame safety s))"
    by (auto simp: prepare_after_lifecycle_def noop_def Let_def
        intro!: attempt_calm block_calm prepare_in_regime_calm split: option.split)
  with stopped show ?thesis by (rule calm_trans)
qed

lemma recorded_at_frame:
  "validate_and_record_frame D s frame t = (s1, Ok None) \<Longrightarrow> at_frame frame s1"
  using recorded_frame(5) by (fastforce simp: at_frame_def record_frame_def)

lemma frames_calm:
  fixes s :: "'d scalping_strategy"
  assumes "tracked s"
  shows "calm s (fst (evaluate_frame_at D X s frame safety authorization t))"
    and "calm s (fst (prepare_from_lifecycle D X s frame safety revision generation t))"
proof -
  have go: "calm s1 (fst (prepare_after_lifecycle D X frame safety (authorize r g s1)))"
    if "at_frame frame s1" for s1 r g
    using that by (intro calm_trans [OF calm_authorize prepare_after_lifecycle_calm])
      (simp add: at_frame_def authorize_def)
  have recorded: "calm s (fst (chain (validate_and_record_frame D s frame t) f))"
    if f: "\<And>s1 early. calm s s1 \<Longrightarrow> early = None \<Longrightarrow> at_frame frame s1 \<Longrightarrow> calm s1 (fst (f s1 early))"
      "\<And>s1 decision. calm s1 (fst (f s1 (Some decision)))" for f :: "_ \<Rightarrow> _ \<Rightarrow> _ \<times> ('d scalping_decision, _) outcome"
  proof (rule chain_fst [where P = "calm s"])
    show "calm s (fst (validate_and_record_frame D s frame t))" by (rule validate_and_record_calm [OF assms])
  next
    fix s1 early
    assume run: "validate_and_record_frame D s frame t = (s1, Ok early)" and "calm s s1"
    show "calm s (fst (f s1 early))"
    proof (rule calm_trans [OF \<open>calm s s1\<close>], cases early)
      case None
      then show "calm s1 (fst (f s1 early))"
        using f(1) [OF \<open>calm s s1\<close> None] recorded_at_frame run by fastforce
    qed (simp add: f(2))
  qed
  show "calm s (fst (evaluate_frame_at D X s frame safety authorization t))"
    unfolding evaluate_frame_at_def by (rule recorded) (auto intro: block_calm go)
  show "calm s (fst (prepare_from_lifecycle D X s frame safety revision generation t))"
    using recorded [of "\<lambda>s early. case early of Some decision \<Rightarrow> (s, Ok decision)
      | None \<Rightarrow> prepare_after_lifecycle D X frame safety (authorize revision generation s)"] go
    by (auto simp: prepare_from_lifecycle_def block_calm)
qed

lemma word_next:
  fixes a b :: "'l::len word"
  assumes "a < b"
  shows "a \<le> a + 1" and "a + 1 \<le> b"
proof -
  show "a + 1 \<le> b" using assms by (rule inc_le)
  have "unat a + 1 < 2 ^ LENGTH('l)"
    using assms unat_bound [of b] unfolding word_less_nat_alt by linarith
  then show "a \<le> a + 1" by (simp add: word_le_nat_alt unat_word_ariths)
qed

lemma calm_start_attempt:
  assumes "sg_episode s = Some e" and "ep_attempts_started e < it_attempt_cap (ep_frozen_intent e)"
  shows "calm s (start_attempt e t s)"
  using assms
  by (auto simp: calm_def start_attempt_def set_state_def put_episode_def watermark_def attempts_kept_def
      holds_for_def word_next)

lemma advance_calm:
  assumes "tracked s"
  shows "calm s (fst (advance_entry_retry_frame D s frame))"
proof -
  have "calm s (fst (release_attempt e (ff_watermark_ms frame) (record_frame frame s)))"
    if e: "sg_episode s = Some e" and progress: "validate_progress s frame = Ok ()" for e
  proof -
    have episode: "sg_episode (record_frame frame s) = Some e" using e by (simp add: record_frame_def)
    have "calm (record_frame frame s) (fst (release_attempt e (ff_watermark_ms frame) (record_frame frame s)))"
      using episode by (auto simp: release_attempt_def end_entry_def not_le
          intro!: calm_ended calm_start_attempt split: option.split)
    then show ?thesis
      using calm_record_frame progress_watermark [OF assms progress] calm_trans by blast
  qed
  then show ?thesis
    by (auto simp: advance_entry_retry_frame_def intro!: attempt_calm split: option.split)
qed

section \<open>Admissions\<close>

text \<open>A candidate of the pending preparation goes to the memory, at the watermark of its frame.\<close>

definition admits ::
  "'d candidate_preparation \<Rightarrow> 'd semantic_intent \<Rightarrow> 'd scalping_strategy \<Rightarrow> 'd scalping_strategy \<Rightarrow> bool" where
  "admits p c s s' \<longleftrightarrow>
     sg_state s = ScCandidatePending p \<and> c \<in> set (cp_candidates p)
     \<and> sg_candidate_memory s' = fst (check_and_record (sg_candidate_memory s) c (cp_watermark_ms p))
     \<and> sg_params s' = sg_params s \<and> sg_last_watermark_ms s' = sg_last_watermark_ms s
     \<and> sg_last_frame_generation s' = sg_last_frame_generation s
     \<and> (\<forall>q. sg_state s' \<noteq> ScCandidatePending q)
     \<and> (sg_episode s' = sg_episode s \<or> (\<exists>evidence t. sg_episode s' = Some (episode_reserve c evidence t)))"

lemma reserve_candidate_admits:
  assumes "sg_state s = ScCandidatePending p" and "c \<in> set (cp_candidates p)"
    and "snd (check_and_record (sg_candidate_memory s) c (cp_watermark_ms p)) \<noteq> Panic"
  shows "admits p c s (fst (reserve_candidate s p c evidence t))"
  using assms
  by (auto simp: admits_def reserve_candidate_def noop_def set_state_def put_episode_def Let_def
      split: prod.split outcome.split memory_rejection.split)

lemma check_and_record_not_Panic: "snd (check_and_record m c t) \<noteq> Panic"
  by (simp add: check_and_record_def Let_def)

lemmas reserved = reserve_candidate_admits [OF _ _ check_and_record_not_Panic]

lemma find_member: "find P xs = Some x \<Longrightarrow> x \<in> set xs"
  by (auto simp: find_Some_iff)

lemma eligible_candidate:
  assumes "try_fold (weigh_evidence D s p t) ({}, []) evidence = Ok (seen, eligible)"
    and "(v, c, i) \<in> set eligible"
  shows "c \<in> set (cp_candidates p)"
  using weighed_evidence [OF assms(1)] assms(2) by (auto simp: supported_def dest: find_member)

lemma sorted_head_member: "sort_key f xs = y # ys \<Longrightarrow> y \<in> set xs"
  by (metis list.set_intros(1) set_sort)

lemma admit_evidence_moves:
  "calm s (fst (admit_evidence D s evidence t)) \<or> (\<exists>p c. admits p c s (fst (admit_evidence D s evidence t)))"
proof (cases "sg_state s")
  case (ScCandidatePending p)
  show ?thesis
  proof (cases "cp_valid_until_ms p < t")
    case True
    then show ?thesis by (simp add: admit_evidence_def ScCandidatePending noop_def)
  next
    case current: False
    show ?thesis
    proof (cases "try_fold (weigh_evidence D s p t) ({}, []) evidence")
      case (Ok folded)
      obtain seen eligible where folded: "folded = (seen, eligible)" by fastforce
      show ?thesis
      proof (cases "sort_key (eligible_rank D) eligible")
        case Nil
        then show ?thesis using current
          by (simp add: admit_evidence_def ScCandidatePending Ok folded noop_def calm_state)
      next
        case (Cons best others)
        obtain v c item where best: "best = (v, c, item)" by (cases best) auto
        have "c \<in> set (cp_candidates p)"
          using eligible_candidate [OF Ok [unfolded folded]] sorted_head_member [OF Cons [unfolded best]] .
        then have "admits p c s (fst (reserve_candidate s p c (Some item) t))"
          by (rule reserved [OF ScCandidatePending])
        then show ?thesis using current
          by (cases "conflicts D (sx_conflict_margin_bps (sg_params s)) (it_direction c) v others
              :: (bool, scalping_error) outcome")
            (auto simp: admit_evidence_def ScCandidatePending Ok folded Cons best noop_def calm_state)
      qed
    qed (simp_all add: admit_evidence_def ScCandidatePending current)
  qed
qed (simp_all add: admit_evidence_def noop_def)

lemma admit_direct_moves:
  "calm s (fst (admit_direct s t)) \<or> (\<exists>p c. admits p c s (fst (admit_direct s t)))"
proof (cases "sg_state s")
  case (ScCandidatePending p)
  show ?thesis
  proof (cases "sort_key direct_rank (cp_candidates p)")
    case Nil
    then show ?thesis by (simp add: admit_direct_def ScCandidatePending noop_def calm_state)
  next
    case (Cons c others)
    then have "admits p c s (fst (reserve_candidate s p c None t))"
      by (intro reserved [OF ScCandidatePending]) (rule sorted_head_member)
    then show ?thesis by (auto simp: admit_direct_def ScCandidatePending Cons noop_def calm_state)
  qed
qed (simp_all add: admit_direct_def noop_def)

lemma step_moves:
  assumes "tracked s"
  shows "calm s (fst (strategy_step D X s e)) \<or> (\<exists>p c. admits p c s (fst (strategy_step D X s e)))"
  using frames_calm [OF assms] advance_calm [OF assms] admit_evidence_moves admit_direct_moves
  by (cases e) (simp_all add: outcomes_calm deadlines_calm recoveries_calm risk_calm project_episode_calm)

section \<open>The invariant\<close>

definition attempts_bounded :: "'d scalping_params \<Rightarrow> 'd episode \<Rightarrow> bool" where
  "attempts_bounded p e \<longleftrightarrow>
     0 < ep_attempts_started e \<and> ep_attempts_started e \<le> it_attempt_cap (ep_frozen_intent e)
     \<and> it_attempt_cap (ep_frozen_intent e) \<le> max 1 (sx_max_order_attempts p)"

definition strategy_inv :: "'d scalping_strategy \<Rightarrow> bool" where
  "strategy_inv s \<longleftrightarrow>
     tracked s \<and> 0 < sx_max_order_attempts (sg_params s)
     \<and> (\<forall>p. sg_state s = ScCandidatePending p \<longrightarrow>
          unat (cp_watermark_ms p) \<le> watermark s \<and> list_all (cap_sound (sg_params s)) (cp_candidates p))
     \<and> (\<forall>e. sg_episode s = Some e \<longrightarrow> attempts_bounded (sg_params s) e)"

lemma strategy_inv_new:
  assumes "strategy_new D X b p = Ok s"
  shows "strategy_inv s"
proof -
  have "\<not> times_invalid p"
    using assms by (auto simp: strategy_new_def params_validate_for_def outcome_simps split: if_splits)
  then show ?thesis using assms
    by (auto simp: strategy_new_def strategy_inv_def tracked_def times_invalid_def outcome_simps word_gt_0)
qed

lemma calm_inv: "strategy_inv s \<Longrightarrow> calm s s' \<Longrightarrow> strategy_inv s'"
  by (auto simp: strategy_inv_def calm_def tracked_def fresh_preparation_def attempts_bounded_def
      attempts_kept_def holds_for_def split: option.splits dest: order_trans)

lemma admits_inv: "strategy_inv s \<Longrightarrow> admits p c s s' \<Longrightarrow> strategy_inv s'"
  by (auto simp: strategy_inv_def admits_def tracked_def attempts_bounded_def cap_sound_def list_all_iff
      episode_reserve_def word_le_nat_alt word_less_nat_alt Suc_le_eq)

definition strategy_later :: "'d scalping_strategy \<Rightarrow> 'd scalping_strategy \<Rightarrow> bool" where
  "strategy_later s s' \<longleftrightarrow> sg_params s' = sg_params s \<and> watermark s \<le> watermark s'"

lemma moves_later: "calm s s' \<or> admits p c s s' \<Longrightarrow> strategy_later s s'"
  by (auto simp: strategy_later_def calm_def admits_def watermark_def)

interpretation scalper: mutating_machine "strategy_step D X" strategy_inv strategy_later
  for D :: "'d decimal_api" and X
proof
  fix s :: "'d scalping_strategy" and e
  assume inv: "strategy_inv s"
  then have "tracked s" by (simp add: strategy_inv_def)
  note moves = step_moves [OF this, of D X e]
  show "strategy_inv (fst (strategy_step D X s e))" using inv moves calm_inv admits_inv by blast
  show "strategy_later s (fst (strategy_step D X s e))" using moves moves_later by blast
qed (auto simp: strategy_later_def)

section \<open>An opportunity is admitted once\<close>

text \<open>The memory holds the candidate, or every later preparation is newer than its validity.\<close>

definition spent :: "seen_candidate \<Rightarrow> 'd scalping_strategy \<Rightarrow> bool" where
  "spent seen s \<longleftrightarrow>
     remembers (sg_candidate_memory s) seen
     \<or> unat (sw_expires_at_ms seen) < watermark s
       \<and> (\<forall>p. sg_state s = ScCandidatePending p \<longrightarrow> sw_expires_at_ms seen < cp_watermark_ms p)"

lemma calm_spent: "spent seen s \<Longrightarrow> calm s s' \<Longrightarrow> spent seen s'"
  by (auto simp: spent_def calm_def fresh_preparation_def word_less_nat_alt)

lemma admits_spent:
  assumes "strategy_inv s" and "admits p c s s'" and "spent seen s"
  shows "spent seen s'"
proof (cases "cp_watermark_ms p \<le> sw_expires_at_ms seen")
  case True
  then have "remembers (sg_candidate_memory s) seen" using assms(2,3) by (auto simp: spent_def admits_def)
  then show ?thesis using assms(2) record_keeps [OF _ True] by (auto simp: spent_def admits_def)
next
  case False
  then have "unat (sw_expires_at_ms seen) < watermark s'"
    using assms(1,2) by (force simp: strategy_inv_def admits_def watermark_def not_le word_less_nat_alt)
  then show ?thesis using assms(2) by (simp add: spent_def admits_def)
qed

interpretation admitted: mutating_machine "strategy_step D X" "\<lambda>s. strategy_inv s \<and> spent seen s" strategy_later
  for D :: "'d decimal_api" and X seen
proof
  fix s :: "'d scalping_strategy" and e
  assume inv: "strategy_inv s \<and> spent seen s"
  then have "tracked s" by (simp add: strategy_inv_def)
  note moves = step_moves [OF this, of D X e]
  show "strategy_inv (fst (strategy_step D X s e)) \<and> spent seen (fst (strategy_step D X s e))"
    using inv moves calm_inv admits_inv calm_spent admits_spent by blast
  show "strategy_later s (fst (strategy_step D X s e))" using moves moves_later by blast
qed (auto simp: strategy_later_def)

text \<open>Only an admission decides for an intent.\<close>

lemma prepare_no_intent:
  "snd (prepare_candidates D X frame regime s) \<noteq> Ok (Intent c)"
  "snd (prepare_cooled D X frame regime s) \<noteq> Ok (Intent c)"
  "snd (prepare_rested D X frame regime s) \<noteq> Ok (Intent c)"
  "snd (prepare_in_regime D X frame s) \<noteq> Ok (Intent c)"
  "snd (prepare_after_lifecycle D X frame safety s) \<noteq> Ok (Intent c)"
proof -
  show candidates: "snd (prepare_candidates D X frame regime s) \<noteq> Ok (Intent c)" for regime s
    by (simp add: prepare_candidates_def noop_def attempt_def Let_def split: outcome.split)
  show cooled: "snd (prepare_cooled D X frame regime s) \<noteq> Ok (Intent c)" for regime s
    by (simp add: prepare_cooled_def noop_def candidates split: scalping_state.split)
  show rested: "snd (prepare_rested D X frame regime s) \<noteq> Ok (Intent c)" for regime s
    by (simp add: prepare_rested_def noop_def cooled split: scalping_state.split)
  show regime: "snd (prepare_in_regime D X frame s) \<noteq> Ok (Intent c)" for s
    by (simp add: prepare_in_regime_def noop_def attempt_def rested split: outcome.split prod.split)
  show "snd (prepare_after_lifecycle D X frame safety s) \<noteq> Ok (Intent c)"
    by (simp add: prepare_after_lifecycle_def noop_def block_for_def attempt_def regime Let_def
        split: outcome.split option.split)
qed

lemma early_decision: "validate_and_record_frame D s frame t = (s', Ok (Some d)) \<Longrightarrow> d = Noop NoopDecisionExpired"
  by (auto simp: validate_and_record_frame_def attempt_Ok split: if_splits)

lemma frames_no_intent:
  "evaluate_frame_at D X s frame safety authorization t \<noteq> (s', Ok (Intent c))"
  "prepare_from_lifecycle D X s frame safety revision generation t \<noteq> (s', Ok (Intent c))"
proof -
  have prepared: "prepare_after_lifecycle D X frame safety u \<noteq> (s', Ok (Intent c))" for u
    using prepare_no_intent(5) [of D X frame safety u c] by auto
  show "evaluate_frame_at D X s frame safety authorization t \<noteq> (s', Ok (Intent c))"
    by (auto simp: evaluate_frame_at_def chain_Ok block_for_def prepared
        dest: early_decision split: option.splits if_splits)
  show "prepare_from_lifecycle D X s frame safety revision generation t \<noteq> (s', Ok (Intent c))"
    by (auto simp: prepare_from_lifecycle_def chain_Ok block_for_def prepared
        dest: early_decision split: option.splits if_splits)
qed

lemma admit_direct_Intent:
  assumes "admit_direct s t = (s', Ok (Intent c))"
  obtains p where "sg_state s = ScCandidatePending p"
    and "reserve_candidate s p c None t = (s', Ok (Intent c))"
proof -
  obtain p c0 where p: "sg_state s = ScCandidatePending p"
    and reserve: "reserve_candidate s p c0 None t = (s', Ok (Intent c))"
    using assms by (auto simp: admit_direct_def noop_def split: scalping_state.splits list.splits if_splits)
  have "c = c0" using reserve by (rule reserve_candidate_Intent)
  then show thesis using that p reserve by simp
qed

lemma intent_admits:
  assumes "strategy_step D X s e = (s', Ok (Some (Intent c)))"
  obtains p where "sg_state s = ScCandidatePending p"
    and "snd (check_and_record (sg_candidate_memory s) c (cp_watermark_ms p)) = Ok ()"
    and "remembers (sg_candidate_memory s') (seen_of c)"
proof -
  obtain p evidence t where p: "sg_state s = ScCandidatePending p"
    and reserve: "reserve_candidate s p c evidence t = (s', Ok (Intent c))"
    using assms
    by (cases e) (auto simp: decided_Ok frames_no_intent elim: admit_evidence_Intent admit_direct_Intent)
  obtain memory where "check_and_record (sg_candidate_memory s) c (cp_watermark_ms p) = (memory, Ok ())"
    and "sg_candidate_memory s' = memory"
    using reserve by (rule reserve_candidate_Intent) auto
  then show thesis using that [OF p] recorded_remembered by auto
qed

end
