(* ===== verification/Scalping_Samples.thy ===== *)
theory Scalping_Samples
  imports Scalping_Machine
begin

text \<open>
  Concrete inputs for the properties of the scalping strategy: a strategy of the shadow release
  that fades a price below its fair value, twice.
\<close>

definition sample_budget :: "rat amount" where
  "sample_budget = amount_new (Asset ''USDT'') 5"

definition sample_params :: "rat scalping_params" where
  "sample_params = (shadow_params rat_api sample_budget)\<lparr>sx_candidate_ttl_ms := 5,
     sx_entry_retry_cooldown_ms := 5, sx_cooldown_ms := 5\<rparr>"

definition sample_externals :: "rat externals" where
  "sample_externals = \<lparr>xt_sha256 = (\<lambda>_. [1]), xt_decimal_text = (\<lambda>_. ''-1''),
     xt_normalized_text = (\<lambda>_. ''5''), xt_params_json = (\<lambda>_. Some []), xt_lowercase = (\<lambda>s. s)\<rparr>"

definition sample_symbol :: symbol where
  "sample_symbol = \<lparr>sym_base = ''BTC'', sym_quote = ''USDT''\<rparr>"

definition sample_strategy_binding :: "rat strategy_binding" where
  "sample_strategy_binding =
     \<lparr>bd_strategy_kind = Scalping, bd_strategy_instance_id = ''s'', bd_run_id = ''r'',
      bd_exchange = ''x'', bd_account = ''a'', bd_symbol = sample_symbol,
      bd_parameter_release_id = ''p'', bd_owner_scope = ''o'', bd_risk_budget = sample_budget\<rparr>"

definition sample_strategy :: "rat scalping_strategy" where
  "sample_strategy =
     \<lparr>sg_binding = sample_strategy_binding, sg_binding_digest = ''01'', sg_params = sample_params,
      sg_params_digest = ''01'', sg_controller_revision = 0, sg_authority_generation = 0,
      sg_requires_fresh_authorization = False, sg_regime = None, sg_regime_entered_at_ms = None,
      sg_state = ScBootstrapping, sg_episode = None, sg_last_frame_generation = None,
      sg_last_watermark_ms = None, sg_cursors = [], sg_candidate_memory = memory_new,
      sg_risk = risk_ledger_new sample_params, sg_recovery_rewarm_pending = False,
      sg_recovery_rewarm_until_ms = None\<rparr>"

lemma sample_strategy_new:
  "strategy_new rat_api sample_externals sample_strategy_binding sample_params = Ok sample_strategy"
  by code_simp

definition sample_values :: "rat feature_values" where
  "sample_values =
     \<lparr>fv_mid_price = Price 9999, fv_fair_price = Price 10000, fv_spread_bps = 1 / 2,
      fv_depth_quote = 200, fv_book_imbalance = 1 / 2, fv_trade_imbalance = 1 / 2,
      fv_short_return_bps = 0, fv_trend_efficiency = 0, fv_bandwidth_expansion = 0,
      fv_expected_move_bps = 5, fv_toxicity = 0\<rparr>"

definition sample_frame :: "u64 \<Rightarrow> u64 \<Rightarrow> rat feature_frame" where
  "sample_frame sequence t =
     (let cursor = \<lparr>cu_generation = 1, cu_sequence = sequence, cu_event_time_ms = t, cu_fresh = True\<rparr> in
      \<lparr>ff_symbol = sample_symbol, ff_schema_version = 1, ff_generation = 1, ff_watermark_ms = t,
       ff_state = FeatureReady,
       ff_cursors = [(''bars'', cursor), (''book'', cursor), (''trades'', cursor)],
       ff_feature_versions = [(''_feature_profile'', ''scalping-shadow-v1''),
         (''_feature_profile_digest'', replicate 64 (CHR ''0'')),
         (''bars'', ''1''), (''book'', ''1''), (''trades'', ''1'')],
       ff_values = sample_values, ff_breakout = None\<rparr>)"

definition sample_safety :: safety_projection where
  "sample_safety = \<lparr>sf_private_snapshot_ready = True, sf_exposure = ExposureFlat,
     sf_execution_unknown = False, sf_protection = ProtectionComplete, sf_owner_conflict = False,
     sf_risk_budget_available = True\<rparr>"

definition sample_authorization :: "rat lifecycle_authorization" where
  "sample_authorization = \<lparr>la_is_allowed = True, la_matches_at = (\<lambda>_ _. True), la_revision = 1,
     la_authority_generation = 1\<rparr>"

text \<open>The candidate of a frame at a time.\<close>

definition sample_intent :: "string \<Rightarrow> u64 \<Rightarrow> rat semantic_intent" where
  "sample_intent opportunity_key t =
     \<lparr>it_intent_id = ''scalping-01'', it_symbol = sample_symbol, it_direction = DirectionLong,
      it_purpose = SemanticEntry, it_expert = RangeFade, it_entry_style = PassiveMaker,
      it_exit_template = FairValue, it_attempt_cap = 2, it_max_reprices = 1,
      it_risk_plan = plan_of_params sample_params, it_target_quote = sample_budget,
      it_reference_price = Price 9999, it_max_slippage_bps = 1, it_valid_until_ms = t + 5,
      it_entry_ttl_ms = 1000, it_hard_stop_distance_bps = 20, it_target_distance_bps = 5,
      it_max_hold_ms = 60000, it_max_unprotected_ms = 1000, it_requires_server_protection = True,
      it_opportunity_key = opportunity_key, it_breakout_cursor = None, it_idempotency_seed = ''01:-1''\<rparr>"

definition sample_preparation :: "string \<Rightarrow> u64 \<Rightarrow> rat candidate_preparation" where
  "sample_preparation opportunity_key t =
     \<lparr>cp_preparation_id = ''scalping-preparation-01'', cp_binding_digest = ''01'',
      cp_controller_revision = 1, cp_authority_generation = 1, cp_market_regime = RegimeRange,
      cp_frame_generation = 1, cp_watermark_ms = t, cp_valid_until_ms = t + 5,
      cp_candidates = [sample_intent opportunity_key t]\<rparr>"

abbreviation first_key :: string where "first_key \<equiv> ''10:RangeFade:Long:PassiveMaker''"

definition prepared_strategy :: "rat scalping_strategy" where
  "prepared_strategy = sample_strategy\<lparr>sg_controller_revision := 1, sg_authority_generation := 1,
     sg_regime := Some RegimeRange, sg_regime_entered_at_ms := Some 10,
     sg_state := ScCandidatePending (sample_preparation first_key 10),
     sg_last_frame_generation := Some 1, sg_last_watermark_ms := Some 10,
     sg_cursors := ff_cursors (sample_frame 1 10)\<rparr>"

lemma sample_prepared:
  "evaluate_frame_at rat_api sample_externals sample_strategy (sample_frame 1 10) sample_safety
     sample_authorization 10
   = (prepared_strategy, Ok (Prepared (sample_preparation first_key 10)))"
  by code_simp

text \<open>Its candidate is reserved, acknowledged, and found again by the next frame.\<close>

definition reserved_strategy :: "rat scalping_strategy" where
  "reserved_strategy = prepared_strategy\<lparr>sg_state := ScReserved (sample_intent first_key 10),
     sg_episode := Some (episode_reserve (sample_intent first_key 10) None 10),
     sg_candidate_memory := \<lparr>cm_candidates = [(''scalping-01'', seen_of (sample_intent first_key 10))],
       cm_breakout_cursor = None\<rparr>\<rparr>"

lemma sample_reserved:
  "admit_direct prepared_strategy 10 = (reserved_strategy, Ok (Intent (sample_intent first_key 10)))"
  by code_simp

definition resting_strategy :: "rat scalping_strategy" where
  "resting_strategy = reserved_strategy\<lparr>sg_state := ScCooldown 15,
     sg_episode := Some ((episode_reserve (sample_intent first_key 10) None 10)\<lparr>ep_state := EpCooldown\<rparr>)\<rparr>"

lemma sample_acknowledged:
  "acknowledge_shadow_intent reserved_strategy ''scalping-01'' 10 = (resting_strategy, Ok ())"
  by code_simp

abbreviation second_key :: string where "second_key \<equiv> ''20:RangeFade:Long:PassiveMaker''"

definition prepared_again :: "rat scalping_strategy" where
  "prepared_again = resting_strategy\<lparr>sg_episode := None,
     sg_state := ScCandidatePending (sample_preparation second_key 20),
     sg_last_watermark_ms := Some 20, sg_cursors := ff_cursors (sample_frame 2 20)\<rparr>"

lemma sample_prepared_again:
  "evaluate_frame_at rat_api sample_externals resting_strategy (sample_frame 2 20) sample_safety
     sample_authorization 20
   = (prepared_again, Ok (Prepared (sample_preparation second_key 20)))"
  by code_simp

lemma sample_reserved_again:
  "snd (admit_direct prepared_again 20) = Ok (Intent (sample_intent second_key 20))"
  by code_simp

text \<open>Evidence for the first candidate.\<close>

definition sample_evidence :: "rat candidate_evidence" where
  "sample_evidence =
     \<lparr>ev_candidate_id = ''scalping-01'', ev_preparation_id = ''scalping-preparation-01'',
      ev_binding_digest = ''01'', ev_frame_generation = 1, ev_watermark_ms = 10, ev_valid_until_ms = 15,
      ev_calibration_model_version = ''scalping-shadow-calibration-v1'',
      ev_calibration_digest = replicate 64 (CHR ''0''), ev_cost_digest = replicate 64 (CHR ''0''),
      ev_risk_digest = replicate 64 (CHR ''0''),
      ev_worst_loss = \<lparr>rk_value = 1, rk_unit = shadow_unit\<rparr>, ev_fill_probability = 1,
      ev_fill_distribution = [\<lparr>fs_fill_ratio = 1, fs_probability = 1\<rparr>],
      ev_outcomes = \<lparr>op_target = 1 / 2, op_stop = 1 / 4, op_other = 1 / 4\<rparr>,
      ev_costs = \<lparr>cc_entry_cost_bps = 1, cc_exit_cost_bps = 1, cc_funding_cost_bps = 0,
        cc_nonfill_cost_bps = 0, cc_opportunity_cost_bps = 0\<rparr>,
      ev_target_pnl_bps = 12, ev_stop_pnl_bps = -4, ev_other_pnl_bps = 0,
      ev_outcome_expected_value_bps = 5, ev_net_expected_value_bps = 3, ev_uncertainty_bps = 1,
      ev_admissible = True\<rparr>"

lemma sample_admitted:
  "snd (admit_evidence rat_api prepared_strategy [sample_evidence] 10)
     = Ok (Intent (sample_intent first_key 10))"
  by code_simp

text \<open>An open position whose protection is missing.\<close>

definition sample_exposed :: safety_projection where
  "sample_exposed = sample_safety\<lparr>sf_exposure := ExposureOpen, sf_protection := ProtectionGap\<rparr>"

lemma sample_projected:
  "snd (project_episode rat_api reserved_strategy Running sample_exposed (Price 9999) 11 ''f'')
     = Ok [ArmFaultDeadline UnprotectedExposure 1011]"
  by code_simp

end
