(* ===== verification/Scalping_Properties.thy ===== *)
theory Scalping_Properties
  imports Scalping_Risk_Facts Scalping_Samples
begin

text \<open>
  Properties of the scalping strategy.
\<close>

section \<open>The risk ledger\<close>


definition sample_fact :: "string \<Rightarrow> u64 \<Rightarrow> rat \<Rightarrow> rat risk_fact" where
  "sample_fact i t pnl = \<lparr>rf_fact_id = i, rf_event_time_ms = t, rf_valuation_generation = 1,
     rf_risk_unit = shadow_unit, rf_realized_pnl = pnl\<rparr>"

definition sample_ledger :: "rat risk_ledger" where
  "sample_ledger = run_in_place (ledger_step rat_api) (risk_ledger_new (shadow_params rat_api sample_budget))
     [RecordFact (sample_fact ''a'' 10 (1 / 2)), RecordFact (sample_fact ''b'' 20 (- (1 / 2))),
      RecordFact (sample_fact ''c'' 30 (- (1 / 4)))]"


text \<open>
  C26: When the gate is open, the losses of the loss window stay below their limit, no fall of
  the running total between two facts of the drawdown window reaches the drawdown limit, the
  trailing run of losses is shorter than the longest permitted one, and no cooldown is running.
\<close>

theorem risk_gate_open_bounds:
  assumes laws: "dec_exact_laws D" "dec_choice_laws D" "dec_const_laws D" "dec_sign_laws D"
    and view: "risk_snapshot D l now_ms = (Ok view :: (_, 'e) outcome)" and open_gate: "rs_gate view = GateOpen"
    and recent: "losses = facts_since (saturating_sub now_ms (rl_loss_window_ms l)) (rl_facts l)"
    and window: "facts = facts_since (saturating_sub now_ms (rl_drawdown_window_ms l)) (rl_facts l)"
    and scale: "pnl_on_scale D s losses" "pnl_on_scale D s facts"
  shows "- sum_list (map (fact_pnl D) losses) < dec_value D (rl_loss_window_limit l)
    \<and> (\<forall>i j. i \<le> j \<longrightarrow> running_pnl D facts i - running_pnl D facts j < dec_value D (rl_drawdown_limit l))
    \<and> trailing_losses D facts < unat (rl_max_loss_streak l)
    \<and> rl_generation l \<noteq> None
    \<and> (case rl_cooldown_until l of None \<Rightarrow> True | Some until \<Rightarrow> until \<le> now_ms)"
proof -
  note exact = falls_representable [OF scale(1)] falls_representable [OF scale(2)]
  obtain amount drawdown streak where
    facts: "rl_generation l \<noteq> None" "total_pnl D losses = (Ok amount :: (_, 'e) outcome)"
      "drawdown_and_streak D facts = (Ok (drawdown, streak) :: (_, 'e) outcome)"
    and bounds: "dec_less D (dec_greatest D (dec_neg D amount) (dec_zero D)) (rl_loss_window_limit l)"
      "dec_less D drawdown (rl_drawdown_limit l)" "streak < rl_max_loss_streak l"
      "\<not> holds_for (rl_cooldown_until l) (\<lambda>until. now_ms < until)"
    using snapshot_open [OF view open_gate] unfolding recent window by metis
  have "dec_value D amount = sum_list (map (fact_pnl D) losses)"
    by (rule total_pnl_value [OF laws(1,3) exact(1) facts(2)])
  then have "- sum_list (map (fact_pnl D) losses) < dec_value D (rl_loss_window_limit l)"
    using bounds(1) laws(2,4) by (auto simp: dec_less_def dec_choice_laws_def dec_sign_laws_def)
  moreover have "running_pnl D facts i - running_pnl D facts j < dec_value D (rl_drawdown_limit l)"
    if "i \<le> j" for i j
    using drawdown_and_streak_value(1) [OF laws(1-3) exact(2) facts(3) that] bounds(2)
    by (simp add: dec_less_def)
  moreover have "trailing_losses D facts < unat (rl_max_loss_streak l)"
    using drawdown_and_streak_value(2) [OF laws(1-3) exact(2) facts(3)] bounds(3)
    by (simp add: word_less_nat_alt)
  ultimately show ?thesis
    using facts(1) bounds(4) by (auto simp: holds_for_def split: option.splits)
qed

text \<open>Two gains and a small loss: the gate stays open.\<close>

definition sample_view :: "rat risk_view" where
  "sample_view = \<lparr>rs_gate = GateOpen, rs_valuation_generation = Some 1, rs_risk_unit = shadow_unit,
     rs_rolling_loss = 1 / 4, rs_drawdown = 3 / 4, rs_loss_streak = 2, rs_cooldown_until_ms = None\<rparr>"

lemma sample_ledger_value:
  "sample_ledger = (risk_ledger_new (shadow_params rat_api sample_budget))\<lparr>
     rl_facts := [sample_fact ''a'' 10 (1 / 2), sample_fact ''b'' 20 (- (1 / 2)), sample_fact ''c'' 30 (- (1 / 4))],
     rl_seen := {''a'', ''b'', ''c''}, rl_last_event_time := Some 30, rl_generation := Some 1\<rparr>"
  by code_simp

lemma sample_ledger_view:
  "risk_snapshot rat_api sample_ledger 40 = (Ok sample_view :: (rat risk_view, scalping_error) outcome)"
  by code_simp

lemma sample_facts_recent:
  "facts_since (saturating_sub 40 (rl_loss_window_ms sample_ledger)) (rl_facts sample_ledger)
     = rl_facts sample_ledger"
  "facts_since (saturating_sub 40 (rl_drawdown_window_ms sample_ledger)) (rl_facts sample_ledger)
     = rl_facts sample_ledger"
  by (simp_all add: sample_ledger_value facts_since_def risk_ledger_new_def shadow_params_def Let_def
      saturating_sub_def)

lemma sample_facts_on_scale: "pnl_on_scale rat_api 2 (rl_facts sample_ledger)"
  unfolding pnl_on_scale_def
  by (intro conjI exI [of _ "[50, -50, -25] :: int list"])
    (simp_all add: sample_ledger_value fact_pnl_def sample_fact_def)

theorem risk_gate_open_bounds_witness:
  "running_pnl rat_api (rl_facts sample_ledger) 1 - running_pnl rat_api (rl_facts sample_ledger) 3 < 1
   \<and> trailing_losses rat_api (rl_facts sample_ledger) < 3"
  using risk_gate_open_bounds [OF _ _ _ _ sample_ledger_view _ sample_facts_recent [symmetric]
      sample_facts_on_scale sample_facts_on_scale]
  by (simp add: sample_view_def sample_ledger_value risk_ledger_new_def shadow_params_def Let_def)

section \<open>Candidates\<close>

text \<open>
  C11: Candidates are prepared only on a valid frame of the strategy's symbol and release that is
  recent and moves its sources forward, under a permission that is not older than the one held
  (and newer after a restore), with a flat, protected and undisputed account, no running episode
  and an open risk gate; each of them is enabled, within the quote cap and the account budget,
  asks for server protection and is valid only for its lifetime after the frame.
\<close>

theorem preparation_on_safe_facts:
  fixes D :: "'d decimal_api"
  assumes "evaluate_frame_at D X s frame safety authorization t = (s', Ok (Prepared q))"
  shows "check_frame D s frame = Ok () \<and> validate_progress s frame = Ok ()
    \<and> ff_watermark_ms frame \<le> t
    \<and> saturating_sub t (ff_watermark_ms frame) \<le> sx_max_decision_latency_ms (sg_params s)
    \<and> la_is_allowed authorization \<and> la_matches_at authorization (sg_binding s) t
    \<and> \<not> stale_authority s (la_revision authorization) (la_authority_generation authorization)
    \<and> sf_private_snapshot_ready safety \<and> sf_exposure safety = ExposureFlat
    \<and> \<not> sf_execution_unknown safety \<and> sf_protection safety = ProtectionComplete
    \<and> \<not> sf_owner_conflict safety \<and> sf_risk_budget_available safety
    \<and> risk_closed D s (ff_watermark_ms frame) = (Ok False :: (bool, scalping_error) outcome)
    \<and> \<not> holds_for (sg_episode s) (\<lambda>e. ep_state e \<notin> {EpCooldown, EpStoppedFlat})
    \<and> \<not> untradable D (sg_params s) (ff_values frame)
    \<and> sg_state s' = ScCandidatePending q \<and> cp_frame_generation q = ff_generation frame
    \<and> cp_watermark_ms q = ff_watermark_ms frame
    \<and> cp_authority_generation q = la_authority_generation authorization
    \<and> cp_candidates q \<noteq> [] \<and> list_all (candidate_sound D s frame) (cp_candidates q)"
proof -
  let ?s = "authorize (la_revision authorization) (la_authority_generation authorization)
      (record_frame frame s)"
  obtain s1 early where recorded: "validate_and_record_frame D s frame t = (s1, Ok early)"
    and rest: "(case early of
       Some decision \<Rightarrow> (s1, Ok decision)
     | None \<Rightarrow>
         if \<not> la_is_allowed authorization then block_for BlockControlStopped s1
         else if \<not> la_matches_at authorization (sg_binding s1) t then (s1, Err SC_Authorization)
         else if stale_authority s1 (la_revision authorization) (la_authority_generation authorization)
         then block_for BlockRecoveryAuthorization s1
         else prepare_after_lifecycle D X frame safety
                (authorize (la_revision authorization) (la_authority_generation authorization) s1))
      = (s', Ok (Prepared q))"
    using assms unfolding evaluate_frame_at_def by (auto simp: chain_Ok)
  have "early = None"
    using recorded rest by (auto simp: validate_and_record_frame_def attempt_Ok split: if_splits)
  note frame = recorded_frame [OF recorded [unfolded this]]
  have prepared: "prepare_after_lifecycle D X frame safety ?s = (s', Ok (Prepared q))"
    and allowed: "la_is_allowed authorization" "la_matches_at authorization (sg_binding s) t"
    "\<not> stale_authority s (la_revision authorization) (la_authority_generation authorization)"
    using rest \<open>early = None\<close> unfolding frame(5)
    by (auto simp: block_for_def record_frame_def stale_authority_def split: if_splits)
  have same: "candidate_sound D ?s frame = candidate_sound D s frame"
    "sg_params ?s = sg_params s" "sg_episode ?s = sg_episode s"
    "sg_authority_generation ?s = la_authority_generation authorization"
    "risk_closed D ?s (ff_watermark_ms frame)
      = (risk_closed D s (ff_watermark_ms frame) :: (bool, scalping_error) outcome)"
    by (simp_all add: candidate_sound_def risk_closed_def authorize_def record_frame_def fun_eq_iff)
  show ?thesis
    using frame(1-4) allowed prepare_after_lifecycle_Prepared [OF prepared] unfolding same prepared_for_def
    by (simp add: unsafe_reason_None)
qed

theorem preparation_on_safe_facts_witness:
  "cp_watermark_ms (sample_preparation first_key 10) = 10 \<and> sf_exposure sample_safety = ExposureFlat
   \<and> list_all (candidate_sound rat_api sample_strategy (sample_frame 1 10))
       (cp_candidates (sample_preparation first_key 10))"
  using preparation_on_safe_facts [OF sample_prepared] by (simp add: sample_preparation_def)

text \<open>
  C10: A candidate is admitted by evidence only while its preparation is valid, when every item of
  evidence is bound to that preparation and none is repeated; the candidate's own item admits its
  worst loss and is worth at least the minimum after uncertainty, nothing eligible is worth more,
  and nothing in the other direction comes within the conflict margin.  The candidate is then
  reserved in an episode of its own and remembered.
\<close>

theorem admission_rests_on_bound_evidence:
  fixes D :: "'d decimal_api"
  assumes "admit_evidence D s evidence t = (s', Ok (Intent c))"
  shows "\<exists>p item v. sg_state s = ScCandidatePending p \<and> t \<le> cp_valid_until_ms p
    \<and> distinct (map ev_candidate_id evidence) \<and> (\<forall>i \<in> set evidence. \<not> evidence_unbound s p i)
    \<and> item \<in> set evidence \<and> supported D s p t item c v
    \<and> (\<forall>i \<in> set evidence. \<forall>c' w. supported D s p t i c' w \<longrightarrow> dec_value D w \<le> dec_value D v
        \<and> (it_direction c' \<noteq> it_direction c \<longrightarrow>
            (\<exists>gap. dec_sub D v w = Some gap \<and> \<not> dec_less D gap (sx_conflict_margin_bps (sg_params s)))))
    \<and> sg_state s' = ScReserved c \<and> sg_episode s' = Some (episode_reserve c (Some item) t)
    \<and> remembers (sg_candidate_memory s') (seen_of c)"
  using assms
proof (cases rule: admit_evidence_Intent)
  case (1 p seen eligible v item others)
  from 1(6) obtain memory where
    memory: "check_and_record (sg_candidate_memory s) c (cp_watermark_ms p) = (memory, Ok ())"
    and s': "s' = s\<lparr>sg_candidate_memory := memory, sg_state := ScReserved c,
      sg_episode := Some (episode_reserve c (Some item) t)\<rparr>"
    by (rule reserve_candidate_Intent)
  have eligible: "set eligible = {(v, c, i). i \<in> set evidence \<and> supported D s p t i c v}"
    and bound: "distinct (map ev_candidate_id evidence) \<and> (\<forall>i \<in> set evidence. \<not> evidence_unbound s p i)"
    using weighed_evidence [OF 1(3)] by auto
  have listed: "set ((v, c, item) # others) = set eligible"
    using set_sort [of "eligible_rank D" eligible] 1(4) by simp
  then have "(v, c, item) \<in> set eligible" by auto
  then have winner: "item \<in> set evidence \<and> supported D s p t item c v" using eligible by simp
  have "dec_value D w \<le> dec_value D v
      \<and> (it_direction c' \<noteq> it_direction c \<longrightarrow>
          (\<exists>gap. dec_sub D v w = Some gap \<and> \<not> dec_less D gap (sx_conflict_margin_bps (sg_params s))))"
    if "i \<in> set evidence" "supported D s p t i c' w" for i c' w
  proof
    have member: "(w, c', i) \<in> set eligible" using that eligible by simp
    then show "dec_value D w \<le> dec_value D v" by (rule sorted_best [OF 1(4)])
    have "(w, c', i) \<in> set others" if "it_direction c' \<noteq> it_direction c"
      using member that unfolding listed [symmetric] by auto
    then show "it_direction c' \<noteq> it_direction c \<longrightarrow>
        (\<exists>gap. dec_sub D v w = Some gap \<and> \<not> dec_less D gap (sx_conflict_margin_bps (sg_params s)))"
      using 1(5) unfolding conflicts_False by fastforce
  qed
  then show ?thesis using 1(1,2) bound winner s' recorded_remembered [OF memory]
    by (intro exI [of _ p] exI [of _ item] exI [of _ v]) auto
qed

lemma sample_admission:
  "admit_evidence rat_api prepared_strategy [sample_evidence] 10
     = (fst (admit_evidence rat_api prepared_strategy [sample_evidence] 10),
        Ok (Intent (sample_intent first_key 10)))"
  by (simp add: prod_eq_iff sample_admitted)

theorem admission_rests_on_bound_evidence_witness:
  "\<exists>v. supported rat_api prepared_strategy (sample_preparation first_key 10) 10 sample_evidence
     (sample_intent first_key 10) v"
  using admission_rests_on_bound_evidence [OF sample_admission]
  by (auto simp: prepared_strategy_def)

text \<open>
  C9: Between the creation of a strategy and its next restart, whatever operations run, an
  opportunity that was admitted is not admitted again before a preparation whose frame is later
  than the validity of the first admission.
\<close>

theorem opportunity_admitted_once:
  fixes D :: "'d decimal_api"
  assumes "strategy_new D X b params = Ok s0"
    and first: "s1 = run_in_place (strategy_step D X) s0 before"
      "strategy_step D X s1 e = (s2, Ok (Some (Intent c)))"
    and later: "s3 = run_in_place (strategy_step D X) s2 between"
      "strategy_step D X s3 e' = (s4, Ok (Some (Intent c')))"
    and same: "it_intent_id c' = it_intent_id c
      \<or> it_expert c' = it_expert c \<and> it_opportunity_key c' = it_opportunity_key c"
  shows "\<exists>p. sg_state s3 = ScCandidatePending p \<and> it_valid_until_ms c < cp_watermark_ms p"
proof -
  have inv1: "strategy_inv s1"
    unfolding first(1) by (rule scalper.run_in_place_inv [OF strategy_inv_new [OF assms(1)]])
  obtain p where "remembers (sg_candidate_memory s2) (seen_of c)"
    using intent_admits [OF first(2)] .
  moreover have "strategy_inv s2"
    using scalper.mutate_inv [OF inv1, of D X e] first(2) by simp
  ultimately have s3: "strategy_inv s3 \<and> spent (seen_of c) s3"
    unfolding later(1) by (intro admitted.run_in_place_inv) (simp add: spent_def)
  then obtain p where p: "sg_state s3 = ScCandidatePending p"
    and ok: "snd (check_and_record (sg_candidate_memory s3) c' (cp_watermark_ms p)) = Ok ()"
    using intent_admits [OF later(2)] by blast
  have "it_valid_until_ms c < cp_watermark_ms p"
  proof (rule ccontr)
    assume "\<not> ?thesis"
    then have valid: "cp_watermark_ms p \<le> sw_expires_at_ms (seen_of c)" by (simp add: seen_of_def)
    then have "remembers (sg_candidate_memory s3) (seen_of c)" using s3 p by (auto simp: spent_def)
    then show False using remembered_refused [OF _ valid, of _ c'] same ok
      by (auto simp: seen_of_def same_opportunity_def)
  qed
  with p show ?thesis by blast
qed

lemma sample_runs:
  "prepared_strategy = run_in_place (strategy_step rat_api sample_externals) sample_strategy
     [EvaluateAt (sample_frame 1 10) sample_safety sample_authorization 10]"
  "strategy_step rat_api sample_externals prepared_strategy (AdmitDirect 10)
     = (reserved_strategy, Ok (Some (Intent (sample_intent first_key 10))))"
  "prepared_again = run_in_place (strategy_step rat_api sample_externals) reserved_strategy
     [AcknowledgeShadow ''scalping-01'' 10,
      EvaluateAt (sample_frame 2 20) sample_safety sample_authorization 20]"
  "strategy_step rat_api sample_externals prepared_again (AdmitDirect 20)
     = (fst (admit_direct prepared_again 20), Ok (Some (Intent (sample_intent second_key 20))))"
  by (simp_all add: sample_prepared sample_reserved sample_acknowledged sample_prepared_again
      decided_def split_beta sample_reserved_again)

theorem opportunity_admitted_once_witness:
  "\<exists>p. sg_state prepared_again = ScCandidatePending p
     \<and> it_valid_until_ms (sample_intent first_key 10) < cp_watermark_ms p"
  using opportunity_admitted_once [OF sample_strategy_new sample_runs]
  by (simp add: sample_intent_def)

text \<open>
  C24: Whatever operations run, the entry of an episode is attempted at least once and at most as
  often as its frozen intent permits, which is never more than the parameters permit.
\<close>

theorem attempts_within_cap:
  fixes D :: "'d decimal_api"
  assumes "strategy_new D X b params = Ok s0"
    and "s = run_in_place (strategy_step D X) s0 events" and "sg_episode s = Some e"
  shows "0 < ep_attempts_started e \<and> ep_attempts_started e \<le> it_attempt_cap (ep_frozen_intent e)
    \<and> it_attempt_cap (ep_frozen_intent e) \<le> sx_max_order_attempts params"
proof -
  have start: "strategy_inv s0" "sg_params s0 = params"
    using strategy_inv_new [OF assms(1)] assms(1) by (auto simp: strategy_new_def outcome_simps)
  have "strategy_inv s" unfolding assms(2) by (rule scalper.run_in_place_inv [OF start(1)])
  moreover have "sg_params s = params"
    using scalper.run_in_place_below [OF start(1), of D X events] start(2)
    by (simp add: strategy_later_def assms(2))
  ultimately show ?thesis using assms(3) start
    by (auto simp: strategy_inv_def attempts_bounded_def max_def word_le_nat_alt word_less_nat_alt split: if_splits)
qed

theorem attempts_within_cap_witness:
  "0 < ep_attempts_started (episode_reserve (sample_intent first_key 10) None 10)
   \<and> ep_attempts_started (episode_reserve (sample_intent first_key 10) None 10) \<le> 2"
  using attempts_within_cap [OF sample_strategy_new, where events =
      "[EvaluateAt (sample_frame 1 10) sample_safety sample_authorization 10, AdmitDirect 10]"
      and s = reserved_strategy and e = "episode_reserve (sample_intent first_key 10) None 10"]
  by (simp add: sample_prepared sample_reserved decided_def reserved_strategy_def episode_reserve_def
      sample_intent_def)

section \<open>Episodes\<close>





text \<open>
  The exception: a position first seen while safety is lost only has its entry cancelled, and
  every later fact that shows it, safe again, orders nothing, even on an emergency stop.
\<close>

definition lost_and_exposed :: safety_projection where
  "lost_and_exposed = sample_exposed\<lparr>sf_execution_unknown := True\<rparr>"

definition cancelled_strategy :: "rat scalping_strategy" where
  "cancelled_strategy =
     fst (project_episode rat_api reserved_strategy Running lost_and_exposed (Price 9999) 11 ''f'')"

lemma exposure_left_without_exit:
  "snd (project_episode rat_api reserved_strategy Running lost_and_exposed (Price 9999) 11 ''f'')
     = Ok [CancelEntry SafetyProjectionLost]"
  "snd (project_episode rat_api cancelled_strategy EmergencyStop sample_exposed (Price 9999) 12 ''g'')
     = Ok []"
  by code_simp+

text \<open>An ambiguous frame ends a cooldown before its time.\<close>

definition ambiguous_frame :: "rat feature_frame" where
  "ambiguous_frame = (sample_frame 2 12)\<lparr>ff_values := sample_values\<lparr>fv_trend_efficiency := 1 / 2\<rparr>\<rparr>"

lemma ambiguous_frame_ends_cooldown:
  "sg_state resting_strategy = ScCooldown 15"
  "sg_state (fst (evaluate_frame_at rat_api sample_externals resting_strategy ambiguous_frame sample_safety
     sample_authorization 12)) = ScReady"
  by code_simp+

text \<open>An episode whose safety is lost while it waits to retry is refused by its own validation.\<close>

definition waiting_strategy :: "rat scalping_strategy" where
  "waiting_strategy = fst (retry_reserved_entry reserved_strategy ''scalping-01'' 10)"

lemma lost_retry_not_restorable:
  "(case sg_episode (fst (project_episode rat_api waiting_strategy Running
      (sample_safety\<lparr>sf_execution_unknown := True\<rparr>) (Price 9999) 11 ''f'')) of
      None \<Rightarrow> False | Some e \<Rightarrow> episode_validate_persisted rat_api e = Err SC_Checkpoint)"
  by code_simp

end
