(* ===== verification/Spec2Isabelle.thy ===== *)
theory Spec2Isabelle
  imports Domain_Properties Copy_Properties Guard_Properties Grid_Properties Reducer_Properties
    Market_Maker_Properties Market_Volatility Order_Mirror_Properties Support_Properties
    Scalping_Properties
begin

text \<open>
  Verification library for VENUE, a trading system in Rust: a control service that sells copy
  trading and hosted strategies, and nodes that turn decisions into exchange orders.  The
  library models the parts that decide what is traded, as executable HOL functions over the
  types of \<open>crates/venue-domain\<close>, and proves what those decisions promise.

  \<^bold>\<open>Parts and how they interact.\<close>  A leader's exposure becomes a target for a follower
  (\<open>venue-copy/capital.rs\<close>), the target an order (\<open>sizing.rs\<close>, \<open>limit.rs\<close>), the order a job
  with derived identities (\<open>identity.rs\<close>) that is delivered to a node (\<open>delivery.rs\<close>); the
  node's facts come back into a ledger (\<open>ledger.rs\<close>) and a drift repair closes what is left
  open (\<open>drift.rs\<close>, \<open>execution.rs\<close>).  Independently, the hedged grid
  (\<open>venue-strategies/hedged_grid\<close>) keeps a ladder of orders on both legs of an account: a
  stateless planner (\<open>planner.rs\<close>), an older event-driven reducer (\<open>reducer.rs\<close>) and a guard
  that reduces profitable exposure (\<open>exposure_guard.rs\<close>).  The inventory market maker
  (\<open>venue-strategies/inventory_mm\<close>) plans two quotes under limits on legs, gross and net.  The
  support martingale (\<open>venue-strategies/support_martingale\<close>) reads bars through the chart
  indicators (\<open>venue-indicators/chart\<close>), finds support zones and callbacks to them and prices
  the order that takes the profit.  The scalping strategy (\<open>venue-strategies/scalping\<close>) turns
  feature frames (\<open>venue-indicators/feature_frame.rs\<close>) into candidates, admits one of them on
  bound evidence under its own risk ledger, and follows the episode through faults and
  recoveries.  The order mirror of the control service (\<open>order_mirror/planner.rs\<close>) sizes a follower's copy
  of one resting order.  Every order leaves as a command that is checked against the
  authoritative position (\<open>domain/command.rs\<close>) and, when its acknowledgement is lost, is
  resolved by evidence (\<open>domain/order_outcome.rs\<close>).

  \<^bold>\<open>Theories and the code they model.\<close>
  \<^item> \<open>Prelude\<close>, \<open>Mutation\<close>, \<open>Iteration\<close>, \<open>Ordered_Map\<close>, \<open>Text\<close>: what the Rust source uses of
    its language and standard library: results with an explicit panic, methods that mutate
    in place and may fail half way, loops that stop at the first error, \<open>BTreeMap\<close> as a
    sorted association list, strings as UTF-8 bytes.  \<open>Contracts\<close>: the locales (validity
    windows, fallible and mutating machines, idempotent machines, retaining logs).
  \<^item> \<open>Decimals\<close>: the interface of \<open>rust_decimal\<close> and its documented laws.
  \<^item> \<open>Domain\<close>, \<open>Instruments\<close>, \<open>Risk_Snapshot\<close>, \<open>Commands\<close>, \<open>Order_Outcome\<close>: the domain crate
    (\<open>money.rs\<close>, \<open>symbol.rs\<close>, \<open>identity.rs\<close>, \<open>order.rs\<close>, \<open>account.rs\<close>, \<open>position.rs\<close>,
    \<open>instrument.rs\<close>, \<open>risk_snapshot.rs\<close>, \<open>command.rs\<close>, \<open>order_outcome.rs\<close>).
  \<^item> \<open>Copy_Identity\<close>, \<open>Copy_Capital\<close>, \<open>Copy_Sizing\<close> (with the limits of \<open>limit.rs\<close>),
    \<open>Copy_Delivery\<close>, \<open>Copy_Ledger\<close>, \<open>Copy_Drift\<close> (with \<open>execution.rs\<close>): the copy crate.
  \<^item> \<open>Grid_Model\<close> to \<open>Grid_Planner\<close>: \<open>model.rs\<close> and the stateless planner; \<open>Exposure_Guard\<close>:
    the guard; \<open>Reducer_State\<close> and \<open>Reducer\<close>: the reducer's state, checkpoints and operations.
  \<^item> \<open>Market_Maker\<close>, \<open>Market_Volatility\<close>: the inventory market maker (\<open>model.rs\<close>, \<open>planner.rs\<close>,
    \<open>volatility.rs\<close>).  \<open>Indicators\<close>: a public bar and its validation, and the averages of
    \<open>chart/trend.rs\<close>, \<open>volatility.rs\<close> and \<open>momentum.rs\<close> that the strategies use.
  \<^item> \<open>Support_Martingale\<close>: \<open>support_martingale/mod.rs\<close>.  \<open>Order_Mirror\<close>:
    \<open>order_mirror/planner.rs\<close> with the sizing of \<open>follow_sizing.rs\<close> and \<open>kol_executor.rs\<close>.
  \<^item> \<open>Feature_Frame\<close>, \<open>Scalping_Model\<close>, \<open>Scalping_Risk\<close>, \<open>Scalping_Memory\<close>,
    \<open>Scalping_Evidence\<close>: \<open>feature_frame.rs\<close> and, of \<open>scalping\<close>, \<open>model.rs\<close>, \<open>risk.rs\<close>,
    \<open>candidate_memory.rs\<close>, \<open>evidence.rs\<close>.  \<open>Scalping_Fault\<close>: the state of the strategy and
    \<open>fault.rs\<close>.  \<open>Scalping_Engine\<close>, \<open>Scalping_Prepare\<close>, \<open>Scalping_Decision\<close>, \<open>Scalping_Entry\<close>:
    \<open>engine.rs\<close> with \<open>checkpoint.rs\<close>, in its order: creation, checkpoints and frames, the
    candidates of a frame, preparation and admission, the life of an entry.
  A theory \<open>X_Properties\<close> holds the properties of a group, \<open>X_Samples\<close> the concrete inputs
  on which their hypotheses are shown to hold.

  \<^bold>\<open>How state and errors correspond.\<close>  A struct is a record with the same fields, an enum a
  datatype with the same variants.  A function that returns \<open>Result\<close> returns an \<open>outcome\<close>:
  \<open>Ok\<close>, \<open>Err\<close> with the source's error, or \<open>Panic\<close> where an unchecked operator overflows or
  divides by zero.  A method on \<open>&mut self\<close> returns the state it leaves with its result, also
  after an error.  Unsigned integers are words of their width, and every decimal operation is
  an operation of the parameter \<open>D\<close>, in the order of the source.

  \<^bold>\<open>Parameters.\<close>  \<open>rust_decimal\<close> and SHA-256 are not in the repository.  The first is a record
  of functions with laws as named hypotheses (\<open>dec_sign_laws\<close>, \<open>dec_exact_laws\<close> and the like:
  signs, exact results where the number is representable, remainders, constants); \<open>rat_api\<close>, the
  bounded rationals, satisfies all of them and is what the witnesses compute with.  The second
  is a function from bytes to bytes.  The scalping strategy takes, in the record \<open>externals\<close>,
  SHA-256 with the printed decimals, the JSON text of its parameters and the lower case of a
  text; what a controller says of an authorization is the record \<open>lifecycle_authorization\<close>.

  \<^bold>\<open>What the lemmas show.\<close>  \<open>Grid_Safety\<close>, \<open>Grid_Shape\<close>, \<open>Grid_Inventory\<close>, \<open>Grid_Total\<close> and
  \<open>Grid_Actions\<close>: what a plan has checked, the shape of the ladder, what its orders can trade,
  that it never panics, and its two directives.  \<open>Reducer_Facts\<close>, \<open>Reducer_Moves\<close>,
  \<open>Reducer_Sequences\<close> and \<open>Reducer_Recovery\<close>: the reducer as a machine over all its operations,
  the fills it has consumed, the keys it gives out and the evidence behind a rebuild.
  \<open>Market_Maker_Limits\<close>: what the sums of a risk check bound, whatever fills.  \<open>Support_Series\<close>:
  what a validated series of bars is and what the values of an indicator over it are.
  \<open>Scalping_Risk_Facts\<close>: the invariant of the risk ledger and what its sums bound.
  \<open>Scalping_Facts\<close>, \<open>Scalping_Machine\<close>: what an admission and a preparation rest on, and the
  strategy as a machine over all its operations, its memory and its attempts.  The
  invariants over any sequence of operations come from the locales of \<open>Contracts\<close>,
  interpreted on the model.

  \<^bold>\<open>Bounds and fuel.\<close>  Nothing uses fuel.  Loops over collections are folds; the only general
  recursions (the UUID parser, stripping white space, printing numbers) have termination
  proofs by a measure.  Whether the exact arithmetic of a theorem applies is a hypothesis on
  the numbers (\<open>on_scale\<close>, \<open>dec_representable\<close>), not an assumption on the decimal type.

  \<^bold>\<open>Not modelled.\<close>  Derived serde encodings, HTTP and Postgres, sockets, files, process
  supervision, user interfaces and the exchange adapters: input, output and generated code
  around the decisions.  Indicators no modelled decision uses, the account runtime and the
  legacy single-process runtime under \<open>src/\<close> are not modelled either; the manifest lists each with its reason.
\<close>

section \<open>From the leader's exposure to the follower's order\<close>

text \<open>
  C13: Capital and sizing compose: an order sized from the exposure plan of a capital snapshot
  moves the follower's managed exposure towards the planned target and never past it, and what
  is left to trade shrinks by exactly the order's notional.
\<close>

theorem copy_order_converges:
  assumes "dec_sign_laws D" and "dec_rem_laws D" and "dec_exact_laws D" and "dec_const_laws D"
    and plan: "reduce_target_exposure_with_multiplier D capital multiplier = Ok exposure"
    and size: "plan_semantic_size D request = Ok order" and "sz_exposure request = exposure"
    and "dec_representable (dec_value D (am_value (tp_target_exposure exposure))
        - dec_value D (am_value (cap_follower_managed_exposure (te_snapshot capital))))"
    and "dec_representable (- dec_value D (am_value (tp_delta_exposure exposure)))"
  shows "let managed = dec_value D (am_value (cap_follower_managed_exposure (te_snapshot capital)));
             target = dec_value D (am_value (tp_target_exposure exposure));
             traded = dec_value D (am_value (sp_normalized_quote_notional order));
             moved = (case sp_side order of Buy \<Rightarrow> managed + traded | Sell \<Rightarrow> managed - traded) in
    0 \<le> traded \<and> \<bar>target - moved\<bar> = \<bar>target - managed\<bar> - traded
    \<and> min managed target \<le> moved \<and> moved \<le> max managed target"
proof -
  let ?delta = "am_value (tp_delta_exposure exposure)"
  have sub: "dec_sub D (am_value (tp_target_exposure exposure))
      (am_value (cap_follower_managed_exposure (te_snapshot capital))) = Some ?delta"
    using plan by (rule reduce_target_exposure_steps)
  note delta = dec_sub_exact [OF assms(3) sub assms(8)]
  show ?thesis using size
  proof (cases rule: plan_semantic_size_steps)
    case (1 managed requested quantity normalized residual)
    note requested = requested_magnitude [OF assms(3,4,9), of requested]
    have traded: "am_value (sp_normalized_quote_notional order) = am_value normalized"
      and side: "sp_side order = (if dec_positive D ?delta then Buy else Sell)"
      by (simp_all add: 1(14) assms(7))
    have "0 \<le> dec_value D (am_value normalized)"
      using metadata_quote_notional_Ok [OF assms(2) 1(11)] assms(1) minimum_notional_nonneg
      by fastforce
    then show ?thesis
      using 1(9,12) requested delta unfolding Let_def traded side assms(7)
      by (auto simp: dec_positive_def)
  qed
qed

theorem copy_order_converges_witness:
  "(0 :: rat) \<le> 90 \<and> \<bar>(90 :: rat) - (0 + 90)\<bar> = \<bar>90 - 0\<bar> - 90"
  using copy_order_converges [of rat_api, OF _ _ _ _ sample_target_computed sample_size_computed]
  by (simp add: Let_def sample_sizing_def sample_size_def sample_target_def sample_capital_def
      dec_representable_def exI [of _ "90 :: int"] exI [of _ "- 90 :: int"] exI [of _ "0 :: nat"])

end
